(* ===== verification/Prelude.thy ===== *)
theory Prelude
  imports Main "HOL-Library.Word"
begin

unbundle bit_operations_syntax

text \<open>
  Shared vocabulary of the development.  It names the machine types of the
  simulator (\<open>reg_t\<close> is \<open>uint64_t\<close>), the two register-field macros of
  \<open>riscv/decode.h\<close>, byte buffers with the two halves of \<open>memcpy\<close>, little-endian
  packing of words, and the lemma collections the component theories use:
  \<open>spike_consts\<close> unfolds the constants of \<open>encoding.h\<close> and its relatives,
  \<open>field_laws\<close> holds the get/set laws of register fields.
\<close>

named_theorems spike_consts "constants of the encoding headers"
named_theorems field_laws "laws of get_field and set_field"

section \<open>Machine types\<close>

type_synonym byte = "8 word"
type_synonym u32 = "32 word"
type_synonym reg_t = "64 word"

abbreviation shl :: "'a::len word \<Rightarrow> nat \<Rightarrow> 'a word" where
  "shl w n \<equiv> push_bit n w"

abbreviation shr :: "'a::len word \<Rightarrow> nat \<Rightarrow> 'a word" where
  "shr w n \<equiv> drop_bit n w"

text \<open>A word used as a C truth value, and a truth value used as a word.\<close>

abbreviation truth :: "'a::len word \<Rightarrow> bool" where
  "truth w \<equiv> w \<noteq> 0"

abbreviation of_bool_word :: "bool \<Rightarrow> 'a::len word" where
  "of_bool_word b \<equiv> (if b then 1 else 0)"

section \<open>Register fields\<close>

text \<open>
  \<open>get_field(reg, mask)\<close> and \<open>set_field(reg, mask, val)\<close>: the macros divide and
  multiply by the mask's lowest set bit, \<open>mask & ~(mask << 1)\<close>.
\<close>

definition get_field :: "'a::len word \<Rightarrow> 'a word \<Rightarrow> 'a word" where
  "get_field reg msk = (reg AND msk) div (msk AND NOT (shl msk 1))"

definition set_field :: "'a::len word \<Rightarrow> 'a word \<Rightarrow> 'a word \<Rightarrow> 'a word" where
  "set_field reg msk val =
     (reg AND NOT msk) OR ((val * (msk AND NOT (shl msk 1))) AND msk)"

text \<open>A contiguous field of \<open>n\<close> bits at position \<open>k\<close>.\<close>

definition field_mask :: "nat \<Rightarrow> nat \<Rightarrow> 'a::len word" where
  "field_mask k n = shl (mask n) k"

lemma bit_field_mask [bit_simps]:
  "bit (field_mask k n :: 'a::len word) i \<longleftrightarrow> k \<le> i \<and> i < k + n \<and> i < LENGTH('a)"
  by (auto simp: field_mask_def bit_simps)

lemma field_mask_lsb:
  assumes "0 < n" "k < LENGTH('a)"
  shows "field_mask k n AND NOT (shl (field_mask k n) 1) = (2 ^ k :: 'a::len word)"
  using assms by (intro bit_word_eqI) (auto simp: bit_simps simp del: push_bit_Suc)

lemma get_field_eq [field_laws]:
  assumes "0 < n" "k + n \<le> LENGTH('a)"
  shows "get_field (r :: 'a::len word) (field_mask k n) = take_bit n (shr r k)"
proof -
  have "field_mask k n AND NOT (shl (field_mask k n) 1) = (2 ^ k :: 'a word)"
    using assms by (intro field_mask_lsb) auto
  then have "get_field r (field_mask k n) = shr (r AND field_mask k n) k"
    by (simp only: get_field_def drop_bit_eq_div)
  also have "\<dots> = take_bit n (shr r k)"
    using assms by (intro bit_word_eqI) (auto simp: bit_simps)
  finally show ?thesis .
qed

lemma set_field_eq [field_laws]:
  assumes "0 < n" "k + n \<le> LENGTH('a)"
  shows "set_field (r :: 'a::len word) (field_mask k n) v
    = (r AND NOT (field_mask k n)) OR (shl v k AND field_mask k n)"
proof -
  have "field_mask k n AND NOT (shl (field_mask k n) 1) = (2 ^ k :: 'a word)"
    using assms by (intro field_mask_lsb) auto
  then show ?thesis by (simp only: set_field_def push_bit_eq_mult)
qed

lemma bit_set_field:
  assumes "0 < n" "k + n \<le> LENGTH('a)"
  shows "bit (set_field (r :: 'a::len word) (field_mask k n) v) i \<longleftrightarrow>
    (if k \<le> i \<and> i < k + n then bit v (i - k) else bit r i)"
  using assms by (auto simp: set_field_eq bit_simps dest: bit_imp_le_length)

lemma get_set_field [field_laws]:
  assumes "0 < n" "k + n \<le> LENGTH('a)"
  shows "get_field (set_field (r :: 'a::len word) (field_mask k n) v) (field_mask k n)
    = take_bit n v"
  using assms by (intro bit_word_eqI) (auto simp: get_field_eq bit_set_field bit_simps)

lemma get_set_field_other [field_laws]:
  assumes "0 < n" "k + n \<le> LENGTH('a)" "0 < n'" "k' + n' \<le> LENGTH('a)"
    and "k + n \<le> k' \<or> k' + n' \<le> k"
  shows "get_field (set_field (r :: 'a::len word) (field_mask k n) v) (field_mask k' n')
    = get_field r (field_mask k' n')"
  using assms by (intro bit_word_eqI) (auto simp: get_field_eq bit_set_field bit_simps)

section \<open>Words and bits\<close>

lemma word_and_zero_bits:
  "(a AND b = 0) \<longleftrightarrow> (\<forall>i < LENGTH('a). \<not> (bit a i \<and> bit b i))" for a b :: "'a::len word"
  by (auto simp: bit_eq_iff bit_simps)

lemma word_all_bits_eqI:
  "(\<And>i. i < LENGTH('a) \<Longrightarrow> bit a i = bit b i) \<Longrightarrow> a = b" for a b :: "'a::len word"
  by (rule bit_word_eqI)

lemma lt_64_cases:
  "i < (64::nat) \<Longrightarrow> i < 8 \<or> (8 \<le> i \<and> i < 16) \<or> (16 \<le> i \<and> i < 24) \<or> (24 \<le> i \<and> i < 32)
    \<or> (32 \<le> i \<and> i < 40) \<or> (40 \<le> i \<and> i < 48) \<or> (48 \<le> i \<and> i < 56) \<or> (56 \<le> i \<and> i < 64)"
  by arith

section \<open>Byte buffers\<close>

text \<open>
  \<open>memcpy\<close> out of a buffer at an offset and into a buffer at an offset.  The code
  calls it only where its bounds check has passed, which the lemmas take as premise.
\<close>

definition copy_from :: "byte list \<Rightarrow> nat \<Rightarrow> nat \<Rightarrow> byte list" where
  "copy_from buf off len = take len (drop off buf)"

definition copy_into :: "byte list \<Rightarrow> nat \<Rightarrow> byte list \<Rightarrow> byte list" where
  "copy_into buf off bs = take off buf @ bs @ drop (off + length bs) buf"

lemma length_copy_from [simp]: "off + len \<le> length buf \<Longrightarrow> length (copy_from buf off len) = len"
  by (simp add: copy_from_def)

lemma length_copy_into [simp]:
  "off + length bs \<le> length buf \<Longrightarrow> length (copy_into buf off bs) = length buf"
  by (simp add: copy_into_def)

lemma copy_from_into [simp]:
  "off + length bs \<le> length buf \<Longrightarrow> copy_from (copy_into buf off bs) off (length bs) = bs"
  by (simp add: copy_from_def copy_into_def)

lemma nth_copy_into:
  assumes "off + length bs \<le> length buf" "i < length buf"
  shows "copy_into buf off bs ! i =
    (if off \<le> i \<and> i < off + length bs then bs ! (i - off) else buf ! i)"
  using assms by (auto simp: copy_into_def nth_append min_def)

lemma nth_copy_from:
  "off + len \<le> length buf \<Longrightarrow> i < len \<Longrightarrow> copy_from buf off len ! i = buf ! (off + i)"
  by (simp add: copy_from_def)

lemma copy_from_into_disjoint:
  assumes "off + length bs \<le> length buf" "off' + len \<le> length buf"
    and "off' + len \<le> off \<or> off + length bs \<le> off'"
  shows "copy_from (copy_into buf off bs) off' len = copy_from buf off' len"
  using assms by (intro nth_equalityI) (auto simp: nth_copy_from nth_copy_into)

section \<open>Little-endian packing\<close>

definition le_bytes :: "nat \<Rightarrow> 'a::len word \<Rightarrow> byte list" where
  "le_bytes n w = map (\<lambda>i. ucast (shr w (8 * i))) [0..<n]"

fun of_le_bytes :: "byte list \<Rightarrow> 'a::len word" where
  "of_le_bytes [] = 0"
| "of_le_bytes (b # bs) = ucast b OR shl (of_le_bytes bs) 8"

lemma length_le_bytes [simp]: "length (le_bytes n w) = n"
  by (simp add: le_bytes_def)

lemma nth_le_bytes [simp]: "i < n \<Longrightarrow> le_bytes n w ! i = ucast (shr w (8 * i))"
  by (simp add: le_bytes_def)

lemma bit_of_le_bytes:
  "bit (of_le_bytes bs :: 'a::len word) i \<longleftrightarrow>
     i < LENGTH('a) \<and> i div 8 < length bs \<and> bit (bs ! (i div 8)) (i mod 8)"
proof (induction bs arbitrary: i)
  case Nil
  then show ?case by simp
next
  case (Cons b bs)
  show ?case
  proof (cases "i < 8")
    case True
    then show ?thesis by (auto simp: bit_simps)
  next
    case False
    then obtain j where j: "i = j + 8" by (metis add.commute le_Suc_ex not_less)
    have "(j + 8) div 8 = Suc (j div 8)" "(j + 8) mod 8 = j mod 8" by simp_all
    then show ?thesis using Cons.IH [of j] j
      by (auto simp: bit_simps dest: bit_imp_le_length simp del: div_add_self2)
  qed
qed

lemma of_le_bytes_inverse:
  "of_le_bytes (le_bytes n w) = (take_bit (8 * n) w :: 'a::len word)"
  by (intro bit_word_eqI) (auto simp: bit_of_le_bytes bit_simps less_mult_imp_div_less)

lemma le_bytes_inverse:
  "length bs = n \<Longrightarrow> 8 * n \<le> LENGTH('a) \<Longrightarrow> le_bytes n (of_le_bytes bs :: 'a::len word) = bs"
  by (intro nth_equalityI bit_word_eqI) (auto simp: bit_of_le_bytes bit_simps)

section \<open>First match in a list\<close>

text \<open>The scan \<open>for (...) if (p(x)) return x\<close> is the library's \<^const>\<open>find\<close>.\<close>

lemma find_append:
  "find p (xs @ ys) = (case find p xs of None \<Rightarrow> find p ys | Some x \<Rightarrow> Some x)"
  by (induction xs) auto

lemma find_None_iff_all: "find p xs = None \<longleftrightarrow> (\<forall>x \<in> set xs. \<not> p x)"
  by (induction xs) auto

lemma find_SomeD: "find p xs = Some x \<Longrightarrow> x \<in> set xs \<and> p x"
  by (induction xs) (auto split: if_splits)

lemma find_cong_set: "(\<And>x. x \<in> set xs \<Longrightarrow> p x = q x) \<Longrightarrow> find p xs = find q xs"
  by (induction xs) auto

section \<open>Stateful lookups\<close>

text \<open>
  Several parts of the simulator answer a query from a cache that the query itself updates.
  \<open>run_lookups\<close> asks a list of queries in order, threading the state; an answer \<open>None\<close> is
  an operation the C++ code leaves undefined.
\<close>

fun run_lookups :: "('s \<Rightarrow> 'k \<Rightarrow> ('v \<times> 's) option) \<Rightarrow> 'k list \<Rightarrow> 's \<Rightarrow> ('v list \<times> 's) option" where
  "run_lookups look [] s = Some ([], s)"
| "run_lookups look (k # ks) s =
     (case look s k of
        None \<Rightarrow> None
      | Some (v, s') \<Rightarrow> map_option (\<lambda>(vs, s''). (v # vs, s'')) (run_lookups look ks s'))"

text \<open>
  The contract of such a part: in a good state every query is answered, the answer satisfies
  the specification of the query alone, and the new state is good.
\<close>

locale stateful_lookup =
  fixes look :: "'s \<Rightarrow> 'k \<Rightarrow> ('v \<times> 's) option"
    and good :: "'s \<Rightarrow> bool"
    and answers :: "'k \<Rightarrow> 'v \<Rightarrow> bool"
  assumes look_good: "good s \<Longrightarrow> \<exists>v s'. look s k = Some (v, s') \<and> answers k v \<and> good s'"
begin

lemma run_good:
  "good s \<Longrightarrow> \<exists>vs s'. run_lookups look ks s = Some (vs, s') \<and> list_all2 answers ks vs \<and> good s'"
proof (induction ks arbitrary: s)
  case (Cons k ks)
  obtain v s' where "look s k = Some (v, s')" "answers k v" "good s'"
    using look_good [OF Cons.prems] by blast
  with Cons.IH [of s'] show ?case by auto
qed simp

lemma last_answer:
  assumes "good s"
  shows "\<exists>vs v s'. run_lookups look (ks @ [k]) s = Some (vs @ [v], s') \<and> answers k v"
proof -
  obtain ws s' where "run_lookups look (ks @ [k]) s = Some (ws, s')" "list_all2 answers (ks @ [k]) ws"
    using run_good [OF assms] by blast
  then show ?thesis by (auto simp: list_all2_append1 list_all2_Cons1)
qed

end

end
