(* ===== verification/Mulhi.thy ===== *)
theory Mulhi
  imports Prelude
begin

text \<open>
  \<open>riscv/mulhi.h\<close>: the high half of a 64 by 64 bit product, computed with 32-bit limbs,
  for the unsigned (\<open>mulhu\<close>), signed (\<open>mulh\<close>) and mixed (\<open>mulhsu\<close>) multiplications.
  Machine arithmetic wraps; the theorems show that the results are the true high halves.
\<close>

text \<open>
  The C variables \<open>a0, a1, b0, b1\<close> are \<open>uint64_t\<close> that hold 32-bit limbs,
  \<open>y1, y2, y3\<close> are \<open>uint32_t\<close>: an assignment to them truncates.
\<close>

definition mulhu :: "reg_t \<Rightarrow> reg_t \<Rightarrow> reg_t" where
  "mulhu a b =
     (let a0 = ucast (ucast a :: u32) :: reg_t; a1 = shr a 32;
          b0 = ucast (ucast b :: u32) :: reg_t; b1 = shr b 32;
          t = a1 * b0 + shr (a0 * b0) 32;
          y1 = ucast t :: u32;
          y2 = ucast (shr t 32) :: u32;
          t = a0 * b1 + ucast y1;
          y1 = ucast t :: u32;
          t = a1 * b1 + ucast y2 + shr t 32;
          y2 = ucast t :: u32;
          y3 = ucast (shr t 32) :: u32
      in shl (ucast y3) 32 OR ucast y2)"

definition mulh :: "reg_t \<Rightarrow> reg_t \<Rightarrow> reg_t" where
  "mulh a b =
     (let negate = ((a <s 0) \<noteq> (b <s 0));
          res = mulhu (if a <s 0 then - a else a) (if b <s 0 then - b else b)
      in if negate then NOT res + of_bool_word (a * b = 0) else res)"

definition mulhsu :: "reg_t \<Rightarrow> reg_t \<Rightarrow> reg_t" where
  "mulhsu a b =
     (let negate = (a <s 0);
          res = mulhu (if a <s 0 then - a else a) b
      in if negate then NOT res + of_bool_word (a * b = 0) else res)"

section \<open>Limb arithmetic on natural numbers\<close>

lemma limb_product_high:
  fixes a0 a1 b0 b1 :: nat
  assumes "a0 < 2 ^ 32" "b0 < 2 ^ 32"
  defines "t \<equiv> a1 * b0 + a0 * b0 div 2 ^ 32"
  defines "u \<equiv> a0 * b1 + t mod 2 ^ 32"
  shows "((a1 * 2 ^ 32 + a0) * (b1 * 2 ^ 32 + b0)) div 2 ^ 64
    = a1 * b1 + t div 2 ^ 32 + u div 2 ^ 32"
proof -
  have "(a1 * 2 ^ 32 + a0) * (b1 * 2 ^ 32 + b0)
      = a1 * b1 * 2 ^ 64 + (a1 * b0 + a0 * b1) * 2 ^ 32 + a0 * b0"
    by (simp add: algebra_simps)
  also have "\<dots> div 2 ^ 32 = a1 * b1 * 2 ^ 32 + a1 * b0 + a0 * b1 + a0 * b0 div 2 ^ 32"
  proof -
    have "a1 * b1 * 2 ^ 64 + (a1 * b0 + a0 * b1) * 2 ^ 32 + a0 * b0
        = (a1 * b1 * 2 ^ 32 + a1 * b0 + a0 * b1) * 2 ^ 32 + a0 * b0"
      by (simp add: algebra_simps)
    then show ?thesis by simp
  qed
  finally have low: "(a1 * 2 ^ 32 + a0) * (b1 * 2 ^ 32 + b0) div 2 ^ 32
      = a1 * b1 * 2 ^ 32 + (a0 * b1 + t)" by (simp add: t_def)
  have "t = t div 2 ^ 32 * 2 ^ 32 + t mod 2 ^ 32" by simp
  then have "a0 * b1 + t = t div 2 ^ 32 * 2 ^ 32 + u" by (simp add: u_def)
  then have "(a1 * b1 * 2 ^ 32 + (a0 * b1 + t)) div 2 ^ 32
      = (u + (a1 * b1 + t div 2 ^ 32) * 2 ^ 32) div 2 ^ 32" by (simp add: algebra_simps)
  also have "\<dots> = a1 * b1 + t div 2 ^ 32 + u div 2 ^ 32"
    by (subst div_mult_self1) simp_all
  finally have "(a1 * 2 ^ 32 + a0) * (b1 * 2 ^ 32 + b0) div 2 ^ 32 div 2 ^ 32
      = a1 * b1 + t div 2 ^ 32 + u div 2 ^ 32" using low by simp
  then show ?thesis by (simp add: div_mult2_eq [symmetric])
qed

lemma limb_bounds:
  fixes a0 a1 b0 b1 :: nat
  assumes "a0 < 2 ^ 32" "b0 < 2 ^ 32" "a1 < 2 ^ 32" "b1 < 2 ^ 32"
  shows "a1 * b0 + a0 * b0 div 2 ^ 32 < 2 ^ 64" "a0 * b0 < 2 ^ 64"
    and "y < 2 ^ 32 \<Longrightarrow> a0 * b1 + y < 2 ^ 64"
proof -
  have sq: "x * y \<le> (2 ^ 32 - 1) * (2 ^ 32 - 1)" if "x < 2 ^ 32" "y < 2 ^ 32" for x y :: nat
    using that by (intro mult_le_mono) auto
  have d: "a0 * b0 div 2 ^ 32 < 2 ^ 32"
    using sq [OF assms(1,2)] by (simp add: less_mult_imp_div_less)
  show "a1 * b0 + a0 * b0 div 2 ^ 32 < 2 ^ 64" "a0 * b0 < 2 ^ 64"
    and "y < 2 ^ 32 \<Longrightarrow> a0 * b1 + y < 2 ^ 64"
    using sq [OF assms(3,2)] sq [OF assms(1,2)] sq [OF assms(1,4)] d by simp_all
qed


section \<open>The unsigned product\<close>

lemma unat_bound: "unat (a :: reg_t) < 2 ^ 64"
  using unsigned_less [of a] by simp

lemma unat_shr: "unat (shr x n) = unat x div 2 ^ n" for x :: reg_t
  by (subst unat_drop_bit_eq) (simp only: drop_bit_eq_div)

lemma unat_ucast_u32: "unat (ucast (ucast (a :: reg_t) :: u32) :: reg_t) = unat a mod 2 ^ 32"
  by (simp add: unsigned_ucast_eq unsigned_take_bit_eq) (simp add: take_bit_eq_mod)

lemma unat_limbs: "unat a = unat (shr a 32) * 2 ^ 32 + unat (ucast (ucast a :: u32) :: reg_t)"
  for a :: reg_t
  by (simp only: unat_ucast_u32 unat_shr div_mult_mod_eq)

lemma unat_high_limb: "unat (shr a 32) < 2 ^ 32" for a :: reg_t
  using unat_bound [of a] by (simp only: unat_shr) (simp add: less_mult_imp_div_less)

lemma unat_low_limb: "unat (ucast (ucast a :: u32) :: reg_t) < 2 ^ 32" for a :: reg_t
  by (simp only: unat_ucast_u32) simp

lemma join_limbs:
  "shl (ucast (ucast (shr (t :: reg_t) 32) :: u32)) 32 OR ucast (ucast t :: u32) = t"
  by (intro bit_word_eqI) (auto simp: bit_simps dest: bit_imp_le_length)

lemma unat_plus_mod: "unat (x + y) = (unat x + unat y) mod 2 ^ 64" for x y :: reg_t
  by (simp add: unat_word_ariths)

lemma unat_mult_mod: "unat (x * y) = unat x * unat y mod 2 ^ 64" for x y :: reg_t
  by (simp add: unat_word_ariths)

lemma unat_mulhu: "unat (mulhu a b) = unat a * unat b div 2 ^ 64"
proof -
  define a0 where "a0 = unat (ucast (ucast a :: u32) :: reg_t)"
  define a1 where "a1 = unat (shr a 32)"
  define b0 where "b0 = unat (ucast (ucast b :: u32) :: reg_t)"
  define b1 where "b1 = unat (shr b 32)"
  note defs = a0_def a1_def b0_def b1_def
  define t where "t = a1 * b0 + a0 * b0 div 2 ^ 32"
  define u where "u = a0 * b1 + t mod 2 ^ 32"
  note lim = unat_low_limb unat_high_limb
  have bnd: "a0 < 2 ^ 32" "b0 < 2 ^ 32" "a1 < 2 ^ 32" "b1 < 2 ^ 32"
    using lim by (simp_all add: defs)
  have small: "t < 2 ^ 64" "a0 * b0 < 2 ^ 64" "u < 2 ^ 64"
    using limb_bounds [OF bnd] by (simp_all add: t_def u_def)
  have ab: "unat a * unat b = (a1 * 2 ^ 32 + a0) * (b1 * 2 ^ 32 + b0)"
    by (simp only: defs unat_limbs [symmetric])
  have high: "unat a * unat b div 2 ^ 64 = a1 * b1 + t div 2 ^ 32 + u div 2 ^ 32"
    unfolding ab t_def u_def by (rule limb_product_high [OF bnd(1,2)])
  have lt: "unat a * unat b div 2 ^ 64 < 2 ^ 64"
  proof -
    have "unat a * unat b < 2 ^ 64 * 2 ^ 64"
      using unat_bound [of a] unat_bound [of b] by (intro mult_strict_mono) simp_all
    then show ?thesis by (simp only: less_mult_imp_div_less)
  qed
  let ?t = "shr a 32 * ucast (ucast b :: u32)
    + shr (ucast (ucast a :: u32) * ucast (ucast b :: u32)) 32 :: reg_t"
  have "unat ?t = (a1 * b0 mod 2 ^ 64 + a0 * b0 mod 2 ^ 64 div 2 ^ 32) mod 2 ^ 64"
    by (simp only: unat_plus_mod unat_mult_mod unat_shr defs)
  moreover have "a1 * b0 < 2 ^ 64" using small(1) unfolding t_def by linarith
  ultimately have T: "unat ?t = t"
    using small(1,2) by (simp only: mod_less t_def)
  let ?u = "ucast (ucast a :: u32) * shr b 32 + ucast (ucast ?t :: u32) :: reg_t"
  have "unat ?u = (a0 * b1 mod 2 ^ 64 + t mod 2 ^ 32) mod 2 ^ 64"
    by (subst unat_plus_mod, subst unat_mult_mod, subst (2) unat_ucast_u32, subst T) (simp only: defs)
  moreover have "a0 * b1 < 2 ^ 64" using small(3) unfolding u_def by linarith
  ultimately have U: "unat ?u = u"
    using small(3) by (simp only: mod_less u_def)
  obtain tw uw where tw: "tw = ?t" "unat tw = t" and uw: "uw = ?u" "unat uw = u"
    using T U by blast
  have "mulhu a b = shr a 32 * shr b 32 + ucast (ucast (shr tw 32) :: u32) + shr uw 32"
    by (simp only: mulhu_def Let_def join_limbs tw(1) uw(1))
  moreover have "t div 2 ^ 32 < 2 ^ 32" using small(1) by (simp add: less_mult_imp_div_less)
  ultimately have "unat (mulhu a b) =
      ((a1 * b1 mod 2 ^ 64 + t div 2 ^ 32) mod 2 ^ 64 + u div 2 ^ 32) mod 2 ^ 64"
    by (simp only: unat_plus_mod unat_mult_mod unat_ucast_u32 unat_shr tw(2) uw(2) mod_less
        a1_def b1_def)
  also have "\<dots> = (a1 * b1 + t div 2 ^ 32 + u div 2 ^ 32) mod 2 ^ 64"
    by (simp only: mod_simps)
  also have "\<dots> = unat a * unat b div 2 ^ 64"
    using lt by (simp only: high mod_less)
  finally show ?thesis .
qed

section \<open>The signed and mixed products\<close>

lemma sint_range: "- (2 ^ 63) \<le> sint a" "sint a < 2 ^ 63" for a :: reg_t
  using sint_greater_eq [of a] sint_less [of a] by simp_all

lemma uint_of_int_small: "0 \<le> k \<Longrightarrow> k < 2 ^ 64 \<Longrightarrow> uint (word_of_int k :: reg_t) = k"
  by (simp add: unsigned_of_int take_bit_int_eq_self)

lemma sint_of_int_small: "- (2 ^ 63) \<le> k \<Longrightarrow> k < 2 ^ 63 \<Longrightarrow> sint (word_of_int k :: reg_t) = k"
  by (simp add: sint_sbintrunc' signed_take_bit_int_eq_self)

lemma uint_magnitude: "uint (if a <s 0 then - a else a) = \<bar>sint a\<bar>" for a :: reg_t
proof -
  have "(if a <s 0 then - a else a) = (word_of_int \<bar>sint a\<bar> :: reg_t)"
    by (simp add: word_sless_alt)
  then show ?thesis
    using sint_range [of a] by (simp only: uint_of_int_small) (simp add: uint_of_int_small)
qed

lemma uint_mulhu: "uint (mulhu a b) = uint a * uint b div 2 ^ 64"
  using unat_mulhu [of a b] by (simp add: uint_nat zdiv_int del: of_nat_unat)

lemma word_zero_iff_mod: "(word_of_int k = (0 :: reg_t)) \<longleftrightarrow> k mod 2 ^ 64 = 0"
  by (simp add: word_of_int_eq_0_iff take_bit_eq_mod mod_eq_0_iff_dvd)

lemma neg_div_high:
  "0 < M \<Longrightarrow> (- P) div M = - (P div M) - (if P mod M = 0 then 0 else 1)" for P M :: int
  by (simp add: zdiv_zminus1_eq_if)

lemma div_high_bound: "0 \<le> P \<Longrightarrow> P < 2 ^ 127 \<Longrightarrow> P div 2 ^ 64 < (2 ^ 63 :: int)"
  by simp

text \<open>The complement trick: the high half of \<open>- P\<close> from the high half of \<open>P\<close>.\<close>

lemma sint_negated_high:
  fixes res low :: reg_t and P :: int
  assumes res: "uint res = P div 2 ^ 64" and P: "0 \<le> P" "P < 2 ^ 127"
    and low: "low = 0 \<longleftrightarrow> P mod 2 ^ 64 = 0"
  shows "sint (NOT res + of_bool_word (low = 0)) = (- P) div 2 ^ 64"
proof -
  have hi: "P div 2 ^ 64 < 2 ^ 63" using P by (intro div_high_bound)
  have eq: "res = word_of_int (P div 2 ^ 64)" by (simp only: res [symmetric]) simp
  define k where "k = - (P div 2 ^ 64) - (if P mod 2 ^ 64 = 0 then 0 else 1)"
  have "NOT res + of_bool_word (low = 0) = word_of_int k"
    unfolding eq low k_def by (simp add: not_eq_complement)
  moreover have "0 \<le> P div 2 ^ 64" using P(1) by simp
  then have "sint (word_of_int k :: reg_t) = k"
    using hi unfolding k_def by (intro sint_of_int_small) auto
  moreover have "(- P) div 2 ^ 64 = k" unfolding k_def by (rule neg_div_high) simp
  ultimately show ?thesis by (simp only:)
qed

lemma sint_plain_high:
  fixes res :: reg_t and P :: int
  assumes res: "uint res = P div 2 ^ 64" and P: "0 \<le> P" "P < 2 ^ 127"
  shows "sint res = P div 2 ^ 64"
proof -
  have "res = word_of_int (P div 2 ^ 64)" by (simp only: res [symmetric]) simp
  moreover have "P div 2 ^ 64 < 2 ^ 63" using P by (intro div_high_bound)
  ultimately show ?thesis
    using P by (simp add: sint_of_int_small pos_imp_zdiv_nonneg_iff)
qed

lemma abs_product_bound:
  "\<bar>x\<bar> \<le> 2 ^ 63 \<Longrightarrow> \<bar>y\<bar> < 2 ^ 64 \<Longrightarrow> \<bar>x\<bar> * \<bar>y\<bar> < (2 ^ 127 :: int)"
  using mult_le_less_imp_less [of "\<bar>x\<bar>" "2 ^ 63" "\<bar>y\<bar>" "2 ^ 64"]
  by (cases "x = 0") auto

lemma low_zero_iff: "a * b = (0 :: reg_t) \<longleftrightarrow> (\<bar>k\<bar> * \<bar>l\<bar>) mod 2 ^ 64 = 0"
  if "a = word_of_int k" "b = word_of_int l"
proof -
  have "a * b = 0 \<longleftrightarrow> (word_of_int (k * l) :: reg_t) = 0" using that by simp
  also have "\<dots> \<longleftrightarrow> 2 ^ 64 dvd k * l" by (simp only: word_zero_iff_mod mod_eq_0_iff_dvd)
  also have "\<dots> \<longleftrightarrow> 2 ^ 64 dvd \<bar>k\<bar> * \<bar>l\<bar>" by (simp only: abs_mult [symmetric] dvd_abs_iff)
  finally show ?thesis by (simp only: mod_eq_0_iff_dvd)
qed

text \<open>
  \<open>mulh\<close> returns the high 64 bits of the signed 128-bit product.
\<close>

theorem mulh_correct: "sint (mulh a b) = sint a * sint b div 2 ^ 64"
proof -
  let ?P = "\<bar>sint a\<bar> * \<bar>sint b\<bar>"
  let ?r = "mulhu (if a <s 0 then - a else a) (if b <s 0 then - b else b)"
  have res: "uint ?r = ?P div 2 ^ 64" by (simp only: uint_mulhu uint_magnitude)
  have "\<bar>sint a\<bar> \<le> 2 ^ 63" "\<bar>sint b\<bar> < 2 ^ 64" using sint_range [of a] sint_range [of b] by auto
  then have P: "0 \<le> ?P" "?P < 2 ^ 127" using abs_product_bound by auto
  have low: "a * b = 0 \<longleftrightarrow> ?P mod 2 ^ 64 = 0" by (rule low_zero_iff) simp_all
  show ?thesis
  proof (cases "(a <s 0) = (b <s 0)")
    case True
    then have "sint a * sint b = ?P"
      by (auto simp: word_sless_alt abs_if mult_nonneg_nonneg)
    with True sint_plain_high [OF res P] show ?thesis by (simp add: mulh_def Let_def)
  next
    case False
    then have "sint a * sint b = - ?P" by (auto simp: word_sless_alt abs_if)
    with False sint_negated_high [OF res P low] show ?thesis by (simp add: mulh_def Let_def)
  qed
qed

text \<open>
  \<open>mulhsu\<close> returns the high 64 bits of the product of a signed and an unsigned word.
\<close>

theorem mulhsu_correct: "sint (mulhsu a b) = sint a * uint b div 2 ^ 64"
proof -
  let ?P = "\<bar>sint a\<bar> * \<bar>uint b\<bar>"
  let ?r = "mulhu (if a <s 0 then - a else a) b"
  have res: "uint ?r = ?P div 2 ^ 64" by (simp only: uint_mulhu uint_magnitude) simp
  have "\<bar>sint a\<bar> \<le> 2 ^ 63" "\<bar>uint b\<bar> < 2 ^ 64"
    using sint_range [of a] unsigned_less [of b] by auto
  then have P: "0 \<le> ?P" "?P < 2 ^ 127" by (simp, rule abs_product_bound)
  have low: "a * b = 0 \<longleftrightarrow> ?P mod 2 ^ 64 = 0" by (rule low_zero_iff) simp_all
  show ?thesis
  proof (cases "a <s 0")
    case False
    then have "0 \<le> sint a" by (simp add: word_sless_alt)
    with False sint_plain_high [OF res P] show ?thesis by (simp add: mulhsu_def Let_def)
  next
    case True
    then have "sint a * uint b = - ?P" by (simp add: word_sless_alt)
    with True sint_negated_high [OF res P low] show ?thesis by (simp add: mulhsu_def Let_def)
  qed
qed

text \<open>
  C37. The three high products are right: \<open>mulhu\<close>, \<open>mulh\<close> and \<open>mulhsu\<close>, computed from 32-bit halves,
  are the high 64 bits of the unsigned, the signed, and the signed by unsigned 128-bit product.
\<close>

theorem high_products_correct:
  "uint (mulhu a b) = uint a * uint b div 2 ^ 64 \<and> sint (mulh a b) = sint a * sint b div 2 ^ 64 \<and>
   sint (mulhsu a b) = sint a * uint b div 2 ^ 64"
  by (simp only: uint_mulhu mulh_correct mulhsu_correct simp_thms)

end
