(* ===== verification/Encoding.thy ===== *)
theory Encoding
  imports Prelude
begin

text \<open>
  The constants of \<open>riscv/encoding.h\<close> that the simulator's code uses: status and
  interrupt bits, debug and trigger register fields, privilege levels, address translation
  modes, page table entry bits, trap causes and CSR numbers.  Register masks are 64-bit
  words, bit positions and CSR numbers are natural numbers.  All unfold with \<open>spike_consts\<close>.
\<close>

definition IRQ_S_SOFT :: nat where [spike_consts]: "IRQ_S_SOFT = 1"
definition IRQ_H_SOFT :: nat where [spike_consts]: "IRQ_H_SOFT = 2"
definition IRQ_M_SOFT :: nat where [spike_consts]: "IRQ_M_SOFT = 3"
definition IRQ_S_TIMER :: nat where [spike_consts]: "IRQ_S_TIMER = 5"
definition IRQ_H_TIMER :: nat where [spike_consts]: "IRQ_H_TIMER = 6"
definition IRQ_M_TIMER :: nat where [spike_consts]: "IRQ_M_TIMER = 7"
definition IRQ_S_EXT :: nat where [spike_consts]: "IRQ_S_EXT = 9"
definition IRQ_H_EXT :: nat where [spike_consts]: "IRQ_H_EXT = 10"
definition IRQ_M_EXT :: nat where [spike_consts]: "IRQ_M_EXT = 11"
definition IRQ_COP :: nat where [spike_consts]: "IRQ_COP = 12"
definition IRQ_HOST :: nat where [spike_consts]: "IRQ_HOST = 13"
definition MIP_SSIP :: reg_t where [spike_consts]: "MIP_SSIP = shl 1 IRQ_S_SOFT"
definition MIP_HSIP :: reg_t where [spike_consts]: "MIP_HSIP = shl 1 IRQ_H_SOFT"
definition MIP_MSIP :: reg_t where [spike_consts]: "MIP_MSIP = shl 1 IRQ_M_SOFT"
definition MIP_STIP :: reg_t where [spike_consts]: "MIP_STIP = shl 1 IRQ_S_TIMER"
definition MIP_HTIP :: reg_t where [spike_consts]: "MIP_HTIP = shl 1 IRQ_H_TIMER"
definition MIP_MTIP :: reg_t where [spike_consts]: "MIP_MTIP = shl 1 IRQ_M_TIMER"
definition MIP_SEIP :: reg_t where [spike_consts]: "MIP_SEIP = shl 1 IRQ_S_EXT"
definition MIP_HEIP :: reg_t where [spike_consts]: "MIP_HEIP = shl 1 IRQ_H_EXT"
definition MIP_MEIP :: reg_t where [spike_consts]: "MIP_MEIP = shl 1 IRQ_M_EXT"
definition MSTATUS_UIE :: reg_t where [spike_consts]: "MSTATUS_UIE = 0x00000001"
definition MSTATUS_SIE :: reg_t where [spike_consts]: "MSTATUS_SIE = 0x00000002"
definition MSTATUS_HIE :: reg_t where [spike_consts]: "MSTATUS_HIE = 0x00000004"
definition MSTATUS_MIE :: reg_t where [spike_consts]: "MSTATUS_MIE = 0x00000008"
definition MSTATUS_UPIE :: reg_t where [spike_consts]: "MSTATUS_UPIE = 0x00000010"
definition MSTATUS_SPIE :: reg_t where [spike_consts]: "MSTATUS_SPIE = 0x00000020"
definition MSTATUS_HPIE :: reg_t where [spike_consts]: "MSTATUS_HPIE = 0x00000040"
definition MSTATUS_MPIE :: reg_t where [spike_consts]: "MSTATUS_MPIE = 0x00000080"
definition MSTATUS_SPP :: reg_t where [spike_consts]: "MSTATUS_SPP = 0x00000100"
definition MSTATUS_HPP :: reg_t where [spike_consts]: "MSTATUS_HPP = 0x00000600"
definition MSTATUS_MPP :: reg_t where [spike_consts]: "MSTATUS_MPP = 0x00001800"
definition MSTATUS_FS :: reg_t where [spike_consts]: "MSTATUS_FS = 0x00006000"
definition MSTATUS_XS :: reg_t where [spike_consts]: "MSTATUS_XS = 0x00018000"
definition MSTATUS_MPRV :: reg_t where [spike_consts]: "MSTATUS_MPRV = 0x00020000"
definition MSTATUS_SUM :: reg_t where [spike_consts]: "MSTATUS_SUM = 0x00040000"
definition MSTATUS_MXR :: reg_t where [spike_consts]: "MSTATUS_MXR = 0x00080000"
definition MSTATUS_TVM :: reg_t where [spike_consts]: "MSTATUS_TVM = 0x00100000"
definition MSTATUS_TW :: reg_t where [spike_consts]: "MSTATUS_TW = 0x00200000"
definition MSTATUS_TSR :: reg_t where [spike_consts]: "MSTATUS_TSR = 0x00400000"
definition MSTATUS32_SD :: reg_t where [spike_consts]: "MSTATUS32_SD = 0x80000000"
definition MSTATUS_UXL :: reg_t where [spike_consts]: "MSTATUS_UXL = 0x0000000300000000"
definition MSTATUS_SXL :: reg_t where [spike_consts]: "MSTATUS_SXL = 0x0000000C00000000"
definition MSTATUS64_SD :: reg_t where [spike_consts]: "MSTATUS64_SD = 0x8000000000000000"
definition SSTATUS_UIE :: reg_t where [spike_consts]: "SSTATUS_UIE = 0x00000001"
definition SSTATUS_SIE :: reg_t where [spike_consts]: "SSTATUS_SIE = 0x00000002"
definition SSTATUS_UPIE :: reg_t where [spike_consts]: "SSTATUS_UPIE = 0x00000010"
definition SSTATUS_SPIE :: reg_t where [spike_consts]: "SSTATUS_SPIE = 0x00000020"
definition SSTATUS_SPP :: reg_t where [spike_consts]: "SSTATUS_SPP = 0x00000100"
definition SSTATUS_FS :: reg_t where [spike_consts]: "SSTATUS_FS = 0x00006000"
definition SSTATUS_XS :: reg_t where [spike_consts]: "SSTATUS_XS = 0x00018000"
definition SSTATUS_SUM :: reg_t where [spike_consts]: "SSTATUS_SUM = 0x00040000"
definition SSTATUS_MXR :: reg_t where [spike_consts]: "SSTATUS_MXR = 0x00080000"
definition SSTATUS32_SD :: reg_t where [spike_consts]: "SSTATUS32_SD = 0x80000000"
definition SSTATUS_UXL :: reg_t where [spike_consts]: "SSTATUS_UXL = 0x0000000300000000"
definition SSTATUS64_SD :: reg_t where [spike_consts]: "SSTATUS64_SD = 0x8000000000000000"
definition DCSR_XDEBUGVER :: reg_t where [spike_consts]: "DCSR_XDEBUGVER = shl 3 30"
definition DCSR_NDRESET :: reg_t where [spike_consts]: "DCSR_NDRESET = shl 1 29"
definition DCSR_FULLRESET :: reg_t where [spike_consts]: "DCSR_FULLRESET = shl 1 28"
definition DCSR_EBREAKM :: reg_t where [spike_consts]: "DCSR_EBREAKM = shl 1 15"
definition DCSR_EBREAKH :: reg_t where [spike_consts]: "DCSR_EBREAKH = shl 1 14"
definition DCSR_EBREAKS :: reg_t where [spike_consts]: "DCSR_EBREAKS = shl 1 13"
definition DCSR_EBREAKU :: reg_t where [spike_consts]: "DCSR_EBREAKU = shl 1 12"
definition DCSR_STOPCYCLE :: reg_t where [spike_consts]: "DCSR_STOPCYCLE = shl 1 10"
definition DCSR_STOPTIME :: reg_t where [spike_consts]: "DCSR_STOPTIME = shl 1 9"
definition DCSR_CAUSE :: reg_t where [spike_consts]: "DCSR_CAUSE = shl 7 6"
definition DCSR_DEBUGINT :: reg_t where [spike_consts]: "DCSR_DEBUGINT = shl 1 5"
definition DCSR_HALT :: reg_t where [spike_consts]: "DCSR_HALT = shl 1 3"
definition DCSR_STEP :: reg_t where [spike_consts]: "DCSR_STEP = shl 1 2"
definition DCSR_PRV :: reg_t where [spike_consts]: "DCSR_PRV = shl 3 0"
definition DCSR_CAUSE_NONE :: byte where [spike_consts]: "DCSR_CAUSE_NONE = 0"
definition DCSR_CAUSE_SWBP :: byte where [spike_consts]: "DCSR_CAUSE_SWBP = 1"
definition DCSR_CAUSE_HWBP :: byte where [spike_consts]: "DCSR_CAUSE_HWBP = 2"
definition DCSR_CAUSE_DEBUGINT :: byte where [spike_consts]: "DCSR_CAUSE_DEBUGINT = 3"
definition DCSR_CAUSE_STEP :: byte where [spike_consts]: "DCSR_CAUSE_STEP = 4"
definition DCSR_CAUSE_HALT :: byte where [spike_consts]: "DCSR_CAUSE_HALT = 5"
definition MCONTROL_SELECT :: reg_t where [spike_consts]: "MCONTROL_SELECT = shl 1 19"
definition MCONTROL_TIMING :: reg_t where [spike_consts]: "MCONTROL_TIMING = shl 1 18"
definition MCONTROL_ACTION :: reg_t where [spike_consts]: "MCONTROL_ACTION = shl 0x3f 12"
definition MCONTROL_CHAIN :: reg_t where [spike_consts]: "MCONTROL_CHAIN = shl 1 11"
definition MCONTROL_MATCH :: reg_t where [spike_consts]: "MCONTROL_MATCH = shl 0xf 7"
definition MCONTROL_M :: reg_t where [spike_consts]: "MCONTROL_M = shl 1 6"
definition MCONTROL_H :: reg_t where [spike_consts]: "MCONTROL_H = shl 1 5"
definition MCONTROL_S :: reg_t where [spike_consts]: "MCONTROL_S = shl 1 4"
definition MCONTROL_U :: reg_t where [spike_consts]: "MCONTROL_U = shl 1 3"
definition MCONTROL_EXECUTE :: reg_t where [spike_consts]: "MCONTROL_EXECUTE = shl 1 2"
definition MCONTROL_STORE :: reg_t where [spike_consts]: "MCONTROL_STORE = shl 1 1"
definition MCONTROL_LOAD :: reg_t where [spike_consts]: "MCONTROL_LOAD = shl 1 0"
definition MCONTROL_TYPE_NONE :: reg_t where [spike_consts]: "MCONTROL_TYPE_NONE = 0"
definition MCONTROL_TYPE_MATCH :: reg_t where [spike_consts]: "MCONTROL_TYPE_MATCH = 2"
definition MCONTROL_ACTION_DEBUG_EXCEPTION :: reg_t where [spike_consts]: "MCONTROL_ACTION_DEBUG_EXCEPTION = 0"
definition MCONTROL_ACTION_DEBUG_MODE :: reg_t where [spike_consts]: "MCONTROL_ACTION_DEBUG_MODE = 1"
definition MCONTROL_ACTION_TRACE_START :: reg_t where [spike_consts]: "MCONTROL_ACTION_TRACE_START = 2"
definition MCONTROL_ACTION_TRACE_STOP :: reg_t where [spike_consts]: "MCONTROL_ACTION_TRACE_STOP = 3"
definition MCONTROL_ACTION_TRACE_EMIT :: reg_t where [spike_consts]: "MCONTROL_ACTION_TRACE_EMIT = 4"
definition MCONTROL_MATCH_EQUAL :: reg_t where [spike_consts]: "MCONTROL_MATCH_EQUAL = 0"
definition MCONTROL_MATCH_NAPOT :: reg_t where [spike_consts]: "MCONTROL_MATCH_NAPOT = 1"
definition MCONTROL_MATCH_GE :: reg_t where [spike_consts]: "MCONTROL_MATCH_GE = 2"
definition MCONTROL_MATCH_LT :: reg_t where [spike_consts]: "MCONTROL_MATCH_LT = 3"
definition MCONTROL_MATCH_MASK_LOW :: reg_t where [spike_consts]: "MCONTROL_MATCH_MASK_LOW = 4"
definition MCONTROL_MATCH_MASK_HIGH :: reg_t where [spike_consts]: "MCONTROL_MATCH_MASK_HIGH = 5"
definition SIP_SSIP :: reg_t where [spike_consts]: "SIP_SSIP = MIP_SSIP"
definition SIP_STIP :: reg_t where [spike_consts]: "SIP_STIP = MIP_STIP"
definition PRV_U :: reg_t where [spike_consts]: "PRV_U = 0"
definition PRV_S :: reg_t where [spike_consts]: "PRV_S = 1"
definition PRV_H :: reg_t where [spike_consts]: "PRV_H = 2"
definition PRV_M :: reg_t where [spike_consts]: "PRV_M = 3"
definition SATP32_MODE :: reg_t where [spike_consts]: "SATP32_MODE = 0x80000000"
definition SATP32_ASID :: reg_t where [spike_consts]: "SATP32_ASID = 0x7FC00000"
definition SATP32_PPN :: reg_t where [spike_consts]: "SATP32_PPN = 0x003FFFFF"
definition SATP64_MODE :: reg_t where [spike_consts]: "SATP64_MODE = 0xF000000000000000"
definition SATP64_ASID :: reg_t where [spike_consts]: "SATP64_ASID = 0x0FFFF00000000000"
definition SATP64_PPN :: reg_t where [spike_consts]: "SATP64_PPN = 0x00000FFFFFFFFFFF"
definition SATP_MODE_OFF :: reg_t where [spike_consts]: "SATP_MODE_OFF = 0"
definition SATP_MODE_SV32 :: reg_t where [spike_consts]: "SATP_MODE_SV32 = 1"
definition SATP_MODE_SV39 :: reg_t where [spike_consts]: "SATP_MODE_SV39 = 8"
definition SATP_MODE_SV48 :: reg_t where [spike_consts]: "SATP_MODE_SV48 = 9"
definition SATP_MODE_SV57 :: reg_t where [spike_consts]: "SATP_MODE_SV57 = 10"
definition SATP_MODE_SV64 :: reg_t where [spike_consts]: "SATP_MODE_SV64 = 11"
definition DEFAULT_RSTVEC :: reg_t where [spike_consts]: "DEFAULT_RSTVEC = 0x00001000"
definition CLINT_BASE :: reg_t where [spike_consts]: "CLINT_BASE = 0x02000000"
definition CLINT_SIZE :: reg_t where [spike_consts]: "CLINT_SIZE = 0x000c0000"
definition EXT_IO_BASE :: reg_t where [spike_consts]: "EXT_IO_BASE = 0x40000000"
definition DRAM_BASE :: reg_t where [spike_consts]: "DRAM_BASE = 0x80000000"
definition PTE_V :: reg_t where [spike_consts]: "PTE_V = 0x001"
definition PTE_R :: reg_t where [spike_consts]: "PTE_R = 0x002"
definition PTE_W :: reg_t where [spike_consts]: "PTE_W = 0x004"
definition PTE_X :: reg_t where [spike_consts]: "PTE_X = 0x008"
definition PTE_U :: reg_t where [spike_consts]: "PTE_U = 0x010"
definition PTE_G :: reg_t where [spike_consts]: "PTE_G = 0x020"
definition PTE_A :: reg_t where [spike_consts]: "PTE_A = 0x040"
definition PTE_D :: reg_t where [spike_consts]: "PTE_D = 0x080"
definition PTE_SOFT :: reg_t where [spike_consts]: "PTE_SOFT = 0x300"
definition PTE_PPN_SHIFT :: nat where [spike_consts]: "PTE_PPN_SHIFT = 10"
definition CAUSE_MISALIGNED_FETCH :: reg_t where [spike_consts]: "CAUSE_MISALIGNED_FETCH = 0x0"
definition CAUSE_FETCH_ACCESS :: reg_t where [spike_consts]: "CAUSE_FETCH_ACCESS = 0x1"
definition CAUSE_ILLEGAL_INSTRUCTION :: reg_t where [spike_consts]: "CAUSE_ILLEGAL_INSTRUCTION = 0x2"
definition CAUSE_BREAKPOINT :: reg_t where [spike_consts]: "CAUSE_BREAKPOINT = 0x3"
definition CAUSE_MISALIGNED_LOAD :: reg_t where [spike_consts]: "CAUSE_MISALIGNED_LOAD = 0x4"
definition CAUSE_LOAD_ACCESS :: reg_t where [spike_consts]: "CAUSE_LOAD_ACCESS = 0x5"
definition CAUSE_MISALIGNED_STORE :: reg_t where [spike_consts]: "CAUSE_MISALIGNED_STORE = 0x6"
definition CAUSE_STORE_ACCESS :: reg_t where [spike_consts]: "CAUSE_STORE_ACCESS = 0x7"
definition CAUSE_USER_ECALL :: reg_t where [spike_consts]: "CAUSE_USER_ECALL = 0x8"
definition CAUSE_SUPERVISOR_ECALL :: reg_t where [spike_consts]: "CAUSE_SUPERVISOR_ECALL = 0x9"
definition CAUSE_HYPERVISOR_ECALL :: reg_t where [spike_consts]: "CAUSE_HYPERVISOR_ECALL = 0xa"
definition CAUSE_MACHINE_ECALL :: reg_t where [spike_consts]: "CAUSE_MACHINE_ECALL = 0xb"
definition CAUSE_FETCH_PAGE_FAULT :: reg_t where [spike_consts]: "CAUSE_FETCH_PAGE_FAULT = 0xc"
definition CAUSE_LOAD_PAGE_FAULT :: reg_t where [spike_consts]: "CAUSE_LOAD_PAGE_FAULT = 0xd"
definition CAUSE_STORE_PAGE_FAULT :: reg_t where [spike_consts]: "CAUSE_STORE_PAGE_FAULT = 0xf"
definition CSR_FFLAGS :: nat where [spike_consts]: "CSR_FFLAGS = 0x1"
definition CSR_FRM :: nat where [spike_consts]: "CSR_FRM = 0x2"
definition CSR_FCSR :: nat where [spike_consts]: "CSR_FCSR = 0x3"
definition CSR_CYCLE :: nat where [spike_consts]: "CSR_CYCLE = 0xc00"
definition CSR_INSTRET :: nat where [spike_consts]: "CSR_INSTRET = 0xc02"
definition CSR_HPMCOUNTER3 :: nat where [spike_consts]: "CSR_HPMCOUNTER3 = 0xc03"
definition CSR_HPMCOUNTER31 :: nat where [spike_consts]: "CSR_HPMCOUNTER31 = 0xc1f"
definition CSR_SSTATUS :: nat where [spike_consts]: "CSR_SSTATUS = 0x100"
definition CSR_SIE :: nat where [spike_consts]: "CSR_SIE = 0x104"
definition CSR_STVEC :: nat where [spike_consts]: "CSR_STVEC = 0x105"
definition CSR_SCOUNTEREN :: nat where [spike_consts]: "CSR_SCOUNTEREN = 0x106"
definition CSR_SSCRATCH :: nat where [spike_consts]: "CSR_SSCRATCH = 0x140"
definition CSR_SEPC :: nat where [spike_consts]: "CSR_SEPC = 0x141"
definition CSR_SCAUSE :: nat where [spike_consts]: "CSR_SCAUSE = 0x142"
definition CSR_STVAL :: nat where [spike_consts]: "CSR_STVAL = 0x143"
definition CSR_SIP :: nat where [spike_consts]: "CSR_SIP = 0x144"
definition CSR_SATP :: nat where [spike_consts]: "CSR_SATP = 0x180"
definition CSR_MSTATUS :: nat where [spike_consts]: "CSR_MSTATUS = 0x300"
definition CSR_MISA :: nat where [spike_consts]: "CSR_MISA = 0x301"
definition CSR_MEDELEG :: nat where [spike_consts]: "CSR_MEDELEG = 0x302"
definition CSR_MIDELEG :: nat where [spike_consts]: "CSR_MIDELEG = 0x303"
definition CSR_MIE :: nat where [spike_consts]: "CSR_MIE = 0x304"
definition CSR_MTVEC :: nat where [spike_consts]: "CSR_MTVEC = 0x305"
definition CSR_MCOUNTEREN :: nat where [spike_consts]: "CSR_MCOUNTEREN = 0x306"
definition CSR_MSCRATCH :: nat where [spike_consts]: "CSR_MSCRATCH = 0x340"
definition CSR_MEPC :: nat where [spike_consts]: "CSR_MEPC = 0x341"
definition CSR_MCAUSE :: nat where [spike_consts]: "CSR_MCAUSE = 0x342"
definition CSR_MTVAL :: nat where [spike_consts]: "CSR_MTVAL = 0x343"
definition CSR_MIP :: nat where [spike_consts]: "CSR_MIP = 0x344"
definition CSR_TSELECT :: nat where [spike_consts]: "CSR_TSELECT = 0x7a0"
definition CSR_TDATA1 :: nat where [spike_consts]: "CSR_TDATA1 = 0x7a1"
definition CSR_TDATA2 :: nat where [spike_consts]: "CSR_TDATA2 = 0x7a2"
definition CSR_TDATA3 :: nat where [spike_consts]: "CSR_TDATA3 = 0x7a3"
definition CSR_DCSR :: nat where [spike_consts]: "CSR_DCSR = 0x7b0"
definition CSR_DPC :: nat where [spike_consts]: "CSR_DPC = 0x7b1"
definition CSR_DSCRATCH :: nat where [spike_consts]: "CSR_DSCRATCH = 0x7b2"
definition CSR_MCYCLE :: nat where [spike_consts]: "CSR_MCYCLE = 0xb00"
definition CSR_MINSTRET :: nat where [spike_consts]: "CSR_MINSTRET = 0xb02"
definition CSR_MHPMCOUNTER3 :: nat where [spike_consts]: "CSR_MHPMCOUNTER3 = 0xb03"
definition CSR_MHPMCOUNTER31 :: nat where [spike_consts]: "CSR_MHPMCOUNTER31 = 0xb1f"
definition CSR_MHPMEVENT3 :: nat where [spike_consts]: "CSR_MHPMEVENT3 = 0x323"
definition CSR_MHPMEVENT31 :: nat where [spike_consts]: "CSR_MHPMEVENT31 = 0x33f"
definition CSR_MVENDORID :: nat where [spike_consts]: "CSR_MVENDORID = 0xf11"
definition CSR_MARCHID :: nat where [spike_consts]: "CSR_MARCHID = 0xf12"
definition CSR_MIMPID :: nat where [spike_consts]: "CSR_MIMPID = 0xf13"
definition CSR_MHARTID :: nat where [spike_consts]: "CSR_MHARTID = 0xf14"
definition CSR_CYCLEH :: nat where [spike_consts]: "CSR_CYCLEH = 0xc80"
definition CSR_INSTRETH :: nat where [spike_consts]: "CSR_INSTRETH = 0xc82"
definition CSR_HPMCOUNTER3H :: nat where [spike_consts]: "CSR_HPMCOUNTER3H = 0xc83"
definition CSR_HPMCOUNTER31H :: nat where [spike_consts]: "CSR_HPMCOUNTER31H = 0xc9f"
definition CSR_MCYCLEH :: nat where [spike_consts]: "CSR_MCYCLEH = 0xb80"
definition CSR_MINSTRETH :: nat where [spike_consts]: "CSR_MINSTRETH = 0xb82"
definition CSR_MHPMCOUNTER3H :: nat where [spike_consts]: "CSR_MHPMCOUNTER3H = 0xb83"
definition CSR_MHPMCOUNTER31H :: nat where [spike_consts]: "CSR_MHPMCOUNTER31H = 0xb9f"

definition MCONTROL_TYPE :: "nat \<Rightarrow> reg_t" where "MCONTROL_TYPE xlen = shl 0xf (xlen - 4)"
definition MCONTROL_DMODE :: "nat \<Rightarrow> reg_t" where "MCONTROL_DMODE xlen = shl 1 (xlen - 5)"
definition MCONTROL_MASKMAX :: "nat \<Rightarrow> reg_t" where "MCONTROL_MASKMAX xlen = shl 0x3f (xlen - 11)"

definition PTE_TABLE :: "reg_t \<Rightarrow> bool" where
  "PTE_TABLE pte \<longleftrightarrow> pte AND (PTE_V OR PTE_R OR PTE_W OR PTE_X) = PTE_V"

end
