(* ===== verification/Decode.thy ===== *)
theory Decode
  imports Prelude
begin

text \<open>
  \<open>riscv/decode.h\<close>: the fields and immediates of an instruction word
  (class \<open>insn_t\<close>), the register file with its hard-wired zero (\<open>regfile_t\<close>),
  sign and zero extension to a register width, NaN boxing of the floating point
  registers and the sign-injection helpers.  The lemmas give every immediate bit by bit,
  as the instruction formats of the ISA lay them out.
\<close>

section \<open>insn_t\<close>

type_synonym insn_t = reg_t

definition insn_length :: "insn_t \<Rightarrow> nat" where
  "insn_length b =
     (if b AND 0x03 < 0x03 then 2
      else if b AND 0x1f < 0x1f then 4
      else if b AND 0x3f < 0x3f then 6
      else 8)"

definition insn_x :: "insn_t \<Rightarrow> nat \<Rightarrow> nat \<Rightarrow> reg_t" where
  "insn_x b lo len = shr b lo AND (shl 1 len - 1)"

definition insn_xs :: "insn_t \<Rightarrow> nat \<Rightarrow> nat \<Rightarrow> reg_t" where
  "insn_xs b lo len = signed_drop_bit (64 - len) (shl b (64 - lo - len))"

definition imm_sign :: "insn_t \<Rightarrow> reg_t" where
  "imm_sign b = insn_xs b 63 1"

definition i_imm :: "insn_t \<Rightarrow> reg_t" where
  "i_imm b = signed_drop_bit 20 b"

definition shamt :: "insn_t \<Rightarrow> reg_t" where
  "shamt b = insn_x b 20 6"

definition s_imm :: "insn_t \<Rightarrow> reg_t" where
  "s_imm b = insn_x b 7 5 + shl (insn_xs b 25 7) 5"

definition sb_imm :: "insn_t \<Rightarrow> reg_t" where
  "sb_imm b = shl (insn_x b 8 4) 1 + shl (insn_x b 25 6) 5 + shl (insn_x b 7 1) 11
     + shl (imm_sign b) 12"

definition u_imm :: "insn_t \<Rightarrow> reg_t" where
  "u_imm b = shl (signed_drop_bit 12 b) 12"

definition uj_imm :: "insn_t \<Rightarrow> reg_t" where
  "uj_imm b = shl (insn_x b 21 10) 1 + shl (insn_x b 20 1) 11 + shl (insn_x b 12 8) 12
     + shl (imm_sign b) 20"

definition rd :: "insn_t \<Rightarrow> reg_t" where "rd b = insn_x b 7 5"
definition rs1 :: "insn_t \<Rightarrow> reg_t" where "rs1 b = insn_x b 15 5"
definition rs2 :: "insn_t \<Rightarrow> reg_t" where "rs2 b = insn_x b 20 5"
definition rs3 :: "insn_t \<Rightarrow> reg_t" where "rs3 b = insn_x b 27 5"
definition rm :: "insn_t \<Rightarrow> reg_t" where "rm b = insn_x b 12 3"
definition csr :: "insn_t \<Rightarrow> reg_t" where "csr b = insn_x b 20 12"

definition rvc_imm :: "insn_t \<Rightarrow> reg_t" where
  "rvc_imm b = insn_x b 2 5 + shl (insn_xs b 12 1) 5"

definition rvc_zimm :: "insn_t \<Rightarrow> reg_t" where
  "rvc_zimm b = insn_x b 2 5 + shl (insn_x b 12 1) 5"

definition rvc_addi4spn_imm :: "insn_t \<Rightarrow> reg_t" where
  "rvc_addi4spn_imm b = shl (insn_x b 6 1) 2 + shl (insn_x b 5 1) 3 + shl (insn_x b 11 2) 4
     + shl (insn_x b 7 4) 6"

definition rvc_addi16sp_imm :: "insn_t \<Rightarrow> reg_t" where
  "rvc_addi16sp_imm b = shl (insn_x b 6 1) 4 + shl (insn_x b 2 1) 5 + shl (insn_x b 5 1) 6
     + shl (insn_x b 3 2) 7 + shl (insn_xs b 12 1) 9"

definition rvc_lwsp_imm :: "insn_t \<Rightarrow> reg_t" where
  "rvc_lwsp_imm b = shl (insn_x b 4 3) 2 + shl (insn_x b 12 1) 5 + shl (insn_x b 2 2) 6"

definition rvc_ldsp_imm :: "insn_t \<Rightarrow> reg_t" where
  "rvc_ldsp_imm b = shl (insn_x b 5 2) 3 + shl (insn_x b 12 1) 5 + shl (insn_x b 2 3) 6"

definition rvc_swsp_imm :: "insn_t \<Rightarrow> reg_t" where
  "rvc_swsp_imm b = shl (insn_x b 9 4) 2 + shl (insn_x b 7 2) 6"

definition rvc_sdsp_imm :: "insn_t \<Rightarrow> reg_t" where
  "rvc_sdsp_imm b = shl (insn_x b 10 3) 3 + shl (insn_x b 7 3) 6"

definition rvc_lw_imm :: "insn_t \<Rightarrow> reg_t" where
  "rvc_lw_imm b = shl (insn_x b 6 1) 2 + shl (insn_x b 10 3) 3 + shl (insn_x b 5 1) 6"

definition rvc_ld_imm :: "insn_t \<Rightarrow> reg_t" where
  "rvc_ld_imm b = shl (insn_x b 10 3) 3 + shl (insn_x b 5 2) 6"

definition rvc_j_imm :: "insn_t \<Rightarrow> reg_t" where
  "rvc_j_imm b = shl (insn_x b 3 3) 1 + shl (insn_x b 11 1) 4 + shl (insn_x b 2 1) 5
     + shl (insn_x b 7 1) 6 + shl (insn_x b 6 1) 7 + shl (insn_x b 9 2) 8
     + shl (insn_x b 8 1) 10 + shl (insn_xs b 12 1) 11"

definition rvc_b_imm :: "insn_t \<Rightarrow> reg_t" where
  "rvc_b_imm b = shl (insn_x b 3 2) 1 + shl (insn_x b 10 2) 3 + shl (insn_x b 2 1) 5
     + shl (insn_x b 5 2) 6 + shl (insn_xs b 12 1) 8"

definition rvc_simm3 :: "insn_t \<Rightarrow> reg_t" where "rvc_simm3 b = insn_x b 10 3"
definition rvc_rd :: "insn_t \<Rightarrow> reg_t" where "rvc_rd b = rd b"
definition rvc_rs1 :: "insn_t \<Rightarrow> reg_t" where "rvc_rs1 b = rd b"
definition rvc_rs2 :: "insn_t \<Rightarrow> reg_t" where "rvc_rs2 b = insn_x b 2 5"
definition rvc_rs1s :: "insn_t \<Rightarrow> reg_t" where "rvc_rs1s b = 8 + insn_x b 7 3"
definition rvc_rs2s :: "insn_t \<Rightarrow> reg_t" where "rvc_rs2s b = 8 + insn_x b 2 3"

section \<open>Bit characterisation of fields and immediates\<close>

lemma shl_1_minus_1: "shl 1 n - 1 = (mask n :: 'a::len word)"
  by (simp add: mask_eq_exp_minus_1 push_bit_eq_mult)

lemma insn_x_take: "insn_x b lo len = take_bit len (shr b lo)"
  by (simp only: insn_x_def shl_1_minus_1 take_bit_eq_mask)

lemma bit_insn_x [bit_simps]:
  "bit (insn_x b lo len) i \<longleftrightarrow> i < len \<and> bit b (lo + i)"
  by (auto simp: insn_x_take bit_simps)

lemma bit_insn_xs:
  assumes "0 < len" "lo + len \<le> 64"
  shows "bit (insn_xs b lo len) i \<longleftrightarrow> i < 64 \<and> bit b (if i < len then lo + i else lo + len - 1)"
  using assms by (auto simp: insn_xs_def bit_simps add.commute)

text \<open>
  The immediates are sums of shifted fields that share no bit, so each sum is a
  disjunction of bits.  \<open>bits_as w P lo hi\<close>: the set bits of \<open>w\<close> are those of \<open>P\<close>,
  all in the range from \<open>lo\<close> to \<open>hi - 1\<close>; adjacent ranges add up.
\<close>

definition bits_as :: "'a::len word \<Rightarrow> (nat \<Rightarrow> bool) \<Rightarrow> nat \<Rightarrow> nat \<Rightarrow> bool" where
  "bits_as w P lo hi \<longleftrightarrow> (\<forall>i. bit w i = P i) \<and> (\<forall>i. P i \<longrightarrow> lo \<le> i \<and> i < hi)"

lemma bits_asE: "bits_as w P lo hi \<Longrightarrow> P i = R \<Longrightarrow> bit w i = R"
  by (simp add: bits_as_def)

lemma bits_as_add:
  assumes "bits_as a P lo k" "bits_as b Q k hi" "lo \<le> k" "k \<le> hi"
  shows "bits_as (a + b) (\<lambda>i. P i \<or> Q i) lo hi"
proof -
  have "\<not> (bit a i \<and> bit b i)" for i
    using assms unfolding bits_as_def by (metis not_less)
  then have "a + b = a OR b"
    by (intro disjunctive_add_eq_or) (auto simp: bit_eq_iff bit_simps)
  with assms show ?thesis
    by (auto simp: bits_as_def bit_simps intro: order_trans less_le_trans)
qed

lemma bits_as_x:
  "h = len \<Longrightarrow> l = 0 \<Longrightarrow> bits_as (insn_x b lo len) (\<lambda>i. i < len \<and> bit b (lo + i)) l h"
  by (auto simp: bits_as_def bit_simps)

lemma bits_as_shl_x:
  "h = n + len \<Longrightarrow> l = n \<Longrightarrow> h \<le> 64 \<Longrightarrow>
   bits_as (shl (insn_x b lo len) n) (\<lambda>i. n \<le> i \<and> i < h \<and> bit b (lo + (i - n))) l h"
  by (auto simp: bits_as_def bit_simps)

lemma bits_as_shl_xs:
  assumes "h = 64" "l = n" "0 < len" "lo + len \<le> 64"
  shows "bits_as (shl (insn_xs b lo len) n)
    (\<lambda>i. n \<le> i \<and> i < 64 \<and> bit b (if i < n + len then lo + (i - n) else lo + len - 1)) l h"
  using assms by (auto simp: bits_as_def bit_simps bit_insn_xs split: if_splits)

lemmas bits_as_intros = bits_as_add bits_as_x bits_as_shl_x bits_as_shl_xs

lemmas imm_defs = s_imm_def sb_imm_def uj_imm_def rvc_imm_def rvc_zimm_def
  rvc_addi4spn_imm_def rvc_addi16sp_imm_def rvc_lwsp_imm_def rvc_ldsp_imm_def
  rvc_swsp_imm_def rvc_sdsp_imm_def rvc_lw_imm_def rvc_ld_imm_def rvc_j_imm_def
  rvc_b_imm_def imm_sign_def

lemma bit_i_imm: "bit (i_imm b) i \<longleftrightarrow> i < 64 \<and> bit b (if i < 44 then i + 20 else 63)"
proof (cases "i < 44")
  case True
  then show ?thesis by (simp add: i_imm_def bit_signed_drop_bit_iff add.commute)
next
  case False
  then show ?thesis by (auto simp: i_imm_def bit_signed_drop_bit_iff dest: bit_imp_le_length)
qed

lemma bit_u_imm: "bit (u_imm b) i \<longleftrightarrow> 12 \<le> i \<and> i < 64 \<and> bit b i"
  by (auto simp: u_imm_def bit_simps)

lemma bit_s_imm:
  "bit (s_imm b) i \<longleftrightarrow> i < 64 \<and> bit b (if i < 5 then i + 7 else if i < 12 then i + 20 else 31)"
  unfolding imm_defs by (rule bits_asE, (rule bits_as_intros | simp; fail)+) (auto simp: add.commute)

lemma bit_sb_imm:
  "bit (sb_imm b) i \<longleftrightarrow> i < 64 \<and> 0 < i \<and>
     bit b (if i < 5 then i + 7 else if i < 11 then i + 20 else if i = 11 then 7 else 63)"
  unfolding imm_defs by (rule bits_asE, (rule bits_as_intros | simp; fail)+) (auto simp: add.commute)

lemma bit_uj_imm:
  "bit (uj_imm b) i \<longleftrightarrow> i < 64 \<and> 0 < i \<and>
     bit b (if i < 11 then i + 20 else if i = 11 then 20 else if i < 20 then i else 63)"
  unfolding imm_defs by (rule bits_asE, (rule bits_as_intros | simp; fail)+) (auto simp: add.commute)

text \<open>The compressed formats.\<close>

lemma bit_rvc_imm:
  "bit (rvc_imm b) i \<longleftrightarrow> i < 64 \<and> bit b (if i < 5 then i + 2 else 12)"
  unfolding imm_defs by (rule bits_asE, (rule bits_as_intros | simp; fail)+)

lemma bit_rvc_zimm:
  "bit (rvc_zimm b) i \<longleftrightarrow> i < 6 \<and> bit b (if i < 5 then i + 2 else 12)"
  unfolding imm_defs by (rule bits_asE, (rule bits_as_intros | simp; fail)+) (auto simp: add.commute elim!: back_subst [of "bit b"])

lemma bit_rvc_addi4spn_imm:
  "bit (rvc_addi4spn_imm b) i \<longleftrightarrow> 2 \<le> i \<and> i < 10 \<and>
     bit b (if i = 2 then 6 else if i = 3 then 5 else if i < 6 then i + 7 else i + 1)"
  unfolding imm_defs by (rule bits_asE, (rule bits_as_intros | simp; fail)+) (auto simp: add.commute)

lemma bit_rvc_addi16sp_imm:
  "bit (rvc_addi16sp_imm b) i \<longleftrightarrow> 4 \<le> i \<and> i < 64 \<and>
     bit b (if i = 4 then 6 else if i = 5 then 2 else if i = 6 then 5 else if i < 9 then i - 4 else 12)"
  unfolding imm_defs by (rule bits_asE, (rule bits_as_intros | simp; fail)+) (auto simp: add.commute numeral_2_eq_2)

lemma bit_rvc_lwsp_imm:
  "bit (rvc_lwsp_imm b) i \<longleftrightarrow> 2 \<le> i \<and> i < 8 \<and>
     bit b (if i < 5 then i + 2 else if i = 5 then 12 else i - 4)"
  unfolding imm_defs by (rule bits_asE, (rule bits_as_intros | simp; fail)+) (auto simp: add.commute elim!: back_subst [of "bit b"])

lemma bit_rvc_ldsp_imm:
  "bit (rvc_ldsp_imm b) i \<longleftrightarrow> 3 \<le> i \<and> i < 9 \<and>
     bit b (if i < 5 then i + 2 else if i = 5 then 12 else i - 4)"
  unfolding imm_defs by (rule bits_asE, (rule bits_as_intros | simp; fail)+) (auto simp: add.commute elim!: back_subst [of "bit b"])

lemma bit_rvc_swsp_imm:
  "bit (rvc_swsp_imm b) i \<longleftrightarrow> 2 \<le> i \<and> i < 8 \<and> bit b (if i < 6 then i + 7 else i + 1)"
  unfolding imm_defs by (rule bits_asE, (rule bits_as_intros | simp; fail)+) (auto simp: add.commute)

lemma bit_rvc_sdsp_imm:
  "bit (rvc_sdsp_imm b) i \<longleftrightarrow> 3 \<le> i \<and> i < 9 \<and> bit b (if i < 6 then i + 7 else i + 1)"
  unfolding imm_defs by (rule bits_asE, (rule bits_as_intros | simp; fail)+) (auto simp: add.commute)

lemma bit_rvc_lw_imm:
  "bit (rvc_lw_imm b) i \<longleftrightarrow> 2 \<le> i \<and> i < 7 \<and>
     bit b (if i = 2 then 6 else if i < 6 then i + 7 else 5)"
  unfolding imm_defs by (rule bits_asE, (rule bits_as_intros | simp; fail)+) (auto simp: add.commute elim!: back_subst [of "bit b"])

lemma bit_rvc_ld_imm:
  "bit (rvc_ld_imm b) i \<longleftrightarrow> 3 \<le> i \<and> i < 8 \<and> bit b (if i < 6 then i + 7 else i - 1)"
  unfolding imm_defs by (rule bits_asE, (rule bits_as_intros | simp; fail)+) (auto simp: add.commute elim!: back_subst [of "bit b"])

lemma bit_rvc_j_imm:
  "bit (rvc_j_imm b) i \<longleftrightarrow> 1 \<le> i \<and> i < 64 \<and>
     bit b (if i < 4 then i + 2 else if i = 4 then 11 else if i = 5 then 2 else if i = 6 then 7
       else if i = 7 then 6 else if i < 10 then i + 1 else if i = 10 then 8 else 12)"
  unfolding imm_defs by (rule bits_asE, (rule bits_as_intros | simp; fail)+) (auto simp: add.commute numeral_2_eq_2)

lemma bit_rvc_b_imm:
  "bit (rvc_b_imm b) i \<longleftrightarrow> 1 \<le> i \<and> i < 64 \<and>
     bit b (if i < 3 then i + 2 else if i < 5 then i + 7 else if i = 5 then 2
       else if i < 8 then i - 1 else 12)"
  unfolding imm_defs by (rule bits_asE, (rule bits_as_intros | simp; fail)+) (auto simp: add.commute numeral_2_eq_2 elim!: back_subst [of "bit b"])

text \<open>Register numbers are in range, so every register file access is.\<close>

lemma unat_insn_x_bound: "unat (insn_x b lo len) < 2 ^ len"
  by (simp add: insn_x_take unsigned_take_bit_eq)

lemma reg_fields_in_range:
  "unat (rd b) < 32" "unat (rs1 b) < 32" "unat (rs2 b) < 32" "unat (rs3 b) < 32"
  using unat_insn_x_bound [of b 7 5] unat_insn_x_bound [of b 15 5]
    unat_insn_x_bound [of b 20 5] unat_insn_x_bound [of b 27 5]
  by (simp_all add: rd_def rs1_def rs2_def rs3_def)

lemma insn_length_cases: "insn_length b \<in> {2, 4, 6, 8}"
  by (auto simp: insn_length_def)

section \<open>regfile_t\<close>

text \<open>
  \<open>write\<close> drops a store to register 0 of a file with a hard-wired zero.  The index is a
  5-bit field of an instruction, so it is below the length \<open>N = 32\<close> of the file.
\<close>

definition regfile_write :: "bool \<Rightarrow> nat \<Rightarrow> 'a \<Rightarrow> 'a list \<Rightarrow> 'a list" where
  "regfile_write zero_reg i value rf = (if \<not> zero_reg \<or> i \<noteq> 0 then rf[i := value] else rf)"

definition regfile_read :: "'a list \<Rightarrow> nat \<Rightarrow> 'a" where
  "regfile_read rf i = rf ! i"

definition xpr_ok :: "reg_t list \<Rightarrow> bool" where
  "xpr_ok rf \<longleftrightarrow> length rf = 32 \<and> rf ! 0 = 0"

lemma xpr_ok_write: "xpr_ok rf \<Longrightarrow> xpr_ok (regfile_write True i v rf)"
  by (cases i) (auto simp: xpr_ok_def regfile_write_def)

section \<open>Extension to the register width\<close>

definition sext32 :: "reg_t \<Rightarrow> reg_t" where
  "sext32 x = scast (ucast x :: u32)"

definition zext32 :: "reg_t \<Rightarrow> reg_t" where
  "zext32 x = ucast (ucast x :: u32)"

definition sext_xlen :: "nat \<Rightarrow> reg_t \<Rightarrow> reg_t" where
  "sext_xlen xlen x = signed_drop_bit (64 - xlen) (shl x (64 - xlen))"

definition zext_xlen :: "nat \<Rightarrow> reg_t \<Rightarrow> reg_t" where
  "zext_xlen xlen x = shr (shl x (64 - xlen)) (64 - xlen)"

lemma bit_sext_xlen:
  assumes "0 < xlen" "xlen \<le> 64"
  shows "bit (sext_xlen xlen x) i \<longleftrightarrow> i < 64 \<and> bit x (if i < xlen then i else xlen - 1)"
  using assms by (auto simp: sext_xlen_def bit_simps dest: bit_imp_le_length)

lemma bit_zext_xlen:
  "xlen \<le> 64 \<Longrightarrow> bit (zext_xlen xlen x) i \<longleftrightarrow> i < xlen \<and> bit x i"
  by (auto simp: zext_xlen_def bit_simps dest: bit_imp_le_length)

lemma zext_xlen_take_bit: "xlen \<le> 64 \<Longrightarrow> zext_xlen xlen x = take_bit xlen x"
  by (intro bit_word_eqI) (auto simp: bit_zext_xlen bit_simps)

lemma zext_xlen_64 [simp]: "zext_xlen 64 x = x"
  by (simp add: zext_xlen_def)

lemma sext_xlen_64 [simp]: "sext_xlen 64 x = x"
  by (simp add: sext_xlen_def)

section \<open>Floating point registers\<close>

text \<open>
  \<open>freg_t\<close> is a \<open>float128_t\<close> of two 64-bit words.  A narrower value is boxed by setting
  all bits above it.  The default NaN patterns come from softfloat's \<open>specialize.h\<close>,
  which is not part of the repository; they are arguments.
\<close>

record freg =
  v0 :: reg_t
  v1 :: reg_t

definition isBoxedF64 :: "freg \<Rightarrow> bool" where
  "isBoxedF64 r \<longleftrightarrow> v1 r + 1 = 0"

definition isBoxedF32 :: "freg \<Rightarrow> bool" where
  "isBoxedF32 r \<longleftrightarrow> isBoxedF64 r \<and> (ucast (shr (v0 r) 32 + 1) :: u32) = 0"

definition unboxF32 :: "u32 \<Rightarrow> freg \<Rightarrow> u32" where
  "unboxF32 defaultNaNF32UI r = (if isBoxedF32 r then ucast (v0 r) else defaultNaNF32UI)"

definition unboxF64 :: "reg_t \<Rightarrow> freg \<Rightarrow> reg_t" where
  "unboxF64 defaultNaNF64UI r = (if isBoxedF64 r then v0 r else defaultNaNF64UI)"

definition freg_of_f32 :: "u32 \<Rightarrow> freg" where
  "freg_of_f32 f = \<lparr>v0 = shl (-1) 32 OR ucast f, v1 = -1\<rparr>"

definition freg_of_f64 :: "reg_t \<Rightarrow> freg" where
  "freg_of_f64 f = \<lparr>v0 = f, v1 = -1\<rparr>"

definition F32_SIGN :: u32 where "F32_SIGN = shl 1 31"
definition F64_SIGN :: reg_t where "F64_SIGN = shl 1 63"

definition fsgnj32 :: "u32 \<Rightarrow> freg \<Rightarrow> freg \<Rightarrow> bool \<Rightarrow> bool \<Rightarrow> u32" where
  "fsgnj32 nan a b n x =
     (unboxF32 nan a AND NOT F32_SIGN) OR
     (((if x then unboxF32 nan a else if n then F32_SIGN else 0) XOR unboxF32 nan b) AND F32_SIGN)"

definition fsgnj64 :: "reg_t \<Rightarrow> freg \<Rightarrow> freg \<Rightarrow> bool \<Rightarrow> bool \<Rightarrow> reg_t" where
  "fsgnj64 nan a b n x =
     (unboxF64 nan a AND NOT F64_SIGN) OR
     (((if x then unboxF64 nan a else if n then F64_SIGN else 0) XOR unboxF64 nan b) AND F64_SIGN)"

definition fsgnj128 :: "freg \<Rightarrow> freg \<Rightarrow> bool \<Rightarrow> bool \<Rightarrow> freg" where
  "fsgnj128 a b n x =
     a\<lparr>v1 := (v1 a AND NOT F64_SIGN) OR
        (((if x then v1 a else if n then F64_SIGN else 0) XOR v1 b) AND F64_SIGN)\<rparr>"

definition f128_negate :: "freg \<Rightarrow> freg" where
  "f128_negate a = a\<lparr>v1 := v1 a XOR F64_SIGN\<rparr>"

lemma isBoxed_freg_of_f32: "isBoxedF32 (freg_of_f32 f)"
proof -
  have "shr (shl (-1) 32 OR ucast f :: reg_t) 32 = mask 32"
    by (intro bit_word_eqI) (auto simp: bit_simps dest: bit_imp_le_length)
  then show ?thesis
    by (simp add: isBoxedF32_def isBoxedF64_def freg_of_f32_def mask_numeral)
qed

lemma unbox_box_f32: "unboxF32 nan (freg_of_f32 f) = f"
proof -
  have "(ucast (shl (-1) 32 OR ucast f :: reg_t) :: u32) = f"
    by (intro bit_word_eqI) (auto simp: bit_simps)
  then show ?thesis
    using isBoxed_freg_of_f32 [of f] by (simp add: unboxF32_def freg_of_f32_def)
qed

lemma unbox_box_f64: "unboxF64 nan (freg_of_f64 f) = f"
  by (simp add: unboxF64_def isBoxedF64_def freg_of_f64_def)

lemma bit_F32_SIGN: "bit F32_SIGN i \<longleftrightarrow> i = 31"
  unfolding F32_SIGN_def by (subst bit_push_bit_iff) auto

lemma bit_F64_SIGN: "bit F64_SIGN i \<longleftrightarrow> i = 63"
  unfolding F64_SIGN_def by (subst bit_push_bit_iff) auto

lemma bit_fsgnj32:
  "bit (fsgnj32 nan a b n x) i \<longleftrightarrow>
    (if i = 31 then
       (if x then bit (unboxF32 nan a) 31 \<noteq> bit (unboxF32 nan b) 31
        else bit (unboxF32 nan b) 31 \<noteq> n)
     else bit (unboxF32 nan a) i)"
  by (auto simp: fsgnj32_def bit_F32_SIGN bit_simps dest: bit_imp_le_length)

lemma bit_fsgnj64:
  "bit (fsgnj64 nan a b n x) i \<longleftrightarrow>
    (if i = 63 then
       (if x then bit (unboxF64 nan a) 63 \<noteq> bit (unboxF64 nan b) 63
        else bit (unboxF64 nan b) 63 \<noteq> n)
     else bit (unboxF64 nan a) i)"
  by (auto simp: fsgnj64_def bit_F64_SIGN bit_simps dest: bit_imp_le_length)

end
