(* ===== verification/InsnTable.thy ===== *)
theory InsnTable
  imports Encoding Decode
begin

text \<open>
  The instruction table of \<open>riscv/encoding.h\<close>: one \<open>MATCH_*\<close> and one \<open>MASK_*\<close> constant
  per instruction, the \<open>DECLARE_INSN\<close> list that names them, and the list of instructions
  the build registers (\<open>riscv_insn_list\<close> of \<open>riscv/riscv.mk.in\<close>, from which \<open>insn_list.h\<close> is
  generated).  The constants unfold with \<open>insn_consts\<close>.
  The table is checked here once: no two registered encodings with different \<open>match\<close>
  accept a common instruction word.
\<close>

named_theorems insn_consts "MATCH and MASK constants"

section \<open>Match and mask constants\<close>

definition MATCH_BEQ :: insn_t where [insn_consts]: "MATCH_BEQ = 0x63"
definition MASK_BEQ :: insn_t where [insn_consts]: "MASK_BEQ = 0x707f"
definition MATCH_BNE :: insn_t where [insn_consts]: "MATCH_BNE = 0x1063"
definition MASK_BNE :: insn_t where [insn_consts]: "MASK_BNE = 0x707f"
definition MATCH_BLT :: insn_t where [insn_consts]: "MATCH_BLT = 0x4063"
definition MASK_BLT :: insn_t where [insn_consts]: "MASK_BLT = 0x707f"
definition MATCH_BGE :: insn_t where [insn_consts]: "MATCH_BGE = 0x5063"
definition MASK_BGE :: insn_t where [insn_consts]: "MASK_BGE = 0x707f"
definition MATCH_BLTU :: insn_t where [insn_consts]: "MATCH_BLTU = 0x6063"
definition MASK_BLTU :: insn_t where [insn_consts]: "MASK_BLTU = 0x707f"
definition MATCH_BGEU :: insn_t where [insn_consts]: "MATCH_BGEU = 0x7063"
definition MASK_BGEU :: insn_t where [insn_consts]: "MASK_BGEU = 0x707f"
definition MATCH_JALR :: insn_t where [insn_consts]: "MATCH_JALR = 0x67"
definition MASK_JALR :: insn_t where [insn_consts]: "MASK_JALR = 0x707f"
definition MATCH_JAL :: insn_t where [insn_consts]: "MATCH_JAL = 0x6f"
definition MASK_JAL :: insn_t where [insn_consts]: "MASK_JAL = 0x7f"
definition MATCH_LUI :: insn_t where [insn_consts]: "MATCH_LUI = 0x37"
definition MASK_LUI :: insn_t where [insn_consts]: "MASK_LUI = 0x7f"
definition MATCH_AUIPC :: insn_t where [insn_consts]: "MATCH_AUIPC = 0x17"
definition MASK_AUIPC :: insn_t where [insn_consts]: "MASK_AUIPC = 0x7f"
definition MATCH_ADDI :: insn_t where [insn_consts]: "MATCH_ADDI = 0x13"
definition MASK_ADDI :: insn_t where [insn_consts]: "MASK_ADDI = 0x707f"
definition MATCH_SLLI :: insn_t where [insn_consts]: "MATCH_SLLI = 0x1013"
definition MASK_SLLI :: insn_t where [insn_consts]: "MASK_SLLI = 0xfc00707f"
definition MATCH_SLTI :: insn_t where [insn_consts]: "MATCH_SLTI = 0x2013"
definition MASK_SLTI :: insn_t where [insn_consts]: "MASK_SLTI = 0x707f"
definition MATCH_SLTIU :: insn_t where [insn_consts]: "MATCH_SLTIU = 0x3013"
definition MASK_SLTIU :: insn_t where [insn_consts]: "MASK_SLTIU = 0x707f"
definition MATCH_XORI :: insn_t where [insn_consts]: "MATCH_XORI = 0x4013"
definition MASK_XORI :: insn_t where [insn_consts]: "MASK_XORI = 0x707f"
definition MATCH_SRLI :: insn_t where [insn_consts]: "MATCH_SRLI = 0x5013"
definition MASK_SRLI :: insn_t where [insn_consts]: "MASK_SRLI = 0xfc00707f"
definition MATCH_SRAI :: insn_t where [insn_consts]: "MATCH_SRAI = 0x40005013"
definition MASK_SRAI :: insn_t where [insn_consts]: "MASK_SRAI = 0xfc00707f"
definition MATCH_ORI :: insn_t where [insn_consts]: "MATCH_ORI = 0x6013"
definition MASK_ORI :: insn_t where [insn_consts]: "MASK_ORI = 0x707f"
definition MATCH_ANDI :: insn_t where [insn_consts]: "MATCH_ANDI = 0x7013"
definition MASK_ANDI :: insn_t where [insn_consts]: "MASK_ANDI = 0x707f"
definition MATCH_ADD :: insn_t where [insn_consts]: "MATCH_ADD = 0x33"
definition MASK_ADD :: insn_t where [insn_consts]: "MASK_ADD = 0xfe00707f"
definition MATCH_SUB :: insn_t where [insn_consts]: "MATCH_SUB = 0x40000033"
definition MASK_SUB :: insn_t where [insn_consts]: "MASK_SUB = 0xfe00707f"
definition MATCH_SLL :: insn_t where [insn_consts]: "MATCH_SLL = 0x1033"
definition MASK_SLL :: insn_t where [insn_consts]: "MASK_SLL = 0xfe00707f"
definition MATCH_SLT :: insn_t where [insn_consts]: "MATCH_SLT = 0x2033"
definition MASK_SLT :: insn_t where [insn_consts]: "MASK_SLT = 0xfe00707f"
definition MATCH_SLTU :: insn_t where [insn_consts]: "MATCH_SLTU = 0x3033"
definition MASK_SLTU :: insn_t where [insn_consts]: "MASK_SLTU = 0xfe00707f"
definition MATCH_XOR :: insn_t where [insn_consts]: "MATCH_XOR = 0x4033"
definition MASK_XOR :: insn_t where [insn_consts]: "MASK_XOR = 0xfe00707f"
definition MATCH_SRL :: insn_t where [insn_consts]: "MATCH_SRL = 0x5033"
definition MASK_SRL :: insn_t where [insn_consts]: "MASK_SRL = 0xfe00707f"
definition MATCH_SRA :: insn_t where [insn_consts]: "MATCH_SRA = 0x40005033"
definition MASK_SRA :: insn_t where [insn_consts]: "MASK_SRA = 0xfe00707f"
definition MATCH_OR :: insn_t where [insn_consts]: "MATCH_OR = 0x6033"
definition MASK_OR :: insn_t where [insn_consts]: "MASK_OR = 0xfe00707f"
definition MATCH_AND :: insn_t where [insn_consts]: "MATCH_AND = 0x7033"
definition MASK_AND :: insn_t where [insn_consts]: "MASK_AND = 0xfe00707f"
definition MATCH_ADDIW :: insn_t where [insn_consts]: "MATCH_ADDIW = 0x1b"
definition MASK_ADDIW :: insn_t where [insn_consts]: "MASK_ADDIW = 0x707f"
definition MATCH_SLLIW :: insn_t where [insn_consts]: "MATCH_SLLIW = 0x101b"
definition MASK_SLLIW :: insn_t where [insn_consts]: "MASK_SLLIW = 0xfe00707f"
definition MATCH_SRLIW :: insn_t where [insn_consts]: "MATCH_SRLIW = 0x501b"
definition MASK_SRLIW :: insn_t where [insn_consts]: "MASK_SRLIW = 0xfe00707f"
definition MATCH_SRAIW :: insn_t where [insn_consts]: "MATCH_SRAIW = 0x4000501b"
definition MASK_SRAIW :: insn_t where [insn_consts]: "MASK_SRAIW = 0xfe00707f"
definition MATCH_ADDW :: insn_t where [insn_consts]: "MATCH_ADDW = 0x3b"
definition MASK_ADDW :: insn_t where [insn_consts]: "MASK_ADDW = 0xfe00707f"
definition MATCH_SUBW :: insn_t where [insn_consts]: "MATCH_SUBW = 0x4000003b"
definition MASK_SUBW :: insn_t where [insn_consts]: "MASK_SUBW = 0xfe00707f"
definition MATCH_SLLW :: insn_t where [insn_consts]: "MATCH_SLLW = 0x103b"
definition MASK_SLLW :: insn_t where [insn_consts]: "MASK_SLLW = 0xfe00707f"
definition MATCH_SRLW :: insn_t where [insn_consts]: "MATCH_SRLW = 0x503b"
definition MASK_SRLW :: insn_t where [insn_consts]: "MASK_SRLW = 0xfe00707f"
definition MATCH_SRAW :: insn_t where [insn_consts]: "MATCH_SRAW = 0x4000503b"
definition MASK_SRAW :: insn_t where [insn_consts]: "MASK_SRAW = 0xfe00707f"
definition MATCH_LB :: insn_t where [insn_consts]: "MATCH_LB = 0x3"
definition MASK_LB :: insn_t where [insn_consts]: "MASK_LB = 0x707f"
definition MATCH_LH :: insn_t where [insn_consts]: "MATCH_LH = 0x1003"
definition MASK_LH :: insn_t where [insn_consts]: "MASK_LH = 0x707f"
definition MATCH_LW :: insn_t where [insn_consts]: "MATCH_LW = 0x2003"
definition MASK_LW :: insn_t where [insn_consts]: "MASK_LW = 0x707f"
definition MATCH_LD :: insn_t where [insn_consts]: "MATCH_LD = 0x3003"
definition MASK_LD :: insn_t where [insn_consts]: "MASK_LD = 0x707f"
definition MATCH_LBU :: insn_t where [insn_consts]: "MATCH_LBU = 0x4003"
definition MASK_LBU :: insn_t where [insn_consts]: "MASK_LBU = 0x707f"
definition MATCH_LHU :: insn_t where [insn_consts]: "MATCH_LHU = 0x5003"
definition MASK_LHU :: insn_t where [insn_consts]: "MASK_LHU = 0x707f"
definition MATCH_LWU :: insn_t where [insn_consts]: "MATCH_LWU = 0x6003"
definition MASK_LWU :: insn_t where [insn_consts]: "MASK_LWU = 0x707f"
definition MATCH_SB :: insn_t where [insn_consts]: "MATCH_SB = 0x23"
definition MASK_SB :: insn_t where [insn_consts]: "MASK_SB = 0x707f"
definition MATCH_SH :: insn_t where [insn_consts]: "MATCH_SH = 0x1023"
definition MASK_SH :: insn_t where [insn_consts]: "MASK_SH = 0x707f"
definition MATCH_SW :: insn_t where [insn_consts]: "MATCH_SW = 0x2023"
definition MASK_SW :: insn_t where [insn_consts]: "MASK_SW = 0x707f"
definition MATCH_SD :: insn_t where [insn_consts]: "MATCH_SD = 0x3023"
definition MASK_SD :: insn_t where [insn_consts]: "MASK_SD = 0x707f"
definition MATCH_FENCE :: insn_t where [insn_consts]: "MATCH_FENCE = 0xf"
definition MASK_FENCE :: insn_t where [insn_consts]: "MASK_FENCE = 0x707f"
definition MATCH_FENCE_I :: insn_t where [insn_consts]: "MATCH_FENCE_I = 0x100f"
definition MASK_FENCE_I :: insn_t where [insn_consts]: "MASK_FENCE_I = 0x707f"
definition MATCH_MUL :: insn_t where [insn_consts]: "MATCH_MUL = 0x2000033"
definition MASK_MUL :: insn_t where [insn_consts]: "MASK_MUL = 0xfe00707f"
definition MATCH_MULH :: insn_t where [insn_consts]: "MATCH_MULH = 0x2001033"
definition MASK_MULH :: insn_t where [insn_consts]: "MASK_MULH = 0xfe00707f"
definition MATCH_MULHSU :: insn_t where [insn_consts]: "MATCH_MULHSU = 0x2002033"
definition MASK_MULHSU :: insn_t where [insn_consts]: "MASK_MULHSU = 0xfe00707f"
definition MATCH_MULHU :: insn_t where [insn_consts]: "MATCH_MULHU = 0x2003033"
definition MASK_MULHU :: insn_t where [insn_consts]: "MASK_MULHU = 0xfe00707f"
definition MATCH_DIV :: insn_t where [insn_consts]: "MATCH_DIV = 0x2004033"
definition MASK_DIV :: insn_t where [insn_consts]: "MASK_DIV = 0xfe00707f"
definition MATCH_DIVU :: insn_t where [insn_consts]: "MATCH_DIVU = 0x2005033"
definition MASK_DIVU :: insn_t where [insn_consts]: "MASK_DIVU = 0xfe00707f"
definition MATCH_REM :: insn_t where [insn_consts]: "MATCH_REM = 0x2006033"
definition MASK_REM :: insn_t where [insn_consts]: "MASK_REM = 0xfe00707f"
definition MATCH_REMU :: insn_t where [insn_consts]: "MATCH_REMU = 0x2007033"
definition MASK_REMU :: insn_t where [insn_consts]: "MASK_REMU = 0xfe00707f"
definition MATCH_MULW :: insn_t where [insn_consts]: "MATCH_MULW = 0x200003b"
definition MASK_MULW :: insn_t where [insn_consts]: "MASK_MULW = 0xfe00707f"
definition MATCH_DIVW :: insn_t where [insn_consts]: "MATCH_DIVW = 0x200403b"
definition MASK_DIVW :: insn_t where [insn_consts]: "MASK_DIVW = 0xfe00707f"
definition MATCH_DIVUW :: insn_t where [insn_consts]: "MATCH_DIVUW = 0x200503b"
definition MASK_DIVUW :: insn_t where [insn_consts]: "MASK_DIVUW = 0xfe00707f"
definition MATCH_REMW :: insn_t where [insn_consts]: "MATCH_REMW = 0x200603b"
definition MASK_REMW :: insn_t where [insn_consts]: "MASK_REMW = 0xfe00707f"
definition MATCH_REMUW :: insn_t where [insn_consts]: "MATCH_REMUW = 0x200703b"
definition MASK_REMUW :: insn_t where [insn_consts]: "MASK_REMUW = 0xfe00707f"
definition MATCH_AMOADD_W :: insn_t where [insn_consts]: "MATCH_AMOADD_W = 0x202f"
definition MASK_AMOADD_W :: insn_t where [insn_consts]: "MASK_AMOADD_W = 0xf800707f"
definition MATCH_AMOXOR_W :: insn_t where [insn_consts]: "MATCH_AMOXOR_W = 0x2000202f"
definition MASK_AMOXOR_W :: insn_t where [insn_consts]: "MASK_AMOXOR_W = 0xf800707f"
definition MATCH_AMOOR_W :: insn_t where [insn_consts]: "MATCH_AMOOR_W = 0x4000202f"
definition MASK_AMOOR_W :: insn_t where [insn_consts]: "MASK_AMOOR_W = 0xf800707f"
definition MATCH_AMOAND_W :: insn_t where [insn_consts]: "MATCH_AMOAND_W = 0x6000202f"
definition MASK_AMOAND_W :: insn_t where [insn_consts]: "MASK_AMOAND_W = 0xf800707f"
definition MATCH_AMOMIN_W :: insn_t where [insn_consts]: "MATCH_AMOMIN_W = 0x8000202f"
definition MASK_AMOMIN_W :: insn_t where [insn_consts]: "MASK_AMOMIN_W = 0xf800707f"
definition MATCH_AMOMAX_W :: insn_t where [insn_consts]: "MATCH_AMOMAX_W = 0xa000202f"
definition MASK_AMOMAX_W :: insn_t where [insn_consts]: "MASK_AMOMAX_W = 0xf800707f"
definition MATCH_AMOMINU_W :: insn_t where [insn_consts]: "MATCH_AMOMINU_W = 0xc000202f"
definition MASK_AMOMINU_W :: insn_t where [insn_consts]: "MASK_AMOMINU_W = 0xf800707f"
definition MATCH_AMOMAXU_W :: insn_t where [insn_consts]: "MATCH_AMOMAXU_W = 0xe000202f"
definition MASK_AMOMAXU_W :: insn_t where [insn_consts]: "MASK_AMOMAXU_W = 0xf800707f"
definition MATCH_AMOSWAP_W :: insn_t where [insn_consts]: "MATCH_AMOSWAP_W = 0x800202f"
definition MASK_AMOSWAP_W :: insn_t where [insn_consts]: "MASK_AMOSWAP_W = 0xf800707f"
definition MATCH_LR_W :: insn_t where [insn_consts]: "MATCH_LR_W = 0x1000202f"
definition MASK_LR_W :: insn_t where [insn_consts]: "MASK_LR_W = 0xf9f0707f"
definition MATCH_SC_W :: insn_t where [insn_consts]: "MATCH_SC_W = 0x1800202f"
definition MASK_SC_W :: insn_t where [insn_consts]: "MASK_SC_W = 0xf800707f"
definition MATCH_AMOADD_D :: insn_t where [insn_consts]: "MATCH_AMOADD_D = 0x302f"
definition MASK_AMOADD_D :: insn_t where [insn_consts]: "MASK_AMOADD_D = 0xf800707f"
definition MATCH_AMOXOR_D :: insn_t where [insn_consts]: "MATCH_AMOXOR_D = 0x2000302f"
definition MASK_AMOXOR_D :: insn_t where [insn_consts]: "MASK_AMOXOR_D = 0xf800707f"
definition MATCH_AMOOR_D :: insn_t where [insn_consts]: "MATCH_AMOOR_D = 0x4000302f"
definition MASK_AMOOR_D :: insn_t where [insn_consts]: "MASK_AMOOR_D = 0xf800707f"
definition MATCH_AMOAND_D :: insn_t where [insn_consts]: "MATCH_AMOAND_D = 0x6000302f"
definition MASK_AMOAND_D :: insn_t where [insn_consts]: "MASK_AMOAND_D = 0xf800707f"
definition MATCH_AMOMIN_D :: insn_t where [insn_consts]: "MATCH_AMOMIN_D = 0x8000302f"
definition MASK_AMOMIN_D :: insn_t where [insn_consts]: "MASK_AMOMIN_D = 0xf800707f"
definition MATCH_AMOMAX_D :: insn_t where [insn_consts]: "MATCH_AMOMAX_D = 0xa000302f"
definition MASK_AMOMAX_D :: insn_t where [insn_consts]: "MASK_AMOMAX_D = 0xf800707f"
definition MATCH_AMOMINU_D :: insn_t where [insn_consts]: "MATCH_AMOMINU_D = 0xc000302f"
definition MASK_AMOMINU_D :: insn_t where [insn_consts]: "MASK_AMOMINU_D = 0xf800707f"
definition MATCH_AMOMAXU_D :: insn_t where [insn_consts]: "MATCH_AMOMAXU_D = 0xe000302f"
definition MASK_AMOMAXU_D :: insn_t where [insn_consts]: "MASK_AMOMAXU_D = 0xf800707f"
definition MATCH_AMOSWAP_D :: insn_t where [insn_consts]: "MATCH_AMOSWAP_D = 0x800302f"
definition MASK_AMOSWAP_D :: insn_t where [insn_consts]: "MASK_AMOSWAP_D = 0xf800707f"
definition MATCH_LR_D :: insn_t where [insn_consts]: "MATCH_LR_D = 0x1000302f"
definition MASK_LR_D :: insn_t where [insn_consts]: "MASK_LR_D = 0xf9f0707f"
definition MATCH_SC_D :: insn_t where [insn_consts]: "MATCH_SC_D = 0x1800302f"
definition MASK_SC_D :: insn_t where [insn_consts]: "MASK_SC_D = 0xf800707f"
definition MATCH_ECALL :: insn_t where [insn_consts]: "MATCH_ECALL = 0x73"
definition MASK_ECALL :: insn_t where [insn_consts]: "MASK_ECALL = 0xffffffff"
definition MATCH_EBREAK :: insn_t where [insn_consts]: "MATCH_EBREAK = 0x100073"
definition MASK_EBREAK :: insn_t where [insn_consts]: "MASK_EBREAK = 0xffffffff"
definition MATCH_URET :: insn_t where [insn_consts]: "MATCH_URET = 0x200073"
definition MASK_URET :: insn_t where [insn_consts]: "MASK_URET = 0xffffffff"
definition MATCH_SRET :: insn_t where [insn_consts]: "MATCH_SRET = 0x10200073"
definition MASK_SRET :: insn_t where [insn_consts]: "MASK_SRET = 0xffffffff"
definition MATCH_MRET :: insn_t where [insn_consts]: "MATCH_MRET = 0x30200073"
definition MASK_MRET :: insn_t where [insn_consts]: "MASK_MRET = 0xffffffff"
definition MATCH_DRET :: insn_t where [insn_consts]: "MATCH_DRET = 0x7b200073"
definition MASK_DRET :: insn_t where [insn_consts]: "MASK_DRET = 0xffffffff"
definition MATCH_SFENCE_VMA :: insn_t where [insn_consts]: "MATCH_SFENCE_VMA = 0x12000073"
definition MASK_SFENCE_VMA :: insn_t where [insn_consts]: "MASK_SFENCE_VMA = 0xfe007fff"
definition MATCH_WFI :: insn_t where [insn_consts]: "MATCH_WFI = 0x10500073"
definition MASK_WFI :: insn_t where [insn_consts]: "MASK_WFI = 0xffffffff"
definition MATCH_CSRRW :: insn_t where [insn_consts]: "MATCH_CSRRW = 0x1073"
definition MASK_CSRRW :: insn_t where [insn_consts]: "MASK_CSRRW = 0x707f"
definition MATCH_CSRRS :: insn_t where [insn_consts]: "MATCH_CSRRS = 0x2073"
definition MASK_CSRRS :: insn_t where [insn_consts]: "MASK_CSRRS = 0x707f"
definition MATCH_CSRRC :: insn_t where [insn_consts]: "MATCH_CSRRC = 0x3073"
definition MASK_CSRRC :: insn_t where [insn_consts]: "MASK_CSRRC = 0x707f"
definition MATCH_CSRRWI :: insn_t where [insn_consts]: "MATCH_CSRRWI = 0x5073"
definition MASK_CSRRWI :: insn_t where [insn_consts]: "MASK_CSRRWI = 0x707f"
definition MATCH_CSRRSI :: insn_t where [insn_consts]: "MATCH_CSRRSI = 0x6073"
definition MASK_CSRRSI :: insn_t where [insn_consts]: "MASK_CSRRSI = 0x707f"
definition MATCH_CSRRCI :: insn_t where [insn_consts]: "MATCH_CSRRCI = 0x7073"
definition MASK_CSRRCI :: insn_t where [insn_consts]: "MASK_CSRRCI = 0x707f"
definition MATCH_FADD_S :: insn_t where [insn_consts]: "MATCH_FADD_S = 0x53"
definition MASK_FADD_S :: insn_t where [insn_consts]: "MASK_FADD_S = 0xfe00007f"
definition MATCH_FSUB_S :: insn_t where [insn_consts]: "MATCH_FSUB_S = 0x8000053"
definition MASK_FSUB_S :: insn_t where [insn_consts]: "MASK_FSUB_S = 0xfe00007f"
definition MATCH_FMUL_S :: insn_t where [insn_consts]: "MATCH_FMUL_S = 0x10000053"
definition MASK_FMUL_S :: insn_t where [insn_consts]: "MASK_FMUL_S = 0xfe00007f"
definition MATCH_FDIV_S :: insn_t where [insn_consts]: "MATCH_FDIV_S = 0x18000053"
definition MASK_FDIV_S :: insn_t where [insn_consts]: "MASK_FDIV_S = 0xfe00007f"
definition MATCH_FSGNJ_S :: insn_t where [insn_consts]: "MATCH_FSGNJ_S = 0x20000053"
definition MASK_FSGNJ_S :: insn_t where [insn_consts]: "MASK_FSGNJ_S = 0xfe00707f"
definition MATCH_FSGNJN_S :: insn_t where [insn_consts]: "MATCH_FSGNJN_S = 0x20001053"
definition MASK_FSGNJN_S :: insn_t where [insn_consts]: "MASK_FSGNJN_S = 0xfe00707f"
definition MATCH_FSGNJX_S :: insn_t where [insn_consts]: "MATCH_FSGNJX_S = 0x20002053"
definition MASK_FSGNJX_S :: insn_t where [insn_consts]: "MASK_FSGNJX_S = 0xfe00707f"
definition MATCH_FMIN_S :: insn_t where [insn_consts]: "MATCH_FMIN_S = 0x28000053"
definition MASK_FMIN_S :: insn_t where [insn_consts]: "MASK_FMIN_S = 0xfe00707f"
definition MATCH_FMAX_S :: insn_t where [insn_consts]: "MATCH_FMAX_S = 0x28001053"
definition MASK_FMAX_S :: insn_t where [insn_consts]: "MASK_FMAX_S = 0xfe00707f"
definition MATCH_FSQRT_S :: insn_t where [insn_consts]: "MATCH_FSQRT_S = 0x58000053"
definition MASK_FSQRT_S :: insn_t where [insn_consts]: "MASK_FSQRT_S = 0xfff0007f"
definition MATCH_FADD_D :: insn_t where [insn_consts]: "MATCH_FADD_D = 0x2000053"
definition MASK_FADD_D :: insn_t where [insn_consts]: "MASK_FADD_D = 0xfe00007f"
definition MATCH_FSUB_D :: insn_t where [insn_consts]: "MATCH_FSUB_D = 0xa000053"
definition MASK_FSUB_D :: insn_t where [insn_consts]: "MASK_FSUB_D = 0xfe00007f"
definition MATCH_FMUL_D :: insn_t where [insn_consts]: "MATCH_FMUL_D = 0x12000053"
definition MASK_FMUL_D :: insn_t where [insn_consts]: "MASK_FMUL_D = 0xfe00007f"
definition MATCH_FDIV_D :: insn_t where [insn_consts]: "MATCH_FDIV_D = 0x1a000053"
definition MASK_FDIV_D :: insn_t where [insn_consts]: "MASK_FDIV_D = 0xfe00007f"
definition MATCH_FSGNJ_D :: insn_t where [insn_consts]: "MATCH_FSGNJ_D = 0x22000053"
definition MASK_FSGNJ_D :: insn_t where [insn_consts]: "MASK_FSGNJ_D = 0xfe00707f"
definition MATCH_FSGNJN_D :: insn_t where [insn_consts]: "MATCH_FSGNJN_D = 0x22001053"
definition MASK_FSGNJN_D :: insn_t where [insn_consts]: "MASK_FSGNJN_D = 0xfe00707f"
definition MATCH_FSGNJX_D :: insn_t where [insn_consts]: "MATCH_FSGNJX_D = 0x22002053"
definition MASK_FSGNJX_D :: insn_t where [insn_consts]: "MASK_FSGNJX_D = 0xfe00707f"
definition MATCH_FMIN_D :: insn_t where [insn_consts]: "MATCH_FMIN_D = 0x2a000053"
definition MASK_FMIN_D :: insn_t where [insn_consts]: "MASK_FMIN_D = 0xfe00707f"
definition MATCH_FMAX_D :: insn_t where [insn_consts]: "MATCH_FMAX_D = 0x2a001053"
definition MASK_FMAX_D :: insn_t where [insn_consts]: "MASK_FMAX_D = 0xfe00707f"
definition MATCH_FCVT_S_D :: insn_t where [insn_consts]: "MATCH_FCVT_S_D = 0x40100053"
definition MASK_FCVT_S_D :: insn_t where [insn_consts]: "MASK_FCVT_S_D = 0xfff0007f"
definition MATCH_FCVT_D_S :: insn_t where [insn_consts]: "MATCH_FCVT_D_S = 0x42000053"
definition MASK_FCVT_D_S :: insn_t where [insn_consts]: "MASK_FCVT_D_S = 0xfff0007f"
definition MATCH_FSQRT_D :: insn_t where [insn_consts]: "MATCH_FSQRT_D = 0x5a000053"
definition MASK_FSQRT_D :: insn_t where [insn_consts]: "MASK_FSQRT_D = 0xfff0007f"
definition MATCH_FADD_Q :: insn_t where [insn_consts]: "MATCH_FADD_Q = 0x6000053"
definition MASK_FADD_Q :: insn_t where [insn_consts]: "MASK_FADD_Q = 0xfe00007f"
definition MATCH_FSUB_Q :: insn_t where [insn_consts]: "MATCH_FSUB_Q = 0xe000053"
definition MASK_FSUB_Q :: insn_t where [insn_consts]: "MASK_FSUB_Q = 0xfe00007f"
definition MATCH_FMUL_Q :: insn_t where [insn_consts]: "MATCH_FMUL_Q = 0x16000053"
definition MASK_FMUL_Q :: insn_t where [insn_consts]: "MASK_FMUL_Q = 0xfe00007f"
definition MATCH_FDIV_Q :: insn_t where [insn_consts]: "MATCH_FDIV_Q = 0x1e000053"
definition MASK_FDIV_Q :: insn_t where [insn_consts]: "MASK_FDIV_Q = 0xfe00007f"
definition MATCH_FSGNJ_Q :: insn_t where [insn_consts]: "MATCH_FSGNJ_Q = 0x26000053"
definition MASK_FSGNJ_Q :: insn_t where [insn_consts]: "MASK_FSGNJ_Q = 0xfe00707f"
definition MATCH_FSGNJN_Q :: insn_t where [insn_consts]: "MATCH_FSGNJN_Q = 0x26001053"
definition MASK_FSGNJN_Q :: insn_t where [insn_consts]: "MASK_FSGNJN_Q = 0xfe00707f"
definition MATCH_FSGNJX_Q :: insn_t where [insn_consts]: "MATCH_FSGNJX_Q = 0x26002053"
definition MASK_FSGNJX_Q :: insn_t where [insn_consts]: "MASK_FSGNJX_Q = 0xfe00707f"
definition MATCH_FMIN_Q :: insn_t where [insn_consts]: "MATCH_FMIN_Q = 0x2e000053"
definition MASK_FMIN_Q :: insn_t where [insn_consts]: "MASK_FMIN_Q = 0xfe00707f"
definition MATCH_FMAX_Q :: insn_t where [insn_consts]: "MATCH_FMAX_Q = 0x2e001053"
definition MASK_FMAX_Q :: insn_t where [insn_consts]: "MASK_FMAX_Q = 0xfe00707f"
definition MATCH_FCVT_S_Q :: insn_t where [insn_consts]: "MATCH_FCVT_S_Q = 0x40300053"
definition MASK_FCVT_S_Q :: insn_t where [insn_consts]: "MASK_FCVT_S_Q = 0xfff0007f"
definition MATCH_FCVT_Q_S :: insn_t where [insn_consts]: "MATCH_FCVT_Q_S = 0x46000053"
definition MASK_FCVT_Q_S :: insn_t where [insn_consts]: "MASK_FCVT_Q_S = 0xfff0007f"
definition MATCH_FCVT_D_Q :: insn_t where [insn_consts]: "MATCH_FCVT_D_Q = 0x42300053"
definition MASK_FCVT_D_Q :: insn_t where [insn_consts]: "MASK_FCVT_D_Q = 0xfff0007f"
definition MATCH_FCVT_Q_D :: insn_t where [insn_consts]: "MATCH_FCVT_Q_D = 0x46100053"
definition MASK_FCVT_Q_D :: insn_t where [insn_consts]: "MASK_FCVT_Q_D = 0xfff0007f"
definition MATCH_FSQRT_Q :: insn_t where [insn_consts]: "MATCH_FSQRT_Q = 0x5e000053"
definition MASK_FSQRT_Q :: insn_t where [insn_consts]: "MASK_FSQRT_Q = 0xfff0007f"
definition MATCH_FLE_S :: insn_t where [insn_consts]: "MATCH_FLE_S = 0xa0000053"
definition MASK_FLE_S :: insn_t where [insn_consts]: "MASK_FLE_S = 0xfe00707f"
definition MATCH_FLT_S :: insn_t where [insn_consts]: "MATCH_FLT_S = 0xa0001053"
definition MASK_FLT_S :: insn_t where [insn_consts]: "MASK_FLT_S = 0xfe00707f"
definition MATCH_FEQ_S :: insn_t where [insn_consts]: "MATCH_FEQ_S = 0xa0002053"
definition MASK_FEQ_S :: insn_t where [insn_consts]: "MASK_FEQ_S = 0xfe00707f"
definition MATCH_FLE_D :: insn_t where [insn_consts]: "MATCH_FLE_D = 0xa2000053"
definition MASK_FLE_D :: insn_t where [insn_consts]: "MASK_FLE_D = 0xfe00707f"
definition MATCH_FLT_D :: insn_t where [insn_consts]: "MATCH_FLT_D = 0xa2001053"
definition MASK_FLT_D :: insn_t where [insn_consts]: "MASK_FLT_D = 0xfe00707f"
definition MATCH_FEQ_D :: insn_t where [insn_consts]: "MATCH_FEQ_D = 0xa2002053"
definition MASK_FEQ_D :: insn_t where [insn_consts]: "MASK_FEQ_D = 0xfe00707f"
definition MATCH_FLE_Q :: insn_t where [insn_consts]: "MATCH_FLE_Q = 0xa6000053"
definition MASK_FLE_Q :: insn_t where [insn_consts]: "MASK_FLE_Q = 0xfe00707f"
definition MATCH_FLT_Q :: insn_t where [insn_consts]: "MATCH_FLT_Q = 0xa6001053"
definition MASK_FLT_Q :: insn_t where [insn_consts]: "MASK_FLT_Q = 0xfe00707f"
definition MATCH_FEQ_Q :: insn_t where [insn_consts]: "MATCH_FEQ_Q = 0xa6002053"
definition MASK_FEQ_Q :: insn_t where [insn_consts]: "MASK_FEQ_Q = 0xfe00707f"
definition MATCH_FCVT_W_S :: insn_t where [insn_consts]: "MATCH_FCVT_W_S = 0xc0000053"
definition MASK_FCVT_W_S :: insn_t where [insn_consts]: "MASK_FCVT_W_S = 0xfff0007f"
definition MATCH_FCVT_WU_S :: insn_t where [insn_consts]: "MATCH_FCVT_WU_S = 0xc0100053"
definition MASK_FCVT_WU_S :: insn_t where [insn_consts]: "MASK_FCVT_WU_S = 0xfff0007f"
definition MATCH_FCVT_L_S :: insn_t where [insn_consts]: "MATCH_FCVT_L_S = 0xc0200053"
definition MASK_FCVT_L_S :: insn_t where [insn_consts]: "MASK_FCVT_L_S = 0xfff0007f"
definition MATCH_FCVT_LU_S :: insn_t where [insn_consts]: "MATCH_FCVT_LU_S = 0xc0300053"
definition MASK_FCVT_LU_S :: insn_t where [insn_consts]: "MASK_FCVT_LU_S = 0xfff0007f"
definition MATCH_FMV_X_W :: insn_t where [insn_consts]: "MATCH_FMV_X_W = 0xe0000053"
definition MASK_FMV_X_W :: insn_t where [insn_consts]: "MASK_FMV_X_W = 0xfff0707f"
definition MATCH_FCLASS_S :: insn_t where [insn_consts]: "MATCH_FCLASS_S = 0xe0001053"
definition MASK_FCLASS_S :: insn_t where [insn_consts]: "MASK_FCLASS_S = 0xfff0707f"
definition MATCH_FCVT_W_D :: insn_t where [insn_consts]: "MATCH_FCVT_W_D = 0xc2000053"
definition MASK_FCVT_W_D :: insn_t where [insn_consts]: "MASK_FCVT_W_D = 0xfff0007f"
definition MATCH_FCVT_WU_D :: insn_t where [insn_consts]: "MATCH_FCVT_WU_D = 0xc2100053"
definition MASK_FCVT_WU_D :: insn_t where [insn_consts]: "MASK_FCVT_WU_D = 0xfff0007f"
definition MATCH_FCVT_L_D :: insn_t where [insn_consts]: "MATCH_FCVT_L_D = 0xc2200053"
definition MASK_FCVT_L_D :: insn_t where [insn_consts]: "MASK_FCVT_L_D = 0xfff0007f"
definition MATCH_FCVT_LU_D :: insn_t where [insn_consts]: "MATCH_FCVT_LU_D = 0xc2300053"
definition MASK_FCVT_LU_D :: insn_t where [insn_consts]: "MASK_FCVT_LU_D = 0xfff0007f"
definition MATCH_FMV_X_D :: insn_t where [insn_consts]: "MATCH_FMV_X_D = 0xe2000053"
definition MASK_FMV_X_D :: insn_t where [insn_consts]: "MASK_FMV_X_D = 0xfff0707f"
definition MATCH_FCLASS_D :: insn_t where [insn_consts]: "MATCH_FCLASS_D = 0xe2001053"
definition MASK_FCLASS_D :: insn_t where [insn_consts]: "MASK_FCLASS_D = 0xfff0707f"
definition MATCH_FCVT_W_Q :: insn_t where [insn_consts]: "MATCH_FCVT_W_Q = 0xc6000053"
definition MASK_FCVT_W_Q :: insn_t where [insn_consts]: "MASK_FCVT_W_Q = 0xfff0007f"
definition MATCH_FCVT_WU_Q :: insn_t where [insn_consts]: "MATCH_FCVT_WU_Q = 0xc6100053"
definition MASK_FCVT_WU_Q :: insn_t where [insn_consts]: "MASK_FCVT_WU_Q = 0xfff0007f"
definition MATCH_FCVT_L_Q :: insn_t where [insn_consts]: "MATCH_FCVT_L_Q = 0xc6200053"
definition MASK_FCVT_L_Q :: insn_t where [insn_consts]: "MASK_FCVT_L_Q = 0xfff0007f"
definition MATCH_FCVT_LU_Q :: insn_t where [insn_consts]: "MATCH_FCVT_LU_Q = 0xc6300053"
definition MASK_FCVT_LU_Q :: insn_t where [insn_consts]: "MASK_FCVT_LU_Q = 0xfff0007f"
definition MATCH_FMV_X_Q :: insn_t where [insn_consts]: "MATCH_FMV_X_Q = 0xe6000053"
definition MASK_FMV_X_Q :: insn_t where [insn_consts]: "MASK_FMV_X_Q = 0xfff0707f"
definition MATCH_FCLASS_Q :: insn_t where [insn_consts]: "MATCH_FCLASS_Q = 0xe6001053"
definition MASK_FCLASS_Q :: insn_t where [insn_consts]: "MASK_FCLASS_Q = 0xfff0707f"
definition MATCH_FCVT_S_W :: insn_t where [insn_consts]: "MATCH_FCVT_S_W = 0xd0000053"
definition MASK_FCVT_S_W :: insn_t where [insn_consts]: "MASK_FCVT_S_W = 0xfff0007f"
definition MATCH_FCVT_S_WU :: insn_t where [insn_consts]: "MATCH_FCVT_S_WU = 0xd0100053"
definition MASK_FCVT_S_WU :: insn_t where [insn_consts]: "MASK_FCVT_S_WU = 0xfff0007f"
definition MATCH_FCVT_S_L :: insn_t where [insn_consts]: "MATCH_FCVT_S_L = 0xd0200053"
definition MASK_FCVT_S_L :: insn_t where [insn_consts]: "MASK_FCVT_S_L = 0xfff0007f"
definition MATCH_FCVT_S_LU :: insn_t where [insn_consts]: "MATCH_FCVT_S_LU = 0xd0300053"
definition MASK_FCVT_S_LU :: insn_t where [insn_consts]: "MASK_FCVT_S_LU = 0xfff0007f"
definition MATCH_FMV_W_X :: insn_t where [insn_consts]: "MATCH_FMV_W_X = 0xf0000053"
definition MASK_FMV_W_X :: insn_t where [insn_consts]: "MASK_FMV_W_X = 0xfff0707f"
definition MATCH_FCVT_D_W :: insn_t where [insn_consts]: "MATCH_FCVT_D_W = 0xd2000053"
definition MASK_FCVT_D_W :: insn_t where [insn_consts]: "MASK_FCVT_D_W = 0xfff0007f"
definition MATCH_FCVT_D_WU :: insn_t where [insn_consts]: "MATCH_FCVT_D_WU = 0xd2100053"
definition MASK_FCVT_D_WU :: insn_t where [insn_consts]: "MASK_FCVT_D_WU = 0xfff0007f"
definition MATCH_FCVT_D_L :: insn_t where [insn_consts]: "MATCH_FCVT_D_L = 0xd2200053"
definition MASK_FCVT_D_L :: insn_t where [insn_consts]: "MASK_FCVT_D_L = 0xfff0007f"
definition MATCH_FCVT_D_LU :: insn_t where [insn_consts]: "MATCH_FCVT_D_LU = 0xd2300053"
definition MASK_FCVT_D_LU :: insn_t where [insn_consts]: "MASK_FCVT_D_LU = 0xfff0007f"
definition MATCH_FMV_D_X :: insn_t where [insn_consts]: "MATCH_FMV_D_X = 0xf2000053"
definition MASK_FMV_D_X :: insn_t where [insn_consts]: "MASK_FMV_D_X = 0xfff0707f"
definition MATCH_FCVT_Q_W :: insn_t where [insn_consts]: "MATCH_FCVT_Q_W = 0xd6000053"
definition MASK_FCVT_Q_W :: insn_t where [insn_consts]: "MASK_FCVT_Q_W = 0xfff0007f"
definition MATCH_FCVT_Q_WU :: insn_t where [insn_consts]: "MATCH_FCVT_Q_WU = 0xd6100053"
definition MASK_FCVT_Q_WU :: insn_t where [insn_consts]: "MASK_FCVT_Q_WU = 0xfff0007f"
definition MATCH_FCVT_Q_L :: insn_t where [insn_consts]: "MATCH_FCVT_Q_L = 0xd6200053"
definition MASK_FCVT_Q_L :: insn_t where [insn_consts]: "MASK_FCVT_Q_L = 0xfff0007f"
definition MATCH_FCVT_Q_LU :: insn_t where [insn_consts]: "MATCH_FCVT_Q_LU = 0xd6300053"
definition MASK_FCVT_Q_LU :: insn_t where [insn_consts]: "MASK_FCVT_Q_LU = 0xfff0007f"
definition MATCH_FMV_Q_X :: insn_t where [insn_consts]: "MATCH_FMV_Q_X = 0xf6000053"
definition MASK_FMV_Q_X :: insn_t where [insn_consts]: "MASK_FMV_Q_X = 0xfff0707f"
definition MATCH_FLW :: insn_t where [insn_consts]: "MATCH_FLW = 0x2007"
definition MASK_FLW :: insn_t where [insn_consts]: "MASK_FLW = 0x707f"
definition MATCH_FLD :: insn_t where [insn_consts]: "MATCH_FLD = 0x3007"
definition MASK_FLD :: insn_t where [insn_consts]: "MASK_FLD = 0x707f"
definition MATCH_FLQ :: insn_t where [insn_consts]: "MATCH_FLQ = 0x4007"
definition MASK_FLQ :: insn_t where [insn_consts]: "MASK_FLQ = 0x707f"
definition MATCH_FSW :: insn_t where [insn_consts]: "MATCH_FSW = 0x2027"
definition MASK_FSW :: insn_t where [insn_consts]: "MASK_FSW = 0x707f"
definition MATCH_FSD :: insn_t where [insn_consts]: "MATCH_FSD = 0x3027"
definition MASK_FSD :: insn_t where [insn_consts]: "MASK_FSD = 0x707f"
definition MATCH_FSQ :: insn_t where [insn_consts]: "MATCH_FSQ = 0x4027"
definition MASK_FSQ :: insn_t where [insn_consts]: "MASK_FSQ = 0x707f"
definition MATCH_FMADD_S :: insn_t where [insn_consts]: "MATCH_FMADD_S = 0x43"
definition MASK_FMADD_S :: insn_t where [insn_consts]: "MASK_FMADD_S = 0x600007f"
definition MATCH_FMSUB_S :: insn_t where [insn_consts]: "MATCH_FMSUB_S = 0x47"
definition MASK_FMSUB_S :: insn_t where [insn_consts]: "MASK_FMSUB_S = 0x600007f"
definition MATCH_FNMSUB_S :: insn_t where [insn_consts]: "MATCH_FNMSUB_S = 0x4b"
definition MASK_FNMSUB_S :: insn_t where [insn_consts]: "MASK_FNMSUB_S = 0x600007f"
definition MATCH_FNMADD_S :: insn_t where [insn_consts]: "MATCH_FNMADD_S = 0x4f"
definition MASK_FNMADD_S :: insn_t where [insn_consts]: "MASK_FNMADD_S = 0x600007f"
definition MATCH_FMADD_D :: insn_t where [insn_consts]: "MATCH_FMADD_D = 0x2000043"
definition MASK_FMADD_D :: insn_t where [insn_consts]: "MASK_FMADD_D = 0x600007f"
definition MATCH_FMSUB_D :: insn_t where [insn_consts]: "MATCH_FMSUB_D = 0x2000047"
definition MASK_FMSUB_D :: insn_t where [insn_consts]: "MASK_FMSUB_D = 0x600007f"
definition MATCH_FNMSUB_D :: insn_t where [insn_consts]: "MATCH_FNMSUB_D = 0x200004b"
definition MASK_FNMSUB_D :: insn_t where [insn_consts]: "MASK_FNMSUB_D = 0x600007f"
definition MATCH_FNMADD_D :: insn_t where [insn_consts]: "MATCH_FNMADD_D = 0x200004f"
definition MASK_FNMADD_D :: insn_t where [insn_consts]: "MASK_FNMADD_D = 0x600007f"
definition MATCH_FMADD_Q :: insn_t where [insn_consts]: "MATCH_FMADD_Q = 0x6000043"
definition MASK_FMADD_Q :: insn_t where [insn_consts]: "MASK_FMADD_Q = 0x600007f"
definition MATCH_FMSUB_Q :: insn_t where [insn_consts]: "MATCH_FMSUB_Q = 0x6000047"
definition MASK_FMSUB_Q :: insn_t where [insn_consts]: "MASK_FMSUB_Q = 0x600007f"
definition MATCH_FNMSUB_Q :: insn_t where [insn_consts]: "MATCH_FNMSUB_Q = 0x600004b"
definition MASK_FNMSUB_Q :: insn_t where [insn_consts]: "MASK_FNMSUB_Q = 0x600007f"
definition MATCH_FNMADD_Q :: insn_t where [insn_consts]: "MATCH_FNMADD_Q = 0x600004f"
definition MASK_FNMADD_Q :: insn_t where [insn_consts]: "MASK_FNMADD_Q = 0x600007f"
definition MATCH_C_NOP :: insn_t where [insn_consts]: "MATCH_C_NOP = 0x1"
definition MASK_C_NOP :: insn_t where [insn_consts]: "MASK_C_NOP = 0xffff"
definition MATCH_C_ADDI16SP :: insn_t where [insn_consts]: "MATCH_C_ADDI16SP = 0x6101"
definition MASK_C_ADDI16SP :: insn_t where [insn_consts]: "MASK_C_ADDI16SP = 0xef83"
definition MATCH_C_JR :: insn_t where [insn_consts]: "MATCH_C_JR = 0x8002"
definition MASK_C_JR :: insn_t where [insn_consts]: "MASK_C_JR = 0xf07f"
definition MATCH_C_JALR :: insn_t where [insn_consts]: "MATCH_C_JALR = 0x9002"
definition MASK_C_JALR :: insn_t where [insn_consts]: "MASK_C_JALR = 0xf07f"
definition MATCH_C_EBREAK :: insn_t where [insn_consts]: "MATCH_C_EBREAK = 0x9002"
definition MASK_C_EBREAK :: insn_t where [insn_consts]: "MASK_C_EBREAK = 0xffff"
definition MATCH_C_LD :: insn_t where [insn_consts]: "MATCH_C_LD = 0x6000"
definition MASK_C_LD :: insn_t where [insn_consts]: "MASK_C_LD = 0xe003"
definition MATCH_C_SD :: insn_t where [insn_consts]: "MATCH_C_SD = 0xe000"
definition MASK_C_SD :: insn_t where [insn_consts]: "MASK_C_SD = 0xe003"
definition MATCH_C_ADDIW :: insn_t where [insn_consts]: "MATCH_C_ADDIW = 0x2001"
definition MASK_C_ADDIW :: insn_t where [insn_consts]: "MASK_C_ADDIW = 0xe003"
definition MATCH_C_LDSP :: insn_t where [insn_consts]: "MATCH_C_LDSP = 0x6002"
definition MASK_C_LDSP :: insn_t where [insn_consts]: "MASK_C_LDSP = 0xe003"
definition MATCH_C_SDSP :: insn_t where [insn_consts]: "MATCH_C_SDSP = 0xe002"
definition MASK_C_SDSP :: insn_t where [insn_consts]: "MASK_C_SDSP = 0xe003"
definition MATCH_C_ADDI4SPN :: insn_t where [insn_consts]: "MATCH_C_ADDI4SPN = 0x0"
definition MASK_C_ADDI4SPN :: insn_t where [insn_consts]: "MASK_C_ADDI4SPN = 0xe003"
definition MATCH_C_FLD :: insn_t where [insn_consts]: "MATCH_C_FLD = 0x2000"
definition MASK_C_FLD :: insn_t where [insn_consts]: "MASK_C_FLD = 0xe003"
definition MATCH_C_LW :: insn_t where [insn_consts]: "MATCH_C_LW = 0x4000"
definition MASK_C_LW :: insn_t where [insn_consts]: "MASK_C_LW = 0xe003"
definition MATCH_C_FLW :: insn_t where [insn_consts]: "MATCH_C_FLW = 0x6000"
definition MASK_C_FLW :: insn_t where [insn_consts]: "MASK_C_FLW = 0xe003"
definition MATCH_C_FSD :: insn_t where [insn_consts]: "MATCH_C_FSD = 0xa000"
definition MASK_C_FSD :: insn_t where [insn_consts]: "MASK_C_FSD = 0xe003"
definition MATCH_C_SW :: insn_t where [insn_consts]: "MATCH_C_SW = 0xc000"
definition MASK_C_SW :: insn_t where [insn_consts]: "MASK_C_SW = 0xe003"
definition MATCH_C_FSW :: insn_t where [insn_consts]: "MATCH_C_FSW = 0xe000"
definition MASK_C_FSW :: insn_t where [insn_consts]: "MASK_C_FSW = 0xe003"
definition MATCH_C_ADDI :: insn_t where [insn_consts]: "MATCH_C_ADDI = 0x1"
definition MASK_C_ADDI :: insn_t where [insn_consts]: "MASK_C_ADDI = 0xe003"
definition MATCH_C_JAL :: insn_t where [insn_consts]: "MATCH_C_JAL = 0x2001"
definition MASK_C_JAL :: insn_t where [insn_consts]: "MASK_C_JAL = 0xe003"
definition MATCH_C_LI :: insn_t where [insn_consts]: "MATCH_C_LI = 0x4001"
definition MASK_C_LI :: insn_t where [insn_consts]: "MASK_C_LI = 0xe003"
definition MATCH_C_LUI :: insn_t where [insn_consts]: "MATCH_C_LUI = 0x6001"
definition MASK_C_LUI :: insn_t where [insn_consts]: "MASK_C_LUI = 0xe003"
definition MATCH_C_SRLI :: insn_t where [insn_consts]: "MATCH_C_SRLI = 0x8001"
definition MASK_C_SRLI :: insn_t where [insn_consts]: "MASK_C_SRLI = 0xec03"
definition MATCH_C_SRAI :: insn_t where [insn_consts]: "MATCH_C_SRAI = 0x8401"
definition MASK_C_SRAI :: insn_t where [insn_consts]: "MASK_C_SRAI = 0xec03"
definition MATCH_C_ANDI :: insn_t where [insn_consts]: "MATCH_C_ANDI = 0x8801"
definition MASK_C_ANDI :: insn_t where [insn_consts]: "MASK_C_ANDI = 0xec03"
definition MATCH_C_SUB :: insn_t where [insn_consts]: "MATCH_C_SUB = 0x8c01"
definition MASK_C_SUB :: insn_t where [insn_consts]: "MASK_C_SUB = 0xfc63"
definition MATCH_C_XOR :: insn_t where [insn_consts]: "MATCH_C_XOR = 0x8c21"
definition MASK_C_XOR :: insn_t where [insn_consts]: "MASK_C_XOR = 0xfc63"
definition MATCH_C_OR :: insn_t where [insn_consts]: "MATCH_C_OR = 0x8c41"
definition MASK_C_OR :: insn_t where [insn_consts]: "MASK_C_OR = 0xfc63"
definition MATCH_C_AND :: insn_t where [insn_consts]: "MATCH_C_AND = 0x8c61"
definition MASK_C_AND :: insn_t where [insn_consts]: "MASK_C_AND = 0xfc63"
definition MATCH_C_SUBW :: insn_t where [insn_consts]: "MATCH_C_SUBW = 0x9c01"
definition MASK_C_SUBW :: insn_t where [insn_consts]: "MASK_C_SUBW = 0xfc63"
definition MATCH_C_ADDW :: insn_t where [insn_consts]: "MATCH_C_ADDW = 0x9c21"
definition MASK_C_ADDW :: insn_t where [insn_consts]: "MASK_C_ADDW = 0xfc63"
definition MATCH_C_J :: insn_t where [insn_consts]: "MATCH_C_J = 0xa001"
definition MASK_C_J :: insn_t where [insn_consts]: "MASK_C_J = 0xe003"
definition MATCH_C_BEQZ :: insn_t where [insn_consts]: "MATCH_C_BEQZ = 0xc001"
definition MASK_C_BEQZ :: insn_t where [insn_consts]: "MASK_C_BEQZ = 0xe003"
definition MATCH_C_BNEZ :: insn_t where [insn_consts]: "MATCH_C_BNEZ = 0xe001"
definition MASK_C_BNEZ :: insn_t where [insn_consts]: "MASK_C_BNEZ = 0xe003"
definition MATCH_C_SLLI :: insn_t where [insn_consts]: "MATCH_C_SLLI = 0x2"
definition MASK_C_SLLI :: insn_t where [insn_consts]: "MASK_C_SLLI = 0xe003"
definition MATCH_C_FLDSP :: insn_t where [insn_consts]: "MATCH_C_FLDSP = 0x2002"
definition MASK_C_FLDSP :: insn_t where [insn_consts]: "MASK_C_FLDSP = 0xe003"
definition MATCH_C_LWSP :: insn_t where [insn_consts]: "MATCH_C_LWSP = 0x4002"
definition MASK_C_LWSP :: insn_t where [insn_consts]: "MASK_C_LWSP = 0xe003"
definition MATCH_C_FLWSP :: insn_t where [insn_consts]: "MATCH_C_FLWSP = 0x6002"
definition MASK_C_FLWSP :: insn_t where [insn_consts]: "MASK_C_FLWSP = 0xe003"
definition MATCH_C_MV :: insn_t where [insn_consts]: "MATCH_C_MV = 0x8002"
definition MASK_C_MV :: insn_t where [insn_consts]: "MASK_C_MV = 0xf003"
definition MATCH_C_ADD :: insn_t where [insn_consts]: "MATCH_C_ADD = 0x9002"
definition MASK_C_ADD :: insn_t where [insn_consts]: "MASK_C_ADD = 0xf003"
definition MATCH_C_FSDSP :: insn_t where [insn_consts]: "MATCH_C_FSDSP = 0xa002"
definition MASK_C_FSDSP :: insn_t where [insn_consts]: "MASK_C_FSDSP = 0xe003"
definition MATCH_C_SWSP :: insn_t where [insn_consts]: "MATCH_C_SWSP = 0xc002"
definition MASK_C_SWSP :: insn_t where [insn_consts]: "MASK_C_SWSP = 0xe003"
definition MATCH_C_FSWSP :: insn_t where [insn_consts]: "MATCH_C_FSWSP = 0xe002"
definition MASK_C_FSWSP :: insn_t where [insn_consts]: "MASK_C_FSWSP = 0xe003"
definition MATCH_CUSTOM0 :: insn_t where [insn_consts]: "MATCH_CUSTOM0 = 0xb"
definition MASK_CUSTOM0 :: insn_t where [insn_consts]: "MASK_CUSTOM0 = 0x707f"
definition MATCH_CUSTOM0_RS1 :: insn_t where [insn_consts]: "MATCH_CUSTOM0_RS1 = 0x200b"
definition MASK_CUSTOM0_RS1 :: insn_t where [insn_consts]: "MASK_CUSTOM0_RS1 = 0x707f"
definition MATCH_CUSTOM0_RS1_RS2 :: insn_t where [insn_consts]: "MATCH_CUSTOM0_RS1_RS2 = 0x300b"
definition MASK_CUSTOM0_RS1_RS2 :: insn_t where [insn_consts]: "MASK_CUSTOM0_RS1_RS2 = 0x707f"
definition MATCH_CUSTOM0_RD :: insn_t where [insn_consts]: "MATCH_CUSTOM0_RD = 0x400b"
definition MASK_CUSTOM0_RD :: insn_t where [insn_consts]: "MASK_CUSTOM0_RD = 0x707f"
definition MATCH_CUSTOM0_RD_RS1 :: insn_t where [insn_consts]: "MATCH_CUSTOM0_RD_RS1 = 0x600b"
definition MASK_CUSTOM0_RD_RS1 :: insn_t where [insn_consts]: "MASK_CUSTOM0_RD_RS1 = 0x707f"
definition MATCH_CUSTOM0_RD_RS1_RS2 :: insn_t where [insn_consts]: "MATCH_CUSTOM0_RD_RS1_RS2 = 0x700b"
definition MASK_CUSTOM0_RD_RS1_RS2 :: insn_t where [insn_consts]: "MASK_CUSTOM0_RD_RS1_RS2 = 0x707f"
definition MATCH_CUSTOM1 :: insn_t where [insn_consts]: "MATCH_CUSTOM1 = 0x2b"
definition MASK_CUSTOM1 :: insn_t where [insn_consts]: "MASK_CUSTOM1 = 0x707f"
definition MATCH_CUSTOM1_RS1 :: insn_t where [insn_consts]: "MATCH_CUSTOM1_RS1 = 0x202b"
definition MASK_CUSTOM1_RS1 :: insn_t where [insn_consts]: "MASK_CUSTOM1_RS1 = 0x707f"
definition MATCH_CUSTOM1_RS1_RS2 :: insn_t where [insn_consts]: "MATCH_CUSTOM1_RS1_RS2 = 0x302b"
definition MASK_CUSTOM1_RS1_RS2 :: insn_t where [insn_consts]: "MASK_CUSTOM1_RS1_RS2 = 0x707f"
definition MATCH_CUSTOM1_RD :: insn_t where [insn_consts]: "MATCH_CUSTOM1_RD = 0x402b"
definition MASK_CUSTOM1_RD :: insn_t where [insn_consts]: "MASK_CUSTOM1_RD = 0x707f"
definition MATCH_CUSTOM1_RD_RS1 :: insn_t where [insn_consts]: "MATCH_CUSTOM1_RD_RS1 = 0x602b"
definition MASK_CUSTOM1_RD_RS1 :: insn_t where [insn_consts]: "MASK_CUSTOM1_RD_RS1 = 0x707f"
definition MATCH_CUSTOM1_RD_RS1_RS2 :: insn_t where [insn_consts]: "MATCH_CUSTOM1_RD_RS1_RS2 = 0x702b"
definition MASK_CUSTOM1_RD_RS1_RS2 :: insn_t where [insn_consts]: "MASK_CUSTOM1_RD_RS1_RS2 = 0x707f"
definition MATCH_CUSTOM2 :: insn_t where [insn_consts]: "MATCH_CUSTOM2 = 0x5b"
definition MASK_CUSTOM2 :: insn_t where [insn_consts]: "MASK_CUSTOM2 = 0x707f"
definition MATCH_CUSTOM2_RS1 :: insn_t where [insn_consts]: "MATCH_CUSTOM2_RS1 = 0x205b"
definition MASK_CUSTOM2_RS1 :: insn_t where [insn_consts]: "MASK_CUSTOM2_RS1 = 0x707f"
definition MATCH_CUSTOM2_RS1_RS2 :: insn_t where [insn_consts]: "MATCH_CUSTOM2_RS1_RS2 = 0x305b"
definition MASK_CUSTOM2_RS1_RS2 :: insn_t where [insn_consts]: "MASK_CUSTOM2_RS1_RS2 = 0x707f"
definition MATCH_CUSTOM2_RD :: insn_t where [insn_consts]: "MATCH_CUSTOM2_RD = 0x405b"
definition MASK_CUSTOM2_RD :: insn_t where [insn_consts]: "MASK_CUSTOM2_RD = 0x707f"
definition MATCH_CUSTOM2_RD_RS1 :: insn_t where [insn_consts]: "MATCH_CUSTOM2_RD_RS1 = 0x605b"
definition MASK_CUSTOM2_RD_RS1 :: insn_t where [insn_consts]: "MASK_CUSTOM2_RD_RS1 = 0x707f"
definition MATCH_CUSTOM2_RD_RS1_RS2 :: insn_t where [insn_consts]: "MATCH_CUSTOM2_RD_RS1_RS2 = 0x705b"
definition MASK_CUSTOM2_RD_RS1_RS2 :: insn_t where [insn_consts]: "MASK_CUSTOM2_RD_RS1_RS2 = 0x707f"
definition MATCH_CUSTOM3 :: insn_t where [insn_consts]: "MATCH_CUSTOM3 = 0x7b"
definition MASK_CUSTOM3 :: insn_t where [insn_consts]: "MASK_CUSTOM3 = 0x707f"
definition MATCH_CUSTOM3_RS1 :: insn_t where [insn_consts]: "MATCH_CUSTOM3_RS1 = 0x207b"
definition MASK_CUSTOM3_RS1 :: insn_t where [insn_consts]: "MASK_CUSTOM3_RS1 = 0x707f"
definition MATCH_CUSTOM3_RS1_RS2 :: insn_t where [insn_consts]: "MATCH_CUSTOM3_RS1_RS2 = 0x307b"
definition MASK_CUSTOM3_RS1_RS2 :: insn_t where [insn_consts]: "MASK_CUSTOM3_RS1_RS2 = 0x707f"
definition MATCH_CUSTOM3_RD :: insn_t where [insn_consts]: "MATCH_CUSTOM3_RD = 0x407b"
definition MASK_CUSTOM3_RD :: insn_t where [insn_consts]: "MASK_CUSTOM3_RD = 0x707f"
definition MATCH_CUSTOM3_RD_RS1 :: insn_t where [insn_consts]: "MATCH_CUSTOM3_RD_RS1 = 0x607b"
definition MASK_CUSTOM3_RD_RS1 :: insn_t where [insn_consts]: "MASK_CUSTOM3_RD_RS1 = 0x707f"
definition MATCH_CUSTOM3_RD_RS1_RS2 :: insn_t where [insn_consts]: "MATCH_CUSTOM3_RD_RS1_RS2 = 0x707b"
definition MASK_CUSTOM3_RD_RS1_RS2 :: insn_t where [insn_consts]: "MASK_CUSTOM3_RD_RS1_RS2 = 0x707f"

section \<open>DECLARE_INSN\<close>

type_synonym insn_row = "string \<times> insn_t \<times> insn_t"

definition declared_insns_1 :: "insn_row list" where
  "declared_insns_1 = [
     (''beq'', MATCH_BEQ, MASK_BEQ),
     (''bne'', MATCH_BNE, MASK_BNE),
     (''blt'', MATCH_BLT, MASK_BLT),
     (''bge'', MATCH_BGE, MASK_BGE),
     (''bltu'', MATCH_BLTU, MASK_BLTU),
     (''bgeu'', MATCH_BGEU, MASK_BGEU),
     (''jalr'', MATCH_JALR, MASK_JALR),
     (''jal'', MATCH_JAL, MASK_JAL),
     (''lui'', MATCH_LUI, MASK_LUI),
     (''auipc'', MATCH_AUIPC, MASK_AUIPC),
     (''addi'', MATCH_ADDI, MASK_ADDI),
     (''slli'', MATCH_SLLI, MASK_SLLI),
     (''slti'', MATCH_SLTI, MASK_SLTI),
     (''sltiu'', MATCH_SLTIU, MASK_SLTIU),
     (''xori'', MATCH_XORI, MASK_XORI),
     (''srli'', MATCH_SRLI, MASK_SRLI),
     (''srai'', MATCH_SRAI, MASK_SRAI),
     (''ori'', MATCH_ORI, MASK_ORI),
     (''andi'', MATCH_ANDI, MASK_ANDI),
     (''add'', MATCH_ADD, MASK_ADD),
     (''sub'', MATCH_SUB, MASK_SUB),
     (''sll'', MATCH_SLL, MASK_SLL),
     (''slt'', MATCH_SLT, MASK_SLT),
     (''sltu'', MATCH_SLTU, MASK_SLTU),
     (''xor'', MATCH_XOR, MASK_XOR),
     (''srl'', MATCH_SRL, MASK_SRL),
     (''sra'', MATCH_SRA, MASK_SRA),
     (''or'', MATCH_OR, MASK_OR),
     (''and'', MATCH_AND, MASK_AND),
     (''addiw'', MATCH_ADDIW, MASK_ADDIW),
     (''slliw'', MATCH_SLLIW, MASK_SLLIW),
     (''srliw'', MATCH_SRLIW, MASK_SRLIW),
     (''sraiw'', MATCH_SRAIW, MASK_SRAIW),
     (''addw'', MATCH_ADDW, MASK_ADDW),
     (''subw'', MATCH_SUBW, MASK_SUBW),
     (''sllw'', MATCH_SLLW, MASK_SLLW),
     (''srlw'', MATCH_SRLW, MASK_SRLW),
     (''sraw'', MATCH_SRAW, MASK_SRAW),
     (''lb'', MATCH_LB, MASK_LB),
     (''lh'', MATCH_LH, MASK_LH),
     (''lw'', MATCH_LW, MASK_LW),
     (''ld'', MATCH_LD, MASK_LD),
     (''lbu'', MATCH_LBU, MASK_LBU),
     (''lhu'', MATCH_LHU, MASK_LHU),
     (''lwu'', MATCH_LWU, MASK_LWU),
     (''sb'', MATCH_SB, MASK_SB),
     (''sh'', MATCH_SH, MASK_SH),
     (''sw'', MATCH_SW, MASK_SW),
     (''sd'', MATCH_SD, MASK_SD),
     (''fence'', MATCH_FENCE, MASK_FENCE),
     (''fence_i'', MATCH_FENCE_I, MASK_FENCE_I),
     (''mul'', MATCH_MUL, MASK_MUL),
     (''mulh'', MATCH_MULH, MASK_MULH),
     (''mulhsu'', MATCH_MULHSU, MASK_MULHSU),
     (''mulhu'', MATCH_MULHU, MASK_MULHU),
     (''div'', MATCH_DIV, MASK_DIV),
     (''divu'', MATCH_DIVU, MASK_DIVU),
     (''rem'', MATCH_REM, MASK_REM),
     (''remu'', MATCH_REMU, MASK_REMU),
     (''mulw'', MATCH_MULW, MASK_MULW),
     (''divw'', MATCH_DIVW, MASK_DIVW),
     (''divuw'', MATCH_DIVUW, MASK_DIVUW),
     (''remw'', MATCH_REMW, MASK_REMW),
     (''remuw'', MATCH_REMUW, MASK_REMUW),
     (''amoadd_w'', MATCH_AMOADD_W, MASK_AMOADD_W),
     (''amoxor_w'', MATCH_AMOXOR_W, MASK_AMOXOR_W)]"

definition declared_insns_2 :: "insn_row list" where
  "declared_insns_2 = [
     (''amoor_w'', MATCH_AMOOR_W, MASK_AMOOR_W),
     (''amoand_w'', MATCH_AMOAND_W, MASK_AMOAND_W),
     (''amomin_w'', MATCH_AMOMIN_W, MASK_AMOMIN_W),
     (''amomax_w'', MATCH_AMOMAX_W, MASK_AMOMAX_W),
     (''amominu_w'', MATCH_AMOMINU_W, MASK_AMOMINU_W),
     (''amomaxu_w'', MATCH_AMOMAXU_W, MASK_AMOMAXU_W),
     (''amoswap_w'', MATCH_AMOSWAP_W, MASK_AMOSWAP_W),
     (''lr_w'', MATCH_LR_W, MASK_LR_W),
     (''sc_w'', MATCH_SC_W, MASK_SC_W),
     (''amoadd_d'', MATCH_AMOADD_D, MASK_AMOADD_D),
     (''amoxor_d'', MATCH_AMOXOR_D, MASK_AMOXOR_D),
     (''amoor_d'', MATCH_AMOOR_D, MASK_AMOOR_D),
     (''amoand_d'', MATCH_AMOAND_D, MASK_AMOAND_D),
     (''amomin_d'', MATCH_AMOMIN_D, MASK_AMOMIN_D),
     (''amomax_d'', MATCH_AMOMAX_D, MASK_AMOMAX_D),
     (''amominu_d'', MATCH_AMOMINU_D, MASK_AMOMINU_D),
     (''amomaxu_d'', MATCH_AMOMAXU_D, MASK_AMOMAXU_D),
     (''amoswap_d'', MATCH_AMOSWAP_D, MASK_AMOSWAP_D),
     (''lr_d'', MATCH_LR_D, MASK_LR_D),
     (''sc_d'', MATCH_SC_D, MASK_SC_D),
     (''ecall'', MATCH_ECALL, MASK_ECALL),
     (''ebreak'', MATCH_EBREAK, MASK_EBREAK),
     (''uret'', MATCH_URET, MASK_URET),
     (''sret'', MATCH_SRET, MASK_SRET),
     (''mret'', MATCH_MRET, MASK_MRET),
     (''dret'', MATCH_DRET, MASK_DRET),
     (''sfence_vma'', MATCH_SFENCE_VMA, MASK_SFENCE_VMA),
     (''wfi'', MATCH_WFI, MASK_WFI),
     (''csrrw'', MATCH_CSRRW, MASK_CSRRW),
     (''csrrs'', MATCH_CSRRS, MASK_CSRRS),
     (''csrrc'', MATCH_CSRRC, MASK_CSRRC),
     (''csrrwi'', MATCH_CSRRWI, MASK_CSRRWI),
     (''csrrsi'', MATCH_CSRRSI, MASK_CSRRSI),
     (''csrrci'', MATCH_CSRRCI, MASK_CSRRCI),
     (''fadd_s'', MATCH_FADD_S, MASK_FADD_S),
     (''fsub_s'', MATCH_FSUB_S, MASK_FSUB_S),
     (''fmul_s'', MATCH_FMUL_S, MASK_FMUL_S),
     (''fdiv_s'', MATCH_FDIV_S, MASK_FDIV_S),
     (''fsgnj_s'', MATCH_FSGNJ_S, MASK_FSGNJ_S),
     (''fsgnjn_s'', MATCH_FSGNJN_S, MASK_FSGNJN_S),
     (''fsgnjx_s'', MATCH_FSGNJX_S, MASK_FSGNJX_S),
     (''fmin_s'', MATCH_FMIN_S, MASK_FMIN_S),
     (''fmax_s'', MATCH_FMAX_S, MASK_FMAX_S),
     (''fsqrt_s'', MATCH_FSQRT_S, MASK_FSQRT_S),
     (''fadd_d'', MATCH_FADD_D, MASK_FADD_D),
     (''fsub_d'', MATCH_FSUB_D, MASK_FSUB_D),
     (''fmul_d'', MATCH_FMUL_D, MASK_FMUL_D),
     (''fdiv_d'', MATCH_FDIV_D, MASK_FDIV_D),
     (''fsgnj_d'', MATCH_FSGNJ_D, MASK_FSGNJ_D),
     (''fsgnjn_d'', MATCH_FSGNJN_D, MASK_FSGNJN_D),
     (''fsgnjx_d'', MATCH_FSGNJX_D, MASK_FSGNJX_D),
     (''fmin_d'', MATCH_FMIN_D, MASK_FMIN_D),
     (''fmax_d'', MATCH_FMAX_D, MASK_FMAX_D),
     (''fcvt_s_d'', MATCH_FCVT_S_D, MASK_FCVT_S_D),
     (''fcvt_d_s'', MATCH_FCVT_D_S, MASK_FCVT_D_S),
     (''fsqrt_d'', MATCH_FSQRT_D, MASK_FSQRT_D),
     (''fadd_q'', MATCH_FADD_Q, MASK_FADD_Q),
     (''fsub_q'', MATCH_FSUB_Q, MASK_FSUB_Q),
     (''fmul_q'', MATCH_FMUL_Q, MASK_FMUL_Q),
     (''fdiv_q'', MATCH_FDIV_Q, MASK_FDIV_Q),
     (''fsgnj_q'', MATCH_FSGNJ_Q, MASK_FSGNJ_Q),
     (''fsgnjn_q'', MATCH_FSGNJN_Q, MASK_FSGNJN_Q),
     (''fsgnjx_q'', MATCH_FSGNJX_Q, MASK_FSGNJX_Q),
     (''fmin_q'', MATCH_FMIN_Q, MASK_FMIN_Q),
     (''fmax_q'', MATCH_FMAX_Q, MASK_FMAX_Q),
     (''fcvt_s_q'', MATCH_FCVT_S_Q, MASK_FCVT_S_Q)]"

definition declared_insns_3 :: "insn_row list" where
  "declared_insns_3 = [
     (''fcvt_q_s'', MATCH_FCVT_Q_S, MASK_FCVT_Q_S),
     (''fcvt_d_q'', MATCH_FCVT_D_Q, MASK_FCVT_D_Q),
     (''fcvt_q_d'', MATCH_FCVT_Q_D, MASK_FCVT_Q_D),
     (''fsqrt_q'', MATCH_FSQRT_Q, MASK_FSQRT_Q),
     (''fle_s'', MATCH_FLE_S, MASK_FLE_S),
     (''flt_s'', MATCH_FLT_S, MASK_FLT_S),
     (''feq_s'', MATCH_FEQ_S, MASK_FEQ_S),
     (''fle_d'', MATCH_FLE_D, MASK_FLE_D),
     (''flt_d'', MATCH_FLT_D, MASK_FLT_D),
     (''feq_d'', MATCH_FEQ_D, MASK_FEQ_D),
     (''fle_q'', MATCH_FLE_Q, MASK_FLE_Q),
     (''flt_q'', MATCH_FLT_Q, MASK_FLT_Q),
     (''feq_q'', MATCH_FEQ_Q, MASK_FEQ_Q),
     (''fcvt_w_s'', MATCH_FCVT_W_S, MASK_FCVT_W_S),
     (''fcvt_wu_s'', MATCH_FCVT_WU_S, MASK_FCVT_WU_S),
     (''fcvt_l_s'', MATCH_FCVT_L_S, MASK_FCVT_L_S),
     (''fcvt_lu_s'', MATCH_FCVT_LU_S, MASK_FCVT_LU_S),
     (''fmv_x_w'', MATCH_FMV_X_W, MASK_FMV_X_W),
     (''fclass_s'', MATCH_FCLASS_S, MASK_FCLASS_S),
     (''fcvt_w_d'', MATCH_FCVT_W_D, MASK_FCVT_W_D),
     (''fcvt_wu_d'', MATCH_FCVT_WU_D, MASK_FCVT_WU_D),
     (''fcvt_l_d'', MATCH_FCVT_L_D, MASK_FCVT_L_D),
     (''fcvt_lu_d'', MATCH_FCVT_LU_D, MASK_FCVT_LU_D),
     (''fmv_x_d'', MATCH_FMV_X_D, MASK_FMV_X_D),
     (''fclass_d'', MATCH_FCLASS_D, MASK_FCLASS_D),
     (''fcvt_w_q'', MATCH_FCVT_W_Q, MASK_FCVT_W_Q),
     (''fcvt_wu_q'', MATCH_FCVT_WU_Q, MASK_FCVT_WU_Q),
     (''fcvt_l_q'', MATCH_FCVT_L_Q, MASK_FCVT_L_Q),
     (''fcvt_lu_q'', MATCH_FCVT_LU_Q, MASK_FCVT_LU_Q),
     (''fmv_x_q'', MATCH_FMV_X_Q, MASK_FMV_X_Q),
     (''fclass_q'', MATCH_FCLASS_Q, MASK_FCLASS_Q),
     (''fcvt_s_w'', MATCH_FCVT_S_W, MASK_FCVT_S_W),
     (''fcvt_s_wu'', MATCH_FCVT_S_WU, MASK_FCVT_S_WU),
     (''fcvt_s_l'', MATCH_FCVT_S_L, MASK_FCVT_S_L),
     (''fcvt_s_lu'', MATCH_FCVT_S_LU, MASK_FCVT_S_LU),
     (''fmv_w_x'', MATCH_FMV_W_X, MASK_FMV_W_X),
     (''fcvt_d_w'', MATCH_FCVT_D_W, MASK_FCVT_D_W),
     (''fcvt_d_wu'', MATCH_FCVT_D_WU, MASK_FCVT_D_WU),
     (''fcvt_d_l'', MATCH_FCVT_D_L, MASK_FCVT_D_L),
     (''fcvt_d_lu'', MATCH_FCVT_D_LU, MASK_FCVT_D_LU),
     (''fmv_d_x'', MATCH_FMV_D_X, MASK_FMV_D_X),
     (''fcvt_q_w'', MATCH_FCVT_Q_W, MASK_FCVT_Q_W),
     (''fcvt_q_wu'', MATCH_FCVT_Q_WU, MASK_FCVT_Q_WU),
     (''fcvt_q_l'', MATCH_FCVT_Q_L, MASK_FCVT_Q_L),
     (''fcvt_q_lu'', MATCH_FCVT_Q_LU, MASK_FCVT_Q_LU),
     (''fmv_q_x'', MATCH_FMV_Q_X, MASK_FMV_Q_X),
     (''flw'', MATCH_FLW, MASK_FLW),
     (''fld'', MATCH_FLD, MASK_FLD),
     (''flq'', MATCH_FLQ, MASK_FLQ),
     (''fsw'', MATCH_FSW, MASK_FSW),
     (''fsd'', MATCH_FSD, MASK_FSD),
     (''fsq'', MATCH_FSQ, MASK_FSQ),
     (''fmadd_s'', MATCH_FMADD_S, MASK_FMADD_S),
     (''fmsub_s'', MATCH_FMSUB_S, MASK_FMSUB_S),
     (''fnmsub_s'', MATCH_FNMSUB_S, MASK_FNMSUB_S),
     (''fnmadd_s'', MATCH_FNMADD_S, MASK_FNMADD_S),
     (''fmadd_d'', MATCH_FMADD_D, MASK_FMADD_D),
     (''fmsub_d'', MATCH_FMSUB_D, MASK_FMSUB_D),
     (''fnmsub_d'', MATCH_FNMSUB_D, MASK_FNMSUB_D),
     (''fnmadd_d'', MATCH_FNMADD_D, MASK_FNMADD_D),
     (''fmadd_q'', MATCH_FMADD_Q, MASK_FMADD_Q),
     (''fmsub_q'', MATCH_FMSUB_Q, MASK_FMSUB_Q),
     (''fnmsub_q'', MATCH_FNMSUB_Q, MASK_FNMSUB_Q),
     (''fnmadd_q'', MATCH_FNMADD_Q, MASK_FNMADD_Q),
     (''c_nop'', MATCH_C_NOP, MASK_C_NOP),
     (''c_addi16sp'', MATCH_C_ADDI16SP, MASK_C_ADDI16SP)]"

definition declared_insns_4 :: "insn_row list" where
  "declared_insns_4 = [
     (''c_jr'', MATCH_C_JR, MASK_C_JR),
     (''c_jalr'', MATCH_C_JALR, MASK_C_JALR),
     (''c_ebreak'', MATCH_C_EBREAK, MASK_C_EBREAK),
     (''c_ld'', MATCH_C_LD, MASK_C_LD),
     (''c_sd'', MATCH_C_SD, MASK_C_SD),
     (''c_addiw'', MATCH_C_ADDIW, MASK_C_ADDIW),
     (''c_ldsp'', MATCH_C_LDSP, MASK_C_LDSP),
     (''c_sdsp'', MATCH_C_SDSP, MASK_C_SDSP),
     (''c_addi4spn'', MATCH_C_ADDI4SPN, MASK_C_ADDI4SPN),
     (''c_fld'', MATCH_C_FLD, MASK_C_FLD),
     (''c_lw'', MATCH_C_LW, MASK_C_LW),
     (''c_flw'', MATCH_C_FLW, MASK_C_FLW),
     (''c_fsd'', MATCH_C_FSD, MASK_C_FSD),
     (''c_sw'', MATCH_C_SW, MASK_C_SW),
     (''c_fsw'', MATCH_C_FSW, MASK_C_FSW),
     (''c_addi'', MATCH_C_ADDI, MASK_C_ADDI),
     (''c_jal'', MATCH_C_JAL, MASK_C_JAL),
     (''c_li'', MATCH_C_LI, MASK_C_LI),
     (''c_lui'', MATCH_C_LUI, MASK_C_LUI),
     (''c_srli'', MATCH_C_SRLI, MASK_C_SRLI),
     (''c_srai'', MATCH_C_SRAI, MASK_C_SRAI),
     (''c_andi'', MATCH_C_ANDI, MASK_C_ANDI),
     (''c_sub'', MATCH_C_SUB, MASK_C_SUB),
     (''c_xor'', MATCH_C_XOR, MASK_C_XOR),
     (''c_or'', MATCH_C_OR, MASK_C_OR),
     (''c_and'', MATCH_C_AND, MASK_C_AND),
     (''c_subw'', MATCH_C_SUBW, MASK_C_SUBW),
     (''c_addw'', MATCH_C_ADDW, MASK_C_ADDW),
     (''c_j'', MATCH_C_J, MASK_C_J),
     (''c_beqz'', MATCH_C_BEQZ, MASK_C_BEQZ),
     (''c_bnez'', MATCH_C_BNEZ, MASK_C_BNEZ),
     (''c_slli'', MATCH_C_SLLI, MASK_C_SLLI),
     (''c_fldsp'', MATCH_C_FLDSP, MASK_C_FLDSP),
     (''c_lwsp'', MATCH_C_LWSP, MASK_C_LWSP),
     (''c_flwsp'', MATCH_C_FLWSP, MASK_C_FLWSP),
     (''c_mv'', MATCH_C_MV, MASK_C_MV),
     (''c_add'', MATCH_C_ADD, MASK_C_ADD),
     (''c_fsdsp'', MATCH_C_FSDSP, MASK_C_FSDSP),
     (''c_swsp'', MATCH_C_SWSP, MASK_C_SWSP),
     (''c_fswsp'', MATCH_C_FSWSP, MASK_C_FSWSP),
     (''custom0'', MATCH_CUSTOM0, MASK_CUSTOM0),
     (''custom0_rs1'', MATCH_CUSTOM0_RS1, MASK_CUSTOM0_RS1),
     (''custom0_rs1_rs2'', MATCH_CUSTOM0_RS1_RS2, MASK_CUSTOM0_RS1_RS2),
     (''custom0_rd'', MATCH_CUSTOM0_RD, MASK_CUSTOM0_RD),
     (''custom0_rd_rs1'', MATCH_CUSTOM0_RD_RS1, MASK_CUSTOM0_RD_RS1),
     (''custom0_rd_rs1_rs2'', MATCH_CUSTOM0_RD_RS1_RS2, MASK_CUSTOM0_RD_RS1_RS2),
     (''custom1'', MATCH_CUSTOM1, MASK_CUSTOM1),
     (''custom1_rs1'', MATCH_CUSTOM1_RS1, MASK_CUSTOM1_RS1),
     (''custom1_rs1_rs2'', MATCH_CUSTOM1_RS1_RS2, MASK_CUSTOM1_RS1_RS2),
     (''custom1_rd'', MATCH_CUSTOM1_RD, MASK_CUSTOM1_RD),
     (''custom1_rd_rs1'', MATCH_CUSTOM1_RD_RS1, MASK_CUSTOM1_RD_RS1),
     (''custom1_rd_rs1_rs2'', MATCH_CUSTOM1_RD_RS1_RS2, MASK_CUSTOM1_RD_RS1_RS2),
     (''custom2'', MATCH_CUSTOM2, MASK_CUSTOM2),
     (''custom2_rs1'', MATCH_CUSTOM2_RS1, MASK_CUSTOM2_RS1),
     (''custom2_rs1_rs2'', MATCH_CUSTOM2_RS1_RS2, MASK_CUSTOM2_RS1_RS2),
     (''custom2_rd'', MATCH_CUSTOM2_RD, MASK_CUSTOM2_RD),
     (''custom2_rd_rs1'', MATCH_CUSTOM2_RD_RS1, MASK_CUSTOM2_RD_RS1),
     (''custom2_rd_rs1_rs2'', MATCH_CUSTOM2_RD_RS1_RS2, MASK_CUSTOM2_RD_RS1_RS2),
     (''custom3'', MATCH_CUSTOM3, MASK_CUSTOM3),
     (''custom3_rs1'', MATCH_CUSTOM3_RS1, MASK_CUSTOM3_RS1),
     (''custom3_rs1_rs2'', MATCH_CUSTOM3_RS1_RS2, MASK_CUSTOM3_RS1_RS2),
     (''custom3_rd'', MATCH_CUSTOM3_RD, MASK_CUSTOM3_RD),
     (''custom3_rd_rs1'', MATCH_CUSTOM3_RD_RS1, MASK_CUSTOM3_RD_RS1),
     (''custom3_rd_rs1_rs2'', MATCH_CUSTOM3_RD_RS1_RS2, MASK_CUSTOM3_RD_RS1_RS2)]"

definition declared_insns :: "insn_row list" where
  "declared_insns = declared_insns_1 @ declared_insns_2 @ declared_insns_3 @ declared_insns_4"

section \<open>Registered instructions\<close>

definition riscv_insn_list_1 :: "string list" where
  "riscv_insn_list_1 = [
     ''add'', ''addi'', ''addiw'', ''addw'', ''amoadd_d'', ''amoadd_w'',
     ''amoand_d'', ''amoand_w'', ''amomax_d'', ''amomaxu_d'', ''amomaxu_w'', ''amomax_w'',
     ''amomin_d'', ''amominu_d'', ''amominu_w'', ''amomin_w'', ''amoor_d'', ''amoor_w'',
     ''amoswap_d'', ''amoswap_w'', ''amoxor_d'', ''amoxor_w'', ''and'', ''andi'',
     ''auipc'', ''beq'', ''bge'', ''bgeu'', ''blt'', ''bltu'',
     ''bne'', ''c_add'', ''c_addi4spn'', ''c_addi'', ''c_addw'', ''c_and'',
     ''c_andi'', ''c_beqz'', ''c_bnez'', ''c_ebreak'', ''c_fld'', ''c_fldsp'',
     ''c_flw'', ''c_flwsp'', ''c_fsd'', ''c_fsdsp'', ''c_fsw'', ''c_fswsp'',
     ''c_jal'', ''c_jalr'', ''c_j'', ''c_jr'', ''c_li'', ''c_lui'',
     ''c_lw'', ''c_lwsp'', ''c_mv'', ''c_or'', ''c_slli'', ''c_srai'',
     ''c_srli'', ''c_sub'', ''c_subw'', ''c_xor'', ''csrrc'', ''csrrci'',
     ''csrrs'', ''csrrsi'', ''csrrw'', ''csrrwi'', ''c_sw'', ''c_swsp'',
     ''div'', ''divu'', ''divuw'', ''divw'', ''dret'', ''ebreak'',
     ''ecall'', ''fadd_d'', ''fadd_q'', ''fadd_s'', ''fclass_d'', ''fclass_q'',
     ''fclass_s'', ''fcvt_d_l'', ''fcvt_d_lu'', ''fcvt_d_q'', ''fcvt_d_s'', ''fcvt_d_w'',
     ''fcvt_d_wu'', ''fcvt_l_d'', ''fcvt_l_q'', ''fcvt_l_s'', ''fcvt_lu_d'', ''fcvt_lu_q'',
     ''fcvt_lu_s'', ''fcvt_q_d'', ''fcvt_q_l'', ''fcvt_q_lu'', ''fcvt_q_s'', ''fcvt_q_w'',
     ''fcvt_q_wu'', ''fcvt_s_d'', ''fcvt_s_l'', ''fcvt_s_lu'', ''fcvt_s_q'', ''fcvt_s_w'',
     ''fcvt_s_wu'', ''fcvt_w_d'', ''fcvt_w_q'', ''fcvt_w_s'', ''fcvt_wu_d'', ''fcvt_wu_q'']"

definition riscv_insn_list_2 :: "string list" where
  "riscv_insn_list_2 = [
     ''fcvt_wu_s'', ''fdiv_d'', ''fdiv_q'', ''fdiv_s'', ''fence'', ''fence_i'',
     ''feq_d'', ''feq_q'', ''feq_s'', ''fld'', ''fle_d'', ''fle_q'',
     ''fle_s'', ''flq'', ''flt_d'', ''flt_q'', ''flt_s'', ''flw'',
     ''fmadd_d'', ''fmadd_q'', ''fmadd_s'', ''fmax_d'', ''fmax_q'', ''fmax_s'',
     ''fmin_d'', ''fmin_q'', ''fmin_s'', ''fmsub_d'', ''fmsub_q'', ''fmsub_s'',
     ''fmul_d'', ''fmul_q'', ''fmul_s'', ''fmv_d_x'', ''fmv_w_x'', ''fmv_x_d'',
     ''fmv_x_w'', ''fnmadd_d'', ''fnmadd_q'', ''fnmadd_s'', ''fnmsub_d'', ''fnmsub_q'',
     ''fnmsub_s'', ''fsd'', ''fsgnj_d'', ''fsgnj_q'', ''fsgnjn_d'', ''fsgnjn_q'',
     ''fsgnjn_s'', ''fsgnj_s'', ''fsgnjx_d'', ''fsgnjx_q'', ''fsgnjx_s'', ''fsq'',
     ''fsqrt_d'', ''fsqrt_q'', ''fsqrt_s'', ''fsub_d'', ''fsub_q'', ''fsub_s'',
     ''fsw'', ''jal'', ''jalr'', ''lb'', ''lbu'', ''ld'',
     ''lh'', ''lhu'', ''lr_d'', ''lr_w'', ''lui'', ''lw'',
     ''lwu'', ''mret'', ''mul'', ''mulh'', ''mulhsu'', ''mulhu'',
     ''mulw'', ''or'', ''ori'', ''rem'', ''remu'', ''remuw'',
     ''remw'', ''sb'', ''sc_d'', ''sc_w'', ''sd'', ''sfence_vma'',
     ''sh'', ''sll'', ''slli'', ''slliw'', ''sllw'', ''slt'',
     ''slti'', ''sltiu'', ''sltu'', ''sra'', ''srai'', ''sraiw'',
     ''sraw'', ''sret'', ''srl'', ''srli'', ''srliw'', ''srlw'',
     ''sub'', ''subw'', ''sw'', ''wfi'', ''xor'', ''xori'']"

definition riscv_insn_list :: "string list" where
  "riscv_insn_list = riscv_insn_list_1 @ riscv_insn_list_2"

section \<open>Encodings with different match values do not overlap\<close>

text \<open>
  A row \<open>(match, mask)\<close> accepts a word when \<open>bits & mask == match\<close>.  The check walks a tree
  of bit tests: at \<open>Split i\<close> the rows that a word with bit \<open>i\<close> clear (set) can still satisfy
  are checked on the left (right), and at \<open>Done\<close> all remaining rows have the same match
  value.
\<close>

definition row_accepts :: "insn_t \<times> insn_t \<Rightarrow> insn_t \<Rightarrow> bool" where
  "row_accepts r b \<longleftrightarrow> b AND snd r = fst r"

datatype split = Done | Split nat split split

datatype rows = Empty | Row insn_row "bool list" "bool list" | Rows rows rows

fun join_rows :: "rows \<Rightarrow> rows \<Rightarrow> rows" where
  "join_rows Empty t = t"
| "join_rows t Empty = t"
| "join_rows s t = Rows s t"

fun with_bit :: "nat \<Rightarrow> bool \<Rightarrow> rows \<Rightarrow> rows" where
  "with_bit i c Empty = Empty"
| "with_bit i c (Row r ms ks) = (if ks ! i then if ms ! i = c then Row r ms ks else Empty else Row r ms ks)"
| "with_bit i c (Rows s t) = join_rows (with_bit i c s) (with_bit i c t)"

fun flat :: "rows \<Rightarrow> insn_row list \<Rightarrow> insn_row list" where
  "flat Empty acc = acc"
| "flat (Row r _ _) acc = r # acc"
| "flat (Rows s t) acc = flat s (flat t acc)"

definition same_match :: "insn_row list \<Rightarrow> bool" where
  "same_match rs = (case rs of [] \<Rightarrow> True
     | r # rs' \<Rightarrow> list_all (\<lambda>r'. fst (snd r') = fst (snd r)) rs')"

fun split_check :: "split \<Rightarrow> rows \<Rightarrow> bool" where
  "split_check Done t = same_match (flat t [])"
| "split_check (Split i c d) t \<longleftrightarrow>
     i < 32 \<and> split_check c (with_bit i False t) \<and> split_check d (with_bit i True t)"

text \<open>\<open>live t b\<close>: the rows of \<open>t\<close> that agree with the bits of \<open>b\<close>.\<close>

fun live :: "rows \<Rightarrow> insn_t \<Rightarrow> insn_row set" where
  "live Empty b = {}"
| "live (Row r ms ks) b = (if \<forall>i < 32. ks ! i \<longrightarrow> ms ! i = bit b i then {r} else {})"
| "live (Rows s t) b = live s b \<union> live t b"

lemma live_join: "live (join_rows s t) b = live s b \<union> live t b"
  by (cases "(s, t)" rule: join_rows.cases) auto

lemma live_with: "i < 32 \<Longrightarrow> live t b \<subseteq> live (with_bit i (bit b i) t) b"
  by (induction t) (auto simp: live_join)

lemma live_flat: "live t b \<subseteq> set (flat t acc)" and flat_acc: "set acc \<subseteq> set (flat t acc)"
  by (induction t arbitrary: acc) (auto, blast+)

lemma split_check_sound:
  "split_check c t \<Longrightarrow> r \<in> live t b \<Longrightarrow> r' \<in> live t b \<Longrightarrow> fst (snd r) = fst (snd r')"
proof (induction c arbitrary: t)
  case Done
  then have "r \<in> set (flat t [])" "r' \<in> set (flat t [])" using live_flat by blast+
  with Done.prems(1) show ?case
    by (auto simp: same_match_def list_all_iff split: list.splits)
next
  case (Split i c d)
  have "r \<in> live (with_bit i (bit b i) t) b" "r' \<in> live (with_bit i (bit b i) t) b"
    using Split.prems live_with [of i t b] by auto
  then show ?case
    using Split.IH Split.prems(1) by (cases "bit b i") auto
qed

section \<open>The table\<close>

text \<open>The 32 low bits of a word, computed from its numeral.\<close>

definition low_bits :: "insn_t \<Rightarrow> bool list" where
  "low_bits w = map (bit w) [0..<32]"

fun num_bits :: "nat \<Rightarrow> num option \<Rightarrow> bool list" where
  "num_bits 0 _ = []"
| "num_bits (Suc n) None = False # num_bits n None"
| "num_bits (Suc n) (Some num.One) = True # num_bits n None"
| "num_bits (Suc n) (Some (num.Bit0 k)) = False # num_bits n (Some k)"
| "num_bits (Suc n) (Some (num.Bit1 k)) = True # num_bits n (Some k)"

lemma num_bits_int:
  "num_bits n v = map (bit (case v of None \<Rightarrow> (0::int) | Some k \<Rightarrow> numeral k)) [0..<n]"
proof (induction n v rule: num_bits.induct)
  case 1 then show ?case by simp
qed (simp_all add: upt_conv_Cons bit_0 bit_Suc map_Suc_upt [symmetric] comp_def del: upt_Suc)

lemma low_bits_numeral: "low_bits (numeral k) = num_bits 32 (Some k)"
  by (simp add: low_bits_def num_bits_int bit_simps)

lemma low_bits_0: "low_bits 0 = num_bits 32 None"
  by (simp add: low_bits_def num_bits_int)

lemma low_bits_1: "low_bits 1 = num_bits 32 (Some num.One)"
  by (simp add: low_bits_def num_bits_int bit_simps)

definition row_tree :: "insn_row \<Rightarrow> rows" where
  "row_tree r = Row r (low_bits (fst (snd r))) (low_bits (snd (snd r)))"

lemma live_row_tree: "row_accepts (snd r) b \<Longrightarrow> live (row_tree r) b = {r}"
  by (auto simp: row_tree_def row_accepts_def low_bits_def bit_and_iff dest: sym)

fun pair_up :: "rows list \<Rightarrow> rows list" where
  "pair_up (s # t # ts) = Rows s t # pair_up ts"
| "pair_up ts = ts"

lemma length_pair_up: "length (pair_up ts) \<le> length ts"
  by (induction ts rule: pair_up.induct) auto

function build_rows :: "rows list \<Rightarrow> rows" where
  "build_rows [] = Empty"
| "build_rows [t] = t"
| "build_rows (s # t # ts) = build_rows (Rows s t # pair_up ts)"
  by pat_completeness auto
termination
  by (relation "measure length") (auto simp: le_imp_less_Suc length_pair_up)

lemma live_pair_up: "(\<Union>t \<in> set (pair_up ts). live t f) = (\<Union>t \<in> set ts. live t f)"
  by (induction ts rule: pair_up.induct) auto

lemma live_build_rows: "live (build_rows ts) b = (\<Union>t \<in> set ts. live t b)"
  by (induction ts rule: build_rows.induct) (auto simp: live_pair_up)

text \<open>
  \<open>c.addi16sp\<close> is declared but not registered: \<open>c_lui\<close> implements it (its match value is
  a special case of the one of \<open>c_lui\<close>).  All other declared encodings form the table.
\<close>

definition declared_encodings :: "insn_row list" where
  "declared_encodings = filter (\<lambda>r. fst r \<noteq> ''c_addi16sp'') declared_insns"

definition encoding_split :: split where
  "encoding_split =
     (Split 6 (Split 13 (Split 14 (Split 5 (Split 1 (Split 15 (Split 0 Done Done) (Split 10
     (Split 11 Done Done) (Split 11 Done (Split 12 Done Done)))) (Split 0 (Split 12 (Split 15
     Done Done) (Split 15 Done Done)) (Split 3 (Split 4 (Split 12 Done Done) (Split 2 (Split
     12 Done Done) Done)) (Split 2 (Split 4 Done (Split 12 Done Done)) (Split 12 Done
     Done))))) (Split 1 (Split 15 (Split 0 Done Done) (Split 10 (Split 11 Done Done) (Split
     11 Done (Split 12 Done Done)))) (Split 12 (Split 3 (Split 0 (Split 15 Done Done) (Split
     2 (Split 4 Done (Split 25 (Split 30 Done Done) Done)) Done)) (Split 0 (Split 15 Done
     Done) (Split 4 Done (Split 25 (Split 30 Done Done) Done)))) (Split 0 (Split 15 Done
     Done) (Split 2 (Split 3 (Split 4 Done (Split 25 Done Done)) Done) Done))))) (Split 5
     (Split 0 (Split 1 (Split 15 Done Done) (Split 15 Done Done)) (Split 4 (Split 1 (Split 15
     Done Done) (Split 2 (Split 3 (Split 12 Done Done) Done) Done)) (Split 1 (Split 15 Done
     Done) (Split 3 (Split 2 (Split 12 Done (Split 30 Done Done)) Done) (Split 30 Done
     Done))))) (Split 0 (Split 1 (Split 15 Done Done) (Split 15 Done Done)) (Split 3 (Split 1
     (Split 15 Done Done) (Split 12 (Split 2 (Split 25 Done Done) (Split 4 Done Done)) (Split
     2 (Split 25 (Split 30 Done Done) Done) Done))) (Split 1 (Split 15 Done Done) (Split 12
     (Split 4 Done Done) (Split 25 (Split 30 Done Done) Done))))))) (Split 14 (Split 12
     (Split 3 (Split 1 (Split 0 (Split 15 Done Done) (Split 15 Done Done)) (Split 2 (Split 0
     (Split 15 Done Done) (Split 4 (Split 5 Done Done) (Split 5 Done (Split 25 Done Done))))
     (Split 0 (Split 15 Done Done) (Split 4 (Split 5 Done Done) (Split 5 Done Done)))))
     (Split 1 (Split 0 (Split 15 Done Done) (Split 15 Done Done)) (Split 0 (Split 15 Done
     Done) (Split 29 (Split 2 (Split 5 Done Done) (Split 27 (Split 30 (Split 28 (Split 31
     Done Done) Done) (Split 31 Done Done)) (Split 28 Done Done))) (Split 2 (Split 5 Done
     Done) (Split 30 (Split 31 Done Done) (Split 31 Done Done))))))) (Split 3 (Split 1 (Split
     0 (Split 15 Done Done) (Split 15 Done Done)) (Split 2 (Split 0 (Split 15 Done Done)
     (Split 4 (Split 5 Done Done) (Split 5 Done (Split 25 Done Done)))) (Split 0 (Split 15
     Done Done) (Split 4 (Split 5 Done Done) (Split 5 Done Done))))) (Split 1 (Split 0 (Split
     15 Done Done) (Split 15 Done Done)) (Split 0 (Split 15 Done Done) (Split 29 (Split 2
     (Split 5 Done Done) (Split 27 (Split 30 (Split 28 (Split 31 Done Done) Done) (Split 31
     Done Done)) (Split 28 Done Done))) (Split 2 (Split 5 Done Done) (Split 30 (Split 31 Done
     Done) (Split 31 Done Done)))))))) (Split 0 (Split 1 (Split 15 Done Done) (Split 15 Done
     Done)) (Split 3 (Split 5 (Split 1 (Split 15 Done Done) (Split 2 (Split 4 Done (Split 12
     Done Done)) Done)) (Split 1 (Split 15 Done Done) (Split 12 (Split 2 (Split 25 Done Done)
     Done) (Split 2 (Split 25 Done Done) Done)))) (Split 1 (Split 15 Done Done) (Split 12
     (Split 4 (Split 5 Done Done) Done) (Split 4 (Split 5 Done Done) Done))))))) (Split 1
     (Split 13 (Split 14 (Split 15 (Split 0 Done Done) (Split 10 (Split 11 Done Done) (Split
     11 Done (Split 5 Done Done)))) (Split 0 (Split 15 Done Done) (Split 15 Done Done)))
     (Split 0 (Split 15 (Split 14 Done Done) (Split 14 Done Done)) (Split 14 (Split 15 Done
     Done) (Split 15 Done Done)))) (Split 5 (Split 25 (Split 0 (Split 13 (Split 14 (Split 15
     Done (Split 12 Done Done)) (Split 15 Done Done)) (Split 15 (Split 14 Done Done) (Split
     14 Done Done))) (Split 3 (Split 30 (Split 27 (Split 4 (Split 2 Done Done) (Split 31
     (Split 29 (Split 28 Done Done) (Split 12 (Split 13 Done Done) Done)) (Split 12 (Split 13
     Done Done) Done))) (Split 4 (Split 2 Done Done) (Split 29 (Split 28 Done Done) (Split 12
     Done Done)))) (Split 20 (Split 28 (Split 4 (Split 2 Done Done) (Split 29 (Split 21 Done
     Done) (Split 12 Done Done))) (Split 4 (Split 2 Done Done) (Split 21 (Split 27 (Split 29
     Done Done) Done) Done))) (Split 4 (Split 2 Done Done) (Split 21 (Split 28 (Split 31 Done
     Done) Done) (Split 28 (Split 31 Done Done) Done))))) (Split 4 (Split 2 Done Done) (Split
     14 (Split 12 (Split 13 Done Done) Done) (Split 12 (Split 13 Done Done) Done))))) (Split
     26 (Split 0 (Split 13 (Split 14 (Split 15 Done (Split 12 Done Done)) (Split 15 Done
     Done)) (Split 15 (Split 14 Done Done) (Split 14 Done Done))) (Split 3 (Split 30 (Split
     27 (Split 4 (Split 2 Done Done) (Split 31 (Split 29 (Split 28 Done Done) (Split 12
     (Split 13 Done Done) Done)) (Split 12 (Split 13 Done Done) Done))) (Split 4 (Split 2
     Done Done) (Split 29 (Split 28 Done Done) (Split 12 Done Done)))) (Split 28 (Split 4
     (Split 2 Done Done) (Split 20 (Split 29 (Split 21 (Split 31 Done Done) Done) (Split 12
     Done Done)) (Split 21 Done (Split 31 Done Done)))) (Split 4 (Split 2 Done Done) (Split
     20 (Split 21 (Split 27 (Split 29 Done Done) Done) Done) (Split 21 Done Done))))) (Split
     4 (Split 2 Done Done) (Split 14 (Split 12 (Split 13 Done Done) Done) (Split 12 (Split 13
     Done Done) Done))))) (Split 0 (Split 13 (Split 14 (Split 15 Done (Split 12 Done Done))
     (Split 15 Done Done)) (Split 15 (Split 14 Done Done) (Split 14 Done Done))) (Split 3
     (Split 30 (Split 27 (Split 4 (Split 2 Done Done) (Split 31 (Split 29 (Split 28 Done
     Done) (Split 12 (Split 13 Done Done) Done)) (Split 12 (Split 13 Done Done) Done)))
     (Split 4 (Split 2 Done Done) (Split 29 (Split 28 Done Done) (Split 12 Done Done))))
     (Split 28 (Split 4 (Split 2 Done Done) (Split 20 (Split 29 (Split 21 (Split 31 Done
     Done) Done) (Split 12 Done Done)) (Split 21 (Split 31 Done Done) Done))) (Split 4 (Split
     2 Done Done) (Split 20 (Split 21 (Split 27 (Split 29 Done Done) Done) Done) (Split 21
     Done Done))))) (Split 4 (Split 2 Done Done) (Split 14 (Split 12 (Split 13 Done Done)
     Done) (Split 12 (Split 13 Done Done) Done))))))) (Split 13 (Split 14 (Split 0 (Split 15
     Done (Split 12 Done Done)) (Split 4 (Split 2 (Split 12 Done Done) (Split 3 Done Done))
     (Split 28 (Split 3 (Split 12 (Split 20 (Split 21 Done Done) Done) Done) Done) (Split 3
     (Split 25 (Split 12 (Split 20 (Split 29 Done Done) Done) Done) (Split 12 (Split 27 Done
     Done) Done)) Done)))) (Split 0 (Split 15 Done Done) (Split 3 (Split 4 (Split 12 Done
     Done) Done) (Split 2 Done Done)))) (Split 0 (Split 15 (Split 14 Done Done) (Split 14
     Done Done)) (Split 3 (Split 12 (Split 4 Done (Split 14 Done Done)) (Split 4 Done (Split
     14 Done Done))) (Split 12 (Split 2 (Split 14 Done Done) Done) (Split 2 (Split 14 Done
     Done) Done))))))))"

lemmas declared_insns_defs = declared_insns_def declared_insns_1_def declared_insns_2_def
  declared_insns_3_def declared_insns_4_def

lemma declared_encodings_chunks:
  "declared_encodings = declared_insns_1 @ declared_insns_2 @
     filter (\<lambda>r. fst r \<noteq> ''c_addi16sp'') declared_insns_3 @ declared_insns_4"
proof -
  have "list_all (\<lambda>n. n \<noteq> ''c_addi16sp'') (map fst (declared_insns_1 @ declared_insns_2 @ declared_insns_4))"
    by code_simp
  then show ?thesis
    by (auto simp: declared_encodings_def declared_insns_def list_all_iff filter_id_conv)
qed

lemma nth_Cons_pred_numeral: "(x # xs) ! numeral k = xs ! pred_numeral k"
  by (simp add: numeral_eq_Suc)

lemma nth_Cons_1: "(x # xs) ! 1 = xs ! 0"
  by simp

lemmas split_check_eval = split_check.simps with_bit.simps join_rows.simps flat.simps
  same_match_def list.case list.pred_inject fst_conv snd_conv
  nth_Cons_0 nth_Cons_1 nth_Cons_Suc nth_Cons_pred_numeral pred_numeral_simps BitM.simps
  if_True if_False simp_thms rel_simps

lemma encodings_split_check:
  "split_check encoding_split (build_rows (map row_tree declared_encodings))"
  apply (simp only: declared_encodings_chunks)
  apply (simp add: declared_insns_3_def del: build_rows.simps map_append list.map)
  apply (simp only: declared_insns_defs append.simps list.map build_rows.simps pair_up.simps)
  apply (simp only: row_tree_def fst_conv snd_conv insn_consts low_bits_numeral low_bits_0 low_bits_1)
  apply (simp only: num_bits.simps eval_nat_numeral BitM.simps)
  apply (simp only: encoding_split_def split_check_eval)
  done

lemma encodings_disjoint:
  assumes "r \<in> set declared_encodings" "r' \<in> set declared_encodings"
    and "row_accepts (snd r) b" "row_accepts (snd r') b"
  shows "fst (snd r) = fst (snd r')"
proof (rule split_check_sound [OF encodings_split_check])
  show "r \<in> live (build_rows (map row_tree declared_encodings)) b"
    using assms live_row_tree [of r b] by (force simp: live_build_rows)
  show "r' \<in> live (build_rows (map row_tree declared_encodings)) b"
    using assms live_row_tree [of r' b] by (force simp: live_build_rows)
qed

section \<open>Registered rows\<close>

text \<open>
  \<open>DEFINE_INSN(name)\<close> pairs a registered name with the constants that \<open>DECLARE_INSN\<close> bound
  to that name.
\<close>

definition registered_insns :: "insn_row list" where
  "registered_insns =
     List.map_filter (\<lambda>n. map_option (Pair n) (map_of declared_insns n)) riscv_insn_list"

lemma registered_declared:
  assumes "r \<in> set registered_insns"
  shows "r \<in> set declared_encodings"
proof -
  obtain n e where r: "r = (n, e)" "n \<in> set riscv_insn_list" "map_of declared_insns n = Some e"
    using assms by (auto simp: registered_insns_def List.map_filter_def)
  have "list_all (\<lambda>n. n \<noteq> ''c_addi16sp'') riscv_insn_list"
    by code_simp
  then have "n \<noteq> ''c_addi16sp''" using r(2) by (auto simp: list_all_iff)
  with r show ?thesis by (auto simp: declared_encodings_def dest: map_of_SomeD)
qed

lemma registered_memberI:
  "n \<in> set riscv_insn_list \<Longrightarrow> map_of declared_insns n = Some e \<Longrightarrow> (n, e) \<in> set registered_insns"
  by (force simp: registered_insns_def List.map_filter_def)

lemma registered_mask: "r \<in> set registered_insns \<Longrightarrow> snd (snd r) \<noteq> 0"
proof -
  assume "r \<in> set registered_insns"
  then have "snd (snd r) \<in> set (map (snd \<circ> snd) declared_insns)"
    using registered_declared by (auto simp: declared_encodings_def)
  moreover have "list_all (\<lambda>k. k \<noteq> 0) (map (snd \<circ> snd) declared_insns)"
    by (simp only: declared_insns_defs append.simps list.map comp_def snd_conv list.pred_inject)
      (simp add: insn_consts)
  ultimately show ?thesis by (auto simp: list_all_iff)
qed

end
