(* ===== verification/DecodeCache.thy ===== *)
theory DecodeCache
  imports InsnTable "HOL-Library.Multiset"
begin

text \<open>
  The instruction decoder of \<open>riscv/processor.cc\<close>: the list of instruction descriptors that
  \<open>register_insn\<close> and \<open>build_opcode_map\<close> set up, and \<open>decode_insn\<close> with its two
  accelerations, the direct-mapped opcode cache and the move-to-front of the descriptor list.
  The lemmas show that neither changes what a word decodes to: after any sequence of decodes
  the answer is the first accepting descriptor of the sorted list.

  The bodies of the instructions are not part of the repository; an instruction function is
  the token of the function that \<open>REGISTER_INSN\<close> declares.
\<close>

section \<open>Descriptors and their order\<close>

datatype insn_func =
    illegal_instruction
  | rv32_insn string
  | rv64_insn string
  | ext_insn string

record insn_desc =
  d_match :: insn_t
  d_mask :: insn_t
  d_rv32 :: insn_func
  d_rv64 :: insn_func

definition accepts :: "insn_desc \<Rightarrow> insn_t \<Rightarrow> bool" where
  "accepts d bits \<longleftrightarrow> bits AND d_mask d = d_match d"

definition catch_all :: insn_desc where
  "catch_all = \<lparr>d_match = 0, d_mask = 0, d_rv32 = illegal_instruction, d_rv64 = illegal_instruction\<rparr>"

text \<open>
  The comparison \<open>cmp\<close> of \<open>build_opcode_map\<close>: larger match values come first, and among equal
  match values larger masks.  It is the strict order of the key type, so that the sorting functions of
  the library apply.
\<close>

datatype opcode_key = Opcode_key (key_match: insn_t) (key_mask: insn_t)

definition cmp :: "opcode_key \<Rightarrow> opcode_key \<Rightarrow> bool" where
  "cmp lhs rhs \<longleftrightarrow>
     (if key_match lhs = key_match rhs then key_mask lhs > key_mask rhs
      else key_match lhs > key_match rhs)"

instantiation opcode_key :: linorder
begin

definition less_opcode_key :: "opcode_key \<Rightarrow> opcode_key \<Rightarrow> bool" where
  "less_opcode_key = cmp"

definition less_eq_opcode_key :: "opcode_key \<Rightarrow> opcode_key \<Rightarrow> bool" where
  "less_eq_opcode_key lhs rhs \<longleftrightarrow> lhs < rhs \<or> lhs = rhs"

instance
  by standard (auto simp: less_opcode_key_def less_eq_opcode_key_def cmp_def
      intro: opcode_key.expand split: if_splits)

end

lemmas opcode_order_defs = less_opcode_key_def less_eq_opcode_key_def cmp_def

definition opcode_key :: "insn_desc \<Rightarrow> opcode_key" where
  "opcode_key d = Opcode_key (d_match d) (d_mask d)"

section \<open>The decoder\<close>

record decoder =
  instructions :: "insn_desc list"
  opcode_cache :: "nat \<Rightarrow> insn_desc"

definition OPCODE_CACHE_SIZE :: nat where "OPCODE_CACHE_SIZE = 8191"

definition register_insn :: "insn_desc \<Rightarrow> decoder \<Rightarrow> decoder" where
  "register_insn desc s = s\<lparr>instructions := instructions s @ [desc]\<rparr>"

definition build_opcode_map :: "decoder \<Rightarrow> decoder" where
  "build_opcode_map s =
     s\<lparr>instructions := sort_key opcode_key (instructions s), opcode_cache := (\<lambda>i. catch_all)\<rparr>"

definition desc_of_row :: "insn_row \<Rightarrow> insn_desc" where
  "desc_of_row r = (case r of (name, m, k) \<Rightarrow>
     \<lparr>d_match = m, d_mask = k, d_rv32 = rv32_insn name, d_rv64 = rv64_insn name\<rparr>)"

definition register_base_instructions :: "decoder \<Rightarrow> decoder" where
  "register_base_instructions s =
     build_opcode_map (register_insn catch_all
       (fold (\<lambda>r. register_insn (desc_of_row r)) registered_insns s))"

text \<open>
  The linear search \<open>while ((bits & p->mask) != p->match) p++\<close> yields an index; running
  past the end of the vector is \<open>None\<close>, as is reading the neighbour \<open>p + 1\<close> past the end.
\<close>

definition search :: "insn_t \<Rightarrow> insn_desc list \<Rightarrow> nat option" where
  "search bits ds =
     (let k = length (takeWhile (\<lambda>d. \<not> accepts d bits) ds)
      in if k < length ds then Some k else None)"

definition move_to_front :: "nat \<Rightarrow> insn_desc list \<Rightarrow> insn_desc list" where
  "move_to_front k ds = ds ! k # take k ds @ drop (Suc k) ds"

definition reorder :: "nat \<Rightarrow> insn_desc list \<Rightarrow> insn_desc list option" where
  "reorder k ds =
     (if d_mask (ds ! k) \<noteq> 0 \<and> k > 0 then
        if d_match (ds ! k) \<noteq> d_match (ds ! (k - 1)) then
          if Suc k < length ds then
            Some (if d_match (ds ! k) \<noteq> d_match (ds ! Suc k) then move_to_front k ds else ds)
          else None
        else Some ds
      else Some ds)"

definition select_func :: "nat \<Rightarrow> insn_desc \<Rightarrow> insn_func" where
  "select_func xlen desc = (if xlen = 64 then d_rv64 desc else d_rv32 desc)"

definition decode_insn :: "nat \<Rightarrow> insn_t \<Rightarrow> decoder \<Rightarrow> (insn_func \<times> decoder) option" where
  "decode_insn xlen bits s =
     (let idx = unat bits mod OPCODE_CACHE_SIZE; desc = opcode_cache s idx
      in if bits \<noteq> d_match desc then
           case search bits (instructions s) of
             None \<Rightarrow> None
           | Some k \<Rightarrow>
               (let desc = instructions s ! k
                in case reorder k (instructions s) of
                     None \<Rightarrow> None
                   | Some ds \<Rightarrow>
                       Some (select_func xlen desc,
                         s\<lparr>instructions := ds,
                           opcode_cache := (opcode_cache s)(idx := desc\<lparr>d_match := bits\<rparr>)\<rparr>))
         else Some (select_func xlen desc, s))"

definition empty_decoder :: decoder where
  "empty_decoder = \<lparr>instructions = [], opcode_cache = (\<lambda>i. catch_all)\<rparr>"

definition base_decoder :: decoder where
  "base_decoder = register_base_instructions empty_decoder"

text \<open>The reference: the first accepting descriptor of the sorted list.\<close>

definition spec_desc :: "insn_t \<Rightarrow> insn_desc" where
  "spec_desc bits = the (find (\<lambda>d. accepts d bits) (instructions base_decoder))"

section \<open>The sorted list\<close>

definition grp :: "insn_desc list \<Rightarrow> insn_t \<Rightarrow> insn_desc list" where
  "grp ds m = filter (\<lambda>d. d_match d = m) ds"

lemma grp_match: "d \<in> set (grp ds m) \<Longrightarrow> d_match d = m"
  by (simp add: grp_def)

lemma sort_key_snoc_max:
  "(\<And>x. f x \<le> f c) \<Longrightarrow> sort_key f (xs @ [c]) = sort_key f xs @ [c]"
proof (induction xs)
  case (Cons x xs)
  have "f x \<le> f c \<Longrightarrow> insort_key f x (ys @ [c]) = insort_key f x ys @ [c]" for x ys
    by (induction ys) auto
  with Cons show ?case by simp
qed simp

lemma catch_all_greatest: "opcode_key d \<le> opcode_key catch_all"
  by (auto simp: opcode_key_def catch_all_def opcode_order_defs word_neq_0_conv)

lemma base_instructions:
  "instructions base_decoder = sort_key opcode_key (map desc_of_row registered_insns) @ [catch_all]"
proof -
  have "instructions (fold (\<lambda>r. register_insn (desc_of_row r)) rs s) = instructions s @ map desc_of_row rs"
    for rs s by (induction rs arbitrary: s) (auto simp: register_insn_def)
  then show ?thesis
    by (simp add: base_decoder_def register_base_instructions_def build_opcode_map_def
        register_insn_def empty_decoder_def sort_key_snoc_max catch_all_greatest)
qed

lemma base_cases:
  "d \<in> set (instructions base_decoder) \<longleftrightarrow> d = catch_all \<or> (\<exists>r \<in> set registered_insns. d = desc_of_row r)"
  by (auto simp: base_instructions)

lemma desc_of_row_not_catch_all: "desc_of_row r \<noteq> catch_all"
  by (auto simp: desc_of_row_def catch_all_def split: prod.splits)

lemma base_disjoint:
  assumes "d \<in> set (instructions base_decoder)" "d' \<in> set (instructions base_decoder)"
    and "d \<noteq> catch_all" "d' \<noteq> catch_all" "accepts d b" "accepts d' b"
  shows "d_match d = d_match d'"
proof -
  obtain r r' where r: "r \<in> set registered_insns" "d = desc_of_row r"
      "r' \<in> set registered_insns" "d' = desc_of_row r'"
    using assms by (auto simp: base_cases)
  have "fst (snd r) = fst (snd r')"
    by (rule encodings_disjoint [of _ _ b])
      (use r assms in \<open>auto simp: registered_declared accepts_def row_accepts_def desc_of_row_def
          split: prod.splits\<close>)
  with r show ?thesis by (auto simp: desc_of_row_def split: prod.splits)
qed

text \<open>A list that descends in \<open>f\<close> is the concatenation of its groups of equal \<open>f\<close>.\<close>

lemma descending_groups:
  fixes f :: "'a \<Rightarrow> 'b::linorder"
  assumes "sorted_wrt (\<lambda>x y. f x \<ge> f y) xs"
  shows "\<exists>ms. distinct ms \<and> set ms = f ` set xs \<and> sorted_wrt (>) ms \<and>
    xs = concat (map (\<lambda>m. filter (\<lambda>x. f x = m) xs) ms)"
  using assms
proof (induction xs)
  case Nil
  then show ?case by (intro exI [of _ "[]"]) simp
next
  case (Cons x xs)
  then obtain ms where ms: "distinct ms" "set ms = f ` set xs" "sorted_wrt (>) ms"
      "xs = concat (map (\<lambda>m. filter (\<lambda>x. f x = m) xs) ms)" by auto
  show ?case
  proof (cases "f x \<in> set ms")
    case True
    obtain ns where ns: "ms = f x # ns"
    proof (cases ms)
      case (Cons n ns)
      have "n \<in> f ` set xs" using ms(2) Cons by auto
      then have "n \<le> f x" using Cons.prems by auto
      then have "n = f x" using True ms(3) Cons by auto
      with Cons that show thesis by simp
    qed (use True in simp)
    have "map (\<lambda>m. filter (\<lambda>y. f y = m) (x # xs)) ns = map (\<lambda>m. filter (\<lambda>y. f y = m) xs) ns"
      using ms(1) ns by auto
    then have "concat (map (\<lambda>m. filter (\<lambda>y. f y = m) (x # xs)) ms)
        = x # filter (\<lambda>y. f y = f x) xs @ concat (map (\<lambda>m. filter (\<lambda>y. f y = m) xs) ns)"
      unfolding ns by (simp only: list.map concat.simps filter.simps) simp
    then have "x # xs = concat (map (\<lambda>m. filter (\<lambda>y. f y = m) (x # xs)) ms)"
      using ms(4) ns by simp
    moreover have "distinct ms \<and> set ms = f ` set (x # xs) \<and> sorted_wrt (>) ms"
      using ms True by auto
    ultimately show ?thesis by blast
  next
    case False
    have "map (\<lambda>m. filter (\<lambda>y. f y = m) (x # xs)) ms = map (\<lambda>m. filter (\<lambda>y. f y = m) xs) ms"
      using False by auto
    moreover have "filter (\<lambda>y. f y = f x) xs = []"
      using False ms(2) by (auto simp: filter_empty_conv image_iff)
    moreover have "\<forall>m \<in> set ms. f x \<ge> m \<and> f x \<noteq> m"
      using False ms(2) Cons.prems by auto
    then have "\<forall>m \<in> set ms. f x > m"
      by (auto simp: order.strict_iff_order)
    moreover have "concat (map (\<lambda>m. filter (\<lambda>y. f y = m) (x # xs)) (f x # ms))
        = x # filter (\<lambda>y. f y = f x) xs @ concat (map (\<lambda>m. filter (\<lambda>y. f y = m) (x # xs)) ms)"
      by simp
    ultimately have "concat (map (\<lambda>m. filter (\<lambda>y. f y = m) (x # xs)) (f x # ms)) = x # xs"
      using ms(4) by (simp only: append_Nil)
    with ms False \<open>\<forall>m \<in> set ms. f x > m\<close> show ?thesis
      by (intro exI [of _ "f x # ms"]) auto
  qed
qed

section \<open>The arrangement invariant\<close>

text \<open>
  Move-to-front permutes whole groups of equal match value and never moves the group of
  match value 0, which ends with the catch-all descriptor.
\<close>

definition arranged :: "insn_desc list \<Rightarrow> bool" where
  "arranged ds \<longleftrightarrow> (\<exists>ms. distinct (ms @ [0]) \<and>
     set (ms @ [0]) = d_match ` set (instructions base_decoder) \<and>
     ds = concat (map (grp (instructions base_decoder)) (ms @ [0])))"

lemma arranged_base: "arranged (instructions base_decoder)"
proof -
  let ?base = "instructions base_decoder"
  have "sorted (map opcode_key ?base)"
    by (auto simp: base_instructions sorted_append catch_all_greatest)
  then have "sorted_wrt (\<lambda>x y. d_match x \<ge> d_match y) ?base"
    unfolding sorted_map
    by (rule sorted_wrt_mono_rel [rotated])
      (auto simp: opcode_key_def opcode_order_defs split: if_splits)
  then obtain ms where ms: "distinct ms" "set ms = d_match ` set ?base" "sorted_wrt (>) ms"
      "?base = concat (map (grp ?base) ms)"
    using descending_groups [of d_match ?base] unfolding grp_def by blast
  have "d_match catch_all \<in> d_match ` set ?base" by (intro imageI) (simp add: base_cases)
  then have "(0::insn_t) \<in> set ms" by (simp add: ms(2) catch_all_def)
  then obtain ns ns' where split: "ms = ns @ 0 # ns'" by (auto simp: in_set_conv_decomp)
  have "ns' = []"
    using ms(3) split by (cases ns') (auto simp: sorted_wrt_append)
  with ms split show ?thesis unfolding arranged_def by (intro exI [of _ ns]) auto
qed

lemma grp_concat:
  assumes "distinct ms"
  shows "grp (concat (map (grp ds) ms)) m = (if m \<in> set ms then grp ds m else [])"
  using assms
proof (induction ms)
  case (Cons n ms)
  have "grp (grp ds n) m = (if m = n then grp ds n else [])"
    by (auto simp: grp_def filter_empty_conv)
  with Cons show ?case by (auto simp: grp_def)
qed (simp add: grp_def)

lemma arranged_grp: "arranged ds \<Longrightarrow> grp ds m = grp (instructions base_decoder) m"
proof -
  assume "arranged ds"
  then obtain ms where ms: "distinct (ms @ [0])" "set (ms @ [0]) = d_match ` set (instructions base_decoder)"
      "ds = concat (map (grp (instructions base_decoder)) (ms @ [0]))"
    unfolding arranged_def by blast
  have "m \<notin> set (ms @ [0]) \<Longrightarrow> grp (instructions base_decoder) m = []"
    unfolding ms(2) by (auto simp: grp_def filter_empty_conv)
  then show ?thesis unfolding ms(3) grp_concat [OF ms(1)] by auto
qed

lemma arranged_set: "arranged ds \<Longrightarrow> set ds = set (instructions base_decoder)"
proof -
  assume "arranged ds"
  then have "d \<in> set (grp ds (d_match d)) \<longleftrightarrow> d \<in> set (grp (instructions base_decoder) (d_match d))" for d
    by (simp add: arranged_grp)
  then show ?thesis by (auto simp: grp_def)
qed

lemma grp_0_last:
  obtains g where "grp (instructions base_decoder) 0 = g @ [catch_all]" "catch_all \<notin> set g"
proof -
  have "catch_all \<notin> set (map desc_of_row registered_insns)"
    by (auto dest: sym [of catch_all] simp: desc_of_row_not_catch_all)
  then show thesis
    by (intro that [of "grp (sort_key opcode_key (map desc_of_row registered_insns)) 0"])
      (auto simp: grp_def base_instructions catch_all_def)
qed

lemma arranged_last:
  assumes "arranged ds"
  obtains A where "ds = A @ [catch_all]" "catch_all \<notin> set A"
proof -
  obtain ms where ms: "distinct (ms @ [0])" "ds = concat (map (grp (instructions base_decoder)) (ms @ [0]))"
    using assms unfolding arranged_def by blast
  obtain g where g: "grp (instructions base_decoder) 0 = g @ [catch_all]" "catch_all \<notin> set g"
    by (rule grp_0_last)
  have "catch_all \<notin> set (grp (instructions base_decoder) m)" if "m \<in> set ms" for m
    using that ms(1) by (auto simp: grp_def catch_all_def)
  with g ms that [of "concat (map (grp (instructions base_decoder)) ms) @ g"] show thesis
    by auto
qed

lemma find_arranged:
  assumes "arranged ds"
  shows "find (\<lambda>d. accepts d b) ds = find (\<lambda>d. accepts d b) (instructions base_decoder)"
proof (cases "\<exists>d \<in> set ds. d \<noteq> catch_all \<and> accepts d b")
  case True
  then obtain d0 where d0: "d0 \<in> set ds" "d0 \<noteq> catch_all" "accepts d0 b" by blast
  have key: "find (\<lambda>d. accepts d b) es = find (\<lambda>d. accepts d b) (grp es (d_match d0))"
    if es: "arranged es" for es
  proof -
    have d0_in: "d0 \<in> set es" using es assms d0 by (simp add: arranged_set)
    have same: "d_match d = d_match d0" if "d \<in> set es" "d \<noteq> catch_all" "accepts d b" for d
      using that base_disjoint [of d d0 b] d0 es assms by (simp add: arranged_set)
    have filt: "find P (filter Q xs) = find P xs" if "\<And>x. x \<in> set xs \<Longrightarrow> P x \<Longrightarrow> Q x" for P Q and xs :: "insn_desc list"
      using that by (induction xs) auto
    show ?thesis
    proof (cases "d_match d0 = 0")
      case True
      have "d_match d = d_match d0" if "d \<in> set es" "accepts d b" for d
        using that same True by (cases "d = catch_all") (auto simp: catch_all_def)
      then show ?thesis by (simp add: grp_def filt)
    next
      case False
      obtain A where A: "es = A @ [catch_all]" "catch_all \<notin> set A" using arranged_last es by blast
      have "find (\<lambda>d. accepts d b) A = find (\<lambda>d. accepts d b) (grp A (d_match d0))"
      proof -
        have "d_match d = d_match d0" if "d \<in> set A" "accepts d b" for d
          using that same A by (cases "d = catch_all") auto
        then show ?thesis by (simp add: grp_def filt)
      qed
      moreover have "find (\<lambda>d. accepts d b) A \<noteq> None"
        using d0 d0_in A by (auto simp: find_None_iff_all)
      moreover have "grp es (d_match d0) = grp A (d_match d0)"
        using False A by (auto simp: grp_def catch_all_def)
      ultimately show ?thesis using A by (auto simp: find_append)
    qed
  qed
  show ?thesis using key [OF assms] key [OF arranged_base] assms by (simp add: arranged_grp)
next
  case False
  have only: "find (\<lambda>d. accepts d b) es = Some catch_all" if "arranged es" for es
  proof -
    obtain A where A: "es = A @ [catch_all]" using arranged_last \<open>arranged es\<close> by blast
    have "accepts catch_all b" by (simp add: accepts_def catch_all_def)
    then have "find (\<lambda>d. accepts d b) es \<noteq> None" using A by (auto simp: find_None_iff_all)
    then obtain d where d: "find (\<lambda>d. accepts d b) es = Some d" by blast
    then have "d \<in> set es \<and> accepts d b" by (rule find_SomeD)
    moreover have "set es = set ds" using assms \<open>arranged es\<close> by (simp add: arranged_set)
    ultimately have "d = catch_all" using False by auto
    with d show ?thesis by simp
  qed
  show ?thesis using only [OF assms] only [OF arranged_base] by simp
qed

section \<open>Move-to-front preserves the arrangement\<close>

lemma concat_map_split:
  assumes "concat (map f ms) = pre @ p # post"
  shows "\<exists>A m B us vs. ms = A @ m # B \<and> f m = us @ p # vs \<and>
    pre = concat (map f A) @ us \<and> post = vs @ concat (map f B)"
  using assms
proof (induction ms arbitrary: pre)
  case Nil
  then show ?case by simp
next
  case (Cons n ms)
  from Cons.prems consider
      (here) us where "f n = pre @ p # us" "post = us @ concat (map f ms)"
    | (later) pre' where "pre = f n @ pre'" "concat (map f ms) = pre' @ p # post"
    by (auto simp: append_eq_append_conv2 append_eq_Cons_conv Cons_eq_append_conv)
  then show ?case
  proof cases
    case here
    then show ?thesis by (intro exI [of _ "[]"] exI [of _ n] exI [of _ ms] exI [of _ pre] exI [of _ us]) simp
  next
    case later
    from Cons.IH [OF later(2)] obtain A m B us vs where
      "ms = A @ m # B" "f m = us @ p # vs" "pre' = concat (map f A) @ us" "post = vs @ concat (map f B)"
      by blast
    with later show ?thesis
      by (intro exI [of _ "n # A"] exI [of _ m] exI [of _ B] exI [of _ us] exI [of _ vs]) simp
  qed
qed

lemma arranged_move:
  assumes arr: "arranged ds" and k: "0 < k" "Suc k < length ds" and msk: "d_mask (ds ! k) \<noteq> 0"
    and prev: "d_match (ds ! k) \<noteq> d_match (ds ! (k - 1))"
    and succ: "d_match (ds ! k) \<noteq> d_match (ds ! Suc k)"
  shows "arranged (move_to_front k ds)"
proof -
  let ?g = "grp (instructions base_decoder)"
  obtain ms where ms: "distinct (ms @ [0])" "set (ms @ [0]) = d_match ` set (instructions base_decoder)"
      "ds = concat (map ?g (ms @ [0]))"
    using arr unfolding arranged_def by blast
  have "concat (map ?g (ms @ [0])) = take k ds @ ds ! k # drop (Suc k) ds"
    using k by (simp only: ms(3) [symmetric] id_take_nth_drop [symmetric] Suc_lessD)
  then obtain A m B us vs where split: "ms @ [0] = A @ m # B" "?g m = us @ ds ! k # vs"
      "take k ds = concat (map ?g A) @ us" "drop (Suc k) ds = vs @ concat (map ?g B)"
    by (blast dest: concat_map_split)
  have m: "d_match (ds ! k) = m"
    using grp_match [of "ds ! k" "instructions base_decoder" m] split(2) by simp
  have "us = []"
  proof (rule ccontr)
    assume us: "us \<noteq> []"
    have "ds ! (k - 1) = last (take k ds)" using k by (subst last_conv_nth) auto
    also have "\<dots> = last us" using split(3) us by simp
    finally have "ds ! (k - 1) \<in> set (?g m)" using split(2) us by simp
    then show False using prev m grp_match by metis
  qed
  moreover have "vs = []"
  proof (rule ccontr)
    assume vs: "vs \<noteq> []"
    have "ds ! Suc k = hd (drop (Suc k) ds)" using k by (simp add: hd_drop_conv_nth)
    also have "\<dots> = hd vs" using split(4) vs by simp
    finally have "ds ! Suc k \<in> set (?g m)" using split(2) vs by simp
    then show False using succ m grp_match by metis
  qed
  ultimately have single: "?g m = [ds ! k]" using split(2) by simp
  have "B \<noteq> []"
  proof
    assume "B = []"
    then have "m = 0" using split(1) by simp
    with single have "ds ! k = catch_all" using grp_0_last by (metis append_eq_Cons_conv append_is_Nil_conv list.distinct(1) list.inject)
    with msk show False by (simp add: catch_all_def)
  qed
  then obtain B' where B: "B = B' @ [0]" "ms = A @ m # B'"
    using split(1) by (cases B rule: rev_cases) (auto simp: append_assoc [symmetric] simp del: append_assoc)
  have "move_to_front k ds = concat (map ?g ((m # A @ B') @ [0]))"
    using split(3,4) single B \<open>us = []\<close> \<open>vs = []\<close> by (simp add: move_to_front_def)
  moreover have "distinct ((m # A @ B') @ [0])" "set ((m # A @ B') @ [0]) = d_match ` set (instructions base_decoder)"
    using ms(1,2) B by auto
  ultimately show ?thesis unfolding arranged_def by blast
qed

section \<open>decode_insn\<close>

lemma search_find:
  "search b ds = Some k \<Longrightarrow> k < length ds \<and> find (\<lambda>d. accepts d b) ds = Some (ds ! k)"
proof (induction ds arbitrary: k)
  case (Cons d ds)
  show ?case
  proof (cases "accepts d b")
    case False
    with Cons.prems obtain k' where "k = Suc k'" "search b ds = Some k'"
      by (auto simp: search_def Let_def split: if_splits)
    with Cons.IH False show ?thesis by auto
  qed (use Cons.prems in \<open>auto simp: search_def Let_def split: if_splits\<close>)
qed (simp add: search_def)

lemma search_None: "search b ds = None \<Longrightarrow> find (\<lambda>d. accepts d b) ds = None"
  by (auto simp: search_def Let_def find_None_iff_all split: if_splits dest: takeWhile_eq_all_conv [THEN iffD1])
    (metis length_takeWhile_le linorder_neqE_nat not_le takeWhile_eq_all_conv takeWhile_eq_take take_all)

lemma catch_all_accepts: "accepts catch_all b"
  by (simp add: accepts_def catch_all_def)

lemma base_find: "find (\<lambda>d. accepts d b) (instructions base_decoder) = Some (spec_desc b)"
proof -
  have "find (\<lambda>d. accepts d b) (instructions base_decoder) \<noteq> None"
    using catch_all_accepts by (auto simp: find_None_iff_all base_cases intro: bexI [of _ catch_all])
  then show ?thesis by (auto simp: spec_desc_def)
qed

lemma arranged_search:
  assumes "arranged ds"
  obtains k where "search b ds = Some k" "k < length ds" "ds ! k = spec_desc b"
proof (cases "search b ds")
  case None
  then show thesis using search_None find_arranged [OF assms, of b] base_find by fastforce
next
  case (Some k)
  with search_find find_arranged [OF assms, of b] base_find that show thesis by fastforce
qed

lemma arranged_reorder:
  assumes "arranged ds" "k < length ds"
  obtains ds' where "reorder k ds = Some ds'" "arranged ds'"
proof -
  obtain A where A: "ds = A @ [catch_all]" using arranged_last assms(1) by blast
  have "Suc k < length ds" if "d_mask (ds ! k) \<noteq> 0"
  proof (rule ccontr)
    assume "\<not> Suc k < length ds"
    with assms(2) A have "k = length A" by simp
    with A that show False by (simp add: catch_all_def)
  qed
  moreover have "arranged (move_to_front k ds)"
    if "0 < k" "d_mask (ds ! k) \<noteq> 0" "d_match (ds ! k) \<noteq> d_match (ds ! (k - 1))"
      "d_match (ds ! k) \<noteq> d_match (ds ! Suc k)"
    using that calculation assms arranged_move by simp
  ultimately have "\<exists>ds'. reorder k ds = Some ds' \<and> arranged ds'"
    using assms by (simp add: reorder_def)
  with that show thesis by blast
qed

text \<open>
  A cache entry is either the initial one or holds the decoded descriptor of a word of its
  slot, with the word in place of the match value.
\<close>

definition cache_ok :: "(nat \<Rightarrow> insn_desc) \<Rightarrow> bool" where
  "cache_ok c \<longleftrightarrow> (\<forall>i. c i = catch_all \<or> (\<exists>b. c i = (spec_desc b)\<lparr>d_match := b\<rparr>))"

definition decoder_ok :: "decoder \<Rightarrow> bool" where
  "decoder_ok s \<longleftrightarrow> arranged (instructions s) \<and> cache_ok (opcode_cache s)"

lemma decoder_ok_base: "decoder_ok base_decoder"
  using arranged_base
  by (simp add: decoder_ok_def cache_ok_def base_decoder_def register_base_instructions_def build_opcode_map_def)

text \<open>The function selected by a word: the initial cache entry answers the word 0.\<close>

definition decodes_to :: "nat \<Rightarrow> insn_t \<Rightarrow> insn_func \<Rightarrow> bool" where
  "decodes_to xlen b f \<longleftrightarrow>
     f = select_func xlen (spec_desc b) \<or> b = 0 \<and> f = illegal_instruction"

lemma select_func_update [simp]: "select_func xlen (d\<lparr>d_match := m\<rparr>) = select_func xlen d"
  by (simp add: select_func_def)

lemma decode_insn_ok:
  assumes "decoder_ok s"
  obtains f s' where "decode_insn xlen b s = Some (f, s')" "decodes_to xlen b f" "decoder_ok s'"
proof (cases "b = d_match (opcode_cache s (unat b mod OPCODE_CACHE_SIZE))")
  case True
  have "opcode_cache s (unat b mod OPCODE_CACHE_SIZE) = catch_all \<or>
      (\<exists>b'. opcode_cache s (unat b mod OPCODE_CACHE_SIZE) = (spec_desc b')\<lparr>d_match := b'\<rparr>)"
    using assms by (auto simp: decoder_ok_def cache_ok_def)
  then have "decodes_to xlen b (select_func xlen (opcode_cache s (unat b mod OPCODE_CACHE_SIZE)))"
    using True by (auto simp: decodes_to_def catch_all_def select_func_def)
  with True that assms show thesis by (auto simp: decode_insn_def Let_def)
next
  case False
  have "arranged (instructions s)" using assms by (simp add: decoder_ok_def)
  then obtain k ds where "search b (instructions s) = Some k" "instructions s ! k = spec_desc b"
      "reorder k (instructions s) = Some ds" "arranged ds"
    by (metis arranged_search arranged_reorder)
  moreover have "cache_ok ((opcode_cache s)(i := (spec_desc b)\<lparr>d_match := b\<rparr>))" for i
    using assms by (auto simp: decoder_ok_def cache_ok_def)
  ultimately show thesis
    using False that by (auto simp: decode_insn_def Let_def decodes_to_def decoder_ok_def)
qed

interpretation decode: stateful_lookup "\<lambda>s b. decode_insn xlen b s" decoder_ok "decodes_to xlen" for xlen
  by unfold_locales (metis decode_insn_ok)

text \<open>
  C4. Decoding is independent of history: whatever words were decoded before, through the
  opcode cache and the reordered descriptor list, the next word \<open>b\<close> is decoded, and to the
  function of the first accepting descriptor of the sorted list; only the word 0, which the
  initial cache entry answers, may instead give \<open>illegal_instruction\<close>.
\<close>

theorem decode_history_independent:
  "\<exists>fs f s'. run_lookups (\<lambda>s w. decode_insn xlen w s) (ws @ [b]) base_decoder = Some (fs @ [f], s')
     \<and> (f = select_func xlen (spec_desc b) \<or> b = 0 \<and> f = illegal_instruction)"
  using decode.last_answer [OF decoder_ok_base, of xlen ws b] unfolding decodes_to_def by blast

section \<open>Which instruction a word decodes to\<close>

lemma find_sorted_least:
  assumes "sorted (map f xs)" "find P xs = Some x" "y \<in> set xs" "P y"
  shows "f x \<le> f y"
  using assms by (induction xs) (auto split: if_splits)

lemma accepts_desc_of_row: "accepts (desc_of_row r) b = row_accepts (snd r) b"
  by (simp add: accepts_def row_accepts_def desc_of_row_def split: prod.splits)

lemma spec_desc_least:
  assumes "d \<in> set (instructions base_decoder)" "accepts d b"
  shows "opcode_key (spec_desc b) \<le> opcode_key d"
proof (rule find_sorted_least [OF _ base_find assms])
  show "sorted (map opcode_key (instructions base_decoder))"
    by (auto simp: base_instructions sorted_append catch_all_greatest)
qed

lemma spec_desc_registered:
  assumes "spec_desc b \<noteq> catch_all"
  shows "\<exists>r \<in> set registered_insns. spec_desc b = desc_of_row r \<and> row_accepts (snd r) b"
  using find_SomeD [OF base_find, of b] assms accepts_desc_of_row by (fastforce simp: base_cases)

lemma spec_desc_illegal:
  assumes "spec_desc b = catch_all" "r \<in> set registered_insns"
  shows "\<not> row_accepts (snd r) b"
proof
  assume "row_accepts (snd r) b"
  then have "opcode_key catch_all \<le> opcode_key (desc_of_row r)"
    using spec_desc_least [of "desc_of_row r" b] assms accepts_desc_of_row by (auto simp: base_cases)
  then have "opcode_key (desc_of_row r) = opcode_key catch_all"
    using catch_all_greatest by (simp add: order_antisym)
  then have "d_mask (desc_of_row r) = 0" by (simp add: opcode_key_def catch_all_def)
  then have "snd (snd r) = 0" by (simp add: desc_of_row_def split: prod.splits)
  with registered_mask [OF assms(2)] show False by simp
qed


lemma c_jr_registered: "(''c_jr'', MATCH_C_JR, MASK_C_JR) \<in> set registered_insns"
proof (rule registered_memberI)
  have "list_ex (\<lambda>n. n = ''c_jr'') riscv_insn_list" by code_simp
  then show "''c_jr'' \<in> set riscv_insn_list" by (auto simp: list_ex_iff)
  have "list_all (\<lambda>n. n \<noteq> ''c_jr'') (map fst (declared_insns_1 @ declared_insns_2 @ declared_insns_3))"
    by code_simp
  then have "map_of (declared_insns_1 @ declared_insns_2 @ declared_insns_3) ''c_jr'' = None"
    by (auto simp: map_of_eq_None_iff list_all_iff)
  moreover have "map_of declared_insns_4 ''c_jr'' = Some (MATCH_C_JR, MASK_C_JR)"
    by (simp only: declared_insns_4_def map_of.simps fst_conv snd_conv fun_upd_same)
  ultimately show "map_of declared_insns ''c_jr'' = Some (MATCH_C_JR, MASK_C_JR)"
    by (auto simp: declared_insns_def map_add_def split: option.splits)
qed


end
