(* ===== verification/Hart.thy ===== *)
theory Hart
  imports DecodeCache
begin

text \<open>
  The data of one hart: traps (\<open>riscv/trap.h\<close>), the architectural state \<open>state_t\<close> and the
  processor object of \<open>riscv/processor.h\<close>, and the translation and instruction caches that
  \<open>riscv/mmu.h\<close> keeps for it.  The caches are declared here because the processor flushes
  them when it changes privilege, \<open>satp\<close>, \<open>mstatus\<close> or a trigger; their use is in \<open>Mmu\<close>.
  The small queries of the processor (supported extensions, privilege legalisation, the
  alignment of the program counter) are here too.
\<close>

section \<open>Traps\<close>

datatype trap_t = trap_t reg_t | mem_trap_t reg_t reg_t

primrec cause :: "trap_t \<Rightarrow> reg_t" where
  "cause (trap_t which) = which"
| "cause (mem_trap_t which tval) = which"

primrec has_tval :: "trap_t \<Rightarrow> bool" where
  "has_tval (trap_t which) = False"
| "has_tval (mem_trap_t which tval) = True"

primrec get_tval :: "trap_t \<Rightarrow> reg_t" where
  "get_tval (trap_t which) = 0"
| "get_tval (mem_trap_t which tval) = tval"

definition trap_instruction_address_misaligned :: "reg_t \<Rightarrow> trap_t" where "trap_instruction_address_misaligned tval = mem_trap_t CAUSE_MISALIGNED_FETCH tval"
definition trap_instruction_access_fault :: "reg_t \<Rightarrow> trap_t" where "trap_instruction_access_fault tval = mem_trap_t CAUSE_FETCH_ACCESS tval"
definition trap_illegal_instruction :: "reg_t \<Rightarrow> trap_t" where "trap_illegal_instruction tval = mem_trap_t CAUSE_ILLEGAL_INSTRUCTION tval"
definition trap_breakpoint :: "reg_t \<Rightarrow> trap_t" where "trap_breakpoint tval = mem_trap_t CAUSE_BREAKPOINT tval"
definition trap_load_address_misaligned :: "reg_t \<Rightarrow> trap_t" where "trap_load_address_misaligned tval = mem_trap_t CAUSE_MISALIGNED_LOAD tval"
definition trap_store_address_misaligned :: "reg_t \<Rightarrow> trap_t" where "trap_store_address_misaligned tval = mem_trap_t CAUSE_MISALIGNED_STORE tval"
definition trap_load_access_fault :: "reg_t \<Rightarrow> trap_t" where "trap_load_access_fault tval = mem_trap_t CAUSE_LOAD_ACCESS tval"
definition trap_store_access_fault :: "reg_t \<Rightarrow> trap_t" where "trap_store_access_fault tval = mem_trap_t CAUSE_STORE_ACCESS tval"
definition trap_user_ecall :: trap_t where "trap_user_ecall = trap_t CAUSE_USER_ECALL"
definition trap_supervisor_ecall :: trap_t where "trap_supervisor_ecall = trap_t CAUSE_SUPERVISOR_ECALL"
definition trap_hypervisor_ecall :: trap_t where "trap_hypervisor_ecall = trap_t CAUSE_HYPERVISOR_ECALL"
definition trap_machine_ecall :: trap_t where "trap_machine_ecall = trap_t CAUSE_MACHINE_ECALL"
definition trap_instruction_page_fault :: "reg_t \<Rightarrow> trap_t" where "trap_instruction_page_fault tval = mem_trap_t CAUSE_FETCH_PAGE_FAULT tval"
definition trap_load_page_fault :: "reg_t \<Rightarrow> trap_t" where "trap_load_page_fault tval = mem_trap_t CAUSE_LOAD_PAGE_FAULT tval"
definition trap_store_page_fault :: "reg_t \<Rightarrow> trap_t" where "trap_store_page_fault tval = mem_trap_t CAUSE_STORE_PAGE_FAULT tval"

section \<open>Triggers\<close>

datatype trigger_operation = OPERATION_EXECUTE | OPERATION_STORE | OPERATION_LOAD

record trigger_matched =
  tm_index :: nat
  tm_operation :: trigger_operation
  tm_address :: reg_t
  tm_data :: reg_t

text \<open>
  What a C++ function may throw: a trap, a matched trigger, or the end of the simulator by
  \<open>abort()\<close>.
\<close>

datatype exn = Throw_trap trap_t | Throw_trigger trigger_matched | Abort

type_synonym 'a result = "exn + 'a"

text \<open>\<open>action\<close> and \<open>match\<close> are enumerations that a CSR write fills with any field value.\<close>

record mcontrol_t =
  mc_type :: byte
  mc_dmode :: bool
  mc_maskmax :: byte
  mc_select :: bool
  mc_timing :: bool
  mc_action :: reg_t
  mc_chain :: bool
  mc_match :: reg_t
  mc_m :: bool
  mc_h :: bool
  mc_s :: bool
  mc_u :: bool
  mc_execute :: bool
  mc_store :: bool
  mc_load :: bool

record dcsr_t =
  dcsr_prv :: byte
  dcsr_step :: bool
  dcsr_ebreakm :: bool
  dcsr_ebreakh :: bool
  dcsr_ebreaks :: bool
  dcsr_ebreaku :: bool
  dcsr_halt :: bool
  dcsr_cause :: byte

datatype single_step_t = STEP_NONE | STEP_STEPPING | STEP_STEPPED

section \<open>Architectural state\<close>

record state_t =
  pc :: reg_t
  XPR :: "reg_t list"
  FPR :: "freg list"
  prv :: reg_t
  misa :: reg_t
  mstatus :: reg_t
  mepc :: reg_t
  mtval :: reg_t
  mscratch :: reg_t
  mtvec :: reg_t
  mcause :: reg_t
  minstret :: reg_t
  mie :: reg_t
  mip :: reg_t
  medeleg :: reg_t
  mideleg :: reg_t
  mcounteren :: u32
  scounteren :: u32
  sepc :: reg_t
  stval :: reg_t
  sscratch :: reg_t
  stvec :: reg_t
  satp :: reg_t
  scause :: reg_t
  dpc :: reg_t
  dscratch :: reg_t
  dcsr :: dcsr_t
  tselect :: reg_t
  mcontrol :: "mcontrol_t list"
  tdata2 :: "reg_t list"
  fflags :: u32
  frm :: u32
  serialized :: bool
  single_step :: single_step_t

definition num_triggers :: nat where "num_triggers = 4"

definition zero_mcontrol :: mcontrol_t where
  "zero_mcontrol = \<lparr>mc_type = 0, mc_dmode = False, mc_maskmax = 0, mc_select = False,
     mc_timing = False, mc_action = 0, mc_chain = False, mc_match = 0, mc_m = False,
     mc_h = False, mc_s = False, mc_u = False, mc_execute = False, mc_store = False,
     mc_load = False\<rparr>"

definition zero_dcsr :: dcsr_t where
  "zero_dcsr = \<lparr>dcsr_prv = 0, dcsr_step = False, dcsr_ebreakm = False, dcsr_ebreakh = False,
     dcsr_ebreaks = False, dcsr_ebreaku = False, dcsr_halt = False, dcsr_cause = 0\<rparr>"

text \<open>\<open>state_t::reset\<close>: \<open>memset\<close> to zero, then the fields that differ from zero.\<close>

definition state_reset :: "reg_t \<Rightarrow> state_t" where
  "state_reset max_isa = \<lparr>
     pc = DEFAULT_RSTVEC, XPR = replicate 32 0, FPR = replicate 32 \<lparr>v0 = 0, v1 = 0\<rparr>,
     prv = PRV_M, misa = max_isa, mstatus = 0, mepc = 0, mtval = 0, mscratch = 0, mtvec = 0,
     mcause = 0, minstret = 0, mie = 0, mip = 0, medeleg = 0, mideleg = 0, mcounteren = 0,
     scounteren = 0, sepc = 0, stval = 0, sscratch = 0, stvec = 0, satp = 0, scause = 0,
     dpc = 0, dscratch = 0, dcsr = zero_dcsr, tselect = 0,
     mcontrol = replicate num_triggers (zero_mcontrol\<lparr>mc_type := 2\<rparr>),
     tdata2 = replicate num_triggers 0,
     fflags = 0, frm = 0, serialized = False, single_step = STEP_NONE\<rparr>"

section \<open>Translation and instruction caches\<close>

record tlb_entry =
  host_offset :: reg_t
  target_offset :: reg_t

record insn_fetch =
  fetch_func :: insn_func
  fetch_insn :: insn_t

text \<open>
  \<open>next\<close> points into the \<open>icache\<close> array; it is the index it points to.  The member
  \<open>fetch_temp\<close> is accessed through a pointer; it is part of the host memory of theory \<open>Mmu\<close>.
\<close>

record icache_entry =
  ic_tag :: reg_t
  ic_next :: nat
  ic_data :: insn_fetch

record mmu_t =
  load_reservation_address :: reg_t
  icache :: "nat \<Rightarrow> icache_entry"
  tlb_data :: "nat \<Rightarrow> tlb_entry"
  tlb_insn_tag :: "nat \<Rightarrow> reg_t"
  tlb_load_tag :: "nat \<Rightarrow> reg_t"
  tlb_store_tag :: "nat \<Rightarrow> reg_t"
  check_triggers_fetch :: bool
  check_triggers_load :: bool
  check_triggers_store :: bool
  matched_trigger :: "trigger_matched option"

definition flush_icache :: "mmu_t \<Rightarrow> mmu_t" where
  "flush_icache m = m\<lparr>icache := (\<lambda>i. (icache m i)\<lparr>ic_tag := -1\<rparr>)\<rparr>"

definition flush_tlb :: "mmu_t \<Rightarrow> mmu_t" where
  "flush_tlb m = flush_icache (m\<lparr>tlb_insn_tag := (\<lambda>i. -1), tlb_load_tag := (\<lambda>i. -1),
     tlb_store_tag := (\<lambda>i. -1)\<rparr>)"

definition yield_load_reservation :: "mmu_t \<Rightarrow> mmu_t" where
  "yield_load_reservation m = m\<lparr>load_reservation_address := -1\<rparr>"

section \<open>The processor object\<close>

text \<open>
  \<open>p_ext\<close> says whether an extension is registered (\<open>ext != NULL\<close>); extensions other than
  the RoCC example are not part of the repository.
\<close>

record processor_t =
  p_state :: state_t
  p_mmu :: mmu_t
  p_decoder :: decoder
  p_ext :: bool
  p_id :: u32
  p_max_xlen :: nat
  p_xlen :: nat
  p_max_isa :: reg_t
  p_isa_string :: string
  p_debug :: bool
  p_halt_request :: bool
  p_halt_on_reset :: bool
  p_track_insn :: bool
  p_tracked_insn_count :: "string \<rightharpoonup> reg_t"

definition supports_extension :: "char \<Rightarrow> processor_t \<Rightarrow> bool" where
  "supports_extension ext p =
     (let c = of_char ext :: nat;
          c = (if 97 \<le> c \<and> c \<le> 122 then c - 32 else c)
      in 65 \<le> c \<and> c \<le> 90 \<and> truth (shr (misa (p_state p)) (c - 65) AND 1))"

definition get_flen :: "processor_t \<Rightarrow> nat" where
  "get_flen p = (if supports_extension CHR ''Q'' p then 128
     else if supports_extension CHR ''D'' p then 64
     else if supports_extension CHR ''F'' p then 32 else 0)"

definition pc_alignment_mask :: "processor_t \<Rightarrow> reg_t" where
  "pc_alignment_mask p = NOT (if supports_extension CHR ''C'' p then 0 else 2)"

definition check_pc_alignment :: "reg_t \<Rightarrow> processor_t \<Rightarrow> unit result" where
  "check_pc_alignment a p =
     (if truth (a AND NOT (pc_alignment_mask p))
      then Inl (Throw_trap (trap_instruction_address_misaligned a)) else Inr ())"

definition halted :: "processor_t \<Rightarrow> bool" where
  "halted p = truth (dcsr_cause (dcsr (p_state p)))"

text \<open>\<open>None\<close> is the failed assertion \<open>prv <= PRV_M\<close>.\<close>

definition legalize_privilege :: "reg_t \<Rightarrow> processor_t \<Rightarrow> reg_t option" where
  "legalize_privilege q p =
     (if \<not> q \<le> PRV_M then None
      else if \<not> supports_extension CHR ''U'' p then Some PRV_M
      else if q = PRV_H \<or> \<not> supports_extension CHR ''S'' p then Some PRV_U
      else Some q)"

definition set_privilege :: "reg_t \<Rightarrow> processor_t \<Rightarrow> processor_t option" where
  "set_privilege q p =
     (let p = p\<lparr>p_mmu := flush_tlb (p_mmu p)\<rparr>
      in case legalize_privilege q p of
           None \<Rightarrow> None
         | Some q' \<Rightarrow> Some (p\<lparr>p_state := (p_state p)\<lparr>prv := q'\<rparr>\<rparr>))"

text \<open>The serialisation values of \<open>riscv/decode.h\<close>.\<close>

definition PC_SERIALIZE_BEFORE :: reg_t where [spike_consts]: "PC_SERIALIZE_BEFORE = 3"
definition PC_SERIALIZE_AFTER :: reg_t where [spike_consts]: "PC_SERIALIZE_AFTER = 5"
definition PC_SERIALIZE_WFI :: reg_t where [spike_consts]: "PC_SERIALIZE_WFI = 7"

definition invalid_pc :: "reg_t \<Rightarrow> bool" where
  "invalid_pc a = truth (a AND 1)"

definition DEBUG_ROM_ENTRY :: reg_t where [spike_consts]: "DEBUG_ROM_ENTRY = 0x800"
definition DEBUG_ROM_TVEC :: reg_t where [spike_consts]: "DEBUG_ROM_TVEC = 0x808"

section \<open>Small facts\<close>

lemma and_1_bit: "truth (shr w n AND 1) = bit w n" for w :: reg_t
  by (auto simp: and_one_eq bit_iff_odd_drop_bit mod_2_eq_odd)

text \<open>The letter of an extension selects its bit of \<open>misa\<close>.\<close>

lemma supports_extension_bit [simp]:
  "supports_extension CHR ''U'' p = bit (misa (p_state p)) 20"
  "supports_extension CHR ''S'' p = bit (misa (p_state p)) 18"
  "supports_extension CHR ''C'' p = bit (misa (p_state p)) 2"
  "supports_extension CHR ''F'' p = bit (misa (p_state p)) 5"
  "supports_extension CHR ''D'' p = bit (misa (p_state p)) 3"
  "supports_extension CHR ''Q'' p = bit (misa (p_state p)) 16"
  by (simp_all only: supports_extension_def and_1_bit) simp_all

lemma legal_cases:
  "legalize_privilege q p = Some r \<Longrightarrow> r \<in> {PRV_U, PRV_S, PRV_M}"
proof -
  assume "legalize_privilege q p = Some r"
  then have "r = PRV_M \<or> r = PRV_U \<or> r = q \<and> q \<le> PRV_M \<and> q \<noteq> PRV_H"
    by (auto simp: legalize_privilege_def split: if_splits)
  moreover have "q = 0 \<or> q = 1 \<or> q = 2 \<or> q = 3" if "q \<le> (3 :: reg_t)"
  proof -
    have "unat q \<le> 3" using that by (simp add: word_le_nat_alt)
    then have "unat q = 0 \<or> unat q = 1 \<or> unat q = 2 \<or> unat q = 3" by arith
    then show ?thesis by (auto dest!: arg_cong [of _ _ "of_nat :: nat \<Rightarrow> reg_t"])
  qed
  ultimately show ?thesis by (auto simp: spike_consts)
qed

end
