(* ===== verification/Csr.thy ===== *)
theory Csr
  imports Hart
begin

text \<open>
  Reading and writing control and status registers: \<open>processor_t::set_csr\<close>,
  \<open>processor_t::get_csr\<close>, \<open>trigger_updated\<close> and the \<open>validate_csr\<close> macro.
  Every case of the two switches that does more than assign a field is a definition of its
  own.  \<open>None\<close> is \<open>abort()\<close> or a failed assertion; the invariant of theory \<open>Privileged\<close>
  excludes it.
\<close>

definition FSR_RD :: reg_t where [spike_consts]: "FSR_RD = shl 7 5"
definition FSR_AEXC :: reg_t where [spike_consts]: "FSR_AEXC = 0x10 OR 0x08 OR 0x04 OR 0x02 OR 0x01"

section \<open>Writes\<close>

definition dirty_fp_state :: "processor_t \<Rightarrow> processor_t" where
  "dirty_fp_state p = p\<lparr>p_state := (p_state p)\<lparr>mstatus := mstatus (p_state p) OR
     (MSTATUS_FS OR (if p_xlen p = 64 then MSTATUS64_SD else MSTATUS32_SD))\<rparr>\<rparr>"

definition dirty_ext_state :: "processor_t \<Rightarrow> processor_t" where
  "dirty_ext_state p = p\<lparr>p_state := (p_state p)\<lparr>mstatus := mstatus (p_state p) OR
     (MSTATUS_XS OR (if p_xlen p = 64 then MSTATUS64_SD else MSTATUS32_SD))\<rparr>\<rparr>"

definition write_fflags :: "reg_t \<Rightarrow> processor_t \<Rightarrow> processor_t" where
  "write_fflags val p = (let p = dirty_fp_state p in
     p\<lparr>p_state := (p_state p)\<lparr>fflags := ucast (val AND FSR_AEXC)\<rparr>\<rparr>)"

definition write_frm :: "reg_t \<Rightarrow> processor_t \<Rightarrow> processor_t" where
  "write_frm val p = (let p = dirty_fp_state p in
     p\<lparr>p_state := (p_state p)\<lparr>frm := ucast (val AND shr FSR_RD 5)\<rparr>\<rparr>)"

definition write_fcsr :: "reg_t \<Rightarrow> processor_t \<Rightarrow> processor_t" where
  "write_fcsr val p = (let p = dirty_fp_state p in
     p\<lparr>p_state := (p_state p)\<lparr>fflags := ucast (val AND FSR_AEXC),
        frm := ucast (shr (val AND FSR_RD) 5)\<rparr>\<rparr>)"

definition xlen_to_uxl :: "nat \<Rightarrow> reg_t option" where
  "xlen_to_uxl x = (if x = 32 then Some 1 else if x = 64 then Some 2 else None)"

definition mstatus_write_mask :: "processor_t \<Rightarrow> reg_t" where
  "mstatus_write_mask p =
     (MSTATUS_SIE OR MSTATUS_SPIE OR MSTATUS_MIE OR MSTATUS_MPIE
      OR MSTATUS_FS OR MSTATUS_MPRV OR MSTATUS_SUM
      OR MSTATUS_MXR OR MSTATUS_TW OR MSTATUS_TVM
      OR MSTATUS_TSR OR MSTATUS_UXL OR MSTATUS_SXL
      OR (if p_ext p then MSTATUS_XS else 0))
     OR (if supports_extension CHR ''S'' p then MSTATUS_SPP else 0)"

definition SD_mask :: "nat \<Rightarrow> reg_t" where
  "SD_mask x = (if x = 32 then MSTATUS32_SD else MSTATUS64_SD)"

definition status_dirty :: "reg_t \<Rightarrow> bool" where
  "status_dirty m \<longleftrightarrow> m AND MSTATUS_FS = MSTATUS_FS \<or> m AND MSTATUS_XS = MSTATUS_XS"

definition write_mstatus :: "reg_t \<Rightarrow> processor_t \<Rightarrow> processor_t option" where
  "write_mstatus val p =
     (let old = mstatus (p_state p);
          p = (if truth ((val XOR old) AND (MSTATUS_MPP OR MSTATUS_MPRV OR MSTATUS_SUM OR MSTATUS_MXR))
               then p\<lparr>p_mmu := flush_tlb (p_mmu p)\<rparr> else p)
      in case legalize_privilege (get_field val MSTATUS_MPP) p of
           None \<Rightarrow> None
         | Some requested_mpp \<Rightarrow>
             (case xlen_to_uxl (p_max_xlen p) of
                None \<Rightarrow> None
              | Some uxl \<Rightarrow>
                  (let m = set_field old MSTATUS_MPP requested_mpp;
                       msk = mstatus_write_mask p;
                       m = (m AND NOT msk) OR (val AND msk);
                       m = set_field m (SD_mask (p_max_xlen p)) (of_bool_word (status_dirty m));
                       m = set_field m MSTATUS_UXL uxl;
                       m = set_field m MSTATUS_UXL uxl;
                       m = set_field m MSTATUS_SXL uxl
                   in Some (p\<lparr>p_state := (p_state p)\<lparr>mstatus := m\<rparr>, p_xlen := p_max_xlen p\<rparr>))))"

definition delegable_ints :: "processor_t \<Rightarrow> reg_t" where
  "delegable_ints p = MIP_SSIP OR MIP_STIP OR MIP_SEIP OR shl (of_bool_word (p_ext p)) IRQ_COP"

definition all_ints :: "processor_t \<Rightarrow> reg_t" where
  "all_ints p = delegable_ints p OR MIP_MSIP OR MIP_MTIP"

text \<open>A masked update \<open>(old & ~mask) | (val & mask)\<close>.\<close>

definition mask_update :: "reg_t \<Rightarrow> reg_t \<Rightarrow> reg_t \<Rightarrow> reg_t" where
  "mask_update old msk val = (old AND NOT msk) OR (val AND msk)"

definition write_mip :: "reg_t \<Rightarrow> processor_t \<Rightarrow> processor_t" where
  "write_mip val p = p\<lparr>p_state := (p_state p)\<lparr>mip :=
     mask_update (mip (p_state p)) (MIP_SSIP OR MIP_STIP) val\<rparr>\<rparr>"

definition write_mie :: "reg_t \<Rightarrow> processor_t \<Rightarrow> processor_t" where
  "write_mie val p = p\<lparr>p_state := (p_state p)\<lparr>mie :=
     mask_update (mie (p_state p)) (all_ints p) val\<rparr>\<rparr>"

definition write_mideleg :: "reg_t \<Rightarrow> processor_t \<Rightarrow> processor_t" where
  "write_mideleg val p = p\<lparr>p_state := (p_state p)\<lparr>mideleg :=
     mask_update (mideleg (p_state p)) (delegable_ints p) val\<rparr>\<rparr>"

definition medeleg_mask :: reg_t where
  "medeleg_mask =
     shl 1 (unat CAUSE_MISALIGNED_FETCH) OR
     shl 1 (unat CAUSE_BREAKPOINT) OR
     shl 1 (unat CAUSE_USER_ECALL) OR
     shl 1 (unat CAUSE_FETCH_PAGE_FAULT) OR
     shl 1 (unat CAUSE_LOAD_PAGE_FAULT) OR
     shl 1 (unat CAUSE_STORE_PAGE_FAULT)"

definition write_medeleg :: "reg_t \<Rightarrow> processor_t \<Rightarrow> processor_t" where
  "write_medeleg val p = p\<lparr>p_state := (p_state p)\<lparr>medeleg :=
     mask_update (medeleg (p_state p)) medeleg_mask val\<rparr>\<rparr>"

definition write_minstret :: "reg_t \<Rightarrow> processor_t \<Rightarrow> processor_t" where
  "write_minstret val p =
     (let old = minstret (p_state p);
          new = (if p_xlen p = 32 then shl (shr old 32) 32 OR (val AND 0xffffffff) else val)
      in p\<lparr>p_state := (p_state p)\<lparr>minstret := new - 1\<rparr>\<rparr>)"

definition write_minstreth :: "reg_t \<Rightarrow> processor_t \<Rightarrow> processor_t" where
  "write_minstreth val p =
     p\<lparr>p_state := (p_state p)\<lparr>minstret :=
        (shl val 32 OR shr (shl (minstret (p_state p)) 32) 32) - 1\<rparr>\<rparr>"

definition sstatus_write_mask :: reg_t where
  "sstatus_write_mask = SSTATUS_SIE OR SSTATUS_SPIE OR SSTATUS_SPP OR SSTATUS_FS
     OR SSTATUS_XS OR SSTATUS_SUM OR SSTATUS_MXR"

definition write_satp :: "reg_t \<Rightarrow> processor_t \<Rightarrow> processor_t" where
  "write_satp val p =
     (let p = p\<lparr>p_mmu := flush_tlb (p_mmu p)\<rparr>;
          p = (if p_max_xlen p = 32
               then p\<lparr>p_state := (p_state p)\<lparr>satp := val AND (SATP32_PPN OR SATP32_MODE)\<rparr>\<rparr> else p)
      in if p_max_xlen p = 64 \<and> (get_field val SATP64_MODE = SATP_MODE_OFF \<or>
            get_field val SATP64_MODE = SATP_MODE_SV39 \<or> get_field val SATP64_MODE = SATP_MODE_SV48)
         then p\<lparr>p_state := (p_state p)\<lparr>satp := val AND (SATP64_PPN OR SATP64_MODE)\<rparr>\<rparr> else p)"

definition misa_bit :: "nat \<Rightarrow> reg_t" where "misa_bit n = shl 1 n"

definition write_misa :: "reg_t \<Rightarrow> processor_t \<Rightarrow> processor_t" where
  "write_misa val p =
     (if \<not> truth (val AND misa_bit 2) \<and> truth (pc (p_state p) AND 2) then p
      else
        (let val = (if \<not> truth (val AND misa_bit 5) then val AND NOT (misa_bit 3) else val);
             msk = (misa_bit 12 OR misa_bit 0 OR misa_bit 5 OR misa_bit 3 OR misa_bit 2) AND p_max_isa p
         in p\<lparr>p_state := (p_state p)\<lparr>misa := (val AND msk) OR (misa (p_state p) AND NOT msk)\<rparr>\<rparr>))"

definition write_tselect :: "reg_t \<Rightarrow> processor_t \<Rightarrow> processor_t" where
  "write_tselect val p =
     (if val < of_nat num_triggers then p\<lparr>p_state := (p_state p)\<lparr>tselect := val\<rparr>\<rparr> else p)"

text \<open>\<open>trigger_updated\<close>: the MMU must check triggers for the operations some trigger watches.\<close>

definition trigger_updated :: "processor_t \<Rightarrow> processor_t" where
  "trigger_updated p = p\<lparr>p_mmu := (flush_tlb (p_mmu p))\<lparr>
     check_triggers_fetch := list_ex mc_execute (take num_triggers (mcontrol (p_state p))),
     check_triggers_load := list_ex mc_load (take num_triggers (mcontrol (p_state p))),
     check_triggers_store := list_ex mc_store (take num_triggers (mcontrol (p_state p)))\<rparr>\<rparr>"

definition mcontrol_of_value :: "nat \<Rightarrow> reg_t \<Rightarrow> mcontrol_t \<Rightarrow> mcontrol_t" where
  "mcontrol_of_value xl val mc =
     (let mc = mc\<lparr>mc_dmode := truth (get_field val (MCONTROL_DMODE xl)),
        mc_select := truth (get_field val MCONTROL_SELECT),
        mc_timing := truth (get_field val MCONTROL_TIMING),
        mc_action := get_field val MCONTROL_ACTION,
        mc_chain := truth (get_field val MCONTROL_CHAIN),
        mc_match := get_field val MCONTROL_MATCH,
        mc_m := truth (get_field val MCONTROL_M),
        mc_h := truth (get_field val MCONTROL_H),
        mc_s := truth (get_field val MCONTROL_S),
        mc_u := truth (get_field val MCONTROL_U),
        mc_execute := truth (get_field val MCONTROL_EXECUTE),
        mc_store := truth (get_field val MCONTROL_STORE),
        mc_load := truth (get_field val MCONTROL_LOAD)\<rparr>
      in if mc_execute mc then mc\<lparr>mc_timing := False\<rparr> else mc)"

definition write_tdata1 :: "reg_t \<Rightarrow> processor_t \<Rightarrow> processor_t" where
  "write_tdata1 val p =
     (let s = p_state p; i = unat (tselect s); mc = mcontrol s ! i
      in if mc_dmode mc \<and> \<not> truth (dcsr_cause (dcsr s)) then p
         else trigger_updated
           (p\<lparr>p_state := s\<lparr>mcontrol := (mcontrol s)[i := mcontrol_of_value (p_xlen p) val mc]\<rparr>\<rparr>))"

definition write_tdata2 :: "reg_t \<Rightarrow> processor_t \<Rightarrow> processor_t" where
  "write_tdata2 val p =
     (let s = p_state p; i = unat (tselect s)
      in if mc_dmode (mcontrol s ! i) \<and> \<not> truth (dcsr_cause (dcsr s)) then p
         else if i < num_triggers then p\<lparr>p_state := s\<lparr>tdata2 := (tdata2 s)[i := val]\<rparr>\<rparr>
         else p)"

definition write_dcsr :: "reg_t \<Rightarrow> processor_t \<Rightarrow> processor_t" where
  "write_dcsr val p = p\<lparr>p_state := (p_state p)\<lparr>dcsr := (dcsr (p_state p))\<lparr>
     dcsr_prv := ucast (get_field val DCSR_PRV),
     dcsr_step := truth (get_field val DCSR_STEP),
     dcsr_ebreakm := truth (get_field val DCSR_EBREAKM),
     dcsr_ebreakh := truth (get_field val DCSR_EBREAKH),
     dcsr_ebreaks := truth (get_field val DCSR_EBREAKS),
     dcsr_ebreaku := truth (get_field val DCSR_EBREAKU),
     dcsr_halt := truth (get_field val DCSR_HALT)\<rparr>\<rparr>\<rparr>"

definition upd_state :: "(state_t \<Rightarrow> state_t) \<Rightarrow> processor_t \<Rightarrow> processor_t" where
  "upd_state f p = p\<lparr>p_state := f (p_state p)\<rparr>"

definition set_csr :: "nat \<Rightarrow> reg_t \<Rightarrow> processor_t \<Rightarrow> processor_t option" where
  "set_csr which v p =
     (let val = zext_xlen (p_xlen p) v; s = p_state p in
      if which = CSR_FFLAGS then Some (write_fflags val p)
      else if which = CSR_FRM then Some (write_frm val p)
      else if which = CSR_FCSR then Some (write_fcsr val p)
      else if which = CSR_MSTATUS then write_mstatus val p
      else if which = CSR_MIP then Some (write_mip val p)
      else if which = CSR_MIE then Some (write_mie val p)
      else if which = CSR_MIDELEG then Some (write_mideleg val p)
      else if which = CSR_MEDELEG then Some (write_medeleg val p)
      else if which = CSR_MINSTRET \<or> which = CSR_MCYCLE then Some (write_minstret val p)
      else if which = CSR_MINSTRETH \<or> which = CSR_MCYCLEH then Some (write_minstreth val p)
      else if which = CSR_SCOUNTEREN then Some (upd_state (\<lambda>s. s\<lparr>scounteren := ucast val\<rparr>) p)
      else if which = CSR_MCOUNTEREN then Some (upd_state (\<lambda>s. s\<lparr>mcounteren := ucast val\<rparr>) p)
      else if which = CSR_SSTATUS then
        write_mstatus (zext_xlen (p_xlen p) (mask_update (mstatus s) sstatus_write_mask val)) p
      else if which = CSR_SIP then
        Some (write_mip (zext_xlen (p_xlen p) (mask_update (mip s) (MIP_SSIP AND mideleg s) val)) p)
      else if which = CSR_SIE then
        Some (write_mie (zext_xlen (p_xlen p) (mask_update (mie s) (mideleg s) val)) p)
      else if which = CSR_SATP then Some (write_satp val p)
      else if which = CSR_SEPC then Some (upd_state (\<lambda>s. s\<lparr>sepc := val AND NOT 1\<rparr>) p)
      else if which = CSR_STVEC then Some (upd_state (\<lambda>s. s\<lparr>stvec := shl (shr val 2) 2\<rparr>) p)
      else if which = CSR_SSCRATCH then Some (upd_state (\<lambda>s. s\<lparr>sscratch := val\<rparr>) p)
      else if which = CSR_SCAUSE then Some (upd_state (\<lambda>s. s\<lparr>scause := val\<rparr>) p)
      else if which = CSR_STVAL then Some (upd_state (\<lambda>s. s\<lparr>stval := val\<rparr>) p)
      else if which = CSR_MEPC then Some (upd_state (\<lambda>s. s\<lparr>mepc := val AND NOT 1\<rparr>) p)
      else if which = CSR_MTVEC then Some (upd_state (\<lambda>s. s\<lparr>mtvec := val AND NOT 2\<rparr>) p)
      else if which = CSR_MSCRATCH then Some (upd_state (\<lambda>s. s\<lparr>mscratch := val\<rparr>) p)
      else if which = CSR_MCAUSE then Some (upd_state (\<lambda>s. s\<lparr>mcause := val\<rparr>) p)
      else if which = CSR_MTVAL then Some (upd_state (\<lambda>s. s\<lparr>mtval := val\<rparr>) p)
      else if which = CSR_MISA then Some (write_misa val p)
      else if which = CSR_TSELECT then Some (write_tselect val p)
      else if which = CSR_TDATA1 then Some (write_tdata1 val p)
      else if which = CSR_TDATA2 then Some (write_tdata2 val p)
      else if which = CSR_DCSR then Some (write_dcsr val p)
      else if which = CSR_DPC then Some (upd_state (\<lambda>s. s\<lparr>dpc := val AND NOT 1\<rparr>) p)
      else if which = CSR_DSCRATCH then Some (upd_state (\<lambda>s. s\<lparr>dscratch := val\<rparr>) p)
      else Some p)"

section \<open>Reads\<close>

definition illegal :: "'a result" where
  "illegal = Inl (Throw_trap (trap_illegal_instruction 0))"

definition counter_enabled :: "nat \<Rightarrow> processor_t \<Rightarrow> bool" where
  "counter_enabled which p =
     (let s = p_state p;
          ctr_en = (-1 :: u32);
          ctr_en = (if prv s < PRV_M then ctr_en AND mcounteren s else ctr_en);
          ctr_en = (if prv s < PRV_S then ctr_en AND scounteren s else ctr_en)
      in truth (shr ctr_en (which mod 32) AND 1))"

text \<open>\<open>require_fp\<close> and then the test of the F extension.\<close>

definition read_fp :: "reg_t \<Rightarrow> processor_t \<Rightarrow> reg_t result" where
  "read_fp v p =
     (if \<not> truth (mstatus (p_state p) AND MSTATUS_FS) then illegal
      else if \<not> supports_extension CHR ''F'' p then illegal
      else Inr v)"

definition sstatus_read_mask :: reg_t where
  "sstatus_read_mask = SSTATUS_SIE OR SSTATUS_SPIE OR SSTATUS_SPP OR SSTATUS_FS
     OR SSTATUS_XS OR SSTATUS_SUM OR SSTATUS_MXR OR SSTATUS_UXL"

definition read_sstatus :: "processor_t \<Rightarrow> reg_t" where
  "read_sstatus p =
     (let sstatus = mstatus (p_state p) AND sstatus_read_mask
      in if sstatus AND SSTATUS_FS = SSTATUS_FS \<or> sstatus AND SSTATUS_XS = SSTATUS_XS
         then sstatus OR (if p_xlen p = 32 then SSTATUS32_SD else SSTATUS64_SD)
         else sstatus)"

definition read_tdata1 :: "processor_t \<Rightarrow> reg_t" where
  "read_tdata1 p =
     (let s = p_state p; i = unat (tselect s) in
      if i < num_triggers then
        (let mc = mcontrol s ! i;
             v = 0;
             v = set_field v (MCONTROL_TYPE (p_xlen p)) (ucast (mc_type mc));
             v = set_field v (MCONTROL_DMODE (p_xlen p)) (of_bool_word (mc_dmode mc));
             v = set_field v (MCONTROL_MASKMAX (p_xlen p)) (ucast (mc_maskmax mc));
             v = set_field v MCONTROL_SELECT (of_bool_word (mc_select mc));
             v = set_field v MCONTROL_TIMING (of_bool_word (mc_timing mc));
             v = set_field v MCONTROL_ACTION (mc_action mc);
             v = set_field v MCONTROL_CHAIN (of_bool_word (mc_chain mc));
             v = set_field v MCONTROL_MATCH (mc_match mc);
             v = set_field v MCONTROL_M (of_bool_word (mc_m mc));
             v = set_field v MCONTROL_H (of_bool_word (mc_h mc));
             v = set_field v MCONTROL_S (of_bool_word (mc_s mc));
             v = set_field v MCONTROL_U (of_bool_word (mc_u mc));
             v = set_field v MCONTROL_EXECUTE (of_bool_word (mc_execute mc));
             v = set_field v MCONTROL_STORE (of_bool_word (mc_store mc));
             v = set_field v MCONTROL_LOAD (of_bool_word (mc_load mc))
         in v)
      else 0)"

text \<open>The C variable is a \<open>uint32_t\<close>; all masks are below \<open>2^32\<close>.\<close>

definition read_dcsr :: "processor_t \<Rightarrow> reg_t" where
  "read_dcsr p =
     (let d = dcsr (p_state p);
          v = 0 :: u32;
          v = set_field v (ucast DCSR_XDEBUGVER) 1;
          v = set_field v (ucast DCSR_EBREAKM) (of_bool_word (dcsr_ebreakm d));
          v = set_field v (ucast DCSR_EBREAKH) (of_bool_word (dcsr_ebreakh d));
          v = set_field v (ucast DCSR_EBREAKS) (of_bool_word (dcsr_ebreaks d));
          v = set_field v (ucast DCSR_EBREAKU) (of_bool_word (dcsr_ebreaku d));
          v = set_field v (ucast DCSR_STOPCYCLE) 0;
          v = set_field v (ucast DCSR_STOPTIME) 0;
          v = set_field v (ucast DCSR_CAUSE) (ucast (dcsr_cause d));
          v = set_field v (ucast DCSR_STEP) (of_bool_word (dcsr_step d));
          v = set_field v (ucast DCSR_PRV) (ucast (dcsr_prv d))
      in ucast v)"

definition get_csr :: "nat \<Rightarrow> processor_t \<Rightarrow> reg_t result" where
  "get_csr which p =
     (let s = p_state p; ctr_ok = counter_enabled which p; rv32 = (p_xlen p = 32) in
      if ctr_ok \<and> CSR_HPMCOUNTER3 \<le> which \<and> which \<le> CSR_HPMCOUNTER31 then Inr 0
      else if ctr_ok \<and> rv32 \<and> CSR_HPMCOUNTER3H \<le> which \<and> which \<le> CSR_HPMCOUNTER31H then Inr 0
      else if CSR_MHPMCOUNTER3 \<le> which \<and> which \<le> CSR_MHPMCOUNTER31 then Inr 0
      else if rv32 \<and> CSR_MHPMCOUNTER3H \<le> which \<and> which \<le> CSR_MHPMCOUNTER31H then Inr 0
      else if CSR_MHPMEVENT3 \<le> which \<and> which \<le> CSR_MHPMEVENT31 then Inr 0
      else if which = CSR_FFLAGS then read_fp (ucast (fflags s)) p
      else if which = CSR_FRM then read_fp (ucast (frm s)) p
      else if which = CSR_FCSR then read_fp (ucast (fflags s OR shl (frm s) 5)) p
      else if which = CSR_INSTRET \<or> which = CSR_CYCLE then
        (if ctr_ok then Inr (minstret s) else illegal)
      else if which = CSR_MINSTRET \<or> which = CSR_MCYCLE then Inr (minstret s)
      else if which = CSR_INSTRETH \<or> which = CSR_CYCLEH then
        (if ctr_ok \<and> rv32 then Inr (shr (minstret s) 32) else illegal)
      else if which = CSR_MINSTRETH \<or> which = CSR_MCYCLEH then
        (if rv32 then Inr (shr (minstret s) 32) else illegal)
      else if which = CSR_SCOUNTEREN then Inr (ucast (scounteren s))
      else if which = CSR_MCOUNTEREN then Inr (ucast (mcounteren s))
      else if which = CSR_SSTATUS then Inr (read_sstatus p)
      else if which = CSR_SIP then Inr (mip s AND mideleg s)
      else if which = CSR_SIE then Inr (mie s AND mideleg s)
      else if which = CSR_SEPC then Inr (sepc s AND pc_alignment_mask p)
      else if which = CSR_STVAL then Inr (stval s)
      else if which = CSR_STVEC then Inr (stvec s)
      else if which = CSR_SCAUSE then
        Inr (if p_max_xlen p > p_xlen p
             then scause s OR shl (shr (scause s) (p_max_xlen p - 1)) (p_xlen p - 1) else scause s)
      else if which = CSR_SATP then
        (if truth (get_field (mstatus s) MSTATUS_TVM) \<and> \<not> prv s \<ge> PRV_M then illegal
         else Inr (satp s))
      else if which = CSR_SSCRATCH then Inr (sscratch s)
      else if which = CSR_MSTATUS then Inr (mstatus s)
      else if which = CSR_MIP then Inr (mip s)
      else if which = CSR_MIE then Inr (mie s)
      else if which = CSR_MEPC then Inr (mepc s AND pc_alignment_mask p)
      else if which = CSR_MSCRATCH then Inr (mscratch s)
      else if which = CSR_MCAUSE then Inr (mcause s)
      else if which = CSR_MTVAL then Inr (mtval s)
      else if which = CSR_MISA then Inr (misa s)
      else if which = CSR_MARCHID \<or> which = CSR_MIMPID \<or> which = CSR_MVENDORID then Inr 0
      else if which = CSR_MHARTID then Inr (ucast (p_id p))
      else if which = CSR_MTVEC then Inr (mtvec s)
      else if which = CSR_MEDELEG then Inr (medeleg s)
      else if which = CSR_MIDELEG then Inr (mideleg s)
      else if which = CSR_TSELECT then Inr (tselect s)
      else if which = CSR_TDATA1 then Inr (read_tdata1 p)
      else if which = CSR_TDATA2 then
        Inr (if unat (tselect s) < num_triggers then tdata2 s ! unat (tselect s) else 0)
      else if which = CSR_TDATA3 then Inr 0
      else if which = CSR_DCSR then Inr (read_dcsr p)
      else if which = CSR_DPC then Inr (dpc s AND pc_alignment_mask p)
      else if which = CSR_DSCRATCH then Inr (dscratch s)
      else illegal)"

text \<open>
  \<open>validate_csr\<close> guards every CSR instruction: the first attempt asks for serialisation
  (\<open>Inl\<close>), the second clears the flag, also when it then throws, and checks privilege and
  writability.
\<close>

definition validate_csr :: "reg_t \<Rightarrow> bool \<Rightarrow> processor_t \<Rightarrow> (reg_t + unit result \<times> processor_t)" where
  "validate_csr which wr p =
     (if \<not> serialized (p_state p) then Inl PC_SERIALIZE_BEFORE
      else Inr
        (let p = upd_state (\<lambda>s. s\<lparr>serialized := False\<rparr>) p;
             csr_priv = get_field which 0x300;
             csr_read_only = (get_field which 0xC00 = 3)
         in (if wr \<and> csr_read_only \<or> prv (p_state p) < csr_priv then illegal else Inr (), p)))"

end
