(* ===== verification/Privileged.thy ===== *)
theory Privileged
  imports Csr
begin

text \<open>
  Traps, interrupts, debug mode and reset of a hart (\<open>processor.cc\<close>), with the invariant of
  the privileged state that these operations and every CSR write preserve.
\<close>

section \<open>Interrupts\<close>

text \<open>Number of contiguous 0 bits from the least significant one; 0 for the word 0.\<close>

fun ctz_from :: "nat \<Rightarrow> reg_t \<Rightarrow> nat" where
  "ctz_from 0 val = 0"
| "ctz_from (Suc n) val = (if val AND 1 = 0 then Suc (ctz_from n (shr val 1)) else 0)"

definition ctz :: "reg_t \<Rightarrow> nat" where
  "ctz val = (if val = 0 then 0 else ctz_from 64 val)"

definition enabled_interrupts :: "reg_t \<Rightarrow> state_t \<Rightarrow> reg_t" where
  "enabled_interrupts pending s =
     (let mie' = get_field (mstatus s) MSTATUS_MIE;
          m_enabled = (prv s < PRV_M \<or> prv s = PRV_M \<and> truth mie');
          enabled = pending AND NOT (mideleg s) AND - of_bool_word m_enabled;
          sie' = get_field (mstatus s) MSTATUS_SIE;
          s_enabled = (prv s < PRV_S \<or> prv s = PRV_S \<and> truth sie')
      in if enabled = 0 then pending AND mideleg s AND - of_bool_word s_enabled else enabled)"

text \<open>The priority cascade; \<open>None\<close> is \<open>abort()\<close>.\<close>

definition highest_priority :: "reg_t \<Rightarrow> reg_t option" where
  "highest_priority e =
     (if truth (shr e IRQ_M_EXT) then Some (shl (shr e IRQ_M_EXT) IRQ_M_EXT)
      else if truth (e AND (MIP_MEIP OR MIP_SEIP)) then Some (e AND (MIP_MEIP OR MIP_SEIP))
      else if truth (e AND (MIP_MSIP OR MIP_SSIP)) then Some (e AND (MIP_MSIP OR MIP_SSIP))
      else if truth (e AND (MIP_MTIP OR MIP_STIP)) then Some (e AND (MIP_MTIP OR MIP_STIP))
      else None)"

definition take_interrupt :: "reg_t \<Rightarrow> processor_t \<Rightarrow> unit result" where
  "take_interrupt pending_interrupts p =
     (let s = p_state p; enabled = enabled_interrupts pending_interrupts s
      in if dcsr_cause (dcsr s) = 0 \<and> truth enabled then
           (case highest_priority enabled of
              None \<Rightarrow> Inl Abort
            | Some e \<Rightarrow> Inl (Throw_trap (trap_t (shl 1 (p_max_xlen p - 1) OR of_nat (ctz e)))))
         else Inr ())"

definition take_pending_interrupt :: "processor_t \<Rightarrow> unit result" where
  "take_pending_interrupt p = take_interrupt (mip (p_state p) AND mie (p_state p)) p"

section \<open>Debug mode and traps\<close>

definition enter_debug_mode :: "byte \<Rightarrow> processor_t \<Rightarrow> processor_t option" where
  "enter_debug_mode c p =
     (let p = upd_state (\<lambda>s. s\<lparr>dcsr := (dcsr s)\<lparr>dcsr_cause := c, dcsr_prv := ucast (prv s)\<rparr>\<rparr>) p
      in map_option (upd_state (\<lambda>s. s\<lparr>dpc := pc s, pc := DEBUG_ROM_ENTRY\<rparr>)) (set_privilege PRV_M p))"

definition interrupt_bit :: "processor_t \<Rightarrow> reg_t" where
  "interrupt_bit p = shl 1 (p_max_xlen p - 1)"

definition is_interrupt :: "trap_t \<Rightarrow> processor_t \<Rightarrow> bool" where
  "is_interrupt t p = truth (cause t AND interrupt_bit p)"

definition trap_number :: "trap_t \<Rightarrow> processor_t \<Rightarrow> reg_t" where
  "trap_number t p = (if is_interrupt t p then cause t AND NOT (interrupt_bit p) else cause t)"

text \<open>Whether the trap is delegated to S-mode.\<close>

definition delegated :: "trap_t \<Rightarrow> processor_t \<Rightarrow> bool" where
  "delegated t p =
     (let s = p_state p; n = trap_number t p;
          deleg = (if is_interrupt t p then mideleg s else medeleg s)
      in prv s \<le> PRV_S \<and> n < of_nat (p_max_xlen p) \<and> truth (shr deleg (unat n) AND 1))"

definition take_trap_s :: "trap_t \<Rightarrow> reg_t \<Rightarrow> processor_t \<Rightarrow> processor_t option" where
  "take_trap_s t epc p =
     (let p = upd_state (\<lambda>s. s\<lparr>pc := stvec s, scause := cause t, sepc := epc, stval := get_tval t\<rparr>) p;
          s = mstatus (p_state p);
          s = set_field s MSTATUS_SPIE (get_field s MSTATUS_SIE);
          s = set_field s MSTATUS_SPP (prv (p_state p));
          s = set_field s MSTATUS_SIE 0
      in Option.bind (set_csr CSR_MSTATUS s p) (set_privilege PRV_S))"

definition take_trap_m :: "trap_t \<Rightarrow> reg_t \<Rightarrow> processor_t \<Rightarrow> processor_t option" where
  "take_trap_m t epc p =
     (let vector = (if truth (mtvec (p_state p) AND 1) \<and> is_interrupt t p then 4 * trap_number t p else 0);
          p = upd_state (\<lambda>s. s\<lparr>pc := (mtvec s AND NOT 1) + vector, mepc := epc, mcause := cause t,
             mtval := get_tval t\<rparr>) p;
          s = mstatus (p_state p);
          s = set_field s MSTATUS_MPIE (get_field s MSTATUS_MIE);
          s = set_field s MSTATUS_MPP (prv (p_state p));
          s = set_field s MSTATUS_MIE 0
      in Option.bind (set_csr CSR_MSTATUS s p) (set_privilege PRV_M))"

definition ebreak_to_debug :: "state_t \<Rightarrow> bool" where
  "ebreak_to_debug s \<longleftrightarrow> prv s = PRV_M \<and> dcsr_ebreakm (dcsr s)
     \<or> prv s = PRV_S \<and> dcsr_ebreaks (dcsr s) \<or> prv s = PRV_U \<and> dcsr_ebreaku (dcsr s)"

definition take_trap :: "trap_t \<Rightarrow> reg_t \<Rightarrow> processor_t \<Rightarrow> processor_t option" where
  "take_trap t epc p =
     (if truth (dcsr_cause (dcsr (p_state p))) then
        Some (upd_state (\<lambda>s. s\<lparr>pc := if cause t = CAUSE_BREAKPOINT then DEBUG_ROM_ENTRY else DEBUG_ROM_TVEC\<rparr>) p)
      else if cause t = CAUSE_BREAKPOINT \<and> ebreak_to_debug (p_state p) then
        enter_debug_mode DCSR_CAUSE_SWBP p
      else if delegated t p then take_trap_s t epc p
      else take_trap_m t epc p)"

section \<open>Reset and the memory-mapped port of a hart\<close>

definition proc_reset :: "processor_t \<Rightarrow> processor_t option" where
  "proc_reset p =
     (let p = p\<lparr>p_state := state_reset (p_max_isa p)\<rparr>;
          p = upd_state (\<lambda>s. s\<lparr>dcsr := (dcsr s)\<lparr>dcsr_halt := p_halt_on_reset p\<rparr>\<rparr>) p;
          p = p\<lparr>p_halt_on_reset := False\<rparr>
      in set_csr CSR_MSTATUS (mstatus (p_state p)) p)"

text \<open>\<open>None\<close> is the result \<open>false\<close>: no such register.\<close>

definition proc_load :: "reg_t \<Rightarrow> nat \<Rightarrow> processor_t \<Rightarrow> byte list option" where
  "proc_load addr len p =
     (if addr = 0 \<and> len \<le> 4
      then Some (take len (ucast (get_field (mip (p_state p)) MIP_MSIP) # replicate 3 0)) else None)"

definition proc_store :: "reg_t \<Rightarrow> byte list \<Rightarrow> processor_t \<Rightarrow> processor_t option" where
  "proc_store addr bytes p =
     (if addr = 0 \<and> length bytes \<le> 4
      then Some (upd_state (\<lambda>s. s\<lparr>mip := set_field (mip s) MIP_MSIP (ucast (bytes ! 0))\<rparr>) p)
      else None)"

section \<open>Fields of mstatus\<close>

lemma mstatus_fields:
  "MSTATUS_SIE = field_mask 1 1" "MSTATUS_SPIE = field_mask 5 1" "MSTATUS_MIE = field_mask 3 1"
  "MSTATUS_MPIE = field_mask 7 1" "MSTATUS_SPP = field_mask 8 1" "MSTATUS_MPP = field_mask 11 2"
  "MSTATUS_FS = field_mask 13 2" "MSTATUS_XS = field_mask 15 2" "MSTATUS_MPRV = field_mask 17 1"
  "MSTATUS_SUM = field_mask 18 1" "MSTATUS_MXR = field_mask 19 1" "MSTATUS_TVM = field_mask 20 1"
  "MSTATUS_TW = field_mask 21 1" "MSTATUS_TSR = field_mask 22 1" "MSTATUS32_SD = field_mask 31 1"
  "MSTATUS_UXL = field_mask 32 2" "MSTATUS_SXL = field_mask 34 2" "MSTATUS64_SD = field_mask 63 1"
  by (simp_all add: spike_consts field_mask_def mask_numeral mask_Suc_0)

lemma SD_mask_field: "SD_mask x = field_mask (if x = 32 then 31 else 63) 1"
  by (simp add: SD_mask_def mstatus_fields)

lemma status_dirty_bits:
  "status_dirty m \<longleftrightarrow> bit m 13 \<and> bit m 14 \<or> bit m 15 \<and> bit m 16"
proof -
  have full: "m AND field_mask k 2 = field_mask k 2 \<longleftrightarrow> bit m k \<and> bit m (Suc k)" if "k + 2 \<le> 64" for k
  proof
    assume "m AND field_mask k 2 = field_mask k 2"
    then have "bit (m AND field_mask k 2) i = bit (field_mask k 2 :: reg_t) i" for i by simp
    from this [of k] this [of "Suc k"] show "bit m k \<and> bit m (Suc k)"
      using that by (simp add: bit_simps)
  next
    assume "bit m k \<and> bit m (Suc k)"
    then show "m AND field_mask k 2 = field_mask k 2"
      by (intro bit_word_eqI) (auto simp: bit_simps numeral_2_eq_2 less_Suc_eq)
  qed
  show ?thesis by (simp add: status_dirty_def mstatus_fields full)
qed

lemma mask_bits:
  "bit (mask_update old msk val) i \<longleftrightarrow> (if bit msk i then bit val i else bit old i)"
  by (auto simp: mask_update_def bit_simps dest: bit_imp_le_length)

text \<open>Every bit of the value \<open>m\<close> of \<open>mstatus\<close> after a write of \<open>val\<close>.\<close>

definition mstatus_bits :: "processor_t \<Rightarrow> reg_t \<Rightarrow> reg_t \<Rightarrow> reg_t \<Rightarrow> bool" where
  "mstatus_bits p val mpp m \<longleftrightarrow> (\<forall>i. bit m i \<longleftrightarrow>
       (if i = 11 \<or> i = 12 then bit mpp (i - 11)
        else if i = 32 \<or> i = 34 then p_max_xlen p = 32
        else if i = 33 \<or> i = 35 then p_max_xlen p = 64
        else if i = (if p_max_xlen p = 32 then 31 else 63) then bit m 13 \<and> bit m 14 \<or> bit m 15 \<and> bit m 16
        else if bit (mstatus_write_mask p) i then bit val i else bit (mstatus (p_state p)) i))"

lemma write_mstatus_eq:
  assumes "p_max_xlen p = 32 \<or> p_max_xlen p = 64"
  obtains mpp m flush where
    "legalize_privilege (get_field val MSTATUS_MPP) p = Some mpp" "mpp \<in> {PRV_U, PRV_S, PRV_M}"
    "write_mstatus val p = Some (p\<lparr>p_mmu := (if flush then flush_tlb (p_mmu p) else p_mmu p),
       p_state := (p_state p)\<lparr>mstatus := m\<rparr>, p_xlen := p_max_xlen p\<rparr>)"
    "mstatus_bits p val mpp m"
    "flush \<longleftrightarrow> truth ((val XOR mstatus (p_state p)) AND (MSTATUS_MPP OR MSTATUS_MPRV OR MSTATUS_SUM OR MSTATUS_MXR))"
proof -
  define flush where "flush = truth ((val XOR mstatus (p_state p)) AND (MSTATUS_MPP OR MSTATUS_MPRV OR MSTATUS_SUM OR MSTATUS_MXR))"
  have "get_field val MSTATUS_MPP \<le> PRV_M"
  proof -
    have "get_field val MSTATUS_MPP = take_bit 2 (shr val 11)"
      by (simp add: mstatus_fields get_field_eq)
    moreover have "unat (take_bit 2 (shr val 11)) \<le> 3"
      using take_bit_nat_less_exp [of 2 "unat (shr val 11)"] by (simp add: unsigned_take_bit_eq)
    ultimately show ?thesis by (simp add: spike_consts word_le_nat_alt)
  qed
  then have "legalize_privilege (get_field val MSTATUS_MPP) p \<noteq> None"
    by (simp add: legalize_privilege_def)
  then obtain mpp where mpp: "legalize_privilege (get_field val MSTATUS_MPP) p = Some mpp"
    by blast
  have same: "legalize_privilege q (p\<lparr>p_mmu := m\<rparr>) = legalize_privilege q p"
    "mstatus_write_mask (p\<lparr>p_mmu := m\<rparr>) = mstatus_write_mask p" for q m
    by (simp_all add: legalize_privilege_def mstatus_write_mask_def supports_extension_def)
  obtain uxl where uxl: "xlen_to_uxl (p_max_xlen p) = Some uxl"
      "uxl = (if p_max_xlen p = 32 then 1 else 2)"
    using assms by (auto simp: xlen_to_uxl_def)
  define m0 where "m0 = (set_field (mstatus (p_state p)) MSTATUS_MPP mpp AND NOT (mstatus_write_mask p))
      OR (val AND mstatus_write_mask p)"
  define m where "m = set_field (set_field (set_field (set_field m0 (SD_mask (p_max_xlen p))
      (of_bool_word (status_dirty m0))) MSTATUS_UXL uxl) MSTATUS_UXL uxl) MSTATUS_SXL uxl"
  have sd: "(if p_max_xlen p = 32 then 31 else 63) \<notin> {32, 33, 34, 35, 11, 12, 13, 14, 15, 16 :: nat}" by simp
  have wm: "\<not> bit (mstatus_write_mask p) 11" "\<not> bit (mstatus_write_mask p) 12"
    by (auto simp: mstatus_write_mask_def mstatus_fields bit_simps)
  have m_bits: "bit m i \<longleftrightarrow> (if i = 32 \<or> i = 33 then bit uxl (i - 32)
      else if i = 34 \<or> i = 35 then bit uxl (i - 34)
      else if i = (if p_max_xlen p = 32 then 31 else 63) then status_dirty m0 else bit m0 i)" for i
    by (auto simp: m_def mstatus_fields SD_mask_field bit_set_field bit_1_iff)
  have m0_bits: "bit m0 i \<longleftrightarrow> (if bit (mstatus_write_mask p) i then bit val i
      else if i = 11 \<or> i = 12 then bit mpp (i - 11) else bit (mstatus (p_state p)) i)" for i
    by (auto simp: m0_def mstatus_fields bit_set_field bit_simps dest: bit_imp_le_length)
  have uxl_bits: "bit uxl 0 \<longleftrightarrow> p_max_xlen p = 32" "bit uxl 1 \<longleftrightarrow> p_max_xlen p = 64"
    using uxl assms by (auto simp: bit_0)
  have "bit m i \<longleftrightarrow>
       (if i = 11 \<or> i = 12 then bit mpp (i - 11)
        else if i = 32 \<or> i = 34 then p_max_xlen p = 32
        else if i = 33 \<or> i = 35 then p_max_xlen p = 64
        else if i = (if p_max_xlen p = 32 then 31 else 63) then bit m 13 \<and> bit m 14 \<or> bit m 15 \<and> bit m 16
        else if bit (mstatus_write_mask p) i then bit val i else bit (mstatus (p_state p)) i)" for i
  proof -
    have "status_dirty m0 = (bit m 13 \<and> bit m 14 \<or> bit m 15 \<and> bit m 16)"
      unfolding status_dirty_bits m_bits [of 13] m_bits [of 14] m_bits [of 15] m_bits [of 16]
      by (simp split: if_splits)
    then show ?thesis
      using uxl_bits wm unfolding m_bits [of i] m0_bits [of i] by (auto simp: split: if_splits)
  qed
  then have "mstatus_bits p val mpp m" unfolding mstatus_bits_def by blast
  moreover have "write_mstatus val p = Some (p\<lparr>p_mmu := (if flush then flush_tlb (p_mmu p) else p_mmu p),
       p_state := (p_state p)\<lparr>mstatus := m\<rparr>, p_xlen := p_max_xlen p\<rparr>)"
    using mpp uxl(1) by (simp add: write_mstatus_def Let_def same m_def m0_def flush_def)
  moreover have "mpp \<in> {PRV_U, PRV_S, PRV_M}" using mpp by (rule legal_cases)
  ultimately show thesis using that mpp flush_def by blast
qed

section \<open>The invariant\<close>

definition status_ok :: "processor_t \<Rightarrow> bool" where
  "status_ok p \<longleftrightarrow>
     (let s = p_state p; m = mstatus s in
      (p_max_xlen p = 32 \<or> p_max_xlen p = 64) \<and> p_xlen p = p_max_xlen p \<and>
      prv s \<in> {PRV_U, PRV_S, PRV_M} \<and>
      get_field m MSTATUS_MPP \<in> {PRV_U, PRV_S, PRV_M} \<and>
      (truth (m AND SD_mask (p_max_xlen p)) \<longleftrightarrow> status_dirty m) \<and>
      get_field m MSTATUS_UXL = (if p_max_xlen p = 32 then 1 else 2) \<and>
      get_field m MSTATUS_SXL = (if p_max_xlen p = 32 then 1 else 2))"

definition interrupts_ok :: "processor_t \<Rightarrow> bool" where
  "interrupts_ok p \<longleftrightarrow>
     (let s = p_state p in
      mie s AND NOT (all_ints p) = 0 \<and> mideleg s AND NOT (delegable_ints p) = 0 \<and>
      medeleg s AND NOT medeleg_mask = 0)"

text \<open>
  \<open>misa\<close> never exceeds the configured set, has D only with F, and keeps S and U as
  configured.
\<close>

definition isa_ok :: "processor_t \<Rightarrow> bool" where
  "isa_ok p \<longleftrightarrow>
     (let x = misa (p_state p) in
      x AND NOT (p_max_isa p) = 0 \<and> (bit x 3 \<longrightarrow> bit x 5) \<and>
      (bit x 18 \<longleftrightarrow> bit (p_max_isa p) 18) \<and> (bit x 20 \<longleftrightarrow> bit (p_max_isa p) 20) \<and>
      (bit (p_max_isa p) 3 \<longrightarrow> bit (p_max_isa p) 5))"

definition satp_ok :: "nat \<Rightarrow> reg_t \<Rightarrow> bool" where
  "satp_ok max_xlen a \<longleftrightarrow>
     (if max_xlen = 32 then get_field a SATP32_MODE \<in> {SATP_MODE_OFF, SATP_MODE_SV32}
      else get_field a SATP64_MODE \<in> {SATP_MODE_OFF, SATP_MODE_SV39, SATP_MODE_SV48})"

definition regs_ok :: "processor_t \<Rightarrow> bool" where
  "regs_ok p \<longleftrightarrow>
     (let s = p_state p in
      unat (tselect s) < num_triggers \<and> length (mcontrol s) = num_triggers \<and>
      length (tdata2 s) = num_triggers \<and> xpr_ok (XPR s) \<and> length (FPR s) = 32 \<and>
      fflags s AND NOT 31 = 0 \<and> frm s AND NOT 7 = 0 \<and> satp_ok (p_max_xlen p) (satp s) \<and>
      stvec s AND 3 = 0 \<and> mtvec s AND 2 = 0)"

definition hart_ok :: "processor_t \<Rightarrow> bool" where
  "hart_ok p \<longleftrightarrow> status_ok p \<and> interrupts_ok p \<and> isa_ok p \<and> regs_ok p"

lemmas hart_ok_defs = hart_ok_def status_ok_def interrupts_ok_def isa_ok_def regs_ok_def Let_def

lemma supports_extension_cong:
  "misa (p_state p) = misa (p_state q) \<Longrightarrow> supports_extension e p = supports_extension e q"
  by (simp add: supports_extension_def)

lemma ints_cong [simp]:
  "all_ints (p\<lparr>p_state := s\<rparr>) = all_ints p" "delegable_ints (p\<lparr>p_state := s\<rparr>) = delegable_ints p"
  "all_ints (p\<lparr>p_mmu := m\<rparr>) = all_ints p" "delegable_ints (p\<lparr>p_mmu := m\<rparr>) = delegable_ints p"
  "all_ints (p\<lparr>p_xlen := x\<rparr>) = all_ints p" "delegable_ints (p\<lparr>p_xlen := x\<rparr>) = delegable_ints p"
  by (simp_all add: all_ints_def delegable_ints_def)

lemma hart_ok_mmu [simp]: "hart_ok (p\<lparr>p_mmu := m\<rparr>) = hart_ok p"
  by (simp add: hart_ok_defs)

lemma mask_update_within:
  "old AND NOT msk = 0 \<Longrightarrow> mask_update old msk val AND NOT msk = 0"
  by (auto simp: bit_eq_iff bit_simps mask_bits)

lemma bit_small_words:
  "bit (3 :: reg_t) i \<longleftrightarrow> i = 0 \<or> i = 1" "bit (2 :: reg_t) i \<longleftrightarrow> i = 1"
proof -
  have "bit (mask 2 :: reg_t) i \<longleftrightarrow> i = 0 \<or> i = 1" by (auto simp: bit_mask_iff)
  then show "bit (3 :: reg_t) i \<longleftrightarrow> i = 0 \<or> i = 1" by (simp add: mask_numeral)
  show "bit (2 :: reg_t) i \<longleftrightarrow> i = 1" using bit_exp_iff [where 'a = "64 word", of 1 i] by auto
qed

lemma get_field_2:
  assumes "k + 2 \<le> 64"
  shows "get_field (m :: reg_t) (field_mask k 2) =
    (if bit m (Suc k) then if bit m k then 3 else 2 else if bit m k then 1 else 0)"
proof -
  have get: "get_field m (field_mask k 2) = take_bit 2 (shr m k)"
    using assms by (simp add: get_field_eq)
  show ?thesis unfolding get
  proof (rule bit_word_eqI)
    fix i
    have "bit (take_bit 2 (shr m k)) i \<longleftrightarrow> i = 0 \<and> bit m k \<or> i = 1 \<and> bit m (Suc k)"
      unfolding bit_take_bit_iff bit_drop_bit_eq by (auto simp: less_2_cases_iff)
    then show "bit (take_bit 2 (shr m k)) i =
        bit (if bit m (Suc k) then if bit m k then 3 else 2 else if bit m k then 1 else (0 :: reg_t)) i"
      using bit_small_words [of i] by (auto simp: bit_1_iff)
  qed
qed

lemma get_field_1:
  assumes "k + 1 \<le> 64"
  shows "get_field (m :: reg_t) (field_mask k 1) = (if bit m k then 1 else 0)"
proof -
  have "get_field m (field_mask k 1) = take_bit 1 (shr m k)" using assms by (simp add: get_field_eq)
  also have "\<dots> = (if odd (shr m k) then 1 else 0)" by (simp add: mod_2_eq_odd)
  finally show ?thesis by (simp add: bit_iff_odd_drop_bit)
qed

lemma and_field_1: "k < 64 \<Longrightarrow> truth (m AND field_mask k 1) \<longleftrightarrow> bit (m :: reg_t) k"
proof -
  assume "k < 64"
  then have "bit (field_mask k 1 :: reg_t) i \<longleftrightarrow> i = k" for i :: nat by (auto simp: bit_field_mask)
  moreover have "truth w \<longleftrightarrow> (\<exists>i. bit w i)" for w :: reg_t
    using bit_eq_iff [of w 0] by (auto dest: bit_imp_le_length)
  ultimately show ?thesis by (auto simp: bit_and_iff)
qed

text \<open>The status part of the invariant, bit by bit.\<close>

lemma status_ok_bits:
  "status_ok p \<longleftrightarrow>
     (let m = mstatus (p_state p) in
      (p_max_xlen p = 32 \<or> p_max_xlen p = 64) \<and> p_xlen p = p_max_xlen p \<and>
      prv (p_state p) \<in> {PRV_U, PRV_S, PRV_M} \<and> (bit m 12 \<longrightarrow> bit m 11) \<and>
      (bit m (if p_max_xlen p = 32 then 31 else 63) \<longleftrightarrow> bit m 13 \<and> bit m 14 \<or> bit m 15 \<and> bit m 16) \<and>
      (bit m 32 \<longleftrightarrow> p_max_xlen p = 32) \<and> (bit m 33 \<longleftrightarrow> p_max_xlen p \<noteq> 32) \<and>
      (bit m 34 \<longleftrightarrow> p_max_xlen p = 32) \<and> (bit m 35 \<longleftrightarrow> p_max_xlen p \<noteq> 32))"
proof -
  have uxl: "get_field m MSTATUS_UXL = (if x = 32 then 1 else 2) \<longleftrightarrow>
      (bit m 32 \<longleftrightarrow> x = 32) \<and> (bit m 33 \<longleftrightarrow> x \<noteq> 32)" for m and x :: nat
    unfolding mstatus_fields by (subst get_field_2) auto
  have sxl: "get_field m MSTATUS_SXL = (if x = 32 then 1 else 2) \<longleftrightarrow>
      (bit m 34 \<longleftrightarrow> x = 32) \<and> (bit m 35 \<longleftrightarrow> x \<noteq> 32)" for m and x :: nat
    unfolding mstatus_fields by (subst get_field_2) auto
  have mpp: "get_field m MSTATUS_MPP \<in> {PRV_U, PRV_S, PRV_M} \<longleftrightarrow> (bit m 12 \<longrightarrow> bit m 11)" for m
    unfolding mstatus_fields by (subst get_field_2) (auto simp: spike_consts)
  have sd: "truth (m AND SD_mask x) \<longleftrightarrow> bit m (if x = 32 then 31 else 63)" for m and x :: nat
    unfolding SD_mask_field by (subst and_field_1) auto
  show ?thesis
    unfolding status_ok_def Let_def uxl sxl mpp sd status_dirty_bits by blast
qed

lemma write_mstatus_ok:
  assumes "hart_ok p"
  obtains q where "write_mstatus val p = Some q" "hart_ok q"
proof -
  have xl: "p_max_xlen p = 32 \<or> p_max_xlen p = 64" using assms by (simp add: hart_ok_defs)
  obtain mpp m flush where w:
    "legalize_privilege (get_field val MSTATUS_MPP) p = Some mpp" "mpp \<in> {PRV_U, PRV_S, PRV_M}"
    "write_mstatus val p = Some (p\<lparr>p_mmu := (if flush then flush_tlb (p_mmu p) else p_mmu p),
       p_state := (p_state p)\<lparr>mstatus := m\<rparr>, p_xlen := p_max_xlen p\<rparr>)"
    "mstatus_bits p val mpp m"
    "flush \<longleftrightarrow> truth ((val XOR mstatus (p_state p)) AND (MSTATUS_MPP OR MSTATUS_MPRV OR MSTATUS_SUM OR MSTATUS_MXR))"
    by (rule write_mstatus_eq [OF xl, of val])
  have mpp: "bit mpp 1 \<longrightarrow> bit mpp 0"
    using w(2) by (auto simp: spike_consts bit_small_words)
  note b = w(4) [unfolded mstatus_bits_def, rule_format]
  have "status_ok (p\<lparr>p_mmu := (if flush then flush_tlb (p_mmu p) else p_mmu p),
       p_state := (p_state p)\<lparr>mstatus := m\<rparr>, p_xlen := p_max_xlen p\<rparr>)"
    unfolding status_ok_bits Let_def
    using xl by (rule disjE)
      (use assms mpp b [of 11] b [of 12] b [of 32] b [of 33] b [of 34] b [of 35] b [of 31] b [of 63]
        in \<open>simp_all add: hart_ok_def status_ok_def Let_def\<close>)
  moreover have "interrupts_ok (p\<lparr>p_mmu := mm, p_state := (p_state p)\<lparr>mstatus := m\<rparr>, p_xlen := x\<rparr>)"
    "isa_ok (p\<lparr>p_mmu := mm, p_state := (p_state p)\<lparr>mstatus := m\<rparr>, p_xlen := x\<rparr>)"
    "regs_ok (p\<lparr>p_mmu := mm, p_state := (p_state p)\<lparr>mstatus := m\<rparr>, p_xlen := x\<rparr>)" for mm x
    using assms by (simp_all add: hart_ok_defs)
  ultimately show thesis using that w(3) by (simp add: hart_ok_def)
qed

section \<open>Every CSR write preserves the invariant\<close>

named_theorems hart_pres "operations preserve hart_ok"

lemma hart_ok_upd_free [hart_pres]:
  assumes "hart_ok p"
    and "\<And>s. mstatus (f s) = mstatus s" "\<And>s. prv (f s) = prv s" "\<And>s. mie (f s) = mie s"
    and "\<And>s. mideleg (f s) = mideleg s" "\<And>s. medeleg (f s) = medeleg s" "\<And>s. misa (f s) = misa s"
    and "\<And>s. tselect (f s) = tselect s" "\<And>s. mcontrol (f s) = mcontrol s" "\<And>s. tdata2 (f s) = tdata2 s"
    and "\<And>s. XPR (f s) = XPR s" "\<And>s. FPR (f s) = FPR s" "\<And>s. fflags (f s) = fflags s"
    and "\<And>s. frm (f s) = frm s" "\<And>s. satp (f s) = satp s" "\<And>s. stvec (f s) = stvec s"
    and "\<And>s. mtvec (f s) = mtvec s"
  shows "hart_ok (upd_state f p)"
  using assms by (simp add: hart_ok_defs upd_state_def)

lemma dirty_fp_ok [hart_pres]: "hart_ok p \<Longrightarrow> hart_ok (dirty_fp_state p)"
proof -
  assume ok: "hart_ok p"
  then have xl: "p_max_xlen p = 32 \<or> p_max_xlen p = 64" "p_xlen p = p_max_xlen p"
    by (simp_all add: hart_ok_defs)
  have "status_ok (dirty_fp_state p)"
    using xl(1) by (rule disjE)
      (use ok in \<open>simp_all add: hart_ok_def status_ok_bits Let_def dirty_fp_state_def xl mstatus_fields bit_simps\<close>)
  with ok show ?thesis by (simp add: hart_ok_defs dirty_fp_state_def)
qed

lemma dirty_ext_ok [hart_pres]: "hart_ok p \<Longrightarrow> hart_ok (dirty_ext_state p)"
proof -
  assume ok: "hart_ok p"
  then have xl: "p_max_xlen p = 32 \<or> p_max_xlen p = 64" "p_xlen p = p_max_xlen p"
    by (simp_all add: hart_ok_defs)
  have "status_ok (dirty_ext_state p)"
    using xl(1) by (rule disjE)
      (use ok in \<open>simp_all add: hart_ok_def status_ok_bits Let_def dirty_ext_state_def xl mstatus_fields bit_simps\<close>)
  with ok show ?thesis by (simp add: hart_ok_defs dirty_ext_state_def)
qed

lemma fp_masks:
  "(ucast (val AND FSR_AEXC) :: u32) AND NOT 31 = 0"
  "(ucast (val AND shr FSR_RD 5) :: u32) AND NOT 7 = 0"
  "(ucast (shr (val AND FSR_RD) 5) :: u32) AND NOT 7 = 0"
proof -
  have "FSR_AEXC = mask 5" "FSR_RD = field_mask 5 3" "(31 :: u32) = mask 5" "(7 :: u32) = mask 3"
    by (simp_all add: spike_consts field_mask_def mask_numeral)
  then show "(ucast (val AND FSR_AEXC) :: u32) AND NOT 31 = 0"
    "(ucast (val AND shr FSR_RD 5) :: u32) AND NOT 7 = 0"
    "(ucast (shr (val AND FSR_RD) 5) :: u32) AND NOT 7 = 0"
    by (auto simp only: bit_eq_iff) (auto simp: bit_simps)
qed

lemma write_fp_ok [hart_pres]:
  assumes "hart_ok p"
  shows "hart_ok (write_fflags val p)" "hart_ok (write_frm val p)" "hart_ok (write_fcsr val p)"
  using dirty_fp_ok [OF assms] fp_masks [of val]
  by (simp_all add: write_fflags_def write_frm_def write_fcsr_def hart_ok_defs)

lemma write_ints_ok [hart_pres]:
  assumes "hart_ok p"
  shows "hart_ok (write_mip val p)" "hart_ok (write_mie val p)" "hart_ok (write_mideleg val p)"
    "hart_ok (write_medeleg val p)" "hart_ok (write_minstret val p)" "hart_ok (write_minstreth val p)"
  using assms
  by (simp_all add: write_mip_def write_mie_def write_mideleg_def write_medeleg_def write_minstret_def
      write_minstreth_def hart_ok_defs mask_update_within)

lemma satp_fields: "SATP32_MODE = field_mask 31 1" "SATP64_MODE = field_mask 60 4"
  "SATP64_PPN = field_mask 0 44" "SATP32_PPN = field_mask 0 22"
  by (simp_all add: spike_consts field_mask_def mask_numeral mask_Suc_0)

lemma write_satp_ok [hart_pres]:
  assumes "hart_ok p"
  shows "hart_ok (write_satp val p)"
proof -
  have "satp_ok 32 a" for a
  proof -
    have "get_field a (field_mask 31 1) \<in> {0, 1}" by (subst get_field_1) auto
    then show ?thesis unfolding satp_ok_def satp_fields by (simp add: spike_consts)
  qed
  moreover have mode: "get_field (val AND (SATP64_PPN OR SATP64_MODE)) SATP64_MODE = get_field val SATP64_MODE"
    by (intro bit_word_eqI) (auto simp: satp_fields get_field_eq bit_simps)
  ultimately have "satp_ok (p_max_xlen p) (val AND (SATP32_PPN OR SATP32_MODE))" if "p_max_xlen p = 32"
    using that by simp
  moreover have "satp_ok 64 (val AND (SATP64_PPN OR SATP64_MODE))"
    if "get_field val SATP64_MODE \<in> {SATP_MODE_OFF, SATP_MODE_SV39, SATP_MODE_SV48}"
    using that mode by (simp add: satp_ok_def)
  moreover have "hart_ok (p\<lparr>p_mmu := m, p_state := (p_state p)\<lparr>satp := a\<rparr>\<rparr>)"
    if "satp_ok (p_max_xlen p) a" for m a
    using that assms by (simp add: hart_ok_defs)
  ultimately show ?thesis
    using assms by (simp add: write_satp_def Let_def)
qed

lemma bit_misa_bit: "n < 64 \<Longrightarrow> bit (misa_bit n) i \<longleftrightarrow> i = n"
  unfolding misa_bit_def by (subst bit_push_bit_iff) (auto simp: bit_1_iff)

lemma and_misa_bit: "n < 64 \<Longrightarrow> truth (val AND misa_bit n) \<longleftrightarrow> bit val n"
proof -
  assume n: "n < 64"
  have "truth w \<longleftrightarrow> (\<exists>i. bit w i)" for w :: reg_t
    using bit_eq_iff [of w 0] by (auto dest: bit_imp_le_length)
  then show ?thesis by (auto simp: bit_and_iff bit_misa_bit [OF n])
qed

text \<open>The bits of \<open>misa\<close> after a write: only M, A, F, D, C change, and D needs F.\<close>

lemma write_misa_bits:
  "bit (misa (p_state (write_misa val p))) i \<longleftrightarrow>
     (if (bit val 2 \<or> \<not> truth (pc (p_state p) AND 2)) \<and> i \<in> {12, 0, 5, 3, 2} \<and> bit (p_max_isa p) i
      then bit val i \<and> (i = 3 \<longrightarrow> bit val 5) else bit (misa (p_state p)) i)"
  by (auto simp: write_misa_def Let_def and_misa_bit bit_misa_bit bit_simps dest: bit_imp_le_length)

lemma zero_outside: "x AND NOT y = 0 \<longleftrightarrow> (\<forall>i. bit x i \<longrightarrow> bit y i)" for x y :: "'a::len word"
  by (auto simp: bit_eq_iff bit_simps dest: bit_imp_le_length)

lemma write_misa_ok [hart_pres]:
  assumes "hart_ok p"
  shows "hart_ok (write_misa val p)"
proof -
  have ok: "\<And>i. bit (misa (p_state p)) i \<Longrightarrow> bit (p_max_isa p) i"
    "bit (misa (p_state p)) 3 \<Longrightarrow> bit (misa (p_state p)) 5"
    "bit (misa (p_state p)) 18 = bit (p_max_isa p) 18"
    "bit (misa (p_state p)) 20 = bit (p_max_isa p) 20"
    "bit (p_max_isa p) 3 \<Longrightarrow> bit (p_max_isa p) 5"
    using assms by (simp_all add: hart_ok_def isa_ok_def Let_def zero_outside)
  obtain x where x: "write_misa val p = p\<lparr>p_state := (p_state p)\<lparr>misa := x\<rparr>\<rparr>"
  proof (cases "\<not> truth (val AND misa_bit 2) \<and> truth (pc (p_state p) AND 2)")
    case True
    then show thesis by (intro that [of "misa (p_state p)"]) (simp add: write_misa_def)
  next
    case False
    then show thesis by (intro that) (simp only: write_misa_def Let_def if_False)
  qed
  then have bits: "bit x i \<longleftrightarrow>
     (if (bit val 2 \<or> \<not> truth (pc (p_state p) AND 2)) \<and> i \<in> {12, 0, 5, 3, 2} \<and> bit (p_max_isa p) i
      then bit val i \<and> (i = 3 \<longrightarrow> bit val 5) else bit (misa (p_state p)) i)" for i
    using write_misa_bits [of val p i] by simp
  have "bit x i \<Longrightarrow> bit (p_max_isa p) i" for i
    using bits [of i] ok(1) [of i] by (simp split: if_splits)
  moreover have "bit x 3 \<longrightarrow> bit x 5"
    using bits [of 3] bits [of 5] ok(1) [of 3] ok(2,5) by (auto split: if_splits)
  moreover have "bit x 18 = bit (p_max_isa p) 18" "bit x 20 = bit (p_max_isa p) 20"
    using bits [of 18] bits [of 20] ok by simp_all
  ultimately have "isa_ok (write_misa val p)"
    using ok(5) by (simp add: x isa_ok_def Let_def zero_outside)
  with assms show ?thesis by (simp add: x hart_ok_defs)
qed

lemma write_triggers_ok [hart_pres]:
  assumes "hart_ok p"
  shows "hart_ok (write_tselect val p)" "hart_ok (write_tdata1 val p)" "hart_ok (write_tdata2 val p)"
    "hart_ok (write_dcsr val p)"
  using assms
  by (simp_all add: write_tselect_def write_tdata1_def write_tdata2_def write_dcsr_def
      trigger_updated_def hart_ok_defs num_triggers_def word_less_nat_alt)

lemma write_vectors_ok [hart_pres]:
  assumes "hart_ok p"
  shows "hart_ok (upd_state (\<lambda>s. s\<lparr>stvec := shl (shr val 2) 2\<rparr>) p)"
    "hart_ok (upd_state (\<lambda>s. s\<lparr>mtvec := val AND NOT 2\<rparr>) p)"
proof -
  have "\<not> bit (shl (shr val 2) 2 AND 3) i" for i
    unfolding bit_and_iff bit_push_bit_iff bit_small_words by auto
  then have "shl (shr val 2) 2 AND 3 = 0"
    by (intro bit_word_eqI) simp
  moreover have "(val AND - 3) AND 2 = 0"
    by (subst and.assoc) simp
  ultimately show "hart_ok (upd_state (\<lambda>s. s\<lparr>stvec := shl (shr val 2) 2\<rparr>) p)"
    "hart_ok (upd_state (\<lambda>s. s\<lparr>mtvec := val AND NOT 2\<rparr>) p)"
    using assms by (simp_all add: hart_ok_defs upd_state_def)
qed

lemma Some_ok_if:
  "(\<exists>q. (if b then x else y) = Some q \<and> hart_ok q) \<longleftrightarrow>
     (if b then \<exists>q. x = Some q \<and> hart_ok q else \<exists>q. y = Some q \<and> hart_ok q)"
  by simp

lemma set_csr_ok:
  assumes "hart_ok p"
  obtains q where "set_csr which v p = Some q" "hart_ok q"
proof -
  have "\<exists>q. write_mstatus val p = Some q \<and> hart_ok q" for val
    by (rule write_mstatus_ok [OF assms, of val]) blast
  moreover have "hart_ok (upd_state (mtvec_update (\<lambda>_. zext_xlen (p_xlen p) v AND - 3)) p)"
    using write_vectors_ok(2) [OF assms, of "zext_xlen (p_xlen p) v"] by simp
  ultimately have "\<exists>q. set_csr which v p = Some q \<and> hart_ok q"
    unfolding set_csr_def Let_def
    by (simp only: Some_ok_if option.inject ex_simps simp_thms) (simp add: assms hart_pres)
  with that show thesis by blast
qed

section \<open>Traps, debug mode and reset preserve the invariant\<close>

lemma prv_small: "q \<in> {PRV_U, PRV_S, PRV_M} \<Longrightarrow> q \<le> PRV_M"
  by (auto simp: spike_consts)

lemma set_privilege_ok:
  assumes "hart_ok p" "q \<le> PRV_M"
  obtains r where "legalize_privilege q p = Some r" "r \<in> {PRV_U, PRV_S, PRV_M}"
    "set_privilege q p = Some (p\<lparr>p_mmu := flush_tlb (p_mmu p), p_state := (p_state p)\<lparr>prv := r\<rparr>\<rparr>)"
    "hart_ok (p\<lparr>p_mmu := flush_tlb (p_mmu p), p_state := (p_state p)\<lparr>prv := r\<rparr>\<rparr>)"
proof -
  have "legalize_privilege q p \<noteq> None" using assms(2) by (simp add: legalize_privilege_def)
  then obtain r where r: "legalize_privilege q p = Some r" by blast
  have same: "legalize_privilege q (p\<lparr>p_mmu := m\<rparr>) = legalize_privilege q p" for m
    by (simp add: legalize_privilege_def supports_extension_def)
  have prvs: "r \<in> {PRV_U, PRV_S, PRV_M}" using r by (rule legal_cases)
  moreover have "hart_ok (p\<lparr>p_mmu := m, p_state := (p_state p)\<lparr>prv := r\<rparr>\<rparr>)" for m
    using assms(1) prvs by (simp add: hart_ok_defs)
  ultimately show thesis using that r by (simp add: set_privilege_def Let_def same)
qed

lemma enter_debug_mode_ok:
  assumes "hart_ok p"
  obtains q where "enter_debug_mode c p = Some q" "hart_ok q"
proof -
  let ?p = "upd_state (\<lambda>s. s\<lparr>dcsr := (dcsr s)\<lparr>dcsr_cause := c, dcsr_prv := ucast (prv s)\<rparr>\<rparr>) p"
  have "hart_ok ?p" by (rule hart_ok_upd_free [OF assms]) simp_all
  then obtain r where "set_privilege PRV_M ?p = Some r" "hart_ok r"
    using set_privilege_ok [of ?p PRV_M] by auto
  moreover have "hart_ok (upd_state (\<lambda>s. s\<lparr>dpc := pc s, pc := DEBUG_ROM_ENTRY\<rparr>) r)"
    by (rule hart_ok_upd_free [OF \<open>hart_ok r\<close>]) simp_all
  ultimately show thesis using that by (simp add: enter_debug_mode_def)
qed

lemma set_mstatus_then_privilege_ok:
  assumes "hart_ok p" "q \<le> PRV_M"
  shows "\<exists>r. Option.bind (set_csr CSR_MSTATUS v p) (set_privilege q) = Some r \<and> hart_ok r"
proof -
  obtain p' where "set_csr CSR_MSTATUS v p = Some p'" "hart_ok p'"
    using set_csr_ok [OF assms(1)] by blast
  moreover from this(2) obtain r where "set_privilege q p' = Some r" "hart_ok r"
    using set_privilege_ok [of p' q] assms(2) by auto
  ultimately show ?thesis by simp
qed

lemma take_trap_ok:
  assumes "hart_ok p"
  obtains q where "take_trap t epc p = Some q" "hart_ok q"
proof -
  have "\<exists>q. take_trap_s t epc p = Some q \<and> hart_ok q"
    unfolding take_trap_s_def Let_def
    by (rule set_mstatus_then_privilege_ok)
      (rule hart_ok_upd_free [OF assms], simp_all add: spike_consts)
  moreover have "\<exists>q. take_trap_m t epc p = Some q \<and> hart_ok q"
    unfolding take_trap_m_def Let_def
    by (rule set_mstatus_then_privilege_ok)
      (rule hart_ok_upd_free [OF assms], simp_all add: spike_consts)
  moreover have "\<exists>q. enter_debug_mode DCSR_CAUSE_SWBP p = Some q \<and> hart_ok q"
    by (rule enter_debug_mode_ok [OF assms]) blast
  moreover have "hart_ok (upd_state (\<lambda>s. s\<lparr>pc := x\<rparr>) p)" for x
    by (rule hart_ok_upd_free [OF assms]) simp_all
  ultimately have "\<exists>q. take_trap t epc p = Some q \<and> hart_ok q"
    unfolding take_trap_def by (simp only: Some_ok_if option.inject ex_simps simp_thms) simp
  with that show thesis by blast
qed

text \<open>What \<open>parse_isa_string\<close> guarantees about the configuration.\<close>

definition config_ok :: "processor_t \<Rightarrow> bool" where
  "config_ok p \<longleftrightarrow> (p_max_xlen p = 32 \<or> p_max_xlen p = 64) \<and>
     bit (p_max_isa p) 18 \<and> bit (p_max_isa p) 20 \<and> (bit (p_max_isa p) 3 \<longrightarrow> bit (p_max_isa p) 5)"

lemma proc_reset_ok:
  assumes "config_ok p"
  obtains q where "proc_reset p = Some q" "hart_ok q" "config_ok q"
proof -
  let ?s = "(state_reset (p_max_isa p))\<lparr>dcsr := zero_dcsr\<lparr>dcsr_halt := p_halt_on_reset p\<rparr>\<rparr>"
  let ?p = "p\<lparr>p_state := ?s, p_halt_on_reset := False\<rparr>"
  have xl: "p_max_xlen ?p = 32 \<or> p_max_xlen ?p = 64" using assms by (simp add: config_ok_def)
  obtain mpp m flush where w:
    "legalize_privilege (get_field 0 MSTATUS_MPP) ?p = Some mpp" "mpp \<in> {PRV_U, PRV_S, PRV_M}"
    "write_mstatus 0 ?p = Some (?p\<lparr>p_mmu := (if flush then flush_tlb (p_mmu ?p) else p_mmu ?p),
       p_state := (p_state ?p)\<lparr>mstatus := m\<rparr>, p_xlen := p_max_xlen ?p\<rparr>)"
    "mstatus_bits ?p 0 mpp m"
    "flush \<longleftrightarrow> truth ((0 XOR mstatus (p_state ?p)) AND (MSTATUS_MPP OR MSTATUS_MPRV OR MSTATUS_SUM OR MSTATUS_MXR))"
    by (rule write_mstatus_eq [OF xl, of 0])
  let ?q = "?p\<lparr>p_mmu := (if flush then flush_tlb (p_mmu ?p) else p_mmu ?p),
       p_state := (p_state ?p)\<lparr>mstatus := m\<rparr>, p_xlen := p_max_xlen ?p\<rparr>"
  have mpp: "bit mpp 1 \<longrightarrow> bit mpp 0" using w(2) by (auto simp: spike_consts bit_small_words)
  note b = w(4) [unfolded mstatus_bits_def, rule_format]
  have "status_ok ?q"
    using xl by (rule disjE)
      (use mpp b [of 11] b [of 12] b [of 32] b [of 33] b [of 34] b [of 35] b [of 31] b [of 63]
        in \<open>simp_all add: status_ok_bits Let_def state_reset_def\<close>)
  moreover have "interrupts_ok ?q" by (simp add: interrupts_ok_def state_reset_def Let_def)
  moreover have "isa_ok ?q" using assms by (simp add: isa_ok_def state_reset_def Let_def config_ok_def)
  moreover have "satp_ok x 0" for x
    by (simp add: satp_ok_def get_field_def spike_consts)
  then have "regs_ok ?q"
    by (simp add: regs_ok_def state_reset_def Let_def num_triggers_def xpr_ok_def)
  ultimately have "hart_ok ?q" by (simp add: hart_ok_def)
  moreover have "proc_reset p = Some ?q"
  proof -
    have "zext_xlen x 0 = 0" for x by (simp add: zext_xlen_def)
    then have "set_csr CSR_MSTATUS 0 ?p = write_mstatus 0 ?p"
      by (simp add: set_csr_def spike_consts Let_def)
    moreover have "mstatus (state_reset x) = 0" "dcsr (state_reset x) = zero_dcsr" for x
      by (simp_all add: state_reset_def)
    ultimately show ?thesis using w(3) by (simp add: proc_reset_def Let_def upd_state_def)
  qed
  moreover have "config_ok ?q" using assms by (simp add: config_ok_def)
  ultimately show thesis using that by blast
qed

section \<open>The configuration never changes\<close>

definition same_config :: "processor_t \<Rightarrow> processor_t \<Rightarrow> bool" where
  "same_config p q \<longleftrightarrow> p_max_xlen q = p_max_xlen p \<and> p_max_isa q = p_max_isa p \<and> p_ext q = p_ext p
     \<and> p_id q = p_id p"

lemma same_config_ok: "same_config p q \<Longrightarrow> config_ok p \<Longrightarrow> config_ok q"
  by (simp add: same_config_def config_ok_def)

lemma same_config_trans: "same_config p q \<Longrightarrow> same_config q r \<Longrightarrow> same_config p r"
  by (simp add: same_config_def)

lemma same_config_upd [simp]: "same_config p (upd_state f p)"
  by (simp add: same_config_def upd_state_def)

lemma if_Some_config:
  "(\<forall>q. (if b then x else y) = Some q \<longrightarrow> same_config p q) \<longleftrightarrow>
     (if b then \<forall>q. x = Some q \<longrightarrow> same_config p q else \<forall>q. y = Some q \<longrightarrow> same_config p q)"
  by simp

lemma set_csr_config: "set_csr which v p = Some q \<Longrightarrow> same_config p q"
proof -
  have "write_mstatus val p = Some q \<Longrightarrow> same_config p q" for val q
    by (auto simp: write_mstatus_def Let_def same_config_def split: option.splits if_splits)
  moreover have "same_config p (write_fflags val p)" "same_config p (write_frm val p)"
    "same_config p (write_fcsr val p)" "same_config p (write_mip val p)" "same_config p (write_mie val p)"
    "same_config p (write_mideleg val p)" "same_config p (write_medeleg val p)"
    "same_config p (write_minstret val p)" "same_config p (write_minstreth val p)"
    "same_config p (write_satp val p)" "same_config p (write_misa val p)"
    "same_config p (write_tselect val p)" "same_config p (write_tdata1 val p)"
    "same_config p (write_tdata2 val p)" "same_config p (write_dcsr val p)" for val
    by (simp_all add: same_config_def write_fflags_def write_frm_def write_fcsr_def dirty_fp_state_def
        write_mip_def write_mie_def write_mideleg_def write_medeleg_def write_minstret_def
        write_minstreth_def write_satp_def write_misa_def write_tselect_def write_tdata1_def
        write_tdata2_def write_dcsr_def trigger_updated_def Let_def)
  moreover have "same_config p p" by (simp add: same_config_def)
  ultimately have "\<forall>q. set_csr which v p = Some q \<longrightarrow> same_config p q"
    unfolding set_csr_def Let_def
    by (simp only: if_Some_config option.inject simp_thms) (simp del: split_paired_All)
  then show "set_csr which v p = Some q \<Longrightarrow> same_config p q" by blast
qed

lemma set_privilege_config: "set_privilege r p = Some q \<Longrightarrow> same_config p q"
  by (auto simp: set_privilege_def Let_def same_config_def split: option.splits)

lemma bind_config:
  "Option.bind (set_csr c v p) (set_privilege r) = Some q \<Longrightarrow> same_config p q"
  by (auto simp: Option.bind_eq_Some_conv dest!: set_csr_config set_privilege_config intro: same_config_trans)

lemma enter_debug_config: "enter_debug_mode c p = Some q \<Longrightarrow> same_config p q"
  by (auto simp: enter_debug_mode_def Let_def dest!: set_privilege_config intro!: same_config_trans [OF _ same_config_upd]
      intro: same_config_trans [OF same_config_upd])

lemma take_trap_config: "take_trap t epc p = Some q \<Longrightarrow> same_config p q"
  by (auto simp: take_trap_def take_trap_s_def take_trap_m_def Let_def split: if_splits
      dest!: bind_config enter_debug_config intro: same_config_trans [OF same_config_upd])

section \<open>Reachable harts\<close>

text \<open>
  What can happen to a hart between two instructions or inside one.  Instruction bodies are
  not part of the repository; they change the hart through these operations of the
  processor and the register macros of \<open>decode.h\<close>.  Devices set interrupt-pending bits.
\<close>

inductive hart_op :: "processor_t \<Rightarrow> processor_t \<Rightarrow> bool" where
  op_csr: "set_csr which v p = Some q \<Longrightarrow> hart_op p q"
| op_validate: "validate_csr which wr p = Inr (r, q) \<Longrightarrow> hart_op p q"
| op_trap: "take_trap t epc p = Some q \<Longrightarrow> hart_op p q"
| op_privilege: "r \<le> PRV_M \<Longrightarrow> set_privilege r p = Some q \<Longrightarrow> hart_op p q"
| op_debug: "enter_debug_mode c p = Some q \<Longrightarrow> hart_op p q"
| op_write_reg: "i < 32 \<Longrightarrow> hart_op p (upd_state (\<lambda>s. s\<lparr>XPR := regfile_write True i v (XPR s)\<rparr>) p)"
| op_write_freg: "i < 32 \<Longrightarrow>
    hart_op p (dirty_fp_state (upd_state (\<lambda>s. s\<lparr>FPR := regfile_write False i f (FPR s)\<rparr>) p))"
| op_dirty_ext: "hart_op p (dirty_ext_state p)"
| op_interrupt_line: "hart_op p (upd_state (\<lambda>s. s\<lparr>mip := b\<rparr>) p)"
| op_pc: "hart_op p (upd_state (\<lambda>s. s\<lparr>pc := a\<rparr>) p)"
| op_serialize: "hart_op p (upd_state (\<lambda>s. s\<lparr>serialized := b'\<rparr>) p)"
| op_retire: "hart_op p (upd_state (\<lambda>s. s\<lparr>minstret := minstret s + n\<rparr>) p)"
| op_reset: "proc_reset p = Some q \<Longrightarrow> hart_op p q"

inductive reachable_hart :: "processor_t \<Rightarrow> bool" where
  boot: "config_ok p \<Longrightarrow> proc_reset p = Some q \<Longrightarrow> reachable_hart q"
| op: "reachable_hart p \<Longrightarrow> hart_op p q \<Longrightarrow> reachable_hart q"

inductive_cases hart_opE: "hart_op p q"

lemma proc_reset_unique:
  assumes "config_ok p" "proc_reset p = Some q"
  shows "hart_ok q" "config_ok q"
  using proc_reset_ok [OF assms(1)] assms(2) by (metis option.inject)+

lemma hart_op_ok:
  assumes "hart_op p q" "hart_ok p" "config_ok p"
  shows "hart_ok q \<and> config_ok q"
  using assms(1)
proof cases
  case (op_csr which v)
  obtain r where "set_csr which v p = Some r" "hart_ok r"
    by (rule set_csr_ok [OF assms(2), of which v])
  with op_csr same_config_ok [OF set_csr_config [OF op_csr] assms(3)] show ?thesis by simp
next
  case (op_validate which wr r)
  then have q: "q = upd_state (\<lambda>s. s\<lparr>serialized := False\<rparr>) p"
    by (auto simp: validate_csr_def Let_def split: if_splits)
  have "hart_ok q" unfolding q by (rule hart_ok_upd_free [OF assms(2)]) simp_all
  with assms(3) q show ?thesis by (simp add: same_config_ok [OF same_config_upd])
next
  case (op_trap t epc)
  obtain r where "take_trap t epc p = Some r" "hart_ok r" by (rule take_trap_ok [OF assms(2), of t epc])
  with op_trap same_config_ok [OF take_trap_config [OF op_trap] assms(3)] show ?thesis by simp
next
  case (op_privilege r)
  then show ?thesis
    using set_privilege_ok [OF assms(2), of r] same_config_ok [OF set_privilege_config [of r p q] assms(3)]
    by auto
next
  case (op_debug c)
  obtain r where "enter_debug_mode c p = Some r" "hart_ok r"
    by (rule enter_debug_mode_ok [OF assms(2), of c])
  with op_debug same_config_ok [OF enter_debug_config [OF op_debug] assms(3)] show ?thesis by simp
next
  case (op_write_reg i v)
  then show ?thesis
    using assms(2,3) by (simp add: hart_ok_defs upd_state_def xpr_ok_write config_ok_def)
next
  case (op_write_freg i f)
  have "hart_ok (upd_state (\<lambda>s. s\<lparr>FPR := regfile_write False i f (FPR s)\<rparr>) p)"
    using assms(2) by (simp add: hart_ok_defs upd_state_def regfile_write_def)
  from dirty_fp_ok [OF this] have "hart_ok q" by (simp add: op_write_freg)
  moreover have "config_ok q"
    using assms(3) by (simp add: op_write_freg config_ok_def dirty_fp_state_def upd_state_def)
  ultimately show ?thesis by blast
next
  case op_dirty_ext
  then show ?thesis
    using dirty_ext_ok [OF assms(2)] assms(3) by (simp add: config_ok_def dirty_ext_state_def)
next
  case (op_reset)
  then show ?thesis using proc_reset_unique assms(3) by blast
qed (use assms in \<open>simp_all add: hart_ok_defs upd_state_def config_ok_def\<close>)

lemma reachable_ok: "reachable_hart p \<Longrightarrow> hart_ok p \<and> config_ok p"
  by (induction rule: reachable_hart.induct) (auto simp: proc_reset_unique dest: hart_op_ok)

section \<open>Interrupt priority\<close>

lemma ctz_from_eqI:
  "bit val i \<Longrightarrow> (\<And>j. j < i \<Longrightarrow> \<not> bit val j) \<Longrightarrow> i < n \<Longrightarrow> ctz_from n val = i"
proof (induction n val arbitrary: i rule: ctz_from.induct)
  case (2 n val)
  have odd: "val AND 1 = 0 \<longleftrightarrow> \<not> bit val 0"
    by (auto simp: and_one_eq bit_0 mod_2_eq_odd)
  show ?case
  proof (cases i)
    case 0
    with 2 odd show ?thesis by simp
  next
    case (Suc i')
    have "ctz_from n (shr val 1) = i'"
      using 2 odd Suc by (intro "2.IH") (auto simp: bit_simps)
    with 2 odd Suc show ?thesis by auto
  qed
qed simp

lemma ctz_eqI: "bit val i \<Longrightarrow> (\<And>j. j < i \<Longrightarrow> \<not> bit val j) \<Longrightarrow> ctz val = i"
  by (auto simp: ctz_def intro!: ctz_from_eqI dest: bit_imp_le_length)

lemma find_upt_SomeD:
  "find P [m..<n] = Some i \<Longrightarrow> m \<le> i \<and> i < n \<and> P i \<and> (\<forall>j. m \<le> j \<longrightarrow> j < i \<longrightarrow> \<not> P j)"
proof (induction n)
  case (Suc n)
  show ?case
  proof (cases "m \<le> n")
    case True
    then have "[m..<Suc n] = [m..<n] @ [n]" by simp
    with Suc show ?thesis
      by (auto simp: find_append find_None_iff_all less_Suc_eq split: option.splits if_splits)
  qed (use Suc in simp)
qed simp

text \<open>The order in which pending and enabled interrupts are taken.\<close>

definition interrupt_order :: "nat list" where
  "interrupt_order = [IRQ_M_EXT..<64] @ [IRQ_S_EXT, IRQ_S_SOFT, IRQ_M_SOFT, IRQ_S_TIMER, IRQ_M_TIMER]"

lemma truth_bits: "truth w \<longleftrightarrow> (\<exists>i. bit w i)" for w :: reg_t
  using bit_eq_iff [of w 0] by (auto dest: bit_imp_le_length)

lemma bit_irq: "bit (2 ^ n :: reg_t) i \<longleftrightarrow> i = n \<and> i < 64"
  using bit_exp_iff [where 'a = "64 word", of n i] by auto

lemma bit_pair: "bit (e AND (2 ^ m OR 2 ^ n)) i \<longleftrightarrow> bit e i \<and> (i = m \<or> i = n)" for e :: reg_t
  by (auto simp: bit_and_iff bit_or_iff bit_irq dest: bit_imp_le_length)

lemma truth_pair: "truth (e AND (2 ^ m OR 2 ^ n)) \<longleftrightarrow> bit e m \<or> bit e n" for e :: reg_t
  by (auto simp: truth_bits bit_pair)

text \<open>One class of the cascade: two interrupt lines, the lower one first.\<close>

lemma ctz_pair:
  assumes "m < n"
  shows "bit e m \<Longrightarrow> ctz (e AND (2 ^ n OR 2 ^ m)) = m"
    and "\<not> bit e m \<Longrightarrow> bit e n \<Longrightarrow> ctz (e AND (2 ^ n OR 2 ^ m)) = n"
  using assms by (auto intro!: ctz_eqI simp: bit_pair)

lemma highest_priority_eq:
  "map_option ctz (highest_priority e) = find (bit e) interrupt_order"
proof (cases "find (bit e) [IRQ_M_EXT..<64]")
  case (Some i)
  then have i: "IRQ_M_EXT \<le> i" "i < 64" "bit e i" "\<And>j. IRQ_M_EXT \<le> j \<Longrightarrow> j < i \<Longrightarrow> \<not> bit e j"
    using find_upt_SomeD [OF Some] by auto
  have bits: "bit (shl (shr e IRQ_M_EXT) IRQ_M_EXT) j \<longleftrightarrow> IRQ_M_EXT \<le> j \<and> bit e j" for j
    by (auto simp: bit_simps dest: bit_imp_le_length)
  have "bit (shr e IRQ_M_EXT) (i - IRQ_M_EXT)" using i by (simp add: bit_simps)
  then have "highest_priority e = Some (shl (shr e IRQ_M_EXT) IRQ_M_EXT)"
    by (auto simp: highest_priority_def truth_bits)
  moreover have "ctz (shl (shr e IRQ_M_EXT) IRQ_M_EXT) = i"
    using i by (intro ctz_eqI) (auto simp: bits)
  ultimately show ?thesis using Some by (simp add: interrupt_order_def find_append)
next
  case None
  then have none: "IRQ_M_EXT \<le> i \<Longrightarrow> \<not> bit e i" for i
    using bit_imp_le_length [of e i] by (auto simp: find_None_iff_all)
  have "\<not> truth (shr e IRQ_M_EXT)" using none by (auto simp: truth_bits bit_simps)
  moreover have "\<not> bit e IRQ_M_EXT" using none by simp
  ultimately show ?thesis
    unfolding highest_priority_def interrupt_order_def MIP_MEIP_def MIP_SEIP_def MIP_MSIP_def MIP_SSIP_def
      MIP_MTIP_def MIP_STIP_def push_bit_of_1 truth_pair find_append None
    using ctz_pair [of IRQ_S_EXT IRQ_M_EXT e] ctz_pair [of IRQ_S_SOFT IRQ_M_SOFT e]
      ctz_pair [of IRQ_S_TIMER IRQ_M_TIMER e]
    by (simp add: IRQ_S_EXT_def IRQ_M_EXT_def IRQ_S_SOFT_def IRQ_M_SOFT_def IRQ_S_TIMER_def IRQ_M_TIMER_def)
qed

lemma mstatus_enable_bits:
  "truth (get_field m MSTATUS_MIE) \<longleftrightarrow> bit m 3" "truth (get_field m MSTATUS_SIE) \<longleftrightarrow> bit m 1"
  unfolding mstatus_fields by (simp_all only: get_field_1) simp_all

lemma bit_minus_bool: "bit (- of_bool_word b :: reg_t) i \<longleftrightarrow> b \<and> i < 64"
  by simp

lemma enabled_interrupts_bits:
  "bit (enabled_interrupts pending s) i \<longleftrightarrow>
     (if \<exists>j < 64. bit pending j \<and> \<not> bit (mideleg s) j \<and> (prv s < PRV_M \<or> prv s = PRV_M \<and> bit (mstatus s) 3)
      then bit pending i \<and> \<not> bit (mideleg s) i \<and> (prv s < PRV_M \<or> prv s = PRV_M \<and> bit (mstatus s) 3)
      else bit pending i \<and> bit (mideleg s) i \<and> (prv s < PRV_S \<or> prv s = PRV_S \<and> bit (mstatus s) 1))"
proof -
  let ?m = "pending AND NOT (mideleg s) AND - of_bool_word (prv s < PRV_M \<or> prv s = PRV_M \<and> bit (mstatus s) 3)"
  let ?s = "pending AND mideleg s AND - of_bool_word (prv s < PRV_S \<or> prv s = PRV_S \<and> bit (mstatus s) 1)"
  have m: "bit ?m i \<longleftrightarrow> bit pending i \<and> \<not> bit (mideleg s) i \<and> (prv s < PRV_M \<or> prv s = PRV_M \<and> bit (mstatus s) 3)"
    and s: "bit ?s i \<longleftrightarrow> bit pending i \<and> bit (mideleg s) i \<and> (prv s < PRV_S \<or> prv s = PRV_S \<and> bit (mstatus s) 1)" for i
    unfolding bit_and_iff bit_not_iff bit_minus_bool by (auto dest: bit_imp_le_length)
  have "enabled_interrupts pending s = (if ?m = 0 then ?s else ?m)"
    unfolding enabled_interrupts_def Let_def mstatus_enable_bits by blast
  moreover have "?m = 0 \<longleftrightarrow> \<not> (\<exists>j < 64. bit pending j \<and> \<not> bit (mideleg s) j \<and>
      (prv s < PRV_M \<or> prv s = PRV_M \<and> bit (mstatus s) 3))"
    using truth_bits [of ?m] bit_imp_le_length [of pending] unfolding m by auto
  ultimately show ?thesis using m [of i] s [of i] by (simp only: if_not_P if_P split: if_split) blast
qed

lemma all_ints_bits: "bit (all_ints p) i \<longleftrightarrow> i \<in> {1, 3, 5, 7, 9} \<or> i = 12 \<and> p_ext p"
proof -
  have "all_ints p = 2 ^ 1 OR 2 ^ 5 OR 2 ^ 9 OR (if p_ext p then 2 ^ 12 else 0) OR 2 ^ 3 OR 2 ^ 7"
    by (simp add: all_ints_def delegable_ints_def spike_consts or.assoc)
  then show ?thesis
    by (cases "p_ext p") (simp_all only: if_True if_False bit_or_iff bit_irq bit_0_eq bot_apply, auto)
qed

text \<open>
  C3. Which interrupt is taken: outside debug mode, the machine-level interrupts (pending, not
  delegated, and enabled below M-mode or by \<open>mstatus.MIE\<close>) hide the supervisor-level ones
  (pending, delegated, and enabled below S-mode or by \<open>mstatus.SIE\<close>); among those left, the
  trap carries the number of the first one in the order 11, 12, ..., 63 (machine external and
  the nonstandard ones), then supervisor external, software and timer, a supervisor line
  before the machine line of its class; it is \<open>abort()\<close> when only other lines are enabled.
\<close>

theorem take_interrupt_spec:
  "take_interrupt pending p =
     (let s = p_state p;
          m_enabled = (\<lambda>i. bit pending i \<and> \<not> bit (mideleg s) i \<and>
            (prv s < PRV_M \<or> prv s = PRV_M \<and> bit (mstatus s) 3));
          s_enabled = (\<lambda>i. bit pending i \<and> bit (mideleg s) i \<and>
            (prv s < PRV_S \<or> prv s = PRV_S \<and> bit (mstatus s) 1));
          enabled = (if \<exists>i < 64. m_enabled i then m_enabled else s_enabled)
      in if halted p \<or> \<not> (\<exists>i < 64. enabled i) then Inr ()
         else case find enabled ([11..<64] @ [9, 1, 3, 5, 7]) of
                None \<Rightarrow> Inl Abort
              | Some i \<Rightarrow> Inl (Throw_trap (trap_t (shl 1 (p_max_xlen p - 1) OR of_nat i))))"
proof -
  let ?e = "enabled_interrupts pending (p_state p)"
  have order: "interrupt_order = [11..<64] @ [9, 1, 3, 5, 7]"
    by (simp add: interrupt_order_def spike_consts)
  have "take_interrupt pending p =
      (if halted p \<or> \<not> (\<exists>i < 64. bit ?e i) then Inr ()
       else case find (bit ?e) interrupt_order of None \<Rightarrow> Inl Abort
         | Some i \<Rightarrow> Inl (Throw_trap (trap_t (shl 1 (p_max_xlen p - 1) OR of_nat i))))"
    unfolding highest_priority_eq [symmetric] take_interrupt_def halted_def Let_def truth_bits [of ?e]
    using bit_imp_le_length [of ?e] by (auto split: option.splits)
  moreover have "bit ?e =
      (if \<exists>i < 64. bit pending i \<and> \<not> bit (mideleg (p_state p)) i \<and>
          (prv (p_state p) < PRV_M \<or> prv (p_state p) = PRV_M \<and> bit (mstatus (p_state p)) 3)
       then (\<lambda>i. bit pending i \<and> \<not> bit (mideleg (p_state p)) i \<and>
          (prv (p_state p) < PRV_M \<or> prv (p_state p) = PRV_M \<and> bit (mstatus (p_state p)) 3))
       else (\<lambda>i. bit pending i \<and> bit (mideleg (p_state p)) i \<and>
          (prv (p_state p) < PRV_S \<or> prv (p_state p) = PRV_S \<and> bit (mstatus (p_state p)) 1)))"
    unfolding fun_eq_iff enabled_interrupts_bits by (simp only: if_distrib [of "\<lambda>f. f _"]) simp
  ultimately show ?thesis unfolding order Let_def by (simp only:)
qed

text \<open>
  C1. The invariant of the privileged state: after reset and any sequence of CSR accesses,
  traps, privilege changes, register writes and device interrupts, the privilege level and
  \<open>mstatus.MPP\<close> are never the reserved level, \<open>mstatus.SD\<close> is set exactly when FS or XS is
  dirty, UXL and SXL state the register width, the interrupt enables and delegations stay
  within their masks, \<open>misa\<close> stays within the configured set and has D only with F, x0 is
  zero, and \<open>satp\<close> holds a supported mode.
\<close>

theorem privileged_state_invariant:
  assumes "reachable_hart p"
  shows "status_ok p \<and> interrupts_ok p \<and> isa_ok p \<and> regs_ok p"
  using reachable_ok [OF assms] by (simp add: hart_ok_def)

section \<open>Trap delivery\<close>

lemma legal_mpp:
  assumes "config_ok p" "hart_ok p" "q \<in> {PRV_U, PRV_S, PRV_M}"
  shows "legalize_privilege q p = Some q"
proof -
  have "bit (misa (p_state p)) 20" "bit (misa (p_state p)) 18"
    using assms by (simp_all add: config_ok_def hart_ok_def isa_ok_def Let_def)
  moreover have "q \<noteq> PRV_H" using assms(3) by (auto simp: spike_consts)
  ultimately show ?thesis
    using prv_small [OF assms(3)] by (simp add: legalize_privilege_def)
qed

lemma write_mask_low: "36 \<le> i \<Longrightarrow> \<not> bit (mstatus_write_mask p) i"
  by (simp add: mstatus_write_mask_def mstatus_fields bit_or_iff bit_field_mask)

text \<open>
  A status word that differs from the current one only in the interrupt stack and in a legal
  MPP is stored exactly.
\<close>

lemma write_mstatus_exact:
  assumes ok: "hart_ok p" "config_ok p"
    and keep: "\<And>i. i \<notin> {1, 3, 5, 7, 8, 11, 12} \<Longrightarrow> bit v i = bit (mstatus (p_state p)) i"
    and mpp: "get_field v MSTATUS_MPP \<in> {PRV_U, PRV_S, PRV_M}"
  obtains mm where "set_csr CSR_MSTATUS v p =
    Some (p\<lparr>p_mmu := mm, p_state := (p_state p)\<lparr>mstatus := v\<rparr>\<rparr>)"
proof -
  let ?z = "zext_xlen (p_xlen p) v"
  have xl: "p_max_xlen p = 32 \<or> p_max_xlen p = 64" "p_xlen p = p_max_xlen p"
    using ok(1) by (simp_all add: hart_ok_defs)
  have z: "bit ?z i \<longleftrightarrow> i < p_xlen p \<and> bit v i" for i
    using xl by (intro bit_zext_xlen) auto
  obtain q m flush where w:
    "legalize_privilege (get_field ?z MSTATUS_MPP) p = Some q" "q \<in> {PRV_U, PRV_S, PRV_M}"
    "write_mstatus ?z p = Some (p\<lparr>p_mmu := (if flush then flush_tlb (p_mmu p) else p_mmu p),
       p_state := (p_state p)\<lparr>mstatus := m\<rparr>, p_xlen := p_max_xlen p\<rparr>)"
    "mstatus_bits p ?z q m"
    "flush \<longleftrightarrow> truth ((?z XOR mstatus (p_state p)) AND (MSTATUS_MPP OR MSTATUS_MPRV OR MSTATUS_SUM OR MSTATUS_MXR))"
    by (rule write_mstatus_eq [OF xl(1), of ?z])
  have mppz: "get_field ?z MSTATUS_MPP = get_field v MSTATUS_MPP"
    using xl z [of 11] z [of 12] unfolding mstatus_fields by (subst (1 2) get_field_2) auto
  then have q: "q = get_field v MSTATUS_MPP"
    using w(1) legal_mpp [OF ok(2,1) mpp] by simp
  have q_bits: "bit q 0 = bit v 11" "bit q 1 = bit v 12"
    unfolding q mstatus_fields by (subst get_field_2; simp add: bit_small_words)+
  have writable: "bit (mstatus_write_mask p) i" if "i \<in> {1, 3, 5, 7, 8}" for i
  proof -
    have "bit (misa (p_state p)) 18"
      using ok by (simp add: config_ok_def hart_ok_def isa_ok_def Let_def)
    with that show ?thesis
      by (elim insertE emptyE) (simp_all add: mstatus_write_mask_def mstatus_fields bit_simps)
  qed
  have b: "status_ok p" using ok(1) by (simp add: hart_ok_def)
  note sb = b [unfolded status_ok_bits Let_def]
  have m: "bit m i = bit v i" for i
  proof -
    note f = w(4) [unfolded mstatus_bits_def, rule_format]
    have low: "bit m 13 = bit v 13" "bit m 14 = bit v 14" "bit m 15 = bit v 15" "bit m 16 = bit v 16"
      using f [of 13] f [of 14] f [of 15] f [of 16] z [of 13] z [of 14] z [of 15] z [of 16]
        keep [of 13] keep [of 14] keep [of 15] keep [of 16] xl by (simp_all split: if_splits)
    show ?thesis
    proof (cases "i \<in> {1, 3, 5, 7, 8}")
      case True
      have "bit ?z i = bit v i" using z [of i] True xl by auto
      moreover have "i \<notin> {11, 12, 32, 33, 34, 35}" "i \<noteq> (if p_max_xlen p = 32 then 31 else 63)"
        using True by auto
      ultimately show ?thesis using f [of i] writable [OF True] by simp
    next
      case False
      consider "i = 11 \<or> i = 12" | "i \<in> {32, 33, 34, 35}" | "i = (if p_max_xlen p = 32 then 31 else 63)"
        | "i \<notin> {1, 3, 5, 7, 8, 11, 12, 32, 33, 34, 35}" "i \<noteq> (if p_max_xlen p = 32 then 31 else 63)"
        using False by blast
      then show ?thesis
      proof cases
        case 1
        then show ?thesis using f [of 11] f [of 12] q_bits by (elim disjE) simp_all
      next
        case 2
        then show ?thesis
          using f [of 32] f [of 33] f [of 34] f [of 35] keep [of 32] keep [of 33] keep [of 34] keep [of 35] sb
          by (elim insertE emptyE) (use xl(1) in auto)
      next
        case 3
        then have "bit m i \<longleftrightarrow> bit m 13 \<and> bit m 14 \<or> bit m 15 \<and> bit m 16"
          using f [of i] by (auto split: if_splits)
        moreover have "bit v i \<longleftrightarrow> bit v 13 \<and> bit v 14 \<or> bit v 15 \<and> bit v 16"
          using sb keep [of 13] keep [of 14] keep [of 15] keep [of 16] keep [of i] 3 by (auto split: if_splits)
        ultimately show ?thesis using low by simp
      next
        case 4
        then have "bit m i \<longleftrightarrow> (if bit (mstatus_write_mask p) i then bit ?z i else bit (mstatus (p_state p)) i)"
          using f [of i] by simp
        moreover have "i < 32" if "bit (mstatus_write_mask p) i"
        proof (rule ccontr)
          assume "\<not> i < 32"
          then have "36 \<le> i" using 4(1) by auto
          with that write_mask_low show False by blast
        qed
        ultimately show ?thesis using z [of i] keep [of i] 4 xl by auto
      qed
    qed
  qed
  then have "m = v" by (rule bit_word_eqI)
  moreover have "set_csr CSR_MSTATUS v p = write_mstatus ?z p"
    by (simp add: set_csr_def spike_consts Let_def)
  moreover have "p\<lparr>p_mmu := a, p_state := b, p_xlen := p_max_xlen p\<rparr> = p\<lparr>p_mmu := a, p_state := b\<rparr>" for a b
    using xl(2) by (cases p) simp
  ultimately show thesis using that w(3) by simp
qed

lemma bit_prv:
  "q \<in> {PRV_U, PRV_S, PRV_M} \<Longrightarrow> bit q 0 \<longleftrightarrow> q \<noteq> PRV_U"
  "q \<in> {PRV_U, PRV_S, PRV_M} \<Longrightarrow> bit q 1 \<longleftrightarrow> q = PRV_M"
  by (auto simp: spike_consts bit_small_words)

definition status_after_s_trap :: "state_t \<Rightarrow> reg_t" where
  "status_after_s_trap s =
     set_field (set_field (set_field (mstatus s) MSTATUS_SPIE (get_field (mstatus s) MSTATUS_SIE))
       MSTATUS_SPP (prv s)) MSTATUS_SIE 0"

definition status_after_m_trap :: "state_t \<Rightarrow> reg_t" where
  "status_after_m_trap s =
     set_field (set_field (set_field (mstatus s) MSTATUS_MPIE (get_field (mstatus s) MSTATUS_MIE))
       MSTATUS_MPP (prv s)) MSTATUS_MIE 0"

lemma status_after_bits:
  assumes "prv s \<in> {PRV_U, PRV_S, PRV_M}"
  shows "bit (status_after_s_trap s) i \<longleftrightarrow>
      (if i = 1 then False else if i = 5 then bit (mstatus s) 1 else if i = 8 then prv s \<noteq> PRV_U
       else bit (mstatus s) i)"
    and "bit (status_after_m_trap s) i \<longleftrightarrow>
      (if i = 3 then False else if i = 7 then bit (mstatus s) 3 else if i = 11 then prv s \<noteq> PRV_U
       else if i = 12 then prv s = PRV_M else bit (mstatus s) i)"
proof -
  have sie: "bit (get_field (mstatus s) MSTATUS_SIE) 0 = bit (mstatus s) 1"
    "bit (get_field (mstatus s) MSTATUS_MIE) 0 = bit (mstatus s) 3"
    unfolding mstatus_fields by (simp_all only: get_field_1) simp_all
  show "bit (status_after_s_trap s) i \<longleftrightarrow>
      (if i = 1 then False else if i = 5 then bit (mstatus s) 1 else if i = 8 then prv s \<noteq> PRV_U
       else bit (mstatus s) i)"
    using bit_prv [OF assms] sie unfolding status_after_s_trap_def
    by (simp add: mstatus_fields bit_set_field del: bit_0)
  show "bit (status_after_m_trap s) i \<longleftrightarrow>
      (if i = 3 then False else if i = 7 then bit (mstatus s) 3 else if i = 11 then prv s \<noteq> PRV_U
       else if i = 12 then prv s = PRV_M else bit (mstatus s) i)"
    using bit_prv [OF assms] sie unfolding status_after_m_trap_def
    by (simp add: mstatus_fields bit_set_field del: bit_0)
qed

lemma trap_status_legal:
  assumes "hart_ok p"
  shows "get_field (status_after_s_trap (p_state p)) MSTATUS_MPP \<in> {PRV_U, PRV_S, PRV_M}"
    "get_field (status_after_m_trap (p_state p)) MSTATUS_MPP \<in> {PRV_U, PRV_S, PRV_M}"
proof -
  have prvs: "prv (p_state p) \<in> {PRV_U, PRV_S, PRV_M}" using assms by (simp add: hart_ok_defs)
  have mpp: "get_field m MSTATUS_MPP \<in> {PRV_U, PRV_S, PRV_M} \<longleftrightarrow> (bit m 12 \<longrightarrow> bit m 11)" for m
    unfolding mstatus_fields by (subst get_field_2) (auto simp: spike_consts)
  show "get_field (status_after_s_trap (p_state p)) MSTATUS_MPP \<in> {PRV_U, PRV_S, PRV_M}"
    using assms unfolding mpp by (simp add: status_after_bits [OF prvs] hart_ok_def status_ok_bits Let_def)
  show "get_field (status_after_m_trap (p_state p)) MSTATUS_MPP \<in> {PRV_U, PRV_S, PRV_M}"
    unfolding mpp by (simp add: status_after_bits [OF prvs] spike_consts)
qed

text \<open>A trap handler entry: the status word is stored, then the privilege is switched.\<close>

lemma deliver:
  assumes "hart_ok p" "config_ok p" "r \<in> {PRV_U, PRV_S, PRV_M}"
    and "\<And>i. i \<notin> {1, 3, 5, 7, 8, 11, 12} \<Longrightarrow> bit v i = bit (mstatus (p_state p)) i"
    and "get_field v MSTATUS_MPP \<in> {PRV_U, PRV_S, PRV_M}"
  shows "\<exists>mm. Option.bind (set_csr CSR_MSTATUS v p) (set_privilege r) =
    Some (p\<lparr>p_mmu := flush_tlb mm, p_state := (p_state p)\<lparr>mstatus := v, prv := r\<rparr>\<rparr>)"
proof -
  obtain mm where set: "set_csr CSR_MSTATUS v p = Some (p\<lparr>p_mmu := mm, p_state := (p_state p)\<lparr>mstatus := v\<rparr>\<rparr>)"
    by (rule write_mstatus_exact [OF assms(1,2,4,5)])
  let ?p = "p\<lparr>p_mmu := mm, p_state := (p_state p)\<lparr>mstatus := v\<rparr>\<rparr>"
  have ok: "hart_ok ?p"
    using set_csr_ok [OF assms(1), of CSR_MSTATUS v] set by auto
  have "config_ok ?p" using assms(2) by (simp add: config_ok_def)
  then have "legalize_privilege r ?p = Some r" using legal_mpp ok assms(3) by blast
  then have "set_privilege r ?p = Some (?p\<lparr>p_mmu := flush_tlb (p_mmu ?p), p_state := (p_state ?p)\<lparr>prv := r\<rparr>\<rparr>)"
    using set_privilege_ok [OF ok prv_small [OF assms(3)]] by (metis option.inject)
  with set show ?thesis by auto
qed

lemma take_trap_s_eq:
  assumes "hart_ok p" "config_ok p"
  shows "\<exists>mm. take_trap_s t epc p = Some (p\<lparr>p_mmu := flush_tlb mm,
    p_state := (p_state p)\<lparr>pc := stvec (p_state p), scause := cause t, sepc := epc, stval := get_tval t,
      mstatus := status_after_s_trap (p_state p), prv := PRV_S\<rparr>\<rparr>)"
proof -
  let ?p = "upd_state (\<lambda>s. s\<lparr>pc := stvec s, scause := cause t, sepc := epc, stval := get_tval t\<rparr>) p"
  have ok: "hart_ok ?p" by (rule hart_ok_upd_free [OF assms(1)]) simp_all
  have prvs: "prv (p_state p) \<in> {PRV_U, PRV_S, PRV_M}" using assms(1) by (simp add: hart_ok_defs)
  have "\<exists>mm. Option.bind (set_csr CSR_MSTATUS (status_after_s_trap (p_state p)) ?p) (set_privilege PRV_S) =
      Some (?p\<lparr>p_mmu := flush_tlb mm, p_state := (p_state ?p)\<lparr>mstatus := status_after_s_trap (p_state p), prv := PRV_S\<rparr>\<rparr>)"
    using trap_status_legal [OF assms(1)] assms(2)
    by (intro deliver ok) (auto simp: status_after_bits [OF prvs] upd_state_def config_ok_def)
  then show ?thesis by (simp add: take_trap_s_def Let_def status_after_s_trap_def upd_state_def)
qed

lemma take_trap_m_eq:
  assumes "hart_ok p" "config_ok p"
  shows "\<exists>mm. take_trap_m t epc p = Some (p\<lparr>p_mmu := flush_tlb mm,
    p_state := (p_state p)\<lparr>pc := (mtvec (p_state p) AND NOT 1) +
        (if truth (mtvec (p_state p) AND 1) \<and> is_interrupt t p then 4 * trap_number t p else 0),
      mepc := epc, mcause := cause t, mtval := get_tval t,
      mstatus := status_after_m_trap (p_state p), prv := PRV_M\<rparr>\<rparr>)"
proof -
  let ?a = "(mtvec (p_state p) AND NOT 1) +
        (if truth (mtvec (p_state p) AND 1) \<and> is_interrupt t p then 4 * trap_number t p else 0)"
  let ?p = "upd_state (\<lambda>s. s\<lparr>pc := (mtvec s AND NOT 1) + (if truth (mtvec (p_state p) AND 1) \<and> is_interrupt t p
       then 4 * trap_number t p else 0), mepc := epc, mcause := cause t, mtval := get_tval t\<rparr>) p"
  have ok: "hart_ok ?p" by (rule hart_ok_upd_free [OF assms(1)]) simp_all
  have prvs: "prv (p_state p) \<in> {PRV_U, PRV_S, PRV_M}" using assms(1) by (simp add: hart_ok_defs)
  have "\<exists>mm. Option.bind (set_csr CSR_MSTATUS (status_after_m_trap (p_state p)) ?p) (set_privilege PRV_M) =
      Some (?p\<lparr>p_mmu := flush_tlb mm, p_state := (p_state ?p)\<lparr>mstatus := status_after_m_trap (p_state p), prv := PRV_M\<rparr>\<rparr>)"
    using trap_status_legal [OF assms(1)] assms(2)
    by (intro deliver ok) (auto simp: status_after_bits [OF prvs] upd_state_def config_ok_def)
  then show ?thesis by (simp add: take_trap_m_def Let_def status_after_m_trap_def upd_state_def)
qed

text \<open>
  C2. Trap delivery.  Outside debug mode, and unless an \<open>ebreak\<close> is redirected to it, a trap
  is delivered: a delegated one to S-mode, with \<open>pc\<close> at \<open>stvec\<close>, cause, pc and value in
  \<open>scause\<close>, \<open>sepc\<close>, \<open>stval\<close>, SIE moved to SPIE and the old privilege in SPP; any other to
  M-mode, with \<open>pc\<close> at the \<open>mtvec\<close> base (plus four times the cause of an interrupt in
  vectored mode), MIE moved to MPIE and the old privilege in MPP.  No other status bit
  changes, and the TLB is empty afterwards.
\<close>

theorem take_trap_delivers:
  assumes "reachable_hart p" "\<not> halted p" "cause t \<noteq> CAUSE_BREAKPOINT \<or> \<not> ebreak_to_debug (p_state p)"
  shows "\<exists>q mm. take_trap t epc p = Some q \<and> p_mmu q = flush_tlb mm \<and>
    (let s = p_state p; r = p_state q; m = mstatus s; n = mstatus r in
     if delegated t p then
       prv r = PRV_S \<and> pc r = stvec s \<and> scause r = cause t \<and> sepc r = epc \<and> stval r = get_tval t \<and>
       bit n = (bit m)(1 := False, 5 := bit m 1, 8 := (prv s \<noteq> PRV_U))
     else
       prv r = PRV_M \<and> mcause r = cause t \<and> mepc r = epc \<and> mtval r = get_tval t \<and>
       pc r = (mtvec s AND NOT 1) +
         (if truth (mtvec s AND 1) \<and> is_interrupt t p then 4 * trap_number t p else 0) \<and>
       bit n = (bit m)(3 := False, 7 := bit m 3, 11 := (prv s \<noteq> PRV_U), 12 := (prv s = PRV_M)))"
proof -
  have ok: "hart_ok p" "config_ok p" using reachable_ok [OF assms(1)] by simp_all
  have prvs: "prv (p_state p) \<in> {PRV_U, PRV_S, PRV_M}" using ok by (simp add: hart_ok_defs)
  have "take_trap t epc p = (if delegated t p then take_trap_s t epc p else take_trap_m t epc p)"
    using assms(2,3) by (auto simp: take_trap_def halted_def)
  moreover have "bit (status_after_s_trap (p_state p)) =
      (bit (mstatus (p_state p)))(1 := False, 5 := bit (mstatus (p_state p)) 1, 8 := (prv (p_state p) \<noteq> PRV_U))"
    "bit (status_after_m_trap (p_state p)) = (bit (mstatus (p_state p)))(3 := False,
       7 := bit (mstatus (p_state p)) 3, 11 := (prv (p_state p) \<noteq> PRV_U), 12 := (prv (p_state p) = PRV_M))"
    by (auto simp: fun_eq_iff status_after_bits [OF prvs])
  ultimately show ?thesis
    using take_trap_s_eq [OF ok, of t epc] take_trap_m_eq [OF ok, of t epc]
    by (cases "delegated t p") (auto simp: Let_def)
qed

section \<open>A concrete hart\<close>

text \<open>An RV64IMAFDC hart before its reset, for the witnesses.\<close>

definition sample_hart :: processor_t where
  "sample_hart = \<lparr>p_state = state_reset 0,
     p_mmu = \<lparr>load_reservation_address = -1,
       icache = (\<lambda>i. \<lparr>ic_tag = -1, ic_next = 0, ic_data = \<lparr>fetch_func = illegal_instruction, fetch_insn = 0\<rparr>\<rparr>),
       tlb_data = (\<lambda>i. \<lparr>host_offset = 0, target_offset = 0\<rparr>),
       tlb_insn_tag = (\<lambda>i. -1), tlb_load_tag = (\<lambda>i. -1), tlb_store_tag = (\<lambda>i. -1),
       check_triggers_fetch = False, check_triggers_load = False, check_triggers_store = False,
       matched_trigger = None\<rparr>,
     p_decoder = empty_decoder, p_ext = False, p_id = 0, p_max_xlen = 64, p_xlen = 64,
     p_max_isa = 0x800000000014112D, p_isa_string = ''rv64imafdc'', p_debug = False,
     p_halt_request = False, p_halt_on_reset = False, p_track_insn = False,
     p_tracked_insn_count = Map.empty\<rparr>"

lemma sample_config: "config_ok sample_hart"
  by (simp add: config_ok_def sample_hart_def)

lemma proc_reset_state:
  assumes "proc_reset p = Some q"
  shows "\<exists>m. p_state q = (state_reset (p_max_isa p))\<lparr>dcsr := zero_dcsr\<lparr>dcsr_halt := p_halt_on_reset p\<rparr>, mstatus := m\<rparr>"
proof -
  have "\<exists>m. p_state r = (p_state p')\<lparr>mstatus := m\<rparr>" if "write_mstatus v p' = Some r" for v p' r
    using that by (auto simp: write_mstatus_def Let_def split: option.splits if_splits)
  moreover have "dcsr (state_reset x) = zero_dcsr" for x by (simp add: state_reset_def)
  ultimately show ?thesis
    using assms by (fastforce simp: proc_reset_def Let_def upd_state_def set_csr_def spike_consts)
qed

lemma proc_reset_id: "proc_reset p = Some q \<Longrightarrow> p_id q = p_id p"
  by (auto simp: proc_reset_def set_csr_def write_mstatus_def upd_state_def Let_def spike_consts
      split: option.splits if_splits)

lemma sample_reset:
  obtains q where "proc_reset sample_hart = Some q" "reachable_hart q" "\<not> halted q"
    "\<not> ebreak_to_debug (p_state q)"
proof -
  obtain q where q: "proc_reset sample_hart = Some q" by (rule proc_reset_ok [OF sample_config])
  moreover have "reachable_hart q" using sample_config q by (rule boot)
  moreover have "\<not> halted q" "\<not> ebreak_to_debug (p_state q)"
    using proc_reset_state [OF q] by (auto simp: halted_def ebreak_to_debug_def zero_dcsr_def)
  ultimately show thesis using that by blast
qed

lemma privileged_state_invariant_witness:
  "\<exists>q. proc_reset sample_hart = Some q \<and> status_ok q \<and> interrupts_ok q \<and> isa_ok q \<and> regs_ok q"
proof -
  obtain q where "proc_reset sample_hart = Some q" "reachable_hart q" by (rule sample_reset)
  with privileged_state_invariant [of q] show ?thesis by blast
qed

lemma take_interrupt_spec_witness:
  "take_interrupt 0x88 (sample_hart\<lparr>p_state := (state_reset 0)\<lparr>prv := 0\<rparr>\<rparr>) =
     Inl (Throw_trap (trap_t 0x8000000000000003))"
  by (subst take_interrupt_spec) code_simp

lemma take_trap_delivers_witness:
  "\<exists>q r. proc_reset sample_hart = Some q \<and> take_trap (trap_illegal_instruction 0) 0x1000 q = Some r"
proof -
  obtain q where q: "proc_reset sample_hart = Some q" "reachable_hart q" "\<not> halted q"
      "\<not> ebreak_to_debug (p_state q)" by (rule sample_reset)
  then have "\<exists>r mm. take_trap (trap_illegal_instruction 0) 0x1000 q = Some r \<and> p_mmu r = flush_tlb mm"
    using take_trap_delivers [of q "trap_illegal_instruction 0" "0x1000"] by blast
  with q show ?thesis by blast
qed



end
