(* ===== verification/CsrLaws.thy ===== *)
theory CsrLaws
  imports Privileged
begin

text \<open>
  What a CSR reads back after a write: the legal bits of the written value, the other bits
  fixed.  The table lists, for the registers whose every field behaves this way, the
  writable mask and the value outside it.
\<close>

definition csr_legal_table :: "processor_t \<Rightarrow> (nat \<times> reg_t \<times> reg_t) list" where
  "csr_legal_table p =
     (let s = p_state p in
      [(CSR_MSCRATCH, -1, 0), (CSR_SSCRATCH, -1, 0), (CSR_DSCRATCH, -1, 0),
       (CSR_MCAUSE, -1, 0), (CSR_SCAUSE, -1, 0), (CSR_MTVAL, -1, 0), (CSR_STVAL, -1, 0),
       (CSR_MTVEC, NOT 2, 0), (CSR_STVEC, NOT 3, 0),
       (CSR_MEPC, NOT 1 AND pc_alignment_mask p, 0), (CSR_SEPC, NOT 1 AND pc_alignment_mask p, 0),
       (CSR_DPC, NOT 1 AND pc_alignment_mask p, 0),
       (CSR_MIE, all_ints p, 0), (CSR_MIDELEG, delegable_ints p, 0), (CSR_MEDELEG, medeleg_mask, 0),
       (CSR_MIP, MIP_SSIP OR MIP_STIP, mip s), (CSR_SIE, mideleg s, 0),
       (CSR_SIP, MIP_SSIP AND mideleg s, mip s AND mideleg s),
       (CSR_MCOUNTEREN, mask 32, 0), (CSR_SCOUNTEREN, mask 32, 0)])"

lemma mask_update_0: "mask_update 0 msk v = v AND msk"
  by (simp add: mask_update_def)

lemma mask_update_absorb: "old AND NOT msk = 0 \<Longrightarrow> mask_update old msk v = v AND msk"
  by (simp add: mask_update_def)

lemma ucast_low: "ucast (ucast v :: u32) = (v :: reg_t) AND mask 32"
  by (intro bit_word_eqI) (auto simp: bit_simps)

lemma round_down_4: "shl (shr v 2) 2 = v AND NOT 3" for v :: reg_t
proof (rule bit_word_eqI)
  fix i :: nat assume "i < LENGTH(64)"
  then show "bit (shl (shr v 2) 2) i = bit (v AND NOT 3) i"
    unfolding bit_push_bit_iff bit_drop_bit_eq bit_and_iff bit_not_iff bit_small_words
    using \<open>i < LENGTH(64)\<close> by (cases "2 \<le> i") (auto simp: not_le less_2_cases_iff le_add_diff_inverse simp del: add_2_eq_Suc)
qed

lemma bit_delegable: "bit (delegable_ints p) i \<Longrightarrow> bit (all_ints p) i"
  by (simp add: all_ints_def bit_or_iff)

text \<open>A write through \<open>sie\<close> reaches exactly the delegated enables.\<close>

lemma sie_write_read:
  assumes "hart_ok p"
  shows "mask_update (mie (p_state p)) (all_ints p)
      (zext_xlen (p_xlen p) (mask_update (mie (p_state p)) (mideleg (p_state p)) (zext_xlen (p_xlen p) v)))
      AND mideleg (p_state p) = zext_xlen (p_xlen p) v AND mideleg (p_state p)"
proof (rule bit_word_eqI)
  fix i
  have xl: "p_xlen p = 32 \<or> p_xlen p = 64" using assms by (auto simp: hart_ok_defs)
  have "bit (mideleg (p_state p)) i \<Longrightarrow> bit (all_ints p) i"
    using assms by (intro bit_delegable) (simp add: hart_ok_def interrupts_ok_def Let_def zero_outside)
  then show "bit (mask_update (mie (p_state p)) (all_ints p)
      (zext_xlen (p_xlen p) (mask_update (mie (p_state p)) (mideleg (p_state p)) (zext_xlen (p_xlen p) v)))
      AND mideleg (p_state p)) i = bit (zext_xlen (p_xlen p) v AND mideleg (p_state p)) i"
    using xl by (auto simp: bit_and_iff mask_bits bit_zext_xlen)
qed

lemma sip_write_read:
  assumes "hart_ok p"
  shows "mask_update (mip (p_state p)) (MIP_SSIP OR MIP_STIP)
      (zext_xlen (p_xlen p) (mask_update (mip (p_state p)) (MIP_SSIP AND mideleg (p_state p)) (zext_xlen (p_xlen p) v)))
      AND mideleg (p_state p) =
    mask_update (mip (p_state p) AND mideleg (p_state p)) (MIP_SSIP AND mideleg (p_state p)) (zext_xlen (p_xlen p) v)"
proof (rule bit_word_eqI)
  fix i
  have xl: "p_xlen p = 32 \<or> p_xlen p = 64" using assms by (auto simp: hart_ok_defs)
  have b: "bit MIP_SSIP j \<longleftrightarrow> j = 1" "bit MIP_STIP j \<longleftrightarrow> j = 5" for j
    using bit_irq [of 1 j] bit_irq [of 5 j] by (auto simp: spike_consts)
  show "bit (mask_update (mip (p_state p)) (MIP_SSIP OR MIP_STIP)
      (zext_xlen (p_xlen p) (mask_update (mip (p_state p)) (MIP_SSIP AND mideleg (p_state p)) (zext_xlen (p_xlen p) v)))
      AND mideleg (p_state p)) i =
    bit (mask_update (mip (p_state p) AND mideleg (p_state p)) (MIP_SSIP AND mideleg (p_state p)) (zext_xlen (p_xlen p) v)) i"
    using xl by (auto simp: bit_and_iff bit_or_iff mask_bits bit_zext_xlen b)
qed



end
