(* ===== verification/Trigger.thy ===== *)
theory Trigger
  imports Privileged
begin

text \<open>
  Hardware triggers: \<open>cto\<close> and \<open>processor_t::trigger_match\<close> of \<open>riscv/processor.h\<close>.
  The result of \<open>trigger_match\<close> is \<open>Some None\<close> for no match (\<open>-1\<close> in the code),
  \<open>Some (Some i)\<close> for trigger \<open>i\<close>, and \<open>None\<close> where the C++ expression is undefined
  (the \<open>int\<close> shift of the NAPOT mask by 31 or more).
\<close>

fun cto_from :: "nat \<Rightarrow> reg_t \<Rightarrow> nat" where
  "cto_from 0 val = 0"
| "cto_from (Suc n) val = (if val AND 1 = 1 then Suc (cto_from n (shr val 1)) else 0)"

text \<open>The loop shifts in zeros, so it stops after at most 64 steps.\<close>

definition cto :: "reg_t \<Rightarrow> nat" where
  "cto val = cto_from 64 val"

definition napot_mask :: "reg_t \<Rightarrow> reg_t option" where
  "napot_mask t = (if cto t < 31 then Some (NOT (scast ((shl 1 (cto t) :: 32 word) - 1))) else None)"

definition watches :: "trigger_operation \<Rightarrow> reg_t \<Rightarrow> mcontrol_t \<Rightarrow> bool" where
  "watches operation mode mc \<longleftrightarrow>
     \<not> (operation = OPERATION_EXECUTE \<and> \<not> mc_execute mc \<or>
        operation = OPERATION_STORE \<and> \<not> mc_store mc \<or>
        operation = OPERATION_LOAD \<and> \<not> mc_load mc \<or>
        mode = PRV_M \<and> \<not> mc_m mc \<or>
        mode = PRV_S \<and> \<not> mc_s mc \<or>
        mode = PRV_U \<and> \<not> mc_u mc)"

definition trigger_value :: "nat \<Rightarrow> mcontrol_t \<Rightarrow> reg_t \<Rightarrow> reg_t \<Rightarrow> reg_t" where
  "trigger_value xlen mc address data =
     (let value = (if mc_select mc then data else address)
      in if xlen = 32 then value AND 0xffffffff else value)"

text \<open>Match types outside the enumeration fall through the switch and match.\<close>

definition value_matches :: "nat \<Rightarrow> mcontrol_t \<Rightarrow> reg_t \<Rightarrow> reg_t \<Rightarrow> bool option" where
  "value_matches xlen mc t value =
     (if mc_match mc = MCONTROL_MATCH_EQUAL then Some (value = t)
      else if mc_match mc = MCONTROL_MATCH_NAPOT then
        map_option (\<lambda>msk. value AND msk = t AND msk) (napot_mask t)
      else if mc_match mc = MCONTROL_MATCH_GE then Some (\<not> value < t)
      else if mc_match mc = MCONTROL_MATCH_LT then Some (\<not> value \<ge> t)
      else if mc_match mc = MCONTROL_MATCH_MASK_LOW then
        (let msk = shr t (xlen div 2) in Some (value AND msk = t AND msk))
      else if mc_match mc = MCONTROL_MATCH_MASK_HIGH then
        (let msk = shr t (xlen div 2) in Some (shr value (xlen div 2) AND msk = t AND msk))
      else Some True)"

fun trigger_loop :: "nat \<Rightarrow> reg_t \<Rightarrow> trigger_operation \<Rightarrow> reg_t \<Rightarrow> reg_t \<Rightarrow> nat \<Rightarrow> bool
    \<Rightarrow> (mcontrol_t \<times> reg_t) list \<Rightarrow> nat option option" where
  "trigger_loop xlen mode operation address data i chain_ok [] = Some None"
| "trigger_loop xlen mode operation address data i chain_ok ((mc, t) # rest) =
     (if \<not> chain_ok then
        trigger_loop xlen mode operation address data (Suc i) (chain_ok \<or> \<not> mc_chain mc) rest
      else if \<not> watches operation mode mc then
        trigger_loop xlen mode operation address data (Suc i) chain_ok rest
      else
        (case value_matches xlen mc t (trigger_value xlen mc address data) of
           None \<Rightarrow> None
         | Some False \<Rightarrow> trigger_loop xlen mode operation address data (Suc i) chain_ok rest
         | Some True \<Rightarrow>
             if \<not> mc_chain mc then Some (Some i)
             else trigger_loop xlen mode operation address data (Suc i) True rest))"

definition trigger_match :: "trigger_operation \<Rightarrow> reg_t \<Rightarrow> reg_t \<Rightarrow> processor_t \<Rightarrow> nat option option" where
  "trigger_match operation address data p =
     (let s = p_state p in
      if truth (dcsr_cause (dcsr s)) then Some None
      else trigger_loop (p_xlen p) (prv s) operation address data 0 True
             (take num_triggers (zip (mcontrol s) (tdata2 s))))"

section \<open>Counting trailing ones\<close>

lemma cto_from_spec:
  assumes "\<not> bit val n"
  shows "cto_from n val \<le> n \<and> \<not> bit val (cto_from n val) \<and> (\<forall>j < cto_from n val. bit val j)"
  using assms
proof (induction n arbitrary: val)
  case (Suc n)
  have odd: "val AND 1 = 1 \<longleftrightarrow> bit val 0"
    by (auto simp: and_one_eq bit_0 mod_2_eq_odd)
  show ?case
  proof (cases "bit val 0")
    case True
    have shifted: "bit (shr val 1) j = bit val (Suc j)" for j by (simp add: bit_simps)
    then have IH: "cto_from n (shr val 1) \<le> n \<and> \<not> bit val (Suc (cto_from n (shr val 1))) \<and>
        (\<forall>j < cto_from n (shr val 1). bit val (Suc j))"
      using Suc.IH [of "shr val 1"] Suc.prems by simp
    show ?thesis
      using True odd IH by (auto simp: less_Suc_eq_0_disj)
  next
    case False
    with odd show ?thesis by simp
  qed
qed auto

lemma cto_spec: "\<not> bit val (cto val)" "j < cto val \<Longrightarrow> bit val j"
proof -
  have "\<not> bit val 64" by (auto dest: bit_imp_le_length)
  from cto_from_spec [OF this] show "\<not> bit val (cto val)" "j < cto val \<Longrightarrow> bit val j"
    by (auto simp: cto_def)
qed

lemma napot_mask_bits:
  assumes "napot_mask t = Some msk"
  shows "bit msk i \<longleftrightarrow> cto t \<le> i \<and> i < 64"
proof -
  have small: "cto t < 31" and msk: "msk = NOT (scast (mask (cto t) :: 32 word))"
    using assms by (auto simp: napot_mask_def mask_eq_exp_minus_1 split: if_splits)
  show ?thesis
    unfolding msk using small by (auto simp: bit_simps bit_signed_iff not_less)
qed

text \<open>
  A NAPOT trigger (64 bit, fewer than 31 trailing ones in \<open>tdata2\<close>) matches exactly
  the values that agree with \<open>tdata2\<close> from the position of its lowest zero bit upwards.
  The documented range compares only the bits above that position, so the code covers the
  half of it in which the bit of the zero is clear.
\<close>

theorem napot_matches_lower_half:
  assumes "mc_match mc = MCONTROL_MATCH_NAPOT" "cto t < 31"
  shows "value_matches 64 mc t v =
    Some ((\<forall>i \<in> {cto t <..< 64}. bit v i = bit t i) \<and> \<not> bit v (cto t))"
proof -
  obtain msk where msk: "napot_mask t = Some msk" using assms(2) by (auto simp: napot_mask_def)
  have "v AND msk = t AND msk \<longleftrightarrow> (\<forall>i. cto t \<le> i \<and> i < 64 \<longrightarrow> bit v i = bit t i)"
    by (auto simp: bit_eq_iff bit_and_iff napot_mask_bits [OF msk])
  also have "\<dots> \<longleftrightarrow> (\<forall>i \<in> {cto t <..< 64}. bit v i = bit t i) \<and> \<not> bit v (cto t)"
    using cto_spec(1) [of t] assms(2) by (auto simp: le_less)
  finally show ?thesis
    using assms(1) msk by (simp add: value_matches_def spike_consts)
qed

text \<open>\<open>tdata2 = 0x1001\<close> describes the four bytes from \<open>0x1000\<close>; \<open>0x1002\<close> does not match.\<close>

lemma cto_eqI: "\<not> bit v n \<Longrightarrow> (\<And>j. j < n \<Longrightarrow> bit v j) \<Longrightarrow> cto v = n"
  using cto_spec(1) [of v] cto_spec(2) [of n v] by (metis linorder_neqE_nat)

lemma cto_0x1001: "cto 0x1001 = 1"
  by (rule cto_eqI) simp_all

lemma napot_matches_lower_half_witness:
  "value_matches 64 (zero_mcontrol\<lparr>mc_match := MCONTROL_MATCH_NAPOT\<rparr>) 0x1001 0x1002 = Some False"
  using napot_matches_lower_half [of "zero_mcontrol\<lparr>mc_match := MCONTROL_MATCH_NAPOT\<rparr>" "0x1001" "0x1002"]
  by (simp add: cto_0x1001)

section \<open>Which trigger fires\<close>

text \<open>A trigger fires on its own when it is unchained, watches the access and matches.\<close>

definition fires :: "nat \<Rightarrow> reg_t \<Rightarrow> trigger_operation \<Rightarrow> reg_t \<Rightarrow> reg_t \<Rightarrow> mcontrol_t \<times> reg_t \<Rightarrow> bool" where
  "fires xlen mode operation address data e \<longleftrightarrow>
     (case e of (mc, t) \<Rightarrow> \<not> mc_chain mc \<and> watches operation mode mc \<and>
        value_matches xlen mc t (trigger_value xlen mc address data) = Some True)"

definition well_defined :: "nat \<Rightarrow> reg_t \<Rightarrow> reg_t \<Rightarrow> mcontrol_t \<times> reg_t \<Rightarrow> bool" where
  "well_defined xlen address data e \<longleftrightarrow>
     (case e of (mc, t) \<Rightarrow> value_matches xlen mc t (trigger_value xlen mc address data) \<noteq> None)"

lemma trigger_loop_first:
  assumes "list_all (well_defined xlen address data) ts"
  shows "trigger_loop xlen mode operation address data i True ts =
    Some (map_option (\<lambda>k. i + k) (find (\<lambda>k. fires xlen mode operation address data (ts ! k)) [0..<length ts]))"
  using assms
proof (induction ts arbitrary: i)
  case (Cons e ts)
  obtain mc t where e: "e = (mc, t)" by (cases e)
  have split: "[0..<length (e # ts)] = 0 # map Suc [0..<length ts]"
    by (simp add: upt_conv_Cons map_Suc_upt del: upt_Suc)
  have shift: "find (\<lambda>k. fires xlen mode operation address data ((e # ts) ! k)) (map Suc ks) =
      map_option Suc (find (\<lambda>k. fires xlen mode operation address data (ts ! k)) ks)" for ks
    by (induction ks) auto
  obtain b where b: "value_matches xlen mc t (trigger_value xlen mc address data) = Some b"
    using Cons.prems e by (auto simp: well_defined_def)
  have head: "fires xlen mode operation address data e \<longleftrightarrow> \<not> mc_chain mc \<and> watches operation mode mc \<and> b"
    using e b by (simp add: fires_def)
  have IH: "trigger_loop xlen mode operation address data (Suc i) True ts =
      Some (map_option (\<lambda>k. Suc i + k) (find (\<lambda>k. fires xlen mode operation address data (ts ! k)) [0..<length ts]))"
    using Cons.IH [of "Suc i"] Cons.prems by simp
  have "trigger_loop xlen mode operation address data i True (e # ts) =
      (if \<not> mc_chain mc \<and> watches operation mode mc \<and> b then Some (Some i)
       else trigger_loop xlen mode operation address data (Suc i) True ts)"
    using b by (auto simp: e split: bool.splits)
  moreover have "(+) (Suc i) = (\<lambda>k. i + Suc k)" by auto
  ultimately show ?case
    unfolding split IH by (simp add: shift head option.map_comp comp_def)
qed simp

text \<open>
  C34. Outside debug mode, and when every trigger's comparison is defined, \<open>trigger_match\<close>
  returns the first unchained trigger that watches the access and matches: triggers with the
  chain bit set neither fire nor restrain the trigger that follows them.
\<close>

theorem trigger_match_ignores_chains:
  assumes "\<not> halted p" "list_all (well_defined (p_xlen p) address data) ts"
    and "ts = take num_triggers (zip (mcontrol (p_state p)) (tdata2 (p_state p)))"
  shows "trigger_match operation address data p =
    Some (find (\<lambda>i. fires (p_xlen p) (prv (p_state p)) operation address data (ts ! i)) [0..<length ts])"
  using assms trigger_loop_first [OF assms(2), of "prv (p_state p)" operation 0]
  by (simp add: trigger_match_def Let_def halted_def option.map_ident)

text \<open>
  Two triggers on address \<open>0x1000\<close>, chained: the first, which does not watch loads, has its
  chain bit set; the second fires on a load although the first does not match.
\<close>

definition chained_pair :: "mcontrol_t list" where
  "chained_pair =
     [zero_mcontrol\<lparr>mc_chain := True, mc_execute := True, mc_m := True\<rparr>,
      zero_mcontrol\<lparr>mc_load := True, mc_m := True\<rparr>, zero_mcontrol, zero_mcontrol]"

lemma trigger_match_ignores_chains_witness:
  "trigger_match OPERATION_LOAD 0x1000 0
     (sample_hart\<lparr>p_state := (state_reset 0)\<lparr>mcontrol := chained_pair, tdata2 := replicate 4 0x1000\<rparr>\<rparr>)
   = Some (Some 1)"
proof -
  let ?p = "sample_hart\<lparr>p_state := (state_reset 0)\<lparr>mcontrol := chained_pair, tdata2 := replicate 4 0x1000\<rparr>\<rparr>"
  let ?ts = "take num_triggers (zip (mcontrol (p_state ?p)) (tdata2 (p_state ?p)))"
  have "replicate 4 (0x1000 :: reg_t) = [0x1000, 0x1000, 0x1000, 0x1000]"
    by (simp add: eval_nat_numeral)
  then have ts: "?ts = zip chained_pair [0x1000, 0x1000, 0x1000, 0x1000]"
    by (simp add: num_triggers_def chained_pair_def)
  have "\<not> halted ?p" by (simp add: halted_def state_reset_def zero_dcsr_def)
  moreover have "list_all (well_defined (p_xlen ?p) 0x1000 0) ?ts"
    unfolding ts by (simp add: chained_pair_def well_defined_def value_matches_def
        zero_mcontrol_def spike_consts)
  ultimately have "trigger_match OPERATION_LOAD 0x1000 0 ?p =
      Some (find (\<lambda>i. fires (p_xlen ?p) (prv (p_state ?p)) OPERATION_LOAD 0x1000 0 (?ts ! i)) [0..<length ?ts])"
    using trigger_match_ignores_chains [of ?p "0x1000" 0 ?ts OPERATION_LOAD] by simp
  also have "\<dots> = Some (Some 1)"
    unfolding ts by (simp add: chained_pair_def upt_conv_Cons fires_def watches_def
        value_matches_def trigger_value_def zero_mcontrol_def state_reset_def sample_hart_def spike_consts)
  finally show ?thesis .
qed

end
