(* ===== verification/Mmu.thy ===== *)
theory Mmu
  imports Trigger
begin

text \<open>
  The memory management unit of a hart (\<open>riscv/mmu.h\<close>, \<open>riscv/mmu.cc\<close>): the page table
  walk, the translation cache with its fast and slow paths, loads, stores and atomics with
  their trigger checks, load reservations, and the instruction cache.

  The MMU reaches the rest of the machine through the interface \<open>simif_t\<close>: the record
  \<open>simif\<close> holds its virtual functions (and the hooks of the memory tracers), which take and
  return the whole world, because a device access may change any hart.  Host memory is a map
  from 64-bit host addresses to bytes; \<open>addr_to_mem\<close> gives host addresses.  The compile-time
  options are the record \<open>build\<close>.
\<close>

section \<open>The world an MMU sees\<close>

datatype access_type = LOAD | STORE | FETCH

record 's world =
  w_hart :: processor_t
  w_mem :: "reg_t \<Rightarrow> byte"
  w_dev :: 's

record 's simif =
  sif_addr_to_mem :: "reg_t \<Rightarrow> reg_t option"
  sif_mmio_load :: "reg_t \<Rightarrow> nat \<Rightarrow> 's world \<Rightarrow> byte list option option \<times> 's world"
  sif_mmio_store :: "reg_t \<Rightarrow> byte list \<Rightarrow> 's world \<Rightarrow> bool option \<times> 's world"
  sif_interested :: "reg_t \<Rightarrow> reg_t \<Rightarrow> access_type \<Rightarrow> bool"
  sif_trace :: "reg_t \<Rightarrow> nat \<Rightarrow> access_type \<Rightarrow> 's world \<Rightarrow> 's world"
  sif_fetch_temp :: reg_t

record build =
  enable_dirty :: bool
  enable_misaligned :: bool

definition read_mem :: "(reg_t \<Rightarrow> byte) \<Rightarrow> reg_t \<Rightarrow> nat \<Rightarrow> byte list" where
  "read_mem m a n = map (\<lambda>i. m (a + of_nat i)) [0..<n]"

fun write_mem :: "reg_t \<Rightarrow> byte list \<Rightarrow> (reg_t \<Rightarrow> byte) \<Rightarrow> reg_t \<Rightarrow> byte" where
  "write_mem a [] m = m"
| "write_mem a (b # bs) m = write_mem (a + 1) bs (m(a := b))"

definition upd_hart :: "(processor_t \<Rightarrow> processor_t) \<Rightarrow> 's world \<Rightarrow> 's world" where
  "upd_hart f w = w\<lparr>w_hart := f (w_hart w)\<rparr>"

definition upd_mmu :: "(mmu_t \<Rightarrow> mmu_t) \<Rightarrow> 's world \<Rightarrow> 's world" where
  "upd_mmu f w = upd_hart (\<lambda>p. p\<lparr>p_mmu := f (p_mmu p)\<rparr>) w"

abbreviation mmu_of :: "'s world \<Rightarrow> mmu_t" where "mmu_of w \<equiv> p_mmu (w_hart w)"

text \<open>Sequencing of computations that may throw.\<close>

definition andthen :: "('w \<Rightarrow> 'a result \<times> 'w) \<Rightarrow> ('a \<Rightarrow> 'w \<Rightarrow> 'b result \<times> 'w) \<Rightarrow> 'w \<Rightarrow> 'b result \<times> 'w" where
  "andthen m f w = (case m w of (Inl e, w') \<Rightarrow> (Inl e, w') | (Inr a, w') \<Rightarrow> f a w')"

text \<open>A call of \<open>mmio_load\<close> or \<open>mmio_store\<close>; a device that does not return (a failed assertion) ends the simulator.\<close>

definition device_access :: "('w \<Rightarrow> 'a option \<times> 'w) \<Rightarrow> 'w \<Rightarrow> 'a result \<times> 'w" where
  "device_access f w = (case f w of (None, w') \<Rightarrow> (Inl Abort, w') | (Some a, w') \<Rightarrow> (Inr a, w'))"

section \<open>Page table walk\<close>

definition PGSHIFT :: nat where [spike_consts]: "PGSHIFT = 12"
definition PGSIZE :: reg_t where [spike_consts]: "PGSIZE = shl 1 PGSHIFT"

record vm_info =
  levels :: nat
  idxbits :: nat
  ptesize :: nat
  ptbase :: reg_t

definition bare :: vm_info where "bare = \<lparr>levels = 0, idxbits = 0, ptesize = 0, ptbase = 0\<rparr>"

definition decode_vm_info :: "nat \<Rightarrow> reg_t \<Rightarrow> reg_t \<Rightarrow> vm_info option" where
  "decode_vm_info xlen mode a =
     (if mode = PRV_M then Some bare
      else if mode \<le> PRV_S \<and> xlen = 32 then
        (let md = get_field a SATP32_MODE in
         if md = SATP_MODE_OFF then Some bare
         else if md = SATP_MODE_SV32 then
           Some \<lparr>levels = 2, idxbits = 10, ptesize = 4, ptbase = shl (a AND SATP32_PPN) PGSHIFT\<rparr>
         else None)
      else if mode \<le> PRV_S \<and> xlen = 64 then
        (let md = get_field a SATP64_MODE; base = shl (a AND SATP64_PPN) PGSHIFT in
         if md = SATP_MODE_OFF then Some bare
         else if md = SATP_MODE_SV39 then Some \<lparr>levels = 3, idxbits = 9, ptesize = 8, ptbase = base\<rparr>
         else if md = SATP_MODE_SV48 then Some \<lparr>levels = 4, idxbits = 9, ptesize = 8, ptbase = base\<rparr>
         else if md = SATP_MODE_SV57 then Some \<lparr>levels = 5, idxbits = 9, ptesize = 8, ptbase = base\<rparr>
         else if md = SATP_MODE_SV64 then Some \<lparr>levels = 6, idxbits = 9, ptesize = 8, ptbase = base\<rparr>
         else None)
      else None)"

text \<open>
  Outcome of the loop over the levels: the translated page with the host address of the
  leaf entry and the accessed/dirty bits it needs, a page fault (\<open>fail\<close>) or an access fault
  (\<open>fail_access\<close>).
\<close>

datatype walk_result = Walk_page reg_t reg_t reg_t | Walk_page_fault | Walk_access_fault

definition read_pte :: "(reg_t \<Rightarrow> byte) \<Rightarrow> vm_info \<Rightarrow> reg_t \<Rightarrow> reg_t" where
  "read_pte m vm ppte = of_le_bytes (read_mem m ppte (if ptesize vm = 4 then 4 else 8))"

definition pte_denied :: "access_type \<Rightarrow> bool \<Rightarrow> bool \<Rightarrow> bool \<Rightarrow> reg_t \<Rightarrow> reg_t \<Rightarrow> nat \<Rightarrow> bool" where
  "pte_denied type s_mode smb mxr pte ppn ptshift \<longleftrightarrow>
     (if truth (pte AND PTE_U) then s_mode \<and> (type = FETCH \<or> \<not> smb) else \<not> s_mode)
     \<or> \<not> truth (pte AND PTE_V) \<or> (\<not> truth (pte AND PTE_R) \<and> truth (pte AND PTE_W))
     \<or> (if type = FETCH then \<not> truth (pte AND PTE_X)
        else if type = LOAD then \<not> truth (pte AND PTE_R) \<and> \<not> (mxr \<and> truth (pte AND PTE_X))
        else \<not> (truth (pte AND PTE_R) \<and> truth (pte AND PTE_W)))
     \<or> ppn AND (shl 1 ptshift - 1) \<noteq> 0"

fun walk_loop :: "build \<Rightarrow> (reg_t \<Rightarrow> reg_t option) \<Rightarrow> (reg_t \<Rightarrow> byte) \<Rightarrow> vm_info \<Rightarrow> access_type
    \<Rightarrow> bool \<Rightarrow> bool \<Rightarrow> bool \<Rightarrow> reg_t \<Rightarrow> nat \<Rightarrow> reg_t \<Rightarrow> walk_result" where
  "walk_loop cfg to_mem m vm type s_mode smb mxr addr 0 base = Walk_page_fault"
| "walk_loop cfg to_mem m vm type s_mode smb mxr addr (Suc i) base =
     (let ptshift = i * idxbits vm;
          idx = shr addr (PGSHIFT + ptshift) AND (shl 1 (idxbits vm) - 1)
      in case to_mem (base + idx * of_nat (ptesize vm)) of
           None \<Rightarrow> Walk_access_fault
         | Some ppte \<Rightarrow>
             (let pte = read_pte m vm ppte; ppn = shr pte PTE_PPN_SHIFT in
              if PTE_TABLE pte then
                walk_loop cfg to_mem m vm type s_mode smb mxr addr i (shl ppn PGSHIFT)
              else if pte_denied type s_mode smb mxr pte ppn ptshift then Walk_page_fault
              else
                (let ad = PTE_A OR (if type = STORE then PTE_D else 0) in
                 if \<not> enable_dirty cfg \<and> pte AND ad \<noteq> ad then Walk_page_fault
                 else
                   (let vpn = shr addr PGSHIFT
                    in Walk_page (shl (ppn OR (vpn AND (shl 1 ptshift - 1))) PGSHIFT) ppte ad))))"

definition page_fault :: "access_type \<Rightarrow> reg_t \<Rightarrow> trap_t" where
  "page_fault type addr = (case type of FETCH \<Rightarrow> trap_instruction_page_fault addr
     | LOAD \<Rightarrow> trap_load_page_fault addr | STORE \<Rightarrow> trap_store_page_fault addr)"

definition access_fault :: "access_type \<Rightarrow> reg_t \<Rightarrow> trap_t" where
  "access_fault type addr = (case type of FETCH \<Rightarrow> trap_instruction_access_fault addr
     | LOAD \<Rightarrow> trap_load_access_fault addr | STORE \<Rightarrow> trap_store_access_fault addr)"

text \<open>The number of levels walked: none when the bits above the virtual address differ.\<close>

definition walk_levels :: "vm_info \<Rightarrow> nat \<Rightarrow> reg_t \<Rightarrow> nat" where
  "walk_levels vm xlen addr =
     (let va_bits = PGSHIFT + levels vm * idxbits vm;
          msk = shl 1 (xlen - (va_bits - 1)) - 1;
          masked_msbs = shr addr (va_bits - 1) AND msk
      in if masked_msbs \<noteq> 0 \<and> masked_msbs \<noteq> msk then 0 else levels vm)"

definition walk :: "build \<Rightarrow> 's simif \<Rightarrow> reg_t \<Rightarrow> access_type \<Rightarrow> reg_t \<Rightarrow> 's world \<Rightarrow> reg_t result \<times> 's world" where
  "walk cfg sif addr type mode w =
     (let p = w_hart w; s = p_state p in
      case decode_vm_info (p_max_xlen p) mode (satp s) of
        None \<Rightarrow> (Inl Abort, w)
      | Some vm \<Rightarrow>
          if levels vm = 0 then (Inr (addr AND (shl 2 (p_xlen p - 1) - 1)), w)
          else
            (case walk_loop cfg (sif_addr_to_mem sif) (w_mem w) vm type (mode = PRV_S)
                    (truth (get_field (mstatus s) MSTATUS_SUM)) (truth (get_field (mstatus s) MSTATUS_MXR))
                    addr (walk_levels vm (p_xlen p) addr) (ptbase vm) of
               Walk_page value ppte ad \<Rightarrow>
                 (Inr value,
                  if enable_dirty cfg then
                    w\<lparr>w_mem := write_mem ppte
                        (le_bytes 4 ((of_le_bytes (read_mem (w_mem w) ppte 4) :: reg_t) OR ad)) (w_mem w)\<rparr>
                  else w)
             | Walk_page_fault \<Rightarrow> (Inl (Throw_trap (page_fault type addr)), w)
             | Walk_access_fault \<Rightarrow> (Inl (Throw_trap (access_fault type addr)), w)))"

definition access_mode :: "access_type \<Rightarrow> state_t \<Rightarrow> reg_t" where
  "access_mode type s =
     (if type \<noteq> FETCH \<and> \<not> truth (dcsr_cause (dcsr s)) \<and> truth (get_field (mstatus s) MSTATUS_MPRV)
      then get_field (mstatus s) MSTATUS_MPP else prv s)"

definition translate :: "build \<Rightarrow> 's simif \<Rightarrow> reg_t \<Rightarrow> access_type \<Rightarrow> 's world \<Rightarrow> reg_t result \<times> 's world" where
  "translate cfg sif addr type w =
     andthen (walk cfg sif addr type (access_mode type (p_state (w_hart w))))
       (\<lambda>v w. (Inr (v OR (addr AND (PGSIZE - 1))), w)) w"

section \<open>The translation cache\<close>

definition TLB_ENTRIES :: nat where "TLB_ENTRIES = 256"

definition TLB_CHECK_TRIGGERS :: reg_t where "TLB_CHECK_TRIGGERS = shl 1 63"

definition vpn_of :: "reg_t \<Rightarrow> reg_t" where "vpn_of addr = shr addr PGSHIFT"

definition tlb_index :: "reg_t \<Rightarrow> nat" where "tlb_index addr = unat (vpn_of addr) mod TLB_ENTRIES"

definition tag_of :: "access_type \<Rightarrow> mmu_t \<Rightarrow> nat \<Rightarrow> reg_t" where
  "tag_of type m = (case type of FETCH \<Rightarrow> tlb_insn_tag m | LOAD \<Rightarrow> tlb_load_tag m | STORE \<Rightarrow> tlb_store_tag m)"

definition invalidate_other :: "reg_t \<Rightarrow> nat \<Rightarrow> (nat \<Rightarrow> reg_t) \<Rightarrow> nat \<Rightarrow> reg_t" where
  "invalidate_other expected idx tags =
     (if tags idx AND NOT TLB_CHECK_TRIGGERS \<noteq> expected then tags(idx := -1) else tags)"

definition refill_tlb :: "reg_t \<Rightarrow> reg_t \<Rightarrow> reg_t \<Rightarrow> access_type \<Rightarrow> mmu_t \<Rightarrow> tlb_entry \<times> mmu_t" where
  "refill_tlb vaddr paddr host_addr type m =
     (let idx = tlb_index vaddr;
          expected = vpn_of vaddr;
          m = m\<lparr>tlb_load_tag := invalidate_other expected idx (tlb_load_tag m),
                tlb_store_tag := invalidate_other expected idx (tlb_store_tag m),
                tlb_insn_tag := invalidate_other expected idx (tlb_insn_tag m)\<rparr>;
          tag = (if check_triggers_fetch m \<and> type = FETCH \<or> check_triggers_load m \<and> type = LOAD
                    \<or> check_triggers_store m \<and> type = STORE
                 then expected OR TLB_CHECK_TRIGGERS else expected);
          m = (case type of
                 FETCH \<Rightarrow> m\<lparr>tlb_insn_tag := (tlb_insn_tag m)(idx := tag)\<rparr>
               | STORE \<Rightarrow> m\<lparr>tlb_store_tag := (tlb_store_tag m)(idx := tag)\<rparr>
               | LOAD \<Rightarrow> m\<lparr>tlb_load_tag := (tlb_load_tag m)(idx := tag)\<rparr>);
          entry = \<lparr>host_offset = host_addr - vaddr, target_offset = paddr - vaddr\<rparr>
      in (entry, m\<lparr>tlb_data := (tlb_data m)(idx := entry)\<rparr>))"

definition do_refill :: "reg_t \<Rightarrow> reg_t \<Rightarrow> reg_t \<Rightarrow> access_type \<Rightarrow> 's world \<Rightarrow> tlb_entry \<times> 's world" where
  "do_refill vaddr paddr host_addr type w =
     (let (entry, m) = refill_tlb vaddr paddr host_addr type (mmu_of w)
      in (entry, upd_mmu (\<lambda>_. m) w))"

section \<open>Triggers raised by memory accesses\<close>

text \<open>
  The result is the matched trigger that is kept pending (\<open>timing\<close> set); a trigger with
  \<open>timing\<close> clear is thrown at once.  An undefined comparison counts as \<open>Abort\<close>.
\<close>

definition trigger_exception :: "trigger_operation \<Rightarrow> reg_t \<Rightarrow> reg_t \<Rightarrow> processor_t \<Rightarrow> trigger_matched option result" where
  "trigger_exception operation address data p =
     (case trigger_match operation address data p of
        None \<Rightarrow> Inl Abort
      | Some None \<Rightarrow> Inr None
      | Some (Some i) \<Rightarrow>
          (let t = \<lparr>tm_index = i, tm_operation = operation, tm_address = address, tm_data = data\<rparr>
           in if \<not> mc_timing (mcontrol (p_state p) ! i) then Inl (Throw_trigger t) else Inr (Some t)))"

text \<open>The block \<open>if (!matched_trigger) { ... }\<close> of the access paths.\<close>

definition check_trigger :: "trigger_operation \<Rightarrow> reg_t \<Rightarrow> reg_t \<Rightarrow> 's world \<Rightarrow> unit result \<times> 's world" where
  "check_trigger operation address data w =
     (if matched_trigger (mmu_of w) \<noteq> None then (Inr (), w)
      else case trigger_exception operation address data (w_hart w) of
             Inl e \<Rightarrow> (Inl e, w)
           | Inr None \<Rightarrow> (Inr (), w)
           | Inr (Some t) \<Rightarrow> (Inl (Throw_trigger t), upd_mmu (\<lambda>m. m\<lparr>matched_trigger := Some t\<rparr>) w))"

section \<open>Slow paths\<close>

definition reg_from_bytes :: "byte list \<Rightarrow> reg_t option" where
  "reg_from_bytes bytes =
     (if length bytes \<in> {1, 2, 4, 8} then Some (of_le_bytes bytes) else None)"

definition data_or_abort :: "byte list \<Rightarrow> 'w \<Rightarrow> reg_t result \<times> 'w" where
  "data_or_abort bytes w = (case reg_from_bytes bytes of None \<Rightarrow> (Inl Abort, w) | Some d \<Rightarrow> (Inr d, w))"

definition load_slow_path :: "build \<Rightarrow> 's simif \<Rightarrow> reg_t \<Rightarrow> nat \<Rightarrow> 's world \<Rightarrow> byte list result \<times> 's world" where
  "load_slow_path cfg sif addr len w =
     andthen (translate cfg sif addr LOAD)
      (\<lambda>paddr. andthen
         (\<lambda>w. case sif_addr_to_mem sif paddr of
            Some host \<Rightarrow>
              (let bytes = read_mem (w_mem w) host len in
               (Inr bytes,
                if sif_interested sif paddr (paddr + PGSIZE) LOAD then sif_trace sif paddr len LOAD w
                else snd (do_refill addr paddr host LOAD w)))
          | None \<Rightarrow>
              andthen (device_access (sif_mmio_load sif paddr len))
                (\<lambda>r w. case r of Some bytes \<Rightarrow> (Inr bytes, w)
                   | None \<Rightarrow> (Inl (Throw_trap (trap_load_access_fault addr)), w)) w)
         (\<lambda>bytes w.
            if matched_trigger (mmu_of w) \<noteq> None then (Inr bytes, w)
            else andthen (data_or_abort bytes)
                   (\<lambda>data. andthen (check_trigger OPERATION_LOAD addr data) (\<lambda>_ w. (Inr bytes, w))) w)) w"

definition store_slow_path :: "build \<Rightarrow> 's simif \<Rightarrow> reg_t \<Rightarrow> byte list \<Rightarrow> 's world \<Rightarrow> unit result \<times> 's world" where
  "store_slow_path cfg sif addr bytes w =
     andthen (translate cfg sif addr STORE)
      (\<lambda>paddr. andthen
         (\<lambda>w. if matched_trigger (mmu_of w) \<noteq> None then (Inr (), w)
              else andthen (data_or_abort bytes) (\<lambda>data. check_trigger OPERATION_STORE addr data) w)
         (\<lambda>_ w. case sif_addr_to_mem sif paddr of
            Some host \<Rightarrow>
              (let w = w\<lparr>w_mem := write_mem host bytes (w_mem w)\<rparr> in
               (Inr (),
                if sif_interested sif paddr (paddr + PGSIZE) STORE then sif_trace sif paddr (length bytes) STORE w
                else snd (do_refill addr paddr host STORE w)))
          | None \<Rightarrow>
              andthen (device_access (sif_mmio_store sif paddr bytes))
                (\<lambda>ok w. if ok then (Inr (), w) else (Inl (Throw_trap (trap_store_access_fault addr)), w)) w)) w"

text \<open>On the device path the fetched parcel is put into \<open>fetch_temp\<close>.\<close>

definition fetch_slow_path :: "build \<Rightarrow> 's simif \<Rightarrow> reg_t \<Rightarrow> 's world \<Rightarrow> tlb_entry result \<times> 's world" where
  "fetch_slow_path cfg sif vaddr w =
     andthen (translate cfg sif vaddr FETCH)
      (\<lambda>paddr w. case sif_addr_to_mem sif paddr of
         Some host \<Rightarrow> (let (entry, w) = do_refill vaddr paddr host FETCH w in (Inr entry, w))
       | None \<Rightarrow>
           andthen (device_access (sif_mmio_load sif paddr 2))
             (\<lambda>r w. case r of
                None \<Rightarrow> (Inl (Throw_trap (trap_instruction_access_fault vaddr)), w)
              | Some bytes \<Rightarrow>
                  (Inr \<lparr>host_offset = sif_fetch_temp sif - vaddr, target_offset = paddr - vaddr\<rparr>,
                   w\<lparr>w_mem := write_mem (sif_fetch_temp sif) bytes (w_mem w)\<rparr>)) w) w"

section \<open>Loads, stores and atomics\<close>

text \<open>
  \<open>load_uint8\<close> to \<open>load_uint64\<close> and \<open>load_int8\<close> to \<open>load_int64\<close>: one function of the
  signedness and the size in bytes.
\<close>

definition extend_value :: "bool \<Rightarrow> nat \<Rightarrow> reg_t \<Rightarrow> reg_t" where
  "extend_value sx n v = (if sx then sext_xlen (8 * n) v else take_bit (8 * n) v)"

definition load_aligned :: "build \<Rightarrow> 's simif \<Rightarrow> bool \<Rightarrow> nat \<Rightarrow> reg_t \<Rightarrow> 's world \<Rightarrow> reg_t result \<times> 's world" where
  "load_aligned cfg sif sx n addr w =
     (let m = mmu_of w; idx = tlb_index addr; vpn = vpn_of addr;
          host = (extend_value sx n (of_le_bytes (read_mem (w_mem w) (host_offset (tlb_data m idx) + addr) n))) in
      if tlb_load_tag m idx = vpn then (Inr host, w)
      else if tlb_load_tag m idx = vpn OR TLB_CHECK_TRIGGERS then
        andthen (check_trigger OPERATION_LOAD addr host) (\<lambda>_ w. (Inr host, w)) w
      else
        andthen (load_slow_path cfg sif addr n)
          (\<lambda>bytes w. (Inr (extend_value sx n (of_le_bytes bytes)), w)) w)"

definition misaligned :: "reg_t \<Rightarrow> nat \<Rightarrow> bool" where
  "misaligned addr n \<longleftrightarrow> truth (addr AND (of_nat n - 1))"

fun misaligned_load_bytes :: "build \<Rightarrow> 's simif \<Rightarrow> nat \<Rightarrow> reg_t \<Rightarrow> nat \<Rightarrow> reg_t \<Rightarrow> 's world
    \<Rightarrow> reg_t result \<times> 's world" where
  "misaligned_load_bytes cfg sif 0 addr i res w = (Inr res, w)"
| "misaligned_load_bytes cfg sif (Suc k) addr i res w =
     andthen (load_aligned cfg sif False 1 (addr + of_nat i))
       (\<lambda>b. misaligned_load_bytes cfg sif k addr (Suc i) (res + shl b (i * 8))) w"

definition misaligned_load :: "build \<Rightarrow> 's simif \<Rightarrow> reg_t \<Rightarrow> nat \<Rightarrow> 's world \<Rightarrow> reg_t result \<times> 's world" where
  "misaligned_load cfg sif addr n w =
     (if enable_misaligned cfg then misaligned_load_bytes cfg sif n addr 0 0 w
      else (Inl (Throw_trap (trap_load_address_misaligned addr)), w))"

definition mmu_load :: "build \<Rightarrow> 's simif \<Rightarrow> bool \<Rightarrow> nat \<Rightarrow> reg_t \<Rightarrow> 's world \<Rightarrow> reg_t result \<times> 's world" where
  "mmu_load cfg sif sx n addr w =
     (if misaligned addr n then
        andthen (misaligned_load cfg sif addr n) (\<lambda>v w. (Inr (extend_value sx n v), w)) w
      else load_aligned cfg sif sx n addr w)"

definition store_aligned :: "build \<Rightarrow> 's simif \<Rightarrow> nat \<Rightarrow> reg_t \<Rightarrow> reg_t \<Rightarrow> 's world \<Rightarrow> unit result \<times> 's world" where
  "store_aligned cfg sif n addr val w =
     (let m = mmu_of w; idx = tlb_index addr; vpn = vpn_of addr;
          put = (\<lambda>w. w\<lparr>w_mem := write_mem (host_offset (tlb_data m idx) + addr) (le_bytes n val) (w_mem w)\<rparr>) in
      if tlb_store_tag m idx = vpn then (Inr (), put w)
      else if tlb_store_tag m idx = vpn OR TLB_CHECK_TRIGGERS then
        andthen (check_trigger OPERATION_STORE addr (take_bit (8 * n) val)) (\<lambda>_ w. (Inr (), put w)) w
      else store_slow_path cfg sif addr (le_bytes n val) w)"

fun misaligned_store_bytes :: "build \<Rightarrow> 's simif \<Rightarrow> nat \<Rightarrow> reg_t \<Rightarrow> reg_t \<Rightarrow> nat \<Rightarrow> 's world
    \<Rightarrow> unit result \<times> 's world" where
  "misaligned_store_bytes cfg sif 0 addr data i w = (Inr (), w)"
| "misaligned_store_bytes cfg sif (Suc k) addr data i w =
     andthen (store_aligned cfg sif 1 (addr + of_nat i) (shr data (i * 8)))
       (\<lambda>_. misaligned_store_bytes cfg sif k addr data (Suc i)) w"

definition mmu_store :: "build \<Rightarrow> 's simif \<Rightarrow> nat \<Rightarrow> reg_t \<Rightarrow> reg_t \<Rightarrow> 's world \<Rightarrow> unit result \<times> 's world" where
  "mmu_store cfg sif n addr val w =
     (if misaligned addr n then
        if enable_misaligned cfg then misaligned_store_bytes cfg sif n addr val 0 w
        else (Inl (Throw_trap (trap_store_address_misaligned addr)), w)
      else store_aligned cfg sif n addr val w)"

text \<open>Faults of the load half of an AMO are reported as store faults.\<close>

definition amo_exn :: "exn \<Rightarrow> exn" where
  "amo_exn e = (case e of
     Throw_trap t \<Rightarrow>
       (if cause t = CAUSE_LOAD_PAGE_FAULT then Throw_trap (trap_store_page_fault (get_tval t))
        else if cause t = CAUSE_LOAD_ACCESS then Throw_trap (trap_store_access_fault (get_tval t))
        else e)
   | _ \<Rightarrow> e)"

definition mmu_amo :: "build \<Rightarrow> 's simif \<Rightarrow> nat \<Rightarrow> reg_t \<Rightarrow> (reg_t \<Rightarrow> reg_t) \<Rightarrow> 's world \<Rightarrow> reg_t result \<times> 's world" where
  "mmu_amo cfg sif n addr f w =
     (if misaligned addr n then (Inl (Throw_trap (trap_store_address_misaligned addr)), w)
      else
        (case andthen (mmu_load cfg sif False n addr)
                (\<lambda>lhs. andthen (mmu_store cfg sif n addr (f lhs)) (\<lambda>_ w. (Inr lhs, w))) w of
           (Inl e, w') \<Rightarrow> (Inl (amo_exn e), w')
         | (Inr v, w') \<Rightarrow> (Inr v, w')))"

definition store_float128 :: "build \<Rightarrow> 's simif \<Rightarrow> reg_t \<Rightarrow> freg \<Rightarrow> 's world \<Rightarrow> unit result \<times> 's world" where
  "store_float128 cfg sif addr val w =
     (if \<not> enable_misaligned cfg \<and> misaligned addr 16
      then (Inl (Throw_trap (trap_store_address_misaligned addr)), w)
      else andthen (mmu_store cfg sif 8 addr (v0 val)) (\<lambda>_. mmu_store cfg sif 8 (addr + 8) (v1 val)) w)"

definition load_float128 :: "build \<Rightarrow> 's simif \<Rightarrow> reg_t \<Rightarrow> 's world \<Rightarrow> freg result \<times> 's world" where
  "load_float128 cfg sif addr w =
     (if \<not> enable_misaligned cfg \<and> misaligned addr 16
      then (Inl (Throw_trap (trap_load_address_misaligned addr)), w)
      else andthen (mmu_load cfg sif False 8 addr)
             (\<lambda>lo. andthen (mmu_load cfg sif False 8 (addr + 8)) (\<lambda>hi w. (Inr \<lparr>v0 = lo, v1 = hi\<rparr>, w))) w)"

section \<open>Load reservations\<close>

definition reservation_target :: "build \<Rightarrow> 's simif \<Rightarrow> access_type \<Rightarrow> reg_t \<Rightarrow> 's world \<Rightarrow> reg_t result \<times> 's world" where
  "reservation_target cfg sif type vaddr w =
     andthen (translate cfg sif vaddr type)
       (\<lambda>paddr w. case sif_addr_to_mem sif paddr of
          Some host \<Rightarrow> (let (entry, w) = do_refill vaddr paddr host type w in (Inr (target_offset entry + vaddr), w))
        | None \<Rightarrow> (Inl (Throw_trap (access_fault type vaddr)), w)) w"

definition acquire_load_reservation :: "build \<Rightarrow> 's simif \<Rightarrow> reg_t \<Rightarrow> 's world \<Rightarrow> unit result \<times> 's world" where
  "acquire_load_reservation cfg sif vaddr w =
     andthen (reservation_target cfg sif LOAD vaddr)
       (\<lambda>a w. (Inr (), upd_mmu (\<lambda>m. m\<lparr>load_reservation_address := a\<rparr>) w)) w"

definition check_load_reservation :: "build \<Rightarrow> 's simif \<Rightarrow> reg_t \<Rightarrow> 's world \<Rightarrow> bool result \<times> 's world" where
  "check_load_reservation cfg sif vaddr w =
     andthen (reservation_target cfg sif STORE vaddr)
       (\<lambda>a w. (Inr (load_reservation_address (mmu_of w) = a), w)) w"

section \<open>Instruction fetch\<close>

definition translate_insn_addr :: "build \<Rightarrow> 's simif \<Rightarrow> reg_t \<Rightarrow> 's world \<Rightarrow> tlb_entry result \<times> 's world" where
  "translate_insn_addr cfg sif addr w =
     (let idx = tlb_index addr; vpn = vpn_of addr in
      if tlb_insn_tag (mmu_of w) idx = vpn then (Inr (tlb_data (mmu_of w) idx), w)
      else
        andthen
          (if tlb_insn_tag (mmu_of w) idx \<noteq> vpn OR TLB_CHECK_TRIGGERS then fetch_slow_path cfg sif addr
           else (\<lambda>w. (Inr (tlb_data (mmu_of w) idx), w)))
          (\<lambda>result w.
             if tlb_insn_tag (mmu_of w) idx = vpn OR TLB_CHECK_TRIGGERS then
               (let data = of_le_bytes (read_mem (w_mem w) (host_offset (tlb_data (mmu_of w) idx) + addr) 2) in
                case trigger_match OPERATION_EXECUTE addr data (w_hart w) of
                  None \<Rightarrow> (Inl Abort, w)
                | Some None \<Rightarrow> (Inr result, w)
                | Some (Some i) \<Rightarrow>
                    (Inl (Throw_trigger \<lparr>tm_index = i, tm_operation = OPERATION_EXECUTE, tm_address = addr,
                       tm_data = data\<rparr>), w))
             else (Inr result, w)) w)"

text \<open>A 16-bit parcel, zero- or sign-extended to \<open>insn_bits_t\<close>.\<close>

definition fetch_parcel :: "build \<Rightarrow> 's simif \<Rightarrow> bool \<Rightarrow> reg_t \<Rightarrow> 's world \<Rightarrow> reg_t result \<times> 's world" where
  "fetch_parcel cfg sif sx addr w =
     andthen (translate_insn_addr cfg sif addr)
       (\<lambda>entry w. (Inr (extend_value sx 2 (of_le_bytes (read_mem (w_mem w) (host_offset entry + addr) 2))), w)) w"

definition fetch_rest :: "build \<Rightarrow> 's simif \<Rightarrow> reg_t \<Rightarrow> insn_t \<Rightarrow> 's world \<Rightarrow> insn_t result \<times> 's world" where
  "fetch_rest cfg sif addr insn w =
     (let len = insn_length insn in
      if len = 4 then
        andthen (fetch_parcel cfg sif True (addr + 2)) (\<lambda>h w. (Inr (insn OR shl h 16), w)) w
      else if len = 2 then (Inr (extend_value True 2 insn), w)
      else if len = 6 then
        andthen (fetch_parcel cfg sif True (addr + 4))
          (\<lambda>h. andthen (fetch_parcel cfg sif False (addr + 2))
             (\<lambda>l w. (Inr (insn OR shl h 32 OR shl l 16), w))) w
      else
        andthen (fetch_parcel cfg sif True (addr + 6))
          (\<lambda>h. andthen (fetch_parcel cfg sif False (addr + 4))
             (\<lambda>l. andthen (fetch_parcel cfg sif False (addr + 2))
                (\<lambda>k w. (Inr (insn OR shl h 48 OR shl l 32 OR shl k 16), w)))) w)"

definition ICACHE_ENTRIES :: nat where "ICACHE_ENTRIES = 1024"

definition icache_index :: "reg_t \<Rightarrow> nat" where
  "icache_index addr = unat (addr div 2) mod ICACHE_ENTRIES"

text \<open>The entry that \<open>refill_icache\<close> builds; the caller stores it or uses it at once.\<close>

definition refill_icache :: "build \<Rightarrow> 's simif \<Rightarrow> reg_t \<Rightarrow> 's world \<Rightarrow> icache_entry result \<times> 's world" where
  "refill_icache cfg sif addr w =
     andthen (translate_insn_addr cfg sif addr)
       (\<lambda>entry w.
          andthen (fetch_rest cfg sif addr (of_le_bytes (read_mem (w_mem w) (host_offset entry + addr) 2)))
            (\<lambda>insn w.
               case decode_insn (p_xlen (w_hart w)) insn (p_decoder (w_hart w)) of
                 None \<Rightarrow> (Inl Abort, w)
               | Some (f, d) \<Rightarrow>
                   (let w = upd_hart (\<lambda>p. p\<lparr>p_decoder := d\<rparr>) w;
                        len = insn_length insn;
                        paddr = target_offset entry + addr;
                        ic = \<lparr>ic_tag = addr, ic_next = icache_index (addr + of_nat len),
                              ic_data = \<lparr>fetch_func = f, fetch_insn = insn\<rparr>\<rparr>
                    in if sif_interested sif paddr (paddr + 1) FETCH
                       then (Inr (ic\<lparr>ic_tag := -1\<rparr>), sif_trace sif paddr len FETCH w)
                       else (Inr ic, w))) w) w"

definition access_icache :: "build \<Rightarrow> 's simif \<Rightarrow> reg_t \<Rightarrow> 's world \<Rightarrow> icache_entry result \<times> 's world" where
  "access_icache cfg sif addr w =
     (let entry = icache (mmu_of w) (icache_index addr) in
      if ic_tag entry = addr then (Inr entry, w)
      else andthen (refill_icache cfg sif addr)
             (\<lambda>e w. (Inr e, upd_mmu (\<lambda>m. m\<lparr>icache := (icache m)(icache_index addr := e)\<rparr>) w)) w)"

definition load_insn :: "build \<Rightarrow> 's simif \<Rightarrow> reg_t \<Rightarrow> 's world \<Rightarrow> insn_fetch result \<times> 's world" where
  "load_insn cfg sif addr w = andthen (refill_icache cfg sif addr) (\<lambda>e w. (Inr (ic_data e), w)) w"

end
