(* ===== verification/TlbLaws.thy ===== *)
theory TlbLaws
  imports Mmu
begin

text \<open>
  Address translation and the translation cache of \<open>riscv/mmu.cc\<close>.  Translation is uniform
  on a page and does not depend on the kind of access, except for the faults it raises and
  the privilege mode it runs in.  The interface \<open>translation_cache\<close> states what the TLB
  promises; it is interpreted on the three tag arrays and the shared data array of the code,
  and gives the invariant that every entry answers as the page table walk would.
\<close>

section \<open>Addresses and pages\<close>

definition same_page :: "reg_t \<Rightarrow> reg_t \<Rightarrow> bool" where
  "same_page a a' \<longleftrightarrow> vpn_of a = vpn_of a'"

definition with_offset :: "reg_t \<Rightarrow> reg_t \<Rightarrow> reg_t" where
  "with_offset pa a = (pa AND NOT (PGSIZE - 1)) OR (a AND (PGSIZE - 1))"

lemma page_mask: "PGSIZE - 1 = mask 12"
  by (simp add: spike_consts mask_eq_exp_minus_1)

lemma same_page_refl [simp]: "same_page a a"
  and same_page_sym: "same_page a a' \<Longrightarrow> same_page a' a"
  and same_page_trans: "same_page a a' \<Longrightarrow> same_page a' a'' \<Longrightarrow> same_page a a''"
  by (simp_all add: same_page_def)

lemma vpn_bits: "bit (vpn_of a) i = bit a (12 + i)"
  by (simp add: vpn_of_def spike_consts bit_simps)

lemma vpn_small: "i \<ge> 52 \<Longrightarrow> \<not> bit (vpn_of a) i"
  by (auto simp: vpn_bits dest: bit_imp_le_length)

lemma same_page_bit: "same_page a a' \<Longrightarrow> 12 \<le> i \<Longrightarrow> bit a i = bit a' i"
  unfolding same_page_def using vpn_bits [of a "i - 12"] vpn_bits [of a' "i - 12"] by simp

lemma same_page_shr: "same_page a a' \<Longrightarrow> 12 \<le> k \<Longrightarrow> shr a k = shr a' k"
  by (rule bit_word_eqI) (simp add: bit_simps same_page_bit)

lemma bit_with_offset: "bit (with_offset pa a) i \<longleftrightarrow> (if i < 12 then bit a i else bit pa i)"
  unfolding with_offset_def page_mask by (auto simp: bit_simps dest: bit_imp_le_length)

lemma with_offset_same_page [simp]: "same_page (with_offset pa a) pa"
  unfolding same_page_def by (rule bit_word_eqI) (simp add: vpn_bits bit_with_offset)

text \<open>Replacing the offset of both addresses keeps their difference.\<close>

lemma offset_diff:
  assumes "same_page a a'" "\<And>i. i < 12 \<Longrightarrow> bit pa i = bit a i"
  shows "with_offset pa a' - a' = pa - a"
proof -
  define hi where "hi x = x AND NOT (mask 12)" for x :: reg_t
  define lo where "lo x = x AND mask 12" for x :: reg_t
  have split_word: "x = hi x + lo x" for x
  proof -
    have "hi x AND lo x = 0"
      by (rule bit_word_eqI) (simp add: bit_simps hi_def lo_def)
    then have "hi x + lo x = hi x OR lo x" by (rule disjunctive_add_eq_or)
    also have "\<dots> = x" by (rule bit_word_eqI) (auto simp: bit_simps hi_def lo_def)
    finally show ?thesis by simp
  qed
  have "hi a = hi a'"
    by (rule bit_word_eqI) (use same_page_bit [OF assms(1)] in \<open>auto simp: bit_simps hi_def\<close>)
  moreover have "lo pa = lo a"
    by (rule bit_word_eqI) (use assms(2) in \<open>auto simp: bit_simps lo_def\<close>)
  moreover have "hi (with_offset pa a') = hi pa"
    by (rule bit_word_eqI) (auto simp: bit_simps hi_def bit_with_offset)
  moreover have "lo (with_offset pa a') = lo a'"
    by (rule bit_word_eqI) (auto simp: bit_simps lo_def bit_with_offset)
  ultimately show ?thesis
    using split_word [of "with_offset pa a'"] split_word [of a'] split_word [of pa] split_word [of a]
    by (metis add_diff_cancel_right)
qed

section \<open>Translation is uniform on a page\<close>

lemma andthen_Inr: "andthen m f w = (Inr b, w'') \<longleftrightarrow> (\<exists>a w'. m w = (Inr a, w') \<and> f a w' = (Inr b, w''))"
  by (auto simp: andthen_def split: prod.splits sum.splits)

lemma walk_loop_uniform:
  "same_page a a' \<Longrightarrow> walk_loop cfg to_mem m vm type s_mode smb mxr a n base
     = walk_loop cfg to_mem m vm type s_mode smb mxr a' n base"
proof (induction n arbitrary: base)
  case (Suc n)
  have "shr a (PGSHIFT + k) = shr a' (PGSHIFT + k)" for k
    using Suc.prems by (intro same_page_shr) (auto simp: spike_consts)
  moreover from this [of 0] have "shr a PGSHIFT = shr a' PGSHIFT" by simp
  moreover note Suc.IH [OF Suc.prems]
  ultimately show ?case unfolding walk_loop.simps by presburger
qed simp

lemma decode_vm_info_paged:
  "decode_vm_info xlen mode a = Some vm \<Longrightarrow> levels vm \<noteq> 0 \<Longrightarrow> 9 \<le> idxbits vm"
  by (auto simp: decode_vm_info_def bare_def Let_def split: if_splits)

lemma walk_levels_uniform:
  assumes "same_page a a'" "levels vm \<noteq> 0" "9 \<le> idxbits vm"
  shows "walk_levels vm xlen a = walk_levels vm xlen a'"
proof -
  have "9 \<le> levels vm * idxbits vm" using assms by (cases "levels vm") auto
  moreover have "12 \<le> PGSHIFT + n - 1" if "9 \<le> n" for n using that by (simp add: spike_consts)
  ultimately have "12 \<le> PGSHIFT + levels vm * idxbits vm - 1" by blast
  from same_page_shr [OF assms(1) this] show ?thesis by (simp add: walk_levels_def Let_def)
qed

lemma bit_xlen_mask:
  assumes "x = 32 \<or> x = 64"
  shows "bit (shl 2 (x - 1) - 1 :: reg_t) i \<longleftrightarrow> i < x"
proof -
  have "shl 2 (x - 1) - 1 = (mask x :: reg_t)"
    using assms by (auto simp: mask_eq_exp_minus_1)
  then show ?thesis using assms by (auto simp: bit_simps)
qed

lemma walk_page_offset:
  "walk_loop cfg to_mem m vm type s_mode smb mxr a n base = Walk_page v ppte ad
    \<Longrightarrow> i < 12 \<Longrightarrow> \<not> bit v i"
proof (induction n arbitrary: base)
  case (Suc n)
  then show ?case by (auto simp: Let_def bit_simps spike_consts split: option.splits if_splits)
qed simp

lemma translate_uniform:
  assumes "same_page a a'" "translate cfg sif a type w = (Inr pa, w')"
    and "p_xlen (w_hart w) = 32 \<or> p_xlen (w_hart w) = 64"
  shows "translate cfg sif a' type w = (Inr (with_offset pa a'), w')"
    and "\<And>i. i < 12 \<Longrightarrow> bit pa i = bit a i"
proof -
  let ?p = "w_hart w" and ?s = "p_state (w_hart w)"
  let ?mode = "access_mode type ?s"
  obtain v where v: "walk cfg sif a type ?mode w = (Inr v, w')" "pa = v OR (a AND (PGSIZE - 1))"
    using assms(2) by (auto simp: translate_def andthen_Inr)
  obtain vm where vm: "decode_vm_info (p_max_xlen ?p) ?mode (satp ?s) = Some vm"
    using v(1) by (auto simp: walk_def Let_def split: option.splits)
  have "(\<exists>v'. walk cfg sif a' type ?mode w = (Inr v', w') \<and> v' OR (a' AND (PGSIZE - 1)) = with_offset pa a')
    \<and> (\<forall>i<12. bit pa i = bit a i)"
  proof (cases "levels vm = 0")
    case True
    have v_eq: "v = a AND (shl 2 (p_xlen ?p - 1) - 1)" and w': "w' = w"
      using v(1) vm True by (auto simp: walk_def Let_def)
    have "(a' AND (shl 2 (p_xlen ?p - 1) - 1)) OR (a' AND (PGSIZE - 1)) = with_offset pa a'"
    proof (rule bit_word_eqI)
      fix i
      show "bit ((a' AND (shl 2 (p_xlen ?p - 1) - 1)) OR (a' AND (PGSIZE - 1))) i = bit (with_offset pa a') i"
        using assms(3) same_page_bit [OF assms(1), of i]
        unfolding bit_with_offset v(2) v_eq bit_or_iff bit_and_iff bit_xlen_mask [OF assms(3)] page_mask
        by (auto simp: bit_simps)
    qed
    moreover have "bit pa i = bit a i" if "i < 12" for i
      using that assms(3) unfolding v(2) v_eq bit_or_iff bit_and_iff bit_xlen_mask [OF assms(3)] page_mask
      by (auto simp: bit_simps)
    ultimately show ?thesis using vm True w' by (auto simp: walk_def Let_def)
  next
    case False
    note lv = walk_levels_uniform [OF assms(1) False decode_vm_info_paged [OF vm False]]
    obtain ppte ad where
      page: "walk_loop cfg (sif_addr_to_mem sif) (w_mem w) vm type (?mode = PRV_S)
         (truth (get_field (mstatus ?s) MSTATUS_SUM)) (truth (get_field (mstatus ?s) MSTATUS_MXR))
         a (walk_levels vm (p_xlen ?p) a) (ptbase vm) = Walk_page v ppte ad"
      using v(1) vm False by (auto simp: walk_def Let_def split: walk_result.splits)
    have low: "\<And>i. i < 12 \<Longrightarrow> \<not> bit v i" using walk_page_offset [OF page] .
    have "walk cfg sif a' type ?mode w = (Inr v, w')"
      using v(1) vm False page by (simp add: walk_def Let_def walk_loop_uniform [OF assms(1)] lv)
    moreover have "v OR (a' AND (PGSIZE - 1)) = with_offset pa a'"
      by (rule bit_word_eqI) (use low in \<open>auto simp: v(2) bit_with_offset page_mask bit_simps\<close>)
    moreover have "bit pa i = bit a i" if "i < 12" for i
      using that low by (auto simp: v(2) page_mask bit_simps)
    ultimately show ?thesis by blast
  qed
  then show "translate cfg sif a' type w = (Inr (with_offset pa a'), w')"
    and "\<And>i. i < 12 \<Longrightarrow> bit pa i = bit a i"
    by (auto simp: translate_def andthen_Inr)
qed

section \<open>Translation does not depend on the kind of access\<close>

lemma walk_loop_agree:
  "walk_loop cfg to_mem m vm type s_mode smb mxr a n base = Walk_page v ppte ad \<Longrightarrow>
   walk_loop cfg' to_mem m vm type' s_mode smb mxr a n base = Walk_page v' ppte' ad' \<Longrightarrow> v' = v"
proof (induction n arbitrary: base)
  case (Suc n)
  then show ?case by (auto simp: Let_def split: option.splits if_splits)
qed simp

lemma translate_agree:
  assumes "translate cfg sif a type w = (Inr pa, w1)" "translate cfg sif a type' w = (Inr pa', w2)"
    and "access_mode type (p_state (w_hart w)) = access_mode type' (p_state (w_hart w))"
  shows "pa' = pa"
  using assms
  by (auto simp: translate_def andthen_Inr walk_def Let_def dest: walk_loop_agree
      split: option.splits if_splits walk_result.splits)

text \<open>With \<open>RISCV_ENABLE_DIRTY\<close> undefined a translation changes nothing.\<close>

lemma translate_world: "\<not> enable_dirty cfg \<Longrightarrow> translate cfg sif a type w = (r, w') \<Longrightarrow> w' = w"
  by (auto simp: translate_def andthen_def walk_def Let_def
      split: option.splits if_splits walk_result.splits prod.splits sum.splits)

text \<open>Reading and writing data at the current mode agree: \<open>MPRV\<close> changes both.\<close>

lemma access_mode_data [simp]: "access_mode STORE s = access_mode LOAD s"
  by (simp add: access_mode_def)

section \<open>No abort during translation\<close>

lemma decode_vm_info_total:
  assumes "satp_ok x (satp s)" "x = 32 \<or> x = 64" "mode \<in> {PRV_U, PRV_S, PRV_M}"
  shows "decode_vm_info x mode (satp s) \<noteq> None"
  using assms by (auto simp: decode_vm_info_def satp_ok_def Let_def spike_consts split: if_splits)

text \<open>
  C6. In a hart satisfying the invariant, translation never reaches \<open>abort()\<close>: it returns a
  physical address with the page offset of the virtual one, or raises the page fault or the
  access fault of the access with the virtual address as its value.
\<close>

theorem translate_total:
  assumes "hart_ok (w_hart w)"
  shows "case fst (translate cfg sif a type w) of
      Inr pa \<Rightarrow> pa AND (PGSIZE - 1) = a AND (PGSIZE - 1)
    | Inl e \<Rightarrow> e \<in> {Throw_trap (page_fault type a), Throw_trap (access_fault type a)}"
proof (cases "translate cfg sif a type w")
  case (Pair r w')
  let ?s = "p_state (w_hart w)"
  have ok: "satp_ok (p_max_xlen (w_hart w)) (satp ?s)" "p_max_xlen (w_hart w) = 32 \<or> p_max_xlen (w_hart w) = 64"
    "p_xlen (w_hart w) = 32 \<or> p_xlen (w_hart w) = 64" "access_mode type ?s \<in> {PRV_U, PRV_S, PRV_M}"
    using assms by (auto simp: hart_ok_defs access_mode_def)
  obtain vm where vm: "decode_vm_info (p_max_xlen (w_hart w)) (access_mode type ?s) (satp ?s) = Some vm"
    using decode_vm_info_total [OF ok(1,2,4)] by blast
  show ?thesis
  proof (cases r)
    case (Inl e)
    then have "e = Throw_trap (page_fault type a) \<or> e = Throw_trap (access_fault type a)"
      using Pair vm by (auto simp: translate_def andthen_def walk_def Let_def
          split: prod.splits sum.splits if_splits walk_result.splits)
    then show ?thesis using Inl Pair by simp
  next
    case (Inr pa)
    have "pa AND (PGSIZE - 1) = a AND (PGSIZE - 1)"
      unfolding page_mask
      by (rule bit_word_eqI) (use translate_uniform(2) [OF same_page_refl, of cfg sif a type w pa w'] Pair Inr ok(3)
          in \<open>auto simp: bit_simps\<close>)
    then show ?thesis using Inr Pair by simp
  qed
qed

section \<open>The interface of a translation cache\<close>

locale translation_cache =
  fixes lookup :: "'m \<Rightarrow> 'k \<Rightarrow> 'p \<Rightarrow> 'e option"
    and insert_entry :: "'k \<Rightarrow> 'p \<Rightarrow> 'e \<Rightarrow> 'm \<Rightarrow> 'm"
    and flush :: "'m \<Rightarrow> 'm"
    and same :: "'p \<Rightarrow> 'p \<Rightarrow> bool"
  assumes lookup_same: "same p p' \<Longrightarrow> lookup (insert_entry k p e m) k' p' =
      (if k' = k \<or> lookup m k' p' \<noteq> None then Some e else None)"
    and lookup_other: "\<not> same p p' \<Longrightarrow> lookup (insert_entry k p e m) k' p' \<in> {None, lookup m k' p'}"
    and lookup_flush: "lookup (flush m) k p = None"
begin

text \<open>Every entry found is the one that the reference \<open>entry\<close> gives.\<close>

definition agrees :: "('k \<Rightarrow> 'p \<Rightarrow> 'e option) \<Rightarrow> 'm \<Rightarrow> bool" where
  "agrees entry m \<longleftrightarrow> (\<forall>k p e. lookup m k p = Some e \<longrightarrow> entry k p = Some e)"

lemma agrees_flush: "agrees entry (flush m)"
  by (simp add: agrees_def lookup_flush)

lemma agrees_insert:
  assumes "agrees entry m" "\<And>p' k'. same p p' \<Longrightarrow> entry k' p' \<in> {None, Some e}"
    and "\<And>p'. same p p' \<Longrightarrow> entry k p' = Some e"
  shows "agrees entry (insert_entry k p e m)"
  unfolding agrees_def
proof (intro allI impI)
  fix k' p' e'
  assume found: "lookup (insert_entry k p e m) k' p' = Some e'"
  show "entry k' p' = Some e'"
  proof (cases "same p p'")
    case True
    then have found': "e' = e" "k' = k \<or> (\<exists>x. lookup m k' p' = Some x)"
      using found by (auto simp: lookup_same split: if_splits)
    from assms(1) have old: "lookup m k' p' = Some x \<Longrightarrow> entry k' p' = Some x" for x
      by (simp add: agrees_def)
    show ?thesis using found'(2)
    proof
      assume "k' = k"
      then show ?thesis using assms(3) [OF True] found'(1) by simp
    next
      assume "\<exists>x. lookup m k' p' = Some x"
      then show ?thesis using old assms(2) [OF True, of k'] found'(1) by auto
    qed
  next
    case False
    from lookup_other [OF False, of k e m k'] found have "lookup m k' p' = Some e'" by auto
    with assms(1) show ?thesis by (simp add: agrees_def)
  qed
qed

end

section \<open>The TLB of the MMU\<close>

definition tlb_lookup :: "mmu_t \<Rightarrow> access_type \<Rightarrow> reg_t \<Rightarrow> tlb_entry option" where
  "tlb_lookup m type a =
     (if tag_of type m (tlb_index a) AND NOT TLB_CHECK_TRIGGERS = vpn_of a
      then Some (tlb_data m (tlb_index a)) else None)"

definition tlb_insert :: "access_type \<Rightarrow> reg_t \<Rightarrow> tlb_entry \<Rightarrow> mmu_t \<Rightarrow> mmu_t" where
  "tlb_insert type a e m = snd (refill_tlb a (target_offset e + a) (host_offset e + a) type m)"

lemma same_page_index: "same_page a a' \<Longrightarrow> tlb_index a = tlb_index a'"
  by (simp add: same_page_def tlb_index_def)

lemma check_bit: "bit TLB_CHECK_TRIGGERS i \<longleftrightarrow> i = 63"
  unfolding TLB_CHECK_TRIGGERS_def bit_push_bit_iff bit_1_iff by auto

lemma vpn_check [simp]:
  "vpn_of a AND NOT TLB_CHECK_TRIGGERS = vpn_of a"
  "(vpn_of a OR TLB_CHECK_TRIGGERS) AND NOT TLB_CHECK_TRIGGERS = vpn_of a"
  "NOT TLB_CHECK_TRIGGERS \<noteq> vpn_of a"
proof -
  show "vpn_of a AND NOT TLB_CHECK_TRIGGERS = vpn_of a"
    "(vpn_of a OR TLB_CHECK_TRIGGERS) AND NOT TLB_CHECK_TRIGGERS = vpn_of a"
    by (rule bit_word_eqI; use vpn_small [of 63 a] in \<open>auto simp: check_bit bit_simps\<close>)+
  have "bit (NOT TLB_CHECK_TRIGGERS) 60" by (simp add: check_bit bit_simps)
  then show "NOT TLB_CHECK_TRIGGERS \<noteq> vpn_of a" using vpn_small [of 60 a] by auto
qed

lemma vpn_or_check [simp]: "vpn_of a OR TLB_CHECK_TRIGGERS \<noteq> vpn_of a'" "vpn_of a \<noteq> -1"
  "vpn_of a OR TLB_CHECK_TRIGGERS \<noteq> -1"
proof -
  have "bit (vpn_of a OR TLB_CHECK_TRIGGERS) 63" by (simp add: check_bit bit_simps)
  then show "vpn_of a OR TLB_CHECK_TRIGGERS \<noteq> vpn_of a'" using vpn_small [of 63 a'] by auto
  show "vpn_of a \<noteq> -1" using vpn_small [of 60 a] by auto
  have "\<not> bit (vpn_of a OR TLB_CHECK_TRIGGERS) 60" using vpn_small [of 60 a] by (simp add: check_bit bit_simps)
  then show "vpn_of a OR TLB_CHECK_TRIGGERS \<noteq> -1" by auto
qed

text \<open>A tag hits when it is the page number, with or without the trigger bit.\<close>

lemma tag_hit:
  "t AND NOT TLB_CHECK_TRIGGERS = vpn_of a \<longleftrightarrow> t = vpn_of a \<or> t = vpn_of a OR TLB_CHECK_TRIGGERS"
proof
  assume masked: "t AND NOT TLB_CHECK_TRIGGERS = vpn_of a"
  have bits: "bit t i = bit (vpn_of a) i" if "i \<noteq> 63" "i < 64" for i
    using that unfolding masked [symmetric] by (auto simp: check_bit bit_simps)
  show "t = vpn_of a \<or> t = vpn_of a OR TLB_CHECK_TRIGGERS"
  proof (cases "bit t 63")
    case True
    have "t = vpn_of a OR TLB_CHECK_TRIGGERS"
    proof (rule bit_word_eqI)
      fix i assume "i < LENGTH(64)"
      then show "bit t i = bit (vpn_of a OR TLB_CHECK_TRIGGERS) i"
        using True bits [of i] by (cases "i = 63") (auto simp: check_bit bit_simps)
    qed
    then show ?thesis ..
  next
    case False
    have "t = vpn_of a"
    proof (rule bit_word_eqI)
      fix i assume "i < LENGTH(64)"
      then show "bit t i = bit (vpn_of a) i"
        using False vpn_small [of 63 a] bits [of i] by (cases "i = 63") auto
    qed
    then show ?thesis ..
  qed
next
  assume "t = vpn_of a \<or> t = vpn_of a OR TLB_CHECK_TRIGGERS"
  then show "t AND NOT TLB_CHECK_TRIGGERS = vpn_of a" by auto
qed

lemma invalidate_hit:
  "invalidate_other (vpn_of a) (tlb_index a) tags i AND NOT TLB_CHECK_TRIGGERS = vpn_of a' \<longleftrightarrow>
     (if i = tlb_index a \<and> tags i AND NOT TLB_CHECK_TRIGGERS \<noteq> vpn_of a then False
      else tags i AND NOT TLB_CHECK_TRIGGERS = vpn_of a')"
  by (auto simp: invalidate_other_def)

lemma tag_after_insert:
  "tag_of k' (tlb_insert k a e m) i AND NOT TLB_CHECK_TRIGGERS = vpn_of a' \<longleftrightarrow>
     (if i = tlb_index a then
        vpn_of a' = vpn_of a \<and> (k' = k \<or> tag_of k' m i AND NOT TLB_CHECK_TRIGGERS = vpn_of a)
      else tag_of k' m i AND NOT TLB_CHECK_TRIGGERS = vpn_of a')"
  by (cases k; cases k') (auto simp: tlb_insert_def refill_tlb_def Let_def tag_of_def invalidate_hit)

lemma data_after_insert: "tlb_data (tlb_insert k a e m) = (tlb_data m)(tlb_index a := e)"
  by (cases k; cases e) (simp_all add: tlb_insert_def refill_tlb_def Let_def)

lemma tag_after_flush [simp]: "tag_of k (flush_tlb m) i = -1"
  by (cases k) (simp_all add: tag_of_def flush_tlb_def flush_icache_def)

interpretation tlb: translation_cache tlb_lookup tlb_insert flush_tlb same_page
proof
  show "tlb_lookup (tlb_insert k p e m) k' p' = (if k' = k \<or> tlb_lookup m k' p' \<noteq> None then Some e else None)"
    if "same_page p p'" for p p' k e m k'
    using that same_page_index [OF that]
    by (auto simp: tlb_lookup_def tag_after_insert data_after_insert same_page_def)
  show "tlb_lookup (tlb_insert k p e m) k' p' \<in> {None, tlb_lookup m k' p'}"
    if "\<not> same_page p p'" for p p' k e m k'
    using that by (auto simp: tlb_lookup_def tag_after_insert data_after_insert same_page_def)
  show "tlb_lookup (flush_tlb m) k p = None" for m k p
    by (simp add: tlb_lookup_def)
qed

section \<open>Coherence with the page tables\<close>

definition page_entry :: "build \<Rightarrow> 's simif \<Rightarrow> 's world \<Rightarrow> access_type \<Rightarrow> reg_t \<Rightarrow> tlb_entry option" where
  "page_entry cfg sif w type a =
     (case fst (translate cfg sif a type w) of
        Inl e \<Rightarrow> None
      | Inr pa \<Rightarrow>
          map_option (\<lambda>h. \<lparr>host_offset = h - a, target_offset = pa - a\<rparr>) (sif_addr_to_mem sif pa))"

definition coherent :: "build \<Rightarrow> 's simif \<Rightarrow> 's world \<Rightarrow> bool" where
  "coherent cfg sif w \<longleftrightarrow> tlb.agrees (page_entry cfg sif w) (mmu_of w)"

text \<open>
  What the MMU relies on: memory is mapped page by page, device loads and memory tracers
  change neither harts nor memory, and a device load returns the bytes asked for.
\<close>

definition page_linear :: "(reg_t \<Rightarrow> reg_t option) \<Rightarrow> bool" where
  "page_linear f \<longleftrightarrow> (\<forall>pa pa'. same_page pa pa' \<longrightarrow> f pa' = map_option (\<lambda>h. h + (pa' - pa)) (f pa))"

definition simif_ok :: "'s simif \<Rightarrow> bool" where
  "simif_ok sif \<longleftrightarrow> page_linear (sif_addr_to_mem sif) \<and>
     (\<forall>pa n w. w_hart (snd (sif_mmio_load sif pa n w)) = w_hart w \<and>
        w_mem (snd (sif_mmio_load sif pa n w)) = w_mem w \<and>
        (\<forall>bs. fst (sif_mmio_load sif pa n w) = Some (Some bs) \<longrightarrow> length bs = n)) \<and>
     (\<forall>pa n type w. w_hart (sif_trace sif pa n type w) = w_hart w \<and> w_mem (sif_trace sif pa n type w) = w_mem w)"

lemma simif_okD:
  assumes "simif_ok sif"
  shows "page_linear (sif_addr_to_mem sif)"
    and "sif_mmio_load sif pa n w = (r, w') \<Longrightarrow> w_hart w' = w_hart w \<and> w_mem w' = w_mem w"
    and "sif_mmio_load sif pa n w = (Some (Some bs), w') \<Longrightarrow> length bs = n"
    and "w_hart (sif_trace sif pa n type w) = w_hart w" "w_mem (sif_trace sif pa n type w) = w_mem w"
proof -
  have "w_hart (snd (sif_mmio_load sif pa n w)) = w_hart w" "w_mem (snd (sif_mmio_load sif pa n w)) = w_mem w"
    "fst (sif_mmio_load sif pa n w) = Some (Some bs) \<Longrightarrow> length bs = n" for pa n w bs
    using assms unfolding simif_ok_def by auto
  then show "sif_mmio_load sif pa n w = (r, w') \<Longrightarrow> w_hart w' = w_hart w \<and> w_mem w' = w_mem w"
    and "sif_mmio_load sif pa n w = (Some (Some bs), w') \<Longrightarrow> length bs = n"
    by (metis snd_conv, metis fst_conv)
qed (use assms in \<open>auto simp: simif_ok_def\<close>)

definition one_mode :: "'s world \<Rightarrow> bool" where
  "one_mode w \<longleftrightarrow> access_mode LOAD (p_state (w_hart w)) = access_mode FETCH (p_state (w_hart w))"

definition xlen_ok :: "'s world \<Rightarrow> bool" where
  "xlen_ok w \<longleftrightarrow> p_xlen (w_hart w) = 32 \<or> p_xlen (w_hart w) = 64"

lemma one_mode_any: "one_mode w \<Longrightarrow> access_mode k (p_state (w_hart w)) = access_mode k' (p_state (w_hart w))"
  by (cases k; cases k') (simp_all add: one_mode_def)

lemma translate_uniform_fst:
  assumes "same_page a a'" "fst (translate cfg sif a type w) = Inr pa" "xlen_ok w"
  shows "fst (translate cfg sif a' type w) = Inr (with_offset pa a')"
    and "same_page (with_offset pa a') pa" "with_offset pa a' - a' = pa - a"
proof -
  obtain w' where w': "translate cfg sif a type w = (Inr pa, w')" using assms(2) by (metis prod.collapse)
  note u = translate_uniform [OF assms(1) w' assms(3) [unfolded xlen_ok_def]]
  show "fst (translate cfg sif a' type w) = Inr (with_offset pa a')" by (simp add: u(1))
  show "same_page (with_offset pa a') pa" by simp
  show "with_offset pa a' - a' = pa - a" using offset_diff [OF assms(1) u(2)] by simp
qed

lemma page_entry_same_page:
  assumes "same_page a a'" "page_linear (sif_addr_to_mem sif)" "xlen_ok w" "page_entry cfg sif w type a = Some e"
  shows "page_entry cfg sif w type a' = Some e"
proof -
  obtain pa h where pa: "fst (translate cfg sif a type w) = Inr pa" and h: "sif_addr_to_mem sif pa = Some h"
    and e: "e = \<lparr>host_offset = h - a, target_offset = pa - a\<rparr>"
    using assms(4) by (auto simp: page_entry_def split: sum.splits)
  note u = translate_uniform_fst [OF assms(1) pa assms(3)]
  have "sif_addr_to_mem sif (with_offset pa a') = Some (h + (with_offset pa a' - pa))"
    using assms(2) same_page_sym [OF u(2)] h unfolding page_linear_def by simp
  moreover have "h + (with_offset pa a' - pa) - a' = h - a"
  proof -
    have "h + (with_offset pa a' - pa) - a' = h - pa + (with_offset pa a' - a')" by simp
    also have "\<dots> = h - a" unfolding u(3) by simp
    finally show ?thesis .
  qed
  ultimately show ?thesis by (simp add: page_entry_def u(1,3) e)
qed

lemma page_entry_agree:
  assumes "page_entry cfg sif w k a = Some e" "one_mode w"
  shows "page_entry cfg sif w k' a \<in> {None, Some e}"
proof -
  obtain pa h w1 where pa: "translate cfg sif a k w = (Inr pa, w1)" "sif_addr_to_mem sif pa = Some h"
    and e: "e = \<lparr>host_offset = h - a, target_offset = pa - a\<rparr>"
    using assms(1) by (cases "translate cfg sif a k w") (auto simp: page_entry_def split: sum.splits)
  show ?thesis
  proof (cases "translate cfg sif a k' w")
    case (Pair r w2)
    then show ?thesis
      using pa e translate_agree [OF pa(1) _ one_mode_any [OF assms(2)], of k' _ w2]
      by (cases r) (auto simp: page_entry_def)
  qed
qed

lemma coherent_insert:
  assumes "coherent cfg sif w" "one_mode w" "xlen_ok w" "page_linear (sif_addr_to_mem sif)"
    and "page_entry cfg sif w type a = Some e"
  shows "tlb.agrees (page_entry cfg sif w) (tlb_insert type a e (mmu_of w))"
proof (rule tlb.agrees_insert)
  show "tlb.agrees (page_entry cfg sif w) (mmu_of w)" using assms(1) by (simp add: coherent_def)
next
  fix a' assume same: "same_page a a'"
  note e' = page_entry_same_page [OF same assms(4,3,5)]
  show "page_entry cfg sif w type a' = Some e" by (rule e')
  show "page_entry cfg sif w k' a' \<in> {None, Some e}" for k'
    by (rule page_entry_agree [OF e' assms(2)])
qed

text \<open>Translation reads the memory, the architectural state and the widths only.\<close>

lemma translate_cong:
  assumes "w_mem w' = w_mem w" "p_state (w_hart w') = p_state (w_hart w)"
    and "p_max_xlen (w_hart w') = p_max_xlen (w_hart w)" "p_xlen (w_hart w') = p_xlen (w_hart w)"
  shows "fst (translate cfg sif a type w') = fst (translate cfg sif a type w)"
  using assms by (simp add: translate_def andthen_def walk_def Let_def split: option.splits walk_result.splits)

lemma page_entry_cong:
  assumes "w_mem w' = w_mem w" "p_state (w_hart w') = p_state (w_hart w)"
    and "p_max_xlen (w_hart w') = p_max_xlen (w_hart w)" "p_xlen (w_hart w') = p_xlen (w_hart w)"
  shows "page_entry cfg sif w' = page_entry cfg sif w"
  by (intro ext) (simp add: page_entry_def translate_cong [OF assms])

lemma upd_mmu_simps [simp]:
  "w_mem (upd_mmu f w) = w_mem w" "p_state (w_hart (upd_mmu f w)) = p_state (w_hart w)"
  "p_max_xlen (w_hart (upd_mmu f w)) = p_max_xlen (w_hart w)" "p_xlen (w_hart (upd_mmu f w)) = p_xlen (w_hart w)"
  "mmu_of (upd_mmu f w) = f (mmu_of w)"
  by (simp_all add: upd_mmu_def upd_hart_def)

lemma page_entry_upd_mmu [simp]: "page_entry cfg sif (upd_mmu f w) = page_entry cfg sif w"
  by (rule page_entry_cong) simp_all

lemma do_refill_eq:
  "do_refill a pa h type w = (\<lparr>host_offset = h - a, target_offset = pa - a\<rparr>,
     upd_mmu (tlb_insert type a \<lparr>host_offset = h - a, target_offset = pa - a\<rparr>) w)"
  by (simp add: do_refill_def tlb_insert_def refill_tlb_def Let_def upd_mmu_def upd_hart_def)

lemma coherent_refill:
  assumes "coherent cfg sif w" "one_mode w" "xlen_ok w" "page_linear (sif_addr_to_mem sif)"
    and "fst (translate cfg sif a type w) = Inr pa" "sif_addr_to_mem sif pa = Some h"
  shows "coherent cfg sif (snd (do_refill a pa h type w))"
  using coherent_insert [OF assms(1-4), of type a] assms(5,6)
  by (simp add: coherent_def do_refill_eq page_entry_def)

lemma coherent_flush: "coherent cfg sif (upd_mmu flush_tlb w)"
  by (simp add: coherent_def tlb.agrees_flush)

text \<open>A hit answers with the host address of the translated address.\<close>

lemma coherent_hit:
  assumes "coherent cfg sif w" "tlb_lookup (mmu_of w) type a = Some e"
  obtains pa where "fst (translate cfg sif a type w) = Inr pa"
    "sif_addr_to_mem sif pa = Some (host_offset e + a)" "target_offset e + a = pa"
  using assms unfolding coherent_def tlb.agrees_def
  by (fastforce simp: page_entry_def split: sum.splits)

section \<open>A machine for the witnesses\<close>

text \<open>
  A simulator interface with one page of memory at the reset vector's device area, mapped to
  host address \<open>0x10000\<close> and up, no devices and no tracers.
\<close>

definition sample_simif :: "unit simif" where
  "sample_simif = \<lparr>sif_addr_to_mem = (\<lambda>pa. if vpn_of pa < 16 then Some (pa + 0x10000) else None),
     sif_mmio_load = (\<lambda>pa n w. (Some None, w)), sif_mmio_store = (\<lambda>pa bs w. (Some False, w)),
     sif_interested = (\<lambda>a b type. False), sif_trace = (\<lambda>pa n type w. w), sif_fetch_temp = 0\<rparr>"

definition sample_build :: build where
  "sample_build = \<lparr>enable_dirty = False, enable_misaligned = True\<rparr>"

definition sample_world :: "processor_t \<Rightarrow> unit world" where
  "sample_world p = \<lparr>w_hart = p, w_mem = (\<lambda>a. ucast a), w_dev = ()\<rparr>"

lemma sample_simif_ok: "simif_ok sample_simif"
  by (auto simp: simif_ok_def sample_simif_def page_linear_def same_page_def)

lemma translate_total_witness:
  "\<exists>q. proc_reset sample_hart = Some q \<and>
     fst (translate sample_build sample_simif 0x1234 LOAD (sample_world q)) \<noteq> Inl Abort"
proof -
  obtain q where q: "proc_reset sample_hart = Some q" "reachable_hart q" by (rule sample_reset)
  have "hart_ok (w_hart (sample_world q))" using reachable_ok [OF q(2)] by (simp add: sample_world_def)
  from translate_total [OF this, of LOAD "0x1234" sample_build sample_simif] q(1) show ?thesis
    by (auto split: sum.splits)
qed

end
