(* ===== verification/MmuLaws.thy ===== *)
theory MmuLaws
  imports TlbLaws
begin

text \<open>
  What loads, stores, atomics and reservations of the MMU do, on top of the coherence of the
  TLB: an access through the cache is the access that the page table walk prescribes, a store
  is seen by the next load, a misaligned access is the sequence of its bytes, and atomics
  report store faults.  The last section shows where the shared data array of the TLB breaks
  this: fetches and data accesses that translate in different privilege modes.
\<close>

lemma andthen_step: "m w = (Inr x, w1) \<Longrightarrow> f x w1 = r \<Longrightarrow> andthen m f w = r"
  by (simp add: andthen_def)

lemma andthen_throw: "m w = (Inl e, w1) \<Longrightarrow> andthen m f w = (Inl e, w1)"
  by (simp add: andthen_def)

section \<open>Triggers that do not interfere\<close>

definition quiet :: "trigger_operation \<Rightarrow> processor_t \<Rightarrow> bool" where
  "quiet op p \<longleftrightarrow> halted p \<or> list_all (\<lambda>mc. \<not> watches op (prv (p_state p)) mc) (mcontrol (p_state p))"

lemma trigger_loop_quiet:
  "list_all (\<lambda>(mc, t). \<not> watches op mode mc) ts \<Longrightarrow> trigger_loop xlen mode op a d i True ts = Some None"
  by (induction ts arbitrary: i) auto

lemma quiet_no_match: "quiet op p \<Longrightarrow> trigger_match op a d p = Some None"
proof -
  assume q: "quiet op p"
  have "list_all (\<lambda>(mc, t). \<not> watches op (prv (p_state p)) mc)
      (take num_triggers (zip (mcontrol (p_state p)) (tdata2 (p_state p))))" if "\<not> halted p"
    using q that by (auto simp: quiet_def list_all_iff dest!: in_set_takeD set_zip_leftD)
  from trigger_loop_quiet [OF this] show ?thesis
    by (auto simp: trigger_match_def Let_def halted_def)
qed

lemma quiet_check: "quiet op (w_hart w) \<Longrightarrow> check_trigger op a d w = (Inr (), w)"
  by (simp add: check_trigger_def trigger_exception_def quiet_no_match)

lemma quiet_cong: "p_state p = p_state q \<Longrightarrow> quiet op p = quiet op q"
  by (simp add: quiet_def halted_def)

section \<open>Loads\<close>

text \<open>The load that the page tables prescribe, without a TLB.\<close>

definition reference_load :: "build \<Rightarrow> 's simif \<Rightarrow> bool \<Rightarrow> nat \<Rightarrow> reg_t \<Rightarrow> 's world \<Rightarrow> reg_t result" where
  "reference_load cfg sif sx n a w =
     (case fst (translate cfg sif a LOAD w) of
        Inl e \<Rightarrow> Inl e
      | Inr pa \<Rightarrow>
          (case sif_addr_to_mem sif pa of
             Some h \<Rightarrow> Inr (extend_value sx n (of_le_bytes (read_mem (w_mem w) h n)))
           | None \<Rightarrow>
               (case fst (sif_mmio_load sif pa n w) of
                  Some (Some bs) \<Rightarrow> Inr (extend_value sx n (of_le_bytes bs))
                | Some None \<Rightarrow> Inl (Throw_trap (trap_load_access_fault a))
                | None \<Rightarrow> Inl Abort)))"

text \<open>The assumptions on the world that the accesses keep.\<close>

definition stable :: "build \<Rightarrow> 's simif \<Rightarrow> 's world \<Rightarrow> bool" where
  "stable cfg sif w \<longleftrightarrow> coherent cfg sif w \<and> one_mode w \<and> xlen_ok w \<and> simif_ok sif \<and> \<not> enable_dirty cfg \<and>
     quiet OPERATION_LOAD (w_hart w) \<and> quiet OPERATION_STORE (w_hart w)"

definition same_arch :: "'s world \<Rightarrow> 's world \<Rightarrow> bool" where
  "same_arch w w' \<longleftrightarrow> p_state (w_hart w') = p_state (w_hart w) \<and>
     p_max_xlen (w_hart w') = p_max_xlen (w_hart w) \<and> p_xlen (w_hart w') = p_xlen (w_hart w)"

lemma same_arch_refl [simp]: "same_arch w w"
  and same_arch_upd [simp]: "same_arch w (upd_mmu f w') = same_arch w w'"
  by (simp_all add: same_arch_def)

lemma stable_transfer:
  assumes "stable cfg sif w" "same_arch w w'" "mmu_of w' = mmu_of w"
    and "page_entry cfg sif w' = page_entry cfg sif w"
  shows "stable cfg sif w'"
  using assms quiet_cong [of "w_hart w'" "w_hart w"]
  by (simp add: stable_def same_arch_def coherent_def one_mode_def xlen_ok_def)

lemma stable_refill:
  assumes "stable cfg sif w" "fst (translate cfg sif a type w) = Inr pa" "sif_addr_to_mem sif pa = Some h"
  shows "stable cfg sif (snd (do_refill a pa h type w))"
proof -
  have "coherent cfg sif (snd (do_refill a pa h type w))"
    using assms unfolding stable_def by (intro coherent_refill) (auto dest: simif_okD(1))
  then show ?thesis
    using assms(1) quiet_cong [of "w_hart (snd (do_refill a pa h type w))" "w_hart w"]
    by (simp add: stable_def do_refill_eq one_mode_def xlen_ok_def)
qed

lemma width_bytes: "n \<in> {1, 2, 4, 8} \<Longrightarrow> length bs = n \<Longrightarrow> data_or_abort bs w = (Inr (of_le_bytes bs), w)"
  by (auto simp: data_or_abort_def reg_from_bytes_def)

lemma length_read_mem [simp]: "length (read_mem m a n) = n"
  by (simp add: read_mem_def)

text \<open>The slow path, for a mapped address.\<close>

lemma load_slow_mem:
  assumes "stable cfg sif w" "fst (translate cfg sif a LOAD w) = Inr pa" "sif_addr_to_mem sif pa = Some h"
    and "n \<in> {1, 2, 4, 8}"
  shows "\<exists>w'. load_slow_path cfg sif a n w = (Inr (read_mem (w_mem w) h n), w') \<and>
    stable cfg sif w' \<and> same_arch w w' \<and> w_mem w' = w_mem w"
proof -
  have tr: "translate cfg sif a LOAD w = (Inr pa, w)"
    using assms(1,2) translate_world [of cfg sif a LOAD w] by (cases "translate cfg sif a LOAD w") (auto simp: stable_def)
  define w' where "w' = (if sif_interested sif pa (pa + PGSIZE) LOAD then sif_trace sif pa n LOAD w
      else snd (do_refill a pa h LOAD w))"
  have trace: "w_hart (sif_trace sif pa n LOAD w) = w_hart w" "w_mem (sif_trace sif pa n LOAD w) = w_mem w"
    using assms(1) by (auto simp: stable_def dest: simif_okD(4,5))
  have st: "stable cfg sif w'"
    unfolding w'_def using stable_refill [OF assms(1-3)] trace
    by (auto intro!: stable_transfer [OF assms(1)] page_entry_cong simp: same_arch_def)
  have ar: "same_arch w w'" and mem: "w_mem w' = w_mem w"
    using trace by (auto simp: w'_def do_refill_eq same_arch_def)
  have "quiet OPERATION_LOAD (w_hart w')" using st by (simp add: stable_def)
  then have q: "check_trigger OPERATION_LOAD a d w' = (Inr (), w')" for d by (rule quiet_check)
  have q': "sif_interested sif pa (pa + PGSIZE) LOAD \<Longrightarrow>
      check_trigger OPERATION_LOAD a d (sif_trace sif pa n LOAD w) = (Inr (), sif_trace sif pa n LOAD w)"
    "\<not> sif_interested sif pa (pa + PGSIZE) LOAD \<Longrightarrow>
      check_trigger OPERATION_LOAD a d (snd (do_refill a pa h LOAD w)) = (Inr (), snd (do_refill a pa h LOAD w))" for d
    using q [of d] by (simp_all add: w'_def)
  have "load_slow_path cfg sif a n w = (Inr (read_mem (w_mem w) h n), w')"
    unfolding load_slow_path_def
    apply (rule andthen_step, rule tr)
    apply (auto simp: andthen_def assms(3) Let_def w'_def width_bytes [OF assms(4)] q')
    done
  with st ar mem show ?thesis by blast
qed

text \<open>A failed translation is thrown; a device answers where no memory is mapped.\<close>

lemma load_slow_fault:
  assumes "fst (translate cfg sif a LOAD w) = Inl e" "\<not> enable_dirty cfg"
  shows "load_slow_path cfg sif a n w = (Inl e, w)"
proof -
  have "translate cfg sif a LOAD w = (Inl e, w)"
    using assms translate_world [of cfg sif a LOAD w] by (cases "translate cfg sif a LOAD w") auto
  then show ?thesis by (simp add: load_slow_path_def andthen_throw)
qed

lemma load_slow_mmio:
  assumes "stable cfg sif w" "fst (translate cfg sif a LOAD w) = Inr pa" "sif_addr_to_mem sif pa = None"
    and "n \<in> {1, 2, 4, 8}"
  shows "\<exists>w'. load_slow_path cfg sif a n w =
      (case fst (sif_mmio_load sif pa n w) of
         None \<Rightarrow> Inl Abort | Some None \<Rightarrow> Inl (Throw_trap (trap_load_access_fault a))
       | Some (Some bs) \<Rightarrow> Inr bs, w') \<and>
    stable cfg sif w' \<and> same_arch w w' \<and> w_mem w' = w_mem w"
proof -
  have tr: "translate cfg sif a LOAD w = (Inr pa, w)"
    using assms(1,2) translate_world [of cfg sif a LOAD w] by (cases "translate cfg sif a LOAD w") (auto simp: stable_def)
  obtain r w' where io: "sif_mmio_load sif pa n w = (r, w')" by (cases "sif_mmio_load sif pa n w")
  have sif: "simif_ok sif" using assms(1) by (simp add: stable_def)
  have same: "w_hart w' = w_hart w" "w_mem w' = w_mem w" using simif_okD(2) [OF sif io] by simp_all
  have st: "stable cfg sif w'"
    by (rule stable_transfer [OF assms(1)]) (auto simp: same_arch_def same intro!: page_entry_cong)
  then have q: "check_trigger OPERATION_LOAD a d w' = (Inr (), w')" for d
    by (intro quiet_check) (simp add: stable_def)
  have "load_slow_path cfg sif a n w =
      (case r of None \<Rightarrow> Inl Abort | Some None \<Rightarrow> Inl (Throw_trap (trap_load_access_fault a))
       | Some (Some bs) \<Rightarrow> Inr bs, w')"
  proof (cases "\<exists>bs. r = Some (Some bs)")
    case False
    show ?thesis unfolding load_slow_path_def
      apply (rule andthen_step, rule tr)
      using False apply (auto simp: andthen_def device_access_def assms(3) io split: option.splits)
      done
  next
    case True
    then obtain bs where Some: "r = Some (Some bs)" by blast
    have len: "length bs = n" using simif_okD(3) [OF sif] io Some by simp
    show ?thesis unfolding load_slow_path_def
      apply (rule andthen_step, rule tr)
      apply (simp add: andthen_def device_access_def assms(3) io Some width_bytes [OF assms(4) len] q)
      done
  qed
  then show ?thesis using st same io by (auto simp: same_arch_def)
qed

text \<open>The two hits of the fast path, and the miss.\<close>

lemma load_aligned_cases:
  assumes "stable cfg sif w"
  obtains (hit) e where "tlb_lookup (mmu_of w) LOAD a = Some e"
      "load_aligned cfg sif sx n a w =
         (Inr (extend_value sx n (of_le_bytes (read_mem (w_mem w) (host_offset e + a) n))), w)"
  | (miss) "load_aligned cfg sif sx n a w = andthen (load_slow_path cfg sif a n)
          (\<lambda>bytes w. (Inr (extend_value sx n (of_le_bytes bytes)), w)) w"
proof (cases "tlb_lookup (mmu_of w) LOAD a")
  case None
  then have "tlb_load_tag (mmu_of w) (tlb_index a) \<noteq> vpn_of a"
    "tlb_load_tag (mmu_of w) (tlb_index a) \<noteq> vpn_of a OR TLB_CHECK_TRIGGERS"
    by (auto simp: tlb_lookup_def tag_of_def tag_hit split: if_splits)
  then show thesis by (intro miss) (simp add: load_aligned_def Let_def)
next
  case (Some e)
  have q: "check_trigger OPERATION_LOAD a d w = (Inr (), w)" for d
    using assms by (intro quiet_check) (simp add: stable_def)
  have tag: "tlb_load_tag (mmu_of w) (tlb_index a) = vpn_of a \<or>
      tlb_load_tag (mmu_of w) (tlb_index a) = vpn_of a OR TLB_CHECK_TRIGGERS"
    and e: "e = tlb_data (mmu_of w) (tlb_index a)"
    using Some by (auto simp: tlb_lookup_def tag_of_def tag_hit split: if_splits)
  show thesis
    by (rule hit [OF Some]) (use tag in \<open>auto simp: load_aligned_def Let_def e andthen_def q\<close>)
qed

lemma load_aligned_reference:
  assumes "stable cfg sif w" "n \<in> {1, 2, 4, 8}"
  shows "\<exists>w'. load_aligned cfg sif sx n a w = (reference_load cfg sif sx n a w, w') \<and>
    stable cfg sif w' \<and> same_arch w w' \<and> w_mem w' = w_mem w"
proof (cases rule: load_aligned_cases [OF assms(1), of a sx n, case_names hit miss])
  case (hit e)
  have "coherent cfg sif w" using assms(1) by (simp add: stable_def)
  from coherent_hit [OF this hit(1)] obtain pa where "fst (translate cfg sif a LOAD w) = Inr pa"
    "sif_addr_to_mem sif pa = Some (host_offset e + a)" by blast
  then show ?thesis using hit(2) assms(1) by (simp add: reference_load_def)
next
  case miss
  have nd: "\<not> enable_dirty cfg" using assms(1) by (simp add: stable_def)
  show ?thesis
  proof (cases "fst (translate cfg sif a LOAD w)")
    case (Inl e)
    then show ?thesis
      using load_slow_fault [OF Inl nd, of n] miss assms(1) by (simp add: reference_load_def andthen_def)
  next
    case (Inr pa)
    show ?thesis
    proof (cases "sif_addr_to_mem sif pa")
      case None
      from load_slow_mmio [OF assms(1) Inr None assms(2)] show ?thesis
        unfolding miss by (auto simp: reference_load_def Inr None andthen_def split: option.splits)
    next
      case (Some h)
      from load_slow_mem [OF assms(1) Inr Some assms(2)] show ?thesis
        unfolding miss by (auto simp: reference_load_def Inr Some andthen_def)
    qed
  qed
qed

text \<open>
  The loads of a program fragment, in order.  The TLB keeps the contract of a stateful lookup:
  a load of an address that no device serves answers as the page tables of the first world do.
  A request is the signedness, the binary logarithm of the size and the address.
\<close>

definition memory_backed :: "build \<Rightarrow> 's simif \<Rightarrow> 's world \<Rightarrow> reg_t \<Rightarrow> bool" where
  "memory_backed cfg sif w a \<longleftrightarrow>
     (case fst (translate cfg sif a LOAD w) of Inl e \<Rightarrow> True | Inr pa \<Rightarrow> sif_addr_to_mem sif pa \<noteq> None)"

definition load_request :: "build \<Rightarrow> 's simif \<Rightarrow> 's world \<Rightarrow> bool \<times> nat \<times> reg_t \<Rightarrow> (reg_t result \<times> 's world) option" where
  "load_request cfg sif w k = 
     (case k of (sx, l, a) \<Rightarrow> Some (load_aligned cfg sif sx (2 ^ (l mod 4)) a w))"

definition unchanged_since :: "build \<Rightarrow> 's simif \<Rightarrow> 's world \<Rightarrow> 's world \<Rightarrow> bool" where
  "unchanged_since cfg sif w0 w \<longleftrightarrow> stable cfg sif w \<and> same_arch w0 w \<and> w_mem w = w_mem w0"

definition answers_load :: "build \<Rightarrow> 's simif \<Rightarrow> 's world \<Rightarrow> bool \<times> nat \<times> reg_t \<Rightarrow> reg_t result \<Rightarrow> bool" where
  "answers_load cfg sif w0 k r = (case k of (sx, l, a) \<Rightarrow>
     memory_backed cfg sif w0 a \<longrightarrow> r = reference_load cfg sif sx (2 ^ (l mod 4)) a w0)"

lemma translate_same_arch:
  "same_arch w0 w \<Longrightarrow> w_mem w = w_mem w0 \<Longrightarrow> fst (translate cfg sif a type w) = fst (translate cfg sif a type w0)"
  by (rule translate_cong) (simp_all add: same_arch_def)

lemma reference_load_same_arch:
  assumes "same_arch w0 w" "w_mem w = w_mem w0" "memory_backed cfg sif w0 a"
  shows "reference_load cfg sif sx n a w = reference_load cfg sif sx n a w0"
  using assms(3)
  by (auto simp: reference_load_def memory_backed_def translate_same_arch [OF assms(1,2)] assms(2) split: sum.splits)

lemma same_arch_trans: "same_arch w0 w \<Longrightarrow> same_arch w w' \<Longrightarrow> same_arch w0 w'"
  by (simp add: same_arch_def)

lemma width_code: "2 ^ (l mod 4) \<in> {1, 2, 4, 8 :: nat}"
proof -
  have "l mod 4 = 0 \<or> l mod 4 = 1 \<or> l mod 4 = 2 \<or> l mod 4 = 3" by presburger
  then show ?thesis by auto
qed

interpretation loads: stateful_lookup "load_request cfg sif" "unchanged_since cfg sif w0" "answers_load cfg sif w0"
  for cfg and sif :: "'s simif" and w0
proof
  fix w :: "'s world" and k :: "bool \<times> nat \<times> reg_t"
  assume good: "unchanged_since cfg sif w0 w"
  obtain sx l a where k: "k = (sx, l, a)" by (cases k)
  have st: "stable cfg sif w" "same_arch w0 w" "w_mem w = w_mem w0"
    using good by (simp_all add: unchanged_since_def)
  obtain w' where w': "load_aligned cfg sif sx (2 ^ (l mod 4)) a w = (reference_load cfg sif sx (2 ^ (l mod 4)) a w, w')"
    "stable cfg sif w'" "same_arch w w'" "w_mem w' = w_mem w"
    using load_aligned_reference [OF st(1) width_code] by blast
  show "\<exists>v w'. load_request cfg sif w k = Some (v, w') \<and> answers_load cfg sif w0 k v \<and> unchanged_since cfg sif w0 w'"
    using w' st same_arch_trans [OF st(2) w'(3)] reference_load_same_arch [OF st(2,3)]
    by (auto simp: load_request_def k answers_load_def unchanged_since_def)
qed

text \<open>
  C7. Loads through the TLB: starting from a coherent TLB, with no trigger watching and fetches
  and data accesses in the same mode, any sequence of aligned loads answers each memory load
  with the value, or the fault, of the page table walk in the first world, however the TLB was
  filled before and in between.
\<close>

theorem loads_through_tlb:
  assumes "stable cfg sif w"
  shows "\<exists>vs w'. run_lookups (load_request cfg sif) ks w = Some (vs, w') \<and>
    list_all2 (answers_load cfg sif w) ks vs \<and> w_mem w' = w_mem w \<and> p_state (w_hart w') = p_state (w_hart w)"
proof -
  have "unchanged_since cfg sif w w" using assms by (simp add: unchanged_since_def)
  from loads.run_good [OF this, of ks] show ?thesis by (auto simp: unchanged_since_def same_arch_def)
qed

section \<open>Stores\<close>

definition put_bytes :: "reg_t \<Rightarrow> byte list \<Rightarrow> 's world \<Rightarrow> 's world" where
  "put_bytes h bs w = w\<lparr>w_mem := write_mem h bs (w_mem w)\<rparr>"

lemma put_bytes_simps [simp]:
  "w_hart (put_bytes h bs w) = w_hart w" "w_mem (put_bytes h bs w) = write_mem h bs (w_mem w)"
  by (simp_all add: put_bytes_def)

lemma write_mem_other: "(\<And>i. i < length bs \<Longrightarrow> x \<noteq> a + of_nat i) \<Longrightarrow> write_mem a bs m x = m x"
proof (induction bs arbitrary: a m)
  case (Cons b bs)
  have "x \<noteq> a" using Cons.prems [of 0] by simp
  moreover have "x \<noteq> a + 1 + of_nat i" if "i < length bs" for i
    using Cons.prems [of "Suc i"] that by (simp add: add.assoc)
  ultimately have "write_mem (a + 1) bs (m(a := b)) x = (m(a := b)) x" by (intro Cons.IH) simp
  with \<open>x \<noteq> a\<close> show ?case by simp
qed simp

lemma read_write_mem:
  "length bs \<le> 2 ^ 64 \<Longrightarrow> read_mem (write_mem a bs m) a (length bs) = bs"
proof (induction bs arbitrary: a m)
  case (Cons b bs)
  have "a \<noteq> a + 1 + of_nat i" if "i < length bs" for i
  proof
    assume "a = a + 1 + of_nat i"
    then have "of_nat (Suc i) = (0 :: reg_t)" by (simp add: add.assoc)
    then have "2 ^ 64 dvd Suc i" by (simp only: word_of_nat_eq_0_iff) simp
    then have "2 ^ 64 \<le> Suc i" by (rule dvd_imp_le) simp
    then show False using that Cons.prems by simp
  qed
  then have hd: "write_mem (a + 1) bs (m(a := b)) a = b" by (subst write_mem_other) auto
  have tl: "read_mem (write_mem (a + 1) bs (m(a := b))) (a + 1) (length bs) = bs"
    by (rule Cons.IH) (use Cons.prems in simp)
  have "read_mem f a (Suc n) = f a # read_mem f (a + 1) n" for f n
    by (simp add: read_mem_def map_upt_Suc add.assoc del: upt_Suc)
  then show ?case using hd tl by simp
qed (simp add: read_mem_def)

lemma store_in_memory:
  assumes "stable cfg sif w" "fst (translate cfg sif a STORE w) = Inr pa" "sif_addr_to_mem sif pa = Some h"
    and "n \<in> {1, 2, 4, 8}"
    and "page_entry cfg sif (put_bytes h (le_bytes n v) w) = page_entry cfg sif w"
  shows "\<exists>w'. store_aligned cfg sif n a v w = (Inr (), w') \<and> stable cfg sif w' \<and> same_arch w w' \<and>
    w_mem w' = write_mem h (le_bytes n v) (w_mem w)"
proof -
  let ?w1 = "put_bytes h (le_bytes n v) w"
  have tr: "translate cfg sif a STORE w = (Inr pa, w)"
    using assms(1,2) translate_world [of cfg sif a STORE w] by (cases "translate cfg sif a STORE w") (auto simp: stable_def)
  have q: "check_trigger OPERATION_STORE a d w = (Inr (), w)" for d
    using assms(1) by (intro quiet_check) (simp add: stable_def)
  have st1: "stable cfg sif ?w1"
    by (rule stable_transfer [OF assms(1)]) (simp_all add: same_arch_def assms(5))
  have entry: "page_entry cfg sif w STORE a = Some \<lparr>host_offset = h - a, target_offset = pa - a\<rparr>"
    using assms(2,3) by (simp add: page_entry_def)
  show ?thesis
  proof (cases "tlb_lookup (mmu_of w) STORE a")
    case (Some e)
    have "page_entry cfg sif w STORE a = Some e"
      using assms(1) Some by (simp add: stable_def coherent_def tlb.agrees_def)
    then have e: "host_offset e + a = h" using entry by auto
    have "tlb_store_tag (mmu_of w) (tlb_index a) = vpn_of a \<or>
        tlb_store_tag (mmu_of w) (tlb_index a) = vpn_of a OR TLB_CHECK_TRIGGERS"
      and "e = tlb_data (mmu_of w) (tlb_index a)"
      using Some by (auto simp: tlb_lookup_def tag_of_def tag_hit split: if_splits)
    then have "store_aligned cfg sif n a v w = (Inr (), ?w1)"
      using e by (auto simp: store_aligned_def Let_def andthen_def q put_bytes_def)
    then show ?thesis using st1 by (auto simp: same_arch_def)
  next
    case None
    then have "store_aligned cfg sif n a v w = store_slow_path cfg sif a (le_bytes n v) w"
      by (auto simp: tlb_lookup_def tag_of_def tag_hit store_aligned_def Let_def split: if_splits)
    also have "\<dots> = (Inr (), if sif_interested sif pa (pa + PGSIZE) STORE
        then sif_trace sif pa n STORE ?w1 else snd (do_refill a pa h STORE ?w1))"
      unfolding store_slow_path_def
      apply (rule andthen_step, rule tr)
      apply (simp add: andthen_def assms(3) Let_def put_bytes_def width_bytes [OF assms(4)] q)
      done
    finally have step: "store_aligned cfg sif n a v w = \<dots>" .
    have trace: "w_hart (sif_trace sif pa n STORE ?w1) = w_hart w"
      "w_mem (sif_trace sif pa n STORE ?w1) = write_mem h (le_bytes n v) (w_mem w)"
      using assms(1) by (auto simp: stable_def simif_okD(4,5))
    have traced: "stable cfg sif (sif_trace sif pa n STORE ?w1)"
      by (rule stable_transfer [OF st1]) (auto simp: same_arch_def trace intro!: page_entry_cong)
    have "page_entry cfg sif ?w1 STORE a = Some \<lparr>host_offset = h - a, target_offset = pa - a\<rparr>"
      using entry assms(5) by simp
    then obtain pa' where pa': "fst (translate cfg sif a STORE ?w1) = Inr pa'" "pa' - a = pa - a"
      by (auto simp: page_entry_def split: sum.splits)
    then have "fst (translate cfg sif a STORE ?w1) = Inr pa" by simp
    from stable_refill [OF st1 this assms(3)] have "stable cfg sif (snd (do_refill a pa h STORE ?w1))" .
    then show ?thesis unfolding step using traced trace by (auto simp: same_arch_def do_refill_eq)
  qed
qed

lemma extend_le_bytes:
  "n \<in> {1, 2, 4, 8} \<Longrightarrow> extend_value sx n (of_le_bytes (le_bytes n v)) = extend_value sx n v"
  unfolding of_le_bytes_inverse extend_value_def
  by (cases sx; intro bit_word_eqI) (auto simp: bit_sext_xlen bit_simps)

text \<open>
  C8. Load after store: a store of 1, 2, 4 or 8 bytes to mapped memory that does not change a
  page table entry in use is seen by the next load of the same size at the same virtual address,
  sign- or zero-extended, whether either access hits or misses in the TLB.
\<close>

theorem load_after_store:
  assumes "stable cfg sif w" "fst (translate cfg sif a STORE w) = Inr pa" "sif_addr_to_mem sif pa = Some h"
    and "n \<in> {1, 2, 4, 8}"
    and "page_entry cfg sif (put_bytes h (le_bytes n v) w) = page_entry cfg sif w"
    and "page_entry cfg sif w LOAD a \<noteq> None"
  shows "\<exists>w1 w2. store_aligned cfg sif n a v w = (Inr (), w1) \<and>
    load_aligned cfg sif sx n a w1 = (Inr (extend_value sx n v), w2)"
proof -
  obtain w1 where w1: "store_aligned cfg sif n a v w = (Inr (), w1)" "stable cfg sif w1" "same_arch w w1"
    "w_mem w1 = write_mem h (le_bytes n v) (w_mem w)"
    using store_in_memory [OF assms(1-5)] by blast
  have entry: "page_entry cfg sif w STORE a = Some \<lparr>host_offset = h - a, target_offset = pa - a\<rparr>"
    using assms(2,3) by (simp add: page_entry_def)
  have "page_entry cfg sif w1 = page_entry cfg sif (put_bytes h (le_bytes n v) w)"
    using w1(3,4) by (intro page_entry_cong) (simp_all add: same_arch_def)
  then have "page_entry cfg sif w1 LOAD a = page_entry cfg sif w LOAD a" using assms(5) by simp
  also have "\<dots> = Some \<lparr>host_offset = h - a, target_offset = pa - a\<rparr>"
    using page_entry_agree [OF entry, of LOAD] assms(1,6) by (auto simp: stable_def)
  finally obtain pa' h' where "fst (translate cfg sif a LOAD w1) = Inr pa'" "sif_addr_to_mem sif pa' = Some h'" "h' = h"
    by (auto simp: page_entry_def split: sum.splits)
  then have "reference_load cfg sif sx n a w1 = Inr (extend_value sx n v)"
    using read_write_mem [of "le_bytes n v" h "w_mem w"] assms(4)
    by (auto simp: reference_load_def w1(4) extend_le_bytes)
  with load_aligned_reference [OF w1(2) assms(4), of sx a] w1(1) show ?thesis by auto
qed

section \<open>Misaligned loads\<close>

text \<open>The bytes of a misaligned load, each translated on its own.\<close>

definition reference_bytes :: "build \<Rightarrow> 's simif \<Rightarrow> reg_t \<Rightarrow> nat list \<Rightarrow> 's world \<Rightarrow> reg_t result list" where
  "reference_bytes cfg sif a is w = map (\<lambda>i. reference_load cfg sif False 1 (a + of_nat i) w) is"

definition first_fault :: "reg_t result list \<Rightarrow> exn option" where
  "first_fault rs = map_option projl (find isl rs)"

definition assemble :: "reg_t result list \<Rightarrow> reg_t" where
  "assemble rs = of_le_bytes (map (\<lambda>r. ucast (projr r)) rs)"

lemma assemble_Cons:
  assumes "b = take_bit 8 b"
  shows "res + shl b (i * 8) + shl (assemble rs) (Suc i * 8) = res + shl (assemble (Inr b # rs)) (i * 8)"
proof -
  have b: "bit b j \<Longrightarrow> j < 8" for j by (subst (asm) assms) (simp add: bit_simps)
  have "assemble (Inr b # rs) = b OR shl (assemble rs) 8"
    by (rule bit_word_eqI) (use b in \<open>auto simp: assemble_def bit_simps\<close>)
  also have "\<dots> = b + shl (assemble rs) 8"
    by (rule disjunctive_add_eq_or [symmetric], rule bit_word_eqI) (auto simp: bit_simps dest: b)
  finally show ?thesis by (simp add: push_bit_add ac_simps)
qed

lemma misaligned_load_bytes_spec:
  assumes "stable cfg sif w" "list_all (\<lambda>j. memory_backed cfg sif w (a + of_nat j)) [i..<i + k]"
  shows "\<exists>w'. misaligned_load_bytes cfg sif k a i res w =
    (case first_fault (reference_bytes cfg sif a [i..<i + k] w) of
       Some e \<Rightarrow> Inl e
     | None \<Rightarrow> Inr (res + shl (assemble (reference_bytes cfg sif a [i..<i + k] w)) (i * 8)), w')"
  using assms
proof (induction k arbitrary: i res w)
  case 0
  then show ?case by (simp add: reference_bytes_def first_fault_def assemble_def)
next
  case (Suc k)
  have upt: "[i..<i + Suc k] = i # [Suc i..<Suc i + k]" by (simp add: upt_rec [of i])
  obtain w1 where w1: "load_aligned cfg sif False 1 (a + of_nat i) w =
      (reference_load cfg sif False 1 (a + of_nat i) w, w1)"
    "stable cfg sif w1" "same_arch w w1" "w_mem w1 = w_mem w"
    using load_aligned_reference [OF Suc.prems(1), of 1 False "a + of_nat i"] by auto
  show ?case
  proof (cases "reference_load cfg sif False 1 (a + of_nat i) w")
    case (Inl e)
    then show ?thesis
      using w1(1) unfolding upt by (simp add: andthen_def reference_bytes_def first_fault_def del: upt_Suc)
  next
    case (Inr b)
    have b: "b = take_bit 8 b"
      using Inr by (auto simp: reference_load_def extend_value_def split: sum.splits option.splits)
    have backed: "memory_backed cfg sif w1 x = memory_backed cfg sif w x" for x
      by (simp add: memory_backed_def translate_same_arch [OF w1(3,4)])
    have same: "reference_bytes cfg sif a [Suc i..<Suc i + k] w1 = reference_bytes cfg sif a [Suc i..<Suc i + k] w"
      using Suc.prems(2) reference_load_same_arch [OF w1(3,4)]
      by (auto simp: reference_bytes_def upt list_all_iff)
    define rs where "rs = reference_bytes cfg sif a [Suc i..<Suc i + k] w"
    have rs: "reference_bytes cfg sif a [i..<i + Suc k] w = Inr b # rs"
      unfolding rs_def by (simp only: upt reference_bytes_def list.map Inr)
    have ff: "first_fault (Inr b # rs) = first_fault rs" by (simp add: first_fault_def)
    obtain w' where "misaligned_load_bytes cfg sif k a (Suc i) (res + shl b (i * 8)) w1 =
       (case first_fault rs of Some e \<Rightarrow> Inl e
        | None \<Rightarrow> Inr (res + shl b (i * 8) + shl (assemble rs) (Suc i * 8)), w')"
      using Suc.IH [OF w1(2), of "Suc i" "res + shl b (i * 8)"] Suc.prems(2)
      unfolding same backed upt rs_def by auto
    then show ?thesis
      unfolding rs ff assemble_Cons [OF b] misaligned_load_bytes.simps using w1(1) Inr by (auto simp: andthen_def)
  qed
qed

text \<open>
  C9. With misaligned accesses enabled, a misaligned load of memory is the sequence of its byte
  loads: it throws the fault of the first byte that faults, with that byte's address, and
  otherwise returns the little-endian value of the bytes, extended to the register; disabled,
  it throws the misaligned-address trap.
\<close>

theorem misaligned_load_is_bytewise:
  assumes "stable cfg sif w" "misaligned a n"
    and "list_all (\<lambda>j. memory_backed cfg sif w (a + of_nat j)) [0..<n]"
  shows "fst (mmu_load cfg sif sx n a w) =
    (if \<not> enable_misaligned cfg then Inl (Throw_trap (trap_load_address_misaligned a))
     else case first_fault (reference_bytes cfg sif a [0..<n] w) of
            Some e \<Rightarrow> Inl e
          | None \<Rightarrow> Inr (extend_value sx n (assemble (reference_bytes cfg sif a [0..<n] w))))"
  using misaligned_load_bytes_spec [OF assms(1), of a 0 n 0] assms(2,3)
  by (auto simp: mmu_load_def misaligned_load_def andthen_def split: option.splits)

section \<open>Load reservations\<close>

text \<open>
  C10. Load-reserved and store-conditional: acquiring a reservation at one mapped address and
  checking it at another succeeds exactly when both translate to the same physical address, and
  after \<open>yield_load_reservation\<close> no check succeeds at a mapped address other than the last one.
\<close>

theorem reservation_same_physical:
  assumes "\<not> enable_dirty cfg"
    and "fst (translate cfg sif a LOAD w) = Inr pa" "sif_addr_to_mem sif pa \<noteq> None"
    and "fst (translate cfg sif b STORE w) = Inr pb" "sif_addr_to_mem sif pb \<noteq> None"
  shows "\<exists>w1. acquire_load_reservation cfg sif a w = (Inr (), w1) \<and>
    fst (check_load_reservation cfg sif b w1) = Inr (pb = pa) \<and>
    fst (check_load_reservation cfg sif b (upd_mmu yield_load_reservation w1)) = Inr (pb = -1)"
proof -
  obtain h hb where h: "sif_addr_to_mem sif pa = Some h" "sif_addr_to_mem sif pb = Some hb"
    using assms(3,5) by auto
  have tr: "translate cfg sif a LOAD w = (Inr pa, w)"
    using assms(1,2) translate_world [of cfg sif a LOAD w] by (cases "translate cfg sif a LOAD w") auto
  define w1 where "w1 = upd_mmu (\<lambda>m. m\<lparr>load_reservation_address := pa\<rparr>) (snd (do_refill a pa h LOAD w))"
  have acq: "acquire_load_reservation cfg sif a w = (Inr (), w1)"
    by (simp add: acquire_load_reservation_def reservation_target_def andthen_def tr h(1) w1_def do_refill_eq)
  have check: "fst (check_load_reservation cfg sif b w') = Inr (load_reservation_address (mmu_of w') = pb)"
    if same: "same_arch w w'" "w_mem w' = w_mem w" for w'
  proof -
    have "fst (translate cfg sif b STORE w') = Inr pb"
      using assms(4) translate_same_arch [OF same, of cfg sif b STORE] by simp
    then have tr': "translate cfg sif b STORE w' = (Inr pb, w')"
      using assms(1) translate_world [of cfg sif b STORE w'] by (cases "translate cfg sif b STORE w'") auto
    have "load_reservation_address (tlb_insert STORE b e m) = load_reservation_address m" for e m
      by (simp add: tlb_insert_def refill_tlb_def Let_def)
    then show ?thesis
      by (simp add: check_load_reservation_def reservation_target_def andthen_def tr' h(2) do_refill_eq)
  qed
  have s1: "same_arch w w1" "w_mem w1 = w_mem w" by (simp_all add: w1_def do_refill_eq same_arch_def)
  have s2: "same_arch w (upd_mmu yield_load_reservation w1)" "w_mem (upd_mmu yield_load_reservation w1) = w_mem w"
    using s1 by (simp_all add: same_arch_def)
  show ?thesis
    using acq check [OF s1] check [OF s2] by (auto simp: w1_def yield_load_reservation_def)
qed

section \<open>Atomics\<close>

definition trap_causes :: "reg_t set \<Rightarrow> exn \<Rightarrow> bool" where
  "trap_causes C e \<longleftrightarrow> (case e of Throw_trap t \<Rightarrow> cause t \<in> C | _ \<Rightarrow> True)"

definition throws_only :: "reg_t set \<Rightarrow> ('w \<Rightarrow> 'a result \<times> 'w) \<Rightarrow> bool" where
  "throws_only C m \<longleftrightarrow> (\<forall>w e. fst (m w) = Inl e \<longrightarrow> trap_causes C e)"

lemma throws_onlyD: "throws_only C m \<Longrightarrow> m w = (Inl e, w') \<Longrightarrow> trap_causes C e"
  unfolding throws_only_def by (metis fst_conv)

lemma throws_only_andthen [intro]:
  "throws_only C m \<Longrightarrow> (\<And>a. throws_only C (f a)) \<Longrightarrow> throws_only C (andthen m f)"
  unfolding throws_only_def andthen_def by (auto split: prod.splits sum.splits) (metis fst_conv)+

lemma throws_only_return [intro]: "throws_only C (\<lambda>w. (Inr (f w), g w))"
  by (simp add: throws_only_def)

lemma throws_only_mono: "throws_only C m \<Longrightarrow> C \<subseteq> D \<Longrightarrow> throws_only D m"
  unfolding throws_only_def trap_causes_def by (fastforce split: exn.splits)

lemma translate_throws:
  "throws_only {cause (page_fault type a), cause (access_fault type a)} (translate cfg sif a type)"
  by (auto simp: throws_only_def trap_causes_def translate_def andthen_def walk_def Let_def
      split: prod.splits sum.splits option.splits if_splits walk_result.splits)

lemma check_trigger_throws: "throws_only C (check_trigger op a d)"
  by (auto simp: throws_only_def trap_causes_def check_trigger_def trigger_exception_def Let_def
      split: option.splits if_splits sum.splits)

lemma data_or_abort_throws: "throws_only C (data_or_abort bs)"
  by (auto simp: throws_only_def trap_causes_def data_or_abort_def split: option.splits)

definition load_causes :: "reg_t set" where "load_causes = {CAUSE_LOAD_PAGE_FAULT, CAUSE_LOAD_ACCESS}"
definition store_causes :: "reg_t set" where "store_causes = {CAUSE_STORE_PAGE_FAULT, CAUSE_STORE_ACCESS}"

lemma fault_causes [simp]:
  "{cause (page_fault LOAD a), cause (access_fault LOAD a)} = load_causes"
  "{cause (page_fault STORE a), cause (access_fault STORE a)} = store_causes"
  by (simp_all add: load_causes_def store_causes_def page_fault_def access_fault_def
      trap_load_page_fault_def trap_load_access_fault_def trap_store_page_fault_def trap_store_access_fault_def)

lemma load_slow_throws: "throws_only load_causes (load_slow_path cfg sif a n)"
proof -
  have io: "throws_only load_causes (\<lambda>w. case sif_addr_to_mem sif pa of
        Some host \<Rightarrow> (Inr (f w host), g w host)
      | None \<Rightarrow> andthen (device_access (sif_mmio_load sif pa n))
          (\<lambda>r w. case r of Some bytes \<Rightarrow> (Inr bytes, w)
             | None \<Rightarrow> (Inl (Throw_trap (trap_load_access_fault a)), w)) w)" for pa f g
    by (auto simp: throws_only_def trap_causes_def load_causes_def trap_load_access_fault_def
        device_access_def andthen_def split: option.splits prod.splits)
  have trig: "throws_only load_causes (\<lambda>w. if matched_trigger (mmu_of w) \<noteq> None then (Inr bytes, w)
      else andthen (data_or_abort bytes)
        (\<lambda>data. andthen (check_trigger OPERATION_LOAD a data) (\<lambda>_ w. (Inr bytes, w))) w)" for bytes
  proof -
    have "throws_only load_causes (andthen (data_or_abort bytes)
        (\<lambda>data. andthen (check_trigger OPERATION_LOAD a data) (\<lambda>_ w. (Inr bytes, w))))"
      by (intro throws_only_andthen data_or_abort_throws check_trigger_throws throws_only_return)
    then show ?thesis by (auto simp: throws_only_def)
  qed
  have tr: "throws_only load_causes (translate cfg sif a LOAD)"
    using translate_throws [of LOAD a cfg sif] by simp
  have "throws_only load_causes (\<lambda>w. load_slow_path cfg sif a n w)"
    unfolding load_slow_path_def Let_def by (intro throws_only_andthen tr io trig)
  then show ?thesis by simp
qed

lemma store_slow_throws: "throws_only store_causes (store_slow_path cfg sif a bs)"
proof -
  have io: "throws_only store_causes (\<lambda>w. case sif_addr_to_mem sif pa of
        Some host \<Rightarrow> (Inr (), g w host)
      | None \<Rightarrow> andthen (device_access (sif_mmio_store sif pa bs))
          (\<lambda>ok w. if ok then (Inr (), w) else (Inl (Throw_trap (trap_store_access_fault a)), w)) w)" for pa g
    by (auto simp: throws_only_def trap_causes_def store_causes_def trap_store_access_fault_def
        device_access_def andthen_def split: option.splits prod.splits if_splits)
  have trig: "throws_only store_causes (\<lambda>w. if matched_trigger (mmu_of w) \<noteq> None then (Inr (), w)
      else andthen (data_or_abort bs) (\<lambda>data. check_trigger OPERATION_STORE a data) w)"
  proof -
    have "throws_only store_causes (andthen (data_or_abort bs) (\<lambda>data. check_trigger OPERATION_STORE a data))"
      by (intro throws_only_andthen data_or_abort_throws check_trigger_throws)
    then show ?thesis by (auto simp: throws_only_def)
  qed
  have tr: "throws_only store_causes (translate cfg sif a STORE)"
    using translate_throws [of STORE a cfg sif] by simp
  have "throws_only store_causes (\<lambda>w. store_slow_path cfg sif a bs w)"
    unfolding store_slow_path_def Let_def by (intro throws_only_andthen tr io trig)
  then show ?thesis by simp
qed

lemma load_aligned_throws: "throws_only load_causes (load_aligned cfg sif sx n a)"
  unfolding throws_only_def
proof (intro allI impI)
  fix w e assume e: "fst (load_aligned cfg sif sx n a w) = Inl e"
  have "throws_only load_causes (andthen (load_slow_path cfg sif a n)
      (\<lambda>bytes w. (Inr (extend_value sx n (of_le_bytes bytes)), w)))"
    by (intro throws_only_andthen load_slow_throws throws_only_return)
  moreover have "throws_only load_causes (andthen (check_trigger OPERATION_LOAD a v) (\<lambda>_ (w :: 'a world). (Inr v', w)))"
    for v v' :: reg_t
    by (intro throws_only_andthen check_trigger_throws throws_only_return)
  ultimately show "trap_causes load_causes e"
    using e unfolding throws_only_def load_aligned_def Let_def by (auto split: if_splits)
qed

lemma store_aligned_throws: "throws_only store_causes (store_aligned cfg sif n a v)"
  unfolding throws_only_def
proof (intro allI impI)
  fix w e assume e: "fst (store_aligned cfg sif n a v w) = Inl e"
  have "throws_only store_causes (andthen (check_trigger OPERATION_STORE a d) (\<lambda>_ w. (Inr (), f w)))"
    for d and f :: "'a world \<Rightarrow> 'a world"
    by (intro throws_only_andthen check_trigger_throws throws_only_return)
  with e show "trap_causes store_causes e"
    using store_slow_throws [of cfg sif a "le_bytes n v"]
    unfolding throws_only_def store_aligned_def Let_def by (auto split: if_splits)
qed

text \<open>
  Atomics report store faults only: whatever fault the load or the store half of an AMO
  meets, and whatever the alignment, a trap it throws is a store page fault, a store access
  fault or a misaligned-store trap.
\<close>

theorem amo_throws_store_faults:
  "fst (mmu_amo cfg sif n a f w) = Inl (Throw_trap t) \<Longrightarrow>
     cause t \<in> {CAUSE_STORE_PAGE_FAULT, CAUSE_STORE_ACCESS, CAUSE_MISALIGNED_STORE}"
proof (cases "misaligned a n")
  case True
  then show "fst (mmu_amo cfg sif n a f w) = Inl (Throw_trap t) \<Longrightarrow>
     cause t \<in> {CAUSE_STORE_PAGE_FAULT, CAUSE_STORE_ACCESS, CAUSE_MISALIGNED_STORE}"
    by (auto simp: mmu_amo_def trap_store_address_misaligned_def)
next
  case False
  assume t: "fst (mmu_amo cfg sif n a f w) = Inl (Throw_trap t)"
  have parts: "throws_only (load_causes \<union> store_causes) (andthen (load_aligned cfg sif False n a)
      (\<lambda>lhs. andthen (store_aligned cfg sif n a (f lhs)) (\<lambda>_ w. (Inr lhs, w))))"
    by (intro throws_only_andthen throws_only_mono [OF load_aligned_throws] throws_only_mono [OF store_aligned_throws]
        throws_only_return) auto
  have ld: "mmu_load cfg sif False n a = load_aligned cfg sif False n a"
    and st: "mmu_store cfg sif n a v = store_aligned cfg sif n a v" for v
    using False by (auto simp: mmu_load_def mmu_store_def)
  obtain e w' where e: "andthen (load_aligned cfg sif False n a)
      (\<lambda>lhs. andthen (store_aligned cfg sif n a (f lhs)) (\<lambda>_ w. (Inr lhs, w))) w = (Inl e, w')"
    and te: "amo_exn e = Throw_trap t"
    using t False unfolding mmu_amo_def ld st by (auto split: prod.splits sum.splits)
  have "trap_causes (load_causes \<union> store_causes) e" by (rule throws_onlyD [OF parts e])
  then show "cause t \<in> {CAUSE_STORE_PAGE_FAULT, CAUSE_STORE_ACCESS, CAUSE_MISALIGNED_STORE}"
    using te by (auto simp: amo_exn_def trap_causes_def load_causes_def store_causes_def
        trap_store_page_fault_def trap_store_access_fault_def split: exn.splits if_splits)
qed

section \<open>One data array for three tag arrays\<close>

text \<open>
  In M-mode with \<open>MPRV\<close> set and \<open>MPP = S\<close>, fetches are not translated and loads are.  The
  root page table is at \<open>0x100000\<close>; its first entry maps the first gigabyte to \<open>0x40000000\<close>.
\<close>

definition mprv_memory :: "reg_t \<Rightarrow> byte" where
  "mprv_memory = write_mem 0x100000 (le_bytes 8 (0x100000C7 :: reg_t)) (\<lambda>a. 0)"

definition mprv_simif :: "unit simif" where
  "mprv_simif = sample_simif\<lparr>sif_addr_to_mem := Some\<rparr>"

definition mprv_world :: "unit world" where
  "mprv_world = \<lparr>w_hart = sample_hart\<lparr>p_state := (state_reset 0x800000000014112D)\<lparr>
       mstatus := MSTATUS_MPRV OR shl 1 11, satp := 0x8000000000000100\<rparr>\<rparr>,
     w_mem = mprv_memory, w_dev = ()\<rparr>"

definition mprv_fetched :: "unit world" where
  "mprv_fetched = snd (translate_insn_addr sample_build mprv_simif 0x1000 mprv_world)"

definition mprv_loaded :: "unit world" where
  "mprv_loaded = snd (load_aligned sample_build mprv_simif False 4 0x1000 mprv_fetched)"

lemma mprv_translations:
  "fst (translate sample_build mprv_simif 0x1000 FETCH mprv_world) = Inr 0x1000"
  "fst (translate sample_build mprv_simif 0x1000 LOAD mprv_world) = Inr 0x40001000"
  by code_simp+

lemma mprv_mmu: "mmu_of mprv_world = p_mmu sample_hart"
  by (simp add: mprv_world_def)

lemma mprv_pages: "vpn_of 0x1000 = 1" "tlb_index 0x1000 = 1"
  by (simp_all add: vpn_of_def tlb_index_def spike_consts TLB_ENTRIES_def)

lemma mprv_fetched_eq:
  "translate_insn_addr sample_build mprv_simif 0x1000 mprv_world =
     (Inr \<lparr>host_offset = 0, target_offset = 0\<rparr>, upd_mmu (tlb_insert FETCH 0x1000 \<lparr>host_offset = 0, target_offset = 0\<rparr>) mprv_world)"
proof -
  have "translate sample_build mprv_simif 0x1000 FETCH mprv_world = (Inr 0x1000, mprv_world)"
    using mprv_translations(1) translate_world [of sample_build mprv_simif "0x1000" FETCH mprv_world]
    by (cases "translate sample_build mprv_simif 0x1000 FETCH mprv_world") (auto simp: sample_build_def)
  then have "fetch_slow_path sample_build mprv_simif 0x1000 mprv_world =
     (Inr \<lparr>host_offset = 0, target_offset = 0\<rparr>, upd_mmu (tlb_insert FETCH 0x1000 \<lparr>host_offset = 0, target_offset = 0\<rparr>) mprv_world)"
    by (simp add: fetch_slow_path_def andthen_def mprv_simif_def do_refill_eq)
  then show ?thesis
    unfolding translate_insn_addr_def Let_def mprv_mmu mprv_pages
    by (simp add: andthen_def sample_hart_def tlb_insert_def refill_tlb_def Let_def mprv_pages mprv_mmu
        TLB_CHECK_TRIGGERS_def)
qed

lemma mprv_loaded_eq:
  "mprv_loaded = upd_mmu (tlb_insert LOAD 0x1000 \<lparr>host_offset = 0x40000000, target_offset = 0x40000000\<rparr>) mprv_fetched"
proof -
  have fetched: "mprv_fetched = upd_mmu (tlb_insert FETCH 0x1000 \<lparr>host_offset = 0, target_offset = 0\<rparr>) mprv_world"
    by (simp add: mprv_fetched_def mprv_fetched_eq)
  have arch: "same_arch mprv_world mprv_fetched" "w_mem mprv_fetched = w_mem mprv_world"
    by (simp_all add: fetched)
  have tr: "translate sample_build mprv_simif 0x1000 LOAD mprv_fetched = (Inr 0x40001000, mprv_fetched)"
    using mprv_translations(2) translate_same_arch [OF arch, of sample_build mprv_simif "0x1000" LOAD]
      translate_world [of sample_build mprv_simif "0x1000" LOAD mprv_fetched]
    by (cases "translate sample_build mprv_simif 0x1000 LOAD mprv_fetched") (auto simp: sample_build_def)
  have "quiet OPERATION_LOAD (w_hart mprv_world)"
    by (simp add: quiet_def watches_def mprv_world_def state_reset_def zero_mcontrol_def num_triggers_def list_all_iff)
  then have q: "check_trigger OPERATION_LOAD 0x1000 d (upd_mmu f mprv_fetched) = (Inr (), upd_mmu f mprv_fetched)" for d f
    by (intro quiet_check) (simp add: fetched cong: quiet_cong)
  have "tlb_load_tag (mmu_of mprv_fetched) 1 = -1"
    by (simp add: fetched tlb_insert_def refill_tlb_def Let_def invalidate_other_def mprv_mmu sample_hart_def)
  moreover have "sif_addr_to_mem mprv_simif x = Some x" "\<not> sif_interested mprv_simif x y type" for x y type
    by (simp_all add: mprv_simif_def sample_simif_def)
  ultimately show ?thesis
    unfolding mprv_loaded_def load_aligned_def Let_def mprv_pages
    by (simp add: load_slow_path_def andthen_def tr do_refill_eq q TLB_CHECK_TRIGGERS_def
        width_bytes [OF _ length_read_mem])
qed

text \<open>
  C11. The shared data array breaks instruction fetch.  In this machine a fetch of \<open>0x1000\<close> fills
  the TLB with the untranslated page and a load of the same virtual page then refills the shared
  entry: the next fetch of \<open>0x1000\<close> hits with the translation of the load, although the walk for
  fetches still gives \<open>0x1000\<close>.
\<close>

theorem mprv_fetch_uses_data_translation:
  "fst (translate sample_build mprv_simif 0x1000 FETCH mprv_loaded) = Inr 0x1000 \<and>
   fst (translate_insn_addr sample_build mprv_simif 0x1000 mprv_world) = Inr \<lparr>host_offset = 0, target_offset = 0\<rparr> \<and>
   fst (translate_insn_addr sample_build mprv_simif 0x1000 mprv_loaded) =
     Inr \<lparr>host_offset = 0x40000000, target_offset = 0x40000000\<rparr>"
proof (intro conjI)
  have "same_arch mprv_world mprv_loaded" "w_mem mprv_loaded = w_mem mprv_world"
    by (simp_all add: mprv_loaded_eq mprv_fetched_def mprv_fetched_eq)
  from translate_same_arch [OF this] mprv_translations(1)
  show "fst (translate sample_build mprv_simif 0x1000 FETCH mprv_loaded) = Inr 0x1000" by simp
  show "fst (translate_insn_addr sample_build mprv_simif 0x1000 mprv_world) = Inr \<lparr>host_offset = 0, target_offset = 0\<rparr>"
    by (simp add: mprv_fetched_eq)
  have "tlb_insn_tag (mmu_of mprv_loaded) 1 = 1"
    by (simp add: mprv_loaded_eq mprv_fetched_def mprv_fetched_eq tlb_insert_def refill_tlb_def Let_def
        invalidate_other_def mprv_mmu mprv_pages sample_hart_def TLB_CHECK_TRIGGERS_def)
  then show "fst (translate_insn_addr sample_build mprv_simif 0x1000 mprv_loaded) =
     Inr \<lparr>host_offset = 0x40000000, target_offset = 0x40000000\<rparr>"
    unfolding translate_insn_addr_def Let_def mprv_pages
    by (simp add: mprv_loaded_eq data_after_insert mprv_pages)
qed

section \<open>Concrete runs\<close>

lemma sample_stable: "stable sample_build sample_simif (sample_world sample_hart)"
proof -
  have "coherent sample_build sample_simif (sample_world sample_hart)"
    by (simp add: coherent_def tlb.agrees_def tlb_lookup_def tag_of_def sample_world_def sample_hart_def
        split: access_type.splits)
  then show ?thesis
    by (simp add: stable_def one_mode_def xlen_ok_def sample_simif_ok sample_build_def quiet_def watches_def
        sample_world_def sample_hart_def state_reset_def zero_mcontrol_def num_triggers_def list_all_iff
        access_mode_def spike_consts get_field_def)
qed

lemma bare_machine_mode:
  assumes "p_state (w_hart w) = state_reset 0" "p_max_xlen (w_hart w) = 64" "p_xlen (w_hart w) = 64"
  shows "translate cfg sif a type w = (Inr a, w)"
proof -
  have "access_mode type (state_reset 0) = PRV_M"
    by (simp add: access_mode_def state_reset_def zero_dcsr_def get_field_def)
  moreover have "a OR (a AND (PGSIZE - 1)) = a" by (rule bit_word_eqI) (auto simp: bit_simps)
  moreover have "a AND (shl 2 63 - 1) = a"
    by (rule bit_word_eqI) (use bit_xlen_mask [of 64] in \<open>auto simp: bit_and_iff\<close>)
  ultimately show ?thesis
    using assms by (simp add: translate_def andthen_def walk_def Let_def decode_vm_info_def bare_def)
qed

lemma sample_world_bare:
  "translate sample_build sif a type (sample_world sample_hart) = (Inr a, sample_world sample_hart)"
  by (rule bare_machine_mode) (simp_all add: sample_world_def sample_hart_def)

lemma sample_lookup [simp]:
  "sif_addr_to_mem sample_simif 0x1234 = Some 0x11234" "sif_addr_to_mem sample_simif 0x1233 = Some 0x11233"
  by (simp_all add: sample_simif_def vpn_of_def spike_consts)

lemma sample_no_dirty [simp]: "\<not> enable_dirty sample_build"
  by (simp add: sample_build_def)

lemma sample_load: "reference_load sample_build sample_simif False 1 0x1234 (sample_world sample_hart) = Inr 0x34"
  by (simp add: reference_load_def sample_world_bare) (simp add: sample_world_def read_mem_def extend_value_def)

lemma loads_through_tlb_witness:
  "\<exists>v w'. run_lookups (load_request sample_build sample_simif) [(False, 0, 0x1234)] (sample_world sample_hart) = Some ([v], w')
     \<and> v = Inr 0x34"
proof -
  from loads_through_tlb [OF sample_stable, of "[(False, 0, 0x1234)]"]
  obtain v w' where "run_lookups (load_request sample_build sample_simif) [(False, 0, 0x1234)] (sample_world sample_hart) = Some ([v], w')"
    "answers_load sample_build sample_simif (sample_world sample_hart) (False, 0, 0x1234) v"
    by (auto simp: list_all2_Cons1)
  then show ?thesis
    using sample_load by (auto simp: answers_load_def memory_backed_def sample_world_bare)
qed

lemma load_after_store_witness:
  "\<exists>w1 w2. store_aligned sample_build sample_simif 2 0x1234 0x8765 (sample_world sample_hart) = (Inr (), w1) \<and>
    load_aligned sample_build sample_simif True 2 0x1234 w1 = (Inr 0xffffffffffff8765, w2)"
proof -
  have bare: "translate sample_build sample_simif a type (put_bytes h bs (sample_world sample_hart)) =
      (Inr a, put_bytes h bs (sample_world sample_hart))" for a type h bs
    by (rule bare_machine_mode) (simp_all add: sample_world_def sample_hart_def)
  have "page_entry sample_build sample_simif (put_bytes 0x11234 (le_bytes 2 v) (sample_world sample_hart)) =
      page_entry sample_build sample_simif (sample_world sample_hart)" for v :: reg_t
    by (intro ext) (simp add: page_entry_def bare sample_world_bare)
  moreover have "page_entry sample_build sample_simif (sample_world sample_hart) LOAD 0x1234 \<noteq> None"
    by (simp add: page_entry_def sample_world_bare)
  ultimately have "\<exists>w1 w2. store_aligned sample_build sample_simif 2 0x1234 0x8765 (sample_world sample_hart) = (Inr (), w1) \<and>
    load_aligned sample_build sample_simif True 2 0x1234 w1 = (Inr (extend_value True 2 0x8765), w2)"
    by (intro load_after_store [OF sample_stable, of "0x1234" "0x1234" "0x11234"]) (simp_all add: sample_world_bare)
  moreover have "extend_value True 2 0x8765 = (0xffffffffffff8765 :: reg_t)" by (simp add: extend_value_def sext_xlen_def)
  ultimately show ?thesis by simp
qed

lemma misaligned_load_is_bytewise_witness:
  "fst (mmu_load sample_build sample_simif False 2 0x1233 (sample_world sample_hart)) = Inr 0x3433"
proof -
  have b0: "reference_load sample_build sample_simif False 1 0x1233 (sample_world sample_hart) = Inr 0x33"
    by (simp add: reference_load_def sample_world_bare) (simp add: sample_world_def read_mem_def extend_value_def)
  have up: "[0..<2] = [0, Suc 0]" by (simp add: upt_rec)
  have "reference_bytes sample_build sample_simif 0x1233 [0..<2] (sample_world sample_hart) = [Inr 0x33, Inr 0x34]"
    using b0 sample_load by (simp add: reference_bytes_def up)
  moreover have "misaligned 0x1233 2" by (simp add: misaligned_def)
  moreover have "list_all (\<lambda>j. memory_backed sample_build sample_simif (sample_world sample_hart) (0x1233 + of_nat j)) [0..<2]"
    by (simp add: up memory_backed_def sample_world_bare)
  ultimately show ?thesis
    using misaligned_load_is_bytewise [OF sample_stable, of "0x1233" 2 False]
    by (simp add: first_fault_def assemble_def extend_value_def sample_build_def)
qed

lemma reservation_same_physical_witness:
  "\<exists>w1. acquire_load_reservation sample_build sample_simif 0x1234 (sample_world sample_hart) = (Inr (), w1) \<and>
    fst (check_load_reservation sample_build sample_simif 0x1234 w1) = Inr True"
  using reservation_same_physical [of sample_build sample_simif "0x1234" "sample_world sample_hart" "0x1234" "0x1234" "0x1234"]
  by (auto simp: sample_world_bare)

lemma amo_throws_store_faults_witness:
  "\<exists>t. fst (mmu_amo sample_build sample_simif 4 0x1233 (\<lambda>x. x) (sample_world sample_hart)) = Inl (Throw_trap t) \<and>
     cause t \<in> {CAUSE_STORE_PAGE_FAULT, CAUSE_STORE_ACCESS, CAUSE_MISALIGNED_STORE}"
proof -
  have "fst (mmu_amo sample_build sample_simif 4 0x1233 (\<lambda>x. x) (sample_world sample_hart)) =
      Inl (Throw_trap (trap_store_address_misaligned 0x1233))"
    by (simp add: mmu_amo_def misaligned_def)
  from amo_throws_store_faults [OF this] this show ?thesis by blast
qed

end
