(* ===== verification/Execute.thy ===== *)
theory Execute
  imports MmuLaws
begin

text \<open>
  The fetch/decode/execute loop of a hart (\<open>riscv/execute.cc\<close>).  The bodies of the
  instructions (\<open>insns/*.h\<close>) are not part of the repository: the record \<open>isa\<close> holds what the
  function pointers of the decode table do, and the mnemonics that the disassembler finds.
  An instruction returns the next program counter, or one of the three serialisation values.

  The loops of the code are kept: the slow loop, one instruction per turn; the fast loop with
  its modified Duff's device; and the outer loop with its two exception handlers.  The inner
  loops retire at least one instruction per turn, so they recurse on the instructions left;
  the outer loop may repeat without retiring (serialisation, triggers) and has fuel.  The
  compile-time options for the commit log and the histogram are off.
\<close>

record 's isa =
  isa_exec :: "insn_func \<Rightarrow> insn_t \<Rightarrow> reg_t \<Rightarrow> 's world \<Rightarrow> reg_t result \<times> 's world"
  isa_name :: "insn_t \<Rightarrow> string"

record 's env =
  env_build :: build
  env_sif :: "'s simif"
  env_isa :: "'s isa"

definition update_tracked_insn_count :: "string \<Rightarrow> processor_t \<Rightarrow> processor_t" where
  "update_tracked_insn_count name p = p\<lparr>p_tracked_insn_count := (p_tracked_insn_count p)
     (name \<mapsto> (case p_tracked_insn_count p name of None \<Rightarrow> 0 | Some c \<Rightarrow> c) + 1)\<rparr>"

definition execute_insn :: "'s env \<Rightarrow> reg_t \<Rightarrow> insn_fetch \<Rightarrow> 's world \<Rightarrow> reg_t result \<times> 's world" where
  "execute_insn env a fetch w =
     andthen
       (\<lambda>w. if fetch_func fetch = illegal_instruction then (Inl (Throw_trap (trap_illegal_instruction 0)), w)
            else isa_exec (env_isa env) (fetch_func fetch) (fetch_insn fetch) a w)
       (\<lambda>npc w. (Inr npc,
          if p_track_insn (w_hart w)
          then upd_hart (update_tracked_insn_count (isa_name (env_isa env) (fetch_insn fetch))) w else w)) w"

definition slow_path :: "processor_t \<Rightarrow> bool" where
  "slow_path p \<longleftrightarrow> p_debug p \<or> single_step (p_state p) \<noteq> STEP_NONE \<or> truth (dcsr_cause (dcsr (p_state p)))"

abbreviation upd_st :: "(state_t \<Rightarrow> state_t) \<Rightarrow> 's world \<Rightarrow> 's world" where
  "upd_st f w \<equiv> upd_hart (upd_state f) w"

abbreviation st_of :: "'s world \<Rightarrow> state_t" where "st_of w \<equiv> p_state (w_hart w)"

text \<open>The local variables of \<open>step\<close> that its loops change.\<close>

record locals =
  l_pc :: reg_t
  l_instret :: nat
  l_n :: nat

text \<open>How a loop of \<open>step\<close> is left: to the accounting at its end, by an exception, or by \<open>return\<close>.\<close>

datatype leave = Leave | Raise exn | Return

type_synonym 's control = "leave \<times> locals \<times> 's world"

text \<open>
  \<open>advance_pc\<close>: \<open>Some\<close> leaves the enclosing loop (the macro's \<open>break\<close>, or its \<open>abort\<close>),
  \<open>None\<close> goes on.
\<close>

definition advance_pc :: "locals \<Rightarrow> 's world \<Rightarrow> leave option \<times> locals \<times> 's world" where
  "advance_pc l w =
     (let a = l_pc l in
      if invalid_pc a then
        if a = PC_SERIALIZE_BEFORE then
          (let w = upd_st (\<lambda>s. s\<lparr>serialized := True\<rparr>) w in (Some Leave, l\<lparr>l_pc := pc (st_of w)\<rparr>, w))
        else if a = PC_SERIALIZE_AFTER then
          (Some Leave, l\<lparr>l_instret := l_instret l + 1, l_pc := pc (st_of w)\<rparr>, w)
        else if a = PC_SERIALIZE_WFI then
          (Some Leave, l\<lparr>l_instret := l_instret l + 1, l_n := l_instret l + 1, l_pc := pc (st_of w)\<rparr>, w)
        else (Some (Raise Abort), l, w)
      else (None, l\<lparr>l_instret := l_instret l + 1\<rparr>, upd_st (\<lambda>s. s\<lparr>pc := a\<rparr>) w))"

section \<open>The slow loop\<close>

definition enter_debug :: "byte \<Rightarrow> 's world \<Rightarrow> 's world option" where
  "enter_debug c w = map_option (\<lambda>p. w\<lparr>w_hart := p\<rparr>) (enter_debug_mode c (w_hart w))"

definition DEBUG_END :: reg_t where [spike_consts]: "DEBUG_END = 0x1000 - 1"

text \<open>One turn; \<open>None\<close> continues the loop.\<close>

definition slow_turn :: "'s env \<Rightarrow> locals \<Rightarrow> 's world \<Rightarrow> leave option \<times> locals \<times> 's world" where
  "slow_turn env l w =
     (let stepped = (\<not> serialized (st_of w) \<and> single_step (st_of w) = STEP_STEPPED);
          w = (if stepped then upd_st (\<lambda>s. s\<lparr>single_step := STEP_NONE\<rparr>) w else w) in
      if stepped \<and> dcsr_cause (dcsr (st_of w)) = DCSR_CAUSE_NONE then
        (case enter_debug DCSR_CAUSE_STEP w of None \<Rightarrow> (Some (Raise Abort), l, w) | Some w \<Rightarrow> (Some Leave, l, w))
      else
        (let w = (if single_step (st_of w) = STEP_STEPPING
                  then upd_st (\<lambda>s. s\<lparr>single_step := STEP_STEPPED\<rparr>) w else w) in
         case andthen (load_insn (env_build env) (env_sif env) (l_pc l)) (execute_insn env (l_pc l)) w of
           (Inl e, w) \<Rightarrow> (Some (Raise e), l, w)
         | (Inr npc, w) \<Rightarrow>
             (case advance_pc (l\<lparr>l_pc := npc\<rparr>) w of
                (Some x, l, w) \<Rightarrow> (Some x, l, w)
              | (None, l, w) \<Rightarrow>
                  (if DEBUG_ROM_ENTRY \<le> pc (st_of w) \<and> pc (st_of w) < DEBUG_END then Some Return else None, l, w))))"

fun slow_loop :: "'s env \<Rightarrow> nat \<Rightarrow> locals \<Rightarrow> 's world \<Rightarrow> 's control" where
  "slow_loop env 0 l w = (Leave, l, w)"
| "slow_loop env (Suc k) l w =
     (case slow_turn env l w of
        (Some x, l, w) \<Rightarrow> (x, l, w)
      | (None, l, w) \<Rightarrow> slow_loop env k l w)"

section \<open>The fast loop\<close>

text \<open>
  The cases \<open>i, i + 1, ..., ICACHE_ENTRIES - 1\<close> of the switch that \<open>gen_icache\<close> writes, falling
  through: \<open>r\<close> is the number of cases left, \<open>j\<close> the index \<open>ic_entry\<close> points to.  The result is
  an exception, or none when the switch is left.
\<close>

fun duff :: "'s env \<Rightarrow> nat \<Rightarrow> nat \<Rightarrow> locals \<Rightarrow> 's world \<Rightarrow> exn option \<times> locals \<times> 's world" where
  "duff env 0 j l w = (None, l, w)"
| "duff env (Suc r) j l w =
     (case execute_insn env (l_pc l) (ic_data (icache (mmu_of w) j)) w of
        (Inl e, w) \<Rightarrow> (Some e, l, w)
      | (Inr npc, w) \<Rightarrow>
          (let l = l\<lparr>l_pc := npc\<rparr>; j = ic_next (icache (mmu_of w) j) in
           if r = 0 then (None, l, w)
           else if ic_tag (icache (mmu_of w) j) \<noteq> npc then (None, l, w)
           else if l_instret l + 1 = l_n l then (None, l, w)
           else duff env r j (l\<lparr>l_instret := l_instret l + 1\<rparr>) (upd_st (\<lambda>s. s\<lparr>pc := npc\<rparr>) w)))"

definition fast_turn :: "'s env \<Rightarrow> locals \<Rightarrow> 's world \<Rightarrow> leave option \<times> locals \<times> 's world" where
  "fast_turn env l w =
     (let idx = icache_index (l_pc l) in
      case access_icache (env_build env) (env_sif env) (l_pc l) w of
        (Inl e, w) \<Rightarrow> (Some (Raise e), l, w)
      | (Inr _, w) \<Rightarrow>
          (case duff env (ICACHE_ENTRIES - idx) idx l w of
             (Some e, l, w) \<Rightarrow> (Some (Raise e), l, w)
           | (None, l, w) \<Rightarrow> advance_pc l w))"

fun fast_loop :: "'s env \<Rightarrow> nat \<Rightarrow> locals \<Rightarrow> 's world \<Rightarrow> 's control" where
  "fast_loop env 0 l w = (Leave, l, w)"
| "fast_loop env (Suc k) l w =
     (if l_instret l < l_n l then
        (case fast_turn env l w of
           (Some x, l, w) \<Rightarrow> (x, l, w)
         | (None, l, w) \<Rightarrow> fast_loop env k l w)
      else (Leave, l, w))"

section \<open>The outer loop\<close>

definition try_block :: "'s env \<Rightarrow> locals \<Rightarrow> 's world \<Rightarrow> 's control" where
  "try_block env l w =
     (case take_pending_interrupt (w_hart w) of
        Inl e \<Rightarrow> (Raise e, l, w)
      | Inr _ \<Rightarrow>
          if slow_path (w_hart w) then slow_loop env (l_n l) l w else fast_loop env (l_n l) l w)"

definition w_take_trap :: "trap_t \<Rightarrow> reg_t \<Rightarrow> 's world \<Rightarrow> 's world option" where
  "w_take_trap t epc w = map_option (\<lambda>p. w\<lparr>w_hart := p\<rparr>) (take_trap t epc (w_hart w))"

text \<open>\<open>catch (trap_t& t)\<close>\<close>

definition catch_trap :: "trap_t \<Rightarrow> locals \<Rightarrow> 's world \<Rightarrow> 's control" where
  "catch_trap t l w =
     (case w_take_trap t (l_pc l) w of
        None \<Rightarrow> (Raise Abort, l, w)
      | Some w \<Rightarrow>
          (let l = l\<lparr>l_n := l_instret l\<rparr> in
           if single_step (st_of w) = STEP_STEPPED then
             (let w = upd_st (\<lambda>s. s\<lparr>single_step := STEP_NONE\<rparr>) w in
              case enter_debug DCSR_CAUSE_STEP w of None \<Rightarrow> (Raise Abort, l, w) | Some w \<Rightarrow> (Leave, l, w))
           else (Leave, l, w)))"

text \<open>
  \<open>catch (trigger_matched_t& t)\<close>: the restart of a memory instruction.  An exception of the
  restarted instruction leaves the handler, and the \<open>break\<close> of \<open>advance_pc\<close> leaves the outer
  loop, which is a return from \<open>step\<close>.
\<close>

definition restart :: "'s env \<Rightarrow> locals \<Rightarrow> 's world \<Rightarrow> leave option \<times> locals \<times> 's world" where
  "restart env l w =
     (if matched_trigger (mmu_of w) = None then (None, l, w)
      else
        (case andthen (load_insn (env_build env) (env_sif env) (l_pc l)) (execute_insn env (l_pc l)) w of
           (Inl e, w) \<Rightarrow> (Some (Raise e), l, w)
         | (Inr npc, w) \<Rightarrow>
             (case advance_pc (l\<lparr>l_pc := npc\<rparr>) w of
                (Some Leave, l, w) \<Rightarrow> (Some Return, l, w)
              | (Some x, l, w) \<Rightarrow> (Some x, l, w)
              | (None, l, w) \<Rightarrow> (None, l, upd_mmu (\<lambda>m. m\<lparr>matched_trigger := None\<rparr>) w))))"

definition catch_trigger :: "'s env \<Rightarrow> trigger_matched \<Rightarrow> locals \<Rightarrow> 's world \<Rightarrow> 's control" where
  "catch_trigger env t l w =
     (case restart env l w of
        (Some x, l, w) \<Rightarrow> (x, l, w)
      | (None, l, w) \<Rightarrow>
          (let action = mc_action (mcontrol (st_of w) ! tm_index t) in
           if action = MCONTROL_ACTION_DEBUG_MODE then
             (case enter_debug DCSR_CAUSE_HWBP w of None \<Rightarrow> (Raise Abort, l, w) | Some w \<Rightarrow> (Leave, l, w))
           else if action = MCONTROL_ACTION_DEBUG_EXCEPTION then
             (case w_take_trap (mem_trap_t CAUSE_BREAKPOINT (tm_address t)) (l_pc l) w of
                None \<Rightarrow> (Raise Abort, l, w) | Some w \<Rightarrow> (Leave, l, w))
           else (Raise Abort, l, w)))"

definition handle :: "'s env \<Rightarrow> 's control \<Rightarrow> 's control" where
  "handle env c =
     (case c of
        (Raise (Throw_trap t), l, w) \<Rightarrow> catch_trap t l w
      | (Raise (Throw_trigger t), l, w) \<Rightarrow> catch_trigger env t l w
      | _ \<Rightarrow> c)"

text \<open>
  The outer loop: \<open>None\<close> when the fuel runs out, otherwise the exception that escapes \<open>step\<close>,
  if any.  \<open>minstret\<close> counts modulo \<open>2^64\<close>.
\<close>

fun run_loop :: "'s env \<Rightarrow> nat \<Rightarrow> nat \<Rightarrow> 's world \<Rightarrow> (unit result \<times> 's world) option" where
  "run_loop env fuel 0 w = Some (Inr (), w)"
| "run_loop env 0 (Suc n) w = None"
| "run_loop env (Suc fuel) (Suc n) w =
     (case handle env (try_block env \<lparr>l_pc = pc (st_of w), l_instret = 0, l_n = Suc n\<rparr> w) of
        (Return, l, w) \<Rightarrow> Some (Inr (), w)
      | (Raise e, l, w) \<Rightarrow> Some (Inl e, w)
      | (Leave, l, w) \<Rightarrow>
          run_loop env fuel (l_n l - l_instret l)
            (upd_st (\<lambda>s. s\<lparr>minstret := minstret s + of_nat (l_instret l)\<rparr>) w))"

definition halt_requested :: "'s world \<Rightarrow> 's world option" where
  "halt_requested w =
     (if dcsr_cause (dcsr (st_of w)) = DCSR_CAUSE_NONE then
        if p_halt_request (w_hart w) then enter_debug DCSR_CAUSE_DEBUGINT w
        else if dcsr_halt (dcsr (st_of w)) then enter_debug DCSR_CAUSE_HALT w
        else Some w
      else Some w)"

definition proc_step :: "'s env \<Rightarrow> nat \<Rightarrow> nat \<Rightarrow> 's world \<Rightarrow> (unit result \<times> 's world) option" where
  "proc_step env fuel n w =
     (case halt_requested w of None \<Rightarrow> Some (Inl Abort, w) | Some w \<Rightarrow> run_loop env fuel n w)"

end
