(* ===== verification/StepLaws.thy ===== *)
theory StepLaws
  imports Execute
begin

text \<open>
  The execution loop does what a plain fetch-and-execute loop does.  The plain loop asks the
  instruction cache for the entry at the program counter before every instruction; the modified
  Duff's device follows the \<open>next\<close> pointers of the entries instead and skips the lookup, the
  test of the serialisation values and the test for the end of the quantum wherever it can.
  Further sections show how traps, halt requests and restarted triggers leave the loop.
\<close>

section \<open>The plain loop\<close>

definition plain_turn :: "'s env \<Rightarrow> locals \<Rightarrow> 's world \<Rightarrow> leave option \<times> locals \<times> 's world" where
  "plain_turn env l w =
     (case access_icache (env_build env) (env_sif env) (l_pc l) w of
        (Inl e, w) \<Rightarrow> (Some (Raise e), l, w)
      | (Inr entry, w) \<Rightarrow>
          (case execute_insn env (l_pc l) (ic_data entry) w of
             (Inl e, w) \<Rightarrow> (Some (Raise e), l, w)
           | (Inr npc, w) \<Rightarrow> advance_pc (l\<lparr>l_pc := npc\<rparr>) w))"

fun plain_loop :: "'s env \<Rightarrow> nat \<Rightarrow> locals \<Rightarrow> 's world \<Rightarrow> 's control" where
  "plain_loop env 0 l w = (Leave, l, w)"
| "plain_loop env (Suc k) l w =
     (case plain_turn env l w of
        (Some x, l, w) \<Rightarrow> (x, l, w)
      | (None, l, w) \<Rightarrow> plain_loop env k l w)"

text \<open>
  What makes the shortcut sound: an entry that is in use sits at the index of its tag, its tag
  is a real program counter, and no instruction breaks this or returns the tag of a flushed
  entry as its program counter.
\<close>

definition tags_ok :: "mmu_t \<Rightarrow> bool" where
  "tags_ok m \<longleftrightarrow> (\<forall>j. ic_tag (icache m j) = -1 \<or>
     icache_index (ic_tag (icache m j)) = j \<and> \<not> invalid_pc (ic_tag (icache m j)))"

definition keeps_tags :: "'s env \<Rightarrow> bool" where
  "keeps_tags env \<longleftrightarrow> (\<forall>a fetch w. tags_ok (mmu_of w) \<longrightarrow>
     (case execute_insn env a fetch w of (r, w') \<Rightarrow> tags_ok (mmu_of w') \<and> r \<noteq> Inr (-1)))"

lemma keeps_tagsD:
  assumes "keeps_tags env" "tags_ok (mmu_of w)" "execute_insn env a fetch w = (r, w')"
  shows "tags_ok (mmu_of w')" "r \<noteq> Inr (-1)"
  using assms unfolding keeps_tags_def by (auto dest!: spec [of _ a] spec [of _ fetch] spec [of _ w])

text \<open>A hit of the instruction cache changes nothing.\<close>

lemma icache_hit:
  "ic_tag (icache (mmu_of w) (icache_index a)) = a \<Longrightarrow>
   access_icache cfg sif a w = (Inr (icache (mmu_of w) (icache_index a)), w)"
  by (simp add: access_icache_def)

lemma tags_okD:
  assumes "tags_ok m" "ic_tag (icache m j) = a" "a \<noteq> -1"
  shows "icache_index a = j" "\<not> invalid_pc a"
  using assms unfolding tags_ok_def by auto

section \<open>Fetching keeps the instruction cache\<close>

definition keeps_icache :: "('s world \<Rightarrow> 'a result \<times> 's world) \<Rightarrow> bool" where
  "keeps_icache m \<longleftrightarrow> (\<forall>w. icache (mmu_of (snd (m w))) = icache (mmu_of w))"

lemma keeps_icacheD: "keeps_icache m \<Longrightarrow> m w = (r, w') \<Longrightarrow> icache (mmu_of w') = icache (mmu_of w)"
  unfolding keeps_icache_def by (metis snd_conv)

lemma keeps_icache_andthen [intro]:
  "keeps_icache m \<Longrightarrow> (\<And>a. keeps_icache (f a)) \<Longrightarrow> keeps_icache (andthen m f)"
  unfolding keeps_icache_def andthen_def by (auto split: prod.splits sum.splits) (metis snd_conv)+

lemma keeps_icache_return [intro]: "keeps_icache (\<lambda>w. (f w, w))"
  by (simp add: keeps_icache_def)

lemma keeps_icache_translate: "keeps_icache (translate cfg sif a type)"
  by (auto simp: keeps_icache_def translate_def andthen_def walk_def Let_def
      split: prod.splits sum.splits option.splits if_splits walk_result.splits)

lemma icache_insert [simp]: "icache (tlb_insert k a e m) = icache m"
  by (cases k) (simp_all add: tlb_insert_def refill_tlb_def Let_def)

lemma keeps_icache_fetch_slow:
  assumes "simif_ok sif"
  shows "keeps_icache (fetch_slow_path cfg sif a)"
proof -
  have "keeps_icache (\<lambda>w. case sif_addr_to_mem sif pa of
       Some host \<Rightarrow> (let (entry, w) = do_refill a pa host FETCH w in (Inr entry, w))
     | None \<Rightarrow>
         andthen (device_access (sif_mmio_load sif pa 2))
           (\<lambda>r w. case r of
              None \<Rightarrow> (Inl (Throw_trap (trap_instruction_access_fault a)), w)
            | Some bytes \<Rightarrow>
                (Inr \<lparr>host_offset = sif_fetch_temp sif - a, target_offset = pa - a\<rparr>,
                 w\<lparr>w_mem := write_mem (sif_fetch_temp sif) bytes (w_mem w)\<rparr>)) w)" for pa
    using simif_okD(2) [OF assms]
    by (auto simp: keeps_icache_def do_refill_eq device_access_def andthen_def split: option.splits prod.splits)
  then have "keeps_icache (\<lambda>w. fetch_slow_path cfg sif a w)"
    unfolding fetch_slow_path_def by (intro keeps_icache_andthen keeps_icache_translate)
  then show ?thesis by simp
qed

lemma keeps_icache_translate_insn:
  assumes "simif_ok sif"
  shows "keeps_icache (translate_insn_addr cfg sif a)"
  unfolding keeps_icache_def translate_insn_addr_def Let_def andthen_def
  using keeps_icacheD [OF keeps_icache_fetch_slow [OF assms]]
  by (auto split: prod.splits sum.splits option.splits if_splits)

lemma keeps_icache_fetch_rest:
  assumes "simif_ok sif"
  shows "keeps_icache (fetch_rest cfg sif a insn)"
proof -
  have parcel: "keeps_icache (fetch_parcel cfg sif sx x)" for sx x
  proof -
    have "keeps_icache (\<lambda>w. fetch_parcel cfg sif sx x w)"
      unfolding fetch_parcel_def by (intro keeps_icache_andthen keeps_icache_translate_insn [OF assms] keeps_icache_return)
    then show ?thesis by simp
  qed
  have "keeps_icache (\<lambda>w. fetch_rest cfg sif a insn w)"
  proof -
    let ?four = "andthen (fetch_parcel cfg sif True (a + 2)) (\<lambda>h w. (Inr (insn OR shl h 16), w))"
    let ?six = "andthen (fetch_parcel cfg sif True (a + 4))
          (\<lambda>h. andthen (fetch_parcel cfg sif False (a + 2)) (\<lambda>l w. (Inr (insn OR shl h 32 OR shl l 16), w)))"
    let ?eight = "andthen (fetch_parcel cfg sif True (a + 6))
          (\<lambda>h. andthen (fetch_parcel cfg sif False (a + 4))
             (\<lambda>l. andthen (fetch_parcel cfg sif False (a + 2))
                (\<lambda>k w. (Inr (insn OR shl h 48 OR shl l 32 OR shl k 16), w))))"
    have "keeps_icache ?four" "keeps_icache ?six" "keeps_icache ?eight"
      by (intro keeps_icache_andthen parcel keeps_icache_return)+
    then show ?thesis unfolding keeps_icache_def fetch_rest_def Let_def by auto
  qed
  then show ?thesis by simp
qed

lemma keeps_icache_read: "(\<And>v. keeps_icache (g v)) \<Longrightarrow> keeps_icache (\<lambda>w. g (h w) w)"
  by (simp add: keeps_icache_def)

lemma keeps_icache_refill:
  assumes "simif_ok sif"
  shows "keeps_icache (refill_icache cfg sif a)"
proof -
  have final: "keeps_icache (\<lambda>w. case decode_insn (p_xlen (w_hart w)) insn (p_decoder (w_hart w)) of
        None \<Rightarrow> (Inl Abort, w)
      | Some (f, d) \<Rightarrow>
          (let w = upd_hart (\<lambda>p. p\<lparr>p_decoder := d\<rparr>) w; len = insn_length insn; paddr = target_offset entry + a;
               ic = \<lparr>ic_tag = a, ic_next = icache_index (a + of_nat len), ic_data = \<lparr>fetch_func = f, fetch_insn = insn\<rparr>\<rparr>
           in if sif_interested sif paddr (paddr + 1) FETCH
              then (Inr (ic\<lparr>ic_tag := -1\<rparr>), sif_trace sif paddr len FETCH w) else (Inr ic, w)))" for entry insn
    by (auto simp: keeps_icache_def Let_def simif_okD(4) [OF assms] upd_hart_def split: option.splits prod.splits)
  have "keeps_icache (\<lambda>w. refill_icache cfg sif a w)"
    unfolding refill_icache_def
    by (intro keeps_icache_andthen keeps_icache_translate_insn [OF assms]
        keeps_icache_read [where g = "\<lambda>v. andthen (fetch_rest cfg sif a v) f" for f]
        keeps_icache_fetch_rest [OF assms] final)
  then show ?thesis by simp
qed

lemma refill_icache_entry:
  assumes "simif_ok sif" "refill_icache cfg sif a w = (r, w')"
  shows "icache (mmu_of w') = icache (mmu_of w)" "r = Inr e \<Longrightarrow> ic_tag e = a \<or> ic_tag e = -1"
proof -
  show "icache (mmu_of w') = icache (mmu_of w)"
    by (rule keeps_icacheD [OF keeps_icache_refill [OF assms(1)] assms(2)])
  show "r = Inr e \<Longrightarrow> ic_tag e = a \<or> ic_tag e = -1"
    using assms(2) by (auto simp: refill_icache_def andthen_def Let_def
        split: prod.splits sum.splits option.splits if_splits)
qed

lemma access_icache_ok:
  assumes "simif_ok sif" "tags_ok (mmu_of w)" "\<not> invalid_pc a" "access_icache cfg sif a w = (r, w')"
  shows "tags_ok (mmu_of w')" "r = Inr e \<Longrightarrow> e = icache (mmu_of w') (icache_index a)"
proof -
  have "tags_ok (mmu_of w') \<and> (\<forall>e. r = Inr e \<longrightarrow> e = icache (mmu_of w') (icache_index a))"
  proof (cases "ic_tag (icache (mmu_of w) (icache_index a)) = a")
    case True
    then show ?thesis using icache_hit [OF True, of cfg sif] assms(2,4) by auto
  next
    case False
    obtain q u where q: "refill_icache cfg sif a w = (q, u)" by (cases "refill_icache cfg sif a w")
    note keep = refill_icache_entry [OF assms(1) q]
    show ?thesis
      using False assms(2-4) q keep
      by (cases q) (auto simp: access_icache_def andthen_def tags_ok_def split: if_splits)
  qed
  then show "tags_ok (mmu_of w')" "r = Inr e \<Longrightarrow> e = icache (mmu_of w') (icache_index a)" by auto
qed

section \<open>The modified Duff's device is the plain loop\<close>

text \<open>The rest of a turn once its entry is known, and the rest of the loop after a turn.\<close>

definition run_entry :: "'s env \<Rightarrow> insn_fetch \<Rightarrow> locals \<Rightarrow> 's world \<Rightarrow> leave option \<times> locals \<times> 's world" where
  "run_entry env fetch l w =
     (case execute_insn env (l_pc l) fetch w of
        (Inl e, w) \<Rightarrow> (Some (Raise e), l, w)
      | (Inr npc, w) \<Rightarrow> advance_pc (l\<lparr>l_pc := npc\<rparr>) w)"

definition continue_plain :: "'s env \<Rightarrow> leave option \<times> locals \<times> 's world \<Rightarrow> 's control" where
  "continue_plain env t =
     (case t of (Some x, l, w) \<Rightarrow> (x, l, w) | (None, l, w) \<Rightarrow> plain_loop env (l_n l - l_instret l) l w)"

definition after_switch :: "exn option \<times> locals \<times> 's world \<Rightarrow> leave option \<times> locals \<times> 's world" where
  "after_switch d = (case d of (Some e, l, w) \<Rightarrow> (Some (Raise e), l, w) | (None, l, w) \<Rightarrow> advance_pc l w)"

lemma advance_pc_valid:
  "\<not> invalid_pc (l_pc l) \<Longrightarrow>
   advance_pc l w = (None, l\<lparr>l_instret := l_instret l + 1\<rparr>, upd_st (\<lambda>s. s\<lparr>pc := l_pc l\<rparr>) w)"
  by (simp add: advance_pc_def Let_def)

lemma advance_pc_None:
  assumes "advance_pc l w = (None, l', w')"
  shows "\<not> invalid_pc (l_pc l) \<and> l' = l\<lparr>l_instret := l_instret l + 1\<rparr> \<and> w' = upd_st (\<lambda>s. s\<lparr>pc := l_pc l\<rparr>) w"
  using assms by (auto simp: advance_pc_def Let_def split: if_splits)

lemma upd_st_mmu [simp]: "mmu_of (upd_st f w) = mmu_of w"
  by (simp add: upd_hart_def upd_state_def)

lemma plain_turn_hit:
  assumes "ic_tag (icache (mmu_of w) (icache_index (l_pc l))) = l_pc l"
  shows "plain_turn env l w = run_entry env (ic_data (icache (mmu_of w) (icache_index (l_pc l)))) l w"
  by (simp add: plain_turn_def icache_hit [OF assms] run_entry_def)

lemma duff_is_plain:
  assumes "keeps_tags env" "tags_ok (mmu_of w)" "l_instret l < l_n l"
  shows "continue_plain env (after_switch (duff env (Suc r) j l w)) =
    continue_plain env (run_entry env (ic_data (icache (mmu_of w) j)) l w)"
  using assms(2,3)
proof (induction r arbitrary: j l w)
  case 0
  then show ?case
    by (auto simp: after_switch_def run_entry_def Let_def split: prod.splits sum.splits)
next
  case (Suc r)
  obtain q w1 where ex: "execute_insn env (l_pc l) (ic_data (icache (mmu_of w) j)) w = (q, w1)"
    by (cases "execute_insn env (l_pc l) (ic_data (icache (mmu_of w) j)) w")
  show ?case
  proof (cases q)
    case (Inl e)
    then show ?thesis using ex by (simp add: after_switch_def run_entry_def)
  next
    case (Inr npc)
    define j' where "j' = ic_next (icache (mmu_of w1) j)"
    define l1 where "l1 = l\<lparr>l_pc := npc\<rparr>"
    have run: "run_entry env (ic_data (icache (mmu_of w) j)) l w = advance_pc l1 w1"
      using ex Inr by (simp add: run_entry_def l1_def)
    show ?thesis
    proof (cases "ic_tag (icache (mmu_of w1) j') \<noteq> npc \<or> l_instret l + 1 = l_n l")
      case True
      then have "duff env (Suc (Suc r)) j l w = (None, l1, w1)"
        using ex Inr by (auto simp: Let_def j'_def l1_def)
      then show ?thesis by (simp add: after_switch_def run)
    next
      case False
      note tags = keeps_tagsD [OF assms(1) Suc.prems(1) ex]
      have tag: "ic_tag (icache (mmu_of w1) j') = npc" and more: "l_instret l + 1 < l_n l"
        using False Suc.prems(2) by auto
      have "npc \<noteq> -1" using tags(2) Inr by simp
      note hit = tags_okD [OF tags(1) tag this]
      define l2 where "l2 = l1\<lparr>l_instret := l_instret l + 1\<rparr>"
      define w2 where "w2 = upd_st (\<lambda>s. s\<lparr>pc := npc\<rparr>) w1"
      have l2: "l_pc l2 = npc" "l_instret l2 = l_instret l + 1" "l_n l2 = l_n l"
        by (simp_all add: l2_def l1_def)
      have adv: "advance_pc l1 w1 = (None, l2, w2)"
        using advance_pc_valid [of l1 w1] hit(2) by (simp add: l1_def l2_def w2_def)
      have left: "l_n l2 - l_instret l2 = Suc (l_n l - l_instret l - 2)" using more l2 by simp
      have "duff env (Suc (Suc r)) j l w = duff env (Suc r) j' l2 w2"
        using ex Inr tag more by (simp add: Let_def j'_def l1_def l2_def w2_def)
      moreover have "continue_plain env (after_switch (duff env (Suc r) j' l2 w2)) =
          continue_plain env (run_entry env (ic_data (icache (mmu_of w2) j')) l2 w2)"
        using tags(1) more by (intro Suc.IH) (simp_all add: w2_def l2)
      moreover have "continue_plain env (advance_pc l1 w1) = continue_plain env (plain_turn env l2 w2)"
      proof -
        have "plain_loop env (Suc k) l2 w2 = (case plain_turn env l2 w2 of (Some x, l, w) \<Rightarrow> (x, l, w)
            | (None, l, w) \<Rightarrow> plain_loop env k l w)" for k by simp
        moreover have "l_n l' - l_instret l' = l_n l - l_instret l - 2"
          if "plain_turn env l2 w2 = (None, l', w')" for l' w'
          using that l2 more advance_pc_None
          by (fastforce simp: plain_turn_def split: prod.splits sum.splits)
        ultimately show ?thesis
          unfolding adv continue_plain_def by (auto simp: left split: prod.splits option.splits)
      qed
      moreover have "plain_turn env l2 w2 = run_entry env (ic_data (icache (mmu_of w2) j')) l2 w2"
        using plain_turn_hit [of w2 l2 env] tag hit(1) by (simp add: w2_def l2)
      ultimately show ?thesis by (simp add: run)
    qed
  qed
qed

lemma after_duff:
  assumes "keeps_tags env"
  shows "tags_ok (mmu_of w) \<Longrightarrow> after_switch (duff env (Suc r) j l w) = (None, l', w') \<Longrightarrow>
    tags_ok (mmu_of w') \<and> \<not> invalid_pc (l_pc l') \<and> l_n l' = l_n l \<and> l_instret l < l_instret l'"
proof (induction r arbitrary: j l w)
  case 0
  then show ?case
    using keeps_tagsD(1) [OF assms 0(1)]
    by (auto simp: after_switch_def Let_def dest!: advance_pc_None split: prod.splits sum.splits)
next
  case (Suc r)
  obtain q w1 where ex: "execute_insn env (l_pc l) (ic_data (icache (mmu_of w) j)) w = (q, w1)"
    by (cases "execute_insn env (l_pc l) (ic_data (icache (mmu_of w) j)) w")
  note tags = keeps_tagsD(1) [OF assms Suc.prems(1) ex]
  show ?case
  proof (cases q)
    case (Inl e)
    then show ?thesis using ex Suc.prems(2) by (simp add: after_switch_def)
  next
    case (Inr npc)
    show ?thesis
    proof (cases "ic_tag (icache (mmu_of w1) (ic_next (icache (mmu_of w1) j))) \<noteq> npc \<or> l_instret l + 1 = l_n l")
      case True
      then have "duff env (Suc (Suc r)) j l w = (None, l\<lparr>l_pc := npc\<rparr>, w1)"
        using ex Inr by (auto simp: Let_def)
      then show ?thesis
        using tags Suc.prems(2) by (auto simp: after_switch_def simp del: duff.simps dest!: advance_pc_None)
    next
      case False
      then have "after_switch (duff env (Suc r) (ic_next (icache (mmu_of w1) j))
          (l\<lparr>l_pc := npc, l_instret := l_instret l + 1\<rparr>) (upd_st (\<lambda>s. s\<lparr>pc := npc\<rparr>) w1)) = (None, l', w')"
        using ex Inr Suc.prems(2) by (simp add: Let_def)
      from Suc.IH [OF _ this] show ?thesis using tags by simp
    qed
  qed
qed

lemma icache_index_less: "icache_index a < ICACHE_ENTRIES"
  by (simp add: icache_index_def ICACHE_ENTRIES_def)

lemma fast_loop_is_plain:
  assumes "keeps_tags env" "simif_ok (env_sif env)"
  shows "tags_ok (mmu_of w) \<Longrightarrow> \<not> invalid_pc (l_pc l) \<Longrightarrow> l_n l - l_instret l \<le> k \<Longrightarrow>
    fast_loop env k l w = plain_loop env (l_n l - l_instret l) l w"
proof (induction k arbitrary: l w)
  case (Suc k)
  show ?case
  proof (cases "l_instret l < l_n l")
    case more: True
    then obtain m where left: "l_n l - l_instret l = Suc m" by (metis Suc_diff_Suc)
    obtain q w1 where acc: "access_icache (env_build env) (env_sif env) (l_pc l) w = (q, w1)"
      by (cases "access_icache (env_build env) (env_sif env) (l_pc l) w")
    note ok = access_icache_ok [OF assms(2) Suc.prems(1,2) acc]
    show ?thesis
    proof (cases q)
      case (Inl e)
      then show ?thesis using acc more by (simp add: fast_turn_def plain_turn_def left)
    next
      case (Inr entry)
      let ?j = "icache_index (l_pc l)"
      obtain r where r: "ICACHE_ENTRIES - ?j = Suc r" using icache_index_less by (metis Suc_diff_Suc)
      have turn: "fast_turn env l w = after_switch (duff env (Suc r) ?j l w1)"
        using acc Inr by (simp add: fast_turn_def r after_switch_def Let_def del: duff.simps split: prod.splits option.splits)
      have "fast_loop env (Suc k) l w = continue_plain env (fast_turn env l w)"
      proof (cases "fast_turn env l w")
        case (fields x l' w')
        show ?thesis
        proof (cases x)
          case None
          from after_duff [OF assms(1) ok(1)] turn fields None
          have "tags_ok (mmu_of w') \<and> \<not> invalid_pc (l_pc l') \<and> l_n l' = l_n l \<and> l_instret l < l_instret l'"
            by metis
          then have "fast_loop env k l' w' = plain_loop env (l_n l' - l_instret l') l' w'"
            using Suc.prems(3) by (intro Suc.IH) auto
          then show ?thesis using more fields None by (simp add: continue_plain_def)
        qed (use more fields in \<open>simp add: continue_plain_def\<close>)
      qed
      also have "\<dots> = continue_plain env (run_entry env (ic_data entry) l w1)"
        unfolding turn duff_is_plain [OF assms(1) ok(1) more] ok(2) [OF Inr] ..
      also have "\<dots> = continue_plain env (plain_turn env l w)"
        using acc Inr by (simp add: plain_turn_def run_entry_def)
      also have "\<dots> = plain_loop env (Suc m) l w"
      proof -
        have "l_n l' - l_instret l' = m" if "plain_turn env l w = (None, l', w')" for l' w'
          using that left advance_pc_None by (fastforce simp: plain_turn_def split: prod.splits sum.splits)
        then show ?thesis by (auto simp: continue_plain_def split: prod.splits option.splits)
      qed
      finally show ?thesis by (simp add: left)
    qed
  qed simp
qed simp

text \<open>
  C13. The modified Duff's device of the fast path is the plain loop: for any quantum, and from
  any state in which the entries of the instruction cache sit at the index of their tag, the
  fast loop ends in the same way, with the same program counter, the same number of retired
  instructions and the same machine as fetching every instruction through the cache and testing
  for serialisation after each, provided no instruction returns the tag of a flushed entry.
\<close>

theorem fast_path_is_plain_loop:
  assumes "keeps_tags env" "simif_ok (env_sif env)" "tags_ok (mmu_of w)" "\<not> invalid_pc (l_pc l)" "l_instret l = 0"
  shows "fast_loop env (l_n l) l w = plain_loop env (l_n l) l w"
  using fast_loop_is_plain [OF assms(1-4), of "l_n l"] assms(5) by simp

text \<open>An instruction set of one instruction, which jumps to \<open>0x1000\<close>.\<close>

definition jump_isa :: "unit isa" where
  "jump_isa = \<lparr>isa_exec = (\<lambda>f i a w. (Inr 0x1000, w)), isa_name = (\<lambda>i. ''j'')\<rparr>"

definition sample_env :: "unit env" where
  "sample_env = \<lparr>env_build = sample_build, env_sif = sample_simif, env_isa = jump_isa\<rparr>"

lemma sample_keeps_tags: "keeps_tags sample_env"
  by (auto simp: keeps_tags_def execute_insn_def andthen_def sample_env_def jump_isa_def upd_hart_def
      update_tracked_insn_count_def split: if_splits)

lemma fast_path_is_plain_loop_witness:
  "fast_loop sample_env 3 \<lparr>l_pc = 0x1000, l_instret = 0, l_n = 3\<rparr> (sample_world sample_hart) =
   plain_loop sample_env 3 \<lparr>l_pc = 0x1000, l_instret = 0, l_n = 3\<rparr> (sample_world sample_hart)"
proof -
  have "simif_ok (env_sif sample_env)" by (simp add: sample_env_def sample_simif_ok)
  moreover have "tags_ok (mmu_of (sample_world sample_hart))"
    by (simp add: tags_ok_def sample_world_def sample_hart_def)
  ultimately show ?thesis
    using fast_path_is_plain_loop [OF sample_keeps_tags, of "sample_world sample_hart" "\<lparr>l_pc = 0x1000, l_instret = 0, l_n = 3\<rparr>"]
    by (simp add: invalid_pc_def)
qed

end
