(* ===== verification/Opcodes.thy ===== *)
theory Opcodes
  imports InsnTable
begin

text \<open>
  The instruction encoders of \<open>riscv/opcodes.h\<close>, which the debug module uses to write the
  programs of abstract commands, and their inverse: the fields that \<open>decode.h\<close> extracts from an
  encoded word are the operands, and the word is accepted by the encoding of its mnemonic.
  \<open>bits\<close> and \<open>bit\<close> are \<open>bits_of\<close> and \<open>bit_of\<close> here; 16-bit offsets are promoted to
  32 bits as in C.
\<close>

section \<open>Encoders\<close>

definition ZERO :: u32 where "ZERO = 0"
definition T0 :: u32 where "T0 = 5"
definition S0 :: u32 where "S0 = 8"
definition S1 :: u32 where "S1 = 9"
definition bits_of :: "u32 \<Rightarrow> nat \<Rightarrow> nat \<Rightarrow> u32" where
  "bits_of val hi lo = shr val lo AND (shl 1 (hi + 1 - lo) - 1)"

definition bit_of :: "u32 \<Rightarrow> nat \<Rightarrow> u32" where
  "bit_of val b = shr val b AND 1"

definition jal :: "u32 \<Rightarrow> u32 \<Rightarrow> u32" where
  "jal d imm = shl (bit_of imm 20) 31 OR shl (bits_of imm 10 1) 21 OR shl (bit_of imm 11) 20 OR
     shl (bits_of imm 19 12) 12 OR shl d 7 OR ucast MATCH_JAL"

definition csrsi :: "u32 \<Rightarrow> 16 word \<Rightarrow> u32" where
  "csrsi csr_no imm = shl csr_no 20 OR shl (bits_of (ucast imm) 4 0) 15 OR ucast MATCH_CSRRSI"

definition sw :: "u32 \<Rightarrow> u32 \<Rightarrow> 16 word \<Rightarrow> u32" where
  "sw src base offset = shl (bits_of (ucast offset) 11 5) 25 OR shl src 20 OR shl base 15 OR
     shl (bits_of (ucast offset) 4 0) 7 OR ucast MATCH_SW"

definition sd :: "u32 \<Rightarrow> u32 \<Rightarrow> 16 word \<Rightarrow> u32" where
  "sd src base offset = shl (bits_of (ucast offset) 11 5) 25 OR shl src 20 OR shl base 15 OR
     shl (bits_of (ucast offset) 4 0) 7 OR ucast MATCH_SD"

definition sh :: "u32 \<Rightarrow> u32 \<Rightarrow> 16 word \<Rightarrow> u32" where
  "sh src base offset = shl (bits_of (ucast offset) 11 5) 25 OR shl src 20 OR shl base 15 OR
     shl (bits_of (ucast offset) 4 0) 7 OR ucast MATCH_SH"

definition sb :: "u32 \<Rightarrow> u32 \<Rightarrow> 16 word \<Rightarrow> u32" where
  "sb src base offset = shl (bits_of (ucast offset) 11 5) 25 OR shl src 20 OR shl base 15 OR
     shl (bits_of (ucast offset) 4 0) 7 OR ucast MATCH_SB"

definition ld :: "u32 \<Rightarrow> u32 \<Rightarrow> 16 word \<Rightarrow> u32" where
  "ld d base offset = shl (bits_of (ucast offset) 11 0) 20 OR shl base 15 OR
     shl (bits_of d 4 0) 7 OR ucast MATCH_LD"

definition lw :: "u32 \<Rightarrow> u32 \<Rightarrow> 16 word \<Rightarrow> u32" where
  "lw d base offset = shl (bits_of (ucast offset) 11 0) 20 OR shl base 15 OR
     shl (bits_of d 4 0) 7 OR ucast MATCH_LW"

definition lh :: "u32 \<Rightarrow> u32 \<Rightarrow> 16 word \<Rightarrow> u32" where
  "lh d base offset = shl (bits_of (ucast offset) 11 0) 20 OR shl base 15 OR
     shl (bits_of d 4 0) 7 OR ucast MATCH_LH"

definition lb :: "u32 \<Rightarrow> u32 \<Rightarrow> 16 word \<Rightarrow> u32" where
  "lb d base offset = shl (bits_of (ucast offset) 11 0) 20 OR shl base 15 OR
     shl (bits_of d 4 0) 7 OR ucast MATCH_LB"

definition csrw :: "u32 \<Rightarrow> u32 \<Rightarrow> u32" where
  "csrw source csr_no = shl csr_no 20 OR shl source 15 OR ucast MATCH_CSRRW"

definition addi :: "u32 \<Rightarrow> u32 \<Rightarrow> 16 word \<Rightarrow> u32" where
  "addi dest src imm = shl (bits_of (ucast imm) 11 0) 20 OR shl src 15 OR shl dest 7 OR
     ucast MATCH_ADDI"

definition csrr :: "u32 \<Rightarrow> u32 \<Rightarrow> u32" where
  "csrr d csr_no = shl csr_no 20 OR shl d 7 OR ucast MATCH_CSRRS"

definition fsw :: "u32 \<Rightarrow> u32 \<Rightarrow> 16 word \<Rightarrow> u32" where
  "fsw src base offset = shl (bits_of (ucast offset) 11 5) 25 OR shl (bits_of src 4 0) 20 OR
     shl base 15 OR shl (bits_of (ucast offset) 4 0) 7 OR ucast MATCH_FSW"

definition fsd :: "u32 \<Rightarrow> u32 \<Rightarrow> 16 word \<Rightarrow> u32" where
  "fsd src base offset = shl (bits_of (ucast offset) 11 5) 25 OR shl (bits_of src 4 0) 20 OR
     shl base 15 OR shl (bits_of (ucast offset) 4 0) 7 OR ucast MATCH_FSD"

definition flw :: "u32 \<Rightarrow> u32 \<Rightarrow> 16 word \<Rightarrow> u32" where
  "flw dest base offset = shl (bits_of (ucast offset) 11 0) 20 OR shl base 15 OR
     shl (bits_of dest 4 0) 7 OR ucast MATCH_FLW"

definition fld :: "u32 \<Rightarrow> u32 \<Rightarrow> 16 word \<Rightarrow> u32" where
  "fld dest base offset = shl (bits_of (ucast offset) 11 0) 20 OR shl base 15 OR
     shl (bits_of dest 4 0) 7 OR ucast MATCH_FLD"

definition ebreak :: "u32" where
  "ebreak = ucast MATCH_EBREAK"

definition ebreak_c :: "u32" where
  "ebreak_c = ucast MATCH_C_EBREAK"

definition dret :: "u32" where
  "dret = ucast MATCH_DRET"

definition fence_i :: "u32" where
  "fence_i = ucast MATCH_FENCE_I"

definition xori :: "u32 \<Rightarrow> u32 \<Rightarrow> 16 word \<Rightarrow> u32" where
  "xori dest src imm = shl (bits_of (ucast imm) 11 0) 20 OR shl src 15 OR shl dest 7 OR
     ucast MATCH_XORI"

definition srli :: "u32 \<Rightarrow> u32 \<Rightarrow> 8 word \<Rightarrow> u32" where
  "srli dest src amount = shl (bits_of (ucast amount) 4 0) 20 OR shl src 15 OR shl dest 7 OR
     ucast MATCH_SRLI"


section \<open>Decoding what was encoded\<close>

lemma bit_bits_of [bit_simps]: "bit (bits_of v hi lo) i \<longleftrightarrow> i < hi + 1 - lo \<and> bit v (lo + i)"
  unfolding bits_of_def shl_1_minus_1 by (auto simp: bit_simps dest: bit_imp_le_length)

lemma bit_bit_of [bit_simps]: "bit (bit_of v b) i \<longleftrightarrow> i = 0 \<and> bit v b"
  by (auto simp: bit_of_def bit_simps)

text \<open>An opcode with its \<open>funct3\<close> leaves the operand fields clear.\<close>

definition opcode_only :: "insn_t \<Rightarrow> bool" where
  "opcode_only m \<longleftrightarrow> m AND 0x707f = m"

lemma funct_mask: "bit (0x707f :: insn_t) i \<longleftrightarrow> i < 7 \<or> 12 \<le> i \<and> i < 15"
proof -
  have "(0x707f :: insn_t) = mask 7 OR push_bit 12 (mask 3)" by (simp add: mask_eq_exp_minus_1)
  then have "bit (0x707f :: insn_t) i = bit (mask 7 OR push_bit 12 (mask 3) :: insn_t) i" by (rule arg_cong)
  also have "\<dots> \<longleftrightarrow> i < 7 \<or> 12 \<le> i \<and> i < 15" by (auto simp: bit_simps)
  finally show ?thesis .
qed

lemma opcode_only_bit: "opcode_only m \<Longrightarrow> bit m i \<Longrightarrow> i < 7 \<or> 12 \<le> i \<and> i < 15"
  unfolding opcode_only_def using funct_mask [of i] by (metis bit_and_iff)

lemma small_bit:
  fixes x :: u32
  assumes "x < 2 ^ n" "n < 32" "bit x i"
  shows "i < n"
proof -
  have "unat (word_of_nat (2 ^ n) :: u32) = 2 ^ n"
    using take_bit_nat_eq_self [of "2 ^ n" 32] power_strict_increasing [OF assms(2), of "2 :: nat"]
    unfolding unsigned_of_nat by simp
  then have "unat x < 2 ^ n" using assms(1) by (simp add: word_less_nat_alt)
  then have "unat (take_bit n x) = unat x" by (simp add: unsigned_take_bit_eq take_bit_nat_eq_self)
  then have "take_bit n x = x" by (simp only: unsigned_word_eqI)
  with assms(3) show ?thesis by (metis bit_take_bit_iff)
qed

text \<open>A 32-bit instruction as \<open>refill_icache\<close> assembles it: sign-extended to 64 bits.\<close>

definition fetched :: "u32 \<Rightarrow> insn_t" where
  "fetched e = sext_xlen 32 (ucast e)"

lemma bit_fetched: "bit (fetched e) i \<longleftrightarrow> i < 64 \<and> bit e (if i < 32 then i else 31)"
  by (auto simp: fetched_def bit_sext_xlen bit_unsigned_iff)

lemma small_reg: "x < 32 \<Longrightarrow> bit x i \<Longrightarrow> i < 5" for x :: u32
  using small_bit [of x 5 i] by simp

text \<open>The words of the S format and of the I format.\<close>

definition s_word :: "u32 \<Rightarrow> u32 \<Rightarrow> 16 word \<Rightarrow> insn_t \<Rightarrow> u32" where
  "s_word src base offset m = shl (bits_of (ucast offset) 11 5) 25 OR shl src 20 OR shl base 15 OR
     shl (bits_of (ucast offset) 4 0) 7 OR ucast m"

definition i_word :: "u32 \<Rightarrow> u32 \<Rightarrow> 16 word \<Rightarrow> insn_t \<Rightarrow> u32" where
  "i_word dst base offset m = shl (bits_of (ucast offset) 11 0) 20 OR shl base 15 OR shl dst 7 OR ucast m"

lemma bit_s_word:
  assumes "src < 32" "base < 32" "opcode_only m"
  shows "bit (s_word src base offset m) i \<longleftrightarrow>
    (if i < 7 \<or> 12 \<le> i \<and> i < 15 then bit m i
     else if i < 12 then bit offset (i - 7)
     else if i < 20 then bit base (i - 15)
     else if i < 25 then bit src (i - 20)
     else i < 32 \<and> bit offset (i - 20))"
  unfolding s_word_def
  by (auto simp: bit_simps dest: bit_imp_le_length small_reg [OF assms(1)] small_reg [OF assms(2)]
      opcode_only_bit [OF assms(3)])

lemma bit_i_word:
  assumes "dst < 32" "base < 32" "opcode_only m"
  shows "bit (i_word dst base offset m) i \<longleftrightarrow>
    (if i < 7 \<or> 12 \<le> i \<and> i < 15 then bit m i
     else if i < 12 then bit dst (i - 7)
     else if i < 20 then bit base (i - 15)
     else i < 32 \<and> bit offset (i - 20))"
  unfolding i_word_def
  by (auto simp: bit_simps dest: bit_imp_le_length small_reg [OF assms(1)] small_reg [OF assms(2)]
      opcode_only_bit [OF assms(3)])

lemma s_word_fields:
  assumes "src < 32" "base < 32" "opcode_only m"
  shows "fetched (s_word src base offset m) AND 0x707f = m"
    and "rs1 (fetched (s_word src base offset m)) = ucast base"
    and "rs2 (fetched (s_word src base offset m)) = ucast src"
    and "s_imm (fetched (s_word src base offset m)) = sext_xlen 12 (ucast offset)"
proof -
  note b = bit_s_word [OF assms] bit_fetched
  note small = small_reg [OF assms(1)] small_reg [OF assms(2)] opcode_only_bit [OF assms(3)]
  show "fetched (s_word src base offset m) AND 0x707f = m"
    by (rule bit_word_eqI) (unfold bit_and_iff funct_mask b, auto dest: small)
  show "rs1 (fetched (s_word src base offset m)) = ucast base"
    by (rule bit_word_eqI) (auto simp: rs1_def bit_insn_x b bit_unsigned_iff dest: small)
  show "rs2 (fetched (s_word src base offset m)) = ucast src"
    by (rule bit_word_eqI) (auto simp: rs2_def bit_insn_x b bit_unsigned_iff dest: small)
  show "s_imm (fetched (s_word src base offset m)) = sext_xlen 12 (ucast offset)"
    by (rule bit_word_eqI) (auto simp: bit_s_imm bit_sext_xlen b bit_unsigned_iff)
qed

lemma i_word_fields:
  assumes "dst < 32" "base < 32" "opcode_only m"
  shows "fetched (i_word dst base offset m) AND 0x707f = m"
    and "rd (fetched (i_word dst base offset m)) = ucast dst"
    and "rs1 (fetched (i_word dst base offset m)) = ucast base"
    and "i_imm (fetched (i_word dst base offset m)) = sext_xlen 12 (ucast offset)"
proof -
  note b = bit_i_word [OF assms] bit_fetched
  note small = small_reg [OF assms(1)] small_reg [OF assms(2)] opcode_only_bit [OF assms(3)]
  show "fetched (i_word dst base offset m) AND 0x707f = m"
    by (rule bit_word_eqI) (unfold bit_and_iff funct_mask b, auto dest: small)
  show "rd (fetched (i_word dst base offset m)) = ucast dst"
    by (rule bit_word_eqI) (auto simp: rd_def bit_insn_x b bit_unsigned_iff dest: small)
  show "rs1 (fetched (i_word dst base offset m)) = ucast base"
    by (rule bit_word_eqI) (auto simp: rs1_def bit_insn_x b bit_unsigned_iff dest: small)
  show "i_imm (fetched (i_word dst base offset m)) = sext_xlen 12 (ucast offset)"
    by (rule bit_word_eqI) (auto simp: bit_i_imm bit_sext_xlen b bit_unsigned_iff)
qed

lemma opcode_only_consts:
  "opcode_only MATCH_SW" "opcode_only MATCH_SD" "opcode_only MATCH_SH" "opcode_only MATCH_SB"
  "opcode_only MATCH_FSW" "opcode_only MATCH_FSD" "opcode_only MATCH_LD" "opcode_only MATCH_LW"
  "opcode_only MATCH_LH" "opcode_only MATCH_LB" "opcode_only MATCH_FLW" "opcode_only MATCH_FLD"
  "opcode_only MATCH_ADDI" "opcode_only MATCH_XORI" "opcode_only MATCH_CSRRW" "opcode_only MATCH_CSRRS"
  by (simp_all add: opcode_only_def insn_consts)

lemma masks_are_funct:
  "MASK_SW = 0x707f" "MASK_SD = 0x707f" "MASK_SH = 0x707f" "MASK_SB = 0x707f"
  "MASK_FSW = 0x707f" "MASK_FSD = 0x707f" "MASK_LD = 0x707f" "MASK_LW = 0x707f"
  "MASK_LH = 0x707f" "MASK_LB = 0x707f" "MASK_FLW = 0x707f" "MASK_FLD = 0x707f"
  "MASK_ADDI = 0x707f" "MASK_XORI = 0x707f" "MASK_CSRRW = 0x707f" "MASK_CSRRS = 0x707f"
  by (simp_all add: insn_consts)

lemma low_reg: "x < 32 \<Longrightarrow> bits_of x 4 0 = x"
  by (rule bit_word_eqI) (auto simp: bit_bits_of dest: small_reg)

lemma store_words:
  assumes "src < 32"
  shows "sw src base offset = s_word src base offset MATCH_SW" "sd src base offset = s_word src base offset MATCH_SD"
    "sh src base offset = s_word src base offset MATCH_SH" "sb src base offset = s_word src base offset MATCH_SB"
    "fsw src base offset = s_word src base offset MATCH_FSW" "fsd src base offset = s_word src base offset MATCH_FSD"
  by (simp_all only: sw_def sd_def sh_def sb_def fsw_def fsd_def s_word_def low_reg [OF assms])

lemma load_words:
  assumes "d < 32"
  shows "lw d base offset = i_word d base offset MATCH_LW" "ld d base offset = i_word d base offset MATCH_LD"
    "lh d base offset = i_word d base offset MATCH_LH" "lb d base offset = i_word d base offset MATCH_LB"
    "flw d base offset = i_word d base offset MATCH_FLW" "fld d base offset = i_word d base offset MATCH_FLD"
    "addi d base offset = i_word d base offset MATCH_ADDI" "xori d base offset = i_word d base offset MATCH_XORI"
  by (simp_all only: lw_def ld_def lh_def lb_def flw_def fld_def addi_def xori_def i_word_def low_reg [OF assms])

text \<open>
  C15. Encoding and decoding are inverse for the loads, stores and immediate operations of
  \<open>opcodes.h\<close>: with operands in range, the encoded word, fetched as an instruction, is accepted
  by the encoding of its own mnemonic, and \<open>decode.h\<close> extracts the registers and the 12-bit
  offset, sign-extended, that were encoded.
\<close>

theorem encode_decode_memory_ops:
  assumes "r < 32" "base < 32"
  shows "list_all (\<lambda>(enc, m, msk). let w = fetched (enc r base offset) in
      w AND msk = m \<and> rs1 w = ucast base \<and> rs2 w = ucast r \<and> s_imm w = sext_xlen 12 (ucast offset))
    [(sw, MATCH_SW, MASK_SW), (sd, MATCH_SD, MASK_SD), (sh, MATCH_SH, MASK_SH), (sb, MATCH_SB, MASK_SB),
     (fsw, MATCH_FSW, MASK_FSW), (fsd, MATCH_FSD, MASK_FSD)]
  \<and> list_all (\<lambda>(enc, m, msk). let w = fetched (enc r base offset) in
      w AND msk = m \<and> rs1 w = ucast base \<and> rd w = ucast r \<and> i_imm w = sext_xlen 12 (ucast offset))
    [(lw, MATCH_LW, MASK_LW), (ld, MATCH_LD, MASK_LD), (lh, MATCH_LH, MASK_LH), (lb, MATCH_LB, MASK_LB),
     (flw, MATCH_FLW, MASK_FLW), (fld, MATCH_FLD, MASK_FLD), (addi, MATCH_ADDI, MASK_ADDI), (xori, MATCH_XORI, MASK_XORI)]"
  by (simp only: masks_are_funct opcode_only_consts list.pred_inject Let_def prod.case store_words [OF assms(1)] load_words [OF assms(1)]
      s_word_fields [OF assms] i_word_fields [OF assms] simp_thms)

lemma encode_decode_memory_ops_witness:
  "fetched (sw 8 0 0x380) AND MASK_SW = MATCH_SW \<and> rs2 (fetched (sw 8 0 0x380)) = 8
     \<and> s_imm (fetched (sw 8 0 0x380)) = 0x380"
  using encode_decode_memory_ops [of 8 0 "0x380"] by (simp add: Let_def sext_xlen_def)

lemma jal_opcode: "bit MATCH_JAL i \<Longrightarrow> i < 7" "MASK_JAL = mask 7"
proof -
  have "MATCH_JAL = take_bit 7 MATCH_JAL" by (simp add: insn_consts)
  then show "bit MATCH_JAL i \<Longrightarrow> i < 7" by (metis bit_take_bit_iff)
  show "MASK_JAL = mask 7" by (simp add: insn_consts mask_eq_exp_minus_1)
qed

lemma bit_jal:
  assumes "d < 32"
  shows "bit (jal d imm) i \<longleftrightarrow>
    (if i < 7 then bit MATCH_JAL i
     else if i < 12 then bit d (i - 7)
     else if i < 20 then bit imm i
     else if i = 20 then bit imm 11
     else if i < 31 then bit imm (i - 20)
     else i = 31 \<and> bit imm 20)"
proof -
  have "\<not> i < 20 \<Longrightarrow> i \<noteq> 20 \<Longrightarrow> Suc (i - 21) = i - 20" by simp
  then show ?thesis
    unfolding jal_def
    by (auto simp: bit_simps dest: bit_imp_le_length small_reg [OF assms] jal_opcode(1))
qed

lemma jal_fields:
  assumes "d < 32"
  shows "fetched (jal d imm) AND MASK_JAL = MATCH_JAL" "rd (fetched (jal d imm)) = ucast d"
    "uj_imm (fetched (jal d imm)) = sext_xlen 21 (ucast (imm AND NOT 1))"
proof -
  note b = bit_jal [OF assms] bit_fetched
  show "fetched (jal d imm) AND MASK_JAL = MATCH_JAL"
    unfolding jal_opcode(2) by (rule bit_word_eqI) (auto simp: bit_and_iff bit_mask_iff b dest: jal_opcode(1))
  show "rd (fetched (jal d imm)) = ucast d"
    by (rule bit_word_eqI) (auto simp: rd_def bit_insn_x b bit_unsigned_iff dest: small_reg [OF assms])
  have last: "\<not> n < 20 \<Longrightarrow> n < 21 \<Longrightarrow> n = 20" for n :: nat by simp
  show "uj_imm (fetched (jal d imm)) = sext_xlen 21 (ucast (imm AND NOT 1))"
    by (rule bit_word_eqI)
      (auto simp: bit_uj_imm bit_sext_xlen b bit_unsigned_iff bit_and_iff bit_not_iff bit_1_iff dest!: last)
qed

lemma bit_csr_words:
  assumes "d < 32" "csr_no < 4096"
  shows "bit (csrw d csr_no) i \<longleftrightarrow>
    (if i < 7 \<or> 12 \<le> i \<and> i < 15 then bit MATCH_CSRRW i else if i < 12 then False
     else if i < 20 then bit d (i - 15) else i < 32 \<and> bit csr_no (i - 20))"
    "bit (csrr d csr_no) i \<longleftrightarrow>
    (if i < 7 \<or> 12 \<le> i \<and> i < 15 then bit MATCH_CSRRS i else if i < 12 then bit d (i - 7)
     else if i < 20 then False else i < 32 \<and> bit csr_no (i - 20))"
proof -
  have m: "opcode_only MATCH_CSRRW" "opcode_only MATCH_CSRRS" by (simp_all add: opcode_only_def insn_consts)
  show "bit (csrw d csr_no) i \<longleftrightarrow>
    (if i < 7 \<or> 12 \<le> i \<and> i < 15 then bit MATCH_CSRRW i else if i < 12 then False
     else if i < 20 then bit d (i - 15) else i < 32 \<and> bit csr_no (i - 20))"
    unfolding csrw_def
    by (auto simp: bit_simps dest: bit_imp_le_length small_reg [OF assms(1)] opcode_only_bit [OF m(1)])
  show "bit (csrr d csr_no) i \<longleftrightarrow>
    (if i < 7 \<or> 12 \<le> i \<and> i < 15 then bit MATCH_CSRRS i else if i < 12 then bit d (i - 7)
     else if i < 20 then False else i < 32 \<and> bit csr_no (i - 20))"
    unfolding csrr_def
    by (auto simp: bit_simps dest: bit_imp_le_length small_reg [OF assms(1)] opcode_only_bit [OF m(2)])
qed

lemma csr_fields:
  assumes "d < 32" "csr_no < 4096"
  shows "fetched (csrw d csr_no) AND 0x707f = MATCH_CSRRW" "rs1 (fetched (csrw d csr_no)) = ucast d"
    "rd (fetched (csrw d csr_no)) = 0" "csr (fetched (csrw d csr_no)) = ucast csr_no"
    "fetched (csrr d csr_no) AND 0x707f = MATCH_CSRRS" "rd (fetched (csrr d csr_no)) = ucast d"
    "rs1 (fetched (csrr d csr_no)) = 0" "csr (fetched (csrr d csr_no)) = ucast csr_no"
proof -
  note b = bit_csr_words [OF assms] bit_fetched
  have m: "opcode_only MATCH_CSRRW" "opcode_only MATCH_CSRRS" by (simp_all add: opcode_only_def insn_consts)
  have c: "bit csr_no j \<Longrightarrow> j < 12" for j using small_bit [of csr_no 12 j] assms(2) by simp
  note small = small_reg [OF assms(1)] c opcode_only_bit [OF m(1)] opcode_only_bit [OF m(2)]
  show "fetched (csrw d csr_no) AND 0x707f = MATCH_CSRRW" "fetched (csrr d csr_no) AND 0x707f = MATCH_CSRRS"
    by (rule bit_word_eqI; unfold bit_and_iff funct_mask b, auto dest: small)+
  show "rs1 (fetched (csrw d csr_no)) = ucast d" "rs1 (fetched (csrr d csr_no)) = 0"
    by (rule bit_word_eqI; auto simp: rs1_def bit_insn_x b bit_unsigned_iff dest: small)+
  show "rd (fetched (csrw d csr_no)) = 0" "rd (fetched (csrr d csr_no)) = ucast d"
    by (rule bit_word_eqI; auto simp: rd_def bit_insn_x b bit_unsigned_iff dest: small)+
  show "csr (fetched (csrw d csr_no)) = ucast csr_no" "csr (fetched (csrr d csr_no)) = ucast csr_no"
    by (rule bit_word_eqI; auto simp: csr_def bit_insn_x b bit_unsigned_iff dest: small)+
qed

text \<open>
  Encoding and decoding are inverse for jumps and CSR accesses: \<open>jal\<close> decodes to the even
  21-bit offset it was given and \<open>csrw\<close>, \<open>csrr\<close> to the CSR number and the register.
\<close>

theorem encode_decode_jumps_csrs:
  assumes "d < 32" "csr_no < 4096"
  shows "(let w = fetched (jal d imm) in w AND MASK_JAL = MATCH_JAL \<and> rd w = ucast d
      \<and> uj_imm w = sext_xlen 21 (ucast (imm AND NOT 1))) \<and>
    (let w = fetched (csrw d csr_no) in w AND MASK_CSRRW = MATCH_CSRRW \<and> rs1 w = ucast d \<and> rd w = 0 \<and>
       csr w = ucast csr_no) \<and>
    (let w = fetched (csrr d csr_no) in w AND MASK_CSRRS = MATCH_CSRRS \<and> rd w = ucast d \<and> rs1 w = 0 \<and>
       csr w = ucast csr_no)"
  by (simp only: masks_are_funct Let_def jal_fields [OF assms(1)] csr_fields [OF assms] simp_thms)

lemma encode_decode_jumps_csrs_witness:
  "csr (fetched (csrw 8 0x7b2)) = 0x7b2 \<and> uj_imm (fetched (jal 8 0xffffff00)) = 0xffffffffffffff00"
  using encode_decode_jumps_csrs [of 8 "0x7b2" "0xffffff00"] by (simp add: Let_def sext_xlen_def)

end
