(* ===== verification/DebugDefines.thy ===== *)
theory DebugDefines
  imports Prelude
begin

text \<open>
  The constants of \<open>riscv/debug_defines.h\<close> and \<open>riscv/debug_rom_defines.h\<close> that the debug
  module and the JTAG transport use: register numbers of the debug module interface, and the
  offset, length and mask of each register field.  \<open>dmi_masks\<close> says that every mask is the
  contiguous field its offset and length announce, which is what \<open>get_field\<close> and \<open>set_field\<close>
  rely on.
\<close>

section \<open>Register numbers\<close>

definition DTM_DTMCS_ABITS_OFFSET :: nat where [spike_consts]: "DTM_DTMCS_ABITS_OFFSET = 4"
definition DTM_DMI_OP_OFFSET :: nat where [spike_consts]: "DTM_DMI_OP_OFFSET = 0"
definition DMI_DMSTATUS :: u32 where [spike_consts]: "DMI_DMSTATUS = 0x11"
definition DMI_DMCONTROL :: u32 where [spike_consts]: "DMI_DMCONTROL = 0x10"
definition DMI_HARTINFO :: u32 where [spike_consts]: "DMI_HARTINFO = 0x12"
definition DMI_ABSTRACTCS :: u32 where [spike_consts]: "DMI_ABSTRACTCS = 0x16"
definition DMI_COMMAND :: u32 where [spike_consts]: "DMI_COMMAND = 0x17"
definition DMI_ABSTRACTAUTO :: u32 where [spike_consts]: "DMI_ABSTRACTAUTO = 0x18"
definition DMI_DATA0 :: u32 where [spike_consts]: "DMI_DATA0 = 0x4"
definition DMI_PROGBUF0 :: u32 where [spike_consts]: "DMI_PROGBUF0 = 0x20"
definition DMI_AUTHDATA :: u32 where [spike_consts]: "DMI_AUTHDATA = 0x30"
definition DMI_SBADDRESS3 :: u32 where [spike_consts]: "DMI_SBADDRESS3 = 0x37"
definition DMI_SBCS :: u32 where [spike_consts]: "DMI_SBCS = 0x38"
definition DMI_SBADDRESS0 :: u32 where [spike_consts]: "DMI_SBADDRESS0 = 0x39"
definition DMI_SBADDRESS1 :: u32 where [spike_consts]: "DMI_SBADDRESS1 = 0x3a"
definition DMI_SBADDRESS2 :: u32 where [spike_consts]: "DMI_SBADDRESS2 = 0x3b"
definition DMI_SBDATA0 :: u32 where [spike_consts]: "DMI_SBDATA0 = 0x3c"
definition DMI_SBDATA1 :: u32 where [spike_consts]: "DMI_SBDATA1 = 0x3d"
definition DMI_SBDATA2 :: u32 where [spike_consts]: "DMI_SBDATA2 = 0x3e"
definition DMI_SBDATA3 :: u32 where [spike_consts]: "DMI_SBDATA3 = 0x3f"

section \<open>Register fields\<close>

definition DMI_DMSTATUS_IMPEBREAK_OFFSET :: nat where [spike_consts]: "DMI_DMSTATUS_IMPEBREAK_OFFSET = 22"
definition DMI_DMSTATUS_IMPEBREAK_LENGTH :: nat where [spike_consts]: "DMI_DMSTATUS_IMPEBREAK_LENGTH = 1"
definition DMI_DMSTATUS_IMPEBREAK :: u32 where [spike_consts]: "DMI_DMSTATUS_IMPEBREAK = shl 0x1 DMI_DMSTATUS_IMPEBREAK_OFFSET"
definition DMI_DMSTATUS_ALLHAVERESET_OFFSET :: nat where [spike_consts]: "DMI_DMSTATUS_ALLHAVERESET_OFFSET = 19"
definition DMI_DMSTATUS_ALLHAVERESET_LENGTH :: nat where [spike_consts]: "DMI_DMSTATUS_ALLHAVERESET_LENGTH = 1"
definition DMI_DMSTATUS_ALLHAVERESET :: u32 where [spike_consts]: "DMI_DMSTATUS_ALLHAVERESET = shl 0x1 DMI_DMSTATUS_ALLHAVERESET_OFFSET"
definition DMI_DMSTATUS_ANYHAVERESET_OFFSET :: nat where [spike_consts]: "DMI_DMSTATUS_ANYHAVERESET_OFFSET = 18"
definition DMI_DMSTATUS_ANYHAVERESET_LENGTH :: nat where [spike_consts]: "DMI_DMSTATUS_ANYHAVERESET_LENGTH = 1"
definition DMI_DMSTATUS_ANYHAVERESET :: u32 where [spike_consts]: "DMI_DMSTATUS_ANYHAVERESET = shl 0x1 DMI_DMSTATUS_ANYHAVERESET_OFFSET"
definition DMI_DMSTATUS_ALLRESUMEACK_OFFSET :: nat where [spike_consts]: "DMI_DMSTATUS_ALLRESUMEACK_OFFSET = 17"
definition DMI_DMSTATUS_ALLRESUMEACK_LENGTH :: nat where [spike_consts]: "DMI_DMSTATUS_ALLRESUMEACK_LENGTH = 1"
definition DMI_DMSTATUS_ALLRESUMEACK :: u32 where [spike_consts]: "DMI_DMSTATUS_ALLRESUMEACK = shl 0x1 DMI_DMSTATUS_ALLRESUMEACK_OFFSET"
definition DMI_DMSTATUS_ANYRESUMEACK_OFFSET :: nat where [spike_consts]: "DMI_DMSTATUS_ANYRESUMEACK_OFFSET = 16"
definition DMI_DMSTATUS_ANYRESUMEACK_LENGTH :: nat where [spike_consts]: "DMI_DMSTATUS_ANYRESUMEACK_LENGTH = 1"
definition DMI_DMSTATUS_ANYRESUMEACK :: u32 where [spike_consts]: "DMI_DMSTATUS_ANYRESUMEACK = shl 0x1 DMI_DMSTATUS_ANYRESUMEACK_OFFSET"
definition DMI_DMSTATUS_ALLNONEXISTENT_OFFSET :: nat where [spike_consts]: "DMI_DMSTATUS_ALLNONEXISTENT_OFFSET = 15"
definition DMI_DMSTATUS_ALLNONEXISTENT_LENGTH :: nat where [spike_consts]: "DMI_DMSTATUS_ALLNONEXISTENT_LENGTH = 1"
definition DMI_DMSTATUS_ALLNONEXISTENT :: u32 where [spike_consts]: "DMI_DMSTATUS_ALLNONEXISTENT = shl 0x1 DMI_DMSTATUS_ALLNONEXISTENT_OFFSET"
definition DMI_DMSTATUS_ANYNONEXISTENT_OFFSET :: nat where [spike_consts]: "DMI_DMSTATUS_ANYNONEXISTENT_OFFSET = 14"
definition DMI_DMSTATUS_ANYNONEXISTENT_LENGTH :: nat where [spike_consts]: "DMI_DMSTATUS_ANYNONEXISTENT_LENGTH = 1"
definition DMI_DMSTATUS_ANYNONEXISTENT :: u32 where [spike_consts]: "DMI_DMSTATUS_ANYNONEXISTENT = shl 0x1 DMI_DMSTATUS_ANYNONEXISTENT_OFFSET"
definition DMI_DMSTATUS_ALLUNAVAIL_OFFSET :: nat where [spike_consts]: "DMI_DMSTATUS_ALLUNAVAIL_OFFSET = 13"
definition DMI_DMSTATUS_ALLUNAVAIL_LENGTH :: nat where [spike_consts]: "DMI_DMSTATUS_ALLUNAVAIL_LENGTH = 1"
definition DMI_DMSTATUS_ALLUNAVAIL :: u32 where [spike_consts]: "DMI_DMSTATUS_ALLUNAVAIL = shl 0x1 DMI_DMSTATUS_ALLUNAVAIL_OFFSET"
definition DMI_DMSTATUS_ANYUNAVAIL_OFFSET :: nat where [spike_consts]: "DMI_DMSTATUS_ANYUNAVAIL_OFFSET = 12"
definition DMI_DMSTATUS_ANYUNAVAIL_LENGTH :: nat where [spike_consts]: "DMI_DMSTATUS_ANYUNAVAIL_LENGTH = 1"
definition DMI_DMSTATUS_ANYUNAVAIL :: u32 where [spike_consts]: "DMI_DMSTATUS_ANYUNAVAIL = shl 0x1 DMI_DMSTATUS_ANYUNAVAIL_OFFSET"
definition DMI_DMSTATUS_ALLRUNNING_OFFSET :: nat where [spike_consts]: "DMI_DMSTATUS_ALLRUNNING_OFFSET = 11"
definition DMI_DMSTATUS_ALLRUNNING_LENGTH :: nat where [spike_consts]: "DMI_DMSTATUS_ALLRUNNING_LENGTH = 1"
definition DMI_DMSTATUS_ALLRUNNING :: u32 where [spike_consts]: "DMI_DMSTATUS_ALLRUNNING = shl 0x1 DMI_DMSTATUS_ALLRUNNING_OFFSET"
definition DMI_DMSTATUS_ANYRUNNING_OFFSET :: nat where [spike_consts]: "DMI_DMSTATUS_ANYRUNNING_OFFSET = 10"
definition DMI_DMSTATUS_ANYRUNNING_LENGTH :: nat where [spike_consts]: "DMI_DMSTATUS_ANYRUNNING_LENGTH = 1"
definition DMI_DMSTATUS_ANYRUNNING :: u32 where [spike_consts]: "DMI_DMSTATUS_ANYRUNNING = shl 0x1 DMI_DMSTATUS_ANYRUNNING_OFFSET"
definition DMI_DMSTATUS_ALLHALTED_OFFSET :: nat where [spike_consts]: "DMI_DMSTATUS_ALLHALTED_OFFSET = 9"
definition DMI_DMSTATUS_ALLHALTED_LENGTH :: nat where [spike_consts]: "DMI_DMSTATUS_ALLHALTED_LENGTH = 1"
definition DMI_DMSTATUS_ALLHALTED :: u32 where [spike_consts]: "DMI_DMSTATUS_ALLHALTED = shl 0x1 DMI_DMSTATUS_ALLHALTED_OFFSET"
definition DMI_DMSTATUS_ANYHALTED_OFFSET :: nat where [spike_consts]: "DMI_DMSTATUS_ANYHALTED_OFFSET = 8"
definition DMI_DMSTATUS_ANYHALTED_LENGTH :: nat where [spike_consts]: "DMI_DMSTATUS_ANYHALTED_LENGTH = 1"
definition DMI_DMSTATUS_ANYHALTED :: u32 where [spike_consts]: "DMI_DMSTATUS_ANYHALTED = shl 0x1 DMI_DMSTATUS_ANYHALTED_OFFSET"
definition DMI_DMSTATUS_AUTHENTICATED_OFFSET :: nat where [spike_consts]: "DMI_DMSTATUS_AUTHENTICATED_OFFSET = 7"
definition DMI_DMSTATUS_AUTHENTICATED_LENGTH :: nat where [spike_consts]: "DMI_DMSTATUS_AUTHENTICATED_LENGTH = 1"
definition DMI_DMSTATUS_AUTHENTICATED :: u32 where [spike_consts]: "DMI_DMSTATUS_AUTHENTICATED = shl 0x1 DMI_DMSTATUS_AUTHENTICATED_OFFSET"
definition DMI_DMSTATUS_AUTHBUSY_OFFSET :: nat where [spike_consts]: "DMI_DMSTATUS_AUTHBUSY_OFFSET = 6"
definition DMI_DMSTATUS_AUTHBUSY_LENGTH :: nat where [spike_consts]: "DMI_DMSTATUS_AUTHBUSY_LENGTH = 1"
definition DMI_DMSTATUS_AUTHBUSY :: u32 where [spike_consts]: "DMI_DMSTATUS_AUTHBUSY = shl 0x1 DMI_DMSTATUS_AUTHBUSY_OFFSET"
definition DMI_DMSTATUS_VERSION_OFFSET :: nat where [spike_consts]: "DMI_DMSTATUS_VERSION_OFFSET = 0"
definition DMI_DMSTATUS_VERSION_LENGTH :: nat where [spike_consts]: "DMI_DMSTATUS_VERSION_LENGTH = 4"
definition DMI_DMSTATUS_VERSION :: u32 where [spike_consts]: "DMI_DMSTATUS_VERSION = shl 0xf DMI_DMSTATUS_VERSION_OFFSET"
definition DMI_DMCONTROL_HALTREQ_OFFSET :: nat where [spike_consts]: "DMI_DMCONTROL_HALTREQ_OFFSET = 31"
definition DMI_DMCONTROL_HALTREQ_LENGTH :: nat where [spike_consts]: "DMI_DMCONTROL_HALTREQ_LENGTH = 1"
definition DMI_DMCONTROL_HALTREQ :: u32 where [spike_consts]: "DMI_DMCONTROL_HALTREQ = shl 0x1 DMI_DMCONTROL_HALTREQ_OFFSET"
definition DMI_DMCONTROL_RESUMEREQ_OFFSET :: nat where [spike_consts]: "DMI_DMCONTROL_RESUMEREQ_OFFSET = 30"
definition DMI_DMCONTROL_RESUMEREQ_LENGTH :: nat where [spike_consts]: "DMI_DMCONTROL_RESUMEREQ_LENGTH = 1"
definition DMI_DMCONTROL_RESUMEREQ :: u32 where [spike_consts]: "DMI_DMCONTROL_RESUMEREQ = shl 0x1 DMI_DMCONTROL_RESUMEREQ_OFFSET"
definition DMI_DMCONTROL_HARTRESET_OFFSET :: nat where [spike_consts]: "DMI_DMCONTROL_HARTRESET_OFFSET = 29"
definition DMI_DMCONTROL_HARTRESET_LENGTH :: nat where [spike_consts]: "DMI_DMCONTROL_HARTRESET_LENGTH = 1"
definition DMI_DMCONTROL_HARTRESET :: u32 where [spike_consts]: "DMI_DMCONTROL_HARTRESET = shl 0x1 DMI_DMCONTROL_HARTRESET_OFFSET"
definition DMI_DMCONTROL_ACKHAVERESET_OFFSET :: nat where [spike_consts]: "DMI_DMCONTROL_ACKHAVERESET_OFFSET = 28"
definition DMI_DMCONTROL_ACKHAVERESET_LENGTH :: nat where [spike_consts]: "DMI_DMCONTROL_ACKHAVERESET_LENGTH = 1"
definition DMI_DMCONTROL_ACKHAVERESET :: u32 where [spike_consts]: "DMI_DMCONTROL_ACKHAVERESET = shl 0x1 DMI_DMCONTROL_ACKHAVERESET_OFFSET"
definition DMI_DMCONTROL_HARTSELLO_OFFSET :: nat where [spike_consts]: "DMI_DMCONTROL_HARTSELLO_OFFSET = 16"
definition DMI_DMCONTROL_HARTSELLO_LENGTH :: nat where [spike_consts]: "DMI_DMCONTROL_HARTSELLO_LENGTH = 10"
definition DMI_DMCONTROL_HARTSELLO :: u32 where [spike_consts]: "DMI_DMCONTROL_HARTSELLO = shl 0x3ff DMI_DMCONTROL_HARTSELLO_OFFSET"
definition DMI_DMCONTROL_HARTSELHI_OFFSET :: nat where [spike_consts]: "DMI_DMCONTROL_HARTSELHI_OFFSET = 6"
definition DMI_DMCONTROL_HARTSELHI_LENGTH :: nat where [spike_consts]: "DMI_DMCONTROL_HARTSELHI_LENGTH = 10"
definition DMI_DMCONTROL_HARTSELHI :: u32 where [spike_consts]: "DMI_DMCONTROL_HARTSELHI = shl 0x3ff DMI_DMCONTROL_HARTSELHI_OFFSET"
definition DMI_DMCONTROL_NDMRESET_OFFSET :: nat where [spike_consts]: "DMI_DMCONTROL_NDMRESET_OFFSET = 1"
definition DMI_DMCONTROL_NDMRESET_LENGTH :: nat where [spike_consts]: "DMI_DMCONTROL_NDMRESET_LENGTH = 1"
definition DMI_DMCONTROL_NDMRESET :: u32 where [spike_consts]: "DMI_DMCONTROL_NDMRESET = shl 0x1 DMI_DMCONTROL_NDMRESET_OFFSET"
definition DMI_DMCONTROL_DMACTIVE_OFFSET :: nat where [spike_consts]: "DMI_DMCONTROL_DMACTIVE_OFFSET = 0"
definition DMI_DMCONTROL_DMACTIVE_LENGTH :: nat where [spike_consts]: "DMI_DMCONTROL_DMACTIVE_LENGTH = 1"
definition DMI_DMCONTROL_DMACTIVE :: u32 where [spike_consts]: "DMI_DMCONTROL_DMACTIVE = shl 0x1 DMI_DMCONTROL_DMACTIVE_OFFSET"
definition DMI_HARTINFO_NSCRATCH_OFFSET :: nat where [spike_consts]: "DMI_HARTINFO_NSCRATCH_OFFSET = 20"
definition DMI_HARTINFO_NSCRATCH_LENGTH :: nat where [spike_consts]: "DMI_HARTINFO_NSCRATCH_LENGTH = 4"
definition DMI_HARTINFO_NSCRATCH :: u32 where [spike_consts]: "DMI_HARTINFO_NSCRATCH = shl 0xf DMI_HARTINFO_NSCRATCH_OFFSET"
definition DMI_HARTINFO_DATAACCESS_OFFSET :: nat where [spike_consts]: "DMI_HARTINFO_DATAACCESS_OFFSET = 16"
definition DMI_HARTINFO_DATAACCESS_LENGTH :: nat where [spike_consts]: "DMI_HARTINFO_DATAACCESS_LENGTH = 1"
definition DMI_HARTINFO_DATAACCESS :: u32 where [spike_consts]: "DMI_HARTINFO_DATAACCESS = shl 0x1 DMI_HARTINFO_DATAACCESS_OFFSET"
definition DMI_HARTINFO_DATASIZE_OFFSET :: nat where [spike_consts]: "DMI_HARTINFO_DATASIZE_OFFSET = 12"
definition DMI_HARTINFO_DATASIZE_LENGTH :: nat where [spike_consts]: "DMI_HARTINFO_DATASIZE_LENGTH = 4"
definition DMI_HARTINFO_DATASIZE :: u32 where [spike_consts]: "DMI_HARTINFO_DATASIZE = shl 0xf DMI_HARTINFO_DATASIZE_OFFSET"
definition DMI_HARTINFO_DATAADDR_OFFSET :: nat where [spike_consts]: "DMI_HARTINFO_DATAADDR_OFFSET = 0"
definition DMI_HARTINFO_DATAADDR_LENGTH :: nat where [spike_consts]: "DMI_HARTINFO_DATAADDR_LENGTH = 12"
definition DMI_HARTINFO_DATAADDR :: u32 where [spike_consts]: "DMI_HARTINFO_DATAADDR = shl 0xfff DMI_HARTINFO_DATAADDR_OFFSET"
definition DMI_ABSTRACTCS_PROGBUFSIZE_OFFSET :: nat where [spike_consts]: "DMI_ABSTRACTCS_PROGBUFSIZE_OFFSET = 24"
definition DMI_ABSTRACTCS_PROGBUFSIZE_LENGTH :: nat where [spike_consts]: "DMI_ABSTRACTCS_PROGBUFSIZE_LENGTH = 5"
definition DMI_ABSTRACTCS_PROGBUFSIZE :: u32 where [spike_consts]: "DMI_ABSTRACTCS_PROGBUFSIZE = shl 0x1f DMI_ABSTRACTCS_PROGBUFSIZE_OFFSET"
definition DMI_ABSTRACTCS_BUSY_OFFSET :: nat where [spike_consts]: "DMI_ABSTRACTCS_BUSY_OFFSET = 12"
definition DMI_ABSTRACTCS_BUSY_LENGTH :: nat where [spike_consts]: "DMI_ABSTRACTCS_BUSY_LENGTH = 1"
definition DMI_ABSTRACTCS_BUSY :: u32 where [spike_consts]: "DMI_ABSTRACTCS_BUSY = shl 0x1 DMI_ABSTRACTCS_BUSY_OFFSET"
definition DMI_ABSTRACTCS_CMDERR_OFFSET :: nat where [spike_consts]: "DMI_ABSTRACTCS_CMDERR_OFFSET = 8"
definition DMI_ABSTRACTCS_CMDERR_LENGTH :: nat where [spike_consts]: "DMI_ABSTRACTCS_CMDERR_LENGTH = 3"
definition DMI_ABSTRACTCS_CMDERR :: u32 where [spike_consts]: "DMI_ABSTRACTCS_CMDERR = shl 0x7 DMI_ABSTRACTCS_CMDERR_OFFSET"
definition DMI_ABSTRACTCS_DATACOUNT_OFFSET :: nat where [spike_consts]: "DMI_ABSTRACTCS_DATACOUNT_OFFSET = 0"
definition DMI_ABSTRACTCS_DATACOUNT_LENGTH :: nat where [spike_consts]: "DMI_ABSTRACTCS_DATACOUNT_LENGTH = 4"
definition DMI_ABSTRACTCS_DATACOUNT :: u32 where [spike_consts]: "DMI_ABSTRACTCS_DATACOUNT = shl 0xf DMI_ABSTRACTCS_DATACOUNT_OFFSET"
definition DMI_ABSTRACTAUTO_AUTOEXECPROGBUF_OFFSET :: nat where [spike_consts]: "DMI_ABSTRACTAUTO_AUTOEXECPROGBUF_OFFSET = 16"
definition DMI_ABSTRACTAUTO_AUTOEXECPROGBUF_LENGTH :: nat where [spike_consts]: "DMI_ABSTRACTAUTO_AUTOEXECPROGBUF_LENGTH = 16"
definition DMI_ABSTRACTAUTO_AUTOEXECPROGBUF :: u32 where [spike_consts]: "DMI_ABSTRACTAUTO_AUTOEXECPROGBUF = shl 0xffff DMI_ABSTRACTAUTO_AUTOEXECPROGBUF_OFFSET"
definition DMI_ABSTRACTAUTO_AUTOEXECDATA_OFFSET :: nat where [spike_consts]: "DMI_ABSTRACTAUTO_AUTOEXECDATA_OFFSET = 0"
definition DMI_ABSTRACTAUTO_AUTOEXECDATA_LENGTH :: nat where [spike_consts]: "DMI_ABSTRACTAUTO_AUTOEXECDATA_LENGTH = 12"
definition DMI_ABSTRACTAUTO_AUTOEXECDATA :: u32 where [spike_consts]: "DMI_ABSTRACTAUTO_AUTOEXECDATA = shl 0xfff DMI_ABSTRACTAUTO_AUTOEXECDATA_OFFSET"
definition DMI_SBCS_SBVERSION_OFFSET :: nat where [spike_consts]: "DMI_SBCS_SBVERSION_OFFSET = 29"
definition DMI_SBCS_SBVERSION_LENGTH :: nat where [spike_consts]: "DMI_SBCS_SBVERSION_LENGTH = 3"
definition DMI_SBCS_SBVERSION :: u32 where [spike_consts]: "DMI_SBCS_SBVERSION = shl 0x7 DMI_SBCS_SBVERSION_OFFSET"
definition DMI_SBCS_SBREADONADDR_OFFSET :: nat where [spike_consts]: "DMI_SBCS_SBREADONADDR_OFFSET = 20"
definition DMI_SBCS_SBREADONADDR_LENGTH :: nat where [spike_consts]: "DMI_SBCS_SBREADONADDR_LENGTH = 1"
definition DMI_SBCS_SBREADONADDR :: u32 where [spike_consts]: "DMI_SBCS_SBREADONADDR = shl 0x1 DMI_SBCS_SBREADONADDR_OFFSET"
definition DMI_SBCS_SBACCESS_OFFSET :: nat where [spike_consts]: "DMI_SBCS_SBACCESS_OFFSET = 17"
definition DMI_SBCS_SBACCESS_LENGTH :: nat where [spike_consts]: "DMI_SBCS_SBACCESS_LENGTH = 3"
definition DMI_SBCS_SBACCESS :: u32 where [spike_consts]: "DMI_SBCS_SBACCESS = shl 0x7 DMI_SBCS_SBACCESS_OFFSET"
definition DMI_SBCS_SBAUTOINCREMENT_OFFSET :: nat where [spike_consts]: "DMI_SBCS_SBAUTOINCREMENT_OFFSET = 16"
definition DMI_SBCS_SBAUTOINCREMENT_LENGTH :: nat where [spike_consts]: "DMI_SBCS_SBAUTOINCREMENT_LENGTH = 1"
definition DMI_SBCS_SBAUTOINCREMENT :: u32 where [spike_consts]: "DMI_SBCS_SBAUTOINCREMENT = shl 0x1 DMI_SBCS_SBAUTOINCREMENT_OFFSET"
definition DMI_SBCS_SBREADONDATA_OFFSET :: nat where [spike_consts]: "DMI_SBCS_SBREADONDATA_OFFSET = 15"
definition DMI_SBCS_SBREADONDATA_LENGTH :: nat where [spike_consts]: "DMI_SBCS_SBREADONDATA_LENGTH = 1"
definition DMI_SBCS_SBREADONDATA :: u32 where [spike_consts]: "DMI_SBCS_SBREADONDATA = shl 0x1 DMI_SBCS_SBREADONDATA_OFFSET"
definition DMI_SBCS_SBERROR_OFFSET :: nat where [spike_consts]: "DMI_SBCS_SBERROR_OFFSET = 12"
definition DMI_SBCS_SBERROR_LENGTH :: nat where [spike_consts]: "DMI_SBCS_SBERROR_LENGTH = 3"
definition DMI_SBCS_SBERROR :: u32 where [spike_consts]: "DMI_SBCS_SBERROR = shl 0x7 DMI_SBCS_SBERROR_OFFSET"
definition DMI_SBCS_SBASIZE_OFFSET :: nat where [spike_consts]: "DMI_SBCS_SBASIZE_OFFSET = 5"
definition DMI_SBCS_SBASIZE_LENGTH :: nat where [spike_consts]: "DMI_SBCS_SBASIZE_LENGTH = 7"
definition DMI_SBCS_SBASIZE :: u32 where [spike_consts]: "DMI_SBCS_SBASIZE = shl 0x7f DMI_SBCS_SBASIZE_OFFSET"
definition DMI_SBCS_SBACCESS128_OFFSET :: nat where [spike_consts]: "DMI_SBCS_SBACCESS128_OFFSET = 4"
definition DMI_SBCS_SBACCESS128_LENGTH :: nat where [spike_consts]: "DMI_SBCS_SBACCESS128_LENGTH = 1"
definition DMI_SBCS_SBACCESS128 :: u32 where [spike_consts]: "DMI_SBCS_SBACCESS128 = shl 0x1 DMI_SBCS_SBACCESS128_OFFSET"
definition DMI_SBCS_SBACCESS64_OFFSET :: nat where [spike_consts]: "DMI_SBCS_SBACCESS64_OFFSET = 3"
definition DMI_SBCS_SBACCESS64_LENGTH :: nat where [spike_consts]: "DMI_SBCS_SBACCESS64_LENGTH = 1"
definition DMI_SBCS_SBACCESS64 :: u32 where [spike_consts]: "DMI_SBCS_SBACCESS64 = shl 0x1 DMI_SBCS_SBACCESS64_OFFSET"
definition DMI_SBCS_SBACCESS32_OFFSET :: nat where [spike_consts]: "DMI_SBCS_SBACCESS32_OFFSET = 2"
definition DMI_SBCS_SBACCESS32_LENGTH :: nat where [spike_consts]: "DMI_SBCS_SBACCESS32_LENGTH = 1"
definition DMI_SBCS_SBACCESS32 :: u32 where [spike_consts]: "DMI_SBCS_SBACCESS32 = shl 0x1 DMI_SBCS_SBACCESS32_OFFSET"
definition DMI_SBCS_SBACCESS16_OFFSET :: nat where [spike_consts]: "DMI_SBCS_SBACCESS16_OFFSET = 1"
definition DMI_SBCS_SBACCESS16_LENGTH :: nat where [spike_consts]: "DMI_SBCS_SBACCESS16_LENGTH = 1"
definition DMI_SBCS_SBACCESS16 :: u32 where [spike_consts]: "DMI_SBCS_SBACCESS16 = shl 0x1 DMI_SBCS_SBACCESS16_OFFSET"
definition DMI_SBCS_SBACCESS8_OFFSET :: nat where [spike_consts]: "DMI_SBCS_SBACCESS8_OFFSET = 0"
definition DMI_SBCS_SBACCESS8_LENGTH :: nat where [spike_consts]: "DMI_SBCS_SBACCESS8_LENGTH = 1"
definition DMI_SBCS_SBACCESS8 :: u32 where [spike_consts]: "DMI_SBCS_SBACCESS8 = shl 0x1 DMI_SBCS_SBACCESS8_OFFSET"
definition AC_ACCESS_REGISTER_SIZE_OFFSET :: nat where [spike_consts]: "AC_ACCESS_REGISTER_SIZE_OFFSET = 20"
definition AC_ACCESS_REGISTER_SIZE_LENGTH :: nat where [spike_consts]: "AC_ACCESS_REGISTER_SIZE_LENGTH = 3"
definition AC_ACCESS_REGISTER_SIZE :: u32 where [spike_consts]: "AC_ACCESS_REGISTER_SIZE = shl 0x7 AC_ACCESS_REGISTER_SIZE_OFFSET"
definition AC_ACCESS_REGISTER_POSTEXEC_OFFSET :: nat where [spike_consts]: "AC_ACCESS_REGISTER_POSTEXEC_OFFSET = 18"
definition AC_ACCESS_REGISTER_POSTEXEC_LENGTH :: nat where [spike_consts]: "AC_ACCESS_REGISTER_POSTEXEC_LENGTH = 1"
definition AC_ACCESS_REGISTER_POSTEXEC :: u32 where [spike_consts]: "AC_ACCESS_REGISTER_POSTEXEC = shl 0x1 AC_ACCESS_REGISTER_POSTEXEC_OFFSET"
definition AC_ACCESS_REGISTER_TRANSFER_OFFSET :: nat where [spike_consts]: "AC_ACCESS_REGISTER_TRANSFER_OFFSET = 17"
definition AC_ACCESS_REGISTER_TRANSFER_LENGTH :: nat where [spike_consts]: "AC_ACCESS_REGISTER_TRANSFER_LENGTH = 1"
definition AC_ACCESS_REGISTER_TRANSFER :: u32 where [spike_consts]: "AC_ACCESS_REGISTER_TRANSFER = shl 0x1 AC_ACCESS_REGISTER_TRANSFER_OFFSET"
definition AC_ACCESS_REGISTER_WRITE_OFFSET :: nat where [spike_consts]: "AC_ACCESS_REGISTER_WRITE_OFFSET = 16"
definition AC_ACCESS_REGISTER_WRITE_LENGTH :: nat where [spike_consts]: "AC_ACCESS_REGISTER_WRITE_LENGTH = 1"
definition AC_ACCESS_REGISTER_WRITE :: u32 where [spike_consts]: "AC_ACCESS_REGISTER_WRITE = shl 0x1 AC_ACCESS_REGISTER_WRITE_OFFSET"
definition AC_ACCESS_REGISTER_REGNO_OFFSET :: nat where [spike_consts]: "AC_ACCESS_REGISTER_REGNO_OFFSET = 0"
definition AC_ACCESS_REGISTER_REGNO_LENGTH :: nat where [spike_consts]: "AC_ACCESS_REGISTER_REGNO_LENGTH = 16"
definition AC_ACCESS_REGISTER_REGNO :: u32 where [spike_consts]: "AC_ACCESS_REGISTER_REGNO = shl 0xffff AC_ACCESS_REGISTER_REGNO_OFFSET"

section \<open>Addresses of the debug module\<close>

definition DEBUG_ROM_HALTED :: reg_t where [spike_consts]: "DEBUG_ROM_HALTED = 0x100"
definition DEBUG_ROM_GOING :: reg_t where [spike_consts]: "DEBUG_ROM_GOING = 0x104"
definition DEBUG_ROM_RESUMING :: reg_t where [spike_consts]: "DEBUG_ROM_RESUMING = 0x108"
definition DEBUG_ROM_EXCEPTION :: reg_t where [spike_consts]: "DEBUG_ROM_EXCEPTION = 0x10C"
definition DEBUG_ROM_FLAGS :: reg_t where [spike_consts]: "DEBUG_ROM_FLAGS = 0x400"
definition DEBUG_ROM_FLAG_GO :: nat where [spike_consts]: "DEBUG_ROM_FLAG_GO = 0"
definition DEBUG_ROM_FLAG_RESUME :: nat where [spike_consts]: "DEBUG_ROM_FLAG_RESUME = 1"
definition DEBUG_ROM_WHERETO :: reg_t where [spike_consts]: "DEBUG_ROM_WHERETO = 0x300"
definition DEBUG_START :: reg_t where [spike_consts]: "DEBUG_START = 0x100"

section \<open>Masks\<close>

lemma small_masks:
  "(0x1 :: u32) = mask 1" "(0x3 :: u32) = mask 2" "(0x7 :: u32) = mask 3" "(0xf :: u32) = mask 4" "(0x1f :: u32) = mask 5"
  "(0x7f :: u32) = mask 7" "(0x3ff :: u32) = mask 10" "(0xfff :: u32) = mask 12" "(0xffff :: u32) = mask 16"
  by (simp_all add: mask_eq_exp_minus_1)

lemma dmi_masks:
  "DMI_DMSTATUS_IMPEBREAK = field_mask DMI_DMSTATUS_IMPEBREAK_OFFSET DMI_DMSTATUS_IMPEBREAK_LENGTH"
  "DMI_DMSTATUS_ALLHAVERESET = field_mask DMI_DMSTATUS_ALLHAVERESET_OFFSET DMI_DMSTATUS_ALLHAVERESET_LENGTH"
  "DMI_DMSTATUS_ANYHAVERESET = field_mask DMI_DMSTATUS_ANYHAVERESET_OFFSET DMI_DMSTATUS_ANYHAVERESET_LENGTH"
  "DMI_DMSTATUS_ALLRESUMEACK = field_mask DMI_DMSTATUS_ALLRESUMEACK_OFFSET DMI_DMSTATUS_ALLRESUMEACK_LENGTH"
  "DMI_DMSTATUS_ANYRESUMEACK = field_mask DMI_DMSTATUS_ANYRESUMEACK_OFFSET DMI_DMSTATUS_ANYRESUMEACK_LENGTH"
  "DMI_DMSTATUS_ALLNONEXISTENT = field_mask DMI_DMSTATUS_ALLNONEXISTENT_OFFSET DMI_DMSTATUS_ALLNONEXISTENT_LENGTH"
  "DMI_DMSTATUS_ANYNONEXISTENT = field_mask DMI_DMSTATUS_ANYNONEXISTENT_OFFSET DMI_DMSTATUS_ANYNONEXISTENT_LENGTH"
  "DMI_DMSTATUS_ALLUNAVAIL = field_mask DMI_DMSTATUS_ALLUNAVAIL_OFFSET DMI_DMSTATUS_ALLUNAVAIL_LENGTH"
  "DMI_DMSTATUS_ANYUNAVAIL = field_mask DMI_DMSTATUS_ANYUNAVAIL_OFFSET DMI_DMSTATUS_ANYUNAVAIL_LENGTH"
  "DMI_DMSTATUS_ALLRUNNING = field_mask DMI_DMSTATUS_ALLRUNNING_OFFSET DMI_DMSTATUS_ALLRUNNING_LENGTH"
  "DMI_DMSTATUS_ANYRUNNING = field_mask DMI_DMSTATUS_ANYRUNNING_OFFSET DMI_DMSTATUS_ANYRUNNING_LENGTH"
  "DMI_DMSTATUS_ALLHALTED = field_mask DMI_DMSTATUS_ALLHALTED_OFFSET DMI_DMSTATUS_ALLHALTED_LENGTH"
  "DMI_DMSTATUS_ANYHALTED = field_mask DMI_DMSTATUS_ANYHALTED_OFFSET DMI_DMSTATUS_ANYHALTED_LENGTH"
  "DMI_DMSTATUS_AUTHENTICATED = field_mask DMI_DMSTATUS_AUTHENTICATED_OFFSET DMI_DMSTATUS_AUTHENTICATED_LENGTH"
  "DMI_DMSTATUS_AUTHBUSY = field_mask DMI_DMSTATUS_AUTHBUSY_OFFSET DMI_DMSTATUS_AUTHBUSY_LENGTH"
  "DMI_DMSTATUS_VERSION = field_mask DMI_DMSTATUS_VERSION_OFFSET DMI_DMSTATUS_VERSION_LENGTH"
  "DMI_DMCONTROL_HALTREQ = field_mask DMI_DMCONTROL_HALTREQ_OFFSET DMI_DMCONTROL_HALTREQ_LENGTH"
  "DMI_DMCONTROL_RESUMEREQ = field_mask DMI_DMCONTROL_RESUMEREQ_OFFSET DMI_DMCONTROL_RESUMEREQ_LENGTH"
  "DMI_DMCONTROL_HARTRESET = field_mask DMI_DMCONTROL_HARTRESET_OFFSET DMI_DMCONTROL_HARTRESET_LENGTH"
  "DMI_DMCONTROL_ACKHAVERESET = field_mask DMI_DMCONTROL_ACKHAVERESET_OFFSET DMI_DMCONTROL_ACKHAVERESET_LENGTH"
  "DMI_DMCONTROL_HARTSELLO = field_mask DMI_DMCONTROL_HARTSELLO_OFFSET DMI_DMCONTROL_HARTSELLO_LENGTH"
  "DMI_DMCONTROL_HARTSELHI = field_mask DMI_DMCONTROL_HARTSELHI_OFFSET DMI_DMCONTROL_HARTSELHI_LENGTH"
  "DMI_DMCONTROL_NDMRESET = field_mask DMI_DMCONTROL_NDMRESET_OFFSET DMI_DMCONTROL_NDMRESET_LENGTH"
  "DMI_DMCONTROL_DMACTIVE = field_mask DMI_DMCONTROL_DMACTIVE_OFFSET DMI_DMCONTROL_DMACTIVE_LENGTH"
  "DMI_HARTINFO_NSCRATCH = field_mask DMI_HARTINFO_NSCRATCH_OFFSET DMI_HARTINFO_NSCRATCH_LENGTH"
  "DMI_HARTINFO_DATAACCESS = field_mask DMI_HARTINFO_DATAACCESS_OFFSET DMI_HARTINFO_DATAACCESS_LENGTH"
  "DMI_HARTINFO_DATASIZE = field_mask DMI_HARTINFO_DATASIZE_OFFSET DMI_HARTINFO_DATASIZE_LENGTH"
  "DMI_HARTINFO_DATAADDR = field_mask DMI_HARTINFO_DATAADDR_OFFSET DMI_HARTINFO_DATAADDR_LENGTH"
  "DMI_ABSTRACTCS_PROGBUFSIZE = field_mask DMI_ABSTRACTCS_PROGBUFSIZE_OFFSET DMI_ABSTRACTCS_PROGBUFSIZE_LENGTH"
  "DMI_ABSTRACTCS_BUSY = field_mask DMI_ABSTRACTCS_BUSY_OFFSET DMI_ABSTRACTCS_BUSY_LENGTH"
  "DMI_ABSTRACTCS_CMDERR = field_mask DMI_ABSTRACTCS_CMDERR_OFFSET DMI_ABSTRACTCS_CMDERR_LENGTH"
  "DMI_ABSTRACTCS_DATACOUNT = field_mask DMI_ABSTRACTCS_DATACOUNT_OFFSET DMI_ABSTRACTCS_DATACOUNT_LENGTH"
  "DMI_ABSTRACTAUTO_AUTOEXECPROGBUF = field_mask DMI_ABSTRACTAUTO_AUTOEXECPROGBUF_OFFSET DMI_ABSTRACTAUTO_AUTOEXECPROGBUF_LENGTH"
  "DMI_ABSTRACTAUTO_AUTOEXECDATA = field_mask DMI_ABSTRACTAUTO_AUTOEXECDATA_OFFSET DMI_ABSTRACTAUTO_AUTOEXECDATA_LENGTH"
  "DMI_SBCS_SBVERSION = field_mask DMI_SBCS_SBVERSION_OFFSET DMI_SBCS_SBVERSION_LENGTH"
  "DMI_SBCS_SBREADONADDR = field_mask DMI_SBCS_SBREADONADDR_OFFSET DMI_SBCS_SBREADONADDR_LENGTH"
  "DMI_SBCS_SBACCESS = field_mask DMI_SBCS_SBACCESS_OFFSET DMI_SBCS_SBACCESS_LENGTH"
  "DMI_SBCS_SBAUTOINCREMENT = field_mask DMI_SBCS_SBAUTOINCREMENT_OFFSET DMI_SBCS_SBAUTOINCREMENT_LENGTH"
  "DMI_SBCS_SBREADONDATA = field_mask DMI_SBCS_SBREADONDATA_OFFSET DMI_SBCS_SBREADONDATA_LENGTH"
  "DMI_SBCS_SBERROR = field_mask DMI_SBCS_SBERROR_OFFSET DMI_SBCS_SBERROR_LENGTH"
  "DMI_SBCS_SBASIZE = field_mask DMI_SBCS_SBASIZE_OFFSET DMI_SBCS_SBASIZE_LENGTH"
  "DMI_SBCS_SBACCESS128 = field_mask DMI_SBCS_SBACCESS128_OFFSET DMI_SBCS_SBACCESS128_LENGTH"
  "DMI_SBCS_SBACCESS64 = field_mask DMI_SBCS_SBACCESS64_OFFSET DMI_SBCS_SBACCESS64_LENGTH"
  "DMI_SBCS_SBACCESS32 = field_mask DMI_SBCS_SBACCESS32_OFFSET DMI_SBCS_SBACCESS32_LENGTH"
  "DMI_SBCS_SBACCESS16 = field_mask DMI_SBCS_SBACCESS16_OFFSET DMI_SBCS_SBACCESS16_LENGTH"
  "DMI_SBCS_SBACCESS8 = field_mask DMI_SBCS_SBACCESS8_OFFSET DMI_SBCS_SBACCESS8_LENGTH"
  "AC_ACCESS_REGISTER_SIZE = field_mask AC_ACCESS_REGISTER_SIZE_OFFSET AC_ACCESS_REGISTER_SIZE_LENGTH"
  "AC_ACCESS_REGISTER_POSTEXEC = field_mask AC_ACCESS_REGISTER_POSTEXEC_OFFSET AC_ACCESS_REGISTER_POSTEXEC_LENGTH"
  "AC_ACCESS_REGISTER_TRANSFER = field_mask AC_ACCESS_REGISTER_TRANSFER_OFFSET AC_ACCESS_REGISTER_TRANSFER_LENGTH"
  "AC_ACCESS_REGISTER_WRITE = field_mask AC_ACCESS_REGISTER_WRITE_OFFSET AC_ACCESS_REGISTER_WRITE_LENGTH"
  "AC_ACCESS_REGISTER_REGNO = field_mask AC_ACCESS_REGISTER_REGNO_OFFSET AC_ACCESS_REGISTER_REGNO_LENGTH"
  unfolding spike_consts field_mask_def
  by (simp_all add: mask_eq_exp_minus_1)

end
