(* ===== verification/DebugModule.thy ===== *)
theory DebugModule
  imports Mmu Opcodes DebugDefines
begin

text \<open>
  The debug module (\<open>riscv/debug_module.h\<close>, \<open>riscv/debug_module.cc\<close>): the registers a debugger
  reaches through the debug module interface, the memory region harts see when they run the
  debug ROM, abstract commands, system bus access and authentication.

  The module reaches the simulator through the record \<open>dm_if\<close>: the number of harts, their
  \<open>halt_request\<close> flag, their reset, the loads and stores of \<open>debug_mmu\<close>, \<open>random\<close>, and the bytes
  of the debug ROM, whose contents are generated.  A bus access may come back to the module's own
  memory, so \<open>if_load\<close> and \<open>if_store\<close> take and return the module as well.

  An access outside one of the module's arrays, which C++ leaves undefined, and a failed
  assertion are the outcome \<open>Abort\<close>.  The lengths of the arrays of C++ are the lengths of lists.
\<close>

section \<open>State\<close>

record dmcontrol_t =
  haltreq :: bool
  resumereq :: bool
  hartsel :: u32
  hartreset :: bool
  dmactive :: bool
  ndmreset :: bool

record dmstatus_t =
  impebreak :: bool
  allhavereset :: bool
  anyhavereset :: bool
  allnonexistant :: bool
  anynonexistant :: bool
  allunavail :: bool
  anyunavail :: bool
  allrunning :: bool
  anyrunning :: bool
  allhalted :: bool
  anyhalted :: bool
  allresumeack :: bool
  anyresumeack :: bool
  authenticated :: bool
  authbusy :: bool
  cfgstrvalid :: bool
  dmstatus_version :: u32

text \<open>\<open>cmderr_t\<close> is an enumeration that a write to \<open>abstractcs\<close> fills with any three bits.\<close>

definition CMDERR_NONE :: u32 where [spike_consts]: "CMDERR_NONE = 0"
definition CMDERR_BUSY :: u32 where [spike_consts]: "CMDERR_BUSY = 1"
definition CMDERR_NOTSUP :: u32 where [spike_consts]: "CMDERR_NOTSUP = 2"
definition CMDERR_EXCEPTION :: u32 where [spike_consts]: "CMDERR_EXCEPTION = 3"
definition CMDERR_HALTRESUME :: u32 where [spike_consts]: "CMDERR_HALTRESUME = 4"

record abstractcs_t =
  busy :: bool
  datacount :: u32
  abstractcs_progbufsize :: u32
  cmderr :: u32

record abstractauto_t =
  autoexecprogbuf :: u32
  autoexecdata :: u32

record sbcs_t =
  sbcs_version :: u32
  readonaddr :: bool
  sbaccess :: u32
  autoincrement :: bool
  readondata :: bool
  sbcs_error :: u32
  asize :: u32
  access128 :: bool
  access64 :: bool
  access32 :: bool
  access16 :: bool
  access8 :: bool

text \<open>The members \<open>program_buffer_bytes\<close>, \<open>debug_progbuf_start\<close> and \<open>debug_abstract_start\<close> are
  constants computed by the constructor; they are functions of \<open>progbufsize\<close> here.\<close>

record debug_module_t =
  progbufsize :: u32
  max_bus_master_bits :: u32
  require_authentication :: bool
  custom_base :: u32
  debug_rom_whereto :: "byte list"
  debug_abstract :: "byte list"
  program_buffer :: "byte list"
  dmdata :: "byte list"
  halted_flags :: "bool list"
  resumeack :: "bool list"
  havereset :: "bool list"
  debug_rom_flags :: "byte list"
  dmcontrol :: dmcontrol_t
  dmstatus :: dmstatus_t
  abstractcs :: abstractcs_t
  abstractauto :: abstractauto_t
  command :: u32
  sbcs :: sbcs_t
  sbaddress :: "u32 list"
  sbdata :: "u32 list"
  challenge :: u32

definition datasize :: nat where "datasize = 2"
definition debug_data_start :: u32 where "debug_data_start = 0x380"
definition debug_abstract_size :: nat where "debug_abstract_size = 5"
definition hartsellen :: nat where "hartsellen = 10"
definition secret :: u32 where "secret = 1"

definition program_buffer_bytes :: "debug_module_t \<Rightarrow> u32" where
  "program_buffer_bytes m = 4 + 4 * progbufsize m"

definition debug_progbuf_start :: "debug_module_t \<Rightarrow> u32" where
  "debug_progbuf_start m = debug_data_start - program_buffer_bytes m"

definition debug_abstract_start :: "debug_module_t \<Rightarrow> u32" where
  "debug_abstract_start m = debug_progbuf_start m - of_nat debug_abstract_size * 4"

record 's dm_sys =
  dm :: debug_module_t
  sys :: 's

record 's dm_if =
  if_nprocs :: "'s \<Rightarrow> nat"
  if_present :: "nat \<Rightarrow> 's \<Rightarrow> bool"
  if_hart_id :: "nat \<Rightarrow> 's \<Rightarrow> u32"
  if_halt_request :: "nat \<Rightarrow> 's \<Rightarrow> bool"
  if_set_halt_request :: "nat \<Rightarrow> bool \<Rightarrow> 's \<Rightarrow> 's"
  if_reset_core :: "nat \<Rightarrow> 's \<Rightarrow> 's"
  if_load :: "reg_t \<Rightarrow> nat \<Rightarrow> 's dm_sys \<Rightarrow> byte list result \<times> 's dm_sys"
  if_store :: "reg_t \<Rightarrow> byte list \<Rightarrow> 's dm_sys \<Rightarrow> unit result \<times> 's dm_sys"
  if_random :: "'s \<Rightarrow> u32 \<times> 's"
  if_debug_rom :: "byte list"

definition upd_dm :: "(debug_module_t \<Rightarrow> debug_module_t) \<Rightarrow> 's dm_sys \<Rightarrow> 's dm_sys" where
  "upd_dm f s = s\<lparr>dm := f (dm s)\<rparr>"

section \<open>Memory blocks\<close>

text \<open>\<open>memcpy\<close> into and out of a member array, \<open>write32\<close>, \<open>read32\<close> and single elements.\<close>

definition copy_out :: "byte list \<Rightarrow> reg_t \<Rightarrow> nat \<Rightarrow> byte list result" where
  "copy_out buf off len =
     (if unat off + len \<le> length buf then Inr (copy_from buf (unat off) len) else Inl Abort)"

definition copy_in :: "byte list \<Rightarrow> reg_t \<Rightarrow> byte list \<Rightarrow> byte list result" where
  "copy_in buf off bs =
     (if unat off + length bs \<le> length buf then Inr (copy_into buf (unat off) bs) else Inl Abort)"

definition write32 :: "byte list \<Rightarrow> nat \<Rightarrow> u32 \<Rightarrow> byte list result" where
  "write32 memory index val =
     (let base = index * 4 in
      if base + 4 \<le> length memory then
        Inr (memory[base := ucast (val AND 0xff), base + 1 := ucast (shr val 8 AND 0xff),
          base + 2 := ucast (shr val 16 AND 0xff), base + 3 := ucast (shr val 24 AND 0xff)])
      else Inl Abort)"

definition read32 :: "byte list \<Rightarrow> nat \<Rightarrow> u32 result" where
  "read32 memory index =
     (let base = index * 4 in
      if base + 4 \<le> length memory then
        Inr (ucast (memory ! base) OR shl (ucast (memory ! (base + 1))) 8 OR
          shl (ucast (memory ! (base + 2))) 16 OR shl (ucast (memory ! (base + 3))) 24)
      else Inl Abort)"

definition elem :: "'a list \<Rightarrow> u32 \<Rightarrow> 'a result" where
  "elem xs i = (if unat i < length xs then Inr (xs ! unat i) else Inl Abort)"

definition set_elem :: "'a list \<Rightarrow> u32 \<Rightarrow> 'a \<Rightarrow> 'a list result" where
  "set_elem xs i x = (if unat i < length xs then Inr (xs[unat i := x]) else Inl Abort)"

text \<open>A step that computes from the module alone, and one that may leave an array.\<close>

definition give :: "'a \<Rightarrow> 'w \<Rightarrow> 'a result \<times> 'w" where
  "give a w = (Inr a, w)"

definition look :: "(debug_module_t \<Rightarrow> 'a result) \<Rightarrow> 's dm_sys \<Rightarrow> 'a result \<times> 's dm_sys" where
  "look f s = (f (dm s), s)"

definition modify :: "(debug_module_t \<Rightarrow> debug_module_t) \<Rightarrow> 's dm_sys \<Rightarrow> unit result \<times> 's dm_sys" where
  "modify f s = (Inr (), upd_dm f s)"

definition put :: "(debug_module_t \<Rightarrow> 'b result) \<Rightarrow> ('b \<Rightarrow> debug_module_t \<Rightarrow> debug_module_t)
    \<Rightarrow> 's dm_sys \<Rightarrow> unit result \<times> 's dm_sys" where
  "put f g s = (case f (dm s) of Inl e \<Rightarrow> (Inl e, s) | Inr b \<Rightarrow> (Inr (), upd_dm (g b) s))"

section \<open>Reset\<close>

definition dmcontrol_zero :: dmcontrol_t where
  "dmcontrol_zero = \<lparr>haltreq = False, resumereq = False, hartsel = 0, hartreset = False,
     dmactive = False, ndmreset = False\<rparr>"

definition dmstatus_zero :: dmstatus_t where
  "dmstatus_zero = \<lparr>impebreak = False, allhavereset = False, anyhavereset = False,
     allnonexistant = False, anynonexistant = False, allunavail = False, anyunavail = False,
     allrunning = False, anyrunning = False, allhalted = False, anyhalted = False,
     allresumeack = False, anyresumeack = False, authenticated = False, authbusy = False,
     cfgstrvalid = False, dmstatus_version = 0\<rparr>"

definition abstractcs_zero :: abstractcs_t where
  "abstractcs_zero = \<lparr>busy = False, datacount = 0, abstractcs_progbufsize = 0, cmderr = 0\<rparr>"

definition sbcs_zero :: sbcs_t where
  "sbcs_zero = \<lparr>sbcs_version = 0, readonaddr = False, sbaccess = 0, autoincrement = False,
     readondata = False, sbcs_error = 0, asize = 0, access128 = False, access64 = False,
     access32 = False, access16 = False, access8 = False\<rparr>"

definition clear_halt_requests :: "'s dm_if \<Rightarrow> 's \<Rightarrow> 's" where
  "clear_halt_requests I s =
     fold (\<lambda>i s. if if_present I i s then if_set_halt_request I i False s else s)
       [0..<if_nprocs I s] s"

text \<open>The registers \<open>reset\<close> assigns; the arrays keep their contents.\<close>

definition reset_registers :: "u32 \<Rightarrow> debug_module_t \<Rightarrow> debug_module_t" where
  "reset_registers random m = m\<lparr>
     dmcontrol := dmcontrol_zero,
     dmstatus := dmstatus_zero\<lparr>impebreak := True, authenticated := \<not> require_authentication m,
       dmstatus_version := 2\<rparr>,
     abstractcs := abstractcs_zero\<lparr>datacount := of_nat (length (dmdata m) div 4),
       abstractcs_progbufsize := progbufsize m\<rparr>,
     abstractauto := \<lparr>autoexecprogbuf = 0, autoexecdata = 0\<rparr>,
     sbcs := sbcs_zero\<lparr>sbcs_version := (if max_bus_master_bits m > 0 then 1 else 0),
       asize := (if max_bus_master_bits m > 0 then 64 else 0),
       access64 := max_bus_master_bits m \<ge> 64, access32 := max_bus_master_bits m \<ge> 32,
       access16 := max_bus_master_bits m \<ge> 16, access8 := max_bus_master_bits m \<ge> 8\<rparr>,
     challenge := random\<rparr>"

definition dm_reset :: "'s dm_if \<Rightarrow> 's dm_sys \<Rightarrow> 's dm_sys" where
  "dm_reset I s =
     (let (r, s') = if_random I (clear_halt_requests I (sys s))
      in \<lparr>dm = reset_registers r (dm s), sys = s'\<rparr>)"

text \<open>
  The constructor.  \<open>sbaddress\<close>, \<open>sbdata\<close> and \<open>command\<close> are not initialised by the code; they
  are arguments.  The program buffer ends in the bytes of \<open>ebreak\<close>.
\<close>

definition ebreak_bytes :: "byte list" where
  "ebreak_bytes = [ucast ebreak, ucast (shr ebreak 8), ucast (shr ebreak 16), ucast (shr ebreak 24)]"

definition dm_construct :: "'s dm_if \<Rightarrow> u32 \<Rightarrow> u32 \<Rightarrow> bool \<Rightarrow> u32 \<Rightarrow> u32 list \<Rightarrow> u32 list \<Rightarrow> 's
    \<Rightarrow> 's dm_sys result" where
  "dm_construct I psize bits auth cmd sba sbd s =
     (let m = \<lparr>progbufsize = psize, max_bus_master_bits = bits, require_authentication = auth,
        custom_base = 0, debug_rom_whereto = replicate 4 0,
        debug_abstract = replicate (debug_abstract_size * 4) 0,
        program_buffer = replicate (unat (4 + 4 * psize)) 0, dmdata = replicate (datasize * 4) 0,
        halted_flags = replicate 1024 False, resumeack = replicate 1024 False,
        havereset = replicate 1024 False, debug_rom_flags = replicate 1024 0,
        dmcontrol = dmcontrol_zero, dmstatus = dmstatus_zero, abstractcs = abstractcs_zero,
        abstractauto = \<lparr>autoexecprogbuf = 0, autoexecdata = 0\<rparr>, command = cmd, sbcs = sbcs_zero,
        sbaddress = sba, sbdata = sbd, challenge = 0\<rparr>
      in case copy_in (program_buffer m) (ucast (4 * psize)) ebreak_bytes of
           Inl e \<Rightarrow> Inl e
         | Inr pb \<Rightarrow>
        (case write32 (debug_rom_whereto m) 0
             (jal ZERO (debug_abstract_start m - ucast DEBUG_ROM_WHERETO)) of
           Inl e \<Rightarrow> Inl e
         | Inr wt \<Rightarrow>
             Inr (dm_reset I \<lparr>dm = m\<lparr>program_buffer := pb, debug_rom_whereto := wt\<rparr>, sys = s\<rparr>)))"

text \<open>A hart was reset (\<open>sim_t::proc_reset\<close> forwards the call of \<open>processor_t::reset\<close>).\<close>

definition dm_proc_reset :: "u32 \<Rightarrow> 's dm_sys \<Rightarrow> unit result \<times> 's dm_sys" where
  "dm_proc_reset i = andthen
     (put (\<lambda>m. set_elem (havereset m) i True) (\<lambda>h m. m\<lparr>havereset := h\<rparr>))
     (\<lambda>_. put (\<lambda>m. set_elem (halted_flags m) i False) (\<lambda>h m. m\<lparr>halted_flags := h\<rparr>))"

definition reset_core :: "'s dm_if \<Rightarrow> nat \<Rightarrow> 's dm_sys \<Rightarrow> unit result \<times> 's dm_sys" where
  "reset_core I i s =
     (if if_present I i (sys s) then
        dm_proc_reset (if_hart_id I i (sys s)) (s\<lparr>sys := if_reset_core I i (sys s)\<rparr>)
      else (Inl Abort, s))"

fun reset_cores :: "'s dm_if \<Rightarrow> nat list \<Rightarrow> 's dm_sys \<Rightarrow> unit result \<times> 's dm_sys" where
  "reset_cores I [] = give ()"
| "reset_cores I (i # js) = andthen (reset_core I i) (\<lambda>_. reset_cores I js)"

section \<open>The memory region of the module\<close>

definition within :: "reg_t \<Rightarrow> nat \<Rightarrow> reg_t \<Rightarrow> reg_t \<Rightarrow> bool" where
  "within addr len lo hi \<longleftrightarrow> lo \<le> addr \<and> addr + of_nat len \<le> hi"

definition some_bytes :: "byte list result \<Rightarrow> byte list option result" where
  "some_bytes r = (case r of Inl e \<Rightarrow> Inl e | Inr bs \<Rightarrow> Inr (Some bs))"

text \<open>\<open>Inr None\<close> is the answer \<open>false\<close>.  The bus subtracts \<open>DEBUG_START\<close> from the address.\<close>

definition dm_load :: "byte list \<Rightarrow> reg_t \<Rightarrow> nat \<Rightarrow> debug_module_t \<Rightarrow> byte list option result" where
  "dm_load rom addr len m =
     (let addr = DEBUG_START + addr in
      if within addr len DEBUG_ROM_ENTRY (DEBUG_ROM_ENTRY + of_nat (length rom)) then
        some_bytes (copy_out rom (addr - DEBUG_ROM_ENTRY) len)
      else if within addr len DEBUG_ROM_WHERETO (DEBUG_ROM_WHERETO + 4) then
        some_bytes (copy_out (debug_rom_whereto m) (addr - DEBUG_ROM_WHERETO) len)
      else if within addr len DEBUG_ROM_FLAGS (DEBUG_ROM_FLAGS + 1024) then
        some_bytes (copy_out (debug_rom_flags m) (addr - DEBUG_ROM_FLAGS) len)
      else if within addr len (ucast (debug_abstract_start m))
                (ucast (debug_abstract_start m) + of_nat (length (debug_abstract m))) then
        some_bytes (copy_out (debug_abstract m) (addr - ucast (debug_abstract_start m)) len)
      else if within addr len (ucast debug_data_start)
                (ucast debug_data_start + of_nat (length (dmdata m))) then
        some_bytes (copy_out (dmdata m) (addr - ucast debug_data_start) len)
      else if within addr len (ucast (debug_progbuf_start m))
                (ucast (debug_progbuf_start m + program_buffer_bytes m)) then
        some_bytes (copy_out (program_buffer m) (addr - ucast (debug_progbuf_start m)) len)
      else Inr None)"

definition FLAG_GO :: byte where "FLAG_GO = shl 1 DEBUG_ROM_FLAG_GO"
definition FLAG_RESUME :: byte where "FLAG_RESUME = shl 1 DEBUG_ROM_FLAG_RESUME"

definition set_busy :: "bool \<Rightarrow> debug_module_t \<Rightarrow> debug_module_t" where
  "set_busy b m = m\<lparr>abstractcs := (abstractcs m)\<lparr>busy := b\<rparr>\<rparr>"

definition set_cmderr :: "u32 \<Rightarrow> debug_module_t \<Rightarrow> debug_module_t" where
  "set_cmderr e m = m\<lparr>abstractcs := (abstractcs m)\<lparr>cmderr := e\<rparr>\<rparr>"

text \<open>\<open>debug_rom_flags[i] &= ~bit\<close> and \<open>debug_rom_flags[i] |= bit\<close>.\<close>

definition change_flag :: "(byte \<Rightarrow> byte) \<Rightarrow> u32 \<Rightarrow> 's dm_sys \<Rightarrow> unit result \<times> 's dm_sys" where
  "change_flag f i = put
     (\<lambda>m. case elem (debug_rom_flags m) i of Inl e \<Rightarrow> Inl e
        | Inr b \<Rightarrow> set_elem (debug_rom_flags m) i (f b))
     (\<lambda>fl m. m\<lparr>debug_rom_flags := fl\<rparr>)"

definition hart_halted :: "u32 \<Rightarrow> 's dm_sys \<Rightarrow> unit result \<times> 's dm_sys" where
  "hart_halted i = andthen
     (put (\<lambda>m. set_elem (halted_flags m) i True) (\<lambda>h m. m\<lparr>halted_flags := h\<rparr>))
     (\<lambda>_ s. if hartsel (dmcontrol (dm s)) = i then
        andthen (look (\<lambda>m. elem (debug_rom_flags m) i))
          (\<lambda>fl. if fl AND FLAG_GO = 0 then modify (set_busy False) else give ()) s
      else give () s)"

definition hart_resuming :: "u32 \<Rightarrow> 's dm_sys \<Rightarrow> unit result \<times> 's dm_sys" where
  "hart_resuming i = andthen
     (put (\<lambda>m. set_elem (halted_flags m) i False) (\<lambda>h m. m\<lparr>halted_flags := h\<rparr>))
     (\<lambda>_. andthen (put (\<lambda>m. set_elem (resumeack m) i True) (\<lambda>h m. m\<lparr>resumeack := h\<rparr>))
     (\<lambda>_. change_flag (\<lambda>b. b AND NOT FLAG_RESUME) i))"

text \<open>
  A store of the bytes \<open>bs\<close>; the answer is the \<open>bool\<close> of the code.  The hart number is read
  from the bytes only when there are four of them.
\<close>

definition dm_store :: "reg_t \<Rightarrow> byte list \<Rightarrow> 's dm_sys \<Rightarrow> bool result \<times> 's dm_sys" where
  "dm_store addr bs s =
     (let addr = DEBUG_START + addr; len = length bs; m = dm s;
          hart = (if len = 4 then (case read32 bs 0 of Inr v \<Rightarrow> v | Inl e \<Rightarrow> 0) else 0);
          answered = (\<lambda>c. andthen c (\<lambda>_. give True))
      in if within addr len (ucast debug_data_start)
             (ucast debug_data_start + of_nat (length (dmdata m))) then
           answered (put (\<lambda>m. copy_in (dmdata m) (addr - ucast debug_data_start) bs)
             (\<lambda>d m. m\<lparr>dmdata := d\<rparr>)) s
         else if within addr len (ucast (debug_progbuf_start m))
             (ucast (debug_progbuf_start m + program_buffer_bytes m)) then
           answered (put (\<lambda>m. copy_in (program_buffer m) (addr - ucast (debug_progbuf_start m)) bs)
             (\<lambda>d m. m\<lparr>program_buffer := d\<rparr>)) s
         else if addr = DEBUG_ROM_HALTED then
           (if len = 4 then answered (hart_halted hart) s else (Inl Abort, s))
         else if addr = DEBUG_ROM_GOING then
           answered (change_flag (\<lambda>b. b AND NOT FLAG_GO) (hartsel (dmcontrol m))) s
         else if addr = DEBUG_ROM_RESUMING then
           (if len = 4 then answered (hart_resuming hart) s else (Inl Abort, s))
         else if addr = DEBUG_ROM_EXCEPTION then
           answered (if cmderr (abstractcs m) = CMDERR_NONE then modify (set_cmderr CMDERR_EXCEPTION)
             else give ()) s
         else (Inr False, s))"

section \<open>System bus access\<close>

definition set_sbcs_error :: "u32 \<Rightarrow> debug_module_t \<Rightarrow> debug_module_t" where
  "set_sbcs_error e m = m\<lparr>sbcs := (sbcs m)\<lparr>sbcs_error := e\<rparr>\<rparr>"

definition set_sbdata :: "nat \<Rightarrow> u32 \<Rightarrow> debug_module_t \<Rightarrow> debug_module_t" where
  "set_sbdata i v m = m\<lparr>sbdata := (sbdata m)[i := v]\<rparr>"

definition set_sbaddress :: "nat \<Rightarrow> u32 \<Rightarrow> debug_module_t \<Rightarrow> debug_module_t" where
  "set_sbaddress i v m = m\<lparr>sbaddress := (sbaddress m)[i := v]\<rparr>"

definition sb_access_bits :: "debug_module_t \<Rightarrow> u32" where
  "sb_access_bits m = shl 8 (unat (sbaccess (sbcs m)))"

text \<open>The sums are 32-bit and only then widened to \<open>uint64_t\<close>.\<close>

definition sb_autoincrement :: "debug_module_t \<Rightarrow> debug_module_t" where
  "sb_autoincrement m =
     (if \<not> autoincrement (sbcs m) \<or> max_bus_master_bits m = 0 then m
      else
        (let val = ucast (sbaddress m ! 0 + sb_access_bits m div 8) :: reg_t;
             m = set_sbaddress 0 (ucast val) m;
             carry = ucast (shr val 32) :: u32;
             val = ucast (sbaddress m ! 1 + carry) :: reg_t;
             m = set_sbaddress 1 (ucast val) m;
             carry = ucast (shr val 32) :: u32;
             val = ucast (sbaddress m ! 2 + carry) :: reg_t;
             m = set_sbaddress 2 (ucast val) m;
             carry = ucast (shr val 32) :: u32
         in set_sbaddress 3 (sbaddress m ! 3 + carry) m))"

definition sb_address :: "debug_module_t \<Rightarrow> reg_t" where
  "sb_address m = shl (ucast (sbaddress m ! 1)) 32 OR ucast (sbaddress m ! 0)"

definition is_load_access_fault :: "exn \<Rightarrow> bool" where
  "is_load_access_fault e =
     (case e of Throw_trap (mem_trap_t c v) \<Rightarrow> c = CAUSE_LOAD_ACCESS | _ \<Rightarrow> False)"

definition catch_load_fault :: "('s dm_sys \<Rightarrow> unit result \<times> 's dm_sys) \<Rightarrow> 's dm_sys \<Rightarrow> unit result \<times> 's dm_sys" where
  "catch_load_fault c s = (case c s of
     (Inl e, s') \<Rightarrow> if is_load_access_fault e then modify (set_sbcs_error 2) s' else (Inl e, s')
   | (Inr u, s') \<Rightarrow> (Inr u, s'))"

definition sb_read :: "'s dm_if \<Rightarrow> 's dm_sys \<Rightarrow> unit result \<times> 's dm_sys" where
  "sb_read I = catch_load_fault (\<lambda>s.
     (let m = dm s; address = sb_address m; sz = sbaccess (sbcs m); bits = max_bus_master_bits m in
      if sz = 0 \<and> bits \<ge> 8 then
        andthen (if_load I address 1) (\<lambda>bs. modify (set_sbdata 0 (of_le_bytes bs))) s
      else if sz = 1 \<and> bits \<ge> 16 then
        andthen (if_load I address 2) (\<lambda>bs. modify (set_sbdata 0 (of_le_bytes bs))) s
      else if sz = 2 \<and> bits \<ge> 32 then
        andthen (if_load I address 4) (\<lambda>bs. modify (set_sbdata 0 (of_le_bytes bs))) s
      else if sz = 3 \<and> bits \<ge> 64 then
        andthen (if_load I address 4) (\<lambda>bs.
          let val = ucast (of_le_bytes bs :: u32) :: reg_t in
          modify (\<lambda>m. set_sbdata 1 (ucast (shr val 32)) (set_sbdata 0 (ucast val) m))) s
      else modify (set_sbcs_error 3) s))"

text \<open>The bytes that \<open>sb_write\<close> stores; \<open>None\<close> when the size is not supported.\<close>

definition sb_write_bytes :: "debug_module_t \<Rightarrow> byte list option" where
  "sb_write_bytes m =
     (let sz = sbaccess (sbcs m); bits = max_bus_master_bits m; data = sbdata m ! 0 in
      if sz = 0 \<and> bits \<ge> 8 then Some (le_bytes 1 data)
      else if sz = 1 \<and> bits \<ge> 16 then Some (le_bytes 2 data)
      else if sz = 2 \<and> bits \<ge> 32 then Some (le_bytes 4 data)
      else if sz = 3 \<and> bits \<ge> 64 then
        Some (le_bytes 8 (shl (ucast (sbdata m ! 1)) 32 OR ucast data :: reg_t))
      else None)"

definition sb_write :: "'s dm_if \<Rightarrow> 's dm_sys \<Rightarrow> unit result \<times> 's dm_sys" where
  "sb_write I s =
     (case sb_write_bytes (dm s) of
        Some bs \<Rightarrow> if_store I (sb_address (dm s)) bs s
      | None \<Rightarrow> modify (set_sbcs_error 3) s)"

section \<open>Abstract commands\<close>

text \<open>
  What the transfer part of a register access does: the words it writes to \<open>debug_abstract\<close>,
  from index 0 on, before it goes on or gives up with \<open>CMDERR_NOTSUP\<close>, or the access of a custom
  register, which ends the command.
\<close>

datatype transfer = Program "u32 list" | Unsupported "u32 list" | Custom u32

definition DSCRATCH :: u32 where "DSCRATCH = of_nat CSR_DSCRATCH"

definition by_size :: "u32 \<Rightarrow> u32 \<Rightarrow> u32 \<Rightarrow> transfer" where
  "by_size sz word2 word3 =
     (if sz = 2 then Program [word2] else if sz = 3 then Program [word3] else Unsupported [])"

definition csr_transfer :: "bool \<Rightarrow> u32 \<Rightarrow> u32 \<Rightarrow> transfer" where
  "csr_transfer write sz regno =
     (let data = ucast debug_data_start in
      if write then
        (if sz = 2 then Program [csrw S0 DSCRATCH, lw S0 ZERO data, csrw S0 regno, csrr S0 DSCRATCH]
         else if sz = 3 then Program [csrw S0 DSCRATCH, ld S0 ZERO data, csrw S0 regno, csrr S0 DSCRATCH]
         else Unsupported [csrw S0 DSCRATCH])
      else
        (if sz = 2 then Program [csrw S0 DSCRATCH, csrr S0 regno, sw S0 ZERO data, csrr S0 DSCRATCH]
         else if sz = 3 then Program [csrw S0 DSCRATCH, csrr S0 regno, sd S0 ZERO data, csrr S0 DSCRATCH]
         else Unsupported [csrw S0 DSCRATCH, csrr S0 regno]))"

definition transfer_of :: "u32 \<Rightarrow> bool \<Rightarrow> u32 \<Rightarrow> u32 \<Rightarrow> transfer" where
  "transfer_of psize write sz regno =
     (let data = ucast debug_data_start in
      if regno < 0x1000 \<and> psize < 2 then csr_transfer write sz regno
      else if regno \<ge> 0x1000 \<and> regno < 0x1020 then
        (let regnum = regno - 0x1000 in
         if write then by_size sz (lw regnum ZERO data) (ld regnum ZERO data)
         else by_size sz (sw regnum ZERO data) (sd regnum ZERO data))
      else if regno \<ge> 0x1020 \<and> regno < 0x1040 then
        (let fprnum = regno - 0x1020 in
         if write then by_size sz (flw fprnum ZERO data) (fld fprnum ZERO data)
         else by_size sz (fsw fprnum ZERO data) (fsd fprnum ZERO data))
      else if regno \<ge> 0xc000 \<and> regno AND 1 = 1 then Custom (regno - 0xc000)
      else Unsupported [])"

fun write_words :: "byte list \<Rightarrow> nat \<Rightarrow> u32 list \<Rightarrow> byte list result" where
  "write_words mem i [] = Inr mem"
| "write_words mem i (w # ws) =
     (case write32 mem i w of Inl e \<Rightarrow> Inl e | Inr mem' \<Rightarrow> write_words mem' (Suc i) ws)"

definition put_program :: "nat \<Rightarrow> u32 list \<Rightarrow> 's dm_sys \<Rightarrow> unit result \<times> 's dm_sys" where
  "put_program i ws = put (\<lambda>m. write_words (debug_abstract m) i ws) (\<lambda>d m. m\<lparr>debug_abstract := d\<rparr>)"

definition access_custom :: "bool \<Rightarrow> u32 \<Rightarrow> 's dm_sys \<Rightarrow> unit result \<times> 's dm_sys" where
  "access_custom write custom_number =
     andthen (modify (set_cmderr CMDERR_NONE)) (\<lambda>_.
       if write then
         put (\<lambda>m. read32 (dmdata m) 0) (\<lambda>v m. m\<lparr>custom_base := v - custom_number\<rparr>)
       else
         andthen (put (\<lambda>m. write32 (dmdata m) 0 (custom_number + custom_base m)) (\<lambda>d m. m\<lparr>dmdata := d\<rparr>))
           (\<lambda>_. put (\<lambda>m. write32 (dmdata m) 1 0) (\<lambda>d m. m\<lparr>dmdata := d\<rparr>)))"

definition last_word :: "debug_module_t \<Rightarrow> nat \<Rightarrow> u32" where
  "last_word m i =
     (if truth (get_field (command m) AC_ACCESS_REGISTER_POSTEXEC) then
        jal ZERO (debug_progbuf_start m - debug_abstract_start m - 4 * of_nat i)
      else ebreak)"

text \<open>Ends the program at index \<open>i\<close>, tells the selected hart to go and marks the command busy.\<close>

definition launch :: "nat \<Rightarrow> 's dm_sys \<Rightarrow> unit result \<times> 's dm_sys" where
  "launch i =
     andthen (put (\<lambda>m. write32 (debug_abstract m) i (last_word m i)) (\<lambda>d m. m\<lparr>debug_abstract := d\<rparr>))
       (\<lambda>_ s. andthen (change_flag (\<lambda>b. b OR FLAG_GO) (hartsel (dmcontrol (dm s))))
         (\<lambda>_. modify (set_busy True)) s)"

definition perform_abstract_command :: "'s dm_sys \<Rightarrow> unit result \<times> 's dm_sys" where
  "perform_abstract_command s =
     (let m = dm s; cmd = command m in
      if cmderr (abstractcs m) \<noteq> CMDERR_NONE then give () s
      else if busy (abstractcs m) then modify (set_cmderr CMDERR_BUSY) s
      else if shr cmd 24 = 0 then
        andthen (look (\<lambda>m. elem (halted_flags m) (hartsel (dmcontrol m))))
          (\<lambda>h. if \<not> h then modify (set_cmderr CMDERR_HALTRESUME)
            else if truth (get_field cmd AC_ACCESS_REGISTER_TRANSFER) then
              (let write = truth (get_field cmd AC_ACCESS_REGISTER_WRITE) in
               case transfer_of (progbufsize m) write (get_field cmd AC_ACCESS_REGISTER_SIZE)
                      (get_field cmd AC_ACCESS_REGISTER_REGNO) of
                 Program ws \<Rightarrow> andthen (put_program 0 ws) (\<lambda>_. launch (length ws))
               | Unsupported ws \<Rightarrow> andthen (put_program 0 ws) (\<lambda>_. modify (set_cmderr CMDERR_NOTSUP))
               | Custom n \<Rightarrow> access_custom write n)
            else launch 0) s
      else modify (set_cmderr CMDERR_NOTSUP) s)"

section \<open>Reads of the debug module interface\<close>

definition current_proc :: "'s dm_if \<Rightarrow> 's dm_sys \<Rightarrow> nat option" where
  "current_proc I s =
     (let i = unat (hartsel (dmcontrol (dm s)))
      in if i < if_nprocs I (sys s) \<and> if_present I i (sys s) then Some i else None)"

text \<open>A register is assembled by successive \<open>set_field\<close> calls on 0.\<close>

definition with_fields :: "(u32 \<times> u32) list \<Rightarrow> u32" where
  "with_fields fs = fold (\<lambda>(msk, v) r. set_field r msk v) fs 0"

definition dmcontrol_image :: "dmcontrol_t \<Rightarrow> u32" where
  "dmcontrol_image c = with_fields
     [(DMI_DMCONTROL_HALTREQ, of_bool_word (haltreq c)),
      (DMI_DMCONTROL_RESUMEREQ, of_bool_word (resumereq c)),
      (DMI_DMCONTROL_HARTSELHI, shr (hartsel c) DMI_DMCONTROL_HARTSELLO_LENGTH),
      (DMI_DMCONTROL_HARTSELLO, hartsel c),
      (DMI_DMCONTROL_HARTRESET, of_bool_word (hartreset c)),
      (DMI_DMCONTROL_NDMRESET, of_bool_word (ndmreset c)),
      (DMI_DMCONTROL_DMACTIVE, of_bool_word (dmactive c))]"

definition read_dmcontrol :: "'s dm_if \<Rightarrow> 's dm_sys \<Rightarrow> u32 result \<times> 's dm_sys" where
  "read_dmcontrol I s =
     (let s = (case current_proc I s of None \<Rightarrow> s
        | Some i \<Rightarrow> upd_dm (\<lambda>m. m\<lparr>dmcontrol := (dmcontrol m)\<lparr>haltreq := if_halt_request I i (sys s)\<rparr>\<rparr>) s)
      in (Inr (dmcontrol_image (dmcontrol (dm s))), s))"

text \<open>The status bits of the selected hart; \<open>anyresumeack\<close> keeps its value.\<close>

definition refresh_dmstatus :: "bool option \<Rightarrow> bool \<Rightarrow> dmstatus_t \<Rightarrow> dmstatus_t" where
  "refresh_dmstatus hlt ack st =
     (let st = st\<lparr>allnonexistant := hlt = None, allunavail := False, allrunning := hlt = Some False,
        allhalted := hlt = Some True, allresumeack := hlt \<noteq> None \<and> ack\<rparr>
      in st\<lparr>anynonexistant := allnonexistant st, anyunavail := allunavail st,
        anyrunning := allrunning st, anyhalted := allhalted st\<rparr>)"

definition dmstatus_image :: "bool \<Rightarrow> dmstatus_t \<Rightarrow> u32" where
  "dmstatus_image hr st = with_fields
     [(DMI_DMSTATUS_IMPEBREAK, of_bool_word (impebreak st)),
      (DMI_DMSTATUS_ALLHAVERESET, of_bool_word hr),
      (DMI_DMSTATUS_ANYHAVERESET, of_bool_word hr),
      (DMI_DMSTATUS_ALLNONEXISTENT, of_bool_word (allnonexistant st)),
      (DMI_DMSTATUS_ALLUNAVAIL, of_bool_word (allunavail st)),
      (DMI_DMSTATUS_ALLRUNNING, of_bool_word (allrunning st)),
      (DMI_DMSTATUS_ALLHALTED, of_bool_word (allhalted st)),
      (DMI_DMSTATUS_ALLRESUMEACK, of_bool_word (allresumeack st)),
      (DMI_DMSTATUS_ANYNONEXISTENT, of_bool_word (anynonexistant st)),
      (DMI_DMSTATUS_ANYUNAVAIL, of_bool_word (anyunavail st)),
      (DMI_DMSTATUS_ANYRUNNING, of_bool_word (anyrunning st)),
      (DMI_DMSTATUS_ANYHALTED, of_bool_word (anyhalted st)),
      (DMI_DMSTATUS_ANYRESUMEACK, of_bool_word (anyresumeack st)),
      (DMI_DMSTATUS_AUTHENTICATED, of_bool_word (authenticated st)),
      (DMI_DMSTATUS_AUTHBUSY, of_bool_word (authbusy st)),
      (DMI_DMSTATUS_VERSION, dmstatus_version st)]"

definition read_dmstatus :: "'s dm_if \<Rightarrow> 's dm_sys \<Rightarrow> u32 result \<times> 's dm_sys" where
  "read_dmstatus I s =
     andthen (case current_proc I s of
         None \<Rightarrow> modify (\<lambda>m. m\<lparr>dmstatus := refresh_dmstatus None False (dmstatus m)\<rparr>)
       | Some i \<Rightarrow>
           andthen (look (\<lambda>m. elem (halted_flags m) (hartsel (dmcontrol m)))) (\<lambda>h.
           andthen (look (\<lambda>m. elem (resumeack m) (hartsel (dmcontrol m)))) (\<lambda>ack.
           modify (\<lambda>m. m\<lparr>dmstatus := refresh_dmstatus (Some h) ack (dmstatus m)\<rparr>))))
     (\<lambda>_. andthen (look (\<lambda>m. elem (havereset m) (hartsel (dmcontrol m)))) (\<lambda>hr s.
       give (dmstatus_image hr (dmstatus (dm s))) s)) s"

definition abstractcs_image :: "abstractcs_t \<Rightarrow> u32" where
  "abstractcs_image a = with_fields
     [(DMI_ABSTRACTCS_CMDERR, cmderr a), (DMI_ABSTRACTCS_BUSY, of_bool_word (busy a)),
      (DMI_ABSTRACTCS_DATACOUNT, datacount a), (DMI_ABSTRACTCS_PROGBUFSIZE, abstractcs_progbufsize a)]"

definition abstractauto_image :: "abstractauto_t \<Rightarrow> u32" where
  "abstractauto_image a = with_fields
     [(DMI_ABSTRACTAUTO_AUTOEXECPROGBUF, autoexecprogbuf a), (DMI_ABSTRACTAUTO_AUTOEXECDATA, autoexecdata a)]"

definition hartinfo_image :: "abstractcs_t \<Rightarrow> u32" where
  "hartinfo_image a = with_fields
     [(DMI_HARTINFO_NSCRATCH, 1), (DMI_HARTINFO_DATAACCESS, 1), (DMI_HARTINFO_DATASIZE, datacount a),
      (DMI_HARTINFO_DATAADDR, debug_data_start)]"

definition sbcs_image :: "sbcs_t \<Rightarrow> u32" where
  "sbcs_image c = with_fields
     [(DMI_SBCS_SBVERSION, sbcs_version c), (DMI_SBCS_SBREADONADDR, of_bool_word (readonaddr c)),
      (DMI_SBCS_SBACCESS, sbaccess c), (DMI_SBCS_SBAUTOINCREMENT, of_bool_word (autoincrement c)),
      (DMI_SBCS_SBREADONDATA, of_bool_word (readondata c)), (DMI_SBCS_SBERROR, sbcs_error c),
      (DMI_SBCS_SBASIZE, asize c), (DMI_SBCS_SBACCESS128, of_bool_word (access128 c)),
      (DMI_SBCS_SBACCESS64, of_bool_word (access64 c)), (DMI_SBCS_SBACCESS32, of_bool_word (access32 c)),
      (DMI_SBCS_SBACCESS16, of_bool_word (access16 c)), (DMI_SBCS_SBACCESS8, of_bool_word (access8 c))]"

text \<open>\<open>sbdata0\<close>: the old value is returned, then the address advances and the next word is read.\<close>

definition read_sbdata0 :: "'s dm_if \<Rightarrow> 's dm_sys \<Rightarrow> u32 result \<times> 's dm_sys" where
  "read_sbdata0 I s =
     (let result = sbdata (dm s) ! 0 in
      if sbcs_error (sbcs (dm s)) = 0 then
        andthen (modify sb_autoincrement)
          (\<lambda>_ s. andthen (if readondata (sbcs (dm s)) then sb_read I else give ()) (\<lambda>_. give result) s) s
      else give result s)"

text \<open>The bits of \<open>autoexecdata\<close> and \<open>autoexecprogbuf\<close> repeat the command on an access.\<close>

definition autoexec :: "u32 \<Rightarrow> nat \<Rightarrow> 's dm_sys \<Rightarrow> unit result \<times> 's dm_sys" where
  "autoexec flags i s =
     (if \<not> busy (abstractcs (dm s)) \<and> truth (shr flags i AND 1) then perform_abstract_command s
      else give () s)"

definition note_busy :: "debug_module_t \<Rightarrow> debug_module_t" where
  "note_busy m =
     (if busy (abstractcs m) \<and> cmderr (abstractcs m) = CMDERR_NONE then set_cmderr CMDERR_BUSY m else m)"

definition busy_or :: "u32 \<Rightarrow> debug_module_t \<Rightarrow> u32" where
  "busy_or v m = (if busy (abstractcs m) then - 1 else v)"

text \<open>\<open>None\<close> is the answer \<open>false\<close>, which leaves \<open>*value\<close> alone.\<close>

definition answer :: "('s dm_sys \<Rightarrow> u32 result \<times> 's dm_sys) \<Rightarrow> 's dm_sys \<Rightarrow> u32 option result \<times> 's dm_sys" where
  "answer c = andthen c (\<lambda>v. give (Some v))"

definition dmi_read :: "'s dm_if \<Rightarrow> u32 \<Rightarrow> 's dm_sys \<Rightarrow> u32 option result \<times> 's dm_sys" where
  "dmi_read I address s =
     (let m = dm s; now = (\<lambda>v. answer (give v)) in
      if address \<ge> DMI_DATA0 \<and> address < DMI_DATA0 + datacount (abstractcs m) then
        (let i = unat (address - DMI_DATA0) in
         andthen (look (\<lambda>m. read32 (dmdata m) i)) (\<lambda>v s.
         let result = busy_or v (dm s) in
         andthen (modify note_busy) (\<lambda>_ s.
         andthen (autoexec (autoexecdata (abstractauto (dm s))) i) (\<lambda>_. give (Some result)) s) s) s)
      else if address \<ge> DMI_PROGBUF0 \<and> address < DMI_PROGBUF0 + progbufsize m then
        (let i = unat (address - DMI_PROGBUF0) in
         andthen (look (\<lambda>m. read32 (program_buffer m) i)) (\<lambda>v s.
         let result = busy_or v (dm s) in
         andthen (autoexec (autoexecprogbuf (abstractauto (dm s))) i) (\<lambda>_. give (Some result)) s) s)
      else if address = DMI_DMCONTROL then answer (read_dmcontrol I) s
      else if address = DMI_DMSTATUS then answer (read_dmstatus I) s
      else if address = DMI_ABSTRACTCS then now (abstractcs_image (abstractcs m)) s
      else if address = DMI_ABSTRACTAUTO then now (abstractauto_image (abstractauto m)) s
      else if address = DMI_COMMAND then now 0 s
      else if address = DMI_HARTINFO then now (hartinfo_image (abstractcs m)) s
      else if address = DMI_SBCS then now (sbcs_image (sbcs m)) s
      else if address = DMI_SBADDRESS0 then now (sbaddress m ! 0) s
      else if address = DMI_SBADDRESS1 then now (sbaddress m ! 1) s
      else if address = DMI_SBADDRESS2 then now (sbaddress m ! 2) s
      else if address = DMI_SBADDRESS3 then now (sbaddress m ! 3) s
      else if address = DMI_SBDATA0 then answer (read_sbdata0 I) s
      else if address = DMI_SBDATA1 then now (sbdata m ! 1) s
      else if address = DMI_SBDATA2 then now (sbdata m ! 2) s
      else if address = DMI_SBDATA3 then now (sbdata m ! 3) s
      else if address = DMI_AUTHDATA then now (challenge m) s
      else give None s)"

section \<open>Writes of the debug module interface\<close>

definition set_dmactive :: "bool \<Rightarrow> debug_module_t \<Rightarrow> debug_module_t" where
  "set_dmactive b m = m\<lparr>dmcontrol := (dmcontrol m)\<lparr>dmactive := b\<rparr>\<rparr>"

definition dmcontrol_fields :: "u32 \<Rightarrow> dmcontrol_t \<Rightarrow> dmcontrol_t" where
  "dmcontrol_fields v c = c\<lparr>
     haltreq := truth (get_field v DMI_DMCONTROL_HALTREQ),
     resumereq := truth (get_field v DMI_DMCONTROL_RESUMEREQ),
     hartreset := truth (get_field v DMI_DMCONTROL_HARTRESET),
     ndmreset := truth (get_field v DMI_DMCONTROL_NDMRESET),
     hartsel := (shl (get_field v DMI_DMCONTROL_HARTSELHI) DMI_DMCONTROL_HARTSELLO_LENGTH
       OR get_field v DMI_DMCONTROL_HARTSELLO) AND (shl 1 hartsellen - 1)\<rparr>"

definition select_hart :: "u32 \<Rightarrow> 's dm_sys \<Rightarrow> unit result \<times> 's dm_sys" where
  "select_hart v = andthen (modify (\<lambda>m. m\<lparr>dmcontrol := dmcontrol_fields v (dmcontrol m)\<rparr>)) (\<lambda>_.
     if truth (get_field v DMI_DMCONTROL_ACKHAVERESET) then
       put (\<lambda>m. set_elem (havereset m) (hartsel (dmcontrol m)) False) (\<lambda>h m. m\<lparr>havereset := h\<rparr>)
     else give ())"

definition request_resume :: "'s dm_sys \<Rightarrow> unit result \<times> 's dm_sys" where
  "request_resume s = andthen (change_flag (\<lambda>b. b OR FLAG_RESUME) (hartsel (dmcontrol (dm s)))) (\<lambda>_.
     put (\<lambda>m. set_elem (resumeack m) (hartsel (dmcontrol m)) False) (\<lambda>h m. m\<lparr>resumeack := h\<rparr>)) s"

definition control_hart :: "'s dm_if \<Rightarrow> 's dm_sys \<Rightarrow> unit result \<times> 's dm_sys" where
  "control_hart I s = (case current_proc I s of
     None \<Rightarrow> give () s
   | Some i \<Rightarrow>
      (let s = s\<lparr>sys := if_set_halt_request I i (haltreq (dmcontrol (dm s))) (sys s)\<rparr>
       in andthen (if resumereq (dmcontrol (dm s)) then request_resume else give ())
            (\<lambda>_ s. (if hartreset (dmcontrol (dm s)) then reset_core I i else give ()) s) s))"

definition write_dmcontrol :: "'s dm_if \<Rightarrow> u32 \<Rightarrow> 's dm_sys \<Rightarrow> unit result \<times> 's dm_sys" where
  "write_dmcontrol I v s =
     (let active = truth (get_field v DMI_DMCONTROL_DMACTIVE);
          s = (if \<not> dmactive (dmcontrol (dm s)) \<and> active then dm_reset I s else s);
          s = upd_dm (set_dmactive active) s
      in if \<not> authenticated (dmstatus (dm s)) then give () s
         else andthen (if dmactive (dmcontrol (dm s)) then select_hart v else give ()) (\<lambda>_.
              andthen (control_hart I) (\<lambda>_ s.
              (if ndmreset (dmcontrol (dm s)) then reset_cores I [0..<if_nprocs I (sys s)] else give ()) s)) s)"

definition sbcs_fields :: "u32 \<Rightarrow> sbcs_t \<Rightarrow> sbcs_t" where
  "sbcs_fields v c = c\<lparr>
     readonaddr := truth (get_field v DMI_SBCS_SBREADONADDR),
     sbaccess := get_field v DMI_SBCS_SBACCESS,
     autoincrement := truth (get_field v DMI_SBCS_SBAUTOINCREMENT),
     readondata := truth (get_field v DMI_SBCS_SBREADONDATA),
     sbcs_error := sbcs_error c AND NOT (get_field v DMI_SBCS_SBERROR)\<rparr>"

definition write_sbaddress0 :: "'s dm_if \<Rightarrow> u32 \<Rightarrow> 's dm_sys \<Rightarrow> unit result \<times> 's dm_sys" where
  "write_sbaddress0 I v = andthen (modify (set_sbaddress 0 v)) (\<lambda>_ s.
     (if sbcs_error (sbcs (dm s)) = 0 \<and> readonaddr (sbcs (dm s)) then sb_read I else give ()) s)"

definition write_sbdata0 :: "'s dm_if \<Rightarrow> u32 \<Rightarrow> 's dm_sys \<Rightarrow> unit result \<times> 's dm_sys" where
  "write_sbdata0 I v = andthen (modify (set_sbdata 0 v)) (\<lambda>_ s.
     (if sbcs_error (sbcs (dm s)) = 0 then
        andthen (sb_write I) (\<lambda>_ s.
          (if autoincrement (sbcs (dm s)) \<and> sbcs_error (sbcs (dm s)) = 0 then modify sb_autoincrement
           else give ()) s)
      else give ()) s)"

definition write_authdata :: "'s dm_if \<Rightarrow> u32 \<Rightarrow> 's dm_sys \<Rightarrow> 's dm_sys" where
  "write_authdata I v s =
     (let m = dm s in
      if require_authentication m then
        (if v = challenge m + secret then upd_dm (\<lambda>m. m\<lparr>dmstatus := (dmstatus m)\<lparr>authenticated := True\<rparr>\<rparr>) s
         else
           (let (r, s') = if_random I (sys s)
            in \<lparr>dm = m\<lparr>dmstatus := (dmstatus m)\<lparr>authenticated := False\<rparr>, challenge := r\<rparr>, sys = s'\<rparr>))
      else s)"

definition accepted :: "('s dm_sys \<Rightarrow> unit result \<times> 's dm_sys) \<Rightarrow> 's dm_sys \<Rightarrow> bool result \<times> 's dm_sys" where
  "accepted c = andthen c (\<lambda>_. give True)"

definition dmi_write :: "'s dm_if \<Rightarrow> u32 \<Rightarrow> u32 \<Rightarrow> 's dm_sys \<Rightarrow> bool result \<times> 's dm_sys" where
  "dmi_write I address v s =
     (let m = dm s in
      if \<not> authenticated (dmstatus m) \<and> address \<noteq> DMI_AUTHDATA \<and> address \<noteq> DMI_DMCONTROL then
        give False s
      else if address \<ge> DMI_DATA0 \<and> address < DMI_DATA0 + datacount (abstractcs m) then
        (let i = unat (address - DMI_DATA0) in
         accepted (andthen (if busy (abstractcs m) then give ()
             else put (\<lambda>m. write32 (dmdata m) i v) (\<lambda>d m. m\<lparr>dmdata := d\<rparr>)) (\<lambda>_.
           andthen (modify note_busy) (\<lambda>_ s. autoexec (autoexecdata (abstractauto (dm s))) i s))) s)
      else if address \<ge> DMI_PROGBUF0 \<and> address < DMI_PROGBUF0 + progbufsize m then
        (let i = unat (address - DMI_PROGBUF0) in
         accepted (andthen (if busy (abstractcs m) then give ()
             else put (\<lambda>m. write32 (program_buffer m) i v) (\<lambda>d m. m\<lparr>program_buffer := d\<rparr>)) (\<lambda>_ s.
           autoexec (autoexecprogbuf (abstractauto (dm s))) i s)) s)
      else if address = DMI_DMCONTROL then accepted (write_dmcontrol I v) s
      else if address = DMI_COMMAND then
        accepted (andthen (modify (\<lambda>m. m\<lparr>command := v\<rparr>)) (\<lambda>_. perform_abstract_command)) s
      else if address = DMI_ABSTRACTCS then
        accepted (modify (\<lambda>m. set_cmderr (cmderr (abstractcs m) AND NOT (get_field v DMI_ABSTRACTCS_CMDERR)) m)) s
      else if address = DMI_ABSTRACTAUTO then
        accepted (modify (\<lambda>m. m\<lparr>abstractauto := \<lparr>
          autoexecprogbuf = get_field v DMI_ABSTRACTAUTO_AUTOEXECPROGBUF,
          autoexecdata = get_field v DMI_ABSTRACTAUTO_AUTOEXECDATA\<rparr>\<rparr>)) s
      else if address = DMI_SBCS then accepted (modify (\<lambda>m. m\<lparr>sbcs := sbcs_fields v (sbcs m)\<rparr>)) s
      else if address = DMI_SBADDRESS0 then accepted (write_sbaddress0 I v) s
      else if address = DMI_SBADDRESS1 then accepted (modify (set_sbaddress 1 v)) s
      else if address = DMI_SBADDRESS2 then accepted (modify (set_sbaddress 2 v)) s
      else if address = DMI_SBADDRESS3 then accepted (modify (set_sbaddress 3 v)) s
      else if address = DMI_SBDATA0 then accepted (write_sbdata0 I v) s
      else if address = DMI_SBDATA1 then accepted (modify (set_sbdata 1 v)) s
      else if address = DMI_SBDATA2 then accepted (modify (set_sbdata 2 v)) s
      else if address = DMI_SBDATA3 then accepted (modify (set_sbdata 3 v)) s
      else if address = DMI_AUTHDATA then (Inr True, write_authdata I v s)
      else give False s)"

end
