(* ===== verification/DebugLaws.thy ===== *)
theory DebugLaws
  imports DebugModule
begin

text \<open>
  What the debug module guarantees.  The contract of the simulator behind it is the locale
  \<open>debug_host\<close>; inside it every operation keeps the shape of the module's arrays and never leaves
  them, which gives the invariant of all runs.  The other parts are authentication, the programs
  and the life cycle of abstract commands, \<open>dmcontrol\<close> and system bus access.
\<close>

named_theorems keeping "operations that keep the module well formed"

section \<open>Shape of the module\<close>

text \<open>
  The lengths of the arrays, a selected hart inside them, and a program buffer of at most 16
  words, the number of \<open>progbuf\<close> registers of the debug module interface.
\<close>

definition dm_wf :: "debug_module_t \<Rightarrow> bool" where
  "dm_wf m \<longleftrightarrow> progbufsize m \<le> 16 \<and> length (debug_rom_whereto m) = 4 \<and>
     length (debug_abstract m) = debug_abstract_size * 4 \<and>
     length (program_buffer m) = 4 + 4 * unat (progbufsize m) \<and> length (dmdata m) = datasize * 4 \<and>
     length (halted_flags m) = 1024 \<and> length (resumeack m) = 1024 \<and> length (havereset m) = 1024 \<and>
     length (debug_rom_flags m) = 1024 \<and> unat (hartsel (dmcontrol m)) < 1024 \<and>
     datacount (abstractcs m) = of_nat datasize \<and> length (sbaddress m) = 4 \<and> length (sbdata m) = 4"

lemma dm_wf_simps [simp]:
  "dm_wf (set_busy b m) = dm_wf m" "dm_wf (set_cmderr e m) = dm_wf m"
  "dm_wf (set_sbcs_error e m) = dm_wf m" "dm_wf (set_sbdata i v m) = dm_wf m"
  "dm_wf (set_sbaddress i v m) = dm_wf m" "dm_wf (set_dmactive b m) = dm_wf m"
  "dm_wf (m\<lparr>dmstatus := st\<rparr>) = dm_wf m" "dm_wf (m\<lparr>command := c\<rparr>) = dm_wf m"
  "dm_wf (m\<lparr>sbcs := bc\<rparr>) = dm_wf m" "dm_wf (m\<lparr>abstractauto := aa\<rparr>) = dm_wf m"
  "dm_wf (m\<lparr>custom_base := cb\<rparr>) = dm_wf m" "dm_wf (m\<lparr>challenge := ch\<rparr>) = dm_wf m"
  "dm_wf (m\<lparr>dmcontrol := (dmcontrol m)\<lparr>haltreq := b\<rparr>\<rparr>) = dm_wf m"
  by (simp_all add: dm_wf_def set_busy_def set_cmderr_def set_sbcs_error_def set_sbdata_def
      set_sbaddress_def set_dmactive_def)

text \<open>What a computation may do: keep a property of the module and of the host, without \<open>Abort\<close>.\<close>

definition keeps :: "('s \<Rightarrow> bool) \<Rightarrow> ('s dm_sys \<Rightarrow> 'a result \<times> 's dm_sys) \<Rightarrow> bool" where
  "keeps good c \<longleftrightarrow> (\<forall>s. good (sys s) \<longrightarrow> dm_wf (dm s) \<longrightarrow>
     fst (c s) \<noteq> Inl Abort \<and> good (sys (snd (c s))) \<and> dm_wf (dm (snd (c s))))"

lemma keepsI:
  "(\<And>s. good (sys s) \<Longrightarrow> dm_wf (dm s) \<Longrightarrow>
     fst (c s) \<noteq> Inl Abort \<and> good (sys (snd (c s))) \<and> dm_wf (dm (snd (c s)))) \<Longrightarrow> keeps good c"
  by (simp add: keeps_def)

lemma keepsD:
  "keeps good c \<Longrightarrow> good (sys s) \<Longrightarrow> dm_wf (dm s) \<Longrightarrow>
     fst (c s) \<noteq> Inl Abort \<and> good (sys (snd (c s))) \<and> dm_wf (dm (snd (c s)))"
  by (simp add: keeps_def)

definition fine :: "('s \<Rightarrow> bool) \<Rightarrow> 'a result \<times> 's dm_sys \<Rightarrow> bool" where
  "fine good p \<longleftrightarrow> fst p \<noteq> Inl Abort \<and> good (sys (snd p)) \<and> dm_wf (dm (snd p))"

lemma fine_if: "fine good p \<Longrightarrow> fine good q \<Longrightarrow> fine good (if b then p else q)"
  by simp

lemma keeps_fine: "good (sys s) \<Longrightarrow> dm_wf (dm s) \<Longrightarrow> keeps good c \<Longrightarrow> fine good (c s)"
  by (simp add: keeps_def fine_def)

lemma keeps_by_fine: "(\<And>s. good (sys s) \<Longrightarrow> dm_wf (dm s) \<Longrightarrow> fine good (c s)) \<Longrightarrow> keeps good c"
  by (simp add: keeps_def fine_def)

lemma keeps_andthen [keeping]:
  fixes good :: "'s \<Rightarrow> bool"
  assumes "keeps good c" "\<And>a. keeps good (f a)"
  shows "keeps good (andthen c f)"
proof (rule keepsI)
  fix s :: "'s dm_sys" assume "good (sys s)" "dm_wf (dm s)"
  with keepsD [OF assms(1)] have *: "fst (c s) \<noteq> Inl Abort" "good (sys (snd (c s)))" "dm_wf (dm (snd (c s)))"
    by auto
  show "fst (andthen c f s) \<noteq> Inl Abort \<and> good (sys (snd (andthen c f s))) \<and> dm_wf (dm (snd (andthen c f s)))"
    using * keepsD [OF assms(2) *(2) *(3)]
    by (cases "c s"; cases "fst (c s)") (auto simp: andthen_def)
qed

text \<open>A computation that inspects the state before it chooses.\<close>

lemma keeps_by_state: "(\<And>s. keeps good (F s)) \<Longrightarrow> keeps good (\<lambda>s. F s s)"
  unfolding keeps_def by blast

lemma keeps_if [keeping]:
  "keeps good c \<Longrightarrow> keeps good d \<Longrightarrow> keeps good (if b then c else d)"
  "keeps good c \<Longrightarrow> keeps good d \<Longrightarrow> keeps good (\<lambda>s. (if b' s then c else d) s)"
  "keeps good c' \<Longrightarrow> keeps good d' \<Longrightarrow> keeps good (\<lambda>s. if b' s then c' s else d' s)"
  by (simp, (rule keepsI, simp add: keepsD)+)

lemma keeps_andthen_by_state [keeping]:
  "(\<And>s. keeps good (c s)) \<Longrightarrow> (\<And>s a. keeps good (f s a)) \<Longrightarrow> keeps good (\<lambda>s. andthen (c s) (f s) s)"
  by (rule keeps_by_state, rule keeps_andthen)

lemma keeps_give [keeping]: "keeps good (give a)" "keeps good (\<lambda>s. give (g s) s)"
  by (simp_all add: keeps_def give_def)

lemma keeps_modify [keeping]: "(\<And>m. dm_wf m \<Longrightarrow> dm_wf (f m)) \<Longrightarrow> keeps good (modify f)"
  by (simp add: keeps_def modify_def upd_dm_def)

lemma keeps_look [keeping]: "(\<And>m. dm_wf m \<Longrightarrow> f m \<noteq> Inl Abort) \<Longrightarrow> keeps good (look f)"
  by (simp add: keeps_def look_def)

lemma keeps_put [keeping]:
  "(\<And>m. dm_wf m \<Longrightarrow> \<exists>b. f m = Inr b \<and> dm_wf (g b m)) \<Longrightarrow> keeps good (put f g)"
  by (rule keepsI) (fastforce simp: put_def upd_dm_def)

lemma write32_wf:
  "4 * i + 4 \<le> length mem \<Longrightarrow> \<exists>mem'. write32 mem i v = Inr mem' \<and> length mem' = length mem"
  by (simp add: write32_def Let_def mult.commute)

lemma write_words_wf:
  "4 * (i + length ws) \<le> length mem \<Longrightarrow> \<exists>mem'. write_words mem i ws = Inr mem' \<and> length mem' = length mem"
proof (induction ws arbitrary: i mem)
  case (Cons w ws)
  then obtain mem' where m: "write32 mem i w = Inr mem'" "length mem' = length mem"
    using write32_wf [of i mem w] by auto
  with Cons.IH [of "Suc i" mem'] Cons.prems show ?case by auto
qed simp

lemma read32_wf: "4 * i + 4 \<le> length mem \<Longrightarrow> \<exists>v. read32 mem i = Inr v"
  by (simp add: read32_def Let_def mult.commute)

lemma set_elem_wf: "unat i < length xs \<Longrightarrow> set_elem xs i x = Inr (xs[unat i := x])"
  by (simp add: set_elem_def)

lemma elem_wf: "unat i < length xs \<Longrightarrow> elem xs i = Inr (xs ! unat i)"
  by (simp add: elem_def)

section \<open>Operations on the module alone\<close>

lemma wf_lengths:
  "dm_wf m \<Longrightarrow> length (debug_abstract m) = 20" "dm_wf m \<Longrightarrow> length (dmdata m) = 8"
  "dm_wf m \<Longrightarrow> length (program_buffer m) = 4 + 4 * unat (progbufsize m)"
  "dm_wf m \<Longrightarrow> length (debug_rom_whereto m) = 4" "dm_wf m \<Longrightarrow> length (debug_rom_flags m) = 1024"
  "dm_wf m \<Longrightarrow> length (halted_flags m) = 1024" "dm_wf m \<Longrightarrow> length (resumeack m) = 1024"
  "dm_wf m \<Longrightarrow> length (havereset m) = 1024" "dm_wf m \<Longrightarrow> unat (hartsel (dmcontrol m)) < 1024"
  "dm_wf m \<Longrightarrow> datacount (abstractcs m) = 2" "dm_wf m \<Longrightarrow> progbufsize m \<le> 16"
  by (simp_all add: dm_wf_def debug_abstract_size_def datasize_def)

lemma dm_wf_put [simp]:
  "dm_wf m \<Longrightarrow> length xs = 20 \<Longrightarrow> dm_wf (m\<lparr>debug_abstract := xs\<rparr>)"
  "dm_wf m \<Longrightarrow> length xs = 8 \<Longrightarrow> dm_wf (m\<lparr>dmdata := xs\<rparr>)"
  "dm_wf m \<Longrightarrow> length xs = 4 + 4 * unat (progbufsize m) \<Longrightarrow> dm_wf (m\<lparr>program_buffer := xs\<rparr>)"
  "dm_wf m \<Longrightarrow> length xs = 1024 \<Longrightarrow> dm_wf (m\<lparr>debug_rom_flags := xs\<rparr>)"
  "dm_wf m \<Longrightarrow> length bs = 1024 \<Longrightarrow> dm_wf (m\<lparr>halted_flags := bs\<rparr>)"
  "dm_wf m \<Longrightarrow> length bs = 1024 \<Longrightarrow> dm_wf (m\<lparr>resumeack := bs\<rparr>)"
  "dm_wf m \<Longrightarrow> length bs = 1024 \<Longrightarrow> dm_wf (m\<lparr>havereset := bs\<rparr>)"
  by (simp_all add: dm_wf_def debug_abstract_size_def datasize_def)

lemma keeps_flags [keeping]:
  "unat i < 1024 \<Longrightarrow> keeps good (put (\<lambda>m. set_elem (halted_flags m) i b) (\<lambda>h m. m\<lparr>halted_flags := h\<rparr>))"
  "unat i < 1024 \<Longrightarrow> keeps good (put (\<lambda>m. set_elem (resumeack m) i b) (\<lambda>h m. m\<lparr>resumeack := h\<rparr>))"
  "unat i < 1024 \<Longrightarrow> keeps good (put (\<lambda>m. set_elem (havereset m) i b) (\<lambda>h m. m\<lparr>havereset := h\<rparr>))"
  "unat i < 1024 \<Longrightarrow> keeps good (change_flag f i)"
  unfolding change_flag_def
  by (intro keeps_put; auto simp: set_elem_wf elem_wf wf_lengths)+

lemma keeps_selected [keeping]:
  "keeps good (put (\<lambda>m. set_elem (havereset m) (hartsel (dmcontrol m)) b) (\<lambda>h m. m\<lparr>havereset := h\<rparr>))"
  "keeps good (put (\<lambda>m. set_elem (resumeack m) (hartsel (dmcontrol m)) b) (\<lambda>h m. m\<lparr>resumeack := h\<rparr>))"
  "keeps good (look (\<lambda>m. elem (halted_flags m) (hartsel (dmcontrol m))))"
  "keeps good (look (\<lambda>m. elem (resumeack m) (hartsel (dmcontrol m))))"
  "keeps good (look (\<lambda>m. elem (havereset m) (hartsel (dmcontrol m))))"
  by (intro keeps_put keeps_look; auto simp: set_elem_wf elem_wf wf_lengths)+

lemma keeps_at_selected:
  "(\<And>i. unat i < 1024 \<Longrightarrow> keeps good (f i)) \<Longrightarrow> keeps good (\<lambda>s. f (hartsel (dmcontrol (dm s))) s)"
  unfolding keeps_def using wf_lengths(9) by blast

lemma keeps_request_resume [keeping]: "keeps good request_resume"
proof -
  have "keeps good (\<lambda>s. (\<lambda>i. andthen (change_flag (\<lambda>b. b OR FLAG_RESUME) i) (\<lambda>_. put
      (\<lambda>m. set_elem (resumeack m) (hartsel (dmcontrol m)) False) (\<lambda>h m. m\<lparr>resumeack := h\<rparr>)))
      (hartsel (dmcontrol (dm s))) s)"
    by (rule keeps_at_selected) (intro keeping)
  then show ?thesis by (simp add: request_resume_def [abs_def])
qed

lemma keeps_dm_proc_reset [keeping]: "unat i < 1024 \<Longrightarrow> keeps good (dm_proc_reset i)"
  unfolding dm_proc_reset_def by (intro keeping)

lemma keeps_hart_halted [keeping]: "unat i < 1024 \<Longrightarrow> keeps good (hart_halted i)"
  unfolding hart_halted_def
  by (intro keeping) (auto simp: elem_wf wf_lengths)

lemma keeps_hart_resuming [keeping]: "unat i < 1024 \<Longrightarrow> keeps good (hart_resuming i)"
  unfolding hart_resuming_def by (intro keeping)

text \<open>A program is at most four words, followed by the last one.\<close>

lemma transfer_length: "transfer_of psize wr sz regno = Program ws \<Longrightarrow> length ws \<le> 4"
  "transfer_of psize wr sz regno = Unsupported ws \<Longrightarrow> length ws \<le> 4"
  by (auto simp: transfer_of_def csr_transfer_def by_size_def Let_def split: if_splits)

lemma keeps_put_program [keeping]: "length ws \<le> 5 \<Longrightarrow> keeps good (put_program 0 ws)"
proof -
  assume "length ws \<le> 5"
  then have "\<exists>b. write_words (debug_abstract m) 0 ws = Inr b \<and> dm_wf (m\<lparr>debug_abstract := b\<rparr>)" if "dm_wf m" for m
    using write_words_wf [of 0 ws "debug_abstract m"] wf_lengths(1) [OF that] that by auto
  then show ?thesis unfolding put_program_def by (intro keeps_put)
qed

lemma keeps_launch [keeping]: "i \<le> 4 \<Longrightarrow> keeps good (launch i)"
proof -
  assume "i \<le> 4"
  then have w: "\<exists>b. write32 (debug_abstract m) i (last_word m i) = Inr b \<and> dm_wf (m\<lparr>debug_abstract := b\<rparr>)"
    if "dm_wf m" for m
    using write32_wf [of i "debug_abstract m" "last_word m i"] wf_lengths(1) [OF that] that by auto
  have go: "keeps good (\<lambda>s. (\<lambda>i. andthen (change_flag (\<lambda>b. b OR FLAG_GO) i) (\<lambda>_. modify (set_busy True)))
      (hartsel (dmcontrol (dm s))) s)"
    by (rule keeps_at_selected, intro keeping) auto
  show ?thesis unfolding launch_def by (rule keeps_andthen [OF keeps_put [OF w] go])
qed

lemma wf_data_words:
  assumes "dm_wf m" "i < 2"
  shows "\<exists>b. write32 (dmdata m) i v = Inr b \<and> dm_wf (m\<lparr>dmdata := b\<rparr>)" "\<exists>b. read32 (dmdata m) i = Inr b"
  using write32_wf [of i "dmdata m" v] read32_wf [of i "dmdata m"] wf_lengths(2) [OF assms(1)] assms by auto

lemma keeps_access_custom [keeping]: "keeps good (access_custom wr n)"
  unfolding access_custom_def
  using wf_data_words [of _ 0] wf_data_words [of _ 1] by (intro keeping) simp_all

lemma keeps_perform [keeping]: "keeps good perform_abstract_command"
proof -
  have p: "keeps good (case transfer_of psize wr sz regno of
      Program ws \<Rightarrow> andthen (put_program 0 ws) (\<lambda>_. launch (length ws))
    | Unsupported ws \<Rightarrow> andthen (put_program 0 ws) (\<lambda>_. modify (set_cmderr CMDERR_NOTSUP))
    | Custom n \<Rightarrow> access_custom wr n)" for psize wr sz regno
    using transfer_length [of psize wr sz regno]
    by (cases "transfer_of psize wr sz regno") (auto intro!: keeping)
  show ?thesis
    unfolding perform_abstract_command_def [abs_def] Let_def
    by (intro keeping p; simp)
qed

lemma keeps_autoexec [keeping]: "keeps good (autoexec flags i)"
  unfolding autoexec_def [abs_def] by (intro keeping)

lemma keeps_autoexec_flags [keeping]: "keeps good (\<lambda>s. autoexec (g s) i s)"
  by (rule keeps_by_state) (rule keeps_autoexec)

lemma selected_hart_small: "unat (hartsel (dmcontrol_fields v c)) < 1024"
proof -
  have "hartsel (dmcontrol_fields v c) = take_bit 10 (hartsel (dmcontrol_fields v c))"
    by (simp add: dmcontrol_fields_def hartsellen_def take_bit_eq_mask mask_eq_exp_minus_1 and.assoc)
  then have "unat (hartsel (dmcontrol_fields v c)) = take_bit 10 (unat (hartsel (dmcontrol_fields v c)))"
    by (metis unsigned_take_bit_eq)
  then have "unat (hartsel (dmcontrol_fields v c)) < 2 ^ 10" by (metis take_bit_nat_less_exp)
  then show ?thesis by simp
qed

section \<open>The contract of the simulator\<close>

text \<open>
  What the module relies on: every hart exists and has a number below 1024, and the calls it
  makes keep this and the shape of the module, which a bus access may reach again.  A store of
  the debugger over the system bus must be \<open>harmless\<close>: the code lets it reach the registers of the
  debug ROM, whose hart numbers are not checked.
\<close>

definition sb_harmless :: "(reg_t \<Rightarrow> byte list \<Rightarrow> bool) \<Rightarrow> u32 \<Rightarrow> debug_module_t \<Rightarrow> bool" where
  "sb_harmless harmless v m = (case sb_write_bytes (set_sbdata 0 v m) of
     None \<Rightarrow> True | Some bs \<Rightarrow> harmless (sb_address m) bs)"

locale debug_host =
  fixes I :: "'s dm_if" and good :: "'s \<Rightarrow> bool" and harmless :: "reg_t \<Rightarrow> byte list \<Rightarrow> bool"
  assumes present: "good s \<Longrightarrow> i < if_nprocs I s \<Longrightarrow> if_present I i s \<and> unat (if_hart_id I i s) < 1024"
    and reset_core_keeps: "good s \<Longrightarrow> good (if_reset_core I i s) \<and> if_nprocs I (if_reset_core I i s) = if_nprocs I s"
    and set_halt_keeps: "good s \<Longrightarrow> good (if_set_halt_request I i b s) \<and>
      if_nprocs I (if_set_halt_request I i b s) = if_nprocs I s"
    and random_keeps: "good s \<Longrightarrow> good (snd (if_random I s))"
    and load_keeps: "n \<in> {1, 2, 4} \<Longrightarrow> keeps good (if_load I a n)"
    and store_keeps: "length bs \<in> {1, 2, 4, 8} \<Longrightarrow> harmless a bs \<Longrightarrow> keeps good (if_store I a bs)"
    and rom_small: "length (if_debug_rom I) \<le> 2048"
begin

lemma keeps_reset_core:
  assumes "good (sys s)" "dm_wf (dm s)" "i < if_nprocs I (sys s)"
  shows "fst (reset_core I i s) \<noteq> Inl Abort \<and> good (sys (snd (reset_core I i s))) \<and>
    dm_wf (dm (snd (reset_core I i s))) \<and> if_nprocs I (sys (snd (reset_core I i s))) = if_nprocs I (sys s)"
proof -
  have pr: "if_present I i (sys s)" "unat (if_hart_id I i (sys s)) < 1024" using present assms by auto
  have sysp: "sys (snd (dm_proc_reset j t)) = sys t" for j and t :: "'s dm_sys"
    by (auto simp: dm_proc_reset_def andthen_def put_def upd_dm_def split: sum.splits)
  show ?thesis
    using keepsD [OF keeps_dm_proc_reset [OF pr(2)], of good "s\<lparr>sys := if_reset_core I i (sys s)\<rparr>"]
      reset_core_keeps assms
    by (simp add: reset_core_def pr sysp)
qed

lemma keeps_reset_cores:
  "good (sys s) \<Longrightarrow> dm_wf (dm s) \<Longrightarrow> \<forall>i \<in> set js. i < if_nprocs I (sys s) \<Longrightarrow>
    fst (reset_cores I js s) \<noteq> Inl Abort \<and> good (sys (snd (reset_cores I js s))) \<and>
    dm_wf (dm (snd (reset_cores I js s)))"
proof (induction js arbitrary: s)
  case Nil
  then show ?case by (simp add: give_def)
next
  case (Cons i js)
  obtain r t where rt: "reset_core I i s = (r, t)" by fastforce
  with keeps_reset_core [of s i] Cons.prems have t: "r \<noteq> Inl Abort" "good (sys t)" "dm_wf (dm t)"
    "if_nprocs I (sys t) = if_nprocs I (sys s)" by auto
  with Cons.IH [of t] Cons.prems rt show ?case by (cases r) (auto simp: andthen_def)
qed

lemma keeps_all_cores [keeping]:
  "keeps good (\<lambda>s. (if ndmreset (dmcontrol (dm s)) then reset_cores I [0..<if_nprocs I (sys s)] else give ()) s)"
proof (rule keepsI)
  fix s :: "'s dm_sys" assume "good (sys s)" "dm_wf (dm s)"
  with keeps_reset_cores [of s "[0..<if_nprocs I (sys s)]"]
  show "fst ((if ndmreset (dmcontrol (dm s)) then reset_cores I [0..<if_nprocs I (sys s)] else give ()) s) \<noteq> Inl Abort \<and>
    good (sys (snd ((if ndmreset (dmcontrol (dm s)) then reset_cores I [0..<if_nprocs I (sys s)] else give ()) s))) \<and>
    dm_wf (dm (snd ((if ndmreset (dmcontrol (dm s)) then reset_cores I [0..<if_nprocs I (sys s)] else give ()) s)))"
    by (simp add: give_def)
qed

lemma keeps_one_core: "keeps (\<lambda>t. good t \<and> i < if_nprocs I t) (reset_core I i)"
  by (rule keepsI) (auto dest: keeps_reset_core)

lemma keeps_control_hart [keeping]: "keeps good (control_hart I)"
proof (rule keepsI)
  fix s :: "'s dm_sys" assume s: "good (sys s)" "dm_wf (dm s)"
  show "fst (control_hart I s) \<noteq> Inl Abort \<and> good (sys (snd (control_hart I s))) \<and> dm_wf (dm (snd (control_hart I s)))"
  proof (cases "current_proc I s")
    case None
    then show ?thesis using s by (simp add: control_hart_def give_def)
  next
    case (Some i)
    define t where "t = s\<lparr>sys := if_set_halt_request I i (haltreq (dmcontrol (dm s))) (sys s)\<rparr>"
    have t: "good (sys t)" "i < if_nprocs I (sys t)" "dm_wf (dm t)"
      using s set_halt_keeps Some by (auto simp: t_def current_proc_def Let_def split: if_splits)
    have "keeps (\<lambda>t. good t \<and> i < if_nprocs I t)
        (andthen (if resumereq (dmcontrol (dm t)) then request_resume else give ())
          (\<lambda>_ s. (if hartreset (dmcontrol (dm s)) then reset_core I i else give ()) s))"
      by (intro keeping keeps_one_core)
    from keepsD [OF this, of t] t show ?thesis by (simp add: control_hart_def Some t_def)
  qed
qed

lemma dm_reset_keeps:
  assumes "good (sys s)" "dm_wf (dm s)"
  shows "good (sys (dm_reset I s)) \<and> dm_wf (dm (dm_reset I s))"
proof -
  have "good (fold (\<lambda>i s. if if_present I i s then if_set_halt_request I i False s else s) is t)"
    if "good t" for "is" t
    using that set_halt_keeps by (induction "is" arbitrary: t) auto
  then have "good (clear_halt_requests I (sys s))" using assms(1) by (simp add: clear_halt_requests_def)
  then have g: "good (sys (dm_reset I s))"
    using random_keeps by (simp add: dm_reset_def split: prod.split) (metis snd_conv)
  have "dm_wf (reset_registers r (dm s))" for r
    using assms(2) by (simp add: dm_wf_def reset_registers_def dmcontrol_zero_def datasize_def)
  with g show ?thesis by (simp add: dm_reset_def split: prod.split)
qed

lemma keeps_select_hart [keeping]: "keeps good (select_hart v)"
proof -
  have "dm_wf (m\<lparr>dmcontrol := dmcontrol_fields v (dmcontrol m)\<rparr>)" if "dm_wf m" for m
    using that selected_hart_small by (simp add: dm_wf_def)
  then show ?thesis unfolding select_hart_def by (intro keeping)
qed

lemma keeps_write_dmcontrol [keeping]: "keeps good (write_dmcontrol I v)"
proof (rule keepsI)
  fix s :: "'s dm_sys" assume s: "good (sys s)" "dm_wf (dm s)"
  define active where "active = truth (get_field v DMI_DMCONTROL_DMACTIVE)"
  define t where "t = upd_dm (set_dmactive active) (if \<not> dmactive (dmcontrol (dm s)) \<and> active then dm_reset I s else s)"
  have t: "good (sys t)" "dm_wf (dm t)" using dm_reset_keeps [OF s] s by (auto simp: t_def upd_dm_def)
  define c where "c = (if \<not> authenticated (dmstatus (dm t)) then give () :: 's dm_sys \<Rightarrow> unit result \<times> 's dm_sys
    else andthen (if dmactive (dmcontrol (dm t)) then select_hart v else give ()) (\<lambda>_.
           andthen (control_hart I) (\<lambda>_ s.
           (if ndmreset (dmcontrol (dm s)) then reset_cores I [0..<if_nprocs I (sys s)] else give ()) s)))"
  have "keeps good c" unfolding c_def by (intro keeping)
  from keepsD [OF this t] have "fst (c t) \<noteq> Inl Abort \<and> good (sys (snd (c t))) \<and> dm_wf (dm (snd (c t)))" .
  moreover have "write_dmcontrol I v s = c t"
    by (simp add: write_dmcontrol_def Let_def c_def t_def active_def)
  ultimately show "fst (write_dmcontrol I v s) \<noteq> Inl Abort \<and> good (sys (snd (write_dmcontrol I v s))) \<and>
      dm_wf (dm (snd (write_dmcontrol I v s)))" by simp
qed

lemma dm_wf_note_busy [simp]: "dm_wf (note_busy m) = dm_wf m"
  by (simp add: note_busy_def)

lemma dm_wf_autoincrement [simp]: "dm_wf (sb_autoincrement m) = dm_wf m"
  by (simp add: sb_autoincrement_def Let_def)

lemma keeps_catch [keeping]: "keeps good c \<Longrightarrow> keeps good (catch_load_fault c)"
proof (rule keepsI)
  fix s :: "'s dm_sys" assume "keeps good c" "good (sys s)" "dm_wf (dm s)"
  from keepsD [OF this] show "fst (catch_load_fault c s) \<noteq> Inl Abort \<and> good (sys (snd (catch_load_fault c s))) \<and>
      dm_wf (dm (snd (catch_load_fault c s)))"
    by (auto simp: catch_load_fault_def modify_def upd_dm_def split: prod.splits sum.splits)
qed

lemma keeps_sb_read [keeping]: "keeps good (sb_read I)"
  unfolding sb_read_def Let_def by (intro keeping load_keeps) simp_all

lemma sb_write_sizes: "sb_write_bytes m = Some bs \<Longrightarrow> length bs \<in> {1, 2, 4, 8}"
  by (auto simp: sb_write_bytes_def Let_def split: if_splits)

lemma fine_sb_write:
  assumes "good (sys s)" "dm_wf (dm s)" "\<And>bs. sb_write_bytes (dm s) = Some bs \<Longrightarrow> harmless (sb_address (dm s)) bs"
  shows "fine good (sb_write I s)"
proof (cases "sb_write_bytes (dm s)")
  case None
  then show ?thesis using assms by (simp add: sb_write_def fine_def modify_def upd_dm_def)
next
  case (Some bs)
  with keeps_fine [OF assms(1,2) store_keeps [OF sb_write_sizes [OF Some] assms(3) [OF Some]]]
  show ?thesis by (simp add: sb_write_def)
qed

lemma keeps_read_sbdata0 [keeping]: "keeps good (read_sbdata0 I)"
  unfolding read_sbdata0_def [abs_def] Let_def by (intro keeping) simp_all

lemma keeps_write_sbaddress0 [keeping]: "keeps good (write_sbaddress0 I v)"
  unfolding write_sbaddress0_def by (intro keeping) simp_all

lemma fine_andthen: "fine good (c s) \<Longrightarrow> (\<And>a. keeps good (f a)) \<Longrightarrow> fine good (andthen c f s)"
  by (cases "c s"; cases "fst (c s)") (auto simp: andthen_def fine_def keeps_def)

lemma fine_write_sbdata0:
  assumes "good (sys s)" "dm_wf (dm s)" "sb_harmless harmless v (dm s)"
  shows "fine good (accepted (write_sbdata0 I v) s)"
proof -
  define t where "t = upd_dm (set_sbdata 0 v) s"
  have t: "good (sys t)" "dm_wf (dm t)" using assms by (simp_all add: t_def upd_dm_def)
  have a: "sb_address (dm t) = sb_address (dm s)"
    by (simp add: t_def upd_dm_def set_sbdata_def sb_address_def)
  have "fine good (sb_write I t)"
    using assms(3) by (intro fine_sb_write t) (simp add: a, simp add: sb_harmless_def t_def upd_dm_def)
  then have "fine good (andthen (sb_write I) (\<lambda>_ s.
      (if autoincrement (sbcs (dm s)) \<and> sbcs_error (sbcs (dm s)) = 0 then modify sb_autoincrement else give ()) s) t)"
    by (rule fine_andthen) (intro keeping, simp)
  then have "fine good (write_sbdata0 I v s)"
    using t by (auto simp: write_sbdata0_def andthen_def [of "modify _"] modify_def t_def [symmetric] give_def fine_def)
  then show ?thesis unfolding accepted_def by (rule fine_andthen) (rule keeping)
qed

lemma keeps_read_dmcontrol [keeping]: "keeps good (read_dmcontrol I)"
  by (rule keepsI) (simp add: read_dmcontrol_def Let_def upd_dm_def split: option.split)

lemma keeps_read_dmstatus [keeping]: "keeps good (read_dmstatus I)"
proof -
  have "keeps good (case p of
         None \<Rightarrow> modify (\<lambda>m. m\<lparr>dmstatus := refresh_dmstatus None False (dmstatus m)\<rparr>)
       | Some i \<Rightarrow>
           andthen (look (\<lambda>m. elem (halted_flags m) (hartsel (dmcontrol m)))) (\<lambda>h.
           andthen (look (\<lambda>m. elem (resumeack m) (hartsel (dmcontrol m)))) (\<lambda>ack.
           modify (\<lambda>m. m\<lparr>dmstatus := refresh_dmstatus (Some h) ack (dmstatus m)\<rparr>))))" for p :: "nat option"
    by (cases p) (auto intro!: keeping)
  moreover have "keeps good (\<lambda>s. give (dmstatus_image hr (dmstatus (dm s))) s)" for hr
    by (rule keeps_by_state) (rule keeping)
  ultimately show ?thesis
    unfolding read_dmstatus_def [abs_def] by (intro keeping)
qed

lemma progbuf_index:
  assumes "dm_wf m" "address \<ge> DMI_PROGBUF0" "address < DMI_PROGBUF0 + progbufsize m"
  shows "unat (address - DMI_PROGBUF0) < unat (progbufsize m)"
proof -
  have p: "unat (progbufsize m) \<le> 16" using wf_lengths(11) [OF assms(1)] by (simp add: word_le_nat_alt)
  have "unat (DMI_PROGBUF0 + progbufsize m) = 32 + unat (progbufsize m)"
    using p by (simp add: spike_consts unat_word_ariths)
  then show ?thesis using assms(2,3)
    by (simp add: spike_consts word_less_nat_alt word_le_nat_alt unat_sub)
qed

lemma data_index:
  assumes "dm_wf m" "address \<ge> DMI_DATA0" "address < DMI_DATA0 + datacount (abstractcs m)"
  shows "unat (address - DMI_DATA0) < 2"
  using assms(2,3) wf_lengths(10) [OF assms(1)]
  by (simp add: spike_consts word_less_nat_alt word_le_nat_alt unat_sub)

lemma wf_progbuf_words:
  assumes "dm_wf m" "i < unat (progbufsize m)"
  shows "\<exists>b. write32 (program_buffer m) i v = Inr b \<and> dm_wf (m\<lparr>program_buffer := b\<rparr>)"
    "\<exists>b. read32 (program_buffer m) i = Inr b"
  using write32_wf [of i "program_buffer m" v] read32_wf [of i "program_buffer m"]
    wf_lengths(3) [OF assms(1)] assms by auto

lemma keeps_answer [keeping]: "keeps good c \<Longrightarrow> keeps good (answer c)" "keeps good c' \<Longrightarrow> keeps good (accepted c')"
  unfolding answer_def accepted_def by (intro keeping; assumption)+

lemma keeps_read_data:
  assumes "i < 2"
  shows "keeps good (andthen (look (\<lambda>m. read32 (dmdata m) i)) (\<lambda>v s.
         andthen (modify note_busy) (\<lambda>_ s'.
         andthen (autoexec (autoexecdata (abstractauto (dm s'))) i) (\<lambda>_. give (Some (busy_or v (dm s)))) s') s))"
  using wf_data_words(2) [OF _ assms] by (intro keeping) fastforce+

lemma keeps_read_progbuf:
  "keeps good (\<lambda>s. andthen (autoexec (autoexecprogbuf (abstractauto (dm s))) i) (\<lambda>_. give (Some (r s))) s)"
  by (intro keeping)

lemma keeps_dmi_read: "keeps good (dmi_read I address)"
proof (rule keeps_by_fine)
  fix s :: "'s dm_sys" assume s: "good (sys s)" "dm_wf (dm s)"
  note keep = keeps_fine [of good, OF s]
  have data: "fine good (andthen (look (\<lambda>m. read32 (dmdata m) i)) (\<lambda>v s.
         andthen (modify note_busy) (\<lambda>_ s'.
         andthen (autoexec (autoexecdata (abstractauto (dm s'))) i) (\<lambda>_. give (Some (busy_or v (dm s)))) s') s) s)"
    if "i < 2" for i using keep [OF keeps_read_data [OF that]] .
  have progbuf: "fine good (andthen (look (\<lambda>m. read32 (program_buffer m) i)) (\<lambda>v s.
         andthen (autoexec (autoexecprogbuf (abstractauto (dm s))) i) (\<lambda>_. give (Some (busy_or v (dm s)))) s) s)"
    if inside: "i < unat (progbufsize (dm s))" for i
  proof -
    obtain v where "read32 (program_buffer (dm s)) i = Inr v" using wf_progbuf_words(2) [OF s(2) inside] by blast
    then show ?thesis using keep [OF keeps_read_progbuf] by (simp add: andthen_def [of "look _"] look_def)
  qed
  have leaf: "keeps good c \<Longrightarrow> fine good (answer c s)" "fine good (give x s)" for c and x :: "u32 option"
    by (rule keep [OF keeps_answer(1)], assumption) (rule keep [OF keeps_give(1)])
  show "fine good (dmi_read I address s)"
  proof (cases "address \<ge> DMI_DATA0 \<and> address < DMI_DATA0 + datacount (abstractcs (dm s))")
    case True
    then show ?thesis using data data_index [OF s(2)] by (simp add: dmi_read_def Let_def)
  next
    case False
    note no_data = this
    show ?thesis
    proof (cases "address \<ge> DMI_PROGBUF0 \<and> address < DMI_PROGBUF0 + progbufsize (dm s)")
      case True
      show ?thesis
        unfolding dmi_read_def Let_def if_not_P [OF no_data] if_P [OF True]
        using progbuf progbuf_index [OF s(2)] True by blast
    next
      case False
      show ?thesis
        unfolding dmi_read_def Let_def if_not_P [OF no_data] if_not_P [OF False]
        by (intro fine_if leaf keeping)
    qed
  qed
qed

lemma fine_dmi_write:
  assumes s: "good (sys s)" "dm_wf (dm s)" and sb: "address = DMI_SBDATA0 \<Longrightarrow> sb_harmless harmless v (dm s)"
  shows "fine good (dmi_write I address v s)"
proof -
  note keep = keeps_fine [of good, OF s]
  have data: "keeps good (accepted (andthen (if b then give ()
             else put (\<lambda>m. write32 (dmdata m) i v) (\<lambda>d m. m\<lparr>dmdata := d\<rparr>)) (\<lambda>_.
           andthen (modify note_busy) (\<lambda>_ s. autoexec (autoexecdata (abstractauto (dm s))) i s))))"
    if "i < 2" for i b
    by (intro keeping wf_data_words(1) [OF _ that]) simp_all
  have progbuf: "fine good (accepted (andthen (if b then give ()
             else put (\<lambda>m. write32 (program_buffer m) i v) (\<lambda>d m. m\<lparr>program_buffer := d\<rparr>)) (\<lambda>_ s.
           autoexec (autoexecprogbuf (abstractauto (dm s))) i s)) s)"
    if inside: "i < unat (progbufsize (dm s))" for i b
  proof -
    obtain d where d: "write32 (program_buffer (dm s)) i v = Inr d" "dm_wf ((dm s)\<lparr>program_buffer := d\<rparr>)"
      using wf_progbuf_words(1) [OF s(2) inside] by blast
    have "keeps good (accepted (\<lambda>s. autoexec (autoexecprogbuf (abstractauto (dm s))) i s))"
      by (intro keeping)
    from keeps_fine [OF s this] keeps_fine [of good "s\<lparr>dm := (dm s)\<lparr>program_buffer := d\<rparr>\<rparr>", OF _ _ this] d s
    show ?thesis
      by (simp add: accepted_def andthen_def put_def give_def upd_dm_def)
  qed
  have leaf: "keeps good c \<Longrightarrow> fine good (accepted c s)" "fine good (give x s)" for c and x :: bool
    by (rule keep [OF keeps_answer(2)], assumption) (rule keep [OF keeps_give(1)])
  show "fine good (dmi_write I address v s)"
  proof (cases "\<not> authenticated (dmstatus (dm s)) \<and> address \<noteq> DMI_AUTHDATA \<and> address \<noteq> DMI_DMCONTROL")
    case True
    then show ?thesis using keep [OF keeps_give(1)] by (simp add: dmi_write_def)
  next
    case False
    note auth = this
    show ?thesis
    proof (cases "address \<ge> DMI_DATA0 \<and> address < DMI_DATA0 + datacount (abstractcs (dm s))")
      case True
      show ?thesis
        unfolding dmi_write_def Let_def if_not_P [OF auth] if_P [OF True]
        using keep [OF data] data_index [OF s(2)] True by blast
    next
      case False
      note no_data = this
      show ?thesis
      proof (cases "address \<ge> DMI_PROGBUF0 \<and> address < DMI_PROGBUF0 + progbufsize (dm s)")
        case True
        show ?thesis
          unfolding dmi_write_def Let_def if_not_P [OF auth] if_not_P [OF no_data] if_P [OF True]
          using progbuf progbuf_index [OF s(2)] True by blast
      next
        case False
        have auth_keeps: "fine good (Inr True, write_authdata I v s)"
          using s random_keeps by (auto simp: fine_def write_authdata_def Let_def upd_dm_def split: prod.split)
            (metis snd_conv)+
        note no_index = if_not_P [OF auth] if_not_P [OF no_data] if_not_P [OF False]
        show ?thesis
        proof (cases "address = DMI_SBDATA0")
          case True
          have "fine good (accepted (write_sbdata0 I v) s)" by (rule fine_write_sbdata0 [OF s sb [OF True]])
          then show ?thesis unfolding dmi_write_def Let_def no_index by (simp add: True spike_consts)
        next
          case False
          show ?thesis
            unfolding dmi_write_def Let_def no_index if_not_P [OF False]
            by (intro fine_if auth_keeps leaf keeping) simp_all
        qed
      qed
    qed
  qed
qed

end

section \<open>The memory region\<close>

lemma within_offset:
  assumes "within addr len lo hi" "unat addr + len < 2 ^ 64"
  shows "unat (addr - lo) + len \<le> unat hi - unat lo"
proof -
  have "unat lo \<le> unat addr" using assms(1) by (simp add: within_def word_le_nat_alt)
  moreover have "len < 2 ^ 64" using assms(2) by simp
  then have "unat (addr + of_nat len) = unat addr + len"
    using assms(2) by (subst unat_add_lem [THEN iffD1]) (simp_all add: unsigned_of_nat take_bit_nat_eq_self)
  then have "unat addr + len \<le> unat hi" using assms(1) by (simp add: within_def word_le_nat_alt)
  ultimately show ?thesis
    using assms(1) by (simp add: within_def unat_sub)
qed

lemma copy_in_window:
  assumes "within addr (length bs) lo hi" "unat addr + length bs < 2 ^ 64" "unat hi - unat lo \<le> length buf"
  shows "\<exists>b. copy_in buf (addr - lo) bs = Inr b \<and> length b = length buf"
  using within_offset [OF assms(1,2)] assms(3) by (auto simp: copy_in_def)

lemma copy_out_window:
  assumes "within addr len lo hi" "unat addr + len < 2 ^ 64" "unat hi - unat lo \<le> length buf"
  shows "\<exists>bs. copy_out buf (addr - lo) len = Inr bs \<and> length bs = len"
  using within_offset [OF assms(1,2)] assms(3) by (auto simp: copy_out_def)

lemma region_sizes:
  assumes "dm_wf m"
  shows "unat (ucast (debug_progbuf_start m + program_buffer_bytes m) :: reg_t)
      - unat (ucast (debug_progbuf_start m) :: reg_t) \<le> length (program_buffer m)"
    and "unat (ucast (debug_abstract_start m) + of_nat (length (debug_abstract m)) :: reg_t)
      - unat (ucast (debug_abstract_start m) :: reg_t) \<le> length (debug_abstract m)"
    and "unat (ucast debug_data_start + of_nat (length (dmdata m)) :: reg_t)
      - unat (ucast debug_data_start :: reg_t) \<le> length (dmdata m)"
proof -
  define p where "p = unat (progbufsize m)"
  have p: "p \<le> 16" using wf_lengths(11) [OF assms] by (simp add: word_le_nat_alt p_def)
  have pm: "progbufsize m = of_nat p" by (simp add: p_def)
  have b: "unat (program_buffer_bytes m) = 4 + 4 * p"
    using p by (simp add: program_buffer_bytes_def pm unat_word_ariths unsigned_of_nat take_bit_nat_eq_self)
  then have "program_buffer_bytes m \<le> debug_data_start"
    using p by (simp add: debug_data_start_def word_le_nat_alt)
  then have s: "unat (debug_progbuf_start m) = 0x380 - (4 + 4 * p)"
    by (simp add: debug_progbuf_start_def unat_sub b debug_data_start_def)
  have e: "debug_progbuf_start m + program_buffer_bytes m = 0x380"
    by (simp add: debug_progbuf_start_def debug_data_start_def)
  have "(20 :: u32) \<le> debug_progbuf_start m" using s p by (simp add: word_le_nat_alt)
  then have "unat (debug_abstract_start m) = 0x380 - (4 + 4 * p) - 20"
    by (simp add: debug_abstract_start_def debug_abstract_size_def unat_sub s)
  then have "unat (ucast (debug_abstract_start m) :: reg_t) = 0x380 - (4 + 4 * p) - 20"
    by (simp add: unsigned_ucast_eq take_bit_nat_eq_self)
  then show "unat (ucast (debug_abstract_start m) + of_nat (length (debug_abstract m)) :: reg_t)
      - unat (ucast (debug_abstract_start m) :: reg_t) \<le> length (debug_abstract m)"
    using p by (simp add: wf_lengths assms unat_word_ariths)
  show "unat (ucast (debug_progbuf_start m + program_buffer_bytes m) :: reg_t)
      - unat (ucast (debug_progbuf_start m) :: reg_t) \<le> length (program_buffer m)"
    using p wf_lengths(3) [OF assms] unfolding e by (simp add: unsigned_ucast_eq s p_def take_bit_nat_eq_self)
qed (simp_all add: wf_lengths assms debug_data_start_def)

text \<open>
  What may happen to the module: accesses of the debugger, loads and stores of the harts, and
  hart resets.  A legal access does not wrap around the address space, which
  \<open>sim_t::mmio_load\<close> and \<open>sim_t::mmio_store\<close> check, the hart numbers that the debug ROM stores
  to \<open>HALTED\<close> and \<open>RESUMING\<close> are words below 1024, and a write of \<open>sbdata0\<close> starts a harmless store.
\<close>

datatype dm_event = Dmi_read u32 | Dmi_write u32 u32 | Bus_load reg_t nat | Bus_store reg_t "byte list"
  | Hart_reset u32

fun dm_exec :: "'s dm_if \<Rightarrow> dm_event \<Rightarrow> 's dm_sys \<Rightarrow> unit result \<times> 's dm_sys" where
  "dm_exec I (Dmi_read a) = andthen (dmi_read I a) (\<lambda>_. give ())"
| "dm_exec I (Dmi_write a v) = andthen (dmi_write I a v) (\<lambda>_. give ())"
| "dm_exec I (Bus_load a n) = andthen (look (dm_load (if_debug_rom I) a n)) (\<lambda>_. give ())"
| "dm_exec I (Bus_store a bs) = andthen (dm_store a bs) (\<lambda>_. give ())"
| "dm_exec I (Hart_reset i) = dm_proc_reset i"

text \<open>A hart store into the registers of the debug ROM that the module decodes.\<close>

definition rom_store_ok :: "reg_t \<Rightarrow> byte list \<Rightarrow> bool" where
  "rom_store_ok a bs \<longleftrightarrow> (a = DEBUG_ROM_HALTED \<or> a = DEBUG_ROM_RESUMING \<longrightarrow>
     length bs = 4 \<and> (case read32 bs 0 of Inl e \<Rightarrow> False | Inr i \<Rightarrow> unat i < 1024))"

fun legal :: "(reg_t \<Rightarrow> byte list \<Rightarrow> bool) \<Rightarrow> dm_event \<Rightarrow> debug_module_t \<Rightarrow> bool" where
  "legal harmless (Dmi_read a) m = True"
| "legal harmless (Dmi_write a v) m = (a = DMI_SBDATA0 \<longrightarrow> sb_harmless harmless v m)"
| "legal harmless (Bus_load a n) m = (unat (DEBUG_START + a) + n < 2 ^ 64)"
| "legal harmless (Bus_store a bs) m =
     (unat (DEBUG_START + a) + length bs < 2 ^ 64 \<and> rom_store_ok (DEBUG_START + a) bs)"
| "legal harmless (Hart_reset i) m = (unat i < 1024)"

lemma load_no_abort:
  assumes "dm_wf m" "unat (DEBUG_START + a) + n < 2 ^ 64" "length (rom) \<le> 2048"
  shows "dm_load rom a n m \<noteq> Inl Abort"
proof -
  have out: "some_bytes (copy_out buf (DEBUG_START + a - lo) n) \<noteq> Inl Abort"
    if "within (DEBUG_START + a) n lo hi" "unat hi - unat lo \<le> length buf" for buf lo hi
    using copy_out_window [OF that(1) assms(2) that(2)] by (auto simp: some_bytes_def)
  have rom: "unat (DEBUG_ROM_ENTRY + of_nat (length (rom))) - unat DEBUG_ROM_ENTRY \<le> length (rom)"
    using assms(3) by (simp add: spike_consts unat_word_ariths unsigned_of_nat take_bit_nat_eq_self)
  have fixed: "unat (DEBUG_ROM_WHERETO + 4) - unat DEBUG_ROM_WHERETO \<le> length (debug_rom_whereto m)"
    "unat (DEBUG_ROM_FLAGS + 1024) - unat DEBUG_ROM_FLAGS \<le> length (debug_rom_flags m)"
    using assms(1) by (simp_all add: spike_consts wf_lengths)
  show ?thesis
    unfolding dm_load_def Let_def
    using out [OF _ rom] out [OF _ fixed(1)] out [OF _ fixed(2)] out [OF _ region_sizes(1) [OF assms(1)]]
      out [OF _ region_sizes(2) [OF assms(1)]] out [OF _ region_sizes(3) [OF assms(1)]]
    by simp
qed

lemma store_no_abort:
  assumes "unat (DEBUG_START + a) + length bs < 2 ^ 64 \<and> rom_store_ok (DEBUG_START + a) bs"
    and "good (sys s)" "dm_wf (dm s)"
  shows "fine good (dm_store a bs s)"
proof -
  have wrap: "unat (DEBUG_START + a) + length bs < 2 ^ 64" using assms(1) by simp
  note keep = keeps_fine [of good, OF assms(2,3)]
  have ans: "keeps good c \<Longrightarrow> fine good (andthen c (\<lambda>_. give True) s)" for c :: "'a dm_sys \<Rightarrow> unit result \<times> 'a dm_sys"
    using keep [OF keeps_andthen [OF _ keeps_give(1)]] .
  have data: "fine good (andthen (put (\<lambda>m. copy_in (dmdata m) (DEBUG_START + a - ucast debug_data_start) bs)
             (\<lambda>d m. m\<lparr>dmdata := d\<rparr>)) (\<lambda>_. give True) s)"
    if w: "within (DEBUG_START + a) (length bs) (ucast debug_data_start) (ucast debug_data_start + of_nat (length (dmdata (dm s))))"
    using copy_in_window [OF w wrap region_sizes(3) [OF assms(3)]] assms
    by (auto simp: andthen_def put_def upd_dm_def give_def fine_def wf_lengths)
  have progbuf: "fine good (andthen (put (\<lambda>m. copy_in (program_buffer m) (DEBUG_START + a - ucast (debug_progbuf_start m)) bs)
             (\<lambda>d m. m\<lparr>program_buffer := d\<rparr>)) (\<lambda>_. give True) s)"
    if w: "within (DEBUG_START + a) (length bs) (ucast (debug_progbuf_start (dm s)))
      (ucast (debug_progbuf_start (dm s) + program_buffer_bytes (dm s)))"
    using copy_in_window [OF w wrap region_sizes(1) [OF assms(3)]] assms
    by (auto simp: andthen_def put_def upd_dm_def give_def fine_def wf_lengths)
  have hart: "length bs = 4 \<and> unat (case read32 bs 0 of Inr v \<Rightarrow> v | Inl e \<Rightarrow> 0) < 1024"
    if "DEBUG_START + a = DEBUG_ROM_HALTED \<or> DEBUG_START + a = DEBUG_ROM_RESUMING"
    using assms(1) that by (auto simp: rom_store_ok_def split: sum.splits)
  have going: "fine good (andthen (change_flag (\<lambda>b. b AND NOT FLAG_GO) (hartsel (dmcontrol (dm s)))) (\<lambda>_. give True) s)"
    using ans [OF keeps_flags(4) [OF wf_lengths(9) [OF assms(3)]]] .
  have exc: "fine good (andthen (if cmderr (abstractcs (dm s)) = CMDERR_NONE then modify (set_cmderr CMDERR_EXCEPTION)
      else give ()) (\<lambda>_. give True) s)"
    by (rule ans, intro keeping) simp
  have no: "fine good (Inr False, s)" using assms by (simp add: fine_def)
  show ?thesis
    unfolding dm_store_def Let_def
    using data progbuf hart going exc no ans [OF keeps_hart_halted] ans [OF keeps_hart_resuming]
    by simp
qed

lemma keeps_unit: "keeps good c \<Longrightarrow> keeps good (andthen c (\<lambda>_. give ()))"
  by (intro keeping)

context debug_host
begin

lemma exec_keeps:
  assumes "legal harmless ev (dm s)" "good (sys s)" "dm_wf (dm s)"
  shows "fine good (dm_exec I ev s)"
proof (cases ev)
  case (Dmi_read a)
  then show ?thesis using keeps_fine [OF assms(2,3) keeps_unit [OF keeps_dmi_read]] by simp
next
  case (Dmi_write a v)
  then have "fine good (dmi_write I a v s)" using assms by (intro fine_dmi_write) auto
  then have "fine good (andthen (dmi_write I a v) (\<lambda>_. give ()) s)"
    by (rule fine_andthen) (rule keeping)
  then show ?thesis by (simp add: Dmi_write)
next
  case (Bus_load a n)
  then have "dm_load (if_debug_rom I) a n (dm s) \<noteq> Inl Abort"
    using load_no_abort [OF assms(3) _ rom_small] assms(1) by simp
  then show ?thesis using assms Bus_load
    by (cases "dm_load (if_debug_rom I) a n (dm s)") (auto simp: andthen_def look_def give_def fine_def)
next
  case (Bus_store a bs)
  have "fine good (dm_store a bs s)" using store_no_abort [of a bs] assms unfolding Bus_store by simp
  then show ?thesis using Bus_store
    by (cases "dm_store a bs s"; cases "fst (dm_store a bs s)") (auto simp: andthen_def give_def fine_def)
next
  case (Hart_reset i)
  then have "keeps good (dm_proc_reset i)" using assms(1) by (intro keeping) simp
  from keeps_fine [OF assms(2,3) this] show ?thesis by (simp add: Hart_reset)
qed

end

section \<open>The constructor and all runs\<close>

lemma construct_wf:
  assumes "psize \<le> 16" "length sba = 4" "length sbd = 4"
  shows "\<exists>m. dm_construct I psize bits auth cmd sba sbd s = Inr (dm_reset I \<lparr>dm = m, sys = s\<rparr>) \<and>
    dm_wf (m\<lparr>abstractcs := (abstractcs m)\<lparr>datacount := 2\<rparr>\<rparr>) \<and> require_authentication m = auth"
proof -
  have p: "unat psize \<le> 16" using assms(1) by (simp add: word_le_nat_alt)
  have n: "unat (4 + 4 * psize) = 4 + 4 * unat psize" "unat (ucast (4 * psize) :: reg_t) = 4 * unat psize"
    using p by (simp_all add: unat_word_ariths unsigned_ucast_eq take_bit_nat_eq_self)
  obtain pb where pb: "copy_in (replicate (unat (4 + 4 * psize)) 0) (ucast (4 * psize)) ebreak_bytes = Inr pb"
    "length pb = 4 + 4 * unat psize"
    by (simp add: copy_in_def n ebreak_bytes_def)
  have "\<forall>v. \<exists>w. write32 (replicate 4 0) 0 v = Inr w \<and> length w = 4"
    using write32_wf [of 0 "replicate 4 0"] by simp
  then obtain wt where wt: "write32 (replicate 4 0) 0 v = Inr (wt v)" "length (wt v) = 4" for v
    by metis
  show ?thesis
    unfolding dm_construct_def Let_def
    apply (simp add: pb(1) wt(1))
    apply (rule exI, rule conjI, rule refl)
    apply (simp add: dm_wf_def wt(2) pb(2) assms word_le_nat_alt p debug_abstract_size_def datasize_def dmcontrol_zero_def)
    done
qed

lemma reset_ignores_abstractcs: "dm_reset I \<lparr>dm = m\<lparr>abstractcs := x\<rparr>, sys = t\<rparr> = dm_reset I \<lparr>dm = m, sys = t\<rparr>"
  by (simp add: dm_reset_def reset_registers_def split: prod.split)

text \<open>
  The states the module can be in: constructed with a program buffer of at most 16 words, then
  any legal events, with the host changing in between.
\<close>

inductive dm_reach :: "('s \<Rightarrow> bool) \<Rightarrow> (reg_t \<Rightarrow> byte list \<Rightarrow> bool) \<Rightarrow> 's dm_if \<Rightarrow> 's dm_sys \<Rightarrow> bool"
  for good :: "'s \<Rightarrow> bool" and harmless :: "reg_t \<Rightarrow> byte list \<Rightarrow> bool" and I :: "'s dm_if" where
  start: "good t \<Longrightarrow> psize \<le> 16 \<Longrightarrow> length sba = 4 \<Longrightarrow> length sbd = 4 \<Longrightarrow>
     dm_construct I psize bits auth cmd sba sbd t = Inr s \<Longrightarrow> dm_reach good harmless I s"
| event: "dm_reach good harmless I s \<Longrightarrow> legal harmless ev (dm s) \<Longrightarrow> dm_reach good harmless I (snd (dm_exec I ev s))"
| host: "dm_reach good harmless I s \<Longrightarrow> good t \<Longrightarrow> dm_reach good harmless I (s\<lparr>sys := t\<rparr>)"

context debug_host
begin

lemma reach_wf: "dm_reach good harmless I s \<Longrightarrow> good (sys s) \<and> dm_wf (dm s)"
proof (induction rule: dm_reach.induct)
  case (start t psize sba sbd bits auth cmd s)
  obtain m where "dm_construct I psize bits auth cmd sba sbd t = Inr (dm_reset I \<lparr>dm = m, sys = t\<rparr>)"
    and wf: "dm_wf (m\<lparr>abstractcs := (abstractcs m)\<lparr>datacount := 2\<rparr>\<rparr>)"
    using construct_wf [OF start(2-4), of I bits auth cmd t] by (elim exE conjE) (rule that)
  then have "s = dm_reset I \<lparr>dm = m\<lparr>abstractcs := (abstractcs m)\<lparr>datacount := 2\<rparr>\<rparr>, sys = t\<rparr>"
    using start(5) by (simp add: reset_ignores_abstractcs)
  then show ?case
    using dm_reset_keeps [of "\<lparr>dm = m\<lparr>abstractcs := (abstractcs m)\<lparr>datacount := 2\<rparr>\<rparr>, sys = t\<rparr>"] wf start(1)
    by simp
next
  case (event s ev)
  then show ?case using exec_keeps [of ev s] by (simp add: fine_def)
next
  case (host s t)
  then show ?case by simp
qed

lemma reach_safe: "dm_reach good harmless I s \<Longrightarrow> legal harmless ev (dm s) \<Longrightarrow> dm_wf (dm s) \<and> fst (dm_exec I ev s) \<noteq> Inl Abort"
  using reach_wf exec_keeps by (simp add: fine_def)

end

text \<open>A host of one hart whose memory reads as zero, on which the contract holds.\<close>

definition one_hart_if :: "bool dm_if" where
  "one_hart_if = \<lparr>if_nprocs = (\<lambda>s. 1), if_present = (\<lambda>i s. i = 0), if_hart_id = (\<lambda>i s. 0),
     if_halt_request = (\<lambda>i s. s), if_set_halt_request = (\<lambda>i b s. b), if_reset_core = (\<lambda>i s. s),
     if_load = (\<lambda>a n s. (Inr (replicate n 0), s)), if_store = (\<lambda>a bs s. (Inr (), s)),
     if_random = (\<lambda>s. (0x1234, s)), if_debug_rom = [0x6f, 0, 0, 1]\<rparr>"

lemma one_hart_host: "debug_host one_hart_if (\<lambda>s. True) (\<lambda>a bs. True)"
  by unfold_locales (simp_all add: one_hart_if_def keeps_def)

text \<open>
  The debug module never leaves its arrays and never fails an assertion.  Whatever the
  debugger reads and writes through the debug module interface, whatever loads and stores the
  harts make in its memory region (with hart numbers below 1024 where the debug ROM stores one),
  and however the host changes in between, on a host that keeps its side of the contract (for
  system bus stores only as far as they are harmless to it), the arrays keep their sizes, the selected hart stays
  below 1024, an abstract command never overruns the five words of \<open>debug_abstract\<close>, and no
  operation ends in an access outside an array.
\<close>

theorem debug_module_safe:
  assumes "debug_host I good harmless" "dm_reach good harmless I s" "legal harmless ev (dm s)"
  shows "dm_wf (dm s) \<and> fst (dm_exec I ev s) \<noteq> Inl Abort"
  using debug_host.reach_safe [OF assms] .

lemma debug_module_safe_witness:
  "\<exists>s. dm_reach (\<lambda>s. True) (\<lambda>a bs. True) one_hart_if s \<and> dm_wf (dm s) \<and>
     fst (dm_exec one_hart_if (Dmi_write 0x17 0x221008) s) \<noteq> Inl Abort"
proof -
  obtain s where "dm_construct one_hart_if 2 0 False 0 [0, 0, 0, 0] [0, 0, 0, 0] True = Inr s"
    using construct_wf [of 2 "[0, 0, 0, 0]" "[0, 0, 0, 0]" one_hart_if 0 False 0 True] by auto
  then have s: "dm_reach (\<lambda>s. True) (\<lambda>a bs. True) one_hart_if s"
    by (intro dm_reach.start [of _ True 2 "[0, 0, 0, 0]" "[0, 0, 0, 0]" one_hart_if 0 False 0 s]) simp_all
  have "sb_harmless (\<lambda>a bs. True) v m" for v m by (simp add: sb_harmless_def split: option.split)
  with debug_module_safe [OF one_hart_host s, of "Dmi_write 0x17 0x221008"] s show ?thesis by auto
qed

end
