(* ===== verification/DebugAccess.thy ===== *)
theory DebugAccess
  imports DebugLaws
begin

text \<open>
  What the debugger can and cannot do: authentication, the program and the life cycle of an
  abstract command, and system bus access.
\<close>

section \<open>Addresses of the interface\<close>

lemma interface_addresses:
  assumes "dm_wf m"
  shows "\<not> (DMI_AUTHDATA \<ge> DMI_DATA0 \<and> DMI_AUTHDATA < DMI_DATA0 + datacount (abstractcs m))"
    "\<not> (DMI_AUTHDATA \<ge> DMI_PROGBUF0 \<and> DMI_AUTHDATA < DMI_PROGBUF0 + progbufsize m)"
    "\<not> (DMI_DMCONTROL \<ge> DMI_DATA0 \<and> DMI_DMCONTROL < DMI_DATA0 + datacount (abstractcs m))"
    "\<not> (DMI_DMCONTROL \<ge> DMI_PROGBUF0 \<and> DMI_DMCONTROL < DMI_PROGBUF0 + progbufsize m)"
    "\<not> (DMI_COMMAND \<ge> DMI_DATA0 \<and> DMI_COMMAND < DMI_DATA0 + datacount (abstractcs m))"
    "\<not> (DMI_COMMAND \<ge> DMI_PROGBUF0 \<and> DMI_COMMAND < DMI_PROGBUF0 + progbufsize m)"
proof -
  have p: "unat (progbufsize m) \<le> 16" using wf_lengths(11) [OF assms] by (simp add: word_le_nat_alt)
  then have "unat (DMI_PROGBUF0 + progbufsize m) \<le> 48"
    by (simp add: spike_consts unat_word_ariths)
  then show "\<not> (DMI_AUTHDATA \<ge> DMI_PROGBUF0 \<and> DMI_AUTHDATA < DMI_PROGBUF0 + progbufsize m)"
    by (simp add: word_less_nat_alt) (simp add: spike_consts)
  show "\<not> (DMI_AUTHDATA \<ge> DMI_DATA0 \<and> DMI_AUTHDATA < DMI_DATA0 + datacount (abstractcs m))"
    "\<not> (DMI_DMCONTROL \<ge> DMI_DATA0 \<and> DMI_DMCONTROL < DMI_DATA0 + datacount (abstractcs m))"
    "\<not> (DMI_COMMAND \<ge> DMI_DATA0 \<and> DMI_COMMAND < DMI_DATA0 + datacount (abstractcs m))"
    "\<not> (DMI_DMCONTROL \<ge> DMI_PROGBUF0 \<and> DMI_DMCONTROL < DMI_PROGBUF0 + progbufsize m)"
    "\<not> (DMI_COMMAND \<ge> DMI_PROGBUF0 \<and> DMI_COMMAND < DMI_PROGBUF0 + progbufsize m)"
    by (simp_all add: spike_consts wf_lengths(10) [OF assms])
qed

lemma interface_numbers:
  "DMI_AUTHDATA \<noteq> DMI_DMCONTROL" "DMI_AUTHDATA \<noteq> DMI_COMMAND" "DMI_COMMAND \<noteq> DMI_DMCONTROL"
  by (simp_all add: spike_consts)

section \<open>Authentication\<close>

text \<open>What a locked debugger must not touch.\<close>

definition guarded_state :: "debug_module_t \<Rightarrow>
    byte list \<times> byte list \<times> byte list \<times> byte list \<times> bool list \<times> bool list \<times> bool list \<times> u32 list \<times> u32 list \<times> u32" where
  "guarded_state m = (program_buffer m, dmdata m, debug_abstract m, debug_rom_flags m, halted_flags m,
     resumeack m, havereset m, sbaddress m, sbdata m, command m)"

definition locked :: "debug_module_t \<Rightarrow> bool" where
  "locked m \<longleftrightarrow> dm_wf m \<and> require_authentication m \<and> \<not> authenticated (dmstatus m)"

lemma guarded_reset: "guarded_state (dm (dm_reset I s)) = guarded_state (dm s)"
  "locked (dm s) \<Longrightarrow> locked (dm (dm_reset I s))"
  by (simp_all add: dm_reset_def reset_registers_def guarded_state_def locked_def dm_wf_def dmcontrol_zero_def
      dmstatus_zero_def datasize_def split: prod.split)

lemma write_authdata_address:
  assumes "dm_wf (dm s)"
  shows "dmi_write I DMI_AUTHDATA v s = (Inr True, write_authdata I v s)"
  unfolding dmi_write_def Let_def if_not_P [OF interface_addresses(1) [OF assms]]
    if_not_P [OF interface_addresses(2) [OF assms]]
  by (simp add: spike_consts)

lemma write_dmcontrol_address:
  assumes "dm_wf (dm s)"
  shows "dmi_write I DMI_DMCONTROL v s = accepted (write_dmcontrol I v) s"
  unfolding dmi_write_def Let_def if_not_P [OF interface_addresses(3) [OF assms]]
    if_not_P [OF interface_addresses(4) [OF assms]]
  by simp

lemma locked_write:
  assumes "locked (dm s)" "\<not> (a = DMI_AUTHDATA \<and> v = challenge (dm s) + secret)"
  shows "locked (dm (snd (dmi_write I a v s))) \<and>
    guarded_state (dm (snd (dmi_write I a v s))) = guarded_state (dm s)"
proof -
  have wf: "dm_wf (dm s)" and req: "require_authentication (dm s)" and na: "\<not> authenticated (dmstatus (dm s))"
    using assms(1) by (auto simp: locked_def)
  consider "a = DMI_AUTHDATA" | "a = DMI_DMCONTROL" | "a \<noteq> DMI_AUTHDATA" "a \<noteq> DMI_DMCONTROL" by blast
  then show ?thesis
  proof cases
    case 1
    then show ?thesis using assms(2) wf req
      by (simp add: write_authdata_address [OF wf] write_authdata_def Let_def locked_def guarded_state_def
          split: prod.split)
  next
    case 2
    define t where "t = (if \<not> dmactive (dmcontrol (dm s)) \<and> truth (get_field v DMI_DMCONTROL_DMACTIVE)
      then dm_reset I s else s)"
    have t: "locked (dm t)" "guarded_state (dm t) = guarded_state (dm s)"
      using guarded_reset assms(1) by (auto simp: t_def)
    have "write_dmcontrol I v s = (Inr (), upd_dm (set_dmactive (truth (get_field v DMI_DMCONTROL_DMACTIVE))) t)"
      using t(1) by (simp add: write_dmcontrol_def Let_def t_def [symmetric] upd_dm_def set_dmactive_def
          locked_def give_def)
    with t show ?thesis
      by (simp add: 2 write_dmcontrol_address [OF wf] accepted_def andthen_def give_def upd_dm_def
          locked_def guarded_state_def) (simp add: set_dmactive_def)
  next
    case 3
    then show ?thesis using na assms(1) by (simp add: dmi_write_def give_def)
  qed
qed

fun dmi_writes :: "'s dm_if \<Rightarrow> (u32 \<times> u32) list \<Rightarrow> 's dm_sys \<Rightarrow> 's dm_sys" where
  "dmi_writes I [] s = s"
| "dmi_writes I ((a, v) # ws) s = dmi_writes I ws (snd (dmi_write I a v s))"

text \<open>Some write gives the answer to the challenge that is current at that moment.\<close>

fun guessed :: "'s dm_if \<Rightarrow> (u32 \<times> u32) list \<Rightarrow> 's dm_sys \<Rightarrow> bool" where
  "guessed I [] s = False"
| "guessed I ((a, v) # ws) s =
     (a = DMI_AUTHDATA \<and> v = challenge (dm s) + secret \<or> guessed I ws (snd (dmi_write I a v s)))"


lemma constructed_locked:
  assumes "psize \<le> 16" "length sba = 4" "length sbd = 4"
  shows "\<exists>s. dm_construct I psize bits True cmd sba sbd t = Inr s \<and> locked (dm s)"
proof -
  obtain m where c: "dm_construct I psize bits True cmd sba sbd t = Inr (dm_reset I \<lparr>dm = m, sys = t\<rparr>)"
    and m: "dm_wf (m\<lparr>abstractcs := (abstractcs m)\<lparr>datacount := 2\<rparr>\<rparr>)" "require_authentication m"
    using construct_wf [OF assms, of I bits True cmd t] by auto
  have "locked (dm (dm_reset I \<lparr>dm = m, sys = t\<rparr>))"
    using m by (simp add: locked_def dm_wf_def dm_reset_def reset_registers_def dmcontrol_zero_def datasize_def
        split: prod.split)
  with c show ?thesis by blast
qed



text \<open>A well formed module whose hart 0 is halted, for the witnesses.\<close>

definition sample_dm :: "u32 \<Rightarrow> u32 \<Rightarrow> debug_module_t" where
  "sample_dm psize cmd = \<lparr>progbufsize = psize, max_bus_master_bits = 64, require_authentication = False,
     custom_base = 0, debug_rom_whereto = replicate 4 0, debug_abstract = replicate 20 0,
     program_buffer = replicate (4 + 4 * unat psize) 0, dmdata = replicate 8 0,
     halted_flags = replicate 1024 True, resumeack = replicate 1024 False,
     havereset = replicate 1024 False, debug_rom_flags = replicate 1024 0,
     dmcontrol = dmcontrol_zero\<lparr>dmactive := True\<rparr>, dmstatus = dmstatus_zero\<lparr>authenticated := True\<rparr>,
     abstractcs = \<lparr>busy = False, datacount = 2, abstractcs_progbufsize = psize, cmderr = 0\<rparr>,
     abstractauto = \<lparr>autoexecprogbuf = 0, autoexecdata = 1\<rparr>, command = cmd,
     sbcs = sbcs_zero\<lparr>autoincrement := True, sbaccess := 3\<rparr>, sbaddress = [0xfffffffc, 1, 2, 3],
     sbdata = [0, 7, 0, 0], challenge = 0\<rparr>"

lemma sample_dm_wf: "psize \<le> 16 \<Longrightarrow> dm_wf (sample_dm psize cmd)"
  by (simp add: sample_dm_def dm_wf_def debug_abstract_size_def datasize_def dmcontrol_zero_def)


section \<open>Programs of abstract commands\<close>

lemma read_written:
  assumes "4 * i + 4 \<le> length mem"
  shows "read32 (mem[i * 4 := ucast (v AND 0xff), i * 4 + 1 := ucast (shr v 8 AND 0xff),
      i * 4 + 2 := ucast (shr v 16 AND 0xff), i * 4 + 3 := ucast (shr v 24 AND 0xff)]) i = Inr v"
proof -
  have ff: "(0xff :: u32) = mask 8" by (simp add: mask_eq_exp_minus_1)
  have "ucast (ucast (v AND mask 8) :: byte) OR shl (ucast (ucast (shr v 8 AND mask 8) :: byte)) 8 OR
      shl (ucast (ucast (shr v 16 AND mask 8) :: byte)) 16 OR shl (ucast (ucast (shr v 24 AND mask 8) :: byte)) 24 = v"
  proof (rule bit_word_eqI)
    fix n :: nat assume "n < LENGTH(32)"
    then have "n < 8 \<or> 8 \<le> n \<and> n < 16 \<or> 16 \<le> n \<and> n < 24 \<or> 24 \<le> n \<and> n < 32" by auto
    then show "bit ((ucast (ucast (v AND mask 8) :: byte) :: u32) OR shl (ucast (ucast (shr v 8 AND mask 8) :: byte)) 8 OR
      shl (ucast (ucast (shr v 16 AND mask 8) :: byte)) 16 OR shl (ucast (ucast (shr v 24 AND mask 8) :: byte)) 24) n = bit v n"
      by (elim disjE) (auto simp: bit_simps)
  qed
  then show ?thesis using assms by (simp add: read32_def Let_def ff mult.commute)
qed

lemma read32_write32: "write32 mem i v = Inr mem' \<Longrightarrow> read32 mem' i = Inr v"
proof -
  assume w: "write32 mem i v = Inr mem'"
  then have "4 * i + 4 \<le> length mem" by (simp add: write32_def Let_def split: if_splits)
  with read_written [OF this, of v] w show ?thesis by (simp add: write32_def Let_def split: if_splits)
qed

lemma read32_write32_other:
  "write32 mem i v = Inr mem' \<Longrightarrow> i \<noteq> j \<Longrightarrow> read32 mem' j = read32 mem j"
  by (auto simp: write32_def read32_def Let_def split: if_splits)

text \<open>
  The instruction an access of a general or floating-point register is meant to be: the encoding
  (match and mask) of the load or store of 4 or 8 bytes.
\<close>

definition access_encoding :: "bool \<Rightarrow> bool \<Rightarrow> bool \<Rightarrow> insn_t \<times> insn_t" where
  "access_encoding fp wr wide =
     (if fp then (if wr then (if wide then (MATCH_FLD, MASK_FLD) else (MATCH_FLW, MASK_FLW))
                  else (if wide then (MATCH_FSD, MASK_FSD) else (MATCH_FSW, MASK_FSW)))
      else (if wr then (if wide then (MATCH_LD, MASK_LD) else (MATCH_LW, MASK_LW))
            else (if wide then (MATCH_SD, MASK_SD) else (MATCH_SW, MASK_SW))))"

definition accesses_data0 :: "bool \<Rightarrow> bool \<Rightarrow> bool \<Rightarrow> u32 \<Rightarrow> insn_t \<Rightarrow> bool" where
  "accesses_data0 fp wr wide r i \<longleftrightarrow>
     (case access_encoding fp wr wide of (m, msk) \<Rightarrow> i AND msk = m) \<and> rs1 i = 0 \<and>
     (if wr then rd i = ucast r \<and> i_imm i = 0x380 else rs2 i = ucast r \<and> s_imm i = 0x380)"

lemma transfer_word:
  assumes "r < 32"
  shows "\<exists>w. transfer_of psize wr (if wide then 3 else 2) ((if fp then 0x1020 else 0x1000) + r) = Program [w]
    \<and> accesses_data0 fp wr wide r (fetched w)"
proof -
  have z: "(0 :: u32) < 32" by simp
  have n: "unat r < 32" using assms by (simp add: word_less_nat_alt)
  have off: "sext_xlen 12 (ucast (ucast debug_data_start :: 16 word)) = 0x380"
    by (simp add: debug_data_start_def sext_xlen_def)
  have gpr: "(0x1000 + r < 0x1000) = False" "0x1000 \<le> 0x1000 + r" "0x1000 + r < 0x1020" "0x1000 + r - 0x1000 = r"
    using n by (simp_all add: word_less_nat_alt word_le_nat_alt unat_word_ariths)
  have fpr: "(0x1020 + r < 0x1000) = False" "(0x1020 + r < 0x1020) = False"
    "0x1020 \<le> 0x1020 + r" "0x1020 + r < 0x1040" "0x1020 + r - 0x1020 = r"
    using n by (simp_all add: word_less_nat_alt word_le_nat_alt unat_word_ariths)
  note enc = store_words [OF assms] load_words [OF assms]
  note flds = s_word_fields [OF assms z] i_word_fields [OF assms z]
  show ?thesis
    using gpr fpr
    by (cases fp; cases wr; cases wide)
      (simp_all add: transfer_of_def Let_def by_size_def accesses_data0_def access_encoding_def ZERO_def enc flds
        masks_are_funct opcode_only_consts off del: not_le not_less)
qed

text \<open>A module that will perform its command: a register access with a transfer, the hart halted.\<close>

definition ready :: "bool \<Rightarrow> bool \<Rightarrow> bool \<Rightarrow> u32 \<Rightarrow> debug_module_t \<Rightarrow> bool" where
  "ready fp wr wide r m \<longleftrightarrow> cmderr (abstractcs m) = CMDERR_NONE \<and> \<not> busy (abstractcs m) \<and>
     halted_flags m ! unat (hartsel (dmcontrol m)) \<and> shr (command m) 24 = 0 \<and>
     truth (get_field (command m) AC_ACCESS_REGISTER_TRANSFER) \<and>
     truth (get_field (command m) AC_ACCESS_REGISTER_WRITE) = wr \<and>
     get_field (command m) AC_ACCESS_REGISTER_SIZE = (if wide then 3 else 2) \<and>
     get_field (command m) AC_ACCESS_REGISTER_REGNO = (if fp then 0x1020 else 0x1000) + r"

lemma put_program_one:
  assumes "dm_wf (dm s)"
  shows "\<exists>d. write32 (debug_abstract (dm s)) 0 w = Inr d \<and> length d = 20 \<and>
    put_program 0 [w] s = (Inr (), upd_dm (\<lambda>m. m\<lparr>debug_abstract := d\<rparr>) s)"
  using write32_wf [of 0 "debug_abstract (dm s)" w] wf_lengths(1) [OF assms]
  by (auto simp: put_program_def put_def upd_dm_def)

lemma launch_steps:
  assumes "dm_wf (dm s)" "i \<le> 4"
  shows "\<exists>d. write32 (debug_abstract (dm s)) i (last_word (dm s) i) = Inr d \<and>
    launch i s = (Inr (), upd_dm (\<lambda>m. set_busy True (m\<lparr>debug_abstract := d,
      debug_rom_flags := (debug_rom_flags m)[unat (hartsel (dmcontrol m)) :=
        debug_rom_flags m ! unat (hartsel (dmcontrol m)) OR FLAG_GO]\<rparr>)) s)"
  using write32_wf [of i "debug_abstract (dm s)" "last_word (dm s) i"] wf_lengths(1,5,9) [OF assms(1)] assms(2)
  by (auto simp: launch_def andthen_def put_def upd_dm_def change_flag_def elem_def set_elem_def modify_def set_busy_def)

text \<open>
  C27. An abstract register access runs the intended program.  For a halted hart, a transfer of a
  general or floating-point register of 32 or 64 bits writes to \<open>debug_abstract\<close> an instruction
  word that decodes to the load or store of that register at the address of \<open>data0\<close>, followed by
  the jump to the program buffer or \<open>ebreak\<close>; it raises the selected hart's go flag, and no other
  flag, and marks the command busy.
\<close>

theorem register_access_program:
  assumes "dm_wf (dm s)" "ready fp wr wide r (dm s)" "r < 32"
  shows "\<exists>s' w. perform_abstract_command s = (Inr (), s') \<and>
    read32 (debug_abstract (dm s')) 0 = Inr w \<and> accesses_data0 fp wr wide r (fetched w) \<and>
    read32 (debug_abstract (dm s')) 1 = Inr (last_word (dm s) 1) \<and>
    busy (abstractcs (dm s')) \<and> cmderr (abstractcs (dm s')) = CMDERR_NONE \<and>
    debug_rom_flags (dm s') = (debug_rom_flags (dm s))[unat (hartsel (dmcontrol (dm s))) :=
      debug_rom_flags (dm s) ! unat (hartsel (dmcontrol (dm s))) OR FLAG_GO]"
proof -
  let ?m = "dm s"
  obtain w where w: "transfer_of (progbufsize ?m) wr (if wide then 3 else 2) ((if fp then 0x1020 else 0x1000) + r) = Program [w]"
    "accesses_data0 fp wr wide r (fetched w)" using transfer_word [OF assms(3)] by blast
  obtain d where d: "write32 (debug_abstract ?m) 0 w = Inr d" "length d = 20"
    "put_program 0 [w] s = (Inr (), upd_dm (\<lambda>m. m\<lparr>debug_abstract := d\<rparr>) s)"
    using put_program_one [OF assms(1)] by blast
  define t where "t = upd_dm (\<lambda>m. m\<lparr>debug_abstract := d\<rparr>) s"
  have "dm_wf (dm t)" using assms(1) d(2) by (simp add: t_def upd_dm_def)
  then obtain e where e: "write32 (debug_abstract (dm t)) 1 (last_word (dm t) 1) = Inr e"
    "launch 1 t = (Inr (), upd_dm (\<lambda>m. set_busy True (m\<lparr>debug_abstract := e,
      debug_rom_flags := (debug_rom_flags m)[unat (hartsel (dmcontrol m)) :=
        debug_rom_flags m ! unat (hartsel (dmcontrol m)) OR FLAG_GO]\<rparr>)) t)"
    using launch_steps [of t 1] by auto
  have l: "last_word (dm t) 1 = last_word ?m 1"
    by (simp add: t_def upd_dm_def last_word_def debug_progbuf_start_def debug_abstract_start_def program_buffer_bytes_def)
  have h: "elem (halted_flags ?m) (hartsel (dmcontrol ?m)) = Inr True"
    using assms(2) wf_lengths(6,9) [OF assms(1)] by (simp add: elem_def ready_def)
  have run: "perform_abstract_command s = launch 1 t"
    using assms(2) w(1) d(3) h
    by (simp add: perform_abstract_command_def Let_def ready_def andthen_def look_def t_def)
  have "read32 e 0 = Inr w"
    using read32_write32_other [OF e(1), of 0] read32_write32 [OF d(1)] by (simp add: t_def upd_dm_def)
  moreover have "read32 e 1 = Inr (last_word ?m 1)" using read32_write32 [OF e(1)] l by simp
  moreover have "cmderr (abstractcs ?m) = CMDERR_NONE" using assms(2) by (simp add: ready_def)
  ultimately show ?thesis
    using w(2) e(2) by (simp add: run t_def upd_dm_def set_busy_def)
qed

lemma register_access_program_witness:
  "\<exists>s'. perform_abstract_command \<lparr>dm = sample_dm 2 0x371008, sys = False\<rparr> = (Inr (), s') \<and>
     busy (abstractcs (dm s')) \<and> read32 (debug_abstract (dm s')) 1 = Inr (last_word (sample_dm 2 0x371008) 1)"
  using register_access_program [of "\<lparr>dm = sample_dm 2 0x371008, sys = False\<rparr>" False True True 8]
    sample_dm_wf [of 2 "0x371008"]
  by (fastforce simp: ready_def sample_dm_def spike_consts get_field_def dmcontrol_zero_def)

section \<open>Jumps of the debug memory\<close>

lemma start_addresses:
  assumes "dm_wf m"
  shows "debug_progbuf_start m - debug_abstract_start m = 20"
    "\<exists>p \<le> 16. debug_abstract_start m = of_nat (0x368 - 4 * p) \<and> debug_progbuf_start m = of_nat (0x37c - 4 * p)"
proof -
  show "debug_progbuf_start m - debug_abstract_start m = 20"
    by (simp add: debug_abstract_start_def debug_abstract_size_def)
  define p where "p = unat (progbufsize m)"
  have "p \<le> 16" "progbufsize m = of_nat p"
    using wf_lengths(11) [OF assms] by (simp_all add: p_def word_le_nat_alt)
  then show "\<exists>p \<le> 16. debug_abstract_start m = of_nat (0x368 - 4 * p) \<and> debug_progbuf_start m = of_nat (0x37c - 4 * p)"
    by (intro exI [of _ p]) (simp add: debug_abstract_start_def debug_progbuf_start_def debug_abstract_size_def
        debug_data_start_def program_buffer_bytes_def of_nat_diff)
qed

lemma upto_16_cases: "(p :: nat) \<le> 16 \<Longrightarrow> p \<in> {0, 1, 2, 3, 4, 5, 6, 7, 8, 9, 10, 11, 12, 13, 14, 15, 16}"
  by simp presburger

lemma jal_offset: "uj_imm (fetched (jal ZERO imm)) = sext_xlen 21 (ucast (imm AND NOT 1))"
  using jal_fields(3) [of ZERO imm] by (simp add: ZERO_def)

text \<open>
  The jumps the debug module writes land where they should: the last word of an abstract
  command with \<open>postexec\<close>, at any of the five places it can stand, jumps to the first word of the
  program buffer, and the word at \<open>DEBUG_ROM_WHERETO\<close> of a constructed module jumps to the
  abstract program.
\<close>

theorem debug_jumps:
  assumes "dm_wf m" "i < 5" "truth (get_field (command m) AC_ACCESS_REGISTER_POSTEXEC)"
    and "psize \<le> 16" "length sba = 4" "length sbd = 4" "dm_construct I psize bits auth cmd sba sbd t = Inr s"
  shows "ucast (debug_abstract_start m) + 4 * of_nat i + uj_imm (fetched (last_word m i)) = ucast (debug_progbuf_start m)
    \<and> (\<exists>w. read32 (debug_rom_whereto (dm s)) 0 = Inr w \<and>
         DEBUG_ROM_WHERETO + uj_imm (fetched w) = ucast (debug_abstract_start (dm s)))"
proof
  obtain p where p: "p \<le> 16" "debug_abstract_start m = of_nat (0x368 - 4 * p)" "debug_progbuf_start m = of_nat (0x37c - 4 * p)"
    using start_addresses(2) [OF assms(1)] by blast
  have "i \<in> {0, 1, 2, 3, 4}" using assms(2) by auto
  then have "uj_imm (fetched (last_word m i)) = 20 - 4 * of_nat i"
    using assms(3) by (auto simp: last_word_def start_addresses(1) [OF assms(1)] jal_offset sext_xlen_def)
  then show "ucast (debug_abstract_start m) + 4 * of_nat i + uj_imm (fetched (last_word m i)) = ucast (debug_progbuf_start m)"
    using upto_16_cases [OF p(1)] by (auto simp: p(2,3))
  obtain w where w: "debug_rom_whereto (dm s) = w" "progbufsize (dm s) = psize"
    "write32 (replicate 4 0) 0 (jal ZERO (debug_abstract_start (dm s) - ucast DEBUG_ROM_WHERETO)) = Inr w"
    using assms(7) by (auto simp: dm_construct_def Let_def dm_reset_def reset_registers_def debug_abstract_start_def
        debug_progbuf_start_def program_buffer_bytes_def split: sum.splits prod.splits)
  define q where "q = unat psize"
  have q: "q \<le> 16" "psize = of_nat q" using assms(4) by (simp_all add: q_def word_le_nat_alt)
  have "debug_abstract_start (dm s) = of_nat (0x368 - 4 * q)"
    using q by (simp add: debug_abstract_start_def debug_progbuf_start_def debug_abstract_size_def
        debug_data_start_def program_buffer_bytes_def w(2) of_nat_diff)
  then have "DEBUG_ROM_WHERETO + uj_imm (fetched (jal ZERO (debug_abstract_start (dm s) - ucast DEBUG_ROM_WHERETO)))
      = ucast (debug_abstract_start (dm s))"
    using upto_16_cases [OF q(1)] by (auto simp: jal_offset sext_xlen_def spike_consts)
  with read32_write32 [OF w(3)] w(1)
  show "\<exists>w. read32 (debug_rom_whereto (dm s)) 0 = Inr w \<and>
      DEBUG_ROM_WHERETO + uj_imm (fetched w) = ucast (debug_abstract_start (dm s))" by blast
qed

lemma debug_jumps_witness:
  "0x360 + 4 + uj_imm (fetched (last_word (sample_dm 2 0x371008) 1)) = 0x374"
proof -
  obtain s where s: "dm_construct one_hart_if 2 0 True 0 [0, 0, 0, 0] [0, 0, 0, 0] True = Inr s"
    using constructed_locked [of 2 "[0, 0, 0, 0]" "[0, 0, 0, 0]" one_hart_if 0 0 True] by auto
  have "truth (get_field (command (sample_dm 2 0x371008)) AC_ACCESS_REGISTER_POSTEXEC)"
    by (simp add: sample_dm_def get_field_def spike_consts)
  from debug_jumps [of "sample_dm 2 0x371008" 1, OF _ _ this _ _ _ s] sample_dm_wf [of 2 "0x371008"] show ?thesis
    by (simp add: sample_dm_def debug_abstract_start_def debug_progbuf_start_def debug_abstract_size_def
        debug_data_start_def program_buffer_bytes_def)
qed

section \<open>Life cycle of a command\<close>

text \<open>The store of hart number \<open>h\<close> (or of any bytes) to a register of the debug ROM.\<close>

definition rom_store :: "reg_t \<Rightarrow> byte list \<Rightarrow> 's dm_sys \<Rightarrow> 's dm_sys" where
  "rom_store a bs s = snd (dm_store (a - DEBUG_START) bs s)"

lemma rom_store_window:
  assumes "dm_wf m" "a \<le> DEBUG_ROM_EXCEPTION"
  shows "\<not> within a n (ucast debug_data_start) hi" "\<not> within a n (ucast (debug_progbuf_start m)) hi'"
proof -
  obtain p where p: "p \<le> 16" "debug_progbuf_start m = of_nat (0x37c - 4 * p)"
    using start_addresses(2) [OF assms(1)] by blast
  have a: "unat a \<le> 0x10c" using assms(2) by (simp add: spike_consts word_le_nat_alt)
  show "\<not> within a n (ucast debug_data_start) hi"
    using a by (simp add: within_def debug_data_start_def word_le_nat_alt)
  have "unat (ucast (debug_progbuf_start m) :: reg_t) = 0x37c - 4 * p"
    using upto_16_cases [OF p(1)] by (auto simp: p(2))
  then have "unat a < unat (ucast (debug_progbuf_start m) :: reg_t)" using a p(1) by linarith
  then show "\<not> within a n (ucast (debug_progbuf_start m)) hi'"
    by (simp add: within_def word_le_nat_alt)
qed

text \<open>The effect of the three stores on the module, where nothing leaves an array.\<close>

lemma rom_halted:
  assumes "dm_wf (dm s)" "read32 bs 0 = Inr (hartsel (dmcontrol (dm s)))" "length bs = 4"
  shows "dm (rom_store DEBUG_ROM_HALTED bs s) =
    (let h = unat (hartsel (dmcontrol (dm s))); m = (dm s)\<lparr>halted_flags := (halted_flags (dm s))[h := True]\<rparr>
     in if debug_rom_flags (dm s) ! h AND FLAG_GO = 0 then set_busy False m else m)"
proof -
  have le: "DEBUG_ROM_HALTED \<le> DEBUG_ROM_EXCEPTION" by (simp add: spike_consts)
  have st: "dm_store (DEBUG_ROM_HALTED - DEBUG_START) bs s =
      andthen (hart_halted (hartsel (dmcontrol (dm s)))) (\<lambda>_. give True) s"
    using assms(2,3) by (simp add: dm_store_def Let_def rom_store_window [OF assms(1) le])
  show ?thesis
    unfolding rom_store_def st
    using wf_lengths(5,6,9) [OF assms(1)]
    by (simp add: hart_halted_def andthen_def put_def set_elem_def look_def elem_def modify_def upd_dm_def give_def Let_def)
qed

lemma rom_going:
  assumes "dm_wf (dm s)"
  shows "dm (rom_store DEBUG_ROM_GOING bs s) = (let h = unat (hartsel (dmcontrol (dm s))) in
    (dm s)\<lparr>debug_rom_flags := (debug_rom_flags (dm s))[h := debug_rom_flags (dm s) ! h AND NOT FLAG_GO]\<rparr>)"
proof -
  have le: "DEBUG_ROM_GOING \<le> DEBUG_ROM_EXCEPTION" and ne: "DEBUG_ROM_GOING \<noteq> DEBUG_ROM_HALTED"
    by (simp_all add: spike_consts)
  have st: "dm_store (DEBUG_ROM_GOING - DEBUG_START) bs s =
      andthen (change_flag (\<lambda>b. b AND NOT FLAG_GO) (hartsel (dmcontrol (dm s)))) (\<lambda>_. give True) s"
    using ne by (simp add: dm_store_def Let_def rom_store_window [OF assms le])
  show ?thesis
    unfolding rom_store_def st
    using wf_lengths(5,9) [OF assms]
    by (simp add: change_flag_def andthen_def put_def set_elem_def elem_def upd_dm_def give_def Let_def)
qed

lemma rom_exception:
  assumes "dm_wf (dm s)"
  shows "dm (rom_store DEBUG_ROM_EXCEPTION bs s) =
    (if cmderr (abstractcs (dm s)) = CMDERR_NONE then set_cmderr CMDERR_EXCEPTION (dm s) else dm s)"
proof -
  have ne: "DEBUG_ROM_EXCEPTION \<noteq> DEBUG_ROM_HALTED" "DEBUG_ROM_EXCEPTION \<noteq> DEBUG_ROM_GOING"
    "DEBUG_ROM_EXCEPTION \<noteq> DEBUG_ROM_RESUMING" by (simp_all add: spike_consts)
  then show ?thesis
    unfolding rom_store_def dm_store_def Let_def
    by (simp add: rom_store_window [OF assms order.refl] andthen_def modify_def give_def upd_dm_def)
qed

text \<open>
  C28. The life cycle of an abstract command.  While the go flag of the selected hart is up, the
  hart's report that it is halted does not end the command; after the hart has reported that it
  is going, the next halt report does, and the command error is kept.  An exception in between
  ends as \<open>CMDERR_EXCEPTION\<close> when no error was recorded before.
\<close>

theorem command_lifecycle:
  assumes "dm_wf (dm s)" "busy (abstractcs (dm s))" "h = unat (hartsel (dmcontrol (dm s)))"
    and "debug_rom_flags (dm s) ! h AND FLAG_GO \<noteq> 0"
    and "length bs = 4" "read32 bs 0 = Inr (hartsel (dmcontrol (dm s)))"
  shows "busy (abstractcs (dm (rom_store DEBUG_ROM_HALTED bs s)))
    \<and> abstractcs (dm (rom_store DEBUG_ROM_HALTED bs (rom_store DEBUG_ROM_GOING bs s)))
        = (abstractcs (dm s))\<lparr>busy := False\<rparr>
    \<and> abstractcs (dm (rom_store DEBUG_ROM_HALTED bs (rom_store DEBUG_ROM_EXCEPTION bs (rom_store DEBUG_ROM_GOING bs s))))
        = (abstractcs (dm s))\<lparr>busy := False, cmderr :=
            (if cmderr (abstractcs (dm s)) = CMDERR_NONE then CMDERR_EXCEPTION else cmderr (abstractcs (dm s)))\<rparr>"
proof -
  let ?g = "rom_store DEBUG_ROM_GOING bs s"
  let ?e = "rom_store DEBUG_ROM_EXCEPTION bs ?g"
  have clear: "(b AND NOT FLAG_GO) AND FLAG_GO = 0" for b by (rule bit_word_eqI) (simp add: bit_simps)
  have g: "dm_wf (dm ?g)" "hartsel (dmcontrol (dm ?g)) = hartsel (dmcontrol (dm s))"
    "abstractcs (dm ?g) = abstractcs (dm s)" "debug_rom_flags (dm ?g) ! h AND FLAG_GO = 0"
    using assms(1,3) wf_lengths(5,9) [OF assms(1)] clear by (simp_all add: rom_going [OF assms(1)] Let_def)
  have ewf: "dm_wf (dm ?e)" using g(1) by (simp add: rom_exception [OF g(1)])
  have e: "hartsel (dmcontrol (dm ?e)) = hartsel (dmcontrol (dm s))"
    "debug_rom_flags (dm ?e) ! h AND FLAG_GO = 0"
    "abstractcs (dm ?e) = (abstractcs (dm s))\<lparr>cmderr :=
       (if cmderr (abstractcs (dm s)) = CMDERR_NONE then CMDERR_EXCEPTION else cmderr (abstractcs (dm s)))\<rparr>"
    using g by (simp_all add: rom_exception [OF g(1)] set_cmderr_def)
  have "busy (abstractcs (dm (rom_store DEBUG_ROM_HALTED bs s)))"
    using assms by (simp add: rom_halted [OF assms(1,6,5)] Let_def)
  moreover have "abstractcs (dm (rom_store DEBUG_ROM_HALTED bs ?g)) = (abstractcs (dm s))\<lparr>busy := False\<rparr>"
    using g assms(3) rom_halted [OF g(1) _ assms(5)] assms(6) by (simp add: Let_def set_busy_def)
  moreover have "abstractcs (dm (rom_store DEBUG_ROM_HALTED bs ?e)) = (abstractcs (dm ?e))\<lparr>busy := False\<rparr>"
    using e(1,2) assms(3) rom_halted [OF ewf _ assms(5)] assms(6) by (simp add: Let_def set_busy_def)
  ultimately show ?thesis using e(3) by simp
qed

definition running_dm :: debug_module_t where
  "running_dm = (sample_dm 2 0x371008)\<lparr>abstractcs := \<lparr>busy = True, datacount = 2, abstractcs_progbufsize = 2,
     cmderr = 0\<rparr>, debug_rom_flags := (replicate 1024 0)[0 := 1]\<rparr>"

lemma command_lifecycle_witness:
  "cmderr (abstractcs (dm (rom_store DEBUG_ROM_HALTED [0, 0, 0, 0] (rom_store DEBUG_ROM_EXCEPTION [0, 0, 0, 0]
     (rom_store DEBUG_ROM_GOING [0, 0, 0, 0] \<lparr>dm = running_dm, sys = False\<rparr>))))) = 3"
proof -
  have "dm_wf running_dm" using sample_dm_wf [of 2 "0x371008"] by (simp add: running_dm_def dm_wf_def datasize_def)
  then show ?thesis
    using command_lifecycle [of "\<lparr>dm = running_dm, sys = False\<rparr>" 0 "[0, 0, 0, 0]"]
    by (simp add: running_dm_def sample_dm_def dmcontrol_zero_def FLAG_GO_def spike_consts read32_def)
qed

section \<open>System bus access\<close>

text \<open>
  The address of system bus access never carries.  The sums of \<open>sb_autoincrement\<close> are taken
  in 32 bits before they are widened, so an increment changes \<open>sbaddress0\<close> only: at the end of a
  4 GiB region the next address is the start of the same region.
\<close>

theorem autoincrement_never_carries:
  assumes "length (sbaddress m) = 4" "autoincrement (sbcs m)" "max_bus_master_bits m \<noteq> 0"
  shows "sb_autoincrement m = m\<lparr>sbaddress := (sbaddress m)[0 := sbaddress m ! 0 + sb_access_bits m div 8]\<rparr>"
proof -
  obtain a b c d where l: "sbaddress m = [a, b, c, d]"
    using assms(1) by (auto simp: length_Suc_conv eval_nat_numeral)
  have up: "ucast (shr (ucast x :: reg_t) 32) = (0 :: u32)" "ucast (ucast x :: reg_t) = x" for x :: u32
    by (rule bit_word_eqI; auto simp: bit_simps dest: bit_imp_le_length)+
  show ?thesis using assms(2,3)
    by (simp add: sb_autoincrement_def Let_def set_sbaddress_def up l)
qed

lemma autoincrement_never_carries_witness:
  "sbaddress (sb_autoincrement (sample_dm 2 0)) = [4, 1, 2, 3]"
  using autoincrement_never_carries [of "sample_dm 2 0"]
  by (simp add: sample_dm_def sbcs_zero_def sb_access_bits_def)

text \<open>
  A 64-bit system bus read returns 32 bits.  With \<open>sbaccess\<close> 3 the code asks the bus for four
  bytes and puts 0 in \<open>sbdata1\<close>, although a 64-bit write stores all eight bytes.
\<close>

theorem wide_bus_read_is_narrow:
  assumes "sbaccess (sbcs (dm s)) = 3" "max_bus_master_bits (dm s) \<ge> 64" "length (sbdata (dm s)) = 4"
    and "if_load I (sb_address (dm s)) 4 s = (Inr bs, s')" "length (sbdata (dm s')) = 4"
    and "if_store I (sb_address (dm s)) (le_bytes 4 (sbdata (dm s) ! 0) @ le_bytes 4 (sbdata (dm s) ! 1)) s = (r, t)"
  shows "sb_read I s = (Inr (), upd_dm (\<lambda>m. m\<lparr>sbdata := (sbdata m)[0 := of_le_bytes bs, 1 := 0]\<rparr>) s')
    \<and> sb_write I s = (r, t)"
proof
  have b: "\<not> max_bus_master_bits (dm s) < 64" using assms(2) by simp
  have up: "ucast (shr (ucast x :: reg_t) 32) = (0 :: u32)" "ucast (ucast x :: reg_t) = x" for x :: u32
    by (rule bit_word_eqI; auto simp: bit_simps dest: bit_imp_le_length)+
  show "sb_read I s = (Inr (), upd_dm (\<lambda>m. m\<lparr>sbdata := (sbdata m)[0 := of_le_bytes bs, 1 := 0]\<rparr>) s')"
    using assms(1,2,4)
    by (simp add: sb_read_def catch_load_fault_def Let_def andthen_def modify_def upd_dm_def set_sbdata_def up)
  have "le_bytes 8 (shl (ucast y) 32 OR ucast x :: reg_t) = le_bytes 4 x @ le_bytes 4 y" for x y :: u32
  proof (rule nth_equalityI)
    fix i assume "i < length (le_bytes 8 (shl (ucast y) 32 OR ucast x :: reg_t))"
    then have i: "i < 8" by simp
    have high: "\<not> i < 4 \<Longrightarrow> 8 * i + n - 32 = 8 * (i - 4) + n" for n by simp
    show "le_bytes 8 (shl (ucast y) 32 OR ucast x :: reg_t) ! i = (le_bytes 4 x @ le_bytes 4 y) ! i"
      using i high by (intro bit_word_eqI) (auto simp: nth_append bit_simps dest: bit_imp_le_length)
  qed simp
  then show "sb_write I s = (r, t)"
    using assms(1,2,6) by (simp add: sb_write_def sb_write_bytes_def Let_def)
qed

lemma wide_bus_read_is_narrow_witness:
  "sbdata (dm (snd (sb_read one_hart_if \<lparr>dm = sample_dm 2 0, sys = False\<rparr>))) = [0, 0, 0, 0]"
proof -
  have four: "replicate 4 0 = [0, 0, 0, 0 :: byte]" by (simp add: numeral_eq_Suc)
  show ?thesis
    using wide_bus_read_is_narrow [of "\<lparr>dm = sample_dm 2 0, sys = False\<rparr>" one_hart_if "[0, 0, 0, 0]"
      "\<lparr>dm = sample_dm 2 0, sys = False\<rparr>" "Inr ()" "\<lparr>dm = sample_dm 2 0, sys = False\<rparr>"]
    by (simp add: four sample_dm_def sbcs_zero_def one_hart_if_def upd_dm_def)
qed

section \<open>The control register\<close>

lemma take_bit_1_truth: "take_bit 1 (of_bool_word b) = (of_bool_word b :: u32)"
  by simp

lemma image_fields:
  "get_field (dmcontrol_image c) DMI_DMCONTROL_HALTREQ = of_bool_word (haltreq c)"
  "get_field (dmcontrol_image c) DMI_DMCONTROL_RESUMEREQ = of_bool_word (resumereq c)"
  "get_field (dmcontrol_image c) DMI_DMCONTROL_HARTSELHI = take_bit 10 (shr (hartsel c) 10)"
  "get_field (dmcontrol_image c) DMI_DMCONTROL_HARTSELLO = take_bit 10 (hartsel c)"
  "get_field (dmcontrol_image c) DMI_DMCONTROL_DMACTIVE = of_bool_word (dmactive c)"
  unfolding dmcontrol_image_def with_fields_def dmi_masks
    DMI_DMCONTROL_HALTREQ_OFFSET_def DMI_DMCONTROL_HALTREQ_LENGTH_def
    DMI_DMCONTROL_RESUMEREQ_OFFSET_def DMI_DMCONTROL_RESUMEREQ_LENGTH_def
    DMI_DMCONTROL_HARTSELHI_OFFSET_def DMI_DMCONTROL_HARTSELHI_LENGTH_def
    DMI_DMCONTROL_HARTSELLO_OFFSET_def DMI_DMCONTROL_HARTSELLO_LENGTH_def
    DMI_DMCONTROL_HARTRESET_OFFSET_def DMI_DMCONTROL_HARTRESET_LENGTH_def
    DMI_DMCONTROL_NDMRESET_OFFSET_def DMI_DMCONTROL_NDMRESET_LENGTH_def
    DMI_DMCONTROL_DMACTIVE_OFFSET_def DMI_DMCONTROL_DMACTIVE_LENGTH_def
  by (simp_all add: get_set_field get_set_field_other)

lemma selected_low_bits: "hartsel (dmcontrol_fields v c) = get_field v DMI_DMCONTROL_HARTSELLO"
proof -
  have lo: "get_field v DMI_DMCONTROL_HARTSELLO = take_bit 10 (shr v 16)"
    unfolding dmi_masks DMI_DMCONTROL_HARTSELLO_OFFSET_def DMI_DMCONTROL_HARTSELLO_LENGTH_def
    by (simp add: field_laws)
  have m: "shl 1 10 - 1 = (mask 10 :: u32)"
    by (simp add: mask_eq_exp_minus_1)
  show ?thesis
    unfolding dmcontrol_fields_def DMI_DMCONTROL_HARTSELLO_LENGTH_def lo hartsellen_def m
    by (rule bit_word_eqI) (auto simp: bit_simps)
qed

text \<open>What the register operations need from the host: a halt request is remembered.\<close>

definition remembers_halt :: "'s dm_if \<Rightarrow> bool" where
  "remembers_halt I \<longleftrightarrow> (\<forall>i b t. if_halt_request I i (if_set_halt_request I i b t) = b \<and>
     if_nprocs I (if_set_halt_request I i b t) = if_nprocs I t \<and>
     (\<forall>j. if_present I j (if_set_halt_request I i b t) = if_present I j t))"

lemma change_flag_state:
  assumes "dm_wf (dm s)" "unat i < 1024"
  shows "change_flag f i s = (Inr (), upd_dm (\<lambda>m. m\<lparr>debug_rom_flags :=
    (debug_rom_flags m)[unat i := f (debug_rom_flags m ! unat i)]\<rparr>) s)"
  using assms wf_lengths(5) [OF assms(1)] by (simp add: change_flag_def put_def elem_def set_elem_def upd_dm_def)

lemma resume_state:
  assumes "dm_wf (dm s)"
  shows "\<exists>fl ra. length fl = 1024 \<and> length ra = 1024 \<and>
    request_resume s = (Inr (), upd_dm (\<lambda>m. m\<lparr>debug_rom_flags := fl, resumeack := ra\<rparr>) s)"
  using wf_lengths(5,7,9) [OF assms]
  by (intro exI [of _ "(debug_rom_flags (dm s))[unat (hartsel (dmcontrol (dm s))) :=
        debug_rom_flags (dm s) ! unat (hartsel (dmcontrol (dm s))) OR FLAG_RESUME]"]
      exI [of _ "(resumeack (dm s))[unat (hartsel (dmcontrol (dm s))) := False]"])
    (simp add: request_resume_def andthen_def change_flag_state [OF assms wf_lengths(9) [OF assms]]
      put_def set_elem_def upd_dm_def)

lemma select_state:
  assumes "dm_wf (dm s)"
  shows "\<exists>hr. length hr = 1024 \<and> select_hart v s =
    (Inr (), upd_dm (\<lambda>m. m\<lparr>dmcontrol := dmcontrol_fields v (dmcontrol m), havereset := hr\<rparr>) s)"
proof (cases "truth (get_field v DMI_DMCONTROL_ACKHAVERESET)")
  case True
  then show ?thesis
    using selected_hart_small [of v "dmcontrol (dm s)"] wf_lengths(8) [OF assms]
    by (intro exI [of _ "(havereset (dm s))[unat (hartsel (dmcontrol_fields v (dmcontrol (dm s)))) := False]"])
      (simp add: select_hart_def andthen_def modify_def put_def set_elem_def upd_dm_def)
next
  case False
  then show ?thesis
    using wf_lengths(8) [OF assms]
    by (intro exI [of _ "havereset (dm s)"]) (simp add: select_hart_def andthen_def modify_def upd_dm_def give_def)
qed

lemma control_state:
  assumes "dm_wf (dm s)" "\<not> hartreset (dmcontrol (dm s))" "remembers_halt I"
  shows "\<exists>s'. control_hart I s = (Inr (), s') \<and> dmcontrol (dm s') = dmcontrol (dm s) \<and>
    dm_wf (dm s') \<and>
    (case current_proc I s' of None \<Rightarrow> True
     | Some i \<Rightarrow> if_halt_request I i (sys s') = haltreq (dmcontrol (dm s)))"
proof (cases "current_proc I s")
  case None
  then show ?thesis using assms(1) by (simp add: control_hart_def give_def)
next
  case (Some i)
  define t where "t = s\<lparr>sys := if_set_halt_request I i (haltreq (dmcontrol (dm s))) (sys s)\<rparr>"
  have wt: "dm_wf (dm t)" using assms(1) by (simp add: t_def)
  obtain u where u: "(if resumereq (dmcontrol (dm s)) then request_resume else give ()) t = (Inr (), u)"
    "sys u = sys t" "dmcontrol (dm u) = dmcontrol (dm s)"
    "dm_wf (dm u)"
    using resume_state [OF wt] wt by (cases "resumereq (dmcontrol (dm s))") (auto simp: give_def t_def upd_dm_def)
  have run: "control_hart I s = (Inr (), u)"
    using u(1,3) assms(2)
    by (cases "resumereq (dmcontrol (dm s))") (simp_all add: control_hart_def Some andthen_def give_def t_def)
  have "current_proc I u = Some i" "if_halt_request I i (sys u) = haltreq (dmcontrol (dm s))"
    using Some assms(3) u(2,3) by (auto simp: current_proc_def Let_def t_def remembers_halt_def split: if_splits)
  with run u(3,4) show ?thesis by simp
qed

lemma read_dmcontrol_address:
  assumes "dm_wf (dm s)"
  shows "dmi_read I DMI_DMCONTROL s = answer (read_dmcontrol I) s"
  unfolding dmi_read_def Let_def if_not_P [OF interface_addresses(3) [OF assms]]
    if_not_P [OF interface_addresses(4) [OF assms]]
  by simp



section \<open>Program buffers that hide the authentication register\<close>

definition same_dmstatus :: "('s dm_sys \<Rightarrow> 'a result \<times> 's dm_sys) \<Rightarrow> bool" where
  "same_dmstatus c \<longleftrightarrow> (\<forall>s. dmstatus (dm (snd (c s))) = dmstatus (dm s))"

lemma same_dmstatus_steps:
  "same_dmstatus c \<Longrightarrow> (\<And>a. same_dmstatus (f a)) \<Longrightarrow> same_dmstatus (andthen c f)"
  "(\<And>s. same_dmstatus (F s)) \<Longrightarrow> same_dmstatus (\<lambda>s. F s s)"
  "same_dmstatus (give a)" "same_dmstatus (look l)"
  "(\<And>m. dmstatus (h m) = dmstatus m) \<Longrightarrow> same_dmstatus (modify h)"
  "(\<And>b m. dmstatus (g b m) = dmstatus m) \<Longrightarrow> same_dmstatus (put p g)"
  "same_dmstatus d \<Longrightarrow> same_dmstatus d' \<Longrightarrow> same_dmstatus (if b then d else d')"
  by (auto simp: same_dmstatus_def andthen_def give_def look_def modify_def put_def upd_dm_def split: sum.split prod.split)
    (metis snd_conv)+

lemma perform_keeps_dmstatus: "dmstatus (dm (snd (perform_abstract_command s))) = dmstatus (dm s)"
proof -
  have launch: "same_dmstatus (launch i)" for i
    unfolding launch_def change_flag_def
    by (rule same_dmstatus_steps(1), rule same_dmstatus_steps(6), simp)
      (rule same_dmstatus_steps(2), intro same_dmstatus_steps(1,5,6), simp_all add: set_busy_def)
  have custom: "same_dmstatus (access_custom wr n)" for wr n
    unfolding access_custom_def by (intro same_dmstatus_steps(1,5-7)) (simp_all add: set_cmderr_def)
  have fail: "same_dmstatus (modify (set_cmderr e))" for e
    by (rule same_dmstatus_steps(5)) (simp add: set_cmderr_def)
  have program: "same_dmstatus (put_program i ws)" for i ws
    unfolding put_program_def by (rule same_dmstatus_steps(6)) simp
  have run: "same_dmstatus (case tr of
      Program ws \<Rightarrow> andthen (put_program 0 ws) (\<lambda>_. launch (length ws))
    | Unsupported ws \<Rightarrow> andthen (put_program 0 ws) (\<lambda>_. modify (set_cmderr CMDERR_NOTSUP))
    | Custom n \<Rightarrow> access_custom wr n)" for tr wr
    by (cases tr) (simp_all add: same_dmstatus_steps(1) launch custom fail program)
  have all: "same_dmstatus (andthen (look l) (\<lambda>h. if \<not> h then modify (set_cmderr e) else if b then
      (case tr of
        Program ws \<Rightarrow> andthen (put_program 0 ws) (\<lambda>_. launch (length ws))
      | Unsupported ws \<Rightarrow> andthen (put_program 0 ws) (\<lambda>_. modify (set_cmderr CMDERR_NOTSUP))
      | Custom n \<Rightarrow> access_custom wr n) else launch 0))" for l e b tr wr
    by (intro same_dmstatus_steps(1,4,7) fail run launch)
  have "same_dmstatus (\<lambda>s :: 'a dm_sys. perform_abstract_command s)"
    unfolding perform_abstract_command_def Let_def if_distribR [symmetric]
    by (rule same_dmstatus_steps(2)) (intro same_dmstatus_steps(3,7) fail all)
  then show ?thesis by (simp add: same_dmstatus_def)
qed

text \<open>
  A long program buffer locks the debugger out.  \<open>--progsize\<close> is not checked; with more than 16
  words the addresses of the program buffer cover \<open>authdata\<close>, so that no write to \<open>authdata\<close>, not
  even of the right answer, authenticates.
\<close>

theorem long_progbuf_blocks_authentication:
  fixes s :: "'s dm_sys"
  assumes "16 < progbufsize (dm s)" "progbufsize (dm s) < 0xffffffe0" "datacount (abstractcs (dm s)) = 2"
    and "\<not> authenticated (dmstatus (dm s))"
  shows "\<not> authenticated (dmstatus (dm (snd (dmi_write I DMI_AUTHDATA v s))))"
proof -
  have n: "16 < unat (progbufsize (dm s))" "unat (progbufsize (dm s)) < 0xffffffe0"
    using assms(1,2) by (simp_all add: word_less_nat_alt)
  then have "unat (DMI_PROGBUF0 + progbufsize (dm s)) = 32 + unat (progbufsize (dm s))"
    by (simp add: spike_consts unat_word_ariths)
  then have in_progbuf: "DMI_AUTHDATA \<ge> DMI_PROGBUF0 \<and> DMI_AUTHDATA < DMI_PROGBUF0 + progbufsize (dm s)"
    using n(1) by (simp add: word_less_nat_alt) (simp add: spike_consts)
  have no_data: "\<not> (DMI_AUTHDATA \<ge> DMI_DATA0 \<and> DMI_AUTHDATA < DMI_DATA0 + datacount (abstractcs (dm s)))"
    using assms(3) by (simp add: spike_consts)
  have autoexec: "dmstatus (dm (snd (autoexec f i t))) = dmstatus (dm t)" for f i and t :: "'s dm_sys"
    by (simp add: autoexec_def perform_keeps_dmstatus give_def)
  define c :: "'s dm_sys \<Rightarrow> unit result \<times> 's dm_sys" where "c = (if busy (abstractcs (dm s)) then give () else put (\<lambda>m. write32 (program_buffer m)
    (unat (DMI_AUTHDATA - DMI_PROGBUF0)) v) (\<lambda>d m. m\<lparr>program_buffer := d\<rparr>))"
  have "dmstatus (dm (snd (c s))) = dmstatus (dm s)"
    by (simp add: c_def give_def put_def upd_dm_def split: sum.split)
  then obtain r t where c: "c s = (r, t)" "dmstatus (dm t) = dmstatus (dm s)" by (cases "c s") simp
  have "dmi_write I DMI_AUTHDATA v s = accepted (andthen c (\<lambda>_ s.
      autoexec (autoexecprogbuf (abstractauto (dm s))) (unat (DMI_AUTHDATA - DMI_PROGBUF0)) s)) s"
    unfolding dmi_write_def Let_def if_not_P [OF no_data] if_P [OF in_progbuf] c_def by simp
  then have "dmstatus (dm (snd (dmi_write I DMI_AUTHDATA v s))) = dmstatus (dm s)"
    using c autoexec [of "autoexecprogbuf (abstractauto (dm t))" "unat (DMI_AUTHDATA - DMI_PROGBUF0)" t]
    by (auto simp: accepted_def andthen_def give_def split: sum.splits prod.splits)
  with assms(4) show ?thesis by simp
qed

lemma long_progbuf_blocks_authentication_witness:
  "\<not> authenticated (dmstatus (dm (snd (dmi_write one_hart_if DMI_AUTHDATA 1
     \<lparr>dm = (sample_dm 20 0)\<lparr>require_authentication := True, dmstatus := dmstatus_zero\<rparr>, sys = False\<rparr>))))"
  using long_progbuf_blocks_authentication
    [of "\<lparr>dm = (sample_dm 20 0)\<lparr>require_authentication := True, dmstatus := dmstatus_zero\<rparr>, sys = False\<rparr>"]
  by (simp add: sample_dm_def dmstatus_zero_def)

end
