(* ===== verification/Jtag.thy ===== *)
theory Jtag
  imports DebugAccess
begin

text \<open>
  The JTAG transport of the debug module (\<open>riscv/jtag_dtm.h\<close>, \<open>riscv/jtag_dtm.cc\<close>): the TAP state
  machine, the instruction and data registers, and the access of the debug module when the data
  register is updated.  An exception of the debug module ends \<open>set_pins\<close> where it is thrown; a
  shift by an amount C++ leaves undefined is \<open>Abort\<close>.
\<close>

section \<open>State\<close>

datatype jtag_state_t = TEST_LOGIC_RESET | RUN_TEST_IDLE | SELECT_DR_SCAN | CAPTURE_DR | SHIFT_DR
  | EXIT1_DR | PAUSE_DR | EXIT2_DR | UPDATE_DR | SELECT_IR_SCAN | CAPTURE_IR | SHIFT_IR
  | EXIT1_IR | PAUSE_IR | EXIT2_IR | UPDATE_IR

record jtag_dtm_t =
  tck_pin :: bool
  tms_pin :: bool
  tdi_pin :: bool
  tdo_pin :: bool
  ir :: u32
  dr :: reg_t
  dr_length :: u32
  dtmcontrol :: u32
  dmi :: reg_t
  tap_state :: jtag_state_t

definition idcode :: u32 where "idcode = 0xdeadbeef"
definition ir_length :: nat where "ir_length = 5"
definition abits :: nat where "abits = 6"

definition IR_IDCODE :: u32 where "IR_IDCODE = 1"
definition IR_DTMCONTROL :: u32 where "IR_DTMCONTROL = 0x10"
definition IR_DBUS :: u32 where "IR_DBUS = 0x11"

definition DMI_OP :: reg_t where "DMI_OP = 3"
definition DMI_DATA :: reg_t where "DMI_DATA = shl 0xffffffff 2"
definition DMI_ADDRESS :: reg_t where "DMI_ADDRESS = shl 1 (abits + 34) - shl 1 34"

definition DMI_OP_STATUS_SUCCESS :: reg_t where "DMI_OP_STATUS_SUCCESS = 0"
definition DMI_OP_STATUS_FAILED :: reg_t where "DMI_OP_STATUS_FAILED = 2"
definition DMI_OP_READ :: reg_t where "DMI_OP_READ = 1"
definition DMI_OP_WRITE :: reg_t where "DMI_OP_WRITE = 2"

record 's jtag_sys =
  tap :: jtag_dtm_t
  dmsys :: "'s dm_sys"

definition upd_tap :: "(jtag_dtm_t \<Rightarrow> jtag_dtm_t) \<Rightarrow> 's jtag_sys \<Rightarrow> 's jtag_sys" where
  "upd_tap f s = s\<lparr>tap := f (tap s)\<rparr>"

text \<open>The constructor leaves \<open>ir\<close>, \<open>dr\<close> and \<open>dr_length\<close> uninitialised; they are arguments.\<close>

definition jtag_construct :: "u32 \<Rightarrow> reg_t \<Rightarrow> u32 \<Rightarrow> jtag_dtm_t" where
  "jtag_construct i d l = \<lparr>tck_pin = False, tms_pin = False, tdi_pin = False, tdo_pin = False,
     ir = i, dr = d, dr_length = l, dtmcontrol = shl (of_nat abits) DTM_DTMCS_ABITS_OFFSET OR 1,
     dmi = shl DMI_OP_STATUS_SUCCESS DTM_DMI_OP_OFFSET, tap_state = TEST_LOGIC_RESET\<rparr>"

definition jtag_reset :: "jtag_dtm_t \<Rightarrow> jtag_dtm_t" where
  "jtag_reset t = t\<lparr>tap_state := TEST_LOGIC_RESET\<rparr>"

section \<open>The TAP state machine\<close>

fun next_state :: "jtag_state_t \<Rightarrow> bool \<Rightarrow> jtag_state_t" where
  "next_state TEST_LOGIC_RESET tms = (if tms then TEST_LOGIC_RESET else RUN_TEST_IDLE)"
| "next_state RUN_TEST_IDLE tms = (if tms then SELECT_DR_SCAN else RUN_TEST_IDLE)"
| "next_state SELECT_DR_SCAN tms = (if tms then SELECT_IR_SCAN else CAPTURE_DR)"
| "next_state CAPTURE_DR tms = (if tms then EXIT1_DR else SHIFT_DR)"
| "next_state SHIFT_DR tms = (if tms then EXIT1_DR else SHIFT_DR)"
| "next_state EXIT1_DR tms = (if tms then UPDATE_DR else PAUSE_DR)"
| "next_state PAUSE_DR tms = (if tms then EXIT2_DR else PAUSE_DR)"
| "next_state EXIT2_DR tms = (if tms then UPDATE_DR else SHIFT_DR)"
| "next_state UPDATE_DR tms = (if tms then SELECT_DR_SCAN else RUN_TEST_IDLE)"
| "next_state SELECT_IR_SCAN tms = (if tms then TEST_LOGIC_RESET else CAPTURE_IR)"
| "next_state CAPTURE_IR tms = (if tms then EXIT1_IR else SHIFT_IR)"
| "next_state SHIFT_IR tms = (if tms then EXIT1_IR else SHIFT_IR)"
| "next_state EXIT1_IR tms = (if tms then UPDATE_IR else PAUSE_IR)"
| "next_state PAUSE_IR tms = (if tms then EXIT2_IR else PAUSE_IR)"
| "next_state EXIT2_IR tms = (if tms then UPDATE_IR else SHIFT_IR)"
| "next_state UPDATE_IR tms = (if tms then SELECT_DR_SCAN else RUN_TEST_IDLE)"

section \<open>Data registers\<close>

definition capture_dr :: "jtag_dtm_t \<Rightarrow> jtag_dtm_t" where
  "capture_dr t =
     (if ir t = IR_IDCODE then t\<lparr>dr := ucast idcode, dr_length := 32\<rparr>
      else if ir t = IR_DTMCONTROL then t\<lparr>dr := ucast (dtmcontrol t), dr_length := 32\<rparr>
      else if ir t = IR_DBUS then t\<lparr>dr := dmi t, dr_length := of_nat abits + 34\<rparr>
      else t)"

text \<open>Calls the debug module and continues with its answer.\<close>

definition on_dm :: "('s dm_sys \<Rightarrow> 'a result \<times> 's dm_sys) \<Rightarrow> 's jtag_sys \<Rightarrow> 'a result \<times> 's jtag_sys" where
  "on_dm c s = (case c (dmsys s) of (r, d) \<Rightarrow> (r, s\<lparr>dmsys := d\<rparr>))"

definition set_dmi :: "(reg_t \<Rightarrow> reg_t) \<Rightarrow> 's jtag_sys \<Rightarrow> unit result \<times> 's jtag_sys" where
  "set_dmi f s = (Inr (), upd_tap (\<lambda>t. t\<lparr>dmi := f (dmi t)\<rparr>) s)"

definition update_dr :: "'s dm_if \<Rightarrow> 's jtag_sys \<Rightarrow> unit result \<times> 's jtag_sys" where
  "update_dr I s =
     (if ir (tap s) = IR_DBUS then
        (let d = dr (tap s); oper = get_field d DMI_OP; data = ucast (get_field d DMI_DATA);
             address = ucast (get_field d DMI_ADDRESS)
         in andthen (set_dmi (\<lambda>_. d)) (\<lambda>_.
            andthen
              (if oper = DMI_OP_READ then
                 andthen (on_dm (dmi_read I address)) (\<lambda>v. case v of
                     Some x \<Rightarrow> andthen (set_dmi (\<lambda>w. set_field w DMI_DATA (ucast x))) (\<lambda>_. give True)
                   | None \<Rightarrow> give False)
               else if oper = DMI_OP_WRITE then on_dm (dmi_write I address data)
               else give True) (\<lambda>success.
            set_dmi (\<lambda>w. set_field w DMI_OP
              (if success then DMI_OP_STATUS_SUCCESS else DMI_OP_STATUS_FAILED)))) s)
      else (Inr (), s))"

section \<open>Clock edges\<close>

text \<open>Before the state changes, the register being shifted takes in the latched \<open>tdi\<close>.\<close>

definition shift_regs :: "jtag_dtm_t \<Rightarrow> jtag_dtm_t result" where
  "shift_regs t = (case tap_state t of
     SHIFT_DR \<Rightarrow>
       (let n = unat (dr_length t - 1) in
        if n < 64 then Inr (t\<lparr>dr := shr (dr t) 1 OR shl (of_bool_word (tdi_pin t)) n\<rparr>) else Inl Abort)
   | SHIFT_IR \<Rightarrow> Inr (t\<lparr>ir := shr (ir t) 1 OR shl (of_bool_word (tdi_pin t)) (ir_length - 1)\<rparr>)
   | _ \<Rightarrow> Inr t)"

definition enter_state :: "'s dm_if \<Rightarrow> 's jtag_sys \<Rightarrow> unit result \<times> 's jtag_sys" where
  "enter_state I s = (case tap_state (tap s) of
     TEST_LOGIC_RESET \<Rightarrow> (Inr (), upd_tap (\<lambda>t. t\<lparr>ir := IR_IDCODE\<rparr>) s)
   | CAPTURE_DR \<Rightarrow> (Inr (), upd_tap capture_dr s)
   | SHIFT_DR \<Rightarrow> (Inr (), upd_tap (\<lambda>t. t\<lparr>tdo_pin := truth (dr t AND 1)\<rparr>) s)
   | UPDATE_DR \<Rightarrow> update_dr I s
   | SHIFT_IR \<Rightarrow> (Inr (), upd_tap (\<lambda>t. t\<lparr>tdo_pin := truth (ir t AND 1)\<rparr>) s)
   | _ \<Rightarrow> (Inr (), s))"

definition rising_edge :: "'s dm_if \<Rightarrow> 's jtag_sys \<Rightarrow> unit result \<times> 's jtag_sys" where
  "rising_edge I s = (case shift_regs (tap s) of
     Inl e \<Rightarrow> (Inl e, s)
   | Inr t \<Rightarrow> enter_state I (s\<lparr>tap := t\<lparr>tap_state := next_state (tap_state t) (tms_pin t)\<rparr>\<rparr>))"

definition set_pins :: "'s dm_if \<Rightarrow> bool \<Rightarrow> bool \<Rightarrow> bool \<Rightarrow> 's jtag_sys \<Rightarrow> unit result \<times> 's jtag_sys" where
  "set_pins I tck tms tdi s =
     andthen (if \<not> tck_pin (tap s) \<and> tck then rising_edge I else give ())
       (\<lambda>_ s. (Inr (), upd_tap (\<lambda>t. t\<lparr>tck_pin := tck, tms_pin := tms, tdi_pin := tdi\<rparr>) s)) s"

end
