(* ===== verification/JtagLaws.thy ===== *)
theory JtagLaws
  imports Jtag
begin

text \<open>
  What a debug probe relies on: five clocks with \<open>tms\<close> high reset the TAP from any state, and a
  scan of the data register in \<open>DBUS\<close> mode shifts out the result of the last access and performs
  the access that is shifted in, once.
\<close>

section \<open>Clocks\<close>

text \<open>A probe sets the pins with the clock low and then raises the clock.\<close>

definition clock :: "'s dm_if \<Rightarrow> bool \<Rightarrow> bool \<Rightarrow> 's jtag_sys \<Rightarrow> unit result \<times> 's jtag_sys" where
  "clock I tms tdi = andthen (set_pins I False tms tdi) (\<lambda>_. set_pins I True tms tdi)"

text \<open>Clocks in sequence, with the value of \<open>tdo\<close> that the probe samples before each.\<close>

fun clocks :: "'s dm_if \<Rightarrow> (bool \<times> bool) list \<Rightarrow> 's jtag_sys \<Rightarrow> bool list result \<times> 's jtag_sys" where
  "clocks I [] s = (Inr [], s)"
| "clocks I ((tms, tdi) # ps) s =
     andthen (clock I tms tdi) (\<lambda>_. andthen (clocks I ps) (\<lambda>os s'. (Inr (tdo_pin (tap s) # os), s'))) s"

definition latch :: "bool \<Rightarrow> bool \<Rightarrow> bool \<Rightarrow> jtag_dtm_t \<Rightarrow> jtag_dtm_t" where
  "latch tck tms tdi t = t\<lparr>tck_pin := tck, tms_pin := tms, tdi_pin := tdi\<rparr>"

lemma latch_simps [simp]:
  "tap_state (latch c m d t) = tap_state t" "ir (latch c m d t) = ir t" "dr (latch c m d t) = dr t"
  "dr_length (latch c m d t) = dr_length t" "dmi (latch c m d t) = dmi t" "tdo_pin (latch c m d t) = tdo_pin t"
  "tms_pin (latch c m d t) = m" "tdi_pin (latch c m d t) = d" "tck_pin (latch c m d t) = c"
  by (simp_all add: latch_def)

lemma clock_edge:
  "clock I tms tdi s = (case rising_edge I (upd_tap (latch False tms tdi) s) of
     (Inl e, s') \<Rightarrow> (Inl e, s') | (Inr _, s') \<Rightarrow> (Inr (), upd_tap (latch True tms tdi) s'))"
  by (simp add: clock_def set_pins_def andthen_def give_def upd_tap_def latch_def split: prod.split sum.split)

definition only_dmi :: "('s jtag_sys \<Rightarrow> 'a result \<times> 's jtag_sys) \<Rightarrow> bool" where
  "only_dmi c \<longleftrightarrow> (\<forall>s. (tap (snd (c s)))\<lparr>dmi := 0\<rparr> = (tap s)\<lparr>dmi := 0\<rparr>)"

lemma only_dmi_andthen:
  assumes "only_dmi c" "\<And>a. only_dmi (f a)"
  shows "only_dmi (andthen c f)"
  unfolding only_dmi_def
proof
  fix s show "(tap (snd (andthen c f s)))\<lparr>dmi := 0\<rparr> = (tap s)\<lparr>dmi := 0\<rparr>"
    using assms unfolding only_dmi_def
    by (cases "c s"; cases "fst (c s)") (auto simp: andthen_def, (metis snd_conv)+)
qed

lemma only_dmi_steps:
  "only_dmi (set_dmi g)" "only_dmi (on_dm d)" "only_dmi (give a)"
  "only_dmi c \<Longrightarrow> only_dmi c' \<Longrightarrow> only_dmi (if b then c else c')"
  "(\<And>x. only_dmi (h x)) \<Longrightarrow> only_dmi n \<Longrightarrow> only_dmi (case v of Some x \<Rightarrow> h x | None \<Rightarrow> n)"
  by (auto simp: only_dmi_def set_dmi_def on_dm_def give_def upd_tap_def split: prod.split option.split)

lemma update_dr_keeps:
  assumes "update_dr I s = (r, s')"
  shows "(tap s')\<lparr>dmi := 0\<rparr> = (tap s)\<lparr>dmi := 0\<rparr>"
    "tap_state (tap s') = tap_state (tap s)" "ir (tap s') = ir (tap s)" "dr_length (tap s') = dr_length (tap s)"
proof -
  have "\<exists>c. update_dr I s = c s \<and> only_dmi c"
  proof (cases "ir (tap s) = IR_DBUS")
    case True
    show ?thesis
      unfolding update_dr_def Let_def if_P [OF True]
      by (rule exI, rule conjI, rule refl) (intro only_dmi_andthen only_dmi_steps)
  next
    case False
    show ?thesis
      by (rule exI [of _ "give ()"]) (simp add: update_dr_def False give_def only_dmi_def)
  qed
  then obtain c where c: "update_dr I s = c s" "only_dmi c" by blast
  then show *: "(tap s')\<lparr>dmi := 0\<rparr> = (tap s)\<lparr>dmi := 0\<rparr>"
    using assms unfolding only_dmi_def by (metis snd_conv)
  from arg_cong [OF *, of tap_state] arg_cong [OF *, of ir] arg_cong [OF *, of dr_length]
  show "tap_state (tap s') = tap_state (tap s)" "ir (tap s') = ir (tap s)" "dr_length (tap s') = dr_length (tap s)"
    by simp_all
qed

lemma update_dr_other: "ir (tap s) \<noteq> IR_DBUS \<Longrightarrow> update_dr I s = (Inr (), s)"
  by (simp add: update_dr_def)

text \<open>The lengths of the data registers; \<open>dr_length\<close> is set by the first capture.\<close>

definition length_ok :: "jtag_dtm_t \<Rightarrow> bool" where
  "length_ok t \<longleftrightarrow> 0 < unat (dr_length t) \<and> unat (dr_length t) \<le> 64"

lemma shift_amount: "length_ok t \<Longrightarrow> unat (dr_length t - 1) = unat (dr_length t) - 1"
proof -
  assume "length_ok t"
  then have "(1 :: u32) \<le> dr_length t" by (simp add: length_ok_def word_le_nat_alt)
  then show ?thesis by (simp add: unat_sub)
qed

lemma capture_length: "length_ok t \<Longrightarrow> length_ok (capture_dr t)"
  by (simp add: capture_dr_def length_ok_def abits_def)

text \<open>One clock, when it does not end in an exception, follows the state diagram.\<close>

lemma clock_state:
  assumes "length_ok (tap s)"
  shows "(\<exists>s'. clock I tms tdi s = (Inr (), s') \<and> length_ok (tap s') \<and>
      tap_state (tap s') = next_state (tap_state (tap s)) tms \<and>
      (tap_state (tap s') = TEST_LOGIC_RESET \<longrightarrow> ir (tap s') = IR_IDCODE) \<and>
      (tap_state (tap s) \<noteq> SHIFT_IR \<longrightarrow> tap_state (tap s') \<noteq> TEST_LOGIC_RESET \<longrightarrow> ir (tap s') = ir (tap s)))
    \<or> (\<exists>e s'. clock I tms tdi s = (Inl e, s') \<and> ir (tap s) = IR_DBUS \<and>
        next_state (tap_state (tap s)) tms = UPDATE_DR)"
proof -
  define t where "t = latch False tms tdi (tap s)"
  have "\<exists>t'. shift_regs t = Inr t' \<and> tap_state t' = tap_state (tap s) \<and> length_ok t' \<and> tms_pin t' = tms \<and>
      (tap_state (tap s) \<noteq> SHIFT_IR \<longrightarrow> ir t' = ir (tap s))"
    using assms shift_amount [of t]
    by (cases "tap_state (tap s)") (auto simp: shift_regs_def t_def Let_def length_ok_def)
  then obtain t' where t': "shift_regs t = Inr t'" "tap_state t' = tap_state (tap s)" "length_ok t'" "tms_pin t' = tms"
    "tap_state (tap s) \<noteq> SHIFT_IR \<longrightarrow> ir t' = ir (tap s)" by blast
  define u where "u = (upd_tap (latch False tms tdi) s)\<lparr>tap := t'\<lparr>tap_state := next_state (tap_state t') (tms_pin t')\<rparr>\<rparr>"
  have edge: "rising_edge I (upd_tap (latch False tms tdi) s) = enter_state I u"
    using t'(1) by (simp add: rising_edge_def upd_tap_def t_def u_def)
  have c: "clock I tms tdi s = (case enter_state I u of
     (Inl e, s') \<Rightarrow> (Inl e, s') | (Inr _, s') \<Rightarrow> (Inr (), upd_tap (latch True tms tdi) s'))"
    by (simp only: clock_edge edge)
  have u: "tap_state (tap u) = next_state (tap_state (tap s)) tms" "length_ok (tap u)"
    "tap_state (tap s) \<noteq> SHIFT_IR \<longrightarrow> ir (tap u) = ir (tap s)"
    using t' by (simp_all add: u_def length_ok_def)
  show ?thesis
  proof (cases "tap_state (tap u) = UPDATE_DR")
    case True
    then have s: "tap_state (tap s) \<noteq> SHIFT_IR" using u(1) by (auto split: if_splits)
    obtain r v where v: "update_dr I u = (r, v)" by fastforce
    then have e: "enter_state I u = (r, v)" using True by (simp add: enter_state_def)
    show ?thesis
    proof (cases r)
      case (Inl e)
      then have "ir (tap u) = IR_DBUS" using update_dr_other [of u I] v by auto
      then show ?thesis using c e Inl u(1,3) s True by auto
    next
      case (Inr x)
      then show ?thesis using c e u update_dr_keeps [OF v] True s by (auto simp: upd_tap_def length_ok_def)
    qed
  next
    case False
    then obtain v where v: "enter_state I u = (Inr (), v)" "tap_state (tap v) = tap_state (tap u)" "length_ok (tap v)"
      "tap_state (tap u) = TEST_LOGIC_RESET \<longrightarrow> ir (tap v) = IR_IDCODE"
      "tap_state (tap u) \<noteq> TEST_LOGIC_RESET \<longrightarrow> ir (tap v) = ir (tap u)"
      using u(2) capture_length [of "tap u"]
      by (cases "tap_state (tap u)") (auto simp: enter_state_def upd_tap_def length_ok_def capture_dr_def)
    then show ?thesis using c u by (auto simp: upd_tap_def length_ok_def)
  qed
qed

section \<open>Reset by five clocks\<close>

definition dr_column :: "jtag_state_t \<Rightarrow> bool" where
  "dr_column q \<longleftrightarrow> q \<in> {CAPTURE_DR, SHIFT_DR, EXIT1_DR, PAUSE_DR, EXIT2_DR}"

lemma column_steps:
  "dr_column (next_state q True) \<Longrightarrow> dr_column q" "next_state q True = UPDATE_DR \<Longrightarrow> dr_column q"
  "dr_column q \<Longrightarrow> q \<noteq> SHIFT_IR" "dr_column q \<Longrightarrow> q \<noteq> TEST_LOGIC_RESET"
  by (cases q; simp add: dr_column_def)+

lemma high_clocks:
  assumes "length_ok (tap s)" "dr_column (tap_state (tap s)) \<longrightarrow> ir (tap s) = i"
  shows "(\<exists>os s'. clocks I (map (Pair True) ds) s = (Inr os, s') \<and>
      tap_state (tap s') = foldl next_state (tap_state (tap s)) (map (\<lambda>d. True) ds) \<and>
      (ds \<noteq> [] \<longrightarrow> tap_state (tap s') = TEST_LOGIC_RESET \<longrightarrow> ir (tap s') = IR_IDCODE))
    \<or> (\<exists>e s'. clocks I (map (Pair True) ds) s = (Inl e, s') \<and> i = IR_DBUS)"
  using assms
proof (induction ds arbitrary: s)
  case (Cons d ds)
  let ?q = "tap_state (tap s)"
  consider (ok) s' where "clock I True d s = (Inr (), s')" "length_ok (tap s')" "tap_state (tap s') = next_state ?q True"
      "tap_state (tap s') = TEST_LOGIC_RESET \<longrightarrow> ir (tap s') = IR_IDCODE"
      "?q \<noteq> SHIFT_IR \<longrightarrow> tap_state (tap s') \<noteq> TEST_LOGIC_RESET \<longrightarrow> ir (tap s') = ir (tap s)"
    | (exn) e s' where "clock I True d s = (Inl e, s')" "ir (tap s) = IR_DBUS" "next_state ?q True = UPDATE_DR"
    using clock_state [OF Cons.prems(1), of I True d] by blast
  then show ?case
  proof cases
    case ok
    have "dr_column (tap_state (tap s')) \<longrightarrow> ir (tap s') = i"
      using ok(3,5) Cons.prems(2) column_steps by metis
    from Cons.IH [OF ok(2) this] show ?thesis
    proof
      assume "\<exists>os u. clocks I (map (Pair True) ds) s' = (Inr os, u) \<and>
        tap_state (tap u) = foldl next_state (tap_state (tap s')) (map (\<lambda>d. True) ds) \<and>
        (ds \<noteq> [] \<longrightarrow> tap_state (tap u) = TEST_LOGIC_RESET \<longrightarrow> ir (tap u) = IR_IDCODE)"
      then obtain os u where u: "clocks I (map (Pair True) ds) s' = (Inr os, u)"
        "tap_state (tap u) = foldl next_state (tap_state (tap s')) (map (\<lambda>d. True) ds)"
        "ds \<noteq> [] \<longrightarrow> tap_state (tap u) = TEST_LOGIC_RESET \<longrightarrow> ir (tap u) = IR_IDCODE" by blast
      have "ds = [] \<Longrightarrow> u = s'" using u(1) by simp
      then show ?thesis using ok u
        by (intro disjI1) (auto simp: andthen_def)
    next
      assume "\<exists>e u. clocks I (map (Pair True) ds) s' = (Inl e, u) \<and> i = IR_DBUS"
      then show ?thesis using ok(1) by (auto simp: andthen_def)
    qed
  next
    case exn
    then have "i = IR_DBUS" using Cons.prems(2) column_steps(2) by blast
    then show ?thesis using exn(1) by (auto simp: andthen_def)
  qed
qed simp

text \<open>
  C33. Five clocks with \<open>tms\<close> high reset the TAP.  From every state, whatever \<open>tdi\<close> is, the TAP is
  then in \<open>TEST_LOGIC_RESET\<close> with the \<open>IDCODE\<close> instruction, unless the debug module throws an
  exception in an access that was pending in \<open>DBUS\<close> mode.
\<close>

theorem five_clocks_reset:
  assumes "length_ok (tap s)" "length ds = 5"
  shows "(\<exists>os s'. clocks I (map (Pair True) ds) s = (Inr os, s') \<and>
      tap_state (tap s') = TEST_LOGIC_RESET \<and> ir (tap s') = IR_IDCODE)
    \<or> (\<exists>e s'. clocks I (map (Pair True) ds) s = (Inl e, s') \<and> ir (tap s) = IR_DBUS)"
proof -
  obtain a b c d e where ds: "ds = [a, b, c, d, e]"
    using assms(2) by (auto simp: eval_nat_numeral length_Suc_conv)
  have f: "foldl next_state q (map (\<lambda>d. True) ds) = TEST_LOGIC_RESET" for q
    unfolding ds by (cases q) simp_all
  have "ds \<noteq> []" by (simp add: ds)
  with high_clocks [of s "ir (tap s)" I ds, OF assms(1)] show ?thesis unfolding f by blast
qed

lemma five_clocks_reset_witness:
  "\<exists>os s'. clocks one_hart_if (map (Pair True) [False, True, False, True, False])
     \<lparr>tap = (jtag_construct 0x10 0 32)\<lparr>tap_state := SHIFT_DR\<rparr>, dmsys = \<lparr>dm = sample_dm 2 0, sys = False\<rparr>\<rparr> = (Inr os, s') \<and>
     tap_state (tap s') = TEST_LOGIC_RESET"
  using five_clocks_reset [of "\<lparr>tap = (jtag_construct 0x10 0 32)\<lparr>tap_state := SHIFT_DR\<rparr>,
      dmsys = \<lparr>dm = sample_dm 2 0, sys = False\<rparr>\<rparr>" "[False, True, False, True, False]" one_hart_if]
  by (fastforce simp: length_ok_def jtag_construct_def IR_DBUS_def)

section \<open>Scanning the data register\<close>

fun shift_in :: "reg_t \<Rightarrow> bool list \<Rightarrow> reg_t" where
  "shift_in d [] = d"
| "shift_in d (b # bs) = shift_in (shr d 1 OR shl (of_bool_word b) 39) bs"

lemma shift_once:
  assumes "take_bit 40 d = d"
  shows "take_bit 40 (shr d 1 OR shl (of_bool_word b) 39 :: reg_t) = shr d 1 OR shl (of_bool_word b) 39"
    "i < 40 \<Longrightarrow> bit (shr d 1 OR shl (of_bool_word b) 39 :: reg_t) i \<longleftrightarrow> (if i < 39 then bit d (Suc i) else b)"
proof -
  have d: "bit d j \<Longrightarrow> j < 40" for j using assms by (metis bit_take_bit_iff)
  then have d40: "\<not> bit d 40" by blast
  have last: "i < 40 \<Longrightarrow> \<not> i < 39 \<Longrightarrow> i = 39" for i :: nat by simp
  show "take_bit 40 (shr d 1 OR shl (of_bool_word b) 39 :: reg_t) = shr d 1 OR shl (of_bool_word b) 39"
  proof (rule bit_word_eqI)
    fix n
    have "bit d (Suc n) \<Longrightarrow> n < 40" using d [of "Suc n"] by simp
    then show "bit (take_bit 40 (shr d 1 OR shl (of_bool_word b) 39 :: reg_t)) n = bit (shr d 1 OR shl (of_bool_word b) 39 :: reg_t) n"
      by (auto simp: bit_simps)
  qed
  assume i: "i < 40"
  show "bit (shr d 1 OR shl (of_bool_word b) 39 :: reg_t) i \<longleftrightarrow> (if i < 39 then bit d (Suc i) else b)"
  proof (cases "i < 39")
    case True
    then show ?thesis by (auto simp: bit_simps)
  next
    case False
    then show ?thesis using last [OF i] d40 by (auto simp: bit_simps)
  qed
qed

lemma bit_shift_in:
  "take_bit 40 d = d \<Longrightarrow> length bs \<le> 40 \<Longrightarrow> take_bit 40 (shift_in d bs) = shift_in d bs \<and>
    (\<forall>i < 40. bit (shift_in d bs) i \<longleftrightarrow>
      (if i + length bs < 40 then bit d (i + length bs) else bs ! (i + length bs - 40)))"
proof (induction d bs rule: shift_in.induct)
  case (2 d b bs)
  note once = shift_once [OF 2(2), where b = b]
  have IH: "take_bit 40 (shift_in d (b # bs)) = shift_in d (b # bs)"
    "\<And>i. i < 40 \<Longrightarrow> bit (shift_in d (b # bs)) i \<longleftrightarrow>
      (if i + length bs < 40 then bit (shr d 1 OR shl (of_bool_word b) 39) (i + length bs) else bs ! (i + length bs - 40))"
    using 2(1) [OF once(1)] 2(3) by auto
  have "bit (shift_in d (b # bs)) i \<longleftrightarrow>
      (if i + length (b # bs) < 40 then bit d (i + length (b # bs)) else (b # bs) ! (i + length (b # bs) - 40))"
    if i: "i < 40" for i
  proof -
    consider "i + length (b # bs) < 40" | "i + length (b # bs) = 40" | "i + length bs \<ge> 40" by fastforce
    then show ?thesis
    proof cases
      case 1
      then show ?thesis using IH(2) [OF i] once(2) [of "i + length bs"] by simp
    next
      case 2
      then have "i + length bs = 39" by simp
      then show ?thesis using IH(2) [OF i] once(2) [of 39] by simp
    next
      case 3
      then have "i + length (b # bs) - 40 = Suc (i + length bs - 40)" by simp
      then show ?thesis using IH(2) [OF i] 3 by simp
    qed
  qed
  with IH(1) show ?case by blast
qed simp

text \<open>What a scan must keep of the TAP.\<close>

definition in_dbus :: "jtag_dtm_t \<Rightarrow> bool" where
  "in_dbus t \<longleftrightarrow> ir t = IR_DBUS \<and> dr_length t = 40 \<and> take_bit 40 (dr t) = dr t"

lemma shift_clock:
  assumes "tap_state (tap s) = SHIFT_DR" "in_dbus (tap s)"
  shows "\<exists>s'. clock I tms tdi s = (Inr (), s') \<and> dmsys s' = dmsys s \<and> in_dbus (tap s') \<and>
    dr (tap s') = shift_in (dr (tap s)) [tdi] \<and> dmi (tap s') = dmi (tap s) \<and>
    tap_state (tap s') = (if tms then EXIT1_DR else SHIFT_DR) \<and>
    (\<not> tms \<longrightarrow> tdo_pin (tap s') = bit (dr (tap s')) 0)"
proof -
  have n: "unat (dr_length (tap s) - 1) = 39" "ir (tap s) = IR_DBUS" "dr_length (tap s) = 40"
    "take_bit 40 (dr (tap s)) = dr (tap s)"
    using assms(2) by (simp_all add: in_dbus_def)
  show ?thesis
    using shift_once(1) [OF n(4), of tdi]
    by (simp add: clock_edge rising_edge_def shift_regs_def upd_tap_def assms(1) n(1-3) enter_state_def in_dbus_def
        latch_def and_one_eq bit_0 odd_iff_mod_2_eq_one)
qed

lemma shifting:
  assumes "tap_state (tap s) = SHIFT_DR" "in_dbus (tap s)" "tdo_pin (tap s) = bit (dr (tap s)) 0" "length bs < 40"
  shows "\<exists>s'. clocks I (map (Pair False) bs) s = (Inr (map (bit (dr (tap s))) [0..<length bs]), s') \<and>
    dmsys s' = dmsys s \<and> in_dbus (tap s') \<and> dr (tap s') = shift_in (dr (tap s)) bs \<and> dmi (tap s') = dmi (tap s) \<and>
    tap_state (tap s') = SHIFT_DR \<and> tdo_pin (tap s') = bit (dr (tap s')) 0"
  using assms
proof (induction bs arbitrary: s)
  case (Cons b bs)
  obtain u where u: "clock I False b s = (Inr (), u)" "dmsys u = dmsys s" "in_dbus (tap u)"
    "dr (tap u) = shift_in (dr (tap s)) [b]" "dmi (tap u) = dmi (tap s)" "tap_state (tap u) = SHIFT_DR"
    "tdo_pin (tap u) = bit (dr (tap u)) 0"
    using shift_clock [OF Cons.prems(1,2), of I False b] by auto
  obtain v where v: "clocks I (map (Pair False) bs) u = (Inr (map (bit (dr (tap u))) [0..<length bs]), v)"
    "dmsys v = dmsys u" "in_dbus (tap v)" "dr (tap v) = shift_in (dr (tap u)) bs" "dmi (tap v) = dmi (tap u)"
    "tap_state (tap v) = SHIFT_DR" "tdo_pin (tap v) = bit (dr (tap v)) 0"
    using Cons.IH [OF u(6,3,7)] Cons.prems(4) by auto
  have "take_bit 40 (dr (tap s)) = dr (tap s)" using Cons.prems(2) by (simp add: in_dbus_def)
  then have "map (bit (dr (tap u))) [0..<length bs] = map (\<lambda>i. bit (dr (tap s)) (Suc i)) [0..<length bs]"
    using u(4) shift_once(2) Cons.prems(4) by (intro map_cong) auto
  moreover have "map (bit (dr (tap s))) [0..<Suc (length bs)] =
      bit (dr (tap s)) 0 # map (\<lambda>i. bit (dr (tap s)) (Suc i)) [0..<length bs]"
    by (simp add: upt_rec [of 0] map_Suc_upt [symmetric] del: upt_Suc)
  ultimately show ?case
    using u v Cons.prems(3) by (auto simp: andthen_def simp del: upt_Suc)
qed simp

text \<open>
  The clocks of one scan of \<open>n\<close> bits from \<open>RUN_TEST_IDLE\<close>: select and capture, shift in the bits
  of \<open>w\<close> from the lowest, the last one while leaving the shift state, update, and idle again.
\<close>

definition dr_scan :: "nat \<Rightarrow> reg_t \<Rightarrow> (bool \<times> bool) list" where
  "dr_scan n w = [(True, False), (False, False), (False, False)] @ map (Pair False) (map (bit w) [0..<n - 1])
     @ [(True, bit w (n - 1)), (True, False), (False, False)]"

lemma clocks_append:
  "clocks I (ps @ qs) s = andthen (clocks I ps) (\<lambda>os. andthen (clocks I qs) (\<lambda>os' s'. (Inr (os @ os'), s'))) s"
  by (induction ps arbitrary: s) (auto simp: andthen_def split: prod.splits sum.splits)

lemma enter_shift:
  assumes "tap_state (tap s) = RUN_TEST_IDLE" "ir (tap s) = IR_DBUS" "take_bit 40 (dmi (tap s)) = dmi (tap s)"
  shows "\<exists>os s'. clocks I [(True, False), (False, False), (False, False)] s = (Inr os, s') \<and> length os = 3 \<and>
    dmsys s' = dmsys s \<and> in_dbus (tap s') \<and> dr (tap s') = dmi (tap s) \<and> dmi (tap s') = dmi (tap s) \<and>
    tap_state (tap s') = SHIFT_DR \<and> tdo_pin (tap s') = bit (dr (tap s')) 0"
  using assms
  by (simp add: clock_edge rising_edge_def shift_regs_def upd_tap_def enter_state_def in_dbus_def latch_def andthen_def
      capture_dr_def IR_DBUS_def IR_IDCODE_def IR_DTMCONTROL_def abits_def and_one_eq bit_0 odd_iff_mod_2_eq_one)

lemma leave_exit1:
  assumes "tap_state (tap s) = EXIT1_DR" "\<And>u. dmsys u = dmsys s \<Longrightarrow> dr (tap u) = dr (tap s) \<Longrightarrow> ir (tap u) = ir (tap s) \<Longrightarrow>
    update_dr I u = (Inr (), (upd_tap (\<lambda>t. t\<lparr>dmi := d'\<rparr>) u)\<lparr>dmsys := e'\<rparr>)"
  shows "\<exists>os s'. clocks I [(True, False), (False, False)] s = (Inr os, s') \<and> dmsys s' = e' \<and> dmi (tap s') = d' \<and>
    tap_state (tap s') = RUN_TEST_IDLE \<and> ir (tap s') = ir (tap s)"
proof -
  define u where "u = upd_tap (\<lambda>t. (latch False True False t)\<lparr>tap_state := UPDATE_DR\<rparr>) s"
  have u: "update_dr I u = (Inr (), (upd_tap (\<lambda>t. t\<lparr>dmi := d'\<rparr>) u)\<lparr>dmsys := e'\<rparr>)"
    using assms(2) [of u] by (simp add: u_def upd_tap_def)
  define v where "v = upd_tap (latch True True False) ((upd_tap (\<lambda>t. t\<lparr>dmi := d'\<rparr>) u)\<lparr>dmsys := e'\<rparr>)"
  have "rising_edge I (upd_tap (latch False True False) s) = update_dr I u"
    using assms(1) by (simp add: rising_edge_def shift_regs_def upd_tap_def enter_state_def u_def)
  then have c: "clock I True False s = (Inr (), v)" using u by (simp add: clock_edge v_def)
  have v: "tap_state (tap v) = UPDATE_DR" "dmsys v = e'" "dmi (tap v) = d'" "ir (tap v) = ir (tap s)"
    by (simp_all add: v_def u_def upd_tap_def)
  then have "\<exists>w. clock I False False v = (Inr (), w) \<and> dmsys w = e' \<and> dmi (tap w) = d' \<and>
      tap_state (tap w) = RUN_TEST_IDLE \<and> ir (tap w) = ir (tap s)"
    by (simp add: clock_edge rising_edge_def shift_regs_def upd_tap_def enter_state_def)
  then show ?thesis using c by (auto simp: andthen_def)
qed

lemma upt_40: "[0..<40] = [0..<39] @ [39 :: nat]"
  using upt_Suc_append [of 0 39] by simp

lemma scan_shifts:
  assumes "take_bit 40 d = d" "take_bit 40 w = w"
  shows "shift_in (shift_in d (map (bit w) [0..<39])) [bit w 39] = w"
proof -
  have app: "shift_in d (bs @ [b]) = shift_in (shift_in d bs) [b]" for d bs b
    by (induction d bs rule: shift_in.induct) simp_all
  have l: "map (bit w) [0..<39] @ [bit w 39] = map (bit w) [0..<40]"
    by (simp only: upt_40 map_append list.map)
  have "take_bit 40 (shift_in d (map (bit w) [0..<40])) = shift_in d (map (bit w) [0..<40])"
    "\<forall>i < 40. bit (shift_in d (map (bit w) [0..<40])) i = bit w i"
    using bit_shift_in [OF assms(1), of "map (bit w) [0..<40]"] by auto
  then have "shift_in d (map (bit w) [0..<40]) = w"
    using assms(2) by (metis (no_types, lifting) bit_eqI bit_take_bit_iff)
  then show ?thesis using l app by metis
qed

text \<open>
  A whole scan, for any effect of the update: it shifts out the register captured from \<open>dmi\<close> and
  updates with the word shifted in.
\<close>

lemma scan:
  assumes "tap_state (tap s) = RUN_TEST_IDLE" "ir (tap s) = IR_DBUS" "take_bit 40 (dmi (tap s)) = dmi (tap s)"
    and "take_bit 40 w = w"
    and "\<And>u. dmsys u = dmsys s \<Longrightarrow> dr (tap u) = w \<Longrightarrow> ir (tap u) = IR_DBUS \<Longrightarrow>
      update_dr I u = (Inr (), (upd_tap (\<lambda>t. t\<lparr>dmi := d'\<rparr>) u)\<lparr>dmsys := e'\<rparr>)"
  shows "\<exists>os s'. clocks I (dr_scan 40 w) s = (Inr os, s') \<and>
    take 40 (drop 3 os) = map (bit (dmi (tap s))) [0..<40] \<and> dmsys s' = e' \<and> dmi (tap s') = d' \<and>
    tap_state (tap s') = RUN_TEST_IDLE \<and> ir (tap s') = IR_DBUS"
proof -
  obtain os1 s1 where 1: "clocks I [(True, False), (False, False), (False, False)] s = (Inr os1, s1)" "length os1 = 3"
    "dmsys s1 = dmsys s" "in_dbus (tap s1)" "dr (tap s1) = dmi (tap s)" "tap_state (tap s1) = SHIFT_DR"
    "tdo_pin (tap s1) = bit (dr (tap s1)) 0"
    using enter_shift [OF assms(1-3), of I] by blast
  define os2 where "os2 = map (bit (dr (tap s1))) [0..<39]"
  obtain s2 where 2: "clocks I (map (Pair False) (map (bit w) [0..<39])) s1 = (Inr os2, s2)"
    "dmsys s2 = dmsys s1" "in_dbus (tap s2)" "dr (tap s2) = shift_in (dr (tap s1)) (map (bit w) [0..<39])"
    "tap_state (tap s2) = SHIFT_DR" "tdo_pin (tap s2) = bit (dr (tap s2)) 0"
    using shifting [OF 1(6,4,7), of "map (bit w) [0..<39]" I] unfolding os2_def length_map length_upt by auto
  obtain s3 where 3: "clock I True (bit w 39) s2 = (Inr (), s3)" "dmsys s3 = dmsys s2" "in_dbus (tap s3)"
    "dr (tap s3) = shift_in (dr (tap s2)) [bit w 39]" "tap_state (tap s3) = EXIT1_DR"
    using shift_clock [OF 2(5,3), of I True "bit w 39"] by auto
  have "dr (tap s3) = w"
    using scan_shifts [OF _ assms(4), of "dr (tap s1)"] 1(4) 2(4) 3(4) by (simp add: in_dbus_def)
  moreover have "ir (tap s3) = IR_DBUS" using 3(3) by (simp add: in_dbus_def)
  ultimately have upd: "update_dr I u = (Inr (), (upd_tap (\<lambda>t. t\<lparr>dmi := d'\<rparr>) u)\<lparr>dmsys := e'\<rparr>)"
    if "dmsys u = dmsys s3" "dr (tap u) = dr (tap s3)" "ir (tap u) = ir (tap s3)" for u
    using assms(5) [of u] that 1(3) 2(2) 3(2) by simp
  have "\<exists>os s'. clocks I [(True, False), (False, False)] s3 = (Inr os, s') \<and> dmsys s' = e' \<and> dmi (tap s') = d' \<and>
      tap_state (tap s') = RUN_TEST_IDLE \<and> ir (tap s') = ir (tap s3)"
    by (rule leave_exit1 [OF 3(5)]) (rule upd)
  then obtain os4 s4 where 4: "clocks I [(True, False), (False, False)] s3 = (Inr os4, s4)" "dmsys s4 = e'" "dmi (tap s4) = d'"
    "tap_state (tap s4) = RUN_TEST_IDLE" "ir (tap s4) = IR_DBUS"
    using \<open>ir (tap s3) = IR_DBUS\<close> by auto
  have "bit (dr (tap s2)) 0 = bit (dr (tap s1)) 39"
    using bit_shift_in [of "dr (tap s1)" "map (bit w) [0..<39]"] 1(4) 2(4) by (simp add: in_dbus_def)
  then have outs: "os2 @ [tdo_pin (tap s2)] = map (bit (dmi (tap s))) [0..<40]"
    unfolding upt_40 os2_def using 1(5) 2(6) by (simp only: map_append list.map)
  have len: "length os2 = 39" unfolding os2_def length_map length_upt by simp
  have n39: "40 - 1 = (39 :: nat)" by simp
  have last: "clocks I [(True, bit w 39), (True, False), (False, False)] s2 = (Inr (tdo_pin (tap s2) # os4), s4)"
    unfolding clocks.simps(2) [of I True "bit w 39"] andthen_def by (simp only: 3(1) 4(1) prod.case sum.case)
  have "dr_scan 40 w = [(True, False), (False, False), (False, False)] @ map (Pair False) (map (bit w) [0..<39])
      @ [(True, bit w 39), (True, False), (False, False)]"
    unfolding dr_scan_def n39 ..
  then have "clocks I (dr_scan 40 w) s = (Inr (os1 @ os2 @ tdo_pin (tap s2) # os4), s4)"
    by (simp only: clocks_append andthen_def 1(1) 2(1) last prod.case sum.case)
  moreover have "take 40 (drop 3 (os1 @ os2 @ tdo_pin (tap s2) # os4)) = os2 @ [tdo_pin (tap s2)]"
    using 1(2) len by simp
  ultimately show ?thesis using outs 4 by auto
qed

text \<open>The 40-bit register: address, data and operation (or status).\<close>

definition request :: "u32 \<Rightarrow> u32 \<Rightarrow> reg_t \<Rightarrow> reg_t" where
  "request address data oper = shl (ucast address) 34 OR shl (ucast data) 2 OR oper"

lemma dmi_field_masks:
  "DMI_OP = field_mask 0 2" "DMI_DATA = field_mask 2 32" "DMI_ADDRESS = field_mask 34 6"
  by (simp_all add: DMI_OP_def DMI_DATA_def DMI_ADDRESS_def abits_def field_mask_def mask_eq_exp_minus_1)

lemma two_bits: "oper < 4 \<Longrightarrow> bit oper j \<Longrightarrow> j < 2" for oper :: reg_t
proof -
  assume "oper < 4" and b: "bit oper j"
  then have "unat oper < 2 ^ 2" by (simp add: word_less_nat_alt)
  then have "unat (take_bit 2 oper) = unat oper" by (simp add: unsigned_take_bit_eq take_bit_nat_eq_self)
  then have "take_bit 2 oper = oper" by (simp only: unsigned_word_eqI)
  with b show "j < 2" by (metis bit_take_bit_iff)
qed

lemma bit_request:
  assumes "address < 64" "oper < 4"
  shows "bit (request address data oper) i \<longleftrightarrow>
    (if i < 2 then bit oper i else if i < 34 then bit data (i - 2) else i < 40 \<and> bit address (i - 34))"
proof -
  have a: "bit address j \<Longrightarrow> j < 6" for j using small_bit [of address 6 j] assms(1) by simp
  show ?thesis
    by (auto simp: request_def bit_simps dest: two_bits [OF assms(2)] bit_imp_le_length)
      (use a [of "i - 34"] in simp)+
qed

lemma request_fields:
  assumes "address < 64" "oper < 4"
  shows "get_field (request address data oper) DMI_OP = oper"
    "ucast (get_field (request address data oper) DMI_DATA) = data"
    "ucast (get_field (request address data oper) DMI_ADDRESS) = address"
    "take_bit 40 (request address data oper) = request address data oper"
    "x < 4 \<Longrightarrow> set_field (request address data oper) DMI_OP x = request address data x"
    "set_field (request address data oper) DMI_DATA (ucast v) = request address v oper"
proof -
  note b = bit_request [OF assms]
  have a: "bit address j \<Longrightarrow> j < 6" for j using small_bit [of address 6 j] assms(1) by simp
  show "get_field (request address data oper) DMI_OP = oper"
    by (rule bit_word_eqI) (auto simp: dmi_field_masks get_field_eq bit_simps b dest: two_bits [OF assms(2)])
  show "ucast (get_field (request address data oper) DMI_DATA) = data"
    by (rule bit_word_eqI) (auto simp: dmi_field_masks get_field_eq bit_simps b)
  show "ucast (get_field (request address data oper) DMI_ADDRESS) = address"
    by (rule bit_word_eqI) (auto simp: dmi_field_masks get_field_eq bit_simps b dest: a)
  show "take_bit 40 (request address data oper) = request address data oper"
    by (rule bit_word_eqI) (auto simp: bit_simps b)
  show "x < 4 \<Longrightarrow> set_field (request address data oper) DMI_OP x = request address data x"
    by (rule bit_word_eqI) (auto simp: dmi_field_masks bit_set_field b bit_request [OF assms(1)])
  show "set_field (request address data oper) DMI_DATA (ucast v) = request address v oper"
    by (rule bit_word_eqI) (auto simp: dmi_field_masks bit_set_field b bit_request [OF assms] bit_simps)
qed

text \<open>
  C31. A scan performs one access of the debug module.  In \<open>DBUS\<close> mode, scanning a write request
  performs exactly that \<open>dmi_write\<close> and leaves success or failure in the status bits; scanning a
  read request performs the \<open>dmi_read\<close> and leaves the value read.  Meanwhile the 40 bits sampled
  from \<open>tdo\<close> are the result of the previous access, so that the next scan returns this one.
\<close>

theorem dbus_scan_accesses:
  assumes "tap_state (tap s) = RUN_TEST_IDLE" "ir (tap s) = IR_DBUS" "take_bit 40 (dmi (tap s)) = dmi (tap s)"
    and "a < 64"
  shows "(\<forall>ok d'. dmi_write I a v (dmsys s) = (Inr ok, d') \<longrightarrow>
      (\<exists>os s'. clocks I (dr_scan 40 (request a v DMI_OP_WRITE)) s = (Inr os, s') \<and>
        take 40 (drop 3 os) = map (bit (dmi (tap s))) [0..<40] \<and> dmsys s' = d' \<and>
        dmi (tap s') = request a v (if ok then DMI_OP_STATUS_SUCCESS else DMI_OP_STATUS_FAILED) \<and>
        tap_state (tap s') = RUN_TEST_IDLE \<and> ir (tap s') = IR_DBUS))
    \<and> (\<forall>x d'. dmi_read I a (dmsys s) = (Inr (Some x), d') \<longrightarrow>
      (\<exists>os s'. clocks I (dr_scan 40 (request a v DMI_OP_READ)) s = (Inr os, s') \<and>
        take 40 (drop 3 os) = map (bit (dmi (tap s))) [0..<40] \<and> dmsys s' = d' \<and>
        dmi (tap s') = request a x DMI_OP_STATUS_SUCCESS \<and>
        tap_state (tap s') = RUN_TEST_IDLE \<and> ir (tap s') = IR_DBUS))"
proof (intro conjI allI impI)
  have ops: "DMI_OP_WRITE < 4" "DMI_OP_READ < 4" "DMI_OP_STATUS_SUCCESS < 4" "DMI_OP_STATUS_FAILED < 4"
    "DMI_OP_WRITE \<noteq> DMI_OP_READ"
    by (simp_all add: DMI_OP_WRITE_def DMI_OP_READ_def DMI_OP_STATUS_SUCCESS_def DMI_OP_STATUS_FAILED_def)
  note fw = request_fields [OF assms(4) ops(1)] and fr = request_fields [OF assms(4) ops(2)]
  {
    fix ok d' assume w: "dmi_write I a v (dmsys s) = (Inr ok, d')"
    show "\<exists>os s'. clocks I (dr_scan 40 (request a v DMI_OP_WRITE)) s = (Inr os, s') \<and>
        take 40 (drop 3 os) = map (bit (dmi (tap s))) [0..<40] \<and> dmsys s' = d' \<and>
        dmi (tap s') = request a v (if ok then DMI_OP_STATUS_SUCCESS else DMI_OP_STATUS_FAILED) \<and>
        tap_state (tap s') = RUN_TEST_IDLE \<and> ir (tap s') = IR_DBUS"
    proof (rule scan [OF assms(1-3) fw(4)])
      fix u :: "'a jtag_sys" assume u: "dmsys u = dmsys s" "dr (tap u) = request a v DMI_OP_WRITE" "ir (tap u) = IR_DBUS"
      show "update_dr I u = (Inr (), (upd_tap (\<lambda>t. t\<lparr>dmi := request a v (if ok then DMI_OP_STATUS_SUCCESS else DMI_OP_STATUS_FAILED)\<rparr>) u)\<lparr>dmsys := d'\<rparr>)"
        using u w ops by (simp add: update_dr_def Let_def fw andthen_def set_dmi_def on_dm_def upd_tap_def)
    qed
  next
    fix x d' assume r: "dmi_read I a (dmsys s) = (Inr (Some x), d')"
    show "\<exists>os s'. clocks I (dr_scan 40 (request a v DMI_OP_READ)) s = (Inr os, s') \<and>
        take 40 (drop 3 os) = map (bit (dmi (tap s))) [0..<40] \<and> dmsys s' = d' \<and>
        dmi (tap s') = request a x DMI_OP_STATUS_SUCCESS \<and>
        tap_state (tap s') = RUN_TEST_IDLE \<and> ir (tap s') = IR_DBUS"
    proof (rule scan [OF assms(1-3) fr(4)])
      fix u :: "'a jtag_sys" assume u: "dmsys u = dmsys s" "dr (tap u) = request a v DMI_OP_READ" "ir (tap u) = IR_DBUS"
      show "update_dr I u = (Inr (), (upd_tap (\<lambda>t. t\<lparr>dmi := request a x DMI_OP_STATUS_SUCCESS\<rparr>) u)\<lparr>dmsys := d'\<rparr>)"
        using u r ops by (simp add: update_dr_def Let_def fr andthen_def set_dmi_def on_dm_def upd_tap_def give_def)
    qed
  }
qed

lemma dbus_scan_accesses_witness:
  "\<exists>os s'. clocks one_hart_if (dr_scan 40 (request 0x16 5 DMI_OP_READ))
     \<lparr>tap = (jtag_construct IR_DBUS 0 40)\<lparr>tap_state := RUN_TEST_IDLE\<rparr>,
      dmsys = \<lparr>dm = sample_dm 2 0, sys = False\<rparr>\<rparr> = (Inr os, s') \<and>
     dmi (tap s') = request 0x16 0x02000002 DMI_OP_STATUS_SUCCESS \<and> tap_state (tap s') = RUN_TEST_IDLE"
proof -
  let ?s = "\<lparr>tap = (jtag_construct IR_DBUS 0 40)\<lparr>tap_state := RUN_TEST_IDLE\<rparr>,
      dmsys = \<lparr>dm = sample_dm 2 0, sys = False\<rparr>\<rparr>"
  have "dmi_read one_hart_if 0x16 (dmsys ?s) = (Inr (Some 0x02000002), dmsys ?s)"
    by (simp add: dmi_read_def Let_def spike_consts sample_dm_def answer_def give_def andthen_def
        abstractcs_image_def with_fields_def set_field_def)
  then show ?thesis
    using dbus_scan_accesses [of ?s "0x16" one_hart_if 5]
    by (fastforce simp: jtag_construct_def DMI_OP_STATUS_SUCCESS_def)
qed

end
