(* ===== verification/RemoteBitbang.thy ===== *)
theory RemoteBitbang
  imports JtagLaws
begin

text \<open>
  The remote bitbang server (\<open>riscv/remote_bitbang.h\<close>, \<open>riscv/remote_bitbang.cc\<close>): a client sends one
  character per command, which sets or samples the pins of the TAP.  The socket calls are the record
  \<open>net\<close>: the answer of the \<open>k\<close>-th call of \<open>accept\<close>, \<open>read\<close> and \<open>write\<close>.  The constructor, which
  only makes the socket, is not modelled.
\<close>

section \<open>State\<close>

definition buf_size :: nat where "buf_size = 64 * 1024"

datatype accept_answer = Accepted int | No_client | Accept_failed

datatype read_answer = Received "byte list" | Read_again | Read_failed

text \<open>\<open>write\<close> answers how many bytes of the data it has taken, \<open>None\<close> when it fails.\<close>

record net =
  net_accept :: "nat \<Rightarrow> accept_answer"
  net_read :: "nat \<Rightarrow> read_answer"
  net_write :: "nat \<Rightarrow> byte list \<Rightarrow> nat option"

text \<open>\<open>wire\<close> is what the socket has taken from the server.\<close>

record bitbang =
  client_fd :: int
  recv_buf :: "byte list"
  recv_start :: int
  recv_end :: int
  send_buf :: "byte list"
  n_accept :: nat
  n_read :: nat
  n_write :: nat
  wire :: "byte list"

record 's bb_sys =
  bb :: bitbang
  jtag :: "'s jtag_sys"

definition upd_bb :: "(bitbang \<Rightarrow> bitbang) \<Rightarrow> 's bb_sys \<Rightarrow> 's bb_sys" where
  "upd_bb f s = s\<lparr>bb := f (bb s)\<rparr>"

text \<open>The buffers are not initialised.\<close>

definition bb_construct :: "byte list \<Rightarrow> byte list \<Rightarrow> bitbang" where
  "bb_construct rbuf sbuf = \<lparr>client_fd = 0, recv_buf = rbuf, recv_start = 0, recv_end = 0, send_buf = sbuf,
     n_accept = 0, n_read = 0, n_write = 0, wire = []\<rparr>"

section \<open>Commands\<close>

definition ascii :: "char \<Rightarrow> byte" where
  "ascii c = of_char c"

text \<open>One command: the characters for the client, and whether the command is to quit.\<close>

definition bb_command :: "'s dm_if \<Rightarrow> byte \<Rightarrow> 's jtag_sys \<Rightarrow> (byte list \<times> bool) result \<times> 's jtag_sys" where
  "bb_command I c s =
     (let pins = (\<lambda>tck tms tdi. andthen (set_pins I tck tms tdi) (\<lambda>_. give ([], False)) s) in
      if c = ascii CHR ''B'' \<or> c = ascii CHR ''b'' then give ([], False) s
      else if c = ascii CHR ''r'' then give ([], False) (upd_tap jtag_reset s)
      else if c = ascii CHR ''0'' then pins False False False
      else if c = ascii CHR ''1'' then pins False False True
      else if c = ascii CHR ''2'' then pins False True False
      else if c = ascii CHR ''3'' then pins False True True
      else if c = ascii CHR ''4'' then pins True False False
      else if c = ascii CHR ''5'' then pins True False True
      else if c = ascii CHR ''6'' then pins True True False
      else if c = ascii CHR ''7'' then pins True True True
      else if c = ascii CHR ''R'' then give ([ascii (if tdo_pin (tap s) then CHR ''1'' else CHR ''0'')], False) s
      else if c = ascii CHR ''Q'' then give ([], True) s
      else give ([], False) s)"

text \<open>The local variables of \<open>execute_commands\<close>; \<open>total_processed\<close> stays below \<open>2 * buf_size + 1\<close>.\<close>

record locals =
  send_offset :: nat
  total_processed :: nat
  quit :: bool
  in_rti :: bool
  entered_rti :: bool

text \<open>The loop over the received characters.  It is left when the TAP enters \<open>RUN_TEST_IDLE\<close>.\<close>

definition put_replies :: "byte list \<Rightarrow> locals \<Rightarrow> 's bb_sys \<Rightarrow> locals result \<times> 's bb_sys" where
  "put_replies bs l s =
     (if send_offset l + length bs \<le> length (send_buf (bb s)) then
        (Inr (l\<lparr>send_offset := send_offset l + length bs\<rparr>),
         upd_bb (\<lambda>b. b\<lparr>send_buf := copy_into (send_buf b) (send_offset l) bs\<rparr>) s)
      else (Inl Abort, s))"

definition one_command :: "'s dm_if \<Rightarrow> locals \<Rightarrow> 's bb_sys \<Rightarrow> locals result \<times> 's bb_sys" where
  "one_command I l s =
     (let i = nat (recv_start (bb s)) in
      if i < length (recv_buf (bb s)) then
        (case bb_command I (recv_buf (bb s) ! i) (jtag s) of
           (Inl e, j) \<Rightarrow> (Inl e, s\<lparr>jtag := j\<rparr>)
         | (Inr (bs, q), j) \<Rightarrow> put_replies bs (l\<lparr>quit := quit l \<or> q, total_processed := total_processed l + 1\<rparr>)
             (upd_bb (\<lambda>b. b\<lparr>recv_start := recv_start b + 1\<rparr>) (s\<lparr>jtag := j\<rparr>)))
      else (Inl Abort, s))"

lemma one_command_bb:
  assumes "one_command I l s = (Inr l', s')"
  shows "recv_start (bb s') = recv_start (bb s) + 1 \<and> recv_end (bb s') = recv_end (bb s)"
  using assms by (auto simp: one_command_def put_replies_def upd_bb_def Let_def split: if_splits prod.splits sum.splits)

function process :: "'s dm_if \<Rightarrow> locals \<Rightarrow> 's bb_sys \<Rightarrow> locals result \<times> 's bb_sys" where
  "process I l s =
     (if recv_start (bb s) < recv_end (bb s) then
        (case one_command I l s of
           (Inl e, s) \<Rightarrow> (Inl e, s)
         | (Inr l, s) \<Rightarrow>
             if \<not> in_rti l \<and> tap_state (tap (jtag s)) = RUN_TEST_IDLE then (Inr (l\<lparr>entered_rti := True\<rparr>), s)
             else process I (l\<lparr>in_rti := False\<rparr>) s)
      else (Inr l, s))"
  by pat_completeness auto
termination
  by (relation "measure (\<lambda>(I, l, s). nat (recv_end (bb s) - recv_start (bb s)))")
    (auto dest!: one_command_bb [OF sym])

declare process.simps [simp del]

section \<open>Replies\<close>

text \<open>
  The loop around \<open>write\<close>.  As in the code, every call passes \<open>send_offset\<close> bytes from \<open>sent\<close> on,
  not the ones that are left; past the end of the buffer that is \<open>Abort\<close>.  \<open>None\<close>: \<open>write\<close> takes
  nothing forever.
\<close>

partial_function (option) send_loop :: "net \<Rightarrow> nat \<Rightarrow> nat \<Rightarrow> 's bb_sys \<Rightarrow> (unit result \<times> 's bb_sys) option" where
  "send_loop N off sent s =
     (if sent < off then
        (if sent + off \<le> length (send_buf (bb s)) then
           (let chunk = take off (drop sent (send_buf (bb s))) in
            case net_write N (n_write (bb s)) chunk of
              None \<Rightarrow> Some (Inl Abort, s)
            | Some n \<Rightarrow> send_loop N off (sent + n)
                (upd_bb (\<lambda>b. b\<lparr>n_write := n_write b + 1, wire := wire b @ take n chunk\<rparr>) s))
         else Some (Inl Abort, s))
      else Some (Inr (), s))"

definition serve :: "net \<Rightarrow> 's dm_if \<Rightarrow> locals \<Rightarrow> 's bb_sys \<Rightarrow> (locals result \<times> 's bb_sys) option" where
  "serve N I l s =
     (if recv_start (bb s) < recv_end (bb s) then
        (case process I (l\<lparr>send_offset := 0\<rparr>) s of
           (Inl e, s) \<Rightarrow> Some (Inl e, s)
         | (Inr l, s) \<Rightarrow> map_option (\<lambda>(r, s). (case r of Inl e \<Rightarrow> Inl e | Inr _ \<Rightarrow> Inr l, s)) (send_loop N (send_offset l) 0 s))
      else Some (Inr l, s))"

section \<open>Ticks\<close>

text \<open>The answer of \<open>read\<close>: whether the loop goes on.\<close>

definition receive :: "net \<Rightarrow> bool \<Rightarrow> 's bb_sys \<Rightarrow> bool result \<times> 's bb_sys" where
  "receive N q s =
     (let s = upd_bb (\<lambda>b. b\<lparr>recv_start := 0, n_read := n_read b + 1\<rparr>) s in
      case net_read N (n_read (bb s) - 1) of
        Read_again \<Rightarrow> (Inr False, upd_bb (\<lambda>b. b\<lparr>recv_end := -1\<rparr>) s)
      | Read_failed \<Rightarrow> (Inl Abort, upd_bb (\<lambda>b. b\<lparr>recv_end := -1\<rparr>) s)
      | Received bs \<Rightarrow>
          (let s = upd_bb (\<lambda>b. b\<lparr>recv_end := int (length bs), recv_buf := copy_into (recv_buf b) 0 bs\<rparr>) s in
           if bs = [] \<or> q then (Inr False, upd_bb (\<lambda>b. b\<lparr>client_fd := 0\<rparr>) s) else (Inr True, s)))"

partial_function (option) execute_loop :: "net \<Rightarrow> 's dm_if \<Rightarrow> locals \<Rightarrow> 's bb_sys \<Rightarrow> (unit result \<times> 's bb_sys) option" where
  "execute_loop N I l s =
     Option.bind (serve N I l s) (\<lambda>(r, s). case r of
        Inl e \<Rightarrow> Some (Inl e, s)
      | Inr l \<Rightarrow>
          if total_processed l > buf_size \<or> quit l \<or> entered_rti l then Some (Inr (), s)
          else
            (case receive N (quit l) s of
               (Inl e, s) \<Rightarrow> Some (Inl e, s)
             | (Inr go, s) \<Rightarrow> if go then execute_loop N I l s else Some (Inr (), s)))"

definition execute_commands :: "net \<Rightarrow> 's dm_if \<Rightarrow> 's bb_sys \<Rightarrow> (unit result \<times> 's bb_sys) option" where
  "execute_commands N I s = execute_loop N I
     \<lparr>send_offset = 0, total_processed = 0, quit = False,
      in_rti = (tap_state (tap (jtag s)) = RUN_TEST_IDLE), entered_rti = False\<rparr> s"

definition bb_accept :: "net \<Rightarrow> 's bb_sys \<Rightarrow> unit result \<times> 's bb_sys" where
  "bb_accept N s =
     (let s' = upd_bb (\<lambda>b. b\<lparr>n_accept := n_accept b + 1\<rparr>) s in
      case net_accept N (n_accept (bb s)) of
        Accepted fd \<Rightarrow> (Inr (), upd_bb (\<lambda>b. b\<lparr>client_fd := fd\<rparr>) s')
      | No_client \<Rightarrow> (Inr (), upd_bb (\<lambda>b. b\<lparr>client_fd := -1\<rparr>) s')
      | Accept_failed \<Rightarrow> (Inl Abort, upd_bb (\<lambda>b. b\<lparr>client_fd := -1\<rparr>) s'))"

definition tick :: "net \<Rightarrow> 's dm_if \<Rightarrow> 's bb_sys \<Rightarrow> (unit result \<times> 's bb_sys) option" where
  "tick N I s = (if client_fd (bb s) > 0 then execute_commands N I s else Some (bb_accept N s))"

end
