(* ===== verification/BitbangLaws.thy ===== *)
theory BitbangLaws
  imports RemoteBitbang
begin

text \<open>
  What a turn of the remote bitbang server does: it ends, it performs a part of what the client has
  sent, in order and each character once, and it leaves the rest for the next turn.
\<close>

section \<open>The commands as one sequence\<close>

definition bb_ok :: "bitbang \<Rightarrow> bool" where
  "bb_ok b \<longleftrightarrow> length (recv_buf b) = buf_size \<and> length (send_buf b) = buf_size \<and>
     0 \<le> recv_start b \<and> recv_end b \<le> int buf_size"

text \<open>What has been received and not performed.\<close>

definition pending :: "bitbang \<Rightarrow> byte list" where
  "pending b = drop (nat (recv_start b)) (take (nat (recv_end b)) (recv_buf b))"

fun perform :: "'s dm_if \<Rightarrow> byte list \<Rightarrow> 's jtag_sys \<Rightarrow> byte list result \<times> 's jtag_sys" where
  "perform I [] j = give [] j"
| "perform I (c # cs) j = andthen (bb_command I c) (\<lambda>(bs, q). andthen (perform I cs) (\<lambda>rs. give (bs @ rs))) j"

text \<open>
  No command of the sequence ends the turn: after none is the TAP in \<open>RUN_TEST_IDLE\<close>, the first
  command excepted when the TAP was there at the start.
\<close>

fun walk :: "'s dm_if \<Rightarrow> bool \<Rightarrow> byte list \<Rightarrow> 's jtag_sys \<Rightarrow> bool" where
  "walk I idle [] j = True"
| "walk I idle (c # cs) j = (let j' = snd (bb_command I c j)
     in (idle \<or> tap_state (tap j') \<noteq> RUN_TEST_IDLE) \<and> walk I False cs j')"

lemma perform_append:
  assumes "perform I xs j = (Inr rs, j1)" "perform I ys j1 = (Inr ss, j2)"
  shows "perform I (xs @ ys) j = (Inr (rs @ ss), j2)"
  using assms(1)
proof (induction xs arbitrary: j rs)
  case Nil
  then show ?case using assms(2) by (simp add: give_def)
next
  case (Cons c xs)
  then show ?case
    by (auto simp: andthen_def give_def split: prod.splits sum.splits)
qed

lemma walk_append:
  assumes "perform I xs j = (Inr rs, j1)"
  shows "walk I idle (xs @ ys) j \<longleftrightarrow> walk I idle xs j \<and> walk I (idle \<and> xs = []) ys j1"
  using assms
proof (induction xs arbitrary: j rs idle)
  case Nil
  then show ?case by (simp add: give_def)
next
  case (Cons c xs)
  then obtain bs q j' where c: "bb_command I c j = (Inr (bs, q), j')"
    by (auto simp: andthen_def split: prod.splits sum.splits)
  with Cons.prems obtain rs' where "perform I xs j' = (Inr rs', j1)"
    by (auto simp: andthen_def give_def split: prod.splits sum.splits)
  from Cons.IH [OF this] show ?case by (simp add: c Let_def)
qed

lemma reply_length: "bb_command I c j = (Inr (bs, q), j') \<Longrightarrow> length bs \<le> 1"
  by (auto simp: bb_command_def andthen_def give_def Let_def split: if_splits prod.splits sum.splits)

lemma ascii_codes [simp]:
  "ascii CHR ''B'' = 0x42" "ascii CHR ''b'' = 0x62" "ascii CHR ''r'' = 0x72" "ascii CHR ''0'' = 0x30"
  "ascii CHR ''1'' = 0x31" "ascii CHR ''2'' = 0x32" "ascii CHR ''3'' = 0x33" "ascii CHR ''4'' = 0x34"
  "ascii CHR ''5'' = 0x35" "ascii CHR ''6'' = 0x36" "ascii CHR ''7'' = 0x37" "ascii CHR ''R'' = 0x52"
  "ascii CHR ''Q'' = 0x51"
  by (simp_all add: ascii_def)

lemma quit_command:
  assumes "bb_command I c j = (Inr (bs, q), j')"
  shows "q \<longleftrightarrow> c = ascii CHR ''Q''"
proof (cases "c = ascii CHR ''Q''")
  case True
  then show ?thesis using assms by (simp add: bb_command_def give_def)
next
  case False
  have "\<not> q" if "andthen (set_pins I a b d) (\<lambda>_. give ([], False)) j = (Inr (bs, q), j')" for a b d
    using that by (auto simp: andthen_def give_def split: prod.splits sum.splits)
  then show ?thesis using False assms
    unfolding bb_command_def Let_def by (auto simp: give_def simp del: ascii_codes split: if_splits)
qed

section \<open>The loop over the received characters\<close>

lemma pending_cons:
  assumes "bb_ok b"
  shows "pending b = [] \<longleftrightarrow> recv_end b \<le> recv_start b"
    "recv_start b < recv_end b \<Longrightarrow> nat (recv_start b) < length (recv_buf b) \<and>
      pending b = recv_buf b ! nat (recv_start b) # pending (b\<lparr>recv_start := recv_start b + 1\<rparr>)"
proof -
  show "pending b = [] \<longleftrightarrow> recv_end b \<le> recv_start b"
    using assms by (auto simp: pending_def bb_ok_def)
  assume "recv_start b < recv_end b"
  then have i: "nat (recv_start b) < length (take (nat (recv_end b)) (recv_buf b))"
    "nat (recv_start b + 1) = Suc (nat (recv_start b))"
    using assms by (auto simp: bb_ok_def)
  from Cons_nth_drop_Suc [OF i(1)] i show "nat (recv_start b) < length (recv_buf b) \<and>
      pending b = recv_buf b ! nat (recv_start b) # pending (b\<lparr>recv_start := recv_start b + 1\<rparr>)"
    by (simp add: pending_def)
qed

lemma pending_send_buf [simp]: "pending (b\<lparr>send_buf := x\<rparr>) = pending b"
  by (simp add: pending_def)

text \<open>What the loop keeps.\<close>

definition same_io :: "bitbang \<Rightarrow> bitbang \<Rightarrow> bool" where
  "same_io b c \<longleftrightarrow> client_fd b = client_fd c \<and> n_accept b = n_accept c \<and> n_read b = n_read c \<and>
     n_write b = n_write c \<and> wire b = wire c"

lemma one_command_spec:
  assumes "bb_ok (bb s)" "recv_start (bb s) < recv_end (bb s)" "send_offset l < buf_size"
    and "one_command I l s = (Inr l', s')"
  obtains c bs q where "pending (bb s) = c # pending (bb s')" "bb_command I c (jtag s) = (Inr (bs, q), jtag s')"
    "bb_ok (bb s')" "same_io (bb s') (bb s)" "l' = l\<lparr>send_offset := send_offset l + length bs,
      total_processed := total_processed l + 1, quit := quit l \<or> q\<rparr>"
    "take (send_offset l + length bs) (send_buf (bb s')) = take (send_offset l) (send_buf (bb s)) @ bs"
proof -
  note p = pending_cons(2) [OF assms(1,2)]
  obtain bs q j where c: "bb_command I (recv_buf (bb s) ! nat (recv_start (bb s))) (jtag s) = (Inr (bs, q), j)"
    using assms(4) p by (auto simp: one_command_def Let_def split: prod.splits sum.splits)
  have off: "send_offset l + length bs \<le> length (send_buf (bb s))"
    using assms(1,3) reply_length [OF c] by (auto simp: bb_ok_def)
  show thesis
  proof (rule that [of "recv_buf (bb s) ! nat (recv_start (bb s))" bs q])
    show "take (send_offset l + length bs) (send_buf (bb s')) = take (send_offset l) (send_buf (bb s)) @ bs"
      using assms(4) p c off
      by (auto simp: one_command_def put_replies_def upd_bb_def copy_into_def Let_def)
  qed (use assms p c off in \<open>auto simp: one_command_def put_replies_def upd_bb_def same_io_def bb_ok_def Let_def\<close>)
qed

text \<open>
  A stretch of commands from one state to another: the commands, the replies, and how the flags of
  the loop follow from them.
\<close>

definition stretch :: "'s dm_if \<Rightarrow> locals \<Rightarrow> 's jtag_sys \<Rightarrow> byte list \<Rightarrow> byte list \<Rightarrow> locals \<Rightarrow> 's jtag_sys \<Rightarrow> bool" where
  "stretch I l j cs rs l' j' \<longleftrightarrow> perform I cs j = (Inr rs, j') \<and>
     total_processed l' = total_processed l + length cs \<and>
     (quit l' \<longleftrightarrow> quit l \<or> ascii CHR ''Q'' \<in> set cs) \<and> walk I (in_rti l) (butlast cs) j \<and>
     (entered_rti l' \<longleftrightarrow> \<not> walk I (in_rti l) cs j) \<and>
     (\<not> entered_rti l' \<longrightarrow> in_rti l' = (in_rti l \<and> cs = []))"

lemma stretch_offset [simp]: "stretch I (l\<lparr>send_offset := x\<rparr>) = stretch I l"
  by (simp add: stretch_def fun_eq_iff)

lemma process_spec:
  assumes "bb_ok (bb s)" "send_offset l + length (pending (bb s)) \<le> buf_size" "\<not> entered_rti l"
    and "process I l s = (Inr l', s')"
  shows "bb_ok (bb s') \<and> same_io (bb s') (bb s) \<and> (\<exists>cs rs. pending (bb s) = cs @ pending (bb s') \<and>
    stretch I l (jtag s) cs rs l' (jtag s') \<and> send_offset l' = send_offset l + length rs \<and>
    take (send_offset l') (send_buf (bb s')) = take (send_offset l) (send_buf (bb s)) @ rs \<and>
    (pending (bb s) \<noteq> [] \<longrightarrow> cs \<noteq> []) \<and> (\<not> entered_rti l' \<longrightarrow> pending (bb s') = []))"
  using assms
proof (induction I l s rule: process.induct)
  case (1 I l s)
  show ?case
  proof (cases "recv_start (bb s) < recv_end (bb s)")
    case False
    then have "pending (bb s) = []" using pending_cons(1) [OF 1(2)] by simp
    then show ?thesis using 1(2-) False
      by (subst (asm) process.simps) (auto simp: same_io_def stretch_def give_def)
  next
    case True
    then have off: "send_offset l < buf_size" using 1(3) pending_cons(1) [OF 1(2)] by (cases "pending (bb s)") auto
    obtain l1 s1 where one: "one_command I l s = (Inr l1, s1)"
      using 1(5) True by (subst (asm) process.simps) (auto split: prod.splits sum.splits)
    from one_command_spec [OF 1(2) True off one] obtain c bs q where
      c: "pending (bb s) = c # pending (bb s1)" "bb_command I c (jtag s) = (Inr (bs, q), jtag s1)"
        "bb_ok (bb s1)" "same_io (bb s1) (bb s)"
      and l1: "l1 = l\<lparr>send_offset := send_offset l + length bs,
        total_processed := total_processed l + 1, quit := quit l \<or> q\<rparr>"
      and buf: "take (send_offset l + length bs) (send_buf (bb s1)) = take (send_offset l) (send_buf (bb s)) @ bs" .
    show ?thesis
    proof (cases "\<not> in_rti l1 \<and> tap_state (tap (jtag s1)) = RUN_TEST_IDLE")
      case stop: True
      then have r: "l' = l1\<lparr>entered_rti := True\<rparr>" "s' = s1"
        using 1(5) True one by (subst (asm) process.simps, simp)+
      have "perform I [c] (jtag s) = (Inr bs, jtag s1)" by (simp add: c(2) andthen_def give_def)
      then have "stretch I l (jtag s) [c] bs l' (jtag s')"
        using stop by (auto simp: stretch_def r l1 c(2) Let_def quit_command [OF c(2)])
      then show ?thesis using c buf r l1 by (intro conjI exI [of _ "[c]"] exI [of _ bs]) simp_all
    next
      case go: False
      let ?l = "l1\<lparr>in_rti := False\<rparr>"
      have rec: "process I ?l s1 = (Inr l', s')"
        using 1(5) True one go by (subst (asm) process.simps) simp
      have "length bs \<le> 1" using reply_length [OF c(2)] .
      then have pre: "send_offset ?l + length (pending (bb s1)) \<le> buf_size" "\<not> entered_rti ?l"
        using 1(3,4) by (simp_all add: l1 c(1))
      from "1.IH" [OF True one [symmetric] refl go c(3) pre rec] obtain cs rs where
        IH: "bb_ok (bb s')" "same_io (bb s') (bb s1)" "pending (bb s1) = cs @ pending (bb s')"
          "stretch I ?l (jtag s1) cs rs l' (jtag s')" "send_offset l' = send_offset ?l + length rs"
          "take (send_offset l') (send_buf (bb s')) = take (send_offset ?l) (send_buf (bb s1)) @ rs"
          "\<not> entered_rti l' \<longrightarrow> pending (bb s') = []" by blast
      have "perform I (c # cs) (jtag s) = (Inr (bs @ rs), jtag s')"
        using IH(4) by (simp add: stretch_def c(2) andthen_def give_def)
      moreover have "walk I (in_rti l) (butlast (c # cs)) (jtag s)"
        using IH(4) go by (cases cs) (simp_all add: stretch_def l1 c(2) Let_def)
      ultimately have "stretch I l (jtag s) (c # cs) (bs @ rs) l' (jtag s')"
        using IH(4) go by (auto simp: stretch_def l1 c(2) Let_def quit_command [OF c(2)])
      then show ?thesis using IH(1-3,5-) c buf l1
        by (intro conjI exI [of _ "c # cs"] exI [of _ "bs @ rs"]) (simp_all add: same_io_def)
    qed
  qed
qed

section \<open>Replies\<close>

text \<open>
  The contract of the socket calls: \<open>read\<close> fills at most the buffer, and a \<open>write\<close> that does not fail
  takes at least one byte of the data and at most all of them.
\<close>

definition net_ok :: "net \<Rightarrow> bool" where
  "net_ok N \<longleftrightarrow> (\<forall>k. case net_read N k of Received bs \<Rightarrow> length bs \<le> buf_size | _ \<Rightarrow> True) \<and>
     (\<forall>k d. d \<noteq> [] \<longrightarrow> (case net_write N k d of None \<Rightarrow> True | Some n \<Rightarrow> 0 < n \<and> n \<le> length d))"

definition takes_all :: "net \<Rightarrow> bool" where
  "takes_all N \<longleftrightarrow> (\<forall>k d. net_write N k d = Some (length d))"

text \<open>What the client has sent with the \<open>read\<close>s from number \<open>a\<close> to before number \<open>b\<close>.\<close>

definition received :: "net \<Rightarrow> nat \<Rightarrow> nat \<Rightarrow> byte list" where
  "received N a b = concat (map (\<lambda>k. case net_read N k of Received bs \<Rightarrow> bs | _ \<Rightarrow> []) [a..<b])"

lemma send_loop_ends:
  assumes "net_ok N"
  shows "\<exists>r n w. send_loop N off sent s = Some (r, upd_bb (\<lambda>b. b\<lparr>n_write := n, wire := w\<rparr>) s)"
proof (induction "off - sent" arbitrary: sent s rule: less_induct)
  case less
  let ?chunk = "take off (drop sent (send_buf (bb s)))"
  have stop: ?case if "send_loop N off sent s = Some (r, s)" for r
    using that by (intro exI [of _ r] exI [of _ "n_write (bb s)"] exI [of _ "wire (bb s)"]) (simp add: upd_bb_def)
  show ?case
  proof (cases "sent < off \<and> sent + off \<le> length (send_buf (bb s))")
    case False
    then show ?thesis using stop by (cases "sent < off") (simp_all add: send_loop.simps)
  next
    case True
    then have "?chunk \<noteq> []" by auto
    show ?thesis
    proof (cases "net_write N (n_write (bb s)) ?chunk")
      case None
      then show ?thesis using stop True by (simp add: send_loop.simps Let_def)
    next
      case (Some n)
      have "case net_write N (n_write (bb s)) ?chunk of None \<Rightarrow> True | Some n \<Rightarrow> 0 < n \<and> n \<le> length ?chunk"
        using assms \<open>?chunk \<noteq> []\<close> unfolding net_ok_def by blast
      then have "0 < n" unfolding Some by simp
      then have smaller: "off - (sent + n) < off - sent" using True by linarith
      let ?s = "upd_bb (\<lambda>b. b\<lparr>n_write := n_write b + 1, wire := wire b @ take n ?chunk\<rparr>) s"
      have "send_loop N off sent s = send_loop N off (sent + n) ?s"
        using True Some by (subst send_loop.simps) (simp add: Let_def)
      moreover obtain r k w where "send_loop N off (sent + n) ?s = Some (r, upd_bb (\<lambda>b. b\<lparr>n_write := k, wire := w\<rparr>) ?s)"
        using less [OF smaller, of ?s] by blast
      ultimately show ?thesis by (intro exI [of _ r] exI [of _ k] exI [of _ w]) (simp add: upd_bb_def)
    qed
  qed
qed

lemma send_loop_done: "send_loop N off off s = Some (Inr (), s)"
  by (simp add: send_loop.simps)

lemma send_loop_whole:
  assumes "takes_all N" "off \<le> length (send_buf (bb s))" "send_loop N off 0 s = Some (r, s')"
  shows "r = Inr () \<and> wire (bb s') = wire (bb s) @ take off (send_buf (bb s))"
proof (cases "off = 0")
  case True
  then show ?thesis using assms(3) send_loop_done [of N 0 s] by simp
next
  case False
  have "length (take off (send_buf (bb s))) = off" using assms(2) by simp
  then have "send_loop N off 0 s = send_loop N off off
      (upd_bb (\<lambda>b. b\<lparr>n_write := n_write b + 1, wire := wire b @ take off (take off (send_buf (bb s)))\<rparr>) s)"
    using assms(1,2) False by (subst send_loop.simps) (simp add: takes_all_def Let_def del: length_take)
  then show ?thesis using assms(3) by (auto simp: send_loop_done upd_bb_def)
qed

lemma serve_spec:
  assumes "net_ok N" "bb_ok (bb s)" "\<not> entered_rti l"
  obtains r s' where "serve N I l s = Some (r, s')"
    "\<forall>l'. r = Inr l' \<longrightarrow> bb_ok (bb s') \<and> n_read (bb s') = n_read (bb s) \<and>
      (\<exists>cs rs. pending (bb s) = cs @ pending (bb s') \<and> stretch I l (jtag s) cs rs l' (jtag s') \<and>
        (takes_all N \<longrightarrow> wire (bb s') = wire (bb s) @ rs) \<and>
        (pending (bb s) \<noteq> [] \<longrightarrow> cs \<noteq> []) \<and> (\<not> entered_rti l' \<longrightarrow> pending (bb s') = []))"
proof (cases "recv_start (bb s) < recv_end (bb s)")
  case False
  then have "pending (bb s) = []" using pending_cons(1) [OF assms(2)] by simp
  then show thesis using False assms that [of "Inr l" s]
    by (simp add: serve_def stretch_def give_def)
next
  case True
  let ?l = "l\<lparr>send_offset := 0\<rparr>"
  obtain r t where p: "process I ?l s = (r, t)" by fastforce
  show thesis
  proof (cases r)
    case (Inl e)
    then show thesis using True p that [of "Inl e" t] by (simp add: serve_def)
  next
    case (Inr l')
    have pre: "send_offset ?l + length (pending (bb s)) \<le> buf_size" "\<not> entered_rti ?l"
      using assms(2,3) by (auto simp: bb_ok_def pending_def)
    from process_spec [OF assms(2) pre p [unfolded Inr]] obtain cs rs where
      P: "bb_ok (bb t)" "same_io (bb t) (bb s)" "pending (bb s) = cs @ pending (bb t)"
        "stretch I ?l (jtag s) cs rs l' (jtag t)" "send_offset l' = send_offset ?l + length rs"
        "take (send_offset l') (send_buf (bb t)) = take (send_offset ?l) (send_buf (bb s)) @ rs"
        "pending (bb s) \<noteq> [] \<longrightarrow> cs \<noteq> []" "\<not> entered_rti l' \<longrightarrow> pending (bb t) = []" by blast
    then have replies: "take (send_offset l') (send_buf (bb t)) = rs" "send_offset l' = length rs" by simp_all
    obtain q n w where send: "send_loop N (send_offset l') 0 t = Some (q, upd_bb (\<lambda>b. b\<lparr>n_write := n, wire := w\<rparr>) t)"
      using send_loop_ends [OF assms(1)] by blast
    let ?s' = "upd_bb (\<lambda>b. b\<lparr>n_write := n, wire := w\<rparr>) t"
    have "send_offset l' \<le> length (send_buf (bb t))"
      using arg_cong [OF replies(1), of length] replies(2) by simp
    note whole = send_loop_whole [OF _ this send]
    show thesis
    proof (rule that [of "case q of Inl e \<Rightarrow> Inl e | Inr _ \<Rightarrow> Inr l'" ?s'])
      show "serve N I l s = Some (case q of Inl e \<Rightarrow> Inl e | Inr _ \<Rightarrow> Inr l', ?s')"
        using True p Inr send by (simp add: serve_def)
    next
      show "\<forall>l''. (case q of Inl e \<Rightarrow> Inl e | Inr _ \<Rightarrow> Inr l') = Inr l'' \<longrightarrow> bb_ok (bb ?s') \<and> n_read (bb ?s') = n_read (bb s) \<and>
        (\<exists>cs rs. pending (bb s) = cs @ pending (bb ?s') \<and> stretch I l (jtag s) cs rs l'' (jtag ?s') \<and>
          (takes_all N \<longrightarrow> wire (bb ?s') = wire (bb s) @ rs) \<and>
          (pending (bb s) \<noteq> [] \<longrightarrow> cs \<noteq> []) \<and> (\<not> entered_rti l'' \<longrightarrow> pending (bb ?s') = []))"
      proof (intro allI impI)
      fix l'' assume "(case q of Inl e \<Rightarrow> Inl e | Inr _ \<Rightarrow> Inr l') = Inr l''"
      then have "l'' = l'" by (auto split: sum.splits)
      moreover have "bb_ok (bb ?s')" "pending (bb ?s') = pending (bb t)" "jtag ?s' = jtag t" "n_read (bb ?s') = n_read (bb t)"
        using P(1) by (simp_all add: upd_bb_def bb_ok_def pending_def)
      moreover have "n_read (bb t) = n_read (bb s)" "wire (bb t) = wire (bb s)" using P(2) by (simp_all add: same_io_def)
      moreover have "takes_all N \<longrightarrow> wire (bb ?s') = wire (bb t) @ rs" using whole replies(1) by blast
      ultimately show "bb_ok (bb ?s') \<and> n_read (bb ?s') = n_read (bb s) \<and>
        (\<exists>cs rs. pending (bb s) = cs @ pending (bb ?s') \<and> stretch I l (jtag s) cs rs l'' (jtag ?s') \<and>
          (takes_all N \<longrightarrow> wire (bb ?s') = wire (bb s) @ rs) \<and>
          (pending (bb s) \<noteq> [] \<longrightarrow> cs \<noteq> []) \<and> (\<not> entered_rti l'' \<longrightarrow> pending (bb ?s') = []))"
        using P(3,7,8) P(4) [simplified] by (intro conjI exI [of _ cs] exI [of _ rs]) simp_all
      qed
    qed
  qed
qed

section \<open>A turn\<close>

lemma pending_length: "bb_ok b \<Longrightarrow> length (pending b) \<le> buf_size"
  by (auto simp: pending_def bb_ok_def)

lemma receive_spec:
  assumes "net_ok N" "bb_ok (bb s)" "receive N q s = (Inr go, s')" "pending (bb s) = []" "\<not> q"
  shows "bb_ok (bb s') \<and> jtag s' = jtag s \<and> wire (bb s') = wire (bb s) \<and> n_read (bb s') = n_read (bb s) + 1 \<and>
    pending (bb s') = received N (n_read (bb s)) (n_read (bb s) + 1) \<and> (go \<longleftrightarrow> pending (bb s') \<noteq> [])"
proof (cases "net_read N (n_read (bb s))")
  case (Received bs)
  have len: "length bs \<le> buf_size" using assms(1) Received unfolding net_ok_def by (metis read_answer.simps(8))
  have "take (length bs) (copy_into (recv_buf (bb s)) 0 bs) = bs" by (simp add: copy_into_def)
  then show ?thesis using assms len Received
    by (cases "bs = []") (auto simp: receive_def upd_bb_def bb_ok_def pending_def received_def Let_def)
qed (use assms in \<open>auto simp: receive_def upd_bb_def bb_ok_def pending_def received_def Let_def\<close>)

lemma received_split:
  assumes "a \<le> b" "b \<le> c"
  shows "received N a b @ received N b c = received N a c"
proof -
  have "[a..<c] = [a..<b] @ [b..<c]" using upt_add_eq_append [of a b "c - b"] assms by simp
  then show ?thesis by (simp add: received_def)
qed

text \<open>
  What a turn that starts with the flags \<open>l\<close> has done when it ends: the commands performed, the
  replies sent, and that it did not end without a reason.
\<close>

definition turn_done :: "net \<Rightarrow> 's dm_if \<Rightarrow> locals \<Rightarrow> 's bb_sys \<Rightarrow> byte list \<Rightarrow> byte list \<Rightarrow> 's bb_sys \<Rightarrow> bool" where
  "turn_done N I l s cs rs s' \<longleftrightarrow> n_read (bb s) \<le> n_read (bb s') \<and>
     pending (bb s) @ received N (n_read (bb s)) (n_read (bb s')) = cs @ pending (bb s') \<and>
     perform I cs (jtag s) = (Inr rs, jtag s') \<and> (takes_all N \<longrightarrow> wire (bb s') = wire (bb s) @ rs) \<and>
     (pending (bb s) \<noteq> [] \<longrightarrow> cs \<noteq> []) \<and> total_processed l + length cs \<le> 2 * buf_size \<and>
     walk I (in_rti l) (butlast cs) (jtag s) \<and> (pending (bb s') \<noteq> [] \<longrightarrow> \<not> walk I (in_rti l) cs (jtag s)) \<and>
     (walk I (in_rti l) cs (jtag s) \<and> ascii CHR ''Q'' \<notin> set cs \<and> total_processed l + length cs \<le> buf_size \<longrightarrow>
       n_read (bb s) < n_read (bb s') \<and> received N (n_read (bb s') - 1) (n_read (bb s')) = [])"

lemma turn_join:
  assumes st: "stretch I l (jtag s) cs rs l1 (jtag s1)" and go: "\<not> entered_rti l1" "\<not> quit l1"
    and p: "pending (bb s) = cs" "pending (bb s1) = []" "n_read (bb s1) = n_read (bb s)"
    and w: "takes_all N \<longrightarrow> wire (bb s1) = wire (bb s) @ rs"
    and r: "jtag s2 = jtag s1" "wire (bb s2) = wire (bb s1)" "n_read (bb s2) = n_read (bb s1) + 1"
      "pending (bb s2) = received N (n_read (bb s1)) (n_read (bb s1) + 1)"
    and t: "turn_done N I l1 s2 ds ss s3"
  shows "turn_done N I l s (cs @ ds) (rs @ ss) s3"
proof -
  have P: "perform I cs (jtag s) = (Inr rs, jtag s2)" "perform I ds (jtag s2) = (Inr ss, jtag s3)"
    using st t r(1) by (simp_all add: stretch_def turn_done_def)
  have l1: "in_rti l1 = (in_rti l \<and> cs = [])" "total_processed l1 = total_processed l + length cs"
    "walk I (in_rti l) cs (jtag s)" "ascii CHR ''Q'' \<notin> set cs" "walk I (in_rti l) (butlast cs) (jtag s)"
    using st go by (auto simp: stretch_def)
  note walk = walk_append [OF P(1), of "in_rti l"]
  have but: "walk I (in_rti l) (butlast (cs @ ds)) (jtag s)"
    using t l1 walk [of "butlast ds"] by (cases "ds = []") (simp_all add: turn_done_def butlast_append)
  have n: "n_read (bb s) \<le> n_read (bb s1) + 1" "n_read (bb s2) \<le> n_read (bb s3)"
    using t p(3) by (simp_all add: turn_done_def)
  have recv: "received N (n_read (bb s)) (n_read (bb s3)) = pending (bb s2) @ received N (n_read (bb s2)) (n_read (bb s3))"
    using n received_split [of "n_read (bb s)" "n_read (bb s) + 1" "n_read (bb s3)" N] r p(3) by simp
  show ?thesis
    using t perform_append [OF P] but n w r(2) p l1 walk [of ds] unfolding turn_done_def recv
    by (auto simp: r(3))
qed

lemma loop_ends:
  assumes "net_ok N" "bb_ok (bb s)" "\<not> entered_rti l" "\<not> quit l" "total_processed l \<le> buf_size"
  shows "\<exists>r s'. execute_loop N I l s = Some (r, s') \<and>
    (r = Inr () \<longrightarrow> bb_ok (bb s') \<and> (\<exists>cs rs. turn_done N I l s cs rs s'))"
  using assms(2-)
proof (induction "2 * (buf_size - total_processed l) + (if pending (bb s) = [] then 1 else 0)" arbitrary: l s rule: less_induct)
  case less
  obtain q s1 where serve: "serve N I l s = Some (q, s1)" and
    spec: "\<forall>l'. q = Inr l' \<longrightarrow> bb_ok (bb s1) \<and> n_read (bb s1) = n_read (bb s) \<and>
      (\<exists>cs rs. pending (bb s) = cs @ pending (bb s1) \<and> stretch I l (jtag s) cs rs l' (jtag s1) \<and>
        (takes_all N \<longrightarrow> wire (bb s1) = wire (bb s) @ rs) \<and>
        (pending (bb s) \<noteq> [] \<longrightarrow> cs \<noteq> []) \<and> (\<not> entered_rti l' \<longrightarrow> pending (bb s1) = []))"
    using serve_spec [OF assms(1) less.prems(1,2), where I = I] .
  show ?case
  proof (cases q)
    case (Inl e)
    then show ?thesis by (subst execute_loop.simps) (simp add: serve)
  next
    case (Inr l1)
    from spec [rule_format, OF this] obtain cs rs where S: "bb_ok (bb s1)" "n_read (bb s1) = n_read (bb s)"
      "pending (bb s) = cs @ pending (bb s1)" "stretch I l (jtag s) cs rs l1 (jtag s1)"
      "takes_all N \<longrightarrow> wire (bb s1) = wire (bb s) @ rs" "pending (bb s) \<noteq> [] \<longrightarrow> cs \<noteq> []"
      "\<not> entered_rti l1 \<longrightarrow> pending (bb s1) = []" by blast
    have len: "length cs \<le> buf_size" using pending_length [OF less.prems(1)] S(3) by simp
    let ?stop = "total_processed l1 > buf_size \<or> quit l1 \<or> entered_rti l1"
    show ?thesis
    proof (cases ?stop)
      case True
      then have "execute_loop N I l s = Some (Inr (), s1)"
        by (subst execute_loop.simps) (simp add: serve Inr)
      moreover have "turn_done N I l s cs rs s1"
        using S True len less.prems(2-) by (auto simp: turn_done_def stretch_def received_def)
      ultimately show ?thesis using S(1) by blast
    next
      case cont: False
      obtain g s2 where rec: "receive N False s1 = (g, s2)" by fastforce
      have loop: "execute_loop N I l s = (case g of Inl e \<Rightarrow> Some (Inl e, s2)
          | Inr go \<Rightarrow> if go then execute_loop N I l1 s2 else Some (Inr (), s2))"
        using cont by (subst execute_loop.simps) (simp add: serve Inr rec split: sum.split)
      show ?thesis
      proof (cases g)
        case (Inl e)
        then show ?thesis by (simp add: loop)
      next
        case go: (Inr go)
        have p1: "pending (bb s1) = []" using S(7) cont by blast
        from receive_spec [OF assms(1) S(1) rec [unfolded go] p1] cont have
          R: "bb_ok (bb s2)" "jtag s2 = jtag s1" "wire (bb s2) = wire (bb s1)" "n_read (bb s2) = n_read (bb s1) + 1"
            "pending (bb s2) = received N (n_read (bb s1)) (n_read (bb s1) + 1)" "go \<longleftrightarrow> pending (bb s2) \<noteq> []" by auto
        have p: "pending (bb s) = cs" using S(3) p1 by simp
        note join = turn_join [OF S(4) _ _ p p1 S(2,5) R(2-5)]
        show ?thesis
        proof (cases go)
          case False
          then have "turn_done N I l s cs rs s2"
            using R S(2,4-6) p p1 cont less.prems(3,4) len by (auto simp: turn_done_def stretch_def)
          with loop go False R(1) show ?thesis by auto
        next
          case True
          have t: "total_processed l1 = total_processed l + length cs" using S(4) by (simp add: stretch_def)
          have less1: "2 * (buf_size - total_processed l1) + (if pending (bb s2) = [] then 1 else 0)
              < 2 * (buf_size - total_processed l) + (if pending (bb s) = [] then 1 else 0)"
            using True R(6) p cont t by (cases cs) auto
          from less.hyps [OF less1 R(1)] cont obtain r s3 where
            "execute_loop N I l1 s2 = Some (r, s3)"
            "r = Inr () \<longrightarrow> bb_ok (bb s3) \<and> (\<exists>ds ss. turn_done N I l1 s2 ds ss s3)" by auto
          moreover from this(2) have "r = Inr () \<longrightarrow> (\<exists>cs rs. turn_done N I l s cs rs s3)"
            using join cont by blast
          ultimately show ?thesis using loop go True by auto
        qed
      qed
    qed
  qed
qed

text \<open>
  C32. A turn of the bitbang server ends, whatever the client has sent and will send: it performs at
  most \<open>2 * buf_size\<close> commands.  When it ends without an error the commands performed are the first
  of what was received, in order and each once, and the rest is kept for the next turn.  The client
  gets their replies, when the socket takes every write completely.  Only the last command has
  brought the TAP to \<open>RUN_TEST_IDLE\<close>; and unless it has, or there was a command to quit, or more than
  \<open>buf_size\<close> commands, the turn went on until there was nothing to read.
\<close>

theorem bitbang_turn_ends:
  assumes "net_ok N" "bb_ok (bb s)"
  shows "\<exists>r s'. execute_commands N I s = Some (r, s') \<and> (r = Inr () \<longrightarrow> bb_ok (bb s') \<and>
    (\<exists>cs rs. pending (bb s) @ received N (n_read (bb s)) (n_read (bb s')) = cs @ pending (bb s') \<and>
      length cs \<le> 2 * buf_size \<and> perform I cs (jtag s) = (Inr rs, jtag s') \<and>
      (takes_all N \<longrightarrow> wire (bb s') = wire (bb s) @ rs) \<and>
      (let idle = tap_state (tap (jtag s)) = RUN_TEST_IDLE in
       walk I idle (butlast cs) (jtag s) \<and> (pending (bb s') \<noteq> [] \<longrightarrow> \<not> walk I idle cs (jtag s)) \<and>
       (walk I idle cs (jtag s) \<and> ascii CHR ''Q'' \<notin> set cs \<and> length cs \<le> buf_size \<longrightarrow>
         n_read (bb s) < n_read (bb s') \<and> received N (n_read (bb s') - 1) (n_read (bb s')) = []))))"
proof -
  let ?l = "\<lparr>send_offset = 0, total_processed = 0, quit = False,
      in_rti = (tap_state (tap (jtag s)) = RUN_TEST_IDLE), entered_rti = False\<rparr>"
  from loop_ends [OF assms, of ?l I] obtain r s' where
    "execute_loop N I ?l s = Some (r, s')" "r = Inr () \<longrightarrow> bb_ok (bb s') \<and> (\<exists>cs rs. turn_done N I ?l s cs rs s')"
    by auto
  then show ?thesis unfolding execute_commands_def turn_done_def Let_def by auto
qed

text \<open>A client that resets the TAP, clocks it to \<open>RUN_TEST_IDLE\<close>, and samples \<open>tdo\<close>.\<close>

definition sample_net :: "byte list \<Rightarrow> net" where
  "sample_net bs = \<lparr>net_accept = (\<lambda>k. No_client), net_read = (\<lambda>k. if k = 0 then Received bs else Read_again),
     net_write = (\<lambda>k d. Some (length d))\<rparr>"

definition sample_bb :: "bool bb_sys" where
  "sample_bb = \<lparr>bb = (bb_construct (replicate buf_size 0) (replicate buf_size 0))\<lparr>client_fd := 5\<rparr>,
     jtag = \<lparr>tap = jtag_construct 0 0 32, dmsys = \<lparr>dm = sample_dm 2 0, sys = False\<rparr>\<rparr>\<rparr>"

lemma bitbang_turn_ends_witness:
  "\<exists>r s'. execute_commands (sample_net (map ascii ''rR04R04R'')) one_hart_if sample_bb = Some (r, s') \<and>
    (r = Inr () \<longrightarrow> bb_ok (bb s') \<and>
    (\<exists>cs rs. received (sample_net (map ascii ''rR04R04R'')) 0 (n_read (bb s')) = cs @ pending (bb s') \<and>
      perform one_hart_if cs (jtag sample_bb) = (Inr rs, jtag s') \<and> wire (bb s') = rs))"
proof -
  let ?N = "sample_net (map ascii ''rR04R04R'')"
  have "net_ok ?N" "takes_all ?N" by (simp_all add: net_ok_def takes_all_def sample_net_def buf_size_def)
  moreover have "bb_ok (bb sample_bb)" by (simp add: bb_ok_def sample_bb_def bb_construct_def)
  moreover have "pending (bb sample_bb) = []" "n_read (bb sample_bb) = 0" "wire (bb sample_bb) = []"
    by (simp_all add: pending_def sample_bb_def bb_construct_def)
  ultimately show ?thesis using bitbang_turn_ends [of ?N sample_bb one_hart_if] by (fastforce simp: Let_def)
qed

text \<open>A write that is taken in part sends wrong bytes: two replies, and after the first a stale byte.\<close>

lemma partial_write_sends_stale_bytes:
  assumes "send_buf (bb s) = a # b # c # rest" "net_write N (n_write (bb s)) [a, b] = Some 1"
    "net_write N (n_write (bb s) + 1) [b, c] = Some 2"
  shows "\<exists>s'. send_loop N 2 0 s = Some (Inr (), s') \<and> wire (bb s') = wire (bb s) @ [a, b, c]"
proof -
  define t where "t = upd_bb (\<lambda>b. b\<lparr>n_write := n_write b + 1, wire := wire b @ [a]\<rparr>) s"
  have "send_loop N 2 0 s = send_loop N 2 1 t"
    using assms by (subst send_loop.simps) (simp add: t_def)
  also have "\<dots> = send_loop N 2 3 (upd_bb (\<lambda>m. m\<lparr>n_write := n_write m + 1, wire := wire m @ [b, c]\<rparr>) t)"
    using assms by (subst send_loop.simps) (simp add: t_def upd_bb_def numeral_3_eq_3)
  finally show ?thesis by (simp add: send_loop.simps t_def upd_bb_def)
qed

end
