(* ===== verification/CacheSim.thy ===== *)
theory CacheSim
  imports Mmu
begin

text \<open>
  The cache simulator (\<open>riscv/cachesim.h\<close>, \<open>riscv/cachesim.cc\<close>) and the list of memory tracers
  (\<open>riscv/memtracer.h\<close>).  A cache keeps the tags of the blocks it holds, each with a valid and a dirty
  bit, and counts what happens; it keeps no data.  The set-associative cache has its tags in an
  array, the fully associative one in a \<open>std::map\<close>, here an association list in the order of its
  keys; a pointer to a tag is its position in either.  The accesses of the miss handler, which is
  another cache, are a list of requests: what a cache asks of the next level.  A division by zero or
  a null pointer is \<open>Abort\<close>.
\<close>

section \<open>State\<close>

definition lfsr_next :: "u32 \<Rightarrow> u32" where
  "lfsr_next reg = shr reg 1 XOR (- (reg AND 1) AND 0xd0000001)"

definition VALID :: reg_t where "VALID = shl 1 63"
definition DIRTY :: reg_t where "DIRTY = shl 1 62"

datatype tag_store = Set_assoc "reg_t list" | Full_assoc "(reg_t \<times> reg_t) list"

record cache =
  c_lfsr :: u32
  c_sets :: reg_t
  c_ways :: reg_t
  c_linesz :: reg_t
  c_idx_shift :: nat
  c_tags :: tag_store
  c_read_accesses :: reg_t
  c_read_misses :: reg_t
  c_bytes_read :: reg_t
  c_write_accesses :: reg_t
  c_write_misses :: reg_t
  c_bytes_written :: reg_t
  c_writebacks :: reg_t

section \<open>Construction\<close>

text \<open>The loop that counts \<open>idx_shift\<close>.\<close>

fun shift_count :: "nat \<Rightarrow> nat" where
  "shift_count x = (if x > 1 then Suc (shift_count (x div 2)) else 0)"

declare shift_count.simps [simp del]

definition not_power_of_two :: "reg_t \<Rightarrow> bool" where
  "not_power_of_two x \<longleftrightarrow> truth (x AND (x - 1))"

text \<open>\<open>None\<close> is the exit in \<open>help\<close>.\<close>

definition cache_init :: "reg_t \<Rightarrow> reg_t \<Rightarrow> reg_t \<Rightarrow> tag_store \<Rightarrow> cache option" where
  "cache_init sets ways linesz tags =
     (if sets = 0 \<or> not_power_of_two sets then None
      else if linesz < 8 \<or> not_power_of_two linesz then None
      else Some \<lparr>c_lfsr = 1, c_sets = sets, c_ways = ways, c_linesz = linesz, c_idx_shift = shift_count (unat linesz),
        c_tags = tags, c_read_accesses = 0, c_read_misses = 0, c_bytes_read = 0, c_write_accesses = 0,
        c_write_misses = 0, c_bytes_written = 0, c_writebacks = 0\<rparr>)"

definition cache_sim :: "reg_t \<Rightarrow> reg_t \<Rightarrow> reg_t \<Rightarrow> cache option" where
  "cache_sim sets ways linesz = cache_init sets ways linesz (Set_assoc (replicate (unat sets * unat ways) 0))"

definition fa_cache_sim :: "reg_t \<Rightarrow> reg_t \<Rightarrow> cache option" where
  "fa_cache_sim ways linesz = cache_init 1 ways linesz (Full_assoc [])"

text \<open>\<open>atoi\<close>, for numbers that an \<open>int\<close> can hold.\<close>

definition is_digit :: "char \<Rightarrow> bool" where
  "is_digit c \<longleftrightarrow> c \<in> set ''0123456789''"

definition digits_value :: "string \<Rightarrow> int" where
  "digits_value ds = foldl (\<lambda>n d. 10 * n + (of_char d - of_char CHR ''0'')) 0 ds"

definition atoi :: "string \<Rightarrow> int" where
  "atoi s =
     (let s = dropWhile (\<lambda>c. c = CHR '' '' \<or> c \<in> {CHR 0x09, CHR 0x0A, CHR 0x0B, CHR 0x0C, CHR 0x0D}) s;
          num = (\<lambda>s. digits_value (takeWhile is_digit s))
      in case s of
           [] \<Rightarrow> 0
         | c # cs \<Rightarrow> if c = CHR ''-'' then - num cs else if c = CHR ''+'' then num cs else num s)"

text \<open>A configuration \<open>sets:ways:blocksize\<close>.\<close>

definition after_colon :: "string \<Rightarrow> string option" where
  "after_colon s = (case dropWhile (\<lambda>c. c \<noteq> CHR '':'') s of [] \<Rightarrow> None | _ # cs \<Rightarrow> Some cs)"

definition cache_construct :: "string \<Rightarrow> cache option" where
  "cache_construct config =
     (case after_colon config of
        None \<Rightarrow> None
      | Some wp \<Rightarrow>
          (case after_colon wp of
             None \<Rightarrow> None
           | Some bp \<Rightarrow>
               (let sets = of_int (atoi config); ways = of_int (atoi wp); linesz = of_int (atoi bp)
                in if ways > 4 \<and> sets = 1 then fa_cache_sim ways linesz else cache_sim sets ways linesz)))"

section \<open>Tags\<close>

definition block_of :: "cache \<Rightarrow> reg_t \<Rightarrow> reg_t" where
  "block_of c addr = shr addr (c_idx_shift c)"

definition set_start :: "cache \<Rightarrow> reg_t \<Rightarrow> nat" where
  "set_start c addr = unat (block_of c addr AND (c_sets c - 1)) * unat (c_ways c)"

definition sa_check_tag :: "cache \<Rightarrow> reg_t list \<Rightarrow> reg_t \<Rightarrow> nat option" where
  "sa_check_tag c ts addr =
     find (\<lambda>p. block_of c addr OR VALID = ts ! p AND NOT DIRTY)
       (map (\<lambda>i. set_start c addr + i) [0..<unat (c_ways c)])"

definition fa_check_tag :: "cache \<Rightarrow> (reg_t \<times> reg_t) list \<Rightarrow> reg_t \<Rightarrow> nat option" where
  "fa_check_tag c ts addr = find (\<lambda>p. fst (ts ! p) = block_of c addr) [0..<length ts]"

text \<open>The virtual function.\<close>

definition check_tag :: "cache \<Rightarrow> reg_t \<Rightarrow> nat option" where
  "check_tag c addr = (case c_tags c of
     Set_assoc ts \<Rightarrow> sa_check_tag c ts addr | Full_assoc ts \<Rightarrow> fa_check_tag c ts addr)"

declare sa_check_tag_def [simp] fa_check_tag_def [simp]

definition tag_at :: "tag_store \<Rightarrow> nat \<Rightarrow> reg_t" where
  "tag_at t p = (case t of Set_assoc ts \<Rightarrow> ts ! p | Full_assoc ts \<Rightarrow> snd (ts ! p))"

definition put_tag :: "nat \<Rightarrow> reg_t \<Rightarrow> tag_store \<Rightarrow> tag_store" where
  "put_tag p v t = (case t of
     Set_assoc ts \<Rightarrow> Set_assoc (ts[p := v]) | Full_assoc ts \<Rightarrow> Full_assoc (ts[p := (fst (ts ! p), v)]))"

definition mark_dirty :: "nat \<Rightarrow> cache \<Rightarrow> cache" where
  "mark_dirty p c = c\<lparr>c_tags := put_tag p (tag_at (c_tags c) p OR DIRTY) (c_tags c)\<rparr>"

text \<open>\<open>map[key] = value\<close>\<close>

fun map_put :: "reg_t \<Rightarrow> reg_t \<Rightarrow> (reg_t \<times> reg_t) list \<Rightarrow> (reg_t \<times> reg_t) list" where
  "map_put k v [] = [(k, v)]"
| "map_put k v ((k', v') # kvs) =
     (if k < k' then (k, v) # (k', v') # kvs else if k = k' then (k, v) # kvs else (k', v') # map_put k v kvs)"

text \<open>The tag that is replaced; \<open>None\<close> is a division by zero.\<close>

definition sa_victimize :: "reg_t \<Rightarrow> cache \<Rightarrow> reg_t list \<Rightarrow> (reg_t \<times> cache) option" where
  "sa_victimize addr c ts =
     (let r = lfsr_next (c_lfsr c); way = unat ((ucast r :: reg_t) mod c_ways c) in
      if c_ways c = 0 then None
      else (let p = set_start c addr + way
            in Some (ts ! p, c\<lparr>c_lfsr := r, c_tags := Set_assoc (ts[p := block_of c addr OR VALID])\<rparr>)))"

definition fa_victimize :: "reg_t \<Rightarrow> cache \<Rightarrow> (reg_t \<times> reg_t) list \<Rightarrow> (reg_t \<times> cache) option" where
  "fa_victimize addr c ts =
     (let b = block_of c addr; r = lfsr_next (c_lfsr c); way = unat ((ucast r :: reg_t) mod c_ways c) in
      if of_nat (length ts) = c_ways c then
        (if c_ways c = 0 then None
         else Some (snd (ts ! way), c\<lparr>c_lfsr := r,
           c_tags := Full_assoc (map_put b (b OR VALID) (take way ts @ drop (Suc way) ts))\<rparr>))
      else Some (0, c\<lparr>c_tags := Full_assoc (map_put b (b OR VALID) ts)\<rparr>))"

definition victimize :: "reg_t \<Rightarrow> cache \<Rightarrow> (reg_t \<times> cache) option" where
  "victimize addr c = (case c_tags c of
     Set_assoc ts \<Rightarrow> sa_victimize addr c ts | Full_assoc ts \<Rightarrow> fa_victimize addr c ts)"

declare sa_victimize_def [simp] fa_victimize_def [simp]

section \<open>Accesses\<close>

text \<open>A request: address, bytes, and whether it is a store.\<close>

type_synonym request = "reg_t \<times> reg_t \<times> bool"

definition count_access :: "reg_t \<Rightarrow> bool \<Rightarrow> cache \<Rightarrow> cache" where
  "count_access bytes store c =
     (if store then c\<lparr>c_write_accesses := c_write_accesses c + 1, c_bytes_written := c_bytes_written c + bytes\<rparr>
      else c\<lparr>c_read_accesses := c_read_accesses c + 1, c_bytes_read := c_bytes_read c + bytes\<rparr>)"

definition count_miss :: "bool \<Rightarrow> cache \<Rightarrow> cache" where
  "count_miss store c =
     (if store then c\<lparr>c_write_misses := c_write_misses c + 1\<rparr> else c\<lparr>c_read_misses := c_read_misses c + 1\<rparr>)"

definition is_dirty :: "reg_t \<Rightarrow> bool" where
  "is_dirty tag \<longleftrightarrow> tag AND (VALID OR DIRTY) = (VALID OR DIRTY)"

definition writeback :: "cache \<Rightarrow> reg_t \<Rightarrow> request" where
  "writeback c victim = (shl (victim AND NOT (VALID OR DIRTY)) (c_idx_shift c), c_linesz c, True)"

definition access_cache :: "request \<Rightarrow> cache \<Rightarrow> (request list \<times> cache) result" where
  "access_cache q c =
     (let (addr, bytes, store) = q; c = count_access bytes store c in
      case check_tag c addr of
        Some p \<Rightarrow> Inr ([], if store then mark_dirty p c else c)
      | None \<Rightarrow>
          (case victimize addr (count_miss store c) of
             None \<Rightarrow> Inl Abort
           | Some (victim, c) \<Rightarrow>
               (let fill = (addr AND NOT (c_linesz c - 1), c_linesz c, False);
                    reqs = (if is_dirty victim then [writeback c victim, fill] else [fill]);
                    c = (if is_dirty victim then c\<lparr>c_writebacks := c_writebacks c + 1\<rparr> else c)
                in if store then
                     (case check_tag c addr of None \<Rightarrow> Inl Abort | Some p \<Rightarrow> Inr (reqs, mark_dirty p c))
                   else Inr (reqs, c))))"

text \<open>Accesses in sequence, with all requests to the next level.\<close>

fun accesses :: "request list \<Rightarrow> cache \<Rightarrow> (request list \<times> cache) result" where
  "accesses [] c = Inr ([], c)"
| "accesses (q # qs) c = (case access_cache q c of
     Inl e \<Rightarrow> Inl e
   | Inr (reqs, c) \<Rightarrow> map_sum id (\<lambda>(rs, c). (reqs @ rs, c)) (accesses qs c))"

text \<open>A cache and its miss handlers, the nearest first.\<close>

fun access_levels :: "request list \<Rightarrow> cache list \<Rightarrow> (request list \<times> cache list) result" where
  "access_levels qs [] = Inr (qs, [])"
| "access_levels qs (c # cs) = (case accesses qs c of
     Inl e \<Rightarrow> Inl e
   | Inr (rs, c) \<Rightarrow> map_sum id (\<lambda>(out, cs). (out, c # cs)) (access_levels rs cs))"

section \<open>Memory tracers\<close>

datatype tracer = I_tracer | D_tracer

definition interested_in_range :: "access_type \<Rightarrow> tracer \<Rightarrow> bool" where
  "interested_in_range type t = (case t of I_tracer \<Rightarrow> type = FETCH | D_tracer \<Rightarrow> type = LOAD \<or> type = STORE)"

definition list_interested :: "tracer list \<Rightarrow> access_type \<Rightarrow> bool" where
  "list_interested ts type = list_ex (interested_in_range type) ts"

text \<open>The caches of \<open>spike\<close>: both first-level caches miss to the same second level.\<close>

record caches =
  ic :: cache
  dc :: cache
  l2 :: "cache list"

definition through :: "request \<Rightarrow> cache \<Rightarrow> cache list \<Rightarrow> (cache \<times> cache list) result" where
  "through q c l = (case access_levels [q] (c # l) of Inl e \<Rightarrow> Inl e | Inr (out, cs) \<Rightarrow> Inr (hd cs, tl cs))"

definition trace_one :: "reg_t \<Rightarrow> reg_t \<Rightarrow> access_type \<Rightarrow> tracer \<Rightarrow> caches \<Rightarrow> caches result" where
  "trace_one addr bytes type t s = (case t of
     I_tracer \<Rightarrow> (if type = FETCH
       then map_sum id (\<lambda>(c, l). s\<lparr>ic := c, l2 := l\<rparr>) (through (addr, bytes, False) (ic s) (l2 s)) else Inr s)
   | D_tracer \<Rightarrow> (if type = LOAD \<or> type = STORE
       then map_sum id (\<lambda>(c, l). s\<lparr>dc := c, l2 := l\<rparr>) (through (addr, bytes, type = STORE) (dc s) (l2 s)) else Inr s))"

fun trace_list :: "reg_t \<Rightarrow> reg_t \<Rightarrow> access_type \<Rightarrow> tracer list \<Rightarrow> caches \<Rightarrow> caches result" where
  "trace_list addr bytes type [] s = Inr s"
| "trace_list addr bytes type (t # ts) s = (case trace_one addr bytes type t s of
     Inl e \<Rightarrow> Inl e | Inr s \<Rightarrow> trace_list addr bytes type ts s)"

end
