(* ===== verification/CacheLaws.thy ===== *)
theory CacheLaws
  imports CacheSim
begin

text \<open>
  Both kinds of caches implement the same directory of blocks, a map from block numbers to dirty
  bits.  What a directory guarantees its users is proved once, in the locale \<open>directory\<close>, which is
  interpreted for the set-associative and for the fully associative cache.
\<close>

section \<open>Tags\<close>

definition tag_block :: "reg_t \<Rightarrow> reg_t" where
  "tag_block t = t AND NOT (VALID OR DIRTY)"

lemma bit_flags [bit_simps]: "bit VALID i \<longleftrightarrow> i = 63" "bit DIRTY i \<longleftrightarrow> i = 62"
  unfolding VALID_def DIRTY_def bit_push_bit_iff by (auto simp: bit_1_iff)

lemma bit_high: "bit (a :: reg_t) i \<Longrightarrow> i < 64"
  by (auto dest: bit_imp_le_length)

lemma bit_tag_block [bit_simps]: "bit (tag_block t) i \<longleftrightarrow> i < 62 \<and> bit t i"
  using bit_high [of t i] by (auto simp: tag_block_def bit_simps)

text \<open>Block numbers leave the two flag bits free.\<close>

definition fits :: "nat \<Rightarrow> reg_t \<Rightarrow> bool" where
  "fits k b \<longleftrightarrow> shr (shl b k) k = b"

lemma fits_bits: "fits k b \<longleftrightarrow> (\<forall>i. bit b i \<longrightarrow> i + k < 64)"
proof -
  have up_down: "bit (shr (shl b k) k) i \<longleftrightarrow> i + k < 64 \<and> bit b i" for i
    by (auto simp: bit_drop_bit_eq bit_push_bit_iff add.commute)
  show ?thesis
  proof
    assume "fits k b"
    then have "shr (shl b k) k = b" by (simp only: fits_def)
    then show "\<forall>i. bit b i \<longrightarrow> i + k < 64" using up_down by metis
  next
    assume f: "\<forall>i. bit b i \<longrightarrow> i + k < 64"
    show "fits k b" unfolding fits_def by (rule bit_word_eqI) (use f up_down in blast)
  qed
qed

lemma fits_shr: "fits k (shr a k)"
  by (auto simp: fits_bits bit_simps add.commute dest: bit_high)

lemma valid_tag:
  assumes "3 \<le> k" "fits k b"
  shows "b OR VALID = t AND NOT DIRTY \<longleftrightarrow> bit t 63 \<and> tag_block t = b"
    "tag_block (b OR VALID) = b" "bit (b OR VALID) 63" "\<not> bit (b OR VALID) 62"
proof -
  have b: "bit b i \<Longrightarrow> i < 61" for i using assms by (auto simp: fits_bits)
  show "bit (b OR VALID) 63" by (simp add: bit_or_iff bit_flags)
  show "\<not> bit (b OR VALID) 62" using b [of 62] by (auto simp: bit_or_iff bit_flags)
  show "tag_block (b OR VALID) = b"
  proof (rule bit_word_eqI)
    fix i show "bit (tag_block (b OR VALID)) i = bit b i"
      using b [of i] by (auto simp: bit_tag_block bit_or_iff bit_flags)
  qed
  show "b OR VALID = t AND NOT DIRTY \<longleftrightarrow> bit t 63 \<and> tag_block t = b"
  proof
    assume "b OR VALID = t AND NOT DIRTY"
    then have "bit (b OR VALID) i = bit (t AND NOT DIRTY) i" for i by (simp only:)
    then have e: "bit b i \<or> i = 63 \<longleftrightarrow> bit t i \<and> i \<noteq> 62" if "i < 64" for i
      using that by (auto simp: bit_simps)
    have "bit (tag_block t) i = bit b i" if "i < 64" for i
      using e [OF that] b [of i] by (auto simp: bit_tag_block)
    then show "bit t 63 \<and> tag_block t = b" using e [of 63] by (auto intro: bit_word_eqI)
  next
    assume t: "bit t 63 \<and> tag_block t = b"
    then have bt: "bit b i \<longleftrightarrow> i < 62 \<and> bit t i" for i by (auto simp: bit_tag_block)
    show "b OR VALID = t AND NOT DIRTY"
    proof (rule bit_word_eqI)
      fix i assume "i < LENGTH(64)"
      then have "i < 62 \<or> i = 62 \<or> i = 63" by auto
      then show "bit (b OR VALID) i = bit (t AND NOT DIRTY) i"
        using t bt [of i] by (auto simp: bit_simps)
    qed
  qed
qed

lemma dirty_tag: "tag_block (t OR DIRTY) = tag_block t" "bit (t OR DIRTY) 62" "bit (t OR DIRTY) 63 = bit t 63"
proof -
  show "tag_block (t OR DIRTY) = tag_block t"
    by (rule bit_word_eqI) (auto simp: bit_tag_block bit_or_iff bit_flags)
  show "bit (t OR DIRTY) 62" "bit (t OR DIRTY) 63 = bit t 63"
    by (simp_all add: bit_or_iff bit_flags)
qed

lemma is_dirty_bits: "is_dirty t \<longleftrightarrow> bit t 63 \<and> bit t 62"
proof
  assume "is_dirty t"
  then have "bit (t AND (VALID OR DIRTY)) i = bit (VALID OR DIRTY) i" for i by (simp add: is_dirty_def)
  from this [of 62] this [of 63] show "bit t 63 \<and> bit t 62" by (auto simp: bit_simps)
next
  assume "bit t 63 \<and> bit t 62"
  then show "is_dirty t" unfolding is_dirty_def by (intro bit_word_eqI) (auto simp: bit_simps)
qed

section \<open>Lists of tags\<close>

text \<open>The dirty bit of a block, if a valid tag of the list has it.\<close>

definition look :: "reg_t list \<Rightarrow> reg_t \<Rightarrow> bool option" where
  "look ts b = map_option (\<lambda>t. bit t 62) (find (\<lambda>t. bit t 63 \<and> tag_block t = b) ts)"

definition unique :: "reg_t list \<Rightarrow> bool" where
  "unique ts \<longleftrightarrow> (\<forall>p < length ts. \<forall>q < length ts. bit (ts ! p) 63 \<longrightarrow> bit (ts ! q) 63 \<longrightarrow>
     tag_block (ts ! p) = tag_block (ts ! q) \<longrightarrow> p = q)"

lemma look_None: "look ts b = None \<longleftrightarrow> (\<forall>p < length ts. \<not> (bit (ts ! p) 63 \<and> tag_block (ts ! p) = b))"
  by (auto simp: look_def find_None_iff in_set_conv_nth)

lemma look_Some:
  assumes "unique ts"
  shows "look ts b = Some d \<longleftrightarrow> (\<exists>p < length ts. bit (ts ! p) 63 \<and> tag_block (ts ! p) = b \<and> bit (ts ! p) 62 = d)"
proof
  assume "look ts b = Some d"
  then show "\<exists>p < length ts. bit (ts ! p) 63 \<and> tag_block (ts ! p) = b \<and> bit (ts ! p) 62 = d"
    by (auto simp: look_def find_Some_iff)
next
  assume "\<exists>p < length ts. bit (ts ! p) 63 \<and> tag_block (ts ! p) = b \<and> bit (ts ! p) 62 = d"
  then obtain p where p: "p < length ts" "bit (ts ! p) 63" "tag_block (ts ! p) = b" "bit (ts ! p) 62 = d" by blast
  have "\<not> (bit (ts ! q) 63 \<and> tag_block (ts ! q) = b)" if "q < p" for q
    using assms [unfolded unique_def, rule_format, of q p] that p(1-3) by auto
  then have "find (\<lambda>t. bit t 63 \<and> tag_block t = b) ts = Some (ts ! p)"
    unfolding find_Some_iff using p(1-3) by blast
  then show "look ts b = Some d" using p(4) by (simp add: look_def)
qed

lemma look_update:
  assumes "unique ts" "p < length ts" "bit v 63"
    and "\<And>q. q < length ts \<Longrightarrow> q \<noteq> p \<Longrightarrow> bit (ts ! q) 63 \<Longrightarrow> tag_block (ts ! q) \<noteq> tag_block v"
  shows "unique (ts[p := v])"
    "look (ts[p := v]) = (if bit (ts ! p) 63 then (look ts)(tag_block (ts ! p) := None) else look ts)(tag_block v \<mapsto> bit v 62)"
proof -
  show u: "unique (ts[p := v])"
    unfolding unique_def
  proof (intro allI impI)
    fix i j assume "i < length (ts[p := v])" "j < length (ts[p := v])" "bit (ts[p := v] ! i) 63" "bit (ts[p := v] ! j) 63"
      "tag_block (ts[p := v] ! i) = tag_block (ts[p := v] ! j)"
    then show "i = j"
      using assms(1) assms(4) [of i] assms(4) [of j] assms(2)
      by (cases "i = p"; cases "j = p") (auto simp: unique_def)
  qed
  show "look (ts[p := v]) = (if bit (ts ! p) 63 then (look ts)(tag_block (ts ! p) := None) else look ts)(tag_block v \<mapsto> bit v 62)"
    (is "_ = ?D")
  proof
    fix b
    show "look (ts[p := v]) b = ?D b"
    proof (cases "b = tag_block v")
      case True
      then show ?thesis using assms(2,3) by (auto simp: look_Some [OF u] nth_list_update)
    next
      case new: False
      show ?thesis
      proof (cases "bit (ts ! p) 63 \<and> tag_block (ts ! p) = b")
        case True
        then have "look (ts[p := v]) b = None"
          using new assms(1,2) unfolding look_None unique_def by (auto simp: nth_list_update)
        then show ?thesis using True new by simp
      next
        case False
        then have D: "?D b = look ts b" using new by auto
        show ?thesis
        proof (cases "look ts b")
          case None
          then have "look (ts[p := v]) b = None"
            using new unfolding look_None by (metis length_list_update nth_list_update_eq nth_list_update_neq)
          then show ?thesis using D None by simp
        next
          case (Some d)
          then obtain q where q: "q < length ts" "bit (ts ! q) 63" "tag_block (ts ! q) = b" "bit (ts ! q) 62 = d"
            unfolding look_Some [OF assms(1)] by blast
          with False have "ts[p := v] ! q = ts ! q" by (metis nth_list_update_neq)
          then have "look (ts[p := v]) b = Some d"
            unfolding look_Some [OF u] using q by (intro exI [of _ q]) simp
          then show ?thesis using D Some by simp
        qed
      qed
    qed
  qed
qed

section \<open>Directories\<close>

text \<open>
  The contract of a directory: its contents are a map from the blocks it holds to their dirty bits.
  \<open>check_tag\<close> finds exactly the blocks held, marking sets the dirty bit of the block found, and
  \<open>victimize\<close> makes room, if it must, by dropping one block, whose tag it returns, and takes the new
  block in, clean.  Counting does not matter.
\<close>

definition same_geometry :: "cache \<Rightarrow> cache \<Rightarrow> bool" where
  "same_geometry c d \<longleftrightarrow> c_sets c = c_sets d \<and> c_ways c = c_ways d \<and> c_linesz c = c_linesz d \<and>
     c_idx_shift c = c_idx_shift d"

definition same_counts :: "cache \<Rightarrow> cache \<Rightarrow> bool" where
  "same_counts c d \<longleftrightarrow> c_read_accesses c = c_read_accesses d \<and> c_read_misses c = c_read_misses d \<and>
     c_bytes_read c = c_bytes_read d \<and> c_write_accesses c = c_write_accesses d \<and>
     c_write_misses c = c_write_misses d \<and> c_bytes_written c = c_bytes_written d \<and> c_writebacks c = c_writebacks d"

text \<open>What becomes of the contents \<open>D\<close> when a tag \<open>v\<close> is dropped.\<close>

definition dropped :: "reg_t \<Rightarrow> (reg_t \<Rightarrow> bool option) \<Rightarrow> (reg_t \<Rightarrow> bool option) \<Rightarrow> bool" where
  "dropped v D D' \<longleftrightarrow> (if bit v 63 then D (tag_block v) = Some (bit v 62) \<and> D' = D(tag_block v := None) else D' = D)"

locale directory =
  fixes ok :: "cache \<Rightarrow> bool" and contents :: "cache \<Rightarrow> reg_t \<Rightarrow> bool option"
  assumes ok_line: "ok c \<Longrightarrow> c_linesz c = shl 1 (c_idx_shift c) \<and> c_idx_shift c < 64"
    and ok_fits: "ok c \<Longrightarrow> contents c b = Some d \<Longrightarrow> fits (c_idx_shift c) b"
    and ok_counts: "ok c \<Longrightarrow> same_geometry c c' \<Longrightarrow> c_tags c' = c_tags c \<Longrightarrow> ok c' \<and> contents c' = contents c"
    and miss: "ok c \<Longrightarrow> check_tag c a = None \<longleftrightarrow> contents c (block_of c a) = None"
    and mark: "ok c \<Longrightarrow> check_tag c a = Some p \<Longrightarrow>
      ok (mark_dirty p c) \<and> contents (mark_dirty p c) = (contents c)(block_of c a \<mapsto> True)"
    and fill: "ok c \<Longrightarrow> check_tag c a = None \<Longrightarrow> \<exists>v c' D. victimize a c = Some (v, c') \<and> ok c' \<and>
      same_geometry c c' \<and> same_counts c c' \<and> dropped v (contents c) D \<and> contents c' = D(block_of c a \<mapsto> False)"

text \<open>
  The specification of an access: what it does to the contents, and what it asks of the next level.
  A hit asks nothing.  A miss may drop a block, which is written back when it is dirty, and fetches
  the line.
\<close>

definition access_spec :: "nat \<Rightarrow> reg_t \<Rightarrow> request \<Rightarrow> (reg_t \<Rightarrow> bool option) \<Rightarrow> request list \<Rightarrow> (reg_t \<Rightarrow> bool option) \<Rightarrow> bool" where
  "access_spec k line q D reqs D' \<longleftrightarrow>
     (let (addr, bytes, store) = q; b = shr addr k; fetch = (shl b k, line, False) in
      case D b of
        Some d \<Rightarrow> reqs = [] \<and> D' = D(b \<mapsto> d \<or> store)
      | None \<Rightarrow> reqs = [fetch] \<and> D' = D(b \<mapsto> store) \<or>
          (\<exists>u d. D u = Some d \<and> reqs = (if d then [(shl u k, line, True), fetch] else [fetch]) \<and>
            D' = (D(u := None))(b \<mapsto> store)))"

text \<open>The counters: accesses and bytes by kind, misses by kind, and the requests that are stores.\<close>

definition counted :: "request \<Rightarrow> request list \<Rightarrow> cache \<Rightarrow> cache \<Rightarrow> bool" where
  "counted q reqs c c' \<longleftrightarrow> (let (addr, bytes, store) = q in
     c_read_accesses c' = c_read_accesses c + of_bool (\<not> store) \<and>
     c_write_accesses c' = c_write_accesses c + of_bool store \<and>
     c_bytes_read c' = c_bytes_read c + (if store then 0 else bytes) \<and>
     c_bytes_written c' = c_bytes_written c + (if store then bytes else 0) \<and>
     c_read_misses c' = c_read_misses c + of_bool (reqs \<noteq> [] \<and> \<not> store) \<and>
     c_write_misses c' = c_write_misses c + of_bool (reqs \<noteq> [] \<and> store) \<and>
     c_writebacks c' = c_writebacks c + of_nat (length (filter (\<lambda>(a, n, w). w) reqs)))"

lemma line_of:
  assumes "k < 64"
  shows "a AND NOT (shl 1 k - 1) = (shl (shr a k) k :: reg_t)"
proof -
  have "(shl 1 k - 1 :: reg_t) = mask k" by (simp add: mask_eq_exp_minus_1 push_bit_eq_mult)
  then show ?thesis by (intro bit_word_eqI) (auto simp: bit_simps not_less)
qed

lemma spec_miss:
  assumes "D (shr addr k) = None" "dropped v D D'"
  shows "access_spec k line (addr, bytes, store) D
    (if is_dirty v then [(shl (tag_block v) k, line, True), (shl (shr addr k) k, line, False)]
     else [(shl (shr addr k) k, line, False)]) (D'(shr addr k \<mapsto> store))"
proof (cases "bit v 63")
  case False
  then show ?thesis using assms by (simp add: access_spec_def dropped_def is_dirty_bits Let_def)
next
  case True
  then have "D (tag_block v) = Some (is_dirty v)" "D' = D(tag_block v := None)"
    using assms(2) by (simp_all add: dropped_def is_dirty_bits)
  then show ?thesis using assms(1) unfolding access_spec_def Let_def prod.case
    by (simp only: option.case) blast
qed

context directory
begin

lemma access_ok:
  assumes "ok c"
  shows "\<exists>reqs c'. access_cache q c = Inr (reqs, c') \<and> ok c' \<and> same_geometry c c' \<and> counted q reqs c c' \<and>
    access_spec (c_idx_shift c) (c_linesz c) q (contents c) reqs (contents c')"
proof -
  obtain addr bytes store where q: "q = (addr, bytes, store)" by (cases q)
  let ?c = "count_access bytes store c" and ?b = "shr addr (c_idx_shift c)"
  have g: "same_geometry c ?c" "c_tags ?c = c_tags c" by (simp_all add: same_geometry_def count_access_def)
  note c = ok_counts [OF assms this]
  have b: "block_of ?c addr = ?b" using g(1) by (simp add: block_of_def same_geometry_def)
  show ?thesis
  proof (cases "check_tag ?c addr")
    case (Some p)
    then obtain d where d: "contents c ?b = Some d" using miss [of ?c addr] c b by auto
    let ?c' = "if store then mark_dirty p ?c else ?c"
    have "access_cache q c = Inr ([], ?c')" by (simp add: access_cache_def q Some Let_def)
    moreover have "ok ?c'" "contents ?c' = (contents c)(?b \<mapsto> d \<or> store)"
      using c mark [OF _ Some] b d by (auto simp: fun_upd_idem)
    moreover have "same_geometry c ?c'" "counted q [] c ?c'"
      by (simp_all add: same_geometry_def counted_def q mark_dirty_def count_access_def)
    ultimately show ?thesis using d by (intro exI [of _ "[]"] exI [of _ ?c']) (simp add: access_spec_def q Let_def)
  next
    case None
    then have new: "contents c ?b = None" using miss [of ?c addr] c b by simp
    let ?m = "count_miss store ?c"
    have gm: "same_geometry ?c ?m" "c_tags ?m = c_tags ?c" by (simp_all add: same_geometry_def count_miss_def)
    have m: "ok ?m \<and> contents ?m = contents c" using ok_counts [OF _ gm] c by simp
    have none: "check_tag ?m addr = None" using miss [of ?m addr] m new g(1) gm(1) by (simp add: block_of_def same_geometry_def)
    from fill [OF conjunct1 [OF m] none] obtain v c1 D where
      v: "victimize addr ?m = Some (v, c1)" "ok c1" "same_geometry ?m c1" "same_counts ?m c1"
        "dropped v (contents c) D" "contents c1 = D(?b \<mapsto> False)"
      using m g(1) gm(1) by (auto simp: block_of_def same_geometry_def)
    let ?fill = "(addr AND NOT (c_linesz c1 - 1), c_linesz c1, False)"
    let ?reqs = "if is_dirty v then [writeback c1 v, ?fill] else [?fill]"
    let ?w = "if is_dirty v then c1\<lparr>c_writebacks := c_writebacks c1 + 1\<rparr> else c1"
    have gw: "same_geometry c1 ?w" "c_tags ?w = c_tags c1" by (simp_all add: same_geometry_def)
    have w: "ok ?w" "contents ?w = D(?b \<mapsto> False)" using ok_counts [OF v(2) gw] v(6) by simp_all
    have geo: "same_geometry c ?w" using g gm v(3) gw by (simp add: same_geometry_def)
    then have bw: "block_of ?w addr = ?b" by (simp add: block_of_def same_geometry_def)
    then obtain p where p: "check_tag ?w addr = Some p" using miss [OF w(1), of addr] w(2) by (cases "check_tag ?w addr") auto
    let ?c' = "if store then mark_dirty p ?w else ?w"
    have "access_cache q c = Inr (?reqs, ?c')"
      unfolding access_cache_def q Let_def prod.case None option.case v(1) p by simp
    moreover have c': "ok ?c'" "contents ?c' = D(?b \<mapsto> store)"
      using w mark [OF w(1) p] bw by auto
    moreover have "same_geometry c ?c'" using geo by (simp add: same_geometry_def mark_dirty_def)
    moreover have "counted q ?reqs c ?c'"
      using v(4) by (auto simp: counted_def q mark_dirty_def same_counts_def writeback_def count_miss_def count_access_def)
    moreover have "access_spec (c_idx_shift c) (c_linesz c) q (contents c) ?reqs (contents ?c')"
    proof -
      have c1: "c_linesz c1 = c_linesz c" "c_idx_shift c1 = c_idx_shift c"
        using g(1) gm(1) v(3) by (simp_all add: same_geometry_def)
      have "addr AND NOT (c_linesz c - 1) = shl ?b (c_idx_shift c)"
        using ok_line [OF assms] line_of [of "c_idx_shift c" addr] by metis
      then have f: "?fill = (shl ?b (c_idx_shift c), c_linesz c, False)" by (simp only: c1)
      have wb: "writeback c1 v = (shl (tag_block v) (c_idx_shift c), c_linesz c, True)"
        by (simp add: writeback_def tag_block_def c1)
      show ?thesis unfolding q c'(2) f wb by (rule spec_miss [OF new v(5)])
    qed
    ultimately show ?thesis by blast
  qed
qed

end

text \<open>A run, with what each access has asked of the next level.\<close>

fun run_log :: "request list \<Rightarrow> cache \<Rightarrow> ((request \<times> request list) list \<times> cache) result" where
  "run_log [] c = Inr ([], c)"
| "run_log (q # qs) c = (case access_cache q c of
     Inl e \<Rightarrow> Inl e
   | Inr (reqs, c) \<Rightarrow> map_sum id (\<lambda>(log, c). ((q, reqs) # log, c)) (run_log qs c))"

lemma accesses_log: "accesses qs c = map_sum id (\<lambda>(log, c). (concat (map snd log), c)) (run_log qs c)"
proof (induction qs arbitrary: c)
  case (Cons q qs)
  show ?case
  proof (cases "access_cache q c")
    case (Inr a)
    obtain reqs d where a: "a = (reqs, d)" by (cases a)
    show ?thesis using Inr Cons.IH [of d] by (cases "run_log qs d") (auto simp: a)
  qed simp
qed simp

text \<open>The block has a store that has not been written back since.\<close>

definition unsaved_step :: "nat \<Rightarrow> reg_t \<Rightarrow> bool \<Rightarrow> request \<times> request list \<Rightarrow> bool" where
  "unsaved_step k b d = (\<lambda>((addr, bytes, store), reqs).
     store \<and> shr addr k = b \<or> d \<and> \<not> list_ex (\<lambda>(a, n, w). w \<and> shr a k = b) reqs)"

definition unsaved :: "nat \<Rightarrow> (request \<times> request list) list \<Rightarrow> reg_t \<Rightarrow> bool" where
  "unsaved k log b = foldl (unsaved_step k b) False log"

abbreviation stores_of :: "request list \<Rightarrow> request list" where
  "stores_of qs \<equiv> filter (\<lambda>(a, n, w). w) qs"

abbreviation loads_of :: "request list \<Rightarrow> request list" where
  "loads_of qs \<equiv> filter (\<lambda>(a, n, w). \<not> w) qs"

lemma spec_unsaved:
  assumes "access_spec k line q D reqs D'" "\<And>b d. D b = Some d \<Longrightarrow> fits k b"
  shows "D' b = Some True \<longleftrightarrow> unsaved_step k b (D b = Some True) (q, reqs)"
proof -
  obtain addr bytes store where q: "q = (addr, bytes, store)" by (cases q)
  let ?b = "shr addr k"
  show ?thesis
  proof (cases "D ?b")
    case (Some d)
    then show ?thesis using assms(1) by (auto simp: access_spec_def q unsaved_step_def Let_def)
  next
    case None
    note spec = assms(1) [unfolded access_spec_def q Let_def prod.case None option.case]
    show ?thesis
    proof (cases "reqs = [(shl ?b k, line, False)] \<and> D' = D(?b \<mapsto> store)")
      case True
      then show ?thesis using None by (auto simp: unsaved_step_def q)
    next
      case False
      then obtain u d where u: "D u = Some d" "D' = (D(u := None))(?b \<mapsto> store)"
        "reqs = (if d then [(shl u k, line, True), (shl ?b k, line, False)] else [(shl ?b k, line, False)])"
        using spec by blast
      have "shr (shl u k) k = u" using assms(2) [OF u(1)] by (simp add: fits_def)
      then show ?thesis using u None by (cases d) (auto simp: unsaved_step_def q)
    qed
  qed
qed

lemma spec_fetches:
  assumes "access_spec k line q D reqs D'"
  shows "length (loads_of reqs) = of_bool (reqs \<noteq> [])"
  using assms unfolding access_spec_def Let_def by (auto split: prod.splits option.splits if_splits)

context directory
begin

lemma run_ok:
  assumes "ok c"
  shows "\<exists>log c'. run_log qs c = Inr (log, c') \<and> ok c' \<and> same_geometry c c' \<and> map fst log = qs \<and>
    (\<forall>b. contents c' b = Some True \<longleftrightarrow> foldl (unsaved_step (c_idx_shift c) b) (contents c b = Some True) log) \<and>
    c_read_accesses c' = c_read_accesses c + of_nat (length (loads_of qs)) \<and>
    c_write_accesses c' = c_write_accesses c + of_nat (length (stores_of qs)) \<and>
    c_read_misses c' + c_write_misses c' = c_read_misses c + c_write_misses c + of_nat (length (loads_of (concat (map snd log)))) \<and>
    c_writebacks c' = c_writebacks c + of_nat (length (stores_of (concat (map snd log))))"
  using assms
proof (induction qs arbitrary: c)
  case Nil
  then show ?case by (simp add: same_geometry_def)
next
  case (Cons q qs)
  obtain reqs c1 where a: "access_cache q c = Inr (reqs, c1)" "ok c1" "same_geometry c c1" "counted q reqs c c1"
    "access_spec (c_idx_shift c) (c_linesz c) q (contents c) reqs (contents c1)"
    using access_ok [OF Cons.prems, of q] by blast
  obtain log c2 where IH: "run_log qs c1 = Inr (log, c2)" "ok c2" "same_geometry c1 c2" "map fst log = qs"
    "\<forall>b. contents c2 b = Some True \<longleftrightarrow> foldl (unsaved_step (c_idx_shift c1) b) (contents c1 b = Some True) log"
    "c_read_accesses c2 = c_read_accesses c1 + of_nat (length (loads_of qs))"
    "c_write_accesses c2 = c_write_accesses c1 + of_nat (length (stores_of qs))"
    "c_read_misses c2 + c_write_misses c2 = c_read_misses c1 + c_write_misses c1 + of_nat (length (loads_of (concat (map snd log))))"
    "c_writebacks c2 = c_writebacks c1 + of_nat (length (stores_of (concat (map snd log))))"
    using Cons.IH [OF a(2)] by blast
  have k: "c_idx_shift c1 = c_idx_shift c" using a(3) by (simp add: same_geometry_def)
  have "contents c1 b = Some True \<longleftrightarrow> unsaved_step (c_idx_shift c) b (contents c b = Some True) (q, reqs)" for b
    by (rule spec_unsaved [OF a(5)]) (rule ok_fits [OF Cons.prems])
  then have "\<forall>b. contents c2 b = Some True \<longleftrightarrow>
      foldl (unsaved_step (c_idx_shift c) b) (contents c b = Some True) ((q, reqs) # log)"
    using IH(5) k by simp
  moreover have "same_geometry c c2" using a(3) IH(3) by (simp add: same_geometry_def)
  moreover have "run_log (q # qs) c = Inr ((q, reqs) # log, c2)" by (simp add: a(1) IH(1))
  moreover obtain addr bytes store where q: "q = (addr, bytes, store)" by (cases q)
  have "c_read_misses c1 + c_write_misses c1 = c_read_misses c + c_write_misses c + of_nat (length (loads_of reqs))"
    using a(4) unfolding spec_fetches [OF a(5)] by (auto simp: counted_def q)
  moreover have "c_read_accesses c1 = c_read_accesses c + of_nat (length (loads_of [q]))"
    "c_write_accesses c1 = c_write_accesses c + of_nat (length (stores_of [q]))"
    "c_writebacks c1 = c_writebacks c + of_nat (length (stores_of reqs))"
    using a(4) by (auto simp: counted_def q)
  ultimately show ?case using IH by (intro exI [of _ "(q, reqs) # log"] exI [of _ c2]) (simp add: algebra_simps)
qed

end

section \<open>The two kinds of caches\<close>

definition tags_of :: "cache \<Rightarrow> reg_t list" where
  "tags_of c = (case c_tags c of Set_assoc ts \<Rightarrow> ts | Full_assoc ts \<Rightarrow> map snd ts)"

text \<open>The blocks a cache holds, with their dirty bits.\<close>

definition cached :: "cache \<Rightarrow> reg_t \<Rightarrow> bool option" where
  "cached c = look (tags_of c)"

definition geometry_ok :: "cache \<Rightarrow> bool" where
  "geometry_ok c \<longleftrightarrow> 3 \<le> c_idx_shift c \<and> c_idx_shift c < 64 \<and> c_linesz c = shl 1 (c_idx_shift c) \<and>
     c_ways c \<noteq> 0 \<and> c_sets c \<noteq> 0"

text \<open>Set-associative: every valid tag is in the set of its block, and no block is there twice.\<close>

definition placed :: "cache \<Rightarrow> nat \<Rightarrow> reg_t \<Rightarrow> bool" where
  "placed c p t \<longleftrightarrow> (bit t 63 \<longrightarrow> fits (c_idx_shift c) (tag_block t) \<and>
     unat (tag_block t AND (c_sets c - 1)) = p div unat (c_ways c))"

definition sa_ok :: "cache \<Rightarrow> bool" where
  "sa_ok c \<longleftrightarrow> geometry_ok c \<and> (\<exists>ts. c_tags c = Set_assoc ts \<and> length ts = unat (c_sets c) * unat (c_ways c) \<and>
     unique ts \<and> (\<forall>p < length ts. placed c p (ts ! p)))"

lemma sa_okD:
  assumes "sa_ok c"
  obtains ts where "c_tags c = Set_assoc ts" "cached c = look ts" "length ts = unat (c_sets c) * unat (c_ways c)"
    "unique ts" "\<forall>p < length ts. placed c p (ts ! p)" "geometry_ok c"
  using assms by (auto simp: sa_ok_def cached_def tags_of_def)

lemma way_in_array:
  assumes "geometry_ok c" "i < unat (c_ways c)"
  shows "set_start c a + i < unat (c_sets c) * unat (c_ways c)"
    "(set_start c a + i) div unat (c_ways c) = unat (block_of c a AND (c_sets c - 1))"
proof -
  let ?n = "unat (block_of c a AND (c_sets c - 1))"
  have "c_sets c \<noteq> 0" using assms(1) by (simp add: geometry_ok_def)
  then have "unat (c_sets c - 1) < unat (c_sets c)" by (simp add: unat_minus_one unat_gt_0)
  moreover have "?n \<le> unat (c_sets c - 1)" using word_and_le1 by (simp add: word_le_nat_alt [symmetric])
  ultimately have n: "?n < unat (c_sets c)" by simp
  then have "(?n + 1) * unat (c_ways c) \<le> unat (c_sets c) * unat (c_ways c)" by (intro mult_le_mono1) simp
  then show "set_start c a + i < unat (c_sets c) * unat (c_ways c)" using assms(2) by (simp add: set_start_def)
  show "(set_start c a + i) div unat (c_ways c) = ?n" using assms(2) by (simp add: set_start_def)
qed

lemma sa_check:
  assumes "sa_ok c" "c_tags c = Set_assoc ts"
  shows "check_tag c a = find (\<lambda>p. bit (ts ! p) 63 \<and> tag_block (ts ! p) = block_of c a)
    (map (\<lambda>i. set_start c a + i) [0..<unat (c_ways c)])"
proof -
  have "3 \<le> c_idx_shift c" "fits (c_idx_shift c) (block_of c a)"
    using assms(1) by (simp_all add: sa_ok_def geometry_ok_def block_of_def fits_shr)
  from valid_tag(1) [OF this] show ?thesis by (simp add: check_tag_def assms(2))
qed

text \<open>A block that is anywhere in the array is in its set.\<close>

lemma sa_home:
  assumes "placed c p (ts ! p)" "geometry_ok c" "bit (ts ! p) 63" "tag_block (ts ! p) = block_of c a"
  shows "\<exists>i < unat (c_ways c). p = set_start c a + i"
proof -
  have "p div unat (c_ways c) = unat (block_of c a AND (c_sets c - 1))"
    using assms(1,3,4) by (simp add: placed_def)
  then have "p = set_start c a + p mod unat (c_ways c)"
    using div_mult_mod_eq [of p "unat (c_ways c)"] by (simp add: set_start_def)
  moreover have "0 < unat (c_ways c)" using assms(2) by (simp add: geometry_ok_def unat_gt_0)
  ultimately show ?thesis by (metis mod_less_divisor)
qed

lemma sa_miss:
  assumes "sa_ok c"
  shows "check_tag c a = None \<longleftrightarrow> cached c (block_of c a) = None"
proof -
  obtain ts where ts: "c_tags c = Set_assoc ts" "cached c = look ts" "length ts = unat (c_sets c) * unat (c_ways c)"
    "unique ts" "\<forall>p < length ts. placed c p (ts ! p)" "geometry_ok c" using assms by (rule sa_okD)
  let ?P = "\<lambda>p. bit (ts ! p) 63 \<and> tag_block (ts ! p) = block_of c a"
  have "(\<exists>i < unat (c_ways c). ?P (set_start c a + i)) \<longleftrightarrow> (\<exists>p < length ts. ?P p)"
  proof
    assume "\<exists>i < unat (c_ways c). ?P (set_start c a + i)"
    then show "\<exists>p < length ts. ?P p" using way_in_array(1) [OF ts(6), of _ a] ts(3) by metis
  next
    assume "\<exists>p < length ts. ?P p"
    then obtain p where p: "p < length ts" "?P p" by blast
    from sa_home [OF _ ts(6), of p ts a] ts(5) p show "\<exists>i < unat (c_ways c). ?P (set_start c a + i)" by blast
  qed
  moreover have "(\<exists>x. x \<in> set (map (\<lambda>i. set_start c a + i) [0..<unat (c_ways c)]) \<and> ?P x) \<longleftrightarrow>
      (\<exists>i < unat (c_ways c). ?P (set_start c a + i))"
    unfolding set_map set_upt image_iff Bex_def atLeastLessThan_iff by (metis le0)
  ultimately show ?thesis unfolding sa_check [OF assms ts(1)] ts(2) look_None find_None_iff by blast
qed

lemma sa_put:
  assumes "sa_ok c" "c_tags c = Set_assoc ts" "p < length ts" "bit v 63" "placed c p v"
    and "\<And>q. q < length ts \<Longrightarrow> q \<noteq> p \<Longrightarrow> bit (ts ! q) 63 \<Longrightarrow> tag_block (ts ! q) \<noteq> tag_block v"
  shows "sa_ok (c\<lparr>c_lfsr := r, c_tags := Set_assoc (ts[p := v])\<rparr>)"
    "cached (c\<lparr>c_lfsr := r, c_tags := Set_assoc (ts[p := v])\<rparr>) =
      (if bit (ts ! p) 63 then (cached c)(tag_block (ts ! p) := None) else cached c)(tag_block v \<mapsto> bit v 62)"
proof -
  have ts: "cached c = look ts" "length ts = unat (c_sets c) * unat (c_ways c)" "unique ts"
    "\<forall>p < length ts. placed c p (ts ! p)" "geometry_ok c"
    using assms(1,2) by (auto simp: sa_ok_def cached_def tags_of_def)
  note upd = look_update [OF ts(3) assms(3,4,6)]
  show "sa_ok (c\<lparr>c_lfsr := r, c_tags := Set_assoc (ts[p := v])\<rparr>)"
    using ts upd(1) assms(3,5) by (auto simp: sa_ok_def geometry_ok_def placed_def nth_list_update)
  show "cached (c\<lparr>c_lfsr := r, c_tags := Set_assoc (ts[p := v])\<rparr>) =
      (if bit (ts ! p) 63 then (cached c)(tag_block (ts ! p) := None) else cached c)(tag_block v \<mapsto> bit v 62)"
    using upd(2) ts(1) by (simp add: cached_def tags_of_def)
qed

lemma sa_mark:
  assumes "sa_ok c" "check_tag c a = Some p"
  shows "sa_ok (mark_dirty p c) \<and> cached (mark_dirty p c) = (cached c)(block_of c a \<mapsto> True)"
proof -
  obtain ts where ts: "c_tags c = Set_assoc ts" "length ts = unat (c_sets c) * unat (c_ways c)" "unique ts"
    "\<forall>p < length ts. placed c p (ts ! p)" "geometry_ok c" by (rule sa_okD [OF assms(1)]) blast
  obtain i where i: "p = set_start c a + i" "i < unat (c_ways c)" "bit (ts ! p) 63" "tag_block (ts ! p) = block_of c a"
    using assms(2) unfolding sa_check [OF assms(1) ts(1)] find_Some_iff by auto
  have p: "p < length ts" using way_in_array(1) [OF ts(5) i(2), of a] ts(2) i(1) by simp
  let ?v = "ts ! p OR DIRTY"
  have m: "mark_dirty p c = c\<lparr>c_lfsr := c_lfsr c, c_tags := Set_assoc (ts[p := ?v])\<rparr>"
    by (simp add: mark_dirty_def ts(1) tag_at_def put_tag_def)
  have v: "bit ?v 63" "placed c p ?v" "tag_block ?v = block_of c a" "bit ?v 62"
    using i(3,4) ts(4) [rule_format, OF p] by (simp_all add: dirty_tag placed_def)
  have "tag_block (ts ! q) \<noteq> tag_block ?v" if "q < length ts" "q \<noteq> p" "bit (ts ! q) 63" for q
    using that ts(3) p i(3) unfolding unique_def dirty_tag by blast
  from sa_put [OF assms(1) ts(1) p v(1,2) this, of "c_lfsr c"] show ?thesis
    unfolding m by (simp add: v(3,4) i(3,4))
qed

lemma sa_fill:
  assumes "sa_ok c" "check_tag c a = None"
  shows "\<exists>v c' D. victimize a c = Some (v, c') \<and> sa_ok c' \<and> same_geometry c c' \<and> same_counts c c' \<and>
    dropped v (cached c) D \<and> cached c' = D(block_of c a \<mapsto> False)"
proof -
  obtain ts where ts: "c_tags c = Set_assoc ts" "cached c = look ts" "length ts = unat (c_sets c) * unat (c_ways c)"
    "unique ts" "\<forall>p < length ts. placed c p (ts ! p)" "geometry_ok c" using assms(1) by (rule sa_okD)
  let ?r = "lfsr_next (c_lfsr c)" and ?b = "block_of c a"
  let ?way = "unat ((ucast ?r :: reg_t) mod c_ways c)"
  let ?p = "set_start c a + ?way" and ?v = "?b OR VALID"
  have ways: "c_ways c \<noteq> 0" and k: "3 \<le> c_idx_shift c" using ts(6) by (simp_all add: geometry_ok_def)
  then have "?way < unat (c_ways c)" by (simp add: unat_mod unat_gt_0)
  note way = way_in_array [OF ts(6) this, of a]
  have fit: "fits (c_idx_shift c) ?b" by (simp add: block_of_def fits_shr)
  note v = valid_tag(2-4) [OF k fit]
  have new: "cached c ?b = None" using sa_miss [OF assms(1)] assms(2) by blast
  have "placed c ?p ?v" using fit way(2) by (simp add: placed_def v)
  moreover have "tag_block (ts ! q) \<noteq> tag_block ?v" if "q < length ts" "bit (ts ! q) 63" for q
    using new that unfolding ts(2) look_None v by blast
  ultimately have put: "sa_ok (c\<lparr>c_lfsr := ?r, c_tags := Set_assoc (ts[?p := ?v])\<rparr>)"
    "cached (c\<lparr>c_lfsr := ?r, c_tags := Set_assoc (ts[?p := ?v])\<rparr>) =
      (if bit (ts ! ?p) 63 then (cached c)(tag_block (ts ! ?p) := None) else cached c)(?b \<mapsto> False)"
    using sa_put [OF assms(1) ts(1) _ v(2), of ?p ?r] way(1) ts(3) v by auto
  have "dropped (ts ! ?p) (cached c)
      (if bit (ts ! ?p) 63 then (cached c)(tag_block (ts ! ?p) := None) else cached c)"
    using look_Some [OF ts(4)] way(1) ts(2,3) by (auto simp: dropped_def)
  moreover have "victimize a c = Some (ts ! ?p, c\<lparr>c_lfsr := ?r, c_tags := Set_assoc (ts[?p := ?v])\<rparr>)"
    using ways by (simp add: victimize_def ts(1) Let_def)
  moreover have "same_geometry c (c\<lparr>c_lfsr := ?r, c_tags := Set_assoc (ts[?p := ?v])\<rparr>)"
    "same_counts c (c\<lparr>c_lfsr := ?r, c_tags := Set_assoc (ts[?p := ?v])\<rparr>)"
    by (simp_all add: same_geometry_def same_counts_def)
  ultimately show ?thesis using put by blast
qed

lemma sa_counts:
  assumes "sa_ok c" "same_geometry c c'" "c_tags c' = c_tags c"
  shows "sa_ok c' \<and> cached c' = cached c"
  using assms by (auto simp: sa_ok_def geometry_ok_def same_geometry_def placed_def cached_def tags_of_def)

interpretation set_assoc: directory sa_ok cached
proof
  fix c b d assume "sa_ok c" "cached c b = Some d"
  then show "fits (c_idx_shift c) b"
    by (elim sa_okD) (auto simp: look_Some placed_def)
next
  show "c_linesz c = shl 1 (c_idx_shift c) \<and> c_idx_shift c < 64" if "sa_ok c" for c
    using that by (simp add: sa_ok_def geometry_ok_def)
qed (fact sa_counts sa_miss sa_mark sa_fill)+

text \<open>Fully associative: the map is sorted, and every key has the tag of its block.\<close>

definition keyed :: "nat \<Rightarrow> (reg_t \<times> reg_t) list \<Rightarrow> bool" where
  "keyed k ts \<longleftrightarrow> sorted_wrt (\<lambda>x y. fst x < fst y) ts \<and>
     (\<forall>(b, t) \<in> set ts. fits k b \<and> bit t 63 \<and> tag_block t = b)"

definition fa_ok :: "cache \<Rightarrow> bool" where
  "fa_ok c \<longleftrightarrow> geometry_ok c \<and> (\<exists>ts. c_tags c = Full_assoc ts \<and> length ts \<le> unat (c_ways c) \<and> keyed (c_idx_shift c) ts)"

lemma keyed_distinct: "keyed k ts \<Longrightarrow> distinct (map fst ts)"
  unfolding keyed_def by (induction ts) (auto simp: image_iff)

lemma look_map_of:
  "\<forall>(b, t) \<in> set ts. bit t 63 \<and> tag_block t = b \<Longrightarrow> look (map snd ts) = (\<lambda>b. map_option (\<lambda>t. bit t 62) (map_of ts b))"
  by (induction ts) (auto simp: look_def fun_eq_iff)

lemma fa_cached:
  assumes "c_tags c = Full_assoc ts" "keyed k ts"
  shows "cached c b = map_option (\<lambda>t. bit t 62) (map_of ts b)"
proof -
  have "\<forall>(b, t) \<in> set ts. bit t 63 \<and> tag_block t = b" using assms(2) by (auto simp: keyed_def)
  from look_map_of [OF this] show ?thesis by (simp add: cached_def tags_of_def assms(1))
qed

lemma map_put:
  assumes "sorted_wrt (\<lambda>x y. fst x < fst y) ts"
  shows "sorted_wrt (\<lambda>x y. fst x < fst y) (map_put b t ts)" "map_of (map_put b t ts) = (map_of ts)(b \<mapsto> t)"
    "set (map_put b t ts) \<subseteq> insert (b, t) (set ts)"
    "length (map_put b t ts) \<le> Suc (length ts)"
proof -
  show set: "set (map_put b t ts) \<subseteq> insert (b, t) (set ts)" for ts
    by (induction b t ts rule: map_put.induct) auto
  show "sorted_wrt (\<lambda>x y. fst x < fst y) (map_put b t ts)"
    using assms set by (induction b t ts rule: map_put.induct) fastforce+
  show "map_of (map_put b t ts) = (map_of ts)(b \<mapsto> t)"
    using assms by (induction b t ts rule: map_put.induct) (auto simp: fun_eq_iff)
  show "length (map_put b t ts) \<le> Suc (length ts)"
    by (induction b t ts rule: map_put.induct) auto
qed

lemma keyed_put:
  assumes "keyed k ts" "fits k b" "bit t 63" "tag_block t = b"
  shows "keyed k (map_put b t ts)"
  using assms map_put [of ts b t] unfolding keyed_def by blast

lemma fa_check:
  assumes "c_tags c = Full_assoc ts" "keyed k ts"
  shows "check_tag c a = None \<longleftrightarrow> map_of ts (block_of c a) = None"
    "check_tag c a = Some p \<Longrightarrow> p < length ts \<and> fst (ts ! p) = block_of c a \<and> map_of ts (block_of c a) = Some (snd (ts ! p))"
proof -
  show "check_tag c a = None \<longleftrightarrow> map_of ts (block_of c a) = None"
    unfolding check_tag_def fa_check_tag_def assms(1) tag_store.case find_None_iff map_of_eq_None_iff
    by (simp add: set_conv_nth [of "map fst ts"] set_map [symmetric] del: set_map) (metis length_map nth_map)
  assume "check_tag c a = Some p"
  then have "p < length ts" "fst (ts ! p) = block_of c a"
    by (auto simp: check_tag_def assms(1) find_Some_iff)
  moreover from this have "(block_of c a, snd (ts ! p)) \<in> set ts" by (metis nth_mem surjective_pairing)
  ultimately show "p < length ts \<and> fst (ts ! p) = block_of c a \<and> map_of ts (block_of c a) = Some (snd (ts ! p))"
    using keyed_distinct [OF assms(2)] by simp
qed

lemma fa_okD:
  assumes "fa_ok c"
  obtains ts where "c_tags c = Full_assoc ts" "length ts \<le> unat (c_ways c)" "keyed (c_idx_shift c) ts" "geometry_ok c"
  using assms by (auto simp: fa_ok_def)

lemma fa_counts:
  assumes "fa_ok c" "same_geometry c c'" "c_tags c' = c_tags c"
  shows "fa_ok c' \<and> cached c' = cached c"
  using assms by (auto simp: fa_ok_def geometry_ok_def same_geometry_def cached_def tags_of_def)

lemma fa_miss:
  assumes "fa_ok c"
  shows "check_tag c a = None \<longleftrightarrow> cached c (block_of c a) = None"
proof -
  obtain ts where ts: "c_tags c = Full_assoc ts" "keyed (c_idx_shift c) ts" by (rule fa_okD [OF assms]) blast
  show ?thesis unfolding fa_check(1) [OF ts] fa_cached [OF ts] by simp
qed

lemma map_of_middle:
  "k \<notin> fst ` set xs \<Longrightarrow> map_of (xs @ (k, v) # ys) = (map_of (xs @ ys))(k \<mapsto> v)"
  by (auto simp: fun_eq_iff map_add_def map_of_eq_None_iff [symmetric] split: option.split)

text \<open>A list with distinct keys around one of its positions.\<close>

lemma around:
  assumes "keyed k ts" "p < length ts"
  shows "map_of (take p ts @ drop (Suc p) ts) = (map_of ts)(fst (ts ! p) := None)"
    "map_of (ts[p := (fst (ts ! p), v)]) = (map_of ts)(fst (ts ! p) \<mapsto> v)"
proof -
  let ?xs = "take p ts" and ?ys = "drop (Suc p) ts" and ?b = "fst (ts ! p)"
  have split: "ts = ?xs @ (?b, snd (ts ! p)) # ?ys" using assms(2) by (simp add: id_take_nth_drop)
  have "distinct (map fst (?xs @ (?b, snd (ts ! p)) # ?ys))" using keyed_distinct [OF assms(1)] split by simp
  then have out: "?b \<notin> fst ` set ?xs" "?b \<notin> fst ` set ?ys" by auto
  have ts: "map_of ts = (map_of (?xs @ ?ys))(?b \<mapsto> snd (ts ! p))"
    using map_of_middle [OF out(1), of "snd (ts ! p)" ?ys] split by metis
  have "map_of (?xs @ ?ys) ?b = None" using out by (simp add: map_of_eq_None_iff)
  then show "map_of (?xs @ ?ys) = (map_of ts)(?b := None)" by (simp add: ts fun_eq_iff)
  show "map_of (ts[p := (?b, v)]) = (map_of ts)(?b \<mapsto> v)"
    unfolding upd_conv_take_nth_drop [OF assms(2)] map_of_middle [OF out(1)] ts by simp
qed

lemma keyed_update:
  assumes "keyed k ts" "p < length ts" "bit v 63" "tag_block v = fst (ts ! p)"
  shows "keyed k (ts[p := (fst (ts ! p), v)])"
    "map_of (ts[p := (fst (ts ! p), v)]) = (map_of ts)(fst (ts ! p) \<mapsto> v)"
proof -
  have keys: "map fst (ts[p := (fst (ts ! p), v)]) = map fst ts"
    using assms(2) by (metis fst_conv list_update_id map_update nth_map)
  have "sorted_wrt (<) (map fst ts)" using assms(1) by (simp add: keyed_def sorted_wrt_map)
  then have "sorted_wrt (\<lambda>x y. fst x < fst y) (ts[p := (fst (ts ! p), v)])"
    unfolding sorted_wrt_map [of "(<)" fst, symmetric] keys .
  moreover have "fits k (fst (ts ! p))" using assms(1,2) nth_mem [OF assms(2)] by (auto simp: keyed_def split_beta)
  ultimately show k: "keyed k (ts[p := (fst (ts ! p), v)])"
    using assms set_update_subset_insert [of ts p "(fst (ts ! p), v)"] unfolding keyed_def by blast
  show "map_of (ts[p := (fst (ts ! p), v)]) = (map_of ts)(fst (ts ! p) \<mapsto> v)" by (rule around(2) [OF assms(1,2)])
qed

lemma fa_mark:
  assumes "fa_ok c" "check_tag c a = Some p"
  shows "fa_ok (mark_dirty p c) \<and> cached (mark_dirty p c) = (cached c)(block_of c a \<mapsto> True)"
proof -
  obtain ts where ts: "c_tags c = Full_assoc ts" "length ts \<le> unat (c_ways c)" "keyed (c_idx_shift c) ts" "geometry_ok c"
    using assms(1) by (rule fa_okD)
  note p = fa_check(2) [OF ts(1,3) assms(2)]
  let ?v = "snd (ts ! p) OR DIRTY"
  let ?ts = "ts[p := (fst (ts ! p), ?v)]"
  have "ts ! p \<in> set ts" using p by simp
  then have "bit (snd (ts ! p)) 63" "tag_block (snd (ts ! p)) = fst (ts ! p)"
    using ts(3) by (auto simp: keyed_def split_beta)
  then have upd: "keyed (c_idx_shift c) ?ts" "map_of ?ts = (map_of ts)(fst (ts ! p) \<mapsto> ?v)"
    using keyed_update [OF ts(3), of p ?v] p by (simp_all add: dirty_tag)
  have m: "mark_dirty p c = c\<lparr>c_tags := Full_assoc ?ts\<rparr>"
    by (simp add: mark_dirty_def ts(1) tag_at_def put_tag_def)
  have "fa_ok (c\<lparr>c_tags := Full_assoc ?ts\<rparr>)"
    using ts upd(1) by (auto simp: fa_ok_def geometry_ok_def)
  moreover have "cached (c\<lparr>c_tags := Full_assoc ?ts\<rparr>) b = ((cached c)(block_of c a \<mapsto> True)) b" for b
    using fa_cached [OF _ upd(1), of "c\<lparr>c_tags := Full_assoc ?ts\<rparr>" b] fa_cached [OF ts(1,3), of b] p
    unfolding upd(2) by (simp add: dirty_tag)
  ultimately show ?thesis unfolding m by blast
qed

lemma keyed_remove:
  assumes "keyed k ts" "w < length ts"
  shows "keyed k (take w ts @ drop (Suc w) ts)"
    "map_of (take w ts @ drop (Suc w) ts) = (map_of ts)(fst (ts ! w) := None)"
proof -
  have split: "ts = take w ts @ ts ! w # drop (Suc w) ts" using assms(2) by (simp add: id_take_nth_drop)
  have "sorted_wrt (\<lambda>x y. fst x < fst y) (take w ts @ ts ! w # drop (Suc w) ts)"
    using assms(1) split by (simp add: keyed_def)
  then have "sorted_wrt (\<lambda>x y. fst x < fst y) (take w ts @ drop (Suc w) ts)"
    by (auto simp: sorted_wrt_append)
  then show "keyed k (take w ts @ drop (Suc w) ts)"
    using assms(1) set_take_subset [of w ts] set_drop_subset [of "Suc w" ts] unfolding keyed_def by auto
  show "map_of (take w ts @ drop (Suc w) ts) = (map_of ts)(fst (ts ! w) := None)" by (rule around(1) [OF assms])
qed

lemma fa_take_in:
  assumes "geometry_ok c" "keyed (c_idx_shift c) ts" "length ts < unat (c_ways c)" "c' = c\<lparr>c_lfsr := r, c_tags := Full_assoc (map_put (block_of c a) (block_of c a OR VALID) ts)\<rparr>"
  shows "fa_ok c' \<and> same_geometry c c' \<and> same_counts c c' \<and>
    cached c' = (\<lambda>b. map_option (\<lambda>t. bit t 62) (map_of ts b))(block_of c a \<mapsto> False)"
proof -
  let ?b = "block_of c a"
  have fit: "fits (c_idx_shift c) ?b" by (simp add: block_of_def fits_shr)
  have k: "3 \<le> c_idx_shift c" using assms(1) by (simp add: geometry_ok_def)
  note v = valid_tag(2-4) [OF k fit]
  have key: "keyed (c_idx_shift c) (map_put ?b (?b OR VALID) ts)" by (rule keyed_put [OF assms(2) fit v(2,1)])
  have put: "map_of (map_put ?b (?b OR VALID) ts) = (map_of ts)(?b \<mapsto> ?b OR VALID)"
    "length (map_put ?b (?b OR VALID) ts) \<le> unat (c_ways c)"
    using map_put(2,4) [of ts ?b "?b OR VALID"] assms(2,3) by (auto simp: keyed_def)
  have "fa_ok c'" using assms(1,4) key put(2) by (auto simp: fa_ok_def geometry_ok_def)
  moreover have "cached c' b = ((\<lambda>b. map_option (\<lambda>t. bit t 62) (map_of ts b))(?b \<mapsto> False)) b" for b
    using fa_cached [of c' _ _ b, OF _ key] assms(4) by (simp add: put(1) v(3))
  ultimately show ?thesis using assms(4) by (auto simp: same_geometry_def same_counts_def)
qed

lemma fa_fill:
  assumes "fa_ok c" "check_tag c a = None"
  shows "\<exists>v c' D. victimize a c = Some (v, c') \<and> fa_ok c' \<and> same_geometry c c' \<and> same_counts c c' \<and>
    dropped v (cached c) D \<and> cached c' = D(block_of c a \<mapsto> False)"
proof -
  obtain ts where ts: "c_tags c = Full_assoc ts" "length ts \<le> unat (c_ways c)" "keyed (c_idx_shift c) ts" "geometry_ok c"
    using assms(1) by (rule fa_okD)
  have c: "cached c = (\<lambda>b. map_option (\<lambda>t. bit t 62) (map_of ts b))" using fa_cached [OF ts(1,3)] by blast
  have ways: "c_ways c \<noteq> 0" using ts(4) by (simp add: geometry_ok_def)
  have "length ts < 2 ^ 64" using ts(2) unsigned_less [of "c_ways c", where ?'a = nat] by simp
  then have "unat (of_nat (length ts) :: reg_t) = length ts" by (simp add: unsigned_of_nat take_bit_nat_eq_self)
  then have full: "of_nat (length ts) = c_ways c \<longleftrightarrow> length ts = unat (c_ways c)" by (metis unsigned_word_eqI)
  show ?thesis
  proof (cases "length ts = unat (c_ways c)")
    case False
    define d where "d = c\<lparr>c_lfsr := c_lfsr c, c_tags := Full_assoc (map_put (block_of c a) (block_of c a OR VALID) ts)\<rparr>"
    have "victimize a c = Some (0, d)" using False full by (simp add: victimize_def ts(1) Let_def d_def)
    moreover have "dropped 0 (cached c) (cached c)" by (simp add: dropped_def)
    ultimately show ?thesis using fa_take_in [OF ts(4,3) _ d_def] False ts(2) c by auto
  next
    case True
    let ?r = "lfsr_next (c_lfsr c)"
    let ?w = "unat ((ucast ?r :: reg_t) mod c_ways c)"
    let ?ts = "take ?w ts @ drop (Suc ?w) ts"
    have w: "?w < length ts" using ways True by (simp add: unat_mod unat_gt_0)
    note rem = keyed_remove [OF ts(3) w]
    define d where "d = c\<lparr>c_lfsr := ?r, c_tags := Full_assoc (map_put (block_of c a) (block_of c a OR VALID) ?ts)\<rparr>"
    have "length ?ts < unat (c_ways c)" using w True by simp
    from fa_take_in [OF ts(4) rem(1) this d_def] have
      d: "fa_ok d \<and> same_geometry c d \<and> same_counts c d \<and>
        cached d = ((cached c)(fst (ts ! ?w) := None))(block_of c a \<mapsto> False)"
      unfolding rem(2) c by (auto simp: fun_eq_iff)
    have "ts ! ?w \<in> set ts" using w by simp
    then have t: "bit (snd (ts ! ?w)) 63" "tag_block (snd (ts ! ?w)) = fst (ts ! ?w)"
      "map_of ts (fst (ts ! ?w)) = Some (snd (ts ! ?w))"
      using ts(3) keyed_distinct [OF ts(3)] by (auto simp: keyed_def split_beta)
    then have "dropped (snd (ts ! ?w)) (cached c) ((cached c)(fst (ts ! ?w) := None))" by (simp add: dropped_def c)
    moreover have "victimize a c = Some (snd (ts ! ?w), d)"
      using True full ways by (simp add: victimize_def ts(1) Let_def d_def)
    ultimately show ?thesis using d by blast
  qed
qed

interpretation full_assoc: directory fa_ok cached
proof
  fix c b d assume ok: "fa_ok c" "cached c b = Some d"
  obtain ts where ts: "c_tags c = Full_assoc ts" "keyed (c_idx_shift c) ts" by (rule fa_okD [OF ok(1)]) blast
  have "b \<in> fst ` set ts" using ok(2) unfolding fa_cached [OF ts] by (auto dest: map_of_SomeD intro: rev_image_eqI)
  then show "fits (c_idx_shift c) b" using ts(2) by (auto simp: keyed_def)
next
  show "c_linesz c = shl 1 (c_idx_shift c) \<and> c_idx_shift c < 64" if "fa_ok c" for c
    using that by (simp add: fa_ok_def geometry_ok_def)
qed (fact fa_counts fa_miss fa_mark fa_fill)+

section \<open>Construction\<close>

lemma power_of_two:
  assumes "x \<noteq> 0" "\<not> not_power_of_two x"
  shows "\<exists>k < 64. x = shl 1 k"
proof -
  have "\<exists>i. bit x i" using assms(1) by (metis bit_eqI bit_0_eq bot_apply bot_bool_def)
  then obtain k where k: "bit x k" "\<And>i. i < k \<Longrightarrow> \<not> bit x i" using exists_least_iff [of "bit x"] by blast
  let ?y = "x AND NOT (shl 1 k)"
  have one: "bit (shl 1 k :: reg_t) i \<longleftrightarrow> i = k" for i using k(1) bit_high [of x k] by (auto simp: bit_simps)
  have low: "bit ?y i \<longleftrightarrow> k < i \<and> bit x i" for i
  proof (cases "bit x i")
    case True
    then have "k \<le> i" using k(2) by (metis not_le)
    then show ?thesis using bit_high [OF True] one [of i] True by (auto simp: bit_and_iff bit_not_iff)
  qed (simp add: bit_and_iff)
  have "x = ?y OR shl 1 k" by (rule bit_word_eqI) (use one k(1) in \<open>auto simp: bit_simps\<close>)
  also have "\<dots> = ?y + shl 1 k"
    by (rule disjunctive_add [symmetric]) (use low one in auto)
  finally have "x - 1 = ?y + mask k" by (simp add: mask_eq_exp_minus_1 push_bit_eq_mult)
  also have "\<dots> = ?y OR mask k"
    by (rule disjunctive_add) (use low in \<open>auto simp: bit_mask_iff\<close>)
  finally have "bit (x AND (x - 1)) i" if "bit ?y i" for i
    using that low [of i] by (simp add: bit_and_iff bit_or_iff)
  then have "\<not> bit ?y i" for i using assms(2) by (auto simp: not_power_of_two_def)
  then have "x = shl 1 k"
    by (intro bit_word_eqI) (use low one k in \<open>metis less_linear\<close>)
  then show ?thesis using bit_high [OF k(1)] by blast
qed

lemma shift_count_power: "shift_count (2 ^ k) = k"
proof (induction k)
  case (Suc k)
  have "1 < (2 :: nat) ^ Suc k" by (rule one_less_power) simp_all
  then show ?case using Suc by (subst shift_count.simps) simp
qed (simp add: shift_count.simps)

lemma cache_init_ok:
  assumes "cache_init sets ways linesz tags = Some c" "ways \<noteq> 0"
  shows "geometry_ok c" "c_tags c = tags" "c_sets c = sets" "c_ways c = ways"
    "c_read_accesses c = 0" "c_read_misses c = 0" "c_write_accesses c = 0" "c_write_misses c = 0" "c_writebacks c = 0"
proof -
  have i: "sets \<noteq> 0" "8 \<le> linesz" "\<not> not_power_of_two linesz"
    and c: "c_idx_shift c = shift_count (unat linesz)" "c_linesz c = linesz" "c_sets c = sets" "c_ways c = ways"
    using assms(1) by (auto simp: cache_init_def not_less split: if_splits)
  then have "linesz \<noteq> 0" by auto
  then obtain k where k: "k < 64" "linesz = shl 1 k" using power_of_two i(3) by blast
  have "(2 :: nat) ^ k < 2 ^ 64" using k(1) by (rule power_strict_increasing) simp
  then have "take_bit 64 ((2 :: nat) ^ k) = 2 ^ k" by (rule take_bit_nat_eq_self)
  then have "unat (of_nat (2 ^ k) :: reg_t) = 2 ^ k" unfolding unsigned_of_nat by simp
  then have n: "unat linesz = 2 ^ k" by (simp add: k(2) push_bit_eq_mult)
  have "(8 :: nat) \<le> 2 ^ k" using i(2) n by (simp add: word_le_nat_alt)
  then have "(2 :: nat) ^ 3 \<le> 2 ^ k" by simp
  then have "3 \<le> k" by (simp only: power_increasing_iff)
  then show "geometry_ok c" using c i(1) k n assms(2) by (simp add: geometry_ok_def shift_count_power)
  show "c_tags c = tags" "c_sets c = sets" "c_ways c = ways"
    "c_read_accesses c = 0" "c_read_misses c = 0" "c_write_accesses c = 0" "c_write_misses c = 0" "c_writebacks c = 0"
    using assms(1) by (auto simp: cache_init_def split: if_splits)
qed

lemma construct_ok:
  assumes "cache_construct config = Some c" "c_ways c \<noteq> 0"
  shows "(sa_ok c \<or> fa_ok c) \<and> cached c = (\<lambda>b. None) \<and>
    c_read_accesses c = 0 \<and> c_read_misses c = 0 \<and> c_write_accesses c = 0 \<and> c_write_misses c = 0 \<and> c_writebacks c = 0"
proof -
  consider sets ways linesz where "cache_sim sets ways linesz = Some c" | ways linesz where "fa_cache_sim ways linesz = Some c"
    using assms(1) by (auto simp: cache_construct_def Let_def split: option.splits if_splits)
  then show ?thesis
  proof cases
    case 1
    then have i: "cache_init sets ways linesz (Set_assoc (replicate (unat sets * unat ways) 0)) = Some c"
      by (simp add: cache_sim_def)
    then have w: "ways \<noteq> 0" using assms(2) by (auto simp: cache_init_def split: if_splits)
    note c = cache_init_ok [OF i w]
    have "sa_ok c" using c by (auto simp: sa_ok_def placed_def unique_def)
    moreover have "cached c = (\<lambda>b. None)"
      using c(2) by (auto simp: cached_def tags_of_def look_def find_None_iff fun_eq_iff)
    ultimately show ?thesis using c by blast
  next
    case 2
    then have i: "cache_init 1 ways linesz (Full_assoc []) = Some c" by (simp add: fa_cache_sim_def)
    then have w: "ways \<noteq> 0" using assms(2) by (auto simp: cache_init_def split: if_splits)
    note c = cache_init_ok [OF i w]
    have "fa_ok c" using c by (auto simp: fa_ok_def keyed_def)
    moreover have "cached c = (\<lambda>b. None)"
      using c(2) by (auto simp: cached_def tags_of_def look_def fun_eq_iff)
    ultimately show ?thesis using c by blast
  qed
qed

text \<open>
  C35. An access refines the specification of a cache.  For both kinds of caches, in every state that
  keeps their invariants, an access ends without an error, keeps the invariants and the geometry,
  counts what it does, and changes the set of blocks held, with their dirty bits, as
  \<open>access_spec\<close> says: a hit touches only its block and asks nothing of the next level; a miss may
  drop one block, writes it back to its own address exactly when it is dirty, fetches the line of
  the address, and takes the block in.
\<close>

theorem access_refines_spec:
  assumes "sa_ok c \<or> fa_ok c"
  shows "\<exists>reqs c'. access_cache q c = Inr (reqs, c') \<and> (sa_ok c \<longrightarrow> sa_ok c') \<and> (fa_ok c \<longrightarrow> fa_ok c') \<and>
    same_geometry c c' \<and> counted q reqs c c' \<and>
    access_spec (c_idx_shift c) (c_linesz c) q (cached c) reqs (cached c')"
proof -
  have "\<not> (sa_ok c \<and> fa_ok c)" by (auto simp: sa_ok_def fa_ok_def)
  then show ?thesis using assms set_assoc.access_ok [of c q] full_assoc.access_ok [of c q] by blast
qed

text \<open>
  C36. No store is lost in a cache.  However a cache was configured and whatever the sequence of
  accesses, a block is held dirty exactly when it has a store that the cache has not written back
  to the next level since.  The counters are, modulo their width, the numbers of the loads and
  stores asked for, of the lines fetched and of the blocks written back.
\<close>

theorem no_store_lost:
  assumes "cache_construct config = Some c" "c_ways c \<noteq> 0"
  shows "\<exists>log c'. run_log qs c = Inr (log, c') \<and> map fst log = qs \<and>
    (\<forall>b. cached c' b = Some True \<longleftrightarrow> unsaved (c_idx_shift c) log b) \<and>
    c_read_accesses c' = of_nat (length (loads_of qs)) \<and> c_write_accesses c' = of_nat (length (stores_of qs)) \<and>
    c_read_misses c' + c_write_misses c' = of_nat (length (loads_of (concat (map snd log)))) \<and>
    c_writebacks c' = of_nat (length (stores_of (concat (map snd log))))"
proof -
  note c = construct_ok [OF assms]
  have empty: "cached c b = Some True \<longleftrightarrow> False" for b using c by simp
  have zero: "c_read_accesses c = 0" "c_write_accesses c = 0" "c_read_misses c = 0" "c_write_misses c = 0" "c_writebacks c = 0"
    using c by blast+
  from c consider "sa_ok c" | "fa_ok c" by blast
  then show ?thesis
  proof cases
    case 1
    from set_assoc.run_ok [OF this, of qs] show ?thesis unfolding unsaved_def empty zero add_0 by blast
  next
    case 2
    from full_assoc.run_ok [OF this, of qs] show ?thesis unfolding unsaved_def empty zero add_0 by blast
  qed
qed

text \<open>Two accesses to a direct-mapped cache of two sets: the store is written back when its block is dropped.\<close>

definition sample_cache :: cache where
  "sample_cache = the (cache_sim 2 1 64)"

lemma sample_cache_construct: "cache_construct ''2:1:64'' = Some sample_cache"
proof -
  have "cache_construct ''2:1:64'' = cache_sim 2 1 64"
    by (simp add: cache_construct_def after_colon_def atoi_def digits_value_def is_digit_def Let_def)
  moreover have "cache_sim 2 1 64 \<noteq> None"
    by (simp add: cache_sim_def cache_init_def not_power_of_two_def)
  ultimately show ?thesis by (auto simp: sample_cache_def)
qed

lemma no_store_lost_witness:
  "\<exists>log c'. run_log [(0x1008, 8, True), (0x2000, 4, False)] sample_cache = Inr (log, c') \<and>
    (cached c' 0x40 = Some True \<longleftrightarrow> unsaved (c_idx_shift sample_cache) log 0x40) \<and>
    c_read_accesses c' = 1 \<and> c_write_accesses c' = 1"
proof -
  have "c_ways sample_cache \<noteq> 0"
    by (simp add: sample_cache_def cache_sim_def cache_init_def not_power_of_two_def)
  from no_store_lost [OF sample_cache_construct this, of "[(0x1008, 8, True), (0x2000, 4, False)]"]
  show ?thesis by auto
qed

lemma access_refines_spec_witness:
  "\<exists>reqs c'. access_cache (0x1008, 8, True) sample_cache = Inr (reqs, c') \<and>
    access_spec (c_idx_shift sample_cache) (c_linesz sample_cache) (0x1008, 8, True) (cached sample_cache) reqs (cached c')"
proof -
  have "c_ways sample_cache \<noteq> 0"
    by (simp add: sample_cache_def cache_sim_def cache_init_def not_power_of_two_def)
  then have "sa_ok sample_cache \<or> fa_ok sample_cache" using construct_ok [OF sample_cache_construct] by blast
  from access_refines_spec [OF this] show ?thesis by blast
qed

text \<open>A cache configured with no ways divides by zero at its first access.\<close>

lemma no_ways_aborts:
  assumes "cache_construct ''1:0:64'' = Some c"
  shows "access_cache (a, n, w) c = Inl Abort"
proof -
  have "cache_construct ''1:0:64'' = cache_sim 1 0 64"
    by (simp add: cache_construct_def after_colon_def atoi_def digits_value_def is_digit_def Let_def)
  then have "c_tags c = Set_assoc []" "c_ways c = 0"
    using assms by (auto simp: cache_sim_def cache_init_def not_power_of_two_def)
  then show ?thesis
    by (simp add: access_cache_def check_tag_def victimize_def count_access_def count_miss_def Let_def)
qed

end
