(* ===== verification/Disasm.thy ===== *)
theory Disasm
  imports InsnTable
begin

text \<open>
  The disassembler (\<open>spike_main/disasm.cc\<close>, \<open>riscv/disasm.h\<close>, \<open>riscv/regnames.cc\<close>): the printers of
  operands, the table of instructions with the names and operands to print, which the constructor
  adds in the order of the code, and the hash table in which an instruction is looked up.
\<close>

section \<open>Numbers and names\<close>

definition digit :: "nat \<Rightarrow> char" where
  "digit n = ''0123456789abcdef'' ! n"

function print_nat :: "nat \<Rightarrow> nat \<Rightarrow> string" where
  "print_nat b n = (if b \<le> 1 \<or> n < b then [digit n] else print_nat b (n div b) @ [digit (n mod b)])"
  by pat_completeness auto
termination by (relation "measure snd") (auto intro: div_less_dividend)

declare print_nat.simps [simp del]

definition dec :: "nat \<Rightarrow> string" where "dec = print_nat 10"
definition hex :: "nat \<Rightarrow> string" where "hex = print_nat 16"

definition hex_padded :: "nat \<Rightarrow> nat \<Rightarrow> string" where
  "hex_padded k n = replicate (k - length (hex n)) CHR ''0'' @ hex n"

text \<open>A value as an \<open>int\<close>, printed in decimal or as the target of a jump.\<close>

definition as_int :: "reg_t \<Rightarrow> int" where
  "as_int v = sint (ucast v :: u32)"

definition dec_int :: "reg_t \<Rightarrow> string" where
  "dec_int v = (if as_int v < 0 then ''-'' else []) @ dec (nat \<bar>as_int v\<bar>)"

definition dec_target :: "reg_t \<Rightarrow> string" where
  "dec_target v = ''pc '' @ (if as_int v \<ge> 0 then ''+'' else ''-'') @ '' '' @ dec (nat \<bar>as_int v\<bar>)"

definition hex_target :: "reg_t \<Rightarrow> string" where
  "hex_target v = ''pc '' @ (if as_int v \<ge> 0 then ''+'' else ''-'') @ '' 0x'' @ hex (nat \<bar>as_int v\<bar>)"

definition xpr_names :: "string list" where
  "xpr_names = [
     ''zero'', ''ra'', ''sp'', ''gp'', ''tp'', ''t0'', ''t1'', ''t2'',
     ''s0'', ''s1'', ''a0'', ''a1'', ''a2'', ''a3'', ''a4'', ''a5'',
     ''a6'', ''a7'', ''s2'', ''s3'', ''s4'', ''s5'', ''s6'', ''s7'',
     ''s8'', ''s9'', ''s10'', ''s11'', ''t3'', ''t4'', ''t5'', ''t6'']"

definition fpr_names :: "string list" where
  "fpr_names = [
     ''ft0'', ''ft1'', ''ft2'', ''ft3'', ''ft4'', ''ft5'', ''ft6'', ''ft7'',
     ''fs0'', ''fs1'', ''fa0'', ''fa1'', ''fa2'', ''fa3'', ''fa4'', ''fa5'',
     ''fa6'', ''fa7'', ''fs2'', ''fs3'', ''fs4'', ''fs5'', ''fs6'', ''fs7'',
     ''fs8'', ''fs9'', ''fs10'', ''fs11'', ''ft8'', ''ft9'', ''ft10'', ''ft11'']"

definition X_SP :: reg_t where "X_SP = 2"

definition xpr_name :: "reg_t \<Rightarrow> string" where "xpr_name r = xpr_names ! unat r"
definition fpr_name :: "reg_t \<Rightarrow> string" where "fpr_name r = fpr_names ! unat r"

definition declared_csrs_1 :: "(string \<times> nat) list" where
  "declared_csrs_1 = [
     (''fflags'', 0x1), (''frm'', 0x2), (''fcsr'', 0x3), (''cycle'', 0xc00),
     (''time'', 0xc01), (''instret'', 0xc02), (''hpmcounter3'', 0xc03), (''hpmcounter4'', 0xc04),
     (''hpmcounter5'', 0xc05), (''hpmcounter6'', 0xc06), (''hpmcounter7'', 0xc07), (''hpmcounter8'', 0xc08),
     (''hpmcounter9'', 0xc09), (''hpmcounter10'', 0xc0a), (''hpmcounter11'', 0xc0b), (''hpmcounter12'', 0xc0c),
     (''hpmcounter13'', 0xc0d), (''hpmcounter14'', 0xc0e), (''hpmcounter15'', 0xc0f), (''hpmcounter16'', 0xc10),
     (''hpmcounter17'', 0xc11), (''hpmcounter18'', 0xc12), (''hpmcounter19'', 0xc13), (''hpmcounter20'', 0xc14),
     (''hpmcounter21'', 0xc15), (''hpmcounter22'', 0xc16), (''hpmcounter23'', 0xc17), (''hpmcounter24'', 0xc18),
     (''hpmcounter25'', 0xc19), (''hpmcounter26'', 0xc1a), (''hpmcounter27'', 0xc1b), (''hpmcounter28'', 0xc1c),
     (''hpmcounter29'', 0xc1d), (''hpmcounter30'', 0xc1e), (''hpmcounter31'', 0xc1f), (''sstatus'', 0x100),
     (''sie'', 0x104), (''stvec'', 0x105), (''scounteren'', 0x106), (''sscratch'', 0x140),
     (''sepc'', 0x141), (''scause'', 0x142), (''stval'', 0x143), (''sip'', 0x144),
     (''satp'', 0x180), (''mstatus'', 0x300), (''misa'', 0x301), (''medeleg'', 0x302),
     (''mideleg'', 0x303), (''mie'', 0x304), (''mtvec'', 0x305), (''mcounteren'', 0x306),
     (''mscratch'', 0x340), (''mepc'', 0x341), (''mcause'', 0x342), (''mtval'', 0x343),
     (''mip'', 0x344), (''pmpcfg0'', 0x3a0), (''pmpcfg1'', 0x3a1), (''pmpcfg2'', 0x3a2),
     (''pmpcfg3'', 0x3a3), (''pmpaddr0'', 0x3b0), (''pmpaddr1'', 0x3b1), (''pmpaddr2'', 0x3b2),
     (''pmpaddr3'', 0x3b3), (''pmpaddr4'', 0x3b4), (''pmpaddr5'', 0x3b5), (''pmpaddr6'', 0x3b6),
     (''pmpaddr7'', 0x3b7), (''pmpaddr8'', 0x3b8), (''pmpaddr9'', 0x3b9), (''pmpaddr10'', 0x3ba),
     (''pmpaddr11'', 0x3bb), (''pmpaddr12'', 0x3bc), (''pmpaddr13'', 0x3bd), (''pmpaddr14'', 0x3be),
     (''pmpaddr15'', 0x3bf), (''tselect'', 0x7a0), (''tdata1'', 0x7a1), (''tdata2'', 0x7a2),
     (''tdata3'', 0x7a3), (''dcsr'', 0x7b0), (''dpc'', 0x7b1), (''dscratch'', 0x7b2),
     (''mcycle'', 0xb00), (''minstret'', 0xb02), (''mhpmcounter3'', 0xb03), (''mhpmcounter4'', 0xb04),
     (''mhpmcounter5'', 0xb05), (''mhpmcounter6'', 0xb06), (''mhpmcounter7'', 0xb07), (''mhpmcounter8'', 0xb08),
     (''mhpmcounter9'', 0xb09), (''mhpmcounter10'', 0xb0a), (''mhpmcounter11'', 0xb0b), (''mhpmcounter12'', 0xb0c),
     (''mhpmcounter13'', 0xb0d), (''mhpmcounter14'', 0xb0e), (''mhpmcounter15'', 0xb0f), (''mhpmcounter16'', 0xb10),
     (''mhpmcounter17'', 0xb11), (''mhpmcounter18'', 0xb12), (''mhpmcounter19'', 0xb13), (''mhpmcounter20'', 0xb14),
     (''mhpmcounter21'', 0xb15), (''mhpmcounter22'', 0xb16)]"

definition declared_csrs_2 :: "(string \<times> nat) list" where
  "declared_csrs_2 = [
     (''mhpmcounter23'', 0xb17), (''mhpmcounter24'', 0xb18), (''mhpmcounter25'', 0xb19), (''mhpmcounter26'', 0xb1a),
     (''mhpmcounter27'', 0xb1b), (''mhpmcounter28'', 0xb1c), (''mhpmcounter29'', 0xb1d), (''mhpmcounter30'', 0xb1e),
     (''mhpmcounter31'', 0xb1f), (''mhpmevent3'', 0x323), (''mhpmevent4'', 0x324), (''mhpmevent5'', 0x325),
     (''mhpmevent6'', 0x326), (''mhpmevent7'', 0x327), (''mhpmevent8'', 0x328), (''mhpmevent9'', 0x329),
     (''mhpmevent10'', 0x32a), (''mhpmevent11'', 0x32b), (''mhpmevent12'', 0x32c), (''mhpmevent13'', 0x32d),
     (''mhpmevent14'', 0x32e), (''mhpmevent15'', 0x32f), (''mhpmevent16'', 0x330), (''mhpmevent17'', 0x331),
     (''mhpmevent18'', 0x332), (''mhpmevent19'', 0x333), (''mhpmevent20'', 0x334), (''mhpmevent21'', 0x335),
     (''mhpmevent22'', 0x336), (''mhpmevent23'', 0x337), (''mhpmevent24'', 0x338), (''mhpmevent25'', 0x339),
     (''mhpmevent26'', 0x33a), (''mhpmevent27'', 0x33b), (''mhpmevent28'', 0x33c), (''mhpmevent29'', 0x33d),
     (''mhpmevent30'', 0x33e), (''mhpmevent31'', 0x33f), (''mvendorid'', 0xf11), (''marchid'', 0xf12),
     (''mimpid'', 0xf13), (''mhartid'', 0xf14), (''cycleh'', 0xc80), (''timeh'', 0xc81),
     (''instreth'', 0xc82), (''hpmcounter3h'', 0xc83), (''hpmcounter4h'', 0xc84), (''hpmcounter5h'', 0xc85),
     (''hpmcounter6h'', 0xc86), (''hpmcounter7h'', 0xc87), (''hpmcounter8h'', 0xc88), (''hpmcounter9h'', 0xc89),
     (''hpmcounter10h'', 0xc8a), (''hpmcounter11h'', 0xc8b), (''hpmcounter12h'', 0xc8c), (''hpmcounter13h'', 0xc8d),
     (''hpmcounter14h'', 0xc8e), (''hpmcounter15h'', 0xc8f), (''hpmcounter16h'', 0xc90), (''hpmcounter17h'', 0xc91),
     (''hpmcounter18h'', 0xc92), (''hpmcounter19h'', 0xc93), (''hpmcounter20h'', 0xc94), (''hpmcounter21h'', 0xc95),
     (''hpmcounter22h'', 0xc96), (''hpmcounter23h'', 0xc97), (''hpmcounter24h'', 0xc98), (''hpmcounter25h'', 0xc99),
     (''hpmcounter26h'', 0xc9a), (''hpmcounter27h'', 0xc9b), (''hpmcounter28h'', 0xc9c), (''hpmcounter29h'', 0xc9d),
     (''hpmcounter30h'', 0xc9e), (''hpmcounter31h'', 0xc9f), (''mcycleh'', 0xb80), (''minstreth'', 0xb82),
     (''mhpmcounter3h'', 0xb83), (''mhpmcounter4h'', 0xb84), (''mhpmcounter5h'', 0xb85), (''mhpmcounter6h'', 0xb86),
     (''mhpmcounter7h'', 0xb87), (''mhpmcounter8h'', 0xb88), (''mhpmcounter9h'', 0xb89), (''mhpmcounter10h'', 0xb8a),
     (''mhpmcounter11h'', 0xb8b), (''mhpmcounter12h'', 0xb8c), (''mhpmcounter13h'', 0xb8d), (''mhpmcounter14h'', 0xb8e),
     (''mhpmcounter15h'', 0xb8f), (''mhpmcounter16h'', 0xb90), (''mhpmcounter17h'', 0xb91), (''mhpmcounter18h'', 0xb92),
     (''mhpmcounter19h'', 0xb93), (''mhpmcounter20h'', 0xb94), (''mhpmcounter21h'', 0xb95), (''mhpmcounter22h'', 0xb96),
     (''mhpmcounter23h'', 0xb97), (''mhpmcounter24h'', 0xb98), (''mhpmcounter25h'', 0xb99), (''mhpmcounter26h'', 0xb9a),
     (''mhpmcounter27h'', 0xb9b), (''mhpmcounter28h'', 0xb9c), (''mhpmcounter29h'', 0xb9d), (''mhpmcounter30h'', 0xb9e),
     (''mhpmcounter31h'', 0xb9f)]"

definition csr_names :: "(nat \<times> string) list" where
  "csr_names = map (\<lambda>(n, k). (k, n)) (declared_csrs_1 @ declared_csrs_2)"

text \<open>\<open>csr_name\<close>, which the interactive prompt uses.\<close>

definition csr_name :: "int \<Rightarrow> string" where
  "csr_name which = (case map_of csr_names (nat which) of
     Some n \<Rightarrow> if which \<ge> 0 then n else ''unknown-csr'' | None \<Rightarrow> ''unknown-csr'')"

section \<open>Operands\<close>

type_synonym arg_t = "insn_t \<Rightarrow> string"

definition arg_load_address :: arg_t where
  "arg_load_address i = dec_int (i_imm i) @ ''('' @ xpr_name (rs1 i) @ '')''"

definition arg_store_address :: arg_t where
  "arg_store_address i = dec_int (s_imm i) @ ''('' @ xpr_name (rs1 i) @ '')''"

definition arg_amo_address :: arg_t where
  "arg_amo_address i = ''('' @ xpr_name (rs1 i) @ '')''"

definition arg_xrd :: arg_t where
  "arg_xrd i = xpr_name (rd i)"

definition arg_xrs1 :: arg_t where
  "arg_xrs1 i = xpr_name (rs1 i)"

definition arg_xrs2 :: arg_t where
  "arg_xrs2 i = xpr_name (rs2 i)"

definition arg_frd :: arg_t where
  "arg_frd i = fpr_name (rd i)"

definition arg_frs1 :: arg_t where
  "arg_frs1 i = fpr_name (rs1 i)"

definition arg_frs2 :: arg_t where
  "arg_frs2 i = fpr_name (rs2 i)"

definition arg_frs3 :: arg_t where
  "arg_frs3 i = fpr_name (rs3 i)"

definition arg_csr :: arg_t where
  "arg_csr i = (case map_of csr_names (unat (Decode.csr i)) of
     Some n \<Rightarrow> n | None \<Rightarrow> ''unknown_'' @ hex_padded 3 (unat (Decode.csr i)))"

definition arg_imm :: arg_t where
  "arg_imm i = dec_int (i_imm i)"

definition arg_shamt :: arg_t where
  "arg_shamt i = dec_int (shamt i)"

definition arg_bigimm :: arg_t where
  "arg_bigimm i = ''0x'' @ hex (unat (shr (ucast (u_imm i) :: u32) 12))"

definition arg_zimm5 :: arg_t where
  "arg_zimm5 i = dec (unat (rs1 i))"

definition arg_branch_target :: arg_t where
  "arg_branch_target i = dec_target (sb_imm i)"

definition arg_jump_target :: arg_t where
  "arg_jump_target i = hex_target (uj_imm i)"

definition arg_rvc_rs1 :: arg_t where
  "arg_rvc_rs1 i = xpr_name (rvc_rs1 i)"

definition arg_rvc_rs2 :: arg_t where
  "arg_rvc_rs2 i = xpr_name (rvc_rs2 i)"

definition arg_rvc_fp_rs2 :: arg_t where
  "arg_rvc_fp_rs2 i = fpr_name (rvc_rs2 i)"

definition arg_rvc_rs1s :: arg_t where
  "arg_rvc_rs1s i = xpr_name (rvc_rs1s i)"

definition arg_rvc_rs2s :: arg_t where
  "arg_rvc_rs2s i = xpr_name (rvc_rs2s i)"

definition arg_rvc_fp_rs2s :: arg_t where
  "arg_rvc_fp_rs2s i = fpr_name (rvc_rs2s i)"

definition arg_rvc_sp :: arg_t where
  "arg_rvc_sp i = xpr_name X_SP"

definition arg_rvc_imm :: arg_t where
  "arg_rvc_imm i = dec_int (rvc_imm i)"

definition arg_rvc_addi4spn_imm :: arg_t where
  "arg_rvc_addi4spn_imm i = dec_int (rvc_addi4spn_imm i)"

definition arg_rvc_addi16sp_imm :: arg_t where
  "arg_rvc_addi16sp_imm i = dec_int (rvc_addi16sp_imm i)"

definition arg_rvc_lwsp_imm :: arg_t where
  "arg_rvc_lwsp_imm i = dec_int (rvc_lwsp_imm i)"

definition arg_rvc_shamt :: arg_t where
  "arg_rvc_shamt i = dec_int (rvc_imm i AND 0x3f)"

definition arg_rvc_uimm :: arg_t where
  "arg_rvc_uimm i = ''0x'' @ hex (unat (shr (shl (ucast (rvc_imm i) :: u32) 12) 12))"

definition arg_rvc_lwsp_address :: arg_t where
  "arg_rvc_lwsp_address i = dec_int (rvc_lwsp_imm i) @ ''('' @ xpr_name X_SP @ '')''"

definition arg_rvc_ldsp_address :: arg_t where
  "arg_rvc_ldsp_address i = dec_int (rvc_ldsp_imm i) @ ''('' @ xpr_name X_SP @ '')''"

definition arg_rvc_swsp_address :: arg_t where
  "arg_rvc_swsp_address i = dec_int (rvc_swsp_imm i) @ ''('' @ xpr_name X_SP @ '')''"

definition arg_rvc_sdsp_address :: arg_t where
  "arg_rvc_sdsp_address i = dec_int (rvc_sdsp_imm i) @ ''('' @ xpr_name X_SP @ '')''"

definition arg_rvc_lw_address :: arg_t where
  "arg_rvc_lw_address i = dec_int (rvc_lw_imm i) @ ''('' @ xpr_name (rvc_rs1s i) @ '')''"

definition arg_rvc_ld_address :: arg_t where
  "arg_rvc_ld_address i = dec_int (rvc_ld_imm i) @ ''('' @ xpr_name (rvc_rs1s i) @ '')''"

definition arg_rvc_branch_target :: arg_t where
  "arg_rvc_branch_target i = dec_target (rvc_b_imm i)"

definition arg_rvc_jump_target :: arg_t where
  "arg_rvc_jump_target i = dec_target (rvc_j_imm i)"

section \<open>Instructions\<close>

record disasm_insn_t =
  dis_name :: string
  dis_match :: u32
  dis_mask :: u32
  dis_args :: "arg_t list"

definition disasm_matches :: "insn_t \<Rightarrow> disasm_insn_t \<Rightarrow> bool" where
  "disasm_matches bits d \<longleftrightarrow> bits AND ucast (dis_mask d) = ucast (dis_match d)"

definition disasm_to_string :: "disasm_insn_t \<Rightarrow> insn_t \<Rightarrow> string" where
  "disasm_to_string d insn =
     map (\<lambda>c. if c = CHR ''_'' then CHR ''.'' else c) (dis_name d) @
     (if dis_args d = [] then []
      else replicate (max 1 (8 - length (dis_name d))) CHR '' '' @
        concat (map (\<lambda>a. a insn @ '', '') (butlast (dis_args d))) @ last (dis_args d) insn)"

definition disasm_row :: "string \<Rightarrow> insn_t \<Rightarrow> insn_t \<Rightarrow> arg_t list \<Rightarrow> disasm_insn_t" where
  "disasm_row name match msk args = \<lparr>dis_name = name, dis_match = ucast match, dis_mask = ucast msk, dis_args = args\<rparr>"

definition mask_rd :: insn_t where "mask_rd = shl 0x1f 7"
definition match_rd_ra :: insn_t where "match_rd_ra = shl 1 7"
definition mask_rs1 :: insn_t where "mask_rs1 = shl 0x1f 15"
definition match_rs1_ra :: insn_t where "match_rs1_ra = shl 1 15"
definition mask_rs2 :: insn_t where "mask_rs2 = shl 0x1f 20"
definition mask_imm :: insn_t where "mask_imm = shl 0xfff 20"
definition match_imm_1 :: insn_t where "match_imm_1 = shl 1 20"
definition mask_rvc_rs2 :: insn_t where "mask_rvc_rs2 = shl 0x1f 2"
definition mask_rvc_imm :: insn_t where "mask_rvc_imm = mask_rvc_rs2 OR 0x1000"

lemmas disasm_masks = mask_rd_def match_rd_ra_def mask_rs1_def match_rs1_ra_def mask_rs2_def mask_imm_def
  match_imm_1_def mask_rvc_rs2_def mask_rvc_imm_def

text \<open>The macros.\<close>

definition DISASM_INSN :: "string \<Rightarrow> insn_t \<Rightarrow> insn_t \<Rightarrow> insn_t \<Rightarrow> arg_t list \<Rightarrow> disasm_insn_t" where
  "DISASM_INSN name match msk extra args = disasm_row name match (msk OR extra) args"

definition DEFINE_NOARG :: "string \<Rightarrow> insn_t \<Rightarrow> insn_t \<Rightarrow> disasm_insn_t" where
  "DEFINE_NOARG name match msk = disasm_row name match msk []"

definition DEFINE_RTYPE :: "string \<Rightarrow> insn_t \<Rightarrow> insn_t \<Rightarrow> disasm_insn_t" where
  "DEFINE_RTYPE name match msk = DISASM_INSN name match msk (0) [arg_xrd, arg_xrs1, arg_xrs2]"

definition DEFINE_ITYPE :: "string \<Rightarrow> insn_t \<Rightarrow> insn_t \<Rightarrow> disasm_insn_t" where
  "DEFINE_ITYPE name match msk = DISASM_INSN name match msk (0) [arg_xrd, arg_xrs1, arg_imm]"

definition DEFINE_ITYPE_SHIFT :: "string \<Rightarrow> insn_t \<Rightarrow> insn_t \<Rightarrow> disasm_insn_t" where
  "DEFINE_ITYPE_SHIFT name match msk = DISASM_INSN name match msk (0) [arg_xrd, arg_xrs1, arg_shamt]"

definition DEFINE_I0TYPE :: "string \<Rightarrow> insn_t \<Rightarrow> insn_t \<Rightarrow> disasm_insn_t" where
  "DEFINE_I0TYPE name match msk = DISASM_INSN name match msk (mask_rs1) [arg_xrd, arg_imm]"

definition DEFINE_I1TYPE :: "string \<Rightarrow> insn_t \<Rightarrow> insn_t \<Rightarrow> disasm_insn_t" where
  "DEFINE_I1TYPE name match msk = DISASM_INSN name match msk (mask_imm) [arg_xrd, arg_xrs1]"

definition DEFINE_I2TYPE :: "string \<Rightarrow> insn_t \<Rightarrow> insn_t \<Rightarrow> disasm_insn_t" where
  "DEFINE_I2TYPE name match msk = DISASM_INSN name match msk (mask_rd OR mask_imm) [arg_xrs1]"

definition DEFINE_LTYPE :: "string \<Rightarrow> insn_t \<Rightarrow> insn_t \<Rightarrow> disasm_insn_t" where
  "DEFINE_LTYPE name match msk = DISASM_INSN name match msk (0) [arg_xrd, arg_bigimm]"

definition DEFINE_BTYPE :: "string \<Rightarrow> insn_t \<Rightarrow> insn_t \<Rightarrow> disasm_insn_t" where
  "DEFINE_BTYPE name match msk = DISASM_INSN name match msk (0) [arg_xrs1, arg_xrs2, arg_branch_target]"

definition DEFINE_B0TYPE :: "string \<Rightarrow> insn_t \<Rightarrow> insn_t \<Rightarrow> disasm_insn_t" where
  "DEFINE_B0TYPE name match msk = DISASM_INSN name match msk (mask_rs1 OR mask_rs2) [arg_branch_target]"

definition DEFINE_B1TYPE :: "string \<Rightarrow> insn_t \<Rightarrow> insn_t \<Rightarrow> disasm_insn_t" where
  "DEFINE_B1TYPE name match msk = DISASM_INSN name match msk (mask_rs2) [arg_xrs1, arg_branch_target]"

definition DEFINE_XLOAD :: "string \<Rightarrow> insn_t \<Rightarrow> insn_t \<Rightarrow> disasm_insn_t" where
  "DEFINE_XLOAD name match msk = DISASM_INSN name match msk (0) [arg_xrd, arg_load_address]"

definition DEFINE_XSTORE :: "string \<Rightarrow> insn_t \<Rightarrow> insn_t \<Rightarrow> disasm_insn_t" where
  "DEFINE_XSTORE name match msk = DISASM_INSN name match msk (0) [arg_xrs2, arg_store_address]"

definition DEFINE_XAMO :: "string \<Rightarrow> insn_t \<Rightarrow> insn_t \<Rightarrow> disasm_insn_t" where
  "DEFINE_XAMO name match msk = DISASM_INSN name match msk (0) [arg_xrd, arg_xrs2, arg_amo_address]"

definition DEFINE_XAMO_LR :: "string \<Rightarrow> insn_t \<Rightarrow> insn_t \<Rightarrow> disasm_insn_t" where
  "DEFINE_XAMO_LR name match msk = DISASM_INSN name match msk (0) [arg_xrd, arg_amo_address]"

definition DEFINE_FLOAD :: "string \<Rightarrow> insn_t \<Rightarrow> insn_t \<Rightarrow> disasm_insn_t" where
  "DEFINE_FLOAD name match msk = DISASM_INSN name match msk (0) [arg_frd, arg_load_address]"

definition DEFINE_FSTORE :: "string \<Rightarrow> insn_t \<Rightarrow> insn_t \<Rightarrow> disasm_insn_t" where
  "DEFINE_FSTORE name match msk = DISASM_INSN name match msk (0) [arg_frs2, arg_store_address]"

definition DEFINE_FRTYPE :: "string \<Rightarrow> insn_t \<Rightarrow> insn_t \<Rightarrow> disasm_insn_t" where
  "DEFINE_FRTYPE name match msk = DISASM_INSN name match msk (0) [arg_frd, arg_frs1, arg_frs2]"

definition DEFINE_FR1TYPE :: "string \<Rightarrow> insn_t \<Rightarrow> insn_t \<Rightarrow> disasm_insn_t" where
  "DEFINE_FR1TYPE name match msk = DISASM_INSN name match msk (0) [arg_frd, arg_frs1]"

definition DEFINE_FR3TYPE :: "string \<Rightarrow> insn_t \<Rightarrow> insn_t \<Rightarrow> disasm_insn_t" where
  "DEFINE_FR3TYPE name match msk = DISASM_INSN name match msk (0) [arg_frd, arg_frs1, arg_frs2, arg_frs3]"

definition DEFINE_FXTYPE :: "string \<Rightarrow> insn_t \<Rightarrow> insn_t \<Rightarrow> disasm_insn_t" where
  "DEFINE_FXTYPE name match msk = DISASM_INSN name match msk (0) [arg_xrd, arg_frs1]"

definition DEFINE_FX2TYPE :: "string \<Rightarrow> insn_t \<Rightarrow> insn_t \<Rightarrow> disasm_insn_t" where
  "DEFINE_FX2TYPE name match msk = DISASM_INSN name match msk (0) [arg_xrd, arg_frs1, arg_frs2]"

definition DEFINE_XFTYPE :: "string \<Rightarrow> insn_t \<Rightarrow> insn_t \<Rightarrow> disasm_insn_t" where
  "DEFINE_XFTYPE name match msk = DISASM_INSN name match msk (0) [arg_frd, arg_xrs1]"

definition DEFINE_SFENCE_TYPE :: "string \<Rightarrow> insn_t \<Rightarrow> insn_t \<Rightarrow> disasm_insn_t" where
  "DEFINE_SFENCE_TYPE name match msk = DISASM_INSN name match msk (0) [arg_xrs1, arg_xrs2]"

lemmas disasm_macros = disasm_row_def DISASM_INSN_def DEFINE_NOARG_def
  DEFINE_RTYPE_def DEFINE_ITYPE_def DEFINE_ITYPE_SHIFT_def DEFINE_I0TYPE_def DEFINE_I1TYPE_def DEFINE_I2TYPE_def
  DEFINE_LTYPE_def DEFINE_BTYPE_def DEFINE_B0TYPE_def DEFINE_B1TYPE_def DEFINE_XLOAD_def DEFINE_XSTORE_def
  DEFINE_XAMO_def DEFINE_XAMO_LR_def DEFINE_FLOAD_def DEFINE_FSTORE_def DEFINE_FRTYPE_def DEFINE_FR1TYPE_def
  DEFINE_FR3TYPE_def DEFINE_FXTYPE_def DEFINE_FX2TYPE_def DEFINE_XFTYPE_def DEFINE_SFENCE_TYPE_def

section \<open>The table\<close>

definition disasm_memory :: "disasm_insn_t list" where
  "disasm_memory = [
     DEFINE_XLOAD ''lb'' MATCH_LB MASK_LB,
     DEFINE_XLOAD ''lbu'' MATCH_LBU MASK_LBU,
     DEFINE_XLOAD ''lh'' MATCH_LH MASK_LH,
     DEFINE_XLOAD ''lhu'' MATCH_LHU MASK_LHU,
     DEFINE_XLOAD ''lw'' MATCH_LW MASK_LW,
     DEFINE_XLOAD ''lwu'' MATCH_LWU MASK_LWU,
     DEFINE_XLOAD ''ld'' MATCH_LD MASK_LD,
     DEFINE_XSTORE ''sb'' MATCH_SB MASK_SB,
     DEFINE_XSTORE ''sh'' MATCH_SH MASK_SH,
     DEFINE_XSTORE ''sw'' MATCH_SW MASK_SW,
     DEFINE_XSTORE ''sd'' MATCH_SD MASK_SD,
     DEFINE_XAMO ''amoadd_w'' MATCH_AMOADD_W MASK_AMOADD_W,
     DEFINE_XAMO ''amoswap_w'' MATCH_AMOSWAP_W MASK_AMOSWAP_W,
     DEFINE_XAMO ''amoand_w'' MATCH_AMOAND_W MASK_AMOAND_W,
     DEFINE_XAMO ''amoor_w'' MATCH_AMOOR_W MASK_AMOOR_W,
     DEFINE_XAMO ''amoxor_w'' MATCH_AMOXOR_W MASK_AMOXOR_W,
     DEFINE_XAMO ''amomin_w'' MATCH_AMOMIN_W MASK_AMOMIN_W,
     DEFINE_XAMO ''amomax_w'' MATCH_AMOMAX_W MASK_AMOMAX_W,
     DEFINE_XAMO ''amominu_w'' MATCH_AMOMINU_W MASK_AMOMINU_W,
     DEFINE_XAMO ''amomaxu_w'' MATCH_AMOMAXU_W MASK_AMOMAXU_W,
     DEFINE_XAMO ''amoadd_d'' MATCH_AMOADD_D MASK_AMOADD_D,
     DEFINE_XAMO ''amoswap_d'' MATCH_AMOSWAP_D MASK_AMOSWAP_D,
     DEFINE_XAMO ''amoand_d'' MATCH_AMOAND_D MASK_AMOAND_D,
     DEFINE_XAMO ''amoor_d'' MATCH_AMOOR_D MASK_AMOOR_D,
     DEFINE_XAMO ''amoxor_d'' MATCH_AMOXOR_D MASK_AMOXOR_D,
     DEFINE_XAMO ''amomin_d'' MATCH_AMOMIN_D MASK_AMOMIN_D,
     DEFINE_XAMO ''amomax_d'' MATCH_AMOMAX_D MASK_AMOMAX_D,
     DEFINE_XAMO ''amominu_d'' MATCH_AMOMINU_D MASK_AMOMINU_D,
     DEFINE_XAMO ''amomaxu_d'' MATCH_AMOMAXU_D MASK_AMOMAXU_D,
     DEFINE_XAMO_LR ''lr_w'' MATCH_LR_W MASK_LR_W,
     DEFINE_XAMO ''sc_w'' MATCH_SC_W MASK_SC_W,
     DEFINE_XAMO_LR ''lr_d'' MATCH_LR_D MASK_LR_D,
     DEFINE_XAMO ''sc_d'' MATCH_SC_D MASK_SC_D,
     DEFINE_FLOAD ''flw'' MATCH_FLW MASK_FLW,
     DEFINE_FLOAD ''fld'' MATCH_FLD MASK_FLD,
     DEFINE_FLOAD ''flq'' MATCH_FLQ MASK_FLQ,
     DEFINE_FSTORE ''fsw'' MATCH_FSW MASK_FSW,
     DEFINE_FSTORE ''fsd'' MATCH_FSD MASK_FSD,
     DEFINE_FSTORE ''fsq'' MATCH_FSQ MASK_FSQ]"

definition disasm_jumps :: "disasm_insn_t list" where
  "disasm_jumps = [
     disasm_row ''j'' (MATCH_JAL) (MASK_JAL OR mask_rd) [arg_jump_target],
     disasm_row ''jal'' (MATCH_JAL OR match_rd_ra) (MASK_JAL OR mask_rd) [arg_jump_target],
     disasm_row ''jal'' (MATCH_JAL) (MASK_JAL) [arg_xrd, arg_jump_target],
     DEFINE_B1TYPE ''beqz'' MATCH_BEQ MASK_BEQ,
     DEFINE_B1TYPE ''bnez'' MATCH_BNE MASK_BNE,
     DEFINE_B1TYPE ''bltz'' MATCH_BLT MASK_BLT,
     DEFINE_B1TYPE ''bgez'' MATCH_BGE MASK_BGE,
     DEFINE_BTYPE ''beq'' MATCH_BEQ MASK_BEQ,
     DEFINE_BTYPE ''bne'' MATCH_BNE MASK_BNE,
     DEFINE_BTYPE ''blt'' MATCH_BLT MASK_BLT,
     DEFINE_BTYPE ''bge'' MATCH_BGE MASK_BGE,
     DEFINE_BTYPE ''bltu'' MATCH_BLTU MASK_BLTU,
     DEFINE_BTYPE ''bgeu'' MATCH_BGEU MASK_BGEU,
     DEFINE_LTYPE ''lui'' MATCH_LUI MASK_LUI,
     DEFINE_LTYPE ''auipc'' MATCH_AUIPC MASK_AUIPC,
     disasm_row ''ret'' (MATCH_JALR OR match_rs1_ra) (MASK_JALR OR mask_rd OR mask_rs1 OR mask_imm) [],
     DEFINE_I2TYPE ''jr'' MATCH_JALR MASK_JALR,
     disasm_row ''jalr'' (MATCH_JALR OR match_rd_ra) (MASK_JALR OR mask_rd OR mask_imm) [arg_xrs1],
     DEFINE_ITYPE ''jalr'' MATCH_JALR MASK_JALR]"

definition disasm_arithmetic :: "disasm_insn_t list" where
  "disasm_arithmetic = [
     disasm_row ''nop'' (MATCH_ADDI) (MASK_ADDI OR mask_rd OR mask_rs1 OR mask_imm) [],
     disasm_row '' - '' (MATCH_XOR) (MASK_XOR OR mask_rd OR mask_rs1 OR mask_rs2) [],
     DEFINE_I0TYPE ''li'' MATCH_ADDI MASK_ADDI,
     DEFINE_I1TYPE ''mv'' MATCH_ADDI MASK_ADDI,
     DEFINE_ITYPE ''addi'' MATCH_ADDI MASK_ADDI,
     DEFINE_ITYPE ''slti'' MATCH_SLTI MASK_SLTI,
     disasm_row ''seqz'' (MATCH_SLTIU OR match_imm_1) (MASK_SLTIU OR mask_imm) [arg_xrd, arg_xrs1],
     DEFINE_ITYPE ''sltiu'' MATCH_SLTIU MASK_SLTIU,
     disasm_row ''not'' (MATCH_XORI OR mask_imm) (MASK_XORI OR mask_imm) [arg_xrd, arg_xrs1],
     DEFINE_ITYPE ''xori'' MATCH_XORI MASK_XORI,
     DEFINE_ITYPE_SHIFT ''slli'' MATCH_SLLI MASK_SLLI,
     DEFINE_ITYPE_SHIFT ''srli'' MATCH_SRLI MASK_SRLI,
     DEFINE_ITYPE_SHIFT ''srai'' MATCH_SRAI MASK_SRAI,
     DEFINE_ITYPE ''ori'' MATCH_ORI MASK_ORI,
     DEFINE_ITYPE ''andi'' MATCH_ANDI MASK_ANDI,
     DEFINE_I1TYPE ''sext.w'' MATCH_ADDIW MASK_ADDIW,
     DEFINE_ITYPE ''addiw'' MATCH_ADDIW MASK_ADDIW,
     DEFINE_ITYPE_SHIFT ''slliw'' MATCH_SLLIW MASK_SLLIW,
     DEFINE_ITYPE_SHIFT ''srliw'' MATCH_SRLIW MASK_SRLIW,
     DEFINE_ITYPE_SHIFT ''sraiw'' MATCH_SRAIW MASK_SRAIW,
     DEFINE_RTYPE ''add'' MATCH_ADD MASK_ADD,
     DEFINE_RTYPE ''sub'' MATCH_SUB MASK_SUB,
     DEFINE_RTYPE ''sll'' MATCH_SLL MASK_SLL,
     DEFINE_RTYPE ''slt'' MATCH_SLT MASK_SLT,
     disasm_row ''snez'' (MATCH_SLTU) (MASK_SLTU OR mask_rs1) [arg_xrd, arg_xrs2],
     DEFINE_RTYPE ''sltu'' MATCH_SLTU MASK_SLTU,
     DEFINE_RTYPE ''xor'' MATCH_XOR MASK_XOR,
     DEFINE_RTYPE ''srl'' MATCH_SRL MASK_SRL,
     DEFINE_RTYPE ''sra'' MATCH_SRA MASK_SRA,
     DEFINE_RTYPE ''or'' MATCH_OR MASK_OR,
     DEFINE_RTYPE ''and'' MATCH_AND MASK_AND,
     DEFINE_RTYPE ''mul'' MATCH_MUL MASK_MUL,
     DEFINE_RTYPE ''mulh'' MATCH_MULH MASK_MULH,
     DEFINE_RTYPE ''mulhu'' MATCH_MULHU MASK_MULHU,
     DEFINE_RTYPE ''mulhsu'' MATCH_MULHSU MASK_MULHSU,
     DEFINE_RTYPE ''div'' MATCH_DIV MASK_DIV,
     DEFINE_RTYPE ''divu'' MATCH_DIVU MASK_DIVU,
     DEFINE_RTYPE ''rem'' MATCH_REM MASK_REM,
     DEFINE_RTYPE ''remu'' MATCH_REMU MASK_REMU,
     DEFINE_RTYPE ''addw'' MATCH_ADDW MASK_ADDW,
     DEFINE_RTYPE ''subw'' MATCH_SUBW MASK_SUBW,
     DEFINE_RTYPE ''sllw'' MATCH_SLLW MASK_SLLW,
     DEFINE_RTYPE ''srlw'' MATCH_SRLW MASK_SRLW,
     DEFINE_RTYPE ''sraw'' MATCH_SRAW MASK_SRAW,
     DEFINE_RTYPE ''mulw'' MATCH_MULW MASK_MULW,
     DEFINE_RTYPE ''divw'' MATCH_DIVW MASK_DIVW,
     DEFINE_RTYPE ''divuw'' MATCH_DIVUW MASK_DIVUW,
     DEFINE_RTYPE ''remw'' MATCH_REMW MASK_REMW,
     DEFINE_RTYPE ''remuw'' MATCH_REMUW MASK_REMUW]"

definition disasm_system :: "disasm_insn_t list" where
  "disasm_system = [
     DEFINE_NOARG ''ecall'' MATCH_ECALL MASK_ECALL,
     DEFINE_NOARG ''ebreak'' MATCH_EBREAK MASK_EBREAK,
     DEFINE_NOARG ''uret'' MATCH_URET MASK_URET,
     DEFINE_NOARG ''sret'' MATCH_SRET MASK_SRET,
     DEFINE_NOARG ''mret'' MATCH_MRET MASK_MRET,
     DEFINE_NOARG ''dret'' MATCH_DRET MASK_DRET,
     DEFINE_NOARG ''wfi'' MATCH_WFI MASK_WFI,
     DEFINE_NOARG ''fence'' MATCH_FENCE MASK_FENCE,
     DEFINE_NOARG ''fence_i'' MATCH_FENCE_I MASK_FENCE_I,
     DEFINE_SFENCE_TYPE ''sfence_vma'' MATCH_SFENCE_VMA MASK_SFENCE_VMA,
     disasm_row ''csrr'' (MATCH_CSRRS) (MASK_CSRRS OR mask_rs1) [arg_xrd, arg_csr],
     disasm_row ''csrw'' (MATCH_CSRRW) (MASK_CSRRW OR mask_rd) [arg_csr, arg_xrs1],
     disasm_row ''csrs'' (MATCH_CSRRS) (MASK_CSRRS OR mask_rd) [arg_csr, arg_xrs1],
     disasm_row ''csrc'' (MATCH_CSRRC) (MASK_CSRRC OR mask_rd) [arg_csr, arg_xrs1],
     disasm_row ''csrwi'' (MATCH_CSRRWI) (MASK_CSRRWI OR mask_rd) [arg_csr, arg_zimm5],
     disasm_row ''csrsi'' (MATCH_CSRRSI) (MASK_CSRRSI OR mask_rd) [arg_csr, arg_zimm5],
     disasm_row ''csrci'' (MATCH_CSRRCI) (MASK_CSRRCI OR mask_rd) [arg_csr, arg_zimm5],
     disasm_row ''csrrw'' (MATCH_CSRRW) (MASK_CSRRW) [arg_xrd, arg_csr, arg_xrs1],
     disasm_row ''csrrs'' (MATCH_CSRRS) (MASK_CSRRS) [arg_xrd, arg_csr, arg_xrs1],
     disasm_row ''csrrc'' (MATCH_CSRRC) (MASK_CSRRC) [arg_xrd, arg_csr, arg_xrs1],
     disasm_row ''csrrwi'' (MATCH_CSRRWI) (MASK_CSRRWI) [arg_xrd, arg_csr, arg_zimm5],
     disasm_row ''csrrsi'' (MATCH_CSRRSI) (MASK_CSRRSI) [arg_xrd, arg_csr, arg_zimm5],
     disasm_row ''csrrci'' (MATCH_CSRRCI) (MASK_CSRRCI) [arg_xrd, arg_csr, arg_zimm5]]"

definition disasm_single :: "disasm_insn_t list" where
  "disasm_single = [
     DEFINE_FRTYPE ''fadd_s'' MATCH_FADD_S MASK_FADD_S,
     DEFINE_FRTYPE ''fsub_s'' MATCH_FSUB_S MASK_FSUB_S,
     DEFINE_FRTYPE ''fmul_s'' MATCH_FMUL_S MASK_FMUL_S,
     DEFINE_FRTYPE ''fdiv_s'' MATCH_FDIV_S MASK_FDIV_S,
     DEFINE_FR1TYPE ''fsqrt_s'' MATCH_FSQRT_S MASK_FSQRT_S,
     DEFINE_FRTYPE ''fmin_s'' MATCH_FMIN_S MASK_FMIN_S,
     DEFINE_FRTYPE ''fmax_s'' MATCH_FMAX_S MASK_FMAX_S,
     DEFINE_FR3TYPE ''fmadd_s'' MATCH_FMADD_S MASK_FMADD_S,
     DEFINE_FR3TYPE ''fmsub_s'' MATCH_FMSUB_S MASK_FMSUB_S,
     DEFINE_FR3TYPE ''fnmadd_s'' MATCH_FNMADD_S MASK_FNMADD_S,
     DEFINE_FR3TYPE ''fnmsub_s'' MATCH_FNMSUB_S MASK_FNMSUB_S,
     DEFINE_FRTYPE ''fsgnj_s'' MATCH_FSGNJ_S MASK_FSGNJ_S,
     DEFINE_FRTYPE ''fsgnjn_s'' MATCH_FSGNJN_S MASK_FSGNJN_S,
     DEFINE_FRTYPE ''fsgnjx_s'' MATCH_FSGNJX_S MASK_FSGNJX_S,
     DEFINE_FR1TYPE ''fcvt_s_d'' MATCH_FCVT_S_D MASK_FCVT_S_D,
     DEFINE_FR1TYPE ''fcvt_s_q'' MATCH_FCVT_S_Q MASK_FCVT_S_Q,
     DEFINE_XFTYPE ''fcvt_s_l'' MATCH_FCVT_S_L MASK_FCVT_S_L,
     DEFINE_XFTYPE ''fcvt_s_lu'' MATCH_FCVT_S_LU MASK_FCVT_S_LU,
     DEFINE_XFTYPE ''fcvt_s_w'' MATCH_FCVT_S_W MASK_FCVT_S_W,
     DEFINE_XFTYPE ''fcvt_s_wu'' MATCH_FCVT_S_WU MASK_FCVT_S_WU,
     DEFINE_XFTYPE ''fcvt_s_wu'' MATCH_FCVT_S_WU MASK_FCVT_S_WU,
     DEFINE_XFTYPE ''fmv_w_x'' MATCH_FMV_W_X MASK_FMV_W_X,
     DEFINE_FXTYPE ''fcvt_l_s'' MATCH_FCVT_L_S MASK_FCVT_L_S,
     DEFINE_FXTYPE ''fcvt_lu_s'' MATCH_FCVT_LU_S MASK_FCVT_LU_S,
     DEFINE_FXTYPE ''fcvt_w_s'' MATCH_FCVT_W_S MASK_FCVT_W_S,
     DEFINE_FXTYPE ''fcvt_wu_s'' MATCH_FCVT_WU_S MASK_FCVT_WU_S,
     DEFINE_FXTYPE ''fclass_s'' MATCH_FCLASS_S MASK_FCLASS_S,
     DEFINE_FXTYPE ''fmv_x_w'' MATCH_FMV_X_W MASK_FMV_X_W,
     DEFINE_FX2TYPE ''feq_s'' MATCH_FEQ_S MASK_FEQ_S,
     DEFINE_FX2TYPE ''flt_s'' MATCH_FLT_S MASK_FLT_S,
     DEFINE_FX2TYPE ''fle_s'' MATCH_FLE_S MASK_FLE_S]"

definition disasm_double :: "disasm_insn_t list" where
  "disasm_double = [
     DEFINE_FRTYPE ''fadd_d'' MATCH_FADD_D MASK_FADD_D,
     DEFINE_FRTYPE ''fsub_d'' MATCH_FSUB_D MASK_FSUB_D,
     DEFINE_FRTYPE ''fmul_d'' MATCH_FMUL_D MASK_FMUL_D,
     DEFINE_FRTYPE ''fdiv_d'' MATCH_FDIV_D MASK_FDIV_D,
     DEFINE_FR1TYPE ''fsqrt_d'' MATCH_FSQRT_D MASK_FSQRT_D,
     DEFINE_FRTYPE ''fmin_d'' MATCH_FMIN_D MASK_FMIN_D,
     DEFINE_FRTYPE ''fmax_d'' MATCH_FMAX_D MASK_FMAX_D,
     DEFINE_FR3TYPE ''fmadd_d'' MATCH_FMADD_D MASK_FMADD_D,
     DEFINE_FR3TYPE ''fmsub_d'' MATCH_FMSUB_D MASK_FMSUB_D,
     DEFINE_FR3TYPE ''fnmadd_d'' MATCH_FNMADD_D MASK_FNMADD_D,
     DEFINE_FR3TYPE ''fnmsub_d'' MATCH_FNMSUB_D MASK_FNMSUB_D,
     DEFINE_FRTYPE ''fsgnj_d'' MATCH_FSGNJ_D MASK_FSGNJ_D,
     DEFINE_FRTYPE ''fsgnjn_d'' MATCH_FSGNJN_D MASK_FSGNJN_D,
     DEFINE_FRTYPE ''fsgnjx_d'' MATCH_FSGNJX_D MASK_FSGNJX_D,
     DEFINE_FR1TYPE ''fcvt_d_s'' MATCH_FCVT_D_S MASK_FCVT_D_S,
     DEFINE_FR1TYPE ''fcvt_d_q'' MATCH_FCVT_D_Q MASK_FCVT_D_Q,
     DEFINE_XFTYPE ''fcvt_d_l'' MATCH_FCVT_D_L MASK_FCVT_D_L,
     DEFINE_XFTYPE ''fcvt_d_lu'' MATCH_FCVT_D_LU MASK_FCVT_D_LU,
     DEFINE_XFTYPE ''fcvt_d_w'' MATCH_FCVT_D_W MASK_FCVT_D_W,
     DEFINE_XFTYPE ''fcvt_d_wu'' MATCH_FCVT_D_WU MASK_FCVT_D_WU,
     DEFINE_XFTYPE ''fcvt_d_wu'' MATCH_FCVT_D_WU MASK_FCVT_D_WU,
     DEFINE_XFTYPE ''fmv_d_x'' MATCH_FMV_D_X MASK_FMV_D_X,
     DEFINE_FXTYPE ''fcvt_l_d'' MATCH_FCVT_L_D MASK_FCVT_L_D,
     DEFINE_FXTYPE ''fcvt_lu_d'' MATCH_FCVT_LU_D MASK_FCVT_LU_D,
     DEFINE_FXTYPE ''fcvt_w_d'' MATCH_FCVT_W_D MASK_FCVT_W_D,
     DEFINE_FXTYPE ''fcvt_wu_d'' MATCH_FCVT_WU_D MASK_FCVT_WU_D,
     DEFINE_FXTYPE ''fclass_d'' MATCH_FCLASS_D MASK_FCLASS_D,
     DEFINE_FXTYPE ''fmv_x_d'' MATCH_FMV_X_D MASK_FMV_X_D,
     DEFINE_FX2TYPE ''feq_d'' MATCH_FEQ_D MASK_FEQ_D,
     DEFINE_FX2TYPE ''flt_d'' MATCH_FLT_D MASK_FLT_D,
     DEFINE_FX2TYPE ''fle_d'' MATCH_FLE_D MASK_FLE_D]"

definition disasm_quad :: "disasm_insn_t list" where
  "disasm_quad = [
     DEFINE_FRTYPE ''fadd_q'' MATCH_FADD_Q MASK_FADD_Q,
     DEFINE_FRTYPE ''fsub_q'' MATCH_FSUB_Q MASK_FSUB_Q,
     DEFINE_FRTYPE ''fmul_q'' MATCH_FMUL_Q MASK_FMUL_Q,
     DEFINE_FRTYPE ''fdiv_q'' MATCH_FDIV_Q MASK_FDIV_Q,
     DEFINE_FR1TYPE ''fsqrt_q'' MATCH_FSQRT_Q MASK_FSQRT_Q,
     DEFINE_FRTYPE ''fmin_q'' MATCH_FMIN_Q MASK_FMIN_Q,
     DEFINE_FRTYPE ''fmax_q'' MATCH_FMAX_Q MASK_FMAX_Q,
     DEFINE_FR3TYPE ''fmadd_q'' MATCH_FMADD_Q MASK_FMADD_Q,
     DEFINE_FR3TYPE ''fmsub_q'' MATCH_FMSUB_Q MASK_FMSUB_Q,
     DEFINE_FR3TYPE ''fnmadd_q'' MATCH_FNMADD_Q MASK_FNMADD_Q,
     DEFINE_FR3TYPE ''fnmsub_q'' MATCH_FNMSUB_Q MASK_FNMSUB_Q,
     DEFINE_FRTYPE ''fsgnj_q'' MATCH_FSGNJ_Q MASK_FSGNJ_Q,
     DEFINE_FRTYPE ''fsgnjn_q'' MATCH_FSGNJN_Q MASK_FSGNJN_Q,
     DEFINE_FRTYPE ''fsgnjx_q'' MATCH_FSGNJX_Q MASK_FSGNJX_Q,
     DEFINE_FR1TYPE ''fcvt_q_s'' MATCH_FCVT_Q_S MASK_FCVT_Q_S,
     DEFINE_FR1TYPE ''fcvt_q_d'' MATCH_FCVT_Q_D MASK_FCVT_Q_D,
     DEFINE_XFTYPE ''fcvt_q_l'' MATCH_FCVT_Q_L MASK_FCVT_Q_L,
     DEFINE_XFTYPE ''fcvt_q_lu'' MATCH_FCVT_Q_LU MASK_FCVT_Q_LU,
     DEFINE_XFTYPE ''fcvt_q_w'' MATCH_FCVT_Q_W MASK_FCVT_Q_W,
     DEFINE_XFTYPE ''fcvt_q_wu'' MATCH_FCVT_Q_WU MASK_FCVT_Q_WU,
     DEFINE_XFTYPE ''fcvt_q_wu'' MATCH_FCVT_Q_WU MASK_FCVT_Q_WU,
     DEFINE_XFTYPE ''fmv_q_x'' MATCH_FMV_Q_X MASK_FMV_Q_X,
     DEFINE_FXTYPE ''fcvt_l_q'' MATCH_FCVT_L_Q MASK_FCVT_L_Q,
     DEFINE_FXTYPE ''fcvt_lu_q'' MATCH_FCVT_LU_Q MASK_FCVT_LU_Q,
     DEFINE_FXTYPE ''fcvt_w_q'' MATCH_FCVT_W_Q MASK_FCVT_W_Q,
     DEFINE_FXTYPE ''fcvt_wu_q'' MATCH_FCVT_WU_Q MASK_FCVT_WU_Q,
     DEFINE_FXTYPE ''fclass_q'' MATCH_FCLASS_Q MASK_FCLASS_Q,
     DEFINE_FXTYPE ''fmv_x_q'' MATCH_FMV_X_Q MASK_FMV_X_Q,
     DEFINE_FX2TYPE ''feq_q'' MATCH_FEQ_Q MASK_FEQ_Q,
     DEFINE_FX2TYPE ''flt_q'' MATCH_FLT_Q MASK_FLT_Q,
     DEFINE_FX2TYPE ''fle_q'' MATCH_FLE_Q MASK_FLE_Q]"

definition disasm_compressed :: "disasm_insn_t list" where
  "disasm_compressed = [
     DISASM_INSN ''c.ebreak'' MATCH_C_ADD MASK_C_ADD (mask_rd OR mask_rvc_rs2) [],
     disasm_row ''ret'' (MATCH_C_JR OR match_rd_ra) (MASK_C_JR OR mask_rd OR mask_rvc_imm) [],
     DISASM_INSN ''c.jr'' MATCH_C_JR MASK_C_JR (mask_rvc_imm) [arg_rvc_rs1],
     DISASM_INSN ''c.jalr'' MATCH_C_JALR MASK_C_JALR (mask_rvc_imm) [arg_rvc_rs1],
     DISASM_INSN ''c.nop'' MATCH_C_ADDI MASK_C_ADDI (mask_rd OR mask_rvc_imm) [],
     DISASM_INSN ''c.addi16sp'' MATCH_C_ADDI16SP MASK_C_ADDI16SP (mask_rd) [arg_rvc_sp, arg_rvc_addi16sp_imm],
     DISASM_INSN ''c.addi4spn'' MATCH_C_ADDI4SPN MASK_C_ADDI4SPN (0) [arg_rvc_rs1s, arg_rvc_sp, arg_rvc_addi4spn_imm],
     DISASM_INSN ''c.li'' MATCH_C_LI MASK_C_LI (0) [arg_xrd, arg_rvc_imm],
     DISASM_INSN ''c.lui'' MATCH_C_LUI MASK_C_LUI (0) [arg_xrd, arg_rvc_uimm],
     DISASM_INSN ''c.addi'' MATCH_C_ADDI MASK_C_ADDI (0) [arg_xrd, arg_rvc_imm],
     DISASM_INSN ''c.slli'' MATCH_C_SLLI MASK_C_SLLI (0) [arg_rvc_rs1, arg_rvc_shamt],
     DISASM_INSN ''c.srli'' MATCH_C_SRLI MASK_C_SRLI (0) [arg_rvc_rs1s, arg_rvc_shamt],
     DISASM_INSN ''c.srai'' MATCH_C_SRAI MASK_C_SRAI (0) [arg_rvc_rs1s, arg_rvc_shamt],
     DISASM_INSN ''c.andi'' MATCH_C_ANDI MASK_C_ANDI (0) [arg_rvc_rs1s, arg_rvc_imm],
     DISASM_INSN ''c.mv'' MATCH_C_MV MASK_C_MV (0) [arg_xrd, arg_rvc_rs2],
     DISASM_INSN ''c.add'' MATCH_C_ADD MASK_C_ADD (0) [arg_xrd, arg_rvc_rs2],
     DISASM_INSN ''c.addw'' MATCH_C_ADDW MASK_C_ADDW (0) [arg_rvc_rs1s, arg_rvc_rs2s],
     DISASM_INSN ''c.sub'' MATCH_C_SUB MASK_C_SUB (0) [arg_rvc_rs1s, arg_rvc_rs2s],
     DISASM_INSN ''c.subw'' MATCH_C_SUBW MASK_C_SUBW (0) [arg_rvc_rs1s, arg_rvc_rs2s],
     DISASM_INSN ''c.and'' MATCH_C_AND MASK_C_AND (0) [arg_rvc_rs1s, arg_rvc_rs2s],
     DISASM_INSN ''c.or'' MATCH_C_OR MASK_C_OR (0) [arg_rvc_rs1s, arg_rvc_rs2s],
     DISASM_INSN ''c.xor'' MATCH_C_XOR MASK_C_XOR (0) [arg_rvc_rs1s, arg_rvc_rs2s],
     DISASM_INSN ''c.lwsp'' MATCH_C_LWSP MASK_C_LWSP (0) [arg_xrd, arg_rvc_lwsp_address],
     DISASM_INSN ''c.fld'' MATCH_C_FLD MASK_C_FLD (0) [arg_rvc_fp_rs2s, arg_rvc_ld_address],
     DISASM_INSN ''c.swsp'' MATCH_C_SWSP MASK_C_SWSP (0) [arg_rvc_rs2, arg_rvc_swsp_address],
     DISASM_INSN ''c.lw'' MATCH_C_LW MASK_C_LW (0) [arg_rvc_rs2s, arg_rvc_lw_address],
     DISASM_INSN ''c.sw'' MATCH_C_SW MASK_C_SW (0) [arg_rvc_rs2s, arg_rvc_lw_address],
     DISASM_INSN ''c.beqz'' MATCH_C_BEQZ MASK_C_BEQZ (0) [arg_rvc_rs1s, arg_rvc_branch_target],
     DISASM_INSN ''c.bnez'' MATCH_C_BNEZ MASK_C_BNEZ (0) [arg_rvc_rs1s, arg_rvc_branch_target],
     DISASM_INSN ''c.j'' MATCH_C_J MASK_C_J (0) [arg_rvc_jump_target],
     DISASM_INSN ''c.fldsp'' MATCH_C_FLDSP MASK_C_FLDSP (0) [arg_rvc_fp_rs2s, arg_rvc_ldsp_address],
     DISASM_INSN ''c.fsd'' MATCH_C_FSD MASK_C_FSD (0) [arg_rvc_fp_rs2s, arg_rvc_ld_address],
     DISASM_INSN ''c.fsdsp'' MATCH_C_FSDSP MASK_C_FSDSP (0) [arg_rvc_fp_rs2s, arg_rvc_sdsp_address]]"

definition disasm_rv32 :: "disasm_insn_t list" where
  "disasm_rv32 = [
     DISASM_INSN ''c.flw'' MATCH_C_FLW MASK_C_FLW (0) [arg_rvc_fp_rs2s, arg_rvc_lw_address],
     DISASM_INSN ''c.flwsp'' MATCH_C_FLWSP MASK_C_FLWSP (0) [arg_frd, arg_rvc_lwsp_address],
     DISASM_INSN ''c.fsw'' MATCH_C_FSW MASK_C_FSW (0) [arg_rvc_fp_rs2s, arg_rvc_lw_address],
     DISASM_INSN ''c.fswsp'' MATCH_C_FSWSP MASK_C_FSWSP (0) [arg_rvc_fp_rs2, arg_rvc_swsp_address],
     DISASM_INSN ''c.jal'' MATCH_C_JAL MASK_C_JAL (0) [arg_rvc_jump_target]]"

definition disasm_rv64 :: "disasm_insn_t list" where
  "disasm_rv64 = [
     DISASM_INSN ''c.ld'' MATCH_C_LD MASK_C_LD (0) [arg_rvc_rs2s, arg_rvc_ld_address],
     DISASM_INSN ''c.ldsp'' MATCH_C_LDSP MASK_C_LDSP (0) [arg_xrd, arg_rvc_ldsp_address],
     DISASM_INSN ''c.sd'' MATCH_C_SD MASK_C_SD (0) [arg_rvc_rs2s, arg_rvc_ld_address],
     DISASM_INSN ''c.sdsp'' MATCH_C_SDSP MASK_C_SDSP (0) [arg_rvc_rs2, arg_rvc_sdsp_address],
     DISASM_INSN ''c.addiw'' MATCH_C_ADDIW MASK_C_ADDIW (0) [arg_xrd, arg_rvc_imm]]"

definition disasm_explicit :: "nat \<Rightarrow> disasm_insn_t list" where
  "disasm_explicit xlen = disasm_memory @ disasm_jumps @ disasm_arithmetic @ disasm_system @ disasm_single @
     disasm_double @ disasm_quad @ disasm_compressed @ (if xlen = 32 then disasm_rv32 else disasm_rv64)"

text \<open>The default entries for all instructions.\<close>

definition disasm_default :: "disasm_insn_t list" where
  "disasm_default = map (\<lambda>(name, match, msk). disasm_row (name @ '' (args unknown)'') match msk []) declared_insns"

section \<open>The hash table\<close>

definition HASH_SIZE :: nat where "HASH_SIZE = 256"

type_synonym disassembler = "nat \<Rightarrow> disasm_insn_t list"

definition add_insn :: "disasm_insn_t \<Rightarrow> disassembler \<Rightarrow> disassembler" where
  "add_insn d chain =
     (let idx = (if unat (dis_mask d) mod HASH_SIZE = HASH_SIZE - 1 then unat (dis_match d) mod HASH_SIZE else HASH_SIZE)
      in chain(idx := chain idx @ [d]))"

definition disassembler_t :: "nat \<Rightarrow> disassembler" where
  "disassembler_t xlen = fold add_insn (disasm_explicit xlen @ disasm_default) (\<lambda>i. [])"

definition disasm_lookup :: "insn_t \<Rightarrow> disassembler \<Rightarrow> disasm_insn_t option" where
  "disasm_lookup insn chain =
     (case find (disasm_matches insn) (chain (unat insn mod HASH_SIZE)) of
        Some d \<Rightarrow> Some d
      | None \<Rightarrow> find (disasm_matches insn) (chain HASH_SIZE))"

definition disassemble :: "insn_t \<Rightarrow> disassembler \<Rightarrow> string" where
  "disassemble insn chain = (case disasm_lookup insn chain of
     Some d \<Rightarrow> disasm_to_string d insn | None \<Rightarrow> ''unknown'')"

end
