(* ===== verification/DisasmLaws.thy ===== *)
theory DisasmLaws
  imports Disasm DecodeCache
begin

text \<open>
  The disassembler is right: its hash table is a linear search, and what it prints for an
  instruction word is an entry of the instruction that the decoder selects.
\<close>

section \<open>The hash table\<close>

definition hashed :: "disasm_insn_t \<Rightarrow> bool" where
  "hashed d \<longleftrightarrow> unat (dis_mask d) mod HASH_SIZE = HASH_SIZE - 1"

text \<open>The search that the table implements.\<close>

definition linear_lookup :: "insn_t \<Rightarrow> disasm_insn_t list \<Rightarrow> disasm_insn_t option" where
  "linear_lookup w ds = (case find (\<lambda>d. hashed d \<and> disasm_matches w d) ds of
     Some d \<Rightarrow> Some d | None \<Rightarrow> find (\<lambda>d. \<not> hashed d \<and> disasm_matches w d) ds)"

lemma chains:
  "fold add_insn ds c i = c i @ filter (\<lambda>d. (if hashed d then unat (dis_match d) mod HASH_SIZE else HASH_SIZE) = i) ds"
  by (induction ds arbitrary: c) (auto simp: add_insn_def hashed_def Let_def)

lemma find_filter: "find P (filter Q xs) = find (\<lambda>x. Q x \<and> P x) xs"
  by (induction xs) auto

lemma low_byte: "unat (take_bit 8 (x::'a::len word)) = unat x mod 256"
  by (simp only: unsigned_take_bit_eq) (simp add: take_bit_eq_mod)

lemma same_bucket:
  assumes "hashed d" "disasm_matches w d"
  shows "unat (dis_match d) mod HASH_SIZE = unat w mod HASH_SIZE"
proof -
  have "unat (take_bit 8 (dis_mask d)) = take_bit 8 (unat (dis_mask d))" by (rule unsigned_take_bit_eq)
  also have "\<dots> = 255" using assms(1) by (simp add: hashed_def HASH_SIZE_def take_bit_eq_mod)
  also have "\<dots> = unat (mask 8 :: u32)" by (simp add: mask_eq_exp_minus_1)
  finally have "unat (take_bit 8 (dis_mask d)) = unat (mask 8 :: u32)" .
  then have low: "take_bit 8 (dis_mask d) = mask 8" by (rule unsigned_word_eqI)
  have "take_bit 8 (w AND ucast (dis_mask d)) = take_bit 8 (ucast (dis_match d))"
    using assms(2) by (simp add: disasm_matches_def)
  then have "take_bit 8 w AND ucast (mask 8 :: u32) = ucast (take_bit 8 (dis_match d))"
    using low by (simp add: take_bit_and unsigned_take_bit_eq [symmetric])
  moreover have "take_bit 8 w AND ucast (mask 8 :: u32) = take_bit 8 w"
    by (simp add: take_bit_eq_mask mask_eq_exp_minus_1 and.assoc)
  ultimately have "take_bit 8 w = ucast (take_bit 8 (dis_match d))" by simp
  then have "unat (take_bit 8 w) = unat (take_bit 8 (dis_match d))"
    by (simp add: unsigned_ucast_eq take_bit_take_bit unsigned_take_bit_eq)
  then show ?thesis by (simp add: HASH_SIZE_def low_byte)
qed

lemma hash_is_linear_search: "disasm_lookup w (fold add_insn ds (\<lambda>i. [])) = linear_lookup w ds"
proof -
  let ?b = "\<lambda>d. if hashed d then unat (dis_match d) mod HASH_SIZE else HASH_SIZE"
  have pos: "n mod HASH_SIZE < HASH_SIZE" for n by (simp add: HASH_SIZE_def)
  have "(?b d = unat w mod HASH_SIZE \<and> disasm_matches w d) = (hashed d \<and> disasm_matches w d)" for d
    using same_bucket [of d w] pos [of "unat w"] by auto
  moreover have "(?b d = HASH_SIZE \<and> disasm_matches w d) = (\<not> hashed d \<and> disasm_matches w d)" for d
    using pos [of "unat (dis_match d)"] by auto
  ultimately show ?thesis
    by (simp add: disasm_lookup_def linear_lookup_def chains find_filter del: if_split cong: option.case_cong)
qed

section \<open>Entries and instructions\<close>

text \<open>An entry is a case of a declared instruction: it fixes at least the bits of its encoding, as it does.\<close>

definition case_of :: "insn_row \<Rightarrow> disasm_insn_t \<Rightarrow> bool" where
  "case_of r d \<longleftrightarrow> ucast (dis_mask d) AND snd (snd r) = snd (snd r) \<and> ucast (dis_match d) AND snd (snd r) = fst (snd r)"

lemma case_of_accepts:
  assumes "case_of r d" "disasm_matches w d"
  shows "row_accepts (snd r) w"
proof -
  have "w AND snd (snd r) = (w AND ucast (dis_mask d)) AND snd (snd r)"
    using assms(1) by (simp add: case_of_def and.assoc)
  then show ?thesis using assms by (simp add: case_of_def disasm_matches_def row_accepts_def)
qed

definition chunk :: "nat \<Rightarrow> insn_row list" where
  "chunk c = (if c = 1 then declared_insns_1 else if c = 2 then declared_insns_2
     else if c = 3 then declared_insns_3 else declared_insns_4)"

definition case_of_all :: "(nat \<times> nat) list \<Rightarrow> disasm_insn_t list \<Rightarrow> bool" where
  "case_of_all js ds \<longleftrightarrow> list_all2 (\<lambda>(c, i) d. i < length (chunk c) \<and> case_of (chunk c ! i) d) js ds"

lemma chunk_length: "length (chunk 1) = 66" "length (chunk 2) = 66" "length (chunk 3) = 66" "length (chunk 4) = 64"
  by (simp_all add: chunk_def declared_insns_1_def declared_insns_2_def declared_insns_3_def declared_insns_4_def)

lemma chunk_names: "chunk 1 = declared_insns_1" "chunk 2 = declared_insns_2" "chunk 3 = declared_insns_3" "chunk 4 = declared_insns_4"
  by (simp_all add: chunk_def)

lemmas chunk_nth = chunk_names nth_Cons_0 nth_Cons_1 nth_Cons_Suc nth_Cons_pred_numeral
  pred_numeral_simps BitM.simps declared_insns_1_def declared_insns_2_def declared_insns_3_def declared_insns_4_def

lemma disasm_memory_cases: "case_of_all
     [(1, 38), (1, 42), (1, 39), (1, 43), (1, 40), (1, 44), (1, 41), (1, 45), (1, 46), (1, 47), (1, 48), (1, 64),
     (2, 6), (2, 1), (2, 0), (1, 65), (2, 2), (2, 3), (2, 4), (2, 5), (2, 9), (2, 17), (2, 12), (2, 11), (2, 10),
     (2, 13), (2, 14), (2, 15), (2, 16), (2, 7), (2, 8), (2, 18), (2, 19), (3, 46), (3, 47), (3, 48), (3, 49),
     (3, 50), (3, 51)]
     disasm_memory"
  unfolding case_of_all_def disasm_memory_def list.rel_inject prod.case
  apply (simp only: chunk_length chunk_nth)
  apply (simp add: case_of_def disasm_macros disasm_masks insn_consts)
  done

lemma disasm_jumps_cases: "case_of_all
     [(1, 7), (1, 7), (1, 7), (1, 0), (1, 1), (1, 2), (1, 3), (1, 0), (1, 1), (1, 2), (1, 3), (1, 4), (1, 5), (1, 8),
     (1, 9), (1, 6), (1, 6), (1, 6), (1, 6)]
     disasm_jumps"
  unfolding case_of_all_def disasm_jumps_def list.rel_inject prod.case
  apply (simp only: chunk_length chunk_nth)
  apply (simp add: case_of_def disasm_macros disasm_masks insn_consts)
  done

lemma disasm_arithmetic_cases: "case_of_all
     [(1, 10), (1, 24), (1, 10), (1, 10), (1, 10), (1, 12), (1, 13), (1, 13), (1, 14), (1, 14), (1, 11), (1, 15),
     (1, 16), (1, 17), (1, 18), (1, 29), (1, 29), (1, 30), (1, 31), (1, 32), (1, 19), (1, 20), (1, 21), (1, 22),
     (1, 23), (1, 23), (1, 24), (1, 25), (1, 26), (1, 27), (1, 28), (1, 51), (1, 52), (1, 54), (1, 53), (1, 55),
     (1, 56), (1, 57), (1, 58), (1, 33), (1, 34), (1, 35), (1, 36), (1, 37), (1, 59), (1, 60), (1, 61), (1, 62),
     (1, 63)]
     disasm_arithmetic"
  unfolding case_of_all_def disasm_arithmetic_def list.rel_inject prod.case
  apply (simp only: chunk_length chunk_nth)
  apply (simp add: case_of_def disasm_macros disasm_masks insn_consts)
  done

lemma disasm_system_cases: "case_of_all
     [(2, 20), (2, 21), (2, 22), (2, 23), (2, 24), (2, 25), (2, 27), (1, 49), (1, 50), (2, 26), (2, 29), (2, 28),
     (2, 29), (2, 30), (2, 31), (2, 32), (2, 33), (2, 28), (2, 29), (2, 30), (2, 31), (2, 32), (2, 33)]
     disasm_system"
  unfolding case_of_all_def disasm_system_def list.rel_inject prod.case
  apply (simp only: chunk_length chunk_nth)
  apply (simp add: case_of_def disasm_macros disasm_masks insn_consts)
  done

lemma disasm_single_cases: "case_of_all
     [(2, 34), (2, 35), (2, 36), (2, 37), (2, 43), (2, 41), (2, 42), (3, 52), (3, 53), (3, 55), (3, 54), (2, 38),
     (2, 39), (2, 40), (2, 53), (2, 65), (3, 33), (3, 34), (3, 31), (3, 32), (3, 32), (3, 35), (3, 15), (3, 16),
     (3, 13), (3, 14), (3, 18), (3, 17), (3, 6), (3, 5), (3, 4)]
     disasm_single"
  unfolding case_of_all_def disasm_single_def list.rel_inject prod.case
  apply (simp only: chunk_length chunk_nth)
  apply (simp add: case_of_def disasm_macros disasm_masks insn_consts)
  done

lemma disasm_double_cases: "case_of_all
     [(2, 44), (2, 45), (2, 46), (2, 47), (2, 55), (2, 51), (2, 52), (3, 56), (3, 57), (3, 59), (3, 58), (2, 48),
     (2, 49), (2, 50), (2, 54), (3, 1), (3, 38), (3, 39), (3, 36), (3, 37), (3, 37), (3, 40), (3, 21), (3, 22),
     (3, 19), (3, 20), (3, 24), (3, 23), (3, 9), (3, 8), (3, 7)]
     disasm_double"
  unfolding case_of_all_def disasm_double_def list.rel_inject prod.case
  apply (simp only: chunk_length chunk_nth)
  apply (simp add: case_of_def disasm_macros disasm_masks insn_consts)
  done

lemma disasm_quad_cases: "case_of_all
     [(2, 56), (2, 57), (2, 58), (2, 59), (3, 3), (2, 63), (2, 64), (3, 60), (3, 61), (3, 63), (3, 62), (2, 60),
     (2, 61), (2, 62), (3, 0), (3, 2), (3, 43), (3, 44), (3, 41), (3, 42), (3, 42), (3, 45), (3, 27), (3, 28),
     (3, 25), (3, 26), (3, 30), (3, 29), (3, 12), (3, 11), (3, 10)]
     disasm_quad"
  unfolding case_of_all_def disasm_quad_def list.rel_inject prod.case
  apply (simp only: chunk_length chunk_nth)
  apply (simp add: case_of_def disasm_macros disasm_masks insn_consts)
  done

lemma disasm_compressed_cases: "case_of_all
     [(4, 36), (4, 0), (4, 0), (4, 1), (4, 15), (4, 18), (4, 8), (4, 17), (4, 18), (4, 15), (4, 31), (4, 19),
     (4, 20), (4, 21), (4, 35), (4, 36), (4, 27), (4, 22), (4, 26), (4, 25), (4, 24), (4, 23), (4, 33), (4, 9),
     (4, 38), (4, 10), (4, 13), (4, 29), (4, 30), (4, 28), (4, 32), (4, 12), (4, 37)]
     disasm_compressed"
  unfolding case_of_all_def disasm_compressed_def list.rel_inject prod.case
  apply (simp only: chunk_length chunk_nth)
  apply (simp add: case_of_def disasm_macros disasm_masks insn_consts)
  done

lemma disasm_rv32_cases: "case_of_all
     [(4, 11), (4, 34), (4, 14), (4, 39), (4, 16)]
     disasm_rv32"
  unfolding case_of_all_def disasm_rv32_def list.rel_inject prod.case
  apply (simp only: chunk_length chunk_nth)
  apply (simp add: case_of_def disasm_macros disasm_masks insn_consts)
  done

lemma disasm_rv64_cases: "case_of_all
     [(4, 3), (4, 6), (4, 4), (4, 7), (4, 5)]
     disasm_rv64"
  unfolding case_of_all_def disasm_rv64_def list.rel_inject prod.case
  apply (simp only: chunk_length chunk_nth)
  apply (simp add: case_of_def disasm_macros disasm_masks insn_consts)
  done

section \<open>Every entry of the disassembler\<close>

lemma case_of_all_declared:
  assumes "case_of_all js ds" "d \<in> set ds"
  shows "\<exists>r \<in> set declared_insns. case_of r d"
proof -
  obtain k where k: "k < length ds" "ds ! k = d" using assms(2) by (auto simp: in_set_conv_nth)
  obtain c i where "js ! k = (c, i)" by (cases "js ! k")
  then have "i < length (chunk c) \<and> case_of (chunk c ! i) d"
    using assms(1) k by (auto simp: case_of_all_def list_all2_conv_all_nth)
  moreover have "set (chunk c) \<subseteq> set declared_insns" by (auto simp: chunk_def declared_insns_def)
  ultimately show ?thesis by (meson nth_mem subsetD)
qed

lemmas explicit_cases = disasm_memory_cases disasm_jumps_cases disasm_arithmetic_cases disasm_system_cases
  disasm_single_cases disasm_double_cases disasm_quad_cases disasm_compressed_cases disasm_rv32_cases
  disasm_rv64_cases

definition fits :: "insn_row \<Rightarrow> bool" where
  "fits r \<longleftrightarrow> ucast (ucast (fst (snd r)) :: u32) = fst (snd r) \<and> ucast (ucast (snd (snd r)) :: u32) = snd (snd r)
     \<and> fst (snd r) AND snd (snd r) = fst (snd r)"

lemma declared_fit: "r \<in> set declared_insns \<Longrightarrow> fits r"
proof -
  have "list_all fits declared_insns"
    by (simp only: declared_insns_defs append.simps list.pred_inject fits_def fst_conv snd_conv)
      (simp add: insn_consts)
  then show "r \<in> set declared_insns \<Longrightarrow> fits r" by (auto simp: list_all_iff)
qed

lemma c_addi16sp_is_c_lui: "r \<in> set declared_insns \<Longrightarrow> case_of r d \<Longrightarrow> \<exists>r \<in> set declared_encodings. case_of r d"
proof (cases "r \<in> set declared_encodings")
  case False
  assume r: "r \<in> set declared_insns" "case_of r d"
  let ?lui = "(''c_lui'', MATCH_C_LUI, MASK_C_LUI) :: insn_row"
  have "fst r = ''c_addi16sp''" using r False by (simp add: declared_encodings_def)
  moreover have "list_all (\<lambda>r. fst r = ''c_addi16sp'' \<longrightarrow> snd r = (MATCH_C_ADDI16SP, MASK_C_ADDI16SP)) declared_insns_3"
    by (simp add: declared_insns_3_def)
  ultimately have "snd r = (MATCH_C_ADDI16SP, MASK_C_ADDI16SP)"
    using r False by (auto simp: declared_encodings_chunks declared_insns_def list_all_iff)
  then have "case_of ?lui d"
  proof -
    assume "snd r = (MATCH_C_ADDI16SP, MASK_C_ADDI16SP)"
    then have e: "ucast (dis_mask d) AND MASK_C_ADDI16SP = MASK_C_ADDI16SP" "ucast (dis_match d) AND MASK_C_ADDI16SP = MATCH_C_ADDI16SP"
      using r(2) by (simp_all add: case_of_def)
    have m: "MASK_C_LUI = MASK_C_ADDI16SP AND MASK_C_LUI" "MATCH_C_ADDI16SP AND MASK_C_LUI = MATCH_C_LUI"
      by (simp_all add: insn_consts)
    have lift: "x AND MASK_C_LUI = (x AND MASK_C_ADDI16SP) AND MASK_C_LUI" for x
      using m(1) by (simp add: and.assoc)
    show ?thesis
      using lift [of "ucast (dis_mask d)"] lift [of "ucast (dis_match d)"] e m(1) [symmetric] m(2)
      by (simp add: case_of_def)
  qed
  moreover have "?lui \<in> set declared_encodings"
    by (simp add: declared_encodings_chunks declared_insns_4_def)
  ultimately show ?thesis by blast
qed blast

lemma entry_is_case:
  assumes "d \<in> set (disasm_explicit xlen @ disasm_default)"
  shows "\<exists>r \<in> set declared_encodings. case_of r d"
proof -
  have "\<exists>r \<in> set declared_insns. case_of r d"
  proof (cases "d \<in> set disasm_default")
    case True
    then obtain r where r: "r \<in> set declared_insns" "d = disasm_row (fst r @ '' (args unknown)'') (fst (snd r)) (snd (snd r)) []"
      by (auto simp: disasm_default_def)
    then have "case_of r d" using declared_fit [of r] by (simp add: case_of_def fits_def disasm_row_def)
    with r show ?thesis by blast
  next
    case False
    then have "d \<in> set disasm_memory \<union> set disasm_jumps \<union> set disasm_arithmetic \<union> set disasm_system \<union> set disasm_single
        \<union> set disasm_double \<union> set disasm_quad \<union> set disasm_compressed \<union> set disasm_rv32 \<union> set disasm_rv64"
      using assms by (auto simp only: disasm_explicit_def set_append Un_iff split: if_splits)
    then show ?thesis using explicit_cases [THEN case_of_all_declared] by blast
  qed
  then show ?thesis using c_addi16sp_is_c_lui by blast
qed

lemma registered_has_entry:
  assumes "r \<in> set registered_insns" "row_accepts (snd r) w"
  shows "\<exists>d \<in> set (disasm_explicit xlen @ disasm_default). disasm_matches w d"
proof -
  let ?d = "disasm_row (fst r @ '' (args unknown)'') (fst (snd r)) (snd (snd r)) []"
  have r: "r \<in> set declared_insns"
    using registered_declared [OF assms(1)] by (simp add: declared_encodings_def)
  then have "?d \<in> set disasm_default" by (auto simp: disasm_default_def split_beta intro!: rev_image_eqI)
  moreover have "disasm_matches w ?d"
    using declared_fit [OF r] assms(2) by (simp add: disasm_matches_def fits_def disasm_row_def row_accepts_def)
  ultimately show ?thesis by auto
qed

lemma linear_lookup_None: "linear_lookup w ds = None \<longleftrightarrow> (\<forall>d \<in> set ds. \<not> disasm_matches w d)"
  by (auto simp: linear_lookup_def find_None_iff split: option.splits dest: find_SomeD)

lemma linear_lookup_Some: "linear_lookup w ds = Some d \<Longrightarrow> d \<in> set ds \<and> disasm_matches w d"
  by (auto simp: linear_lookup_def split: option.splits dest: find_SomeD)


end
