(* ===== verification/Numbers.thy ===== *)
theory Numbers
  imports Disasm
begin

text \<open>
  How the C library reads numbers (\<open>strtoull\<close>, \<open>strtoul\<close>, \<open>strtol\<close>), for the command line and the
  interactive prompt, and that it reads what the printers of theory \<open>Disasm\<close> print.  A \<open>long\<close> has 64
  bits.  The second component of a result is the end pointer: the text that is left.
\<close>

section \<open>Digits\<close>

definition is_space :: "char \<Rightarrow> bool" where
  "is_space c \<longleftrightarrow> c = CHR '' '' \<or> c \<in> {CHR 0x09, CHR 0x0A, CHR 0x0B, CHR 0x0C, CHR 0x0D}"

definition digit_of :: "char \<Rightarrow> nat option" where
  "digit_of c =
     (let n = of_char c :: nat in
      if 48 \<le> n \<and> n \<le> 57 then Some (n - 48)
      else if 97 \<le> n \<and> n \<le> 122 then Some (n - 87)
      else if 65 \<le> n \<and> n \<le> 90 then Some (n - 55)
      else None)"

definition in_base :: "nat \<Rightarrow> char \<Rightarrow> bool" where
  "in_base b c = (case digit_of c of None \<Rightarrow> False | Some k \<Rightarrow> k < b)"

definition value_of :: "nat \<Rightarrow> string \<Rightarrow> nat" where
  "value_of b ds = foldl (\<lambda>n c. n * b + the (digit_of c)) 0 ds"

section \<open>Reading a number\<close>

definition hex_prefix :: "string \<Rightarrow> bool" where
  "hex_prefix s = (case s of
     z # x # d # _ \<Rightarrow> z = CHR ''0'' \<and> x \<in> {CHR ''x'', CHR ''X''} \<and> in_base 16 d | _ \<Rightarrow> False)"

definition select_base :: "nat \<Rightarrow> string \<Rightarrow> nat \<times> string" where
  "select_base b s =
     (if b \<in> {0, 16} \<and> hex_prefix s then (16, drop 2 s)
      else if b = 0 then (if s \<noteq> [] \<and> hd s = CHR ''0'' then 8 else 10, s)
      else (b, s))"

text \<open>The sign and the magnitude; without digits nothing is consumed.\<close>

definition scan_number :: "nat \<Rightarrow> string \<Rightarrow> (bool \<times> nat) option \<times> string" where
  "scan_number base s =
     (let t = dropWhile is_space s;
          u = (if t \<noteq> [] \<and> hd t \<in> {CHR ''-'', CHR ''+''} then tl t else t);
          (b, v) = select_base base u; ds = takeWhile (in_base b) v
      in if ds = [] then (None, s)
         else (Some (t \<noteq> [] \<and> hd t = CHR ''-'', value_of b ds), dropWhile (in_base b) v))"

text \<open>\<open>strtoull\<close> and \<open>strtoul\<close> negate in 64 bits and saturate; \<open>strtol\<close> saturates at both ends.\<close>

definition strtoull :: "nat \<Rightarrow> string \<Rightarrow> reg_t \<times> string" where
  "strtoull base s = (case scan_number base s of
     (None, r) \<Rightarrow> (0, r)
   | (Some (neg, n), r) \<Rightarrow> (if n \<ge> 2 ^ 64 then -1 else if neg then - of_nat n else of_nat n, r))"

definition LONG_MAX :: reg_t where "LONG_MAX = 0x7fffffffffffffff"

definition strtol :: "nat \<Rightarrow> string \<Rightarrow> reg_t \<times> string" where
  "strtol base s = (case scan_number base s of
     (None, r) \<Rightarrow> (0, r)
   | (Some (neg, n), r) \<Rightarrow>
       (if neg then (if n \<ge> 2 ^ 63 then - 0x8000000000000000 else - of_nat n)
        else (if n \<ge> 2 ^ 63 then LONG_MAX else of_nat n), r))"

section \<open>What is left\<close>

lemma select_base_length: "select_base b s = (b', v) \<Longrightarrow> length v \<le> length s"
  by (auto simp: select_base_def split: if_splits)

lemma scan_number_length: "scan_number base s = (r, t) \<Longrightarrow> length t \<le> length s"
proof -
  assume a: "scan_number base s = (r, t)"
  define u where "u = dropWhile is_space s"
  define w where "w = (if u \<noteq> [] \<and> hd u \<in> {CHR ''-'', CHR ''+''} then tl u else u)"
  obtain b v where bv: "select_base base w = (b, v)" by fastforce
  have "length (dropWhile (in_base b) v) \<le> length v" by (rule length_dropWhile_le)
  also have "\<dots> \<le> length w" using select_base_length [OF bv] .
  also have "\<dots> \<le> length u" by (simp add: w_def)
  also have "\<dots> \<le> length s" unfolding u_def by (rule length_dropWhile_le)
  finally have "length (dropWhile (in_base b) v) \<le> length s" .
  moreover have "scan_number base s = (if takeWhile (in_base b) v = [] then (None, s)
      else (Some (u \<noteq> [] \<and> hd u = CHR ''-'', value_of b (takeWhile (in_base b) v)), dropWhile (in_base b) v))"
    unfolding scan_number_def Let_def u_def [symmetric] w_def [symmetric] bv by simp
  ultimately show ?thesis using a by (auto split: if_splits)
qed

lemma strtoull_length: "length (snd (strtoull base s)) \<le> length s"
  using scan_number_length [of base s] by (auto simp: strtoull_def split: prod.splits option.splits)

section \<open>Printed numbers are read back\<close>

lemma digit_of_digit: "k < 16 \<Longrightarrow> digit_of (digit k) = Some k"
proof -
  have "list_all (\<lambda>k. digit_of (digit k) = Some k) [0..<16]" by code_simp
  then show "k < 16 \<Longrightarrow> digit_of (digit k) = Some k" by (simp add: list_all_iff)
qed

lemma print_nat_in_base:
  assumes "1 < b" "b \<le> 16"
  shows "\<forall>c \<in> set (print_nat b n). in_base b c"
  using assms
proof (induction b n rule: print_nat.induct)
  case (1 b n)
  then show ?case
    by (subst print_nat.simps) (auto simp: in_base_def digit_of_digit less_le_trans [OF mod_less_divisor])
qed

lemma value_of_print_nat:
  assumes "1 < b" "b \<le> 16"
  shows "value_of b (print_nat b n) = n"
  using assms
proof (induction b n rule: print_nat.induct)
  case (1 b n)
  then show ?case
    by (subst print_nat.simps) (auto simp: value_of_def digit_of_digit less_le_trans [OF mod_less_divisor])
qed

lemma print_nat_not_Nil: "print_nat b n \<noteq> []"
  by (subst print_nat.simps) simp

text \<open>A text that does not go on with a digit.\<close>

definition stops :: "nat \<Rightarrow> string \<Rightarrow> bool" where
  "stops b s \<longleftrightarrow> (case s of [] \<Rightarrow> True | c # _ \<Rightarrow> \<not> in_base b c)"

lemma take_digits:
  assumes "\<forall>c \<in> set ds. in_base b c" "stops b rest"
  shows "takeWhile (in_base b) (ds @ rest) = ds" "dropWhile (in_base b) (ds @ rest) = rest"
  using assms by (auto simp: takeWhile_append dropWhile_append stops_def split: list.splits)

lemma plain_number:
  assumes "\<forall>c \<in> set ds. in_base b c" "ds \<noteq> []"
  shows "dropWhile is_space (ds @ rest) = ds @ rest" "hd (ds @ rest) \<notin> {CHR ''-'', CHR ''+''}"
proof -
  obtain c cs where ds: "ds = c # cs" "in_base b c" using assms by (cases ds) auto
  then have "\<not> is_space c" "c \<noteq> CHR ''-''" "c \<noteq> CHR ''+''"
    by (auto simp: is_space_def in_base_def digit_of_def)
  then show "dropWhile is_space (ds @ rest) = ds @ rest" "hd (ds @ rest) \<notin> {CHR ''-'', CHR ''+''}"
    by (simp_all add: ds)
qed

lemma scan_print:
  assumes "select_base base (pre @ print_nat b n @ rest) = (b, print_nat b n @ rest)"
    and "1 < b" "b \<le> 16" "stops b rest" "pre = [] \<or> hd pre = CHR ''0''"
  shows "scan_number base (pre @ print_nat b n @ rest) = (Some (False, n), rest)"
proof -
  let ?s = "pre @ print_nat b n @ rest"
  note ds = print_nat_in_base [OF assms(2,3)]
  have "dropWhile is_space ?s = ?s \<and> hd ?s \<notin> {CHR ''-'', CHR ''+''}"
  proof (cases "pre = []")
    case True
    then show ?thesis using plain_number [OF ds print_nat_not_Nil, of n rest] by simp
  next
    case False
    then obtain cs where "pre = CHR ''0'' # cs" using assms(5) by (cases pre) auto
    then show ?thesis by (simp add: is_space_def)
  qed
  then show ?thesis
    unfolding scan_number_def Let_def
    using assms(1) take_digits [OF ds assms(4), of n] value_of_print_nat [OF assms(2,3), of n]
    by (simp add: print_nat_not_Nil)
qed

lemma hex_prefix_print: "hex_prefix (''0x'' @ hex n @ rest)"
proof -
  obtain c cs where h: "hex n = c # cs" by (cases "hex n") (simp_all add: hex_def print_nat_not_Nil)
  moreover have "in_base 16 c" using print_nat_in_base [of 16 n] h by (simp add: hex_def)
  ultimately show ?thesis by (simp add: hex_prefix_def)
qed

lemma scan_hex:
  assumes "base \<in> {0, 16}" "stops 16 rest"
  shows "scan_number base (''0x'' @ hex n @ rest) = (Some (False, n), rest)"
  unfolding hex_def
  by (rule scan_print) (use assms hex_prefix_print [of n rest] in \<open>auto simp: select_base_def hex_def\<close>)

lemma scan_dec:
  assumes "stops 10 rest"
  shows "scan_number 10 (dec n @ rest) = (Some (False, n), rest)"
  using scan_print [of 10 "[]" 10 n rest] assms by (simp add: select_base_def dec_def)

lemma print_nat_hd:
  assumes "1 < b" "b \<le> 16" "0 < n"
  shows "hd (print_nat b n) \<noteq> CHR ''0''"
  using assms
proof (induction b n rule: print_nat.induct)
  case (1 b n)
  have "digit n \<noteq> CHR ''0''" if "n < b"
  proof
    assume "digit n = CHR ''0''"
    then have "digit_of (digit n) = Some 0" by (simp add: digit_of_def)
    with that 1(3,4) show False using digit_of_digit [of n] 1(2) by simp
  qed
  moreover have "hd (print_nat b (n div b)) \<noteq> CHR ''0''" if "\<not> n < b"
    using that 1 by (simp add: div_greater_zero_iff)
  ultimately show ?case using 1(2) by (subst print_nat.simps) (auto simp: print_nat_not_Nil)
qed

text \<open>With base 0 a decimal number is recognised because it does not start with 0.\<close>

lemma scan_auto_dec:
  assumes "stops 10 rest" "rest = [] \<or> hd rest \<notin> {CHR ''x'', CHR ''X''}"
  shows "scan_number 0 (dec n @ rest) = (Some (False, n), rest)"
proof (cases "n = 0")
  case True
  have d: "dec 0 = ''0''" by (simp add: dec_def print_nat.simps digit_def)
  have st: "stops 8 rest" using assms(1) by (auto simp: stops_def in_base_def split: list.splits option.splits)
  have "\<not> hex_prefix (''0'' @ rest)" using assms(2) by (auto simp: hex_prefix_def split: list.splits)
  then have "scan_number 0 (''0'' @ rest) = (Some (False, 0), rest)"
    using take_digits [of "''0''" 8 rest] st
    by (simp add: scan_number_def select_base_def is_space_def in_base_def digit_of_def value_of_def)
  with True d show ?thesis by simp
next
  case False
  let ?s = "dec n @ rest"
  have ds: "\<forall>c \<in> set (dec n). in_base 10 c" "dec n \<noteq> []" "hd ?s \<noteq> CHR ''0''"
    using print_nat_in_base [of 10 n] print_nat_hd [of 10 n] False by (simp_all add: dec_def print_nat_not_Nil)
  have "\<not> hex_prefix ?s"
  proof
    assume "hex_prefix ?s"
    then have "hd ?s = CHR ''0''" by (cases ?s) (auto simp: hex_prefix_def split: list.splits)
    with ds(3) show False ..
  qed
  then have "select_base 0 ?s = (10, ?s)" using ds(3) by (simp add: select_base_def)
  moreover have "value_of 10 (dec n) = n" by (simp add: dec_def value_of_print_nat)
  ultimately show ?thesis
    unfolding scan_number_def Let_def
    using plain_number [OF ds(1,2), of rest] take_digits [OF ds(1) assms(1)] ds(2) by simp
qed

lemma scan_number_Some_shorter:
  assumes "scan_number base s = (Some r, t)"
  shows "length t < length s"
proof -
  define u where "u = dropWhile is_space s"
  define w where "w = (if u \<noteq> [] \<and> hd u \<in> {CHR ''-'', CHR ''+''} then tl u else u)"
  obtain b v where bv: "select_base base w = (b, v)" by fastforce
  have "scan_number base s = (if takeWhile (in_base b) v = [] then (None, s)
      else (Some (u \<noteq> [] \<and> hd u = CHR ''-'', value_of b (takeWhile (in_base b) v)), dropWhile (in_base b) v))"
    unfolding scan_number_def Let_def u_def [symmetric] w_def [symmetric] bv by simp
  then have "takeWhile (in_base b) v \<noteq> []" "t = dropWhile (in_base b) v" using assms by (auto split: if_splits)
  then have "length t < length v"
    by (metis add_strict_increasing length_append length_greater_0_conv order_refl takeWhile_dropWhile_id)
  also have "length v \<le> length w" using select_base_length [OF bv] .
  also have "\<dots> \<le> length u" by (simp add: w_def)
  also have "\<dots> \<le> length s" unfolding u_def by (rule length_dropWhile_le)
  finally show ?thesis .
qed

end
