(* ===== verification/Dasm.thy ===== *)
theory Dasm
  imports DisasmLaws Numbers
begin

text \<open>
  The filter \<open>spike-dasm\<close> (\<open>spike_main/spike-dasm.cc\<close>): in each line of its input it replaces every
  \<open>DASM(h)\<close>, where \<open>h\<close> is a hexadecimal number, by the disassembly of the instruction \<open>h\<close>.  The
  number is sign-extended from the width of its text.
\<close>

definition DASM :: string where "DASM = ''DASM(''"

definition sign_extended :: "nat \<Rightarrow> reg_t \<Rightarrow> insn_t" where
  "sign_extended nbits bits = (if nbits < 64 then signed_take_bit (nbits - 1) bits else bits)"

text \<open>
  The text from the position \<open>pos\<close> on: what the line contains there after the loop.  \<open>skip_0x\<close> is the
  test for \<open>0x\<close>.  Where the text is not a number in parentheses the search goes on behind it.
\<close>

definition skip_0x :: "string \<Rightarrow> nat" where
  "skip_0x s = (case s of z # x # _ \<Rightarrow> if z = CHR ''0'' \<and> x \<in> {CHR ''x'', CHR ''X''} then 2 else 0 | _ \<Rightarrow> 0)"

definition is_xdigit :: "char \<Rightarrow> bool" where "is_xdigit c \<longleftrightarrow> in_base 16 c"

function dasm_line :: "(insn_t \<Rightarrow> string) \<Rightarrow> string \<Rightarrow> string" where
  "dasm_line dis s =
     (if s = [] then []
      else if take 5 s \<noteq> DASM then hd s # dasm_line dis (tl s)
      else
        (let k = 5 + skip_0x (drop 5 s); u = drop k s; (bits, rest) = strtoull 16 u
         in if u = [] \<or> \<not> is_xdigit (hd u) \<or> rest = [] \<or> hd rest \<noteq> CHR '')'' then take k s @ dasm_line dis u
            else dis (sign_extended (4 * (length u - length rest)) bits) @ dasm_line dis (tl rest)))"
  by pat_completeness auto
termination
proof (relation "measure (\<lambda>(dis, s). length s)", goal_cases)
  case (4 dis s k u x bits rest)
  then have "length rest \<le> length u" using strtoull_length [of 16 u] by (metis snd_conv)
  with 4 show ?case by (cases s) auto
qed auto

declare dasm_line.simps [simp del]

text \<open>The lines of the input, with the disassembler of the processor.\<close>

definition spike_dasm :: "nat \<Rightarrow> string list \<Rightarrow> string list" where
  "spike_dasm xlen lines = map (dasm_line (\<lambda>w. disassemble w (disassembler_t xlen))) lines"

section \<open>What is replaced\<close>

text \<open>A text in which the search finds nothing.\<close>

definition plain :: "string \<Rightarrow> bool" where
  "plain s \<longleftrightarrow> (\<forall>i. take 5 (drop i s) \<noteq> DASM)"

lemma plain_Cons: "plain (c # s) \<Longrightarrow> plain s"
  unfolding plain_def by (metis drop_Suc_Cons)

text \<open>The letters of \<open>DASM(\<close> differ, so no occurrence begins before a new one ends.\<close>

lemma take_DASM_app:
  assumes "plain pre" "pre \<noteq> []"
  shows "take 5 (pre @ DASM @ t) \<noteq> DASM"
proof
  assume a: "take 5 (pre @ DASM @ t) = DASM"
  show False
  proof (cases "5 \<le> length pre")
    case True
    then have "take 5 (drop 0 pre) = DASM" using a by simp
    with assms(1) show False unfolding plain_def by blast
  next
    case False
    moreover have "0 < length pre" using assms(2) by simp
    ultimately have "length pre = 1 \<or> length pre = 2 \<or> length pre = 3 \<or> length pre = 4" by arith
    then obtain b c d e where "pre \<in> {[b], [b, c], [b, c, d], [b, c, d, e]}"
      by (auto simp: length_Suc_conv numeral_eq_Suc)
    with a show False by (auto simp: DASM_def)
  qed
qed

lemma dasm_line_plain_prefix:
  "plain pre \<Longrightarrow> dasm_line dis (pre @ DASM @ t) = pre @ dasm_line dis (DASM @ t)"
proof (induction pre)
  case (Cons c pre)
  then have "take 5 ((c # pre) @ DASM @ t) \<noteq> DASM" by (intro take_DASM_app) auto
  then have "dasm_line dis ((c # pre) @ DASM @ t) = c # dasm_line dis (pre @ DASM @ t)"
    by (subst dasm_line.simps) simp
  with Cons plain_Cons show ?case by auto
qed simp

text \<open>
  One occurrence in a line: the text before it stays, the number is disassembled, and the search
  goes on behind the parenthesis.
\<close>

lemma dasm_line_replaces:
  assumes "plain pre" "n < 2 ^ 64"
  shows "dasm_line dis (pre @ DASM @ ''0x'' @ hex n @ '')'' @ post) =
    pre @ dis (sign_extended (4 * length (hex n)) (of_nat n)) @ dasm_line dis post"
proof -
  have st: "stops 16 ('')'' @ post)" by (simp add: stops_def in_base_def digit_of_def)
  have ds: "\<forall>c \<in> set (hex n). in_base 16 c" "hex n \<noteq> []"
    using print_nat_in_base [of 16 n] by (simp_all add: hex_def print_nat_not_Nil)
  obtain c cs where h: "hex n = c # cs" using ds(2) by (cases "hex n") auto
  have x: "\<not> in_base 16 CHR ''x''" "\<not> in_base 16 CHR ''X''" by (simp_all add: in_base_def digit_of_def)
  have "\<not> hex_prefix (hex n @ '')'' @ post)"
    using ds(1) x by (cases cs) (auto simp: hex_prefix_def h split: list.splits)
  then have "scan_number 16 (hex n @ '')'' @ post) = (Some (False, n), '')'' @ post)"
    using scan_print [of 16 "[]" 16 n "'')'' @ post"] st by (simp add: select_base_def hex_def)
  then have num: "strtoull 16 (hex n @ '')'' @ post) = (of_nat n, '')'' @ post)"
    using assms(2) by (simp add: strtoull_def not_le)
  define w where "w = DASM @ ''0x'' @ hex n @ '')'' @ post"
  have w: "take 5 w = DASM" "drop 5 w = ''0x'' @ hex n @ '')'' @ post" "drop 7 w = hex n @ '')'' @ post" "w \<noteq> []"
    by (simp_all add: w_def DASM_def)
  have "\<not> length w \<le> 7" using w(3) ds(2) by (metis append_is_Nil_conv drop_all)
  moreover have "skip_0x (drop 5 w) = 2" by (simp add: skip_0x_def w)
  moreover have "is_xdigit (hd (hex n @ '')'' @ post))" using ds(1) h by (simp add: is_xdigit_def)
  ultimately have "dasm_line dis w = dis (sign_extended (4 * length (hex n)) (of_nat n)) @ dasm_line dis post"
    using num w ds(2) by (subst dasm_line.simps) (simp add: Let_def)
  then have "dasm_line dis (DASM @ ''0x'' @ hex n @ '')'' @ post) =
      dis (sign_extended (4 * length (hex n)) (of_nat n)) @ dasm_line dis post" by (simp add: w_def)
  then show ?thesis using dasm_line_plain_prefix [OF assms(1)] by simp
qed

end
