(* ===== verification/Devices.thy ===== *)
theory Devices
  imports DebugLaws
begin

text \<open>
  The system bus and the devices on it (\<open>riscv/devices.h\<close>, \<open>devices.cc\<close>, \<open>rom.cc\<close>,
  \<open>clint.cc\<close>).  The bus keeps its devices in a \<open>std::map\<close> from base addresses, which is a list
  sorted by address here.  What the bus needs from that map is the locale \<open>address_map\<close>; its
  specification is a partial function from base addresses.
\<close>

section \<open>The device map\<close>

text \<open>\<open>devices[addr] = dev\<close>\<close>

fun add_device :: "reg_t \<Rightarrow> 'd \<Rightarrow> (reg_t \<times> 'd) list \<Rightarrow> (reg_t \<times> 'd) list" where
  "add_device a d [] = [(a, d)]"
| "add_device a d ((b, e) # ds) =
     (if a < b then (a, d) # (b, e) # ds else if a = b then (a, d) # ds else (b, e) # add_device a d ds)"

text \<open>
  \<open>upper_bound(addr)\<close> splits the map before its first key above \<open>addr\<close>; the device is the last
  entry of the first part.
\<close>

definition below :: "reg_t \<Rightarrow> (reg_t \<times> 'd) list \<Rightarrow> (reg_t \<times> 'd) list" where
  "below addr ds = takeWhile (\<lambda>(b, d). b \<le> addr) ds"

definition find_device :: "reg_t \<Rightarrow> (reg_t \<times> 'd) list \<Rightarrow> (reg_t \<times> 'd) option" where
  "find_device addr ds = (if below addr ds = [] then None else Some (last (below addr ds)))"

text \<open>
  The contract: a map that is extended by entries and searched for the entry with the greatest
  key not above an address.
\<close>

locale address_map =
  fixes add :: "reg_t \<Rightarrow> 'd \<Rightarrow> 'm \<Rightarrow> 'm"
    and none :: 'm
    and search :: "reg_t \<Rightarrow> 'm \<Rightarrow> (reg_t \<times> 'd) option"
    and abs :: "'m \<Rightarrow> reg_t \<rightharpoonup> 'd"
    and inv :: "'m \<Rightarrow> bool"
  assumes inv_none: "inv none" "abs none = Map.empty"
    and inv_add: "inv m \<Longrightarrow> inv (add a d m) \<and> abs (add a d m) = (abs m)(a \<mapsto> d)"
    and search_Some: "inv m \<Longrightarrow> search addr m = Some (b, d) \<Longrightarrow>
      abs m b = Some d \<and> b \<le> addr \<and> (\<forall>b' \<in> dom (abs m). b' \<le> addr \<longrightarrow> b' \<le> b)"
    and search_None: "inv m \<Longrightarrow> search addr m = None \<Longrightarrow> \<forall>b' \<in> dom (abs m). addr < b'"
begin

lemma search_iff:
  assumes "inv m"
  shows "search addr m = Some (b, d) \<longleftrightarrow>
    abs m b = Some d \<and> b \<le> addr \<and> (\<forall>b' \<in> dom (abs m). b' \<le> addr \<longrightarrow> b' \<le> b)"
proof
  show "search addr m = Some (b, d) \<Longrightarrow> abs m b = Some d \<and> b \<le> addr \<and> (\<forall>b' \<in> dom (abs m). b' \<le> addr \<longrightarrow> b' \<le> b)"
    by (rule search_Some [OF assms])
  assume r: "abs m b = Some d \<and> b \<le> addr \<and> (\<forall>b' \<in> dom (abs m). b' \<le> addr \<longrightarrow> b' \<le> b)"
  show "search addr m = Some (b, d)"
  proof (cases "search addr m")
    case None
    with search_None [OF assms] r show ?thesis by (metis domI leD)
  next
    case (Some p)
    obtain b' d' where p: "p = (b', d')" by fastforce
    from search_Some [OF assms Some [unfolded p]] r have "b' = b" by (metis domI antisym)
    with search_Some [OF assms Some [unfolded p]] r Some p show ?thesis by simp
  qed
qed

lemma built:
  "inv (fold (\<lambda>(a, d). add a d) es none) \<and>
   abs (fold (\<lambda>(a, d). add a d) es none) = fold (\<lambda>(a, d) f. f(a \<mapsto> d)) es Map.empty"
proof -
  have "inv m \<Longrightarrow> inv (fold (\<lambda>(a, d). add a d) es m) \<and>
     abs (fold (\<lambda>(a, d). add a d) es m) = fold (\<lambda>(a, d) f. f(a \<mapsto> d)) es (abs m)" for m
    by (induction es arbitrary: m) (auto simp: inv_add)
  from this [OF inv_none(1)] show ?thesis by (simp add: inv_none(2))
qed

lemma search_built:
  "search addr (fold (\<lambda>(a, d). add a d) es none) = Some (b, d) \<longleftrightarrow>
    (let f = fold (\<lambda>(a, d) f. f(a \<mapsto> d)) es Map.empty
     in f b = Some d \<and> b \<le> addr \<and> (\<forall>b' \<in> dom f. b' \<le> addr \<longrightarrow> b' \<le> b))"
  using built [of es] by (simp only: search_iff Let_def)

end

definition sorted_keys :: "(reg_t \<times> 'd) list \<Rightarrow> bool" where
  "sorted_keys ds \<longleftrightarrow> sorted_wrt (<) (map fst ds)"

lemma keys_add: "set (map fst (add_device a d ds)) = insert a (set (map fst ds))"
  by (induction ds rule: add_device.induct) auto

lemma sorted_add: "sorted_keys ds \<Longrightarrow> sorted_keys (add_device a d ds)"
  unfolding sorted_keys_def
  by (induction a d ds rule: add_device.induct)
    (auto simp: keys_add [simplified] simp del: list.set_map dest: order.strict_trans)

lemma map_of_add: "sorted_keys ds \<Longrightarrow> map_of (add_device a d ds) = (map_of ds)(a \<mapsto> d)"
  unfolding sorted_keys_def
  by (induction a d ds rule: add_device.induct) (auto simp: fun_eq_iff)

lemma find_Some:
  assumes "sorted_keys ds" "find_device addr ds = Some (b, d)"
  shows "map_of ds b = Some d \<and> b \<le> addr \<and> (\<forall>b' \<in> dom (map_of ds). b' \<le> addr \<longrightarrow> b' \<le> b)"
  using assms
proof (induction ds)
  case (Cons p ds)
  obtain c e where p: "p = (c, e)" by fastforce
  have s: "sorted_keys ds" "\<forall>x \<in> fst ` set ds. c < x" using Cons.prems(1) by (auto simp: sorted_keys_def p)
  have dom: "dom (map_of (p # ds)) = insert c (fst ` set ds)" by (simp add: p dom_map_of_conv_image_fst)
  have c: "c \<le> addr" using Cons.prems(2) by (auto simp: find_device_def below_def p split: if_splits)
  show ?case
  proof (cases "below addr ds = []")
    case True
    then have bd: "b = c" "d = e" using Cons.prems(2) c by (auto simp: find_device_def below_def p split: if_splits)
    have "\<forall>x \<in> fst ` set ds. addr < x"
    proof (cases ds)
      case (Cons q ds')
      obtain x y where q: "q = (x, y)" by fastforce
      then have "addr < x" using True Cons by (auto simp: below_def split: if_splits)
      then show ?thesis using s(1) Cons q by (auto simp: sorted_keys_def dest: order.strict_trans)
    qed simp
    then show ?thesis unfolding dom using bd c by (auto simp: p dest: leD)
  next
    case False
    then have "find_device addr ds = Some (b, d)"
      using Cons.prems(2) c by (auto simp: find_device_def below_def p split: if_splits)
    then have IH: "map_of ds b = Some d" "b \<le> addr" "\<forall>x \<in> fst ` set ds. x \<le> addr \<longrightarrow> x \<le> b"
      using Cons.IH [OF s(1)] by (simp_all add: dom_map_of_conv_image_fst)
    then have "b \<in> fst ` set ds" by (metis dom_map_of_conv_image_fst domI)
    then have "c < b" using s(2) by blast
    then show ?thesis unfolding dom using IH by (auto simp: p)
  qed
qed (simp add: find_device_def below_def)

lemma find_None:
  assumes "sorted_keys ds" "find_device addr ds = None"
  shows "\<forall>b' \<in> dom (map_of ds). addr < b'"
proof (cases ds)
  case (Cons p ds')
  obtain c e where p: "p = (c, e)" by fastforce
  then have "addr < c" using assms(2) Cons by (auto simp: find_device_def below_def split: if_splits)
  then show ?thesis using assms(1) Cons p
    by (auto simp: sorted_keys_def dom_map_of_conv_image_fst dest: order.strict_trans)
qed simp

interpretation bus_map: address_map add_device "[]" find_device map_of sorted_keys
proof unfold_locales
  show "sorted_keys []" by (simp add: sorted_keys_def)
  show "map_of [] = Map.empty" by simp
  show "sorted_keys m \<Longrightarrow> sorted_keys (add_device a d m) \<and> map_of (add_device a d m) = (map_of m)(a \<mapsto> d)" for m a d
    by (intro conjI sorted_add map_of_add)
qed (rule find_Some find_None, assumption+)+

text \<open>
  C22. The bus refines its device map.  After any sequence of \<open>add_device\<close> calls, in any order and
  with repeated bases, the search of \<open>find_device\<close> finds an entry exactly when it is the latest
  device added at the greatest base address not above the address.
\<close>

theorem bus_refines_device_map:
  "find_device addr (fold (\<lambda>(a, d). add_device a d) es []) = Some (b, d) \<longleftrightarrow>
    (let f = fold (\<lambda>(a, d) f. f(a \<mapsto> d)) es Map.empty
     in f b = Some d \<and> b \<le> addr \<and> (\<forall>b' \<in> dom f. b' \<le> addr \<longrightarrow> b' \<le> b))"
  by (rule bus_map.search_built)

lemma bus_refines_device_map_witness:
  "find_device 0x2000010 (fold (\<lambda>(a, d). add_device a d) [(0x80000000, ''mem''), (0x100, ''debug''), (0x2000000, ''clint'')] [])
     = Some (0x2000000, ''clint'')"
  using bus_refines_device_map
    [of "0x2000010" "[(0x80000000, ''mem''), (0x100, ''debug''), (0x2000000, ''clint'')]" "0x2000000" "''clint''"]
  by (simp add: Let_def)

section \<open>Bus accesses\<close>

text \<open>The device is called with the offset from its base; with no device the answer is \<open>false\<close>.\<close>

definition bus_load :: "('d \<Rightarrow> reg_t \<Rightarrow> nat \<Rightarrow> byte list option result) \<Rightarrow> reg_t \<Rightarrow> nat
    \<Rightarrow> (reg_t \<times> 'd) list \<Rightarrow> byte list option result" where
  "bus_load dev addr len ds = (case find_device addr ds of
     None \<Rightarrow> Inr None | Some (base, d) \<Rightarrow> dev d (addr - base) len)"

definition bus_store :: "('d \<Rightarrow> reg_t \<Rightarrow> byte list \<Rightarrow> 'w \<Rightarrow> bool result \<times> 'w) \<Rightarrow> reg_t \<Rightarrow> byte list
    \<Rightarrow> (reg_t \<times> 'd) list \<Rightarrow> 'w \<Rightarrow> bool result \<times> 'w" where
  "bus_store dev addr bs ds w = (case find_device addr ds of
     None \<Rightarrow> (Inr False, w) | Some (base, d) \<Rightarrow> dev d (addr - base) bs w)"

section \<open>The boot ROM\<close>

definition rom_load :: "byte list \<Rightarrow> reg_t \<Rightarrow> nat \<Rightarrow> byte list option result" where
  "rom_load data addr len =
     (if addr + of_nat len > of_nat (length data) then Inr None
      else some_bytes (copy_out data addr len))"

definition rom_store :: "reg_t \<Rightarrow> byte list \<Rightarrow> bool" where
  "rom_store addr bs = False"

section \<open>The core-local interruptor\<close>

text \<open>
  \<open>clint_t\<close>.  The harts it refers to are passed as a list; \<open>mtime\<close> is not initialised by the
  constructor, so it is an argument of \<open>clint_construct\<close>.
\<close>

record clint_t =
  mtime :: reg_t
  mtimecmp :: "reg_t list"

definition clint_construct :: "reg_t \<Rightarrow> processor_t list \<Rightarrow> clint_t" where
  "clint_construct garbage procs = \<lparr>mtime = garbage, mtimecmp = replicate (length procs) 0\<rparr>"

definition MSIP_BASE :: reg_t where [spike_consts]: "MSIP_BASE = 0x0"
definition MTIMECMP_BASE :: reg_t where [spike_consts]: "MTIMECMP_BASE = 0x4000"
definition MTIME_BASE :: reg_t where [spike_consts]: "MTIME_BASE = 0xbff8"

text \<open>The memory images of the arrays, little-endian.\<close>

definition msip_image :: "processor_t list \<Rightarrow> byte list" where
  "msip_image procs =
     concat (map (\<lambda>p. le_bytes 4 (of_bool_word (truth (mip (p_state p) AND MIP_MSIP)) :: u32)) procs)"

definition words_image :: "reg_t list \<Rightarrow> byte list" where
  "words_image ws = concat (map (le_bytes 8) ws)"

definition word_at :: "nat \<Rightarrow> byte list \<Rightarrow> nat \<Rightarrow> 'a::len word" where
  "word_at k buf i = of_le_bytes (copy_from buf (k * i) k)"

definition clint_load :: "reg_t \<Rightarrow> nat \<Rightarrow> clint_t \<Rightarrow> processor_t list \<Rightarrow> byte list option result" where
  "clint_load addr len c procs =
     (if within addr len MSIP_BASE (MSIP_BASE + of_nat (length procs) * 4) then
        some_bytes (copy_out (msip_image procs) (addr - MSIP_BASE) len)
      else if within addr len MTIMECMP_BASE (MTIMECMP_BASE + of_nat (length procs) * 8) then
        some_bytes (copy_out (words_image (mtimecmp c)) (addr - MTIMECMP_BASE) len)
      else if within addr len MTIME_BASE (MTIME_BASE + 8) then
        some_bytes (copy_out (le_bytes 8 (mtime c)) (addr - MTIME_BASE) len)
      else Inr None)"

text \<open>The two assignments to \<open>mip\<close>: clear the bit, set it when asked.\<close>

definition put_mip :: "reg_t \<Rightarrow> bool \<Rightarrow> processor_t \<Rightarrow> processor_t" where
  "put_mip msk b p =
     (let p = upd_state (\<lambda>s. s\<lparr>mip := mip s AND NOT msk\<rparr>) p
      in if b then upd_state (\<lambda>s. s\<lparr>mip := mip s OR msk\<rparr>) p else p)"

definition clint_increment :: "reg_t \<Rightarrow> clint_t \<times> processor_t list \<Rightarrow> clint_t \<times> processor_t list" where
  "clint_increment inc st =
     (let (c, procs) = st; c = c\<lparr>mtime := mtime c + inc\<rparr>
      in (c, map (\<lambda>i. put_mip MIP_MTIP (mtime c \<ge> mtimecmp c ! i) (procs ! i)) [0..<length procs]))"

text \<open>A store into the \<open>msip\<close> registers goes through a zeroed copy and a mask of the bytes written.\<close>

definition store_msip :: "reg_t \<Rightarrow> byte list \<Rightarrow> processor_t list \<Rightarrow> processor_t list result" where
  "store_msip off bs procs =
     (let zero = replicate (4 * length procs) 0 in
      case (copy_in zero off bs, copy_in zero off (replicate (length bs) 0xff)) of
        (Inr buf, Inr msk) \<Rightarrow>
          Inr (map (\<lambda>i. if truth ((word_at 4 msk i :: u32) AND 0xFF)
                        then put_mip MIP_MSIP (truth ((word_at 4 buf i :: u32) AND 1)) (procs ! i)
                        else procs ! i) [0..<length procs])
      | _ \<Rightarrow> Inl Abort)"

definition clint_store :: "reg_t \<Rightarrow> byte list \<Rightarrow> clint_t \<times> processor_t list
    \<Rightarrow> bool result \<times> (clint_t \<times> processor_t list)" where
  "clint_store addr bs st =
     (let (c, procs) = st; len = length bs in
      if within addr len MSIP_BASE (MSIP_BASE + of_nat (length procs) * 4) then
        (case store_msip (addr - MSIP_BASE) bs procs of
           Inl e \<Rightarrow> (Inl e, st)
         | Inr procs \<Rightarrow> (Inr True, clint_increment 0 (c, procs)))
      else if within addr len MTIMECMP_BASE (MTIMECMP_BASE + of_nat (length procs) * 8) then
        (case copy_in (words_image (mtimecmp c)) (addr - MTIMECMP_BASE) bs of
           Inl e \<Rightarrow> (Inl e, st)
         | Inr buf \<Rightarrow> (Inr True, clint_increment 0
             (c\<lparr>mtimecmp := map (word_at 8 buf) [0..<length (mtimecmp c)]\<rparr>, procs)))
      else if within addr len MTIME_BASE (MTIME_BASE + 8) then
        (case copy_in (le_bytes 8 (mtime c)) (addr - MTIME_BASE) bs of
           Inl e \<Rightarrow> (Inl e, st)
         | Inr buf \<Rightarrow> (Inr True, clint_increment 0 (c\<lparr>mtime := word_at 8 buf 0\<rparr>, procs)))
      else (Inr False, st))"

subsection \<open>Arrays of words as bytes\<close>

lemma length_chunks: "\<forall>xs \<in> set xss. length xs = k \<Longrightarrow> length (concat xss) = k * length xss"
  by (induction xss) auto

lemma copy_from_chunks:
  assumes "\<forall>xs \<in> set xss. length xs = k" "i < length xss"
  shows "copy_from (concat xss) (k * i) k = xss ! i"
  using assms
proof (induction xss arbitrary: i)
  case (Cons xs xss)
  then show ?case by (cases i) (auto simp: copy_from_def)
qed simp

lemma chunks_of:
  "length buf = k * n \<Longrightarrow> concat (map (\<lambda>i. copy_from buf (k * i) k) [0..<n]) = buf"
proof (induction n arbitrary: buf)
  case (Suc n)
  have "concat (map (\<lambda>i. copy_from buf (k * i) k) [0..<n])
      = concat (map (\<lambda>i. copy_from (take (k * n) buf) (k * i) k) [0..<n])"
  proof (intro arg_cong [where f = concat] map_cong refl)
    fix i assume "i \<in> set [0..<n]"
    then have "k * i + k \<le> k * n" by (metis Suc_leI add.commute atLeastLessThan_iff mult_Suc_right mult_le_mono2 set_upt)
    then show "copy_from buf (k * i) k = copy_from (take (k * n) buf) (k * i) k"
      by (simp add: copy_from_def drop_take min_def)
  qed
  also have "\<dots> = take (k * n) buf" using Suc by (intro Suc.IH) simp
  finally have "concat (map (\<lambda>i. copy_from buf (k * i) k) [0..<n]) = take (k * n) buf" .
  then have "concat (map (\<lambda>i. copy_from buf (k * i) k) [0..<Suc n]) = take (k * n) buf @ take k (drop (k * n) buf)"
    by (simp add: copy_from_def)
  also have "\<dots> = take (k * n + k) buf" by (rule take_add [symmetric])
  also have "\<dots> = buf" using Suc.prems by simp
  finally show ?case .
qed simp

lemma length_words_image [simp]: "length (words_image ws) = 8 * length ws"
  by (simp add: words_image_def length_chunks [where k = 8])

lemma words_image_words:
  assumes "length buf = 8 * n"
  shows "words_image (map (word_at 8 buf) [0..<n]) = buf"
proof -
  have "le_bytes 8 (word_at 8 buf i :: reg_t) = copy_from buf (8 * i) 8" if "i < n" for i
    using that assms by (simp add: word_at_def le_bytes_inverse copy_from_def)
  then have "map (\<lambda>i. le_bytes 8 (word_at 8 buf i :: reg_t)) [0..<n] = map (\<lambda>i. copy_from buf (8 * i) 8) [0..<n]"
    by (intro map_cong) auto
  then show ?thesis using chunks_of [OF assms] by (simp only: words_image_def map_map comp_def)
qed

lemma word_at_image: "i < length ws \<Longrightarrow> word_at 8 (words_image ws) i = ws ! i"
  by (simp add: word_at_def words_image_def copy_from_chunks of_le_bytes_inverse take_bit_word_eq_self)

lemma copy_in_Inr:
  "copy_in buf off bs = Inr buf' \<longleftrightarrow>
     unat off + length bs \<le> length buf \<and> buf' = copy_into buf (unat off) bs"
  by (auto simp: copy_in_def)

lemma copy_out_in:
  "copy_in buf off bs = Inr buf' \<Longrightarrow> copy_out buf' off (length bs) = Inr bs"
  by (auto simp: copy_in_Inr copy_out_def)

subsection \<open>The interrupt bits\<close>

lemma bit_put_mip:
  "bit (mip (p_state (put_mip msk b p))) i = (if bit msk i then b else bit (mip (p_state p)) i)"
  by (auto simp: put_mip_def Let_def upd_state_def bit_simps dest: bit_imp_le_length)

lemma put_mip_other:
  "(put_mip msk b p)\<lparr>p_state := (p_state (put_mip msk b p))\<lparr>mip := x\<rparr>\<rparr> = p\<lparr>p_state := (p_state p)\<lparr>mip := x\<rparr>\<rparr>"
  by (simp add: put_mip_def Let_def upd_state_def)

lemma mip_bits: "bit MIP_MTIP i \<longleftrightarrow> i = 7" "bit MIP_MSIP i \<longleftrightarrow> i = 3"
proof -
  have *: "MIP_MTIP = 2 ^ 7" "MIP_MSIP = 2 ^ 3" by (simp_all add: spike_consts)
  show "bit MIP_MTIP i \<longleftrightarrow> i = 7" unfolding * bit_exp_iff by auto
  show "bit MIP_MSIP i \<longleftrightarrow> i = 3" unfolding * bit_exp_iff by auto
qed

text \<open>The comparator: timer interrupts are pending exactly in the harts whose time has come.\<close>

definition timer_pending :: "clint_t \<Rightarrow> processor_t list \<Rightarrow> bool" where
  "timer_pending c procs \<longleftrightarrow> length (mtimecmp c) = length procs \<and>
     (\<forall>i < length procs. bit (mip (p_state (procs ! i))) 7 \<longleftrightarrow> mtimecmp c ! i \<le> mtime c)"

lemma clint_increment_timer:
  "length (mtimecmp c) = length procs \<Longrightarrow> clint_increment inc (c, procs) = (c', procs') \<Longrightarrow>
     timer_pending c' procs' \<and> length procs' = length procs \<and> c' = c\<lparr>mtime := mtime c + inc\<rparr> \<and>
     (\<forall>i < length procs. \<forall>k. k \<noteq> 7 \<longrightarrow>
        bit (mip (p_state (procs' ! i))) k = bit (mip (p_state (procs ! i))) k)"
  by (auto simp: clint_increment_def Let_def timer_pending_def bit_put_mip mip_bits)

subsection \<open>Stores\<close>

lemma byte_of_word:
  assumes "length buf = 4 * n" "i < n"
  shows "truth ((word_at 4 buf i :: u32) AND 1) \<longleftrightarrow> bit (buf ! (4 * i)) 0"
    and "truth ((word_at 4 buf i :: u32) AND 0xFF) \<longleftrightarrow> truth (buf ! (4 * i))"
proof -
  have b: "copy_from buf (4 * i) 4 ! 0 = buf ! (4 * i)" "length (copy_from buf (4 * i) 4) = 4"
    using assms by (simp_all add: nth_copy_from)
  have w: "bit (word_at 4 buf i :: u32) k \<longleftrightarrow> bit (buf ! (4 * i)) k" if "k < 8" for k
    using that b by (simp add: word_at_def bit_of_le_bytes)
  have "truth ((word_at 4 buf i :: u32) AND 1) \<longleftrightarrow> bit (word_at 4 buf i :: u32) 0"
    by (simp add: and_one_eq bit_0 odd_iff_mod_2_eq_one)
  then show "truth ((word_at 4 buf i :: u32) AND 1) \<longleftrightarrow> bit (buf ! (4 * i)) 0" by (simp add: w)
  have "(word_at 4 buf i :: u32) AND 0xFF = ucast (buf ! (4 * i))"
  proof (rule bit_word_eqI)
    fix k assume k: "k < LENGTH(32)"
    have "bit (0xFF :: u32) k \<longleftrightarrow> k < 8"
      using bit_mask_iff [of 8 k, where ?'a = u32] k by (auto simp: mask_eq_exp_minus_1)
    then show "bit ((word_at 4 buf i :: u32) AND 0xFF) k = bit (ucast (buf ! (4 * i)) :: u32) k"
      using w by (auto simp: bit_simps dest: bit_imp_le_length)
  qed
  then show "truth ((word_at 4 buf i :: u32) AND 0xFF) \<longleftrightarrow> truth (buf ! (4 * i))"
    by (simp add: word_uint_eq_iff uint_up_ucast is_up)
qed

text \<open>A store changes the software interrupt of hart \<open>i\<close> when it covers the first byte of its register.\<close>

definition covers :: "reg_t \<Rightarrow> byte list \<Rightarrow> nat \<Rightarrow> bool" where
  "covers off bs i \<longleftrightarrow> unat off \<le> 4 * i \<and> 4 * i < unat off + length bs"

lemma store_msip_bits:
  assumes "store_msip off bs procs = Inr procs'"
  shows "length procs' = length procs \<and> (\<forall>i < length procs. \<forall>k.
    bit (mip (p_state (procs' ! i))) k =
      (if k = 3 \<and> covers off bs i then bit (bs ! (4 * i - unat off)) 0 else bit (mip (p_state (procs ! i))) k))"
proof -
  let ?z = "replicate (4 * length procs) (0 :: byte)"
  have fits: "unat off + length bs \<le> 4 * length procs"
    using assms by (auto simp: store_msip_def copy_in_def Let_def split: if_splits)
  define buf where "buf = copy_into ?z (unat off) bs"
  define msk where "msk = copy_into ?z (unat off) (replicate (length bs) 0xff)"
  have p': "procs' = map (\<lambda>i. if truth ((word_at 4 msk i :: u32) AND 0xFF)
      then put_mip MIP_MSIP (truth ((word_at 4 buf i :: u32) AND 1)) (procs ! i) else procs ! i) [0..<length procs]"
    unfolding buf_def msk_def using assms fits by (simp add: store_msip_def copy_in_def Let_def)
  have len: "length buf = 4 * length procs" "length msk = 4 * length procs"
    using fits by (simp_all add: buf_def msk_def)
  have "truth (msk ! (4 * i)) \<longleftrightarrow> covers off bs i" if "i < length procs" for i
    using that fits by (auto simp: msk_def nth_copy_into covers_def)
  moreover have "buf ! (4 * i) = bs ! (4 * i - unat off)" if "i < length procs" "covers off bs i" for i
    using that fits by (auto simp: buf_def nth_copy_into covers_def)
  ultimately show ?thesis
    by (auto simp: p' byte_of_word [OF len(1)] byte_of_word [OF len(2)] bit_put_mip mip_bits)
qed



end
