(* ===== verification/Sim.thy ===== *)
theory Sim
  imports Devices StepLaws
begin

text \<open>
  The simulator object (\<open>riscv/sim.h\<close>, \<open>riscv/sim.cc\<close>): the harts, host memory, the bus with its
  devices, the debug port into memory, the boot ROM and the scheduler.  The debug module is the
  \<open>dm\<close> of \<open>dm_sys\<close>; everything else that an access can reach is the record \<open>sim_t\<close>; the
  scheduler and the options, which only \<open>main\<close> and \<open>step\<close> use, are the record \<open>sim_main\<close>.

  The record \<open>host\<close> holds what is not in the repository: the instruction bodies, the generated
  debug ROM, \<open>random()\<close>, the memory tracers, the device tree compiler, and what the host side of the
  program (fesvr) does when it is switched to.
\<close>

section \<open>State\<close>

text \<open>A memory: the host address of its contents and its size.\<close>

record mem_t =
  mem_contents :: reg_t
  mem_size :: reg_t

datatype device = Dev_mem mem_t | Dev_debug | Dev_clint | Dev_rom "byte list"

record sim_t =
  s_procs :: "processor_t list"
  s_mem :: "reg_t \<Rightarrow> byte"
  s_bus :: "(reg_t \<times> device) list"
  s_clint :: clint_t
  s_debug_mmu :: mmu_t
  s_randoms :: nat

type_synonym simulator = "sim_t dm_sys"

text \<open>Who accesses memory: a hart, or \<open>debug_mmu\<close>, the MMU without a processor.\<close>

datatype port = Hart nat | Debug_port

record host =
  host_build :: build
  host_isa :: "simulator isa"
  host_rom :: "byte list"
  host_random :: "nat \<Rightarrow> u32"
  host_interested :: "nat \<Rightarrow> reg_t \<Rightarrow> reg_t \<Rightarrow> access_type \<Rightarrow> bool"
  host_trace :: "nat \<Rightarrow> reg_t \<Rightarrow> nat \<Rightarrow> access_type \<Rightarrow> simulator world \<Rightarrow> simulator world"
  host_fetch_temp :: "port \<Rightarrow> reg_t"
  host_dtb :: "byte list"
  host_entry_point :: reg_t
  host_switch :: "simulator \<Rightarrow> simulator"

section \<open>Memory-mapped devices\<close>

definition dev_load :: "byte list \<Rightarrow> simulator \<Rightarrow> device \<Rightarrow> reg_t \<Rightarrow> nat \<Rightarrow> byte list option result" where
  "dev_load rom s d addr len = (case d of
     Dev_mem m \<Rightarrow> Inr None
   | Dev_debug \<Rightarrow> dm_load rom addr len (dm s)
   | Dev_clint \<Rightarrow> clint_load addr len (s_clint (sys s)) (s_procs (sys s))
   | Dev_rom data \<Rightarrow> rom_load data addr len)"

definition dev_store :: "device \<Rightarrow> reg_t \<Rightarrow> byte list \<Rightarrow> simulator \<Rightarrow> bool result \<times> simulator" where
  "dev_store d addr bs s = (case d of
     Dev_mem m \<Rightarrow> (Inr False, s)
   | Dev_debug \<Rightarrow> dm_store addr bs s
   | Dev_clint \<Rightarrow>
       (let (r, (c, ps)) = clint_store addr bs (s_clint (sys s), s_procs (sys s))
        in (r, s\<lparr>sys := (sys s)\<lparr>s_clint := c, s_procs := ps\<rparr>\<rparr>))
   | Dev_rom data \<Rightarrow> (Inr (rom_store addr bs), s))"

definition mmio_load :: "byte list \<Rightarrow> reg_t \<Rightarrow> nat \<Rightarrow> simulator \<Rightarrow> byte list option result" where
  "mmio_load rom addr len s =
     (if addr + of_nat len < addr then Inr None else bus_load (dev_load rom s) addr len (s_bus (sys s)))"

definition mmio_store :: "reg_t \<Rightarrow> byte list \<Rightarrow> simulator \<Rightarrow> bool result \<times> simulator" where
  "mmio_store addr bs s =
     (if addr + of_nat (length bs) < addr then (Inr False, s)
      else bus_store dev_store addr bs (s_bus (sys s)) s)"

definition addr_to_mem :: "(reg_t \<times> device) list \<Rightarrow> reg_t \<Rightarrow> reg_t option" where
  "addr_to_mem bus addr = (case find_device addr bus of
     Some (base, Dev_mem m) \<Rightarrow>
       if addr - base < mem_size m then Some (mem_contents m + (addr - base)) else None
   | _ \<Rightarrow> None)"

section \<open>The interface of the MMUs\<close>

text \<open>
  \<open>debug_mmu\<close> has no processor.  The branches of \<open>mmu.cc\<close> for \<open>proc == NULL\<close> (no translation, no
  triggers) are those of a hart in M-mode whose triggers are off.
\<close>

definition null_hart :: "mmu_t \<Rightarrow> processor_t" where
  "null_hart m = sample_hart\<lparr>p_mmu := m\<rparr>"

definition port_world :: "port \<Rightarrow> simulator \<Rightarrow> simulator world" where
  "port_world p s = \<lparr>w_hart = (case p of Hart k \<Rightarrow> s_procs (sys s) ! k | Debug_port \<Rightarrow> null_hart (s_debug_mmu (sys s))),
     w_mem = s_mem (sys s), w_dev = s\<rparr>"

definition world_sim :: "port \<Rightarrow> simulator world \<Rightarrow> simulator" where
  "world_sim p w = (w_dev w)\<lparr>sys := (case p of
     Hart k \<Rightarrow> (sys (w_dev w))\<lparr>s_procs := (s_procs (sys (w_dev w)))[k := w_hart w], s_mem := w_mem w\<rparr>
   | Debug_port \<Rightarrow> (sys (w_dev w))\<lparr>s_debug_mmu := p_mmu (w_hart w), s_mem := w_mem w\<rparr>)\<rparr>"

text \<open>A device fails only by \<open>Abort\<close>.\<close>

definition device_answer :: "'a result \<Rightarrow> 'a option" where
  "device_answer r = (case r of Inl e \<Rightarrow> None | Inr a \<Rightarrow> Some a)"

definition sim_simif :: "host \<Rightarrow> (reg_t \<times> device) list \<Rightarrow> port \<Rightarrow> simulator simif" where
  "sim_simif h bus p = \<lparr>
     sif_addr_to_mem = addr_to_mem bus,
     sif_mmio_load = (\<lambda>addr len w. (device_answer (mmio_load (host_rom h) addr len (world_sim p w)), w)),
     sif_mmio_store = (\<lambda>addr bs w.
       let (r, s) = mmio_store addr bs (world_sim p w) in (device_answer r, port_world p s)),
     sif_interested = (\<lambda>a b type. case p of Hart k \<Rightarrow> host_interested h k a b type | Debug_port \<Rightarrow> False),
     sif_trace = (\<lambda>a n type w. case p of Hart k \<Rightarrow> host_trace h k a n type w | Debug_port \<Rightarrow> w),
     sif_fetch_temp = host_fetch_temp h p\<rparr>"

section \<open>The debug port\<close>

text \<open>\<open>debug_mmu->load_uintN\<close> and \<open>store_uintN\<close>, as bytes.\<close>

definition through_port :: "port \<Rightarrow> (simulator world \<Rightarrow> 'a result \<times> simulator world) \<Rightarrow> simulator \<Rightarrow> 'a result \<times> simulator" where
  "through_port p f s = (let (r, w) = f (port_world p s) in (r, world_sim p w))"

definition debug_load :: "host \<Rightarrow> reg_t \<Rightarrow> nat \<Rightarrow> simulator \<Rightarrow> byte list result \<times> simulator" where
  "debug_load h addr n s = through_port Debug_port
     (andthen (mmu_load (host_build h) (sim_simif h (s_bus (sys s)) Debug_port) False n addr)
       (\<lambda>v w. (Inr (le_bytes n v), w))) s"

definition debug_store :: "host \<Rightarrow> reg_t \<Rightarrow> byte list \<Rightarrow> simulator \<Rightarrow> unit result \<times> simulator" where
  "debug_store h addr bs s = through_port Debug_port
     (mmu_store (host_build h) (sim_simif h (s_bus (sys s)) Debug_port) (length bs) addr (of_le_bytes bs)) s"

text \<open>The calls of fesvr; the length is asserted to be 8.\<close>

definition read_chunk :: "host \<Rightarrow> reg_t \<Rightarrow> nat \<Rightarrow> simulator \<Rightarrow> byte list result \<times> simulator" where
  "read_chunk h taddr len s = (if len = 8 then debug_load h taddr 8 s else (Inl Abort, s))"

definition write_chunk :: "host \<Rightarrow> reg_t \<Rightarrow> byte list \<Rightarrow> simulator \<Rightarrow> unit result \<times> simulator" where
  "write_chunk h taddr src s = (if length src = 8 then debug_store h taddr src s else (Inl Abort, s))"

section \<open>What the debug module sees\<close>

definition upd_proc :: "nat \<Rightarrow> (processor_t \<Rightarrow> processor_t) \<Rightarrow> sim_t \<Rightarrow> sim_t" where
  "upd_proc i f t = t\<lparr>s_procs := (s_procs t)[i := f (s_procs t ! i)]\<rparr>"

text \<open>\<open>processor_t::reset\<close> ends in every configured hart (\<open>Privileged.proc_reset_ok\<close>).\<close>

definition sim_dm_if :: "host \<Rightarrow> sim_t dm_if" where
  "sim_dm_if h = \<lparr>
     if_nprocs = (\<lambda>t. length (s_procs t)),
     if_present = (\<lambda>i t. i < length (s_procs t)),
     if_hart_id = (\<lambda>i t. p_id (s_procs t ! i)),
     if_halt_request = (\<lambda>i t. p_halt_request (s_procs t ! i)),
     if_set_halt_request = (\<lambda>i b. upd_proc i (\<lambda>p. p\<lparr>p_halt_request := b\<rparr>)),
     if_reset_core = (\<lambda>i. upd_proc i (\<lambda>p. case proc_reset p of None \<Rightarrow> p | Some q \<Rightarrow> q)),
     if_load = debug_load h,
     if_store = debug_store h,
     if_random = (\<lambda>t. (host_random h (s_randoms t), t\<lparr>s_randoms := s_randoms t + 1\<rparr>)),
     if_debug_rom = host_rom h\<rparr>"

text \<open>\<open>sim_t::proc_reset\<close>, which \<open>processor_t::reset\<close> calls with the number of its hart.\<close>

definition sim_proc_reset :: "u32 \<Rightarrow> simulator \<Rightarrow> unit result \<times> simulator" where
  "sim_proc_reset i = dm_proc_reset i"

end
