(* ===== verification/SimLaws.thy ===== *)
theory SimLaws
  imports Sim
begin

text \<open>
  What the simulator object guarantees to its parts.  Its memory map is linear on pages, which
  discharges the assumption of all theorems about the MMU; the debug port and the harts keep the
  contract that the debug module was verified against, which makes the locale \<open>debug_host\<close> hold of
  the real machine.
\<close>

section \<open>The memory map\<close>

text \<open>
  The shape of the bus: \<open>make_mems\<close> accepts memories of whole pages at page boundaries, and the other
  devices are at page boundaries too, but for the debug module.  The memories must not be in page 0,
  where the debug module is.
\<close>

definition page_aligned :: "reg_t \<Rightarrow> bool" where
  "page_aligned a \<longleftrightarrow> unat a mod 4096 = 0"

fun device_placed :: "reg_t \<times> device \<Rightarrow> bool" where
  "device_placed (base, Dev_mem m) \<longleftrightarrow> page_aligned base \<and> page_aligned (mem_size m) \<and> 4096 \<le> base"
| "device_placed (base, d) \<longleftrightarrow> page_aligned base \<or> base < 4096"

definition bus_placed :: "(reg_t \<times> device) list \<Rightarrow> bool" where
  "bus_placed bus \<longleftrightarrow> sorted_keys bus \<and> list_all device_placed bus"

lemma placed_base: "device_placed (b, d) \<Longrightarrow> page_aligned b \<or> b < 4096 \<and> (\<forall>m. d \<noteq> Dev_mem m)"
  by (cases d) auto

lemma same_page_nat: "same_page a a' \<longleftrightarrow> unat a div 4096 = unat a' div 4096"
  by (simp add: same_page_def vpn_of_def spike_consts word_unat_eq_iff unat_drop_bit_eq drop_bit_eq_div unat_div)

text \<open>A page boundary does not separate two addresses of one page.\<close>

lemma boundary:
  fixes x y b :: nat
  assumes "x div 4096 = y div 4096" "b mod 4096 = 0"
  shows "b \<le> x \<longleftrightarrow> b \<le> y" "b \<le> x \<Longrightarrow> (x - b) div 4096 = (y - b) div 4096"
proof -
  obtain c where b: "b = 4096 * c" using assms(2) by (metis mod_0_imp_dvd dvdE)
  have "4096 * c \<le> z \<longleftrightarrow> c \<le> z div 4096" for z :: nat
    by (simp add: less_eq_div_iff_mult_less_eq mult.commute)
  then show "b \<le> x \<longleftrightarrow> b \<le> y" using assms(1) by (simp add: b)
  then show "(x - b) div 4096 = (y - b) div 4096" if "b \<le> x"
  proof -
    have "4096 * c \<le> x" "4096 * c \<le> y" using that \<open>b \<le> x \<longleftrightarrow> b \<le> y\<close> by (simp_all add: b)
    then obtain d e where "x = 4096 * c + d" "y = 4096 * c + e" by (auto dest!: le_Suc_ex)
    then show ?thesis using assms(1) by (simp add: b)
  qed
qed

lemma find_device_mem: "find_device a bus = Some p \<Longrightarrow> p \<in> set bus \<and> fst p \<le> a"
  unfolding find_device_def below_def
  by (metis (no_types, lifting) last_in_set option.distinct(1) option.inject prod.case_eq_if set_takeWhileD)

lemma find_device_same_page:
  assumes "bus_placed bus" "same_page a a'" "4096 \<le> a"
  shows "find_device a bus = find_device a' bus"
proof -
  have a': "4096 \<le> a'"
    using assms(2,3) boundary(1) [of "unat a" "unat a'" 4096] by (simp add: same_page_nat word_le_nat_alt)
  have "b \<le> a \<longleftrightarrow> b \<le> a'" if "(b, d) \<in> set bus" for b d
  proof -
    have "page_aligned b \<or> b < 4096" using assms(1) that placed_base by (fastforce simp: bus_placed_def list_all_iff)
    then show ?thesis
      using assms(2,3) a' boundary(1) [of "unat a" "unat a'" "unat b"]
      by (auto simp: same_page_nat page_aligned_def word_le_nat_alt word_less_nat_alt)
  qed
  then have "below a bus = below a' bus" unfolding below_def by (intro takeWhile_cong) auto
  then show ?thesis by (simp add: find_device_def)
qed

lemma addr_to_mem_page_0:
  assumes "bus_placed bus" "a < 4096"
  shows "addr_to_mem bus a = None"
proof (cases "find_device a bus")
  case (Some p)
  obtain b d where p: "p = (b, d)" by fastforce
  then have "(b, d) \<in> set bus" "b < 4096" using find_device_mem [OF Some] assms(2) by auto
  then have "device_placed (b, d)" "b < 4096" using assms(1) by (auto simp: bus_placed_def list_all_iff)
  then have "\<forall>m. d \<noteq> Dev_mem m" by (cases d) (auto simp: not_le [symmetric])
  then show ?thesis by (cases d) (simp_all add: addr_to_mem_def Some p)
qed (simp add: addr_to_mem_def)

lemma addr_to_mem_linear:
  assumes "bus_placed bus"
  shows "page_linear (addr_to_mem bus)"
  unfolding page_linear_def
proof (intro allI impI)
  fix a a' assume same: "same_page a a'"
  show "addr_to_mem bus a' = map_option (\<lambda>h. h + (a' - a)) (addr_to_mem bus a)"
  proof (cases "4096 \<le> a")
    case False
    then have "a < 4096" "a' < 4096"
      using same boundary(1) [of "unat a" "unat a'" 4096] by (auto simp: same_page_nat word_le_nat_alt word_less_nat_alt)
    then show ?thesis by (simp add: addr_to_mem_page_0 [OF assms])
  next
    case True
    note same_dev = find_device_same_page [OF assms same True]
    show ?thesis
    proof (cases "\<exists>b m. find_device a bus = Some (b, Dev_mem m)")
      case False
      then show ?thesis
        using same_dev by (auto simp: addr_to_mem_def split: option.splits device.splits)
    next
      case True
      then obtain b m where f: "find_device a bus = Some (b, Dev_mem m)" by blast
      then have al: "page_aligned b" "page_aligned (mem_size m)" and le: "b \<le> a" "b \<le> a'"
        using find_device_mem [OF f] find_device_mem [of a' bus "(b, Dev_mem m)"] assms same_dev
        by (auto simp: bus_placed_def list_all_iff)
      have "unat (a - b) div 4096 = unat (a' - b) div 4096"
        using boundary(2) [of "unat a" "unat a'" "unat b"] same al(1) le
        by (simp add: same_page_nat page_aligned_def unat_sub word_le_nat_alt)
      then have "mem_size m \<le> a - b \<longleftrightarrow> mem_size m \<le> a' - b"
        using boundary(1) [of "unat (a - b)" "unat (a' - b)" "unat (mem_size m)"] al(2)
        by (simp add: page_aligned_def word_le_nat_alt)
      then show ?thesis using f same_dev by (auto simp: addr_to_mem_def not_less [symmetric])
    qed
  qed
qed

section \<open>Device loads and stores\<close>

lemma some_bytes_length: "some_bytes (copy_out buf off n) = Inr (Some bs) \<Longrightarrow> length bs = n"
  by (auto simp: some_bytes_def copy_out_def split: if_splits sum.splits)

lemma mmio_load_length: "mmio_load rom a n s = Inr (Some bs) \<Longrightarrow> length bs = n"
  by (auto simp: mmio_load_def bus_load_def dev_load_def dm_load_def clint_load_def rom_load_def Let_def
      dest: some_bytes_length split: if_splits option.splits device.splits)

definition passive_tracers :: "host \<Rightarrow> bool" where
  "passive_tracers h \<longleftrightarrow> (\<forall>k a n type w. w_hart (host_trace h k a n type w) = w_hart w \<and>
     w_mem (host_trace h k a n type w) = w_mem w)"

lemma sim_simif_ok:
  assumes "bus_placed bus" "passive_tracers h"
  shows "simif_ok (sim_simif h bus p)"
proof -
  have "length bs = n" if "device_answer (mmio_load (host_rom h) a n s) = Some (Some bs)" for a n s bs
    using that by (auto simp: device_answer_def dest: mmio_load_length split: sum.splits)
  then show ?thesis
    using assms addr_to_mem_linear [OF assms(1)]
    by (simp add: simif_ok_def sim_simif_def passive_tracers_def split: port.split)
qed

text \<open>
  What the simulator keeps: hart numbers below 1024, one compare register per hart, the debug
  module at its base address.
\<close>

fun device_fits :: "reg_t \<times> device \<Rightarrow> bool" where
  "device_fits (base, Dev_debug) \<longleftrightarrow> base = DEBUG_START"
| "device_fits (base, Dev_rom data) \<longleftrightarrow> length data < 2 ^ 64"
| "device_fits (base, d) \<longleftrightarrow> True"

definition sim_good :: "sim_t \<Rightarrow> bool" where
  "sim_good t \<longleftrightarrow> list_all (\<lambda>p. unat (p_id p) < 1024) (s_procs t) \<and> length (s_procs t) < 2 ^ 32 \<and>
     length (mtimecmp (s_clint t)) = length (s_procs t) \<and> list_all device_fits (s_bus t)"

lemma sum_fits:
  fixes a :: reg_t
  assumes "\<not> a + of_nat n < a" "n < 2 ^ 64"
  shows "unat a + n < 2 ^ 64"
proof -
  have "unat (of_nat n :: reg_t) = n" using assms(2) by (simp add: unsigned_of_nat take_bit_nat_eq_self)
  moreover have "a \<le> a + of_nat n" using assms(1) by simp
  then have "unat (a + of_nat n) = unat a + unat (of_nat n :: reg_t)" by (simp add: unat_plus_simple)
  moreover have "unat (a + of_nat n) < 2 ^ LENGTH(64)" by (rule unsigned_less)
  ultimately show ?thesis by simp
qed

lemma offset_fits:
  fixes a b :: reg_t
  shows "b \<le> a \<Longrightarrow> unat a + n < 2 ^ 64 \<Longrightarrow> unat (a - b) + n < 2 ^ 64"
  by (simp add: unat_sub word_le_nat_alt)

lemma window_size:
  fixes lo :: reg_t
  assumes "unat lo + k * n < 2 ^ 64"
  shows "unat (lo + of_nat n * of_nat k) - unat lo = k * n"
proof -
  have "of_nat n * of_nat k = (of_nat (k * n) :: reg_t)" by (simp add: mult.commute)
  moreover have "unat (of_nat (k * n) :: reg_t) = k * n"
    using assms by (simp add: unsigned_of_nat take_bit_nat_eq_self del: of_nat_mult)
  ultimately show ?thesis
    using assms by (simp add: unat_word_ariths(1) del: of_nat_mult)
qed

lemma length_msip_image [simp]: "length (msip_image ps) = 4 * length ps"
  by (simp add: msip_image_def length_chunks [where k = 4])

lemma clint_windows:
  assumes "length ps < 2 ^ 32" "length (mtimecmp c) = length ps"
  shows "unat (MSIP_BASE + of_nat (length ps) * 4) - unat MSIP_BASE \<le> 4 * length ps"
    and "unat (MTIMECMP_BASE + of_nat (length ps) * 8) - unat MTIMECMP_BASE \<le> 8 * length ps"
    and "unat (MTIME_BASE + 8) - unat MTIME_BASE \<le> 8"
  using assms window_size [of MSIP_BASE 4 "length ps"] window_size [of MTIMECMP_BASE 8 "length ps"]
  by (simp_all add: spike_consts)

lemma clint_load_ok:
  assumes "length ps < 2 ^ 32" "length (mtimecmp c) = length ps" "unat a + n < 2 ^ 64"
  shows "clint_load a n c ps \<noteq> Inl Abort"
  using clint_windows [OF assms(1,2)] assms
    copy_out_window [of a n MSIP_BASE "MSIP_BASE + of_nat (length ps) * 4" "msip_image ps"]
    copy_out_window [of a n MTIMECMP_BASE "MTIMECMP_BASE + of_nat (length ps) * 8" "words_image (mtimecmp c)"]
    copy_out_window [of a n MTIME_BASE "MTIME_BASE + 8" "le_bytes 8 (mtime c)"]
  by (auto simp: clint_load_def some_bytes_def)

lemma rom_load_ok:
  assumes "length data < 2 ^ 64" "unat a + n < 2 ^ 64"
  shows "rom_load data a n \<noteq> Inl Abort"
proof -
  have "unat (a + of_nat n) = unat a + n"
    using assms(2) by (simp add: unat_word_ariths unsigned_of_nat take_bit_nat_eq_self)
  moreover have "unat (of_nat (length data) :: reg_t) = length data"
    using assms(1) by (simp add: unsigned_of_nat take_bit_nat_eq_self)
  ultimately show ?thesis
    by (simp add: rom_load_def copy_out_def some_bytes_def word_less_nat_alt)
qed

lemma device_fitsD: "sim_good t \<Longrightarrow> (b, d) \<in> set (s_bus t) \<Longrightarrow> device_fits (b, d)"
  by (auto simp: sim_good_def list_all_iff)

text \<open>A device throws nothing but \<open>Abort\<close>.\<close>

lemma mmio_load_exn: "mmio_load rom a n s = Inl e \<Longrightarrow> e = Abort"
  by (auto simp: mmio_load_def bus_load_def dev_load_def dm_load_def clint_load_def rom_load_def Let_def
      some_bytes_def copy_out_def split: if_splits option.splits device.splits)

lemma mmio_load_ok:
  assumes "sim_good (sys s)" "dm_wf (dm s)" "length rom \<le> 2048" "n < 2 ^ 64"
  shows "mmio_load rom a n s \<noteq> Inl Abort"
proof (cases "a + of_nat n < a \<or> find_device a (s_bus (sys s)) = None")
  case True
  then show ?thesis by (auto simp: mmio_load_def bus_load_def)
next
  case False
  then obtain b d where f: "find_device a (s_bus (sys s)) = Some (b, d)" by auto
  have le: "b \<le> a" and fits: "device_fits (b, d)"
    using find_device_mem [OF f] device_fitsD [OF assms(1), of b d] by auto
  have sum: "unat a + n < 2 ^ 64" using False sum_fits assms(4) by blast
  note off = offset_fits [OF le sum]
  have "dev_load rom s d (a - b) n \<noteq> Inl Abort"
    using assms fits off sum load_no_abort [OF assms(2) _ assms(3), of "a - b" n]
    by (cases d) (auto simp: dev_load_def sim_good_def clint_load_ok rom_load_ok)
  with f False show ?thesis by (simp add: mmio_load_def bus_load_def)
qed

lemma p_id_put_mip [simp]: "p_id (put_mip msk b p) = p_id p"
  by (simp add: put_mip_def Let_def upd_state_def)

lemma ids_map: "(\<And>i. p_id (f i) = p_id (ps ! i)) \<Longrightarrow> map p_id (map f [0..<length ps]) = map p_id ps"
  by (rule nth_equalityI) simp_all

lemma ids_increment:
  "clint_increment inc (c, ps) = (c', ps') \<Longrightarrow> map p_id ps' = map p_id ps \<and> mtimecmp c' = mtimecmp c"
  by (auto simp: clint_increment_def Let_def ids_map simp del: map_map)

lemma store_msip_ok:
  assumes "unat off + length bs \<le> 4 * length ps"
  obtains q where "store_msip off bs ps = Inr q" "map p_id q = map p_id ps"
proof
  define pick where "pick i = (if truth ((word_at 4 (copy_into (replicate (4 * length ps) 0) (unat off)
        (replicate (length bs) 0xff)) i :: u32) AND 0xFF)
      then put_mip MIP_MSIP (truth ((word_at 4 (copy_into (replicate (4 * length ps) 0) (unat off) bs) i :: u32) AND 1)) (ps ! i)
      else ps ! i)" for i
  show "store_msip off bs ps = Inr (map pick [0..<length ps])"
    using assms by (simp add: store_msip_def Let_def copy_in_def pick_def [abs_def])
  show "map p_id (map pick [0..<length ps]) = map p_id ps" by (rule ids_map) (simp add: pick_def)
qed

lemma clint_store_ok:
  assumes "length ps < 2 ^ 32" "length (mtimecmp c) = length ps" "unat a + length bs < 2 ^ 64"
    and "clint_store a bs (c, ps) = (r, (c', ps'))"
  shows "r \<noteq> Inl Abort \<and> map p_id ps' = map p_id ps \<and> length (mtimecmp c') = length ps'"
proof -
  note w = clint_windows [OF assms(1,2)]
  let ?msip = "within a (length bs) MSIP_BASE (MSIP_BASE + of_nat (length ps) * 4)"
  let ?cmp = "within a (length bs) MTIMECMP_BASE (MTIMECMP_BASE + of_nat (length ps) * 8)"
  let ?time = "within a (length bs) MTIME_BASE (MTIME_BASE + 8)"
  have stored: ?thesis if "r = Inr True" "clint_increment 0 (d, q) = (c', ps')"
      "length (mtimecmp d) = length ps" "map p_id q = map p_id ps" for d q
    using that ids_increment [OF that(2)] by (auto dest: map_eq_imp_length_eq)
  consider (msip) ?msip | (cmp) "\<not> ?msip" ?cmp | (time) "\<not> ?msip" "\<not> ?cmp" ?time
    | (no) "\<not> ?msip" "\<not> ?cmp" "\<not> ?time" by blast
  then show ?thesis
  proof cases
    case msip
    have "unat (a - MSIP_BASE) + length bs \<le> 4 * length ps"
      using within_offset [OF msip assms(3)] w(1) by simp
    then obtain q where q: "store_msip (a - MSIP_BASE) bs ps = Inr q" "map p_id q = map p_id ps"
      by (rule store_msip_ok)
    then show ?thesis using msip assms(2,4) by (intro stored [of c q]) (simp_all add: clint_store_def)
  next
    case cmp
    obtain buf where "copy_in (words_image (mtimecmp c)) (a - MTIMECMP_BASE) bs = Inr buf"
      using copy_in_window [OF cmp(2) assms(3), of "words_image (mtimecmp c)"] w(2) assms(2) by auto
    then show ?thesis using cmp assms(2,4)
      by (intro stored [of "c\<lparr>mtimecmp := map (word_at 8 buf) [0..<length (mtimecmp c)]\<rparr>" ps])
        (simp_all add: clint_store_def)
  next
    case time
    obtain buf where "copy_in (le_bytes 8 (mtime c)) (a - MTIME_BASE) bs = Inr buf"
      using copy_in_window [OF time(3) assms(3), of "le_bytes 8 (mtime c)"] w(3) by auto
    then show ?thesis using time assms(2,4)
      by (intro stored [of "c\<lparr>mtime := word_at 8 buf 0\<rparr>" ps]) (simp_all add: clint_store_def)
  next
    case no
    then show ?thesis using assms(2,4) by (auto simp: clint_store_def)
  qed
qed

lemma mmio_store_ok:
  assumes "sim_good (sys s)" "dm_wf (dm s)" "length bs < 2 ^ 64" "rom_store_ok a bs"
  shows "fine sim_good (mmio_store a bs s)"
proof (cases "a + of_nat (length bs) < a \<or> find_device a (s_bus (sys s)) = None")
  case True
  then show ?thesis using assms by (auto simp: mmio_store_def bus_store_def fine_def)
next
  case False
  then obtain b d where f: "find_device a (s_bus (sys s)) = Some (b, d)" by auto
  have le: "b \<le> a" and fits: "device_fits (b, d)"
    using find_device_mem [OF f] device_fitsD [OF assms(1), of b d] by auto
  have sum: "unat a + length bs < 2 ^ 64" using False sum_fits assms(3) by blast
  note off = offset_fits [OF le sum]
  have "fine sim_good (dev_store d (a - b) bs s)"
  proof (cases d)
    case Dev_debug
    have "fine sim_good (dm_store (a - b) bs s)"
      using fits sum assms by (intro store_no_abort) (simp_all add: Dev_debug)
    then show ?thesis by (simp add: dev_store_def Dev_debug)
  next
    case Dev_clint
    obtain r c ps where st: "clint_store (a - b) bs (s_clint (sys s), s_procs (sys s)) = (r, (c, ps))"
      by (metis prod.exhaust)
    have kept: "r \<noteq> Inl Abort" "map p_id ps = map p_id (s_procs (sys s))" "length (mtimecmp c) = length ps"
      using clint_store_ok [OF _ _ off st] assms(1) by (simp_all add: sim_good_def)
    have ids: "list_all (\<lambda>p. unat (p_id p) < 1024) ps = list_all (\<lambda>i. unat i < 1024) (map p_id ps)" for ps
      by (simp add: list.pred_map comp_def)
    have "length ps = length (s_procs (sys s))" using kept(2) by (rule map_eq_imp_length_eq)
    then have "sim_good ((sys s)\<lparr>s_clint := c, s_procs := ps\<rparr>)"
      using assms(1) kept(3) by (simp add: sim_good_def ids kept(2))
    then show ?thesis using kept(1) assms(2) by (simp add: dev_store_def Dev_clint st fine_def)
  qed (use assms in \<open>simp_all add: dev_store_def fine_def\<close>)
  with f False show ?thesis by (simp add: mmio_store_def bus_store_def)
qed

section \<open>The debug port keeps the machine\<close>

text \<open>
  The worlds that \<open>debug_mmu\<close> computes in.  Whatever it has cached, translation is the identity and
  no trigger fires.
\<close>

definition port_good :: "simulator world \<Rightarrow> bool" where
  "port_good w \<longleftrightarrow> sim_good (sys (w_dev w)) \<and> dm_wf (dm (w_dev w)) \<and> (\<exists>m. w_hart w = null_hart m)"

definition port_keeps :: "(simulator world \<Rightarrow> 'a result \<times> simulator world) \<Rightarrow> bool" where
  "port_keeps c \<longleftrightarrow> (\<forall>w. port_good w \<longrightarrow> fst (c w) \<noteq> Inl Abort \<and> port_good (snd (c w)))"

named_theorems porting "computations of the debug port"

lemma port_keepsD: "port_keeps c \<Longrightarrow> port_good w \<Longrightarrow> fst (c w) \<noteq> Inl Abort \<and> port_good (snd (c w))"
  by (simp add: port_keeps_def)

lemma port_keepsI: "(\<And>w. port_good w \<Longrightarrow> fst (c w) \<noteq> Inl Abort \<and> port_good (snd (c w))) \<Longrightarrow> port_keeps c"
  by (simp add: port_keeps_def)

lemma port_andthen [porting]:
  assumes "port_keeps c" "\<And>a. port_keeps (f a)"
  shows "port_keeps (andthen c f)"
proof (rule port_keepsI)
  fix w assume "port_good w"
  from port_keepsD [OF assms(1) this] have "fst (c w) \<noteq> Inl Abort" "port_good (snd (c w))" by auto
  with port_keepsD [OF assms(2)] show "fst (andthen c f w) \<noteq> Inl Abort \<and> port_good (snd (andthen c f w))"
    by (cases "c w"; cases "fst (c w)") (auto simp: andthen_def)
qed

lemma port_andthen_val:
  assumes "port_keeps c" "\<And>w a w'. c w = (Inr a, w') \<Longrightarrow> P a" "\<And>a. P a \<Longrightarrow> port_keeps (f a)"
  shows "port_keeps (andthen c f)"
proof (rule port_keepsI)
  fix w assume "port_good w"
  from port_keepsD [OF assms(1) this] have "fst (c w) \<noteq> Inl Abort" "port_good (snd (c w))" by auto
  with port_keepsD [OF assms(3)] assms(2) [of w]
  show "fst (andthen c f w) \<noteq> Inl Abort \<and> port_good (snd (andthen c f w))"
    by (cases "c w"; cases "fst (c w)") (auto simp: andthen_def)
qed

lemma port_return [porting]: "port_keeps (\<lambda>w. (Inr (f w), w))" "port_keeps (Pair (Inr a))"
  by (simp_all add: port_keeps_def)

lemma port_throw [porting]: "port_keeps (\<lambda>w. (Inl (Throw_trap t), w))" "port_keeps (Pair (Inl (Throw_trap t)))"
  by (simp_all add: port_keeps_def)

lemma port_upd_mmu: "port_good w \<Longrightarrow> port_good (upd_mmu f w)"
  by (auto simp: port_good_def upd_mmu_def upd_hart_def null_hart_def)

lemma port_mem: "port_good w \<Longrightarrow> port_good (w\<lparr>w_mem := m\<rparr>)"
  by (simp add: port_good_def)

lemma port_refill: "port_good w \<Longrightarrow> port_good (snd (do_refill a pa h type w))"
  by (auto simp: do_refill_def port_upd_mmu split: prod.split)

lemma port_identity:
  assumes "port_good w"
  shows "translate cfg sif a type w = (Inr a, w)"
  using assms by (intro bare_machine_mode) (auto simp: port_good_def null_hart_def sample_hart_def)

lemma port_translate [porting]: "port_keeps (translate cfg sif a type)"
  by (simp add: port_keeps_def port_identity)

lemma port_no_trigger: "port_good w \<Longrightarrow> check_trigger op a d w = (Inr (), w)"
proof (rule quiet_check)
  have "watches op m (zero_mcontrol\<lparr>mc_type := 2\<rparr>) = False" for m
    by (cases op) (auto simp: watches_def zero_mcontrol_def)
  then show "port_good w \<Longrightarrow> quiet op (w_hart w)"
    by (auto simp: port_good_def null_hart_def sample_hart_def quiet_def state_reset_def list_all_iff)
qed

lemma port_check_trigger [porting]: "port_keeps (check_trigger op a d)"
  by (simp add: port_keeps_def port_no_trigger)

lemma port_data [porting]: "length bs \<in> {1, 2, 4, 8} \<Longrightarrow> port_keeps (data_or_abort bs)"
  by (simp add: port_keeps_def width_bytes)

lemma port_world_good:
  assumes "port_good w"
  shows "sim_good (sys (world_sim Debug_port w))" "dm_wf (dm (world_sim Debug_port w))"
  using assms by (simp_all add: port_good_def world_sim_def sim_good_def)

lemma port_of_good: "sim_good (sys s) \<Longrightarrow> dm_wf (dm s) \<Longrightarrow> port_good (port_world Debug_port s)"
  by (auto simp: port_good_def port_world_def)

lemma port_mmio_load [porting]:
  assumes "length (host_rom h) \<le> 2048" "n < 2 ^ 64"
  shows "port_keeps (device_access (sif_mmio_load (sim_simif h bus Debug_port) a n))"
proof (rule port_keepsI)
  fix w assume "port_good w"
  then show "fst (device_access (sif_mmio_load (sim_simif h bus Debug_port) a n) w) \<noteq> Inl Abort \<and>
      port_good (snd (device_access (sif_mmio_load (sim_simif h bus Debug_port) a n) w))"
    using mmio_load_ok [OF port_world_good [of w] assms, of a] mmio_load_exn [of "host_rom h" a n "world_sim Debug_port w"]
    by (auto simp: device_access_def sim_simif_def device_answer_def split: option.splits sum.splits)
qed

lemma elem_exn: "elem xs i = Inl e \<Longrightarrow> e = Abort" "set_elem xs i x = Inl e \<Longrightarrow> e = Abort"
  "copy_in buf off bs = Inl e \<Longrightarrow> e = Abort"
  by (auto simp: elem_def set_elem_def copy_in_def split: if_splits)

lemma put_exn: "put f g s = (Inl e, s') \<Longrightarrow> f (dm s) = Inl e"
  "look f s = (Inl e, s') \<Longrightarrow> f (dm s) = Inl e"
  by (auto simp: put_def look_def split: sum.splits)

lemma andthen_exn:
  assumes "andthen c f s = (Inl e, s')" "\<And>e s s'. c s = (Inl e, s') \<Longrightarrow> e = Abort"
    and "\<And>a e s s'. f a s = (Inl e, s') \<Longrightarrow> e = Abort"
  shows "e = Abort"
  using assms by (auto simp: andthen_def split: prod.splits sum.splits)

lemma give_exn: "give a s = (Inl e, s') \<Longrightarrow> e = Abort" "modify f s = (Inl e, s') \<Longrightarrow> e = Abort"
  by (simp_all add: give_def modify_def)

lemma change_flag_exn: "change_flag f i s = (Inl e, s') \<Longrightarrow> e = Abort"
  unfolding change_flag_def by (auto dest!: put_exn simp: elem_exn split: sum.splits)

lemma hart_halted_exn: "hart_halted i s = (Inl e, s') \<Longrightarrow> e = Abort"
  unfolding hart_halted_def
  by (erule andthen_exn) (auto dest!: put_exn andthen_exn simp: elem_exn give_exn split: if_splits)

lemma hart_resuming_exn: "hart_resuming i s = (Inl e, s') \<Longrightarrow> e = Abort"
  unfolding hart_resuming_def
  by (erule andthen_exn | auto dest!: put_exn simp: elem_exn change_flag_exn)+

lemma dm_store_exn: "dm_store a bs s = (Inl e, s') \<Longrightarrow> e = Abort"
  unfolding dm_store_def Let_def
  by (auto dest!: put_exn simp: elem_exn hart_halted_exn hart_resuming_exn change_flag_exn give_exn
      split: if_splits elim!: andthen_exn)

lemma mmio_store_exn: "mmio_store a bs s = (Inl e, s') \<Longrightarrow> e = Abort"
  by (auto simp: mmio_store_def bus_store_def dev_store_def clint_store_def store_msip_def Let_def elem_exn
      dest: dm_store_exn split: if_splits option.splits device.splits prod.splits sum.splits)

lemma port_mmio_store [porting]:
  assumes "length bs < 2 ^ 64" "rom_store_ok a bs"
  shows "port_keeps (device_access (sif_mmio_store (sim_simif h bus Debug_port) a bs))"
proof (rule port_keepsI)
  fix w assume w: "port_good w"
  obtain r s where m: "mmio_store a bs (world_sim Debug_port w) = (r, s)" by fastforce
  have "fine sim_good (r, s)" using mmio_store_ok [OF port_world_good [OF w] assms] m by simp
  then have f: "r \<noteq> Inl Abort" "port_good (port_world Debug_port s)"
    by (simp_all add: fine_def port_of_good)
  then show "fst (device_access (sif_mmio_store (sim_simif h bus Debug_port) a bs) w) \<noteq> Inl Abort \<and>
      port_good (snd (device_access (sif_mmio_store (sim_simif h bus Debug_port) a bs) w))"
    using m mmio_store_exn [of a bs "world_sim Debug_port w" _ s]
    by (cases r) (auto simp: device_access_def sim_simif_def device_answer_def)
qed

lemma port_untraced [simp]:
  "sif_interested (sim_simif h bus Debug_port) x y type = False"
  by (simp add: sim_simif_def)

lemma load_memory_length:
  assumes "(case sif_addr_to_mem (sim_simif h bus p) pa of
        Some host \<Rightarrow> (Inr (read_mem (w_mem w) host n), g w host)
      | None \<Rightarrow> andthen (device_access (sif_mmio_load (sim_simif h bus p) pa n))
          (\<lambda>r w. case r of Some bytes \<Rightarrow> (Inr bytes, w) | None \<Rightarrow> (Inl (Throw_trap t), w)) w) = (Inr bs, w')"
  shows "length bs = n"
  using assms by (auto simp: andthen_def device_access_def sim_simif_def device_answer_def
      split: option.splits sum.splits dest: mmio_load_length)

lemma port_load_memory:
  assumes "length (host_rom h) \<le> 2048" "n \<in> {1, 2, 4, 8}"
  shows "port_keeps (\<lambda>w. case sif_addr_to_mem (sim_simif h bus Debug_port) pa of
        Some host \<Rightarrow> (Inr (read_mem (w_mem w) host n), snd (do_refill a pa host LOAD w))
      | None \<Rightarrow> andthen (device_access (sif_mmio_load (sim_simif h bus Debug_port) pa n))
          (\<lambda>r w. case r of Some bytes \<Rightarrow> (Inr bytes, w)
             | None \<Rightarrow> (Inl (Throw_trap (trap_load_access_fault a)), w)) w)"
proof (cases "sif_addr_to_mem (sim_simif h bus Debug_port) pa")
  case None
  have "port_keeps (device_access (sif_mmio_load (sim_simif h bus Debug_port) pa n))"
    using assms by (intro porting) auto
  then have "port_keeps (andthen (device_access (sif_mmio_load (sim_simif h bus Debug_port) pa n))
        (\<lambda>r w. case r of Some bytes \<Rightarrow> (Inr bytes, w)
           | None \<Rightarrow> (Inl (Throw_trap (trap_load_access_fault a)), w)))"
    by (rule port_andthen) (auto simp: port_keeps_def split: option.split)
  then show ?thesis by (simp add: None port_keeps_def)
next
  case (Some host)
  then show ?thesis by (simp add: port_keeps_def port_refill)
qed

lemma port_if_matched [porting]:
  "port_keeps c \<Longrightarrow> port_keeps (\<lambda>w. if matched_trigger (mmu_of w) \<noteq> None then (Inr x, w) else c w)"
  by (simp add: port_keeps_def)

lemma port_load_slow [porting]:
  assumes "length (host_rom h) \<le> 2048" "n \<in> {1, 2, 4, 8}"
  shows "port_keeps (load_slow_path cfg (sim_simif h bus Debug_port) a n)"
proof -
  have trig: "port_keeps (\<lambda>w. if matched_trigger (mmu_of w) \<noteq> None then (Inr bytes, w)
      else andthen (data_or_abort bytes)
        (\<lambda>data. andthen (check_trigger OPERATION_LOAD a data) (\<lambda>_ w. (Inr bytes, w))) w)"
    if "length bytes = n" for bytes
    using that assms(2) by (intro porting) auto
  have inner: "port_keeps (andthen (\<lambda>w. case sif_addr_to_mem (sim_simif h bus Debug_port) pa of
        Some host \<Rightarrow> (Inr (read_mem (w_mem w) host n), snd (do_refill a pa host LOAD w))
      | None \<Rightarrow> andthen (device_access (sif_mmio_load (sim_simif h bus Debug_port) pa n))
          (\<lambda>r w. case r of Some bytes \<Rightarrow> (Inr bytes, w)
             | None \<Rightarrow> (Inl (Throw_trap (trap_load_access_fault a)), w)) w)
      (\<lambda>bytes w. if matched_trigger (mmu_of w) \<noteq> None then (Inr bytes, w)
        else andthen (data_or_abort bytes)
          (\<lambda>data. andthen (check_trigger OPERATION_LOAD a data) (\<lambda>_ w. (Inr bytes, w))) w))" for pa
    by (rule port_andthen_val [OF port_load_memory [OF assms]], erule load_memory_length, erule trig)
  have "port_keeps (\<lambda>w. load_slow_path cfg (sim_simif h bus Debug_port) a n w)"
    unfolding load_slow_path_def Let_def port_untraced if_False
    by (rule port_andthen [OF port_translate inner])
  then show ?thesis by simp
qed

lemma port_load_aligned [porting]:
  assumes "length (host_rom h) \<le> 2048" "n \<in> {1, 2, 4, 8}"
  shows "port_keeps (load_aligned cfg (sim_simif h bus Debug_port) sx n a)"
proof (rule port_keepsI)
  fix w assume w: "port_good w"
  have "port_keeps (andthen (load_slow_path cfg (sim_simif h bus Debug_port) a n)
      (\<lambda>bytes w. (Inr (extend_value sx n (of_le_bytes bytes)), w)))"
    using assms by (intro porting)
  from port_keepsD [OF this w] show "fst (load_aligned cfg (sim_simif h bus Debug_port) sx n a w) \<noteq> Inl Abort \<and>
      port_good (snd (load_aligned cfg (sim_simif h bus Debug_port) sx n a w))"
    using w by (auto simp: load_aligned_def Let_def andthen_def [of "check_trigger _ _ _"] port_no_trigger)
qed

lemma port_misaligned_load [porting]:
  assumes "length (host_rom h) \<le> 2048"
  shows "port_keeps (misaligned_load_bytes cfg (sim_simif h bus Debug_port) k a i res)"
proof (induction k arbitrary: i res)
  case 0
  then show ?case by (simp add: port_keeps_def)
next
  case (Suc k)
  have "port_keeps (andthen (load_aligned cfg (sim_simif h bus Debug_port) False 1 (a + of_nat i))
       (\<lambda>b. misaligned_load_bytes cfg (sim_simif h bus Debug_port) k a (Suc i) (res + shl b (i * 8))))"
    using assms by (intro porting Suc.IH) auto
  then show ?case by (simp add: port_keeps_def)
qed

lemma port_mmu_load [porting]:
  assumes "length (host_rom h) \<le> 2048" "n \<in> {1, 2, 4, 8}"
  shows "port_keeps (mmu_load cfg (sim_simif h bus Debug_port) sx n a)"
proof -
  have "port_keeps (\<lambda>w. misaligned_load cfg (sim_simif h bus Debug_port) a n w)"
    using port_misaligned_load [OF assms(1)] by (simp add: misaligned_load_def port_keeps_def)
  then have "port_keeps (andthen (misaligned_load cfg (sim_simif h bus Debug_port) a n)
      (\<lambda>v w. (Inr (extend_value sx n v), w)))" by (intro porting) simp
  then show ?thesis
    using port_load_aligned [OF assms] by (simp add: mmu_load_def port_keeps_def)
qed

text \<open>Stores: of one size, and byte by byte.\<close>

lemma port_store_aligned:
  assumes "n \<in> {1, 2, 4, 8}" "rom_store_ok a (le_bytes n v)"
  shows "port_keeps (store_aligned cfg (sim_simif h bus Debug_port) n a v)"
proof -
  let ?sif = "sim_simif h bus Debug_port"
  have mem: "port_keeps (\<lambda>w. case sif_addr_to_mem ?sif pa of
        Some host \<Rightarrow> (Inr (), snd (do_refill a pa host STORE (w\<lparr>w_mem := write_mem host (le_bytes n v) (w_mem w)\<rparr>)))
      | None \<Rightarrow> andthen (device_access (sif_mmio_store ?sif a (le_bytes n v)))
          (\<lambda>ok w. if ok then (Inr (), w) else (Inl (Throw_trap (trap_store_access_fault a)), w)) w)" for pa
  proof (cases "sif_addr_to_mem ?sif pa")
    case None
    have "port_keeps (device_access (sif_mmio_store ?sif a (le_bytes n v)))"
      using assms by (intro porting) auto
    then have "port_keeps (andthen (device_access (sif_mmio_store ?sif a (le_bytes n v)))
        (\<lambda>ok w. if ok then (Inr (), w) else (Inl (Throw_trap (trap_store_access_fault a)), w)))"
      by (rule port_andthen) (auto simp: port_keeps_def)
    then show ?thesis by (simp add: None port_keeps_def)
  qed (simp add: port_keeps_def port_refill port_mem)
  have trig: "port_keeps (\<lambda>w. if matched_trigger (mmu_of w) \<noteq> None then (Inr (), w)
      else andthen (data_or_abort (le_bytes n v)) (\<lambda>data. check_trigger OPERATION_STORE a data) w)"
    using assms(1) by (intro porting) auto
  have slow: "store_slow_path cfg ?sif a (le_bytes n v) w =
      andthen (\<lambda>w. if matched_trigger (mmu_of w) \<noteq> None then (Inr (), w)
        else andthen (data_or_abort (le_bytes n v)) (\<lambda>data. check_trigger OPERATION_STORE a data) w)
       (\<lambda>_ w. case sif_addr_to_mem ?sif a of
          Some host \<Rightarrow> (Inr (), snd (do_refill a a host STORE (w\<lparr>w_mem := write_mem host (le_bytes n v) (w_mem w)\<rparr>)))
        | None \<Rightarrow> andthen (device_access (sif_mmio_store ?sif a (le_bytes n v)))
            (\<lambda>ok w. if ok then (Inr (), w) else (Inl (Throw_trap (trap_store_access_fault a)), w)) w) w"
    if "port_good w" for w
    unfolding store_slow_path_def Let_def port_untraced if_False
    using port_identity [OF that, of cfg ?sif a STORE] by (simp add: andthen_def [of "translate cfg ?sif a STORE"])
  show ?thesis
  proof (rule port_keepsI)
    fix w assume w: "port_good w"
    from port_keepsD [OF port_andthen [OF trig mem [of a]] w]
    show "fst (store_aligned cfg ?sif n a v w) \<noteq> Inl Abort \<and> port_good (snd (store_aligned cfg ?sif n a v w))"
      using w by (auto simp: store_aligned_def Let_def andthen_def [of "check_trigger _ _ _"] port_no_trigger
          slow port_mem)
  qed
qed

lemma byte_store_ok: "a \<noteq> DEBUG_ROM_HALTED \<Longrightarrow> a \<noteq> DEBUG_ROM_RESUMING \<Longrightarrow> rom_store_ok a bs"
  by (simp add: rom_store_ok_def)

lemma port_misaligned_store:
  assumes "\<And>j. i \<le> j \<Longrightarrow> j < i + k \<Longrightarrow> a + of_nat j \<notin> {DEBUG_ROM_HALTED, DEBUG_ROM_RESUMING}"
  shows "port_keeps (misaligned_store_bytes cfg (sim_simif h bus Debug_port) k a v i)"
  using assms
proof (induction k arbitrary: i)
  case 0
  then show ?case by (simp add: port_keeps_def)
next
  case (Suc k)
  have "port_keeps (andthen (store_aligned cfg (sim_simif h bus Debug_port) 1 (a + of_nat i) (shr v (i * 8)))
       (\<lambda>_. misaligned_store_bytes cfg (sim_simif h bus Debug_port) k a v (Suc i)))"
    using Suc.prems [of i] by (intro port_andthen port_store_aligned byte_store_ok Suc.IH Suc.prems) auto
  then show ?case by (simp add: port_keeps_def)
qed

text \<open>
  The stores of the debugger that do not hurt the machine: the registers of the debug ROM are only
  written as a whole, with the number of a hart.
\<close>

definition harmless :: "reg_t \<Rightarrow> byte list \<Rightarrow> bool" where
  "harmless a bs \<longleftrightarrow>
     (if misaligned a (length bs)
      then list_all (\<lambda>i. a + of_nat i \<notin> {DEBUG_ROM_HALTED, DEBUG_ROM_RESUMING}) [0..<length bs]
      else rom_store_ok a bs)"

lemma port_mmu_store:
  assumes "length bs \<in> {1, 2, 4, 8}" "harmless a bs"
  shows "port_keeps (mmu_store cfg (sim_simif h bus Debug_port) (length bs) a (of_le_bytes bs))"
proof (cases "misaligned a (length bs)")
  case True
  have "port_keeps (misaligned_store_bytes cfg (sim_simif h bus Debug_port) (length bs) a (of_le_bytes bs) 0)"
    using assms(2) True by (intro port_misaligned_store) (auto simp: harmless_def list_all_iff)
  then show ?thesis using True by (simp add: mmu_store_def port_keeps_def)
next
  case False
  have "le_bytes (length bs) (of_le_bytes bs :: reg_t) = bs"
    using assms(1) by (intro le_bytes_inverse) auto
  then have "port_keeps (store_aligned cfg (sim_simif h bus Debug_port) (length bs) a (of_le_bytes bs))"
    using assms False by (intro port_store_aligned) (auto simp: harmless_def)
  then show ?thesis using False by (simp add: mmu_store_def port_keeps_def)
qed

lemma keeps_through_port:
  assumes "\<And>bus. port_keeps (f bus)"
  shows "keeps sim_good (\<lambda>s. through_port Debug_port (f (s_bus (sys s))) s)"
proof (rule keepsI)
  fix s :: simulator assume s: "sim_good (sys s)" "dm_wf (dm s)"
  obtain r w where f: "f (s_bus (sys s)) (port_world Debug_port s) = (r, w)" by fastforce
  with port_keepsD [OF assms port_of_good [OF s], of "s_bus (sys s)"] have "r \<noteq> Inl Abort" "port_good w" by auto
  then show "fst (through_port Debug_port (f (s_bus (sys s))) s) \<noteq> Inl Abort \<and>
      sim_good (sys (snd (through_port Debug_port (f (s_bus (sys s))) s))) \<and>
      dm_wf (dm (snd (through_port Debug_port (f (s_bus (sys s))) s)))"
    using port_world_good by (simp add: through_port_def f)
qed

lemma keeps_debug_load:
  assumes "length (host_rom h) \<le> 2048" "n \<in> {1, 2, 4, 8}"
  shows "keeps sim_good (debug_load h a n)"
  unfolding debug_load_def [abs_def] using assms by (intro keeps_through_port porting)

lemma keeps_debug_store:
  assumes "length bs \<in> {1, 2, 4, 8}" "harmless a bs"
  shows "keeps sim_good (debug_store h a bs)"
  unfolding debug_store_def [abs_def] using assms by (intro keeps_through_port port_mmu_store)

lemma sim_good_procs: "sim_good t \<Longrightarrow> i < length (s_procs t) \<Longrightarrow> unat (p_id (s_procs t ! i)) < 1024"
  by (simp add: sim_good_def list_all_length)

lemma sim_good_upd_proc:
  assumes "sim_good t" "\<And>p. p_id (f p) = p_id p"
  shows "sim_good (upd_proc i f t)" "length (s_procs (upd_proc i f t)) = length (s_procs t)"
proof -
  have "unat (p_id (f (s_procs t ! i))) < 1024" if "i < length (s_procs t)"
    using sim_good_procs [OF assms(1) that] assms(2) by simp
  then show "sim_good (upd_proc i f t)"
    using assms(1) by (cases "i < length (s_procs t)")
      (auto simp: sim_good_def upd_proc_def list_all_length nth_list_update)
qed (simp add: upd_proc_def)

text \<open>The debug ROM fits into its page: at most 2048 bytes, as the code's address map has it.\<close>

definition fit_rom :: "host \<Rightarrow> host" where
  "fit_rom h = h\<lparr>host_rom := take 2048 (host_rom h)\<rparr>"

lemma fit_rom_fits [simp]: "length (host_rom h) \<le> 2048 \<Longrightarrow> fit_rom h = h" "length (host_rom (fit_rom h)) \<le> 2048"
  by (simp_all add: fit_rom_def)

interpretation machine: debug_host "sim_dm_if (fit_rom h)" sim_good harmless for h
proof unfold_locales
  fix s t :: sim_t and i :: nat and b a n bs
  assume g: "sim_good t"
  show "i < if_nprocs (sim_dm_if (fit_rom h)) t \<Longrightarrow>
      if_present (sim_dm_if (fit_rom h)) i t \<and> unat (if_hart_id (sim_dm_if (fit_rom h)) i t) < 1024"
    using sim_good_procs [OF g] by (simp add: sim_dm_if_def)
  have "p_id (case proc_reset p of None \<Rightarrow> p | Some q \<Rightarrow> q) = p_id p" for p
    using proc_reset_id by (auto split: option.split)
  then show "sim_good (if_reset_core (sim_dm_if (fit_rom h)) i t) \<and>
      if_nprocs (sim_dm_if (fit_rom h)) (if_reset_core (sim_dm_if (fit_rom h)) i t) = if_nprocs (sim_dm_if (fit_rom h)) t"
    using sim_good_upd_proc [OF g] by (simp add: sim_dm_if_def)
  show "sim_good (if_set_halt_request (sim_dm_if (fit_rom h)) i b t) \<and>
      if_nprocs (sim_dm_if (fit_rom h)) (if_set_halt_request (sim_dm_if (fit_rom h)) i b t) = if_nprocs (sim_dm_if (fit_rom h)) t"
    using sim_good_upd_proc [OF g] by (simp add: sim_dm_if_def)
  show "sim_good (snd (if_random (sim_dm_if (fit_rom h)) t))"
    using g by (simp add: sim_dm_if_def sim_good_def)
next
  fix a n assume "(n :: nat) \<in> {1, 2, 4}"
  then show "keeps sim_good (if_load (sim_dm_if (fit_rom h)) a n)"
    using keeps_debug_load [of "fit_rom h" n a] by (auto simp: sim_dm_if_def)
next
  fix a bs assume "length bs \<in> {1, 2, 4, 8}" "harmless a bs"
  then show "keeps sim_good (if_store (sim_dm_if (fit_rom h)) a bs)"
    using keeps_debug_store [of bs a "fit_rom h"] by (simp add: sim_dm_if_def)
next
  show "length (if_debug_rom (sim_dm_if (fit_rom h))) \<le> 2048" by (simp add: sim_dm_if_def)
qed

section \<open>The machine\<close>

text \<open>A machine with every kind of device, for the witnesses.\<close>

definition sample_bus :: "(reg_t \<times> device) list" where
  "sample_bus = [(DEBUG_START, Dev_debug), (0x1000, Dev_rom []), (CLINT_BASE, Dev_clint),
     (0x80000000, Dev_mem \<lparr>mem_contents = 0x7f0000000000, mem_size = 0x10000\<rparr>)]"

definition sample_host :: host where
  "sample_host = \<lparr>host_build = sample_build,
     host_isa = \<lparr>isa_exec = (\<lambda>f i a w. (Inr (a + 4), w)), isa_name = (\<lambda>i. [])\<rparr>,
     host_rom = [0x6f, 0, 0, 1], host_random = (\<lambda>i. 0x1234), host_interested = (\<lambda>k a b type. False),
     host_trace = (\<lambda>k a n type w. w), host_fetch_temp = (\<lambda>p. 0), host_dtb = [], host_entry_point = 0x80000000,
     host_switch = id\<rparr>"

definition sample_sim :: sim_t where
  "sample_sim = \<lparr>s_procs = [sample_hart], s_mem = (\<lambda>a. ucast a), s_bus = sample_bus,
     s_clint = clint_construct 0 [sample_hart], s_debug_mmu = p_mmu sample_hart, s_randoms = 0\<rparr>"

lemma sample_bus_placed: "bus_placed sample_bus"
  by (simp add: bus_placed_def sample_bus_def sorted_keys_def page_aligned_def spike_consts)

lemma sample_sim_good: "sim_good sample_sim"
  by (simp add: sim_good_def sample_sim_def sample_bus_def sample_hart_def clint_construct_def spike_consts)



text \<open>
  A memory at address 0 breaks the map: its first page also holds the debug module, whose
  registers are then read from that memory by every access that hits in the TLB.
\<close>

lemma memory_in_page_0_not_linear:
  "\<not> page_linear (addr_to_mem [(0, Dev_mem \<lparr>mem_contents = h, mem_size = 0x10000\<rparr>), (DEBUG_START, Dev_debug)])"
proof
  let ?bus = "[(0, Dev_mem \<lparr>mem_contents = h, mem_size = 0x10000\<rparr>), (DEBUG_START, Dev_debug)]"
  assume l: "page_linear (addr_to_mem ?bus)"
  have "same_page 0 0x100" by (simp add: same_page_def vpn_of_def spike_consts)
  with l have "addr_to_mem ?bus 0x100 = map_option (\<lambda>h. h + (0x100 - 0)) (addr_to_mem ?bus 0)"
    unfolding page_linear_def by blast
  then show False by (simp add: addr_to_mem_def find_device_def below_def spike_consts)
qed



text \<open>The hart number in a store to the debug ROM's registers is used without a check.\<close>

lemma program_buffer_above:
  assumes "dm_wf m"
  shows "(0x100 :: reg_t) < ucast (debug_progbuf_start m)"
proof -
  define p where "p = unat (progbufsize m)"
  have p: "p \<le> 16" using wf_lengths(11) [OF assms] by (simp add: word_le_nat_alt p_def)
  have pm: "progbufsize m = of_nat p" by (simp add: p_def)
  have b: "unat (program_buffer_bytes m) = 4 + 4 * p"
    using p by (simp add: program_buffer_bytes_def pm unat_word_ariths unsigned_of_nat take_bit_nat_eq_self)
  then have "program_buffer_bytes m \<le> debug_data_start"
    using p by (simp add: debug_data_start_def word_le_nat_alt)
  then have "unat (debug_progbuf_start m) = 0x380 - (4 + 4 * p)"
    by (simp add: debug_progbuf_start_def unat_sub b debug_data_start_def)
  then show ?thesis using p by (simp add: word_less_nat_alt unsigned_ucast_eq take_bit_nat_eq_self)
qed

lemma hart_number_unchecked:
  assumes "dm_wf (dm s)"
  shows "fst (dm_store 0 (le_bytes 4 (1024 :: u32)) s) = Inl Abort" "fst (dm_store 0 [0] s) = Inl Abort"
proof -
  have pb: "\<not> (ucast (debug_progbuf_start (dm s)) :: reg_t) \<le> 0x100"
    using program_buffer_above [OF assms] by simp
  have "read32 (le_bytes 4 (1024 :: u32)) 0 = Inr 1024" by (simp add: read32_def Let_def)
  then show "fst (dm_store 0 (le_bytes 4 (1024 :: u32)) s) = Inl Abort"
    using pb wf_lengths(6) [OF assms]
    by (simp add: dm_store_def Let_def spike_consts within_def debug_data_start_def hart_halted_def andthen_def
        put_def set_elem_def)
  show "fst (dm_store 0 [0] s) = Inl Abort"
    using pb by (simp add: dm_store_def Let_def spike_consts within_def debug_data_start_def)
qed

end
