(* ===== verification/IsaString.thy ===== *)
theory IsaString
  imports StepLaws "HOL-Library.Sublist"
begin

text \<open>
  The construction of a processor (\<open>riscv/processor.cc\<close>): the parser of \<open>--isa\<close> strings, the
  registration of an extension, and the constructor.  Extensions are not in the repository;
  \<open>find_extension\<close> is an argument that gives the instructions of an extension, \<open>None\<close> when there is
  none of that name.
\<close>

section \<open>Parsing\<close>

definition char_code :: "char \<Rightarrow> nat" where
  "char_code c = of_char c"

text \<open>\<open>tolower\<close> and \<open>islower\<close> in the C locale.\<close>

definition tolower :: "char \<Rightarrow> char" where
  "tolower c = (if 65 \<le> char_code c \<and> char_code c \<le> 90 then char_of (char_code c + 32) else c)"

definition islower :: "char \<Rightarrow> bool" where
  "islower c \<longleftrightarrow> 97 \<le> char_code c \<and> char_code c \<le> 122"

text \<open>The prefix: the width, the \<open>MXL\<close> field of \<open>misa\<close> and the rest.\<close>

definition isa_prefix :: "string \<Rightarrow> nat \<times> reg_t \<times> string" where
  "isa_prefix p =
     (if take 4 p = ''rv32'' then (32, shl 1 30, drop 4 p)
      else if take 4 p = ''rv64'' then (64, shl 2 62, drop 4 p)
      else if take 2 p = ''rv'' then (64, shl 2 62, drop 2 p)
      else (64, shl 2 62, p))"

definition isa_body :: "string \<Rightarrow> string option" where
  "isa_body p = (case p of
     [] \<Rightarrow> Some ''imafdc''
   | c # cs \<Rightarrow> if c = CHR ''g'' then Some (''imafd'' @ cs) else if c = CHR ''i'' then Some p else None)"

text \<open>\<open>1L << (c - 'a')\<close>, for a letter.\<close>

definition letter_bit :: "char \<Rightarrow> reg_t" where
  "letter_bit c = shl 1 (char_code c - 97)"

text \<open>
  The loop over the letters: \<open>subsets\<close> is what is left of \<open>all_subsets\<close>.  The result is \<open>misa\<close> and the
  names of the extensions in their order; \<open>None\<close> is \<open>bad_isa_string\<close>.
\<close>

function isa_letters :: "string \<Rightarrow> string \<Rightarrow> reg_t \<Rightarrow> string list \<Rightarrow> (reg_t \<times> string list) option" where
  "isa_letters subsets [] m exts = Some (m, exts)"
| "isa_letters subsets (c # cs) m exts =
     (let m = m OR letter_bit c in
      if c \<in> set subsets then isa_letters (tl (dropWhile (\<lambda>d. d \<noteq> c) subsets)) cs m exts
      else if c = CHR ''x'' then isa_letters subsets (dropWhile islower cs) m (exts @ [takeWhile islower cs])
      else None)"
  by pat_completeness auto
termination
  by (relation "measure (\<lambda>(subsets, cs, m, exts). length cs)") (auto simp: length_dropWhile_le le_imp_less_Suc)

record isa_spec =
  isa_xlen :: nat
  isa_misa :: reg_t
  isa_text :: string
  isa_exts :: "string list"

definition has_letter :: "char \<Rightarrow> reg_t \<Rightarrow> bool" where
  "has_letter c m = bit m (char_code c - 97)"

definition parse_isa_string :: "string \<Rightarrow> isa_spec option" where
  "parse_isa_string str =
     (let (xlen, m, p) = isa_prefix (map tolower str) in
      case isa_body p of
        None \<Rightarrow> None
      | Some p \<Rightarrow>
          (case isa_letters ''imafdqc'' p (m OR letter_bit CHR ''s'' OR letter_bit CHR ''u'') [] of
             None \<Rightarrow> None
           | Some (m, exts) \<Rightarrow>
               if has_letter CHR ''d'' m \<and> \<not> has_letter CHR ''f'' m
                  \<or> has_letter CHR ''q'' m \<and> \<not> has_letter CHR ''d'' m
                  \<or> has_letter CHR ''q'' m \<and> xlen < 64 then None
               else Some \<lparr>isa_xlen = xlen, isa_misa = m,
                 isa_text = ''rv'' @ (if xlen = 32 then ''32'' else ''64'') @ p, isa_exts = exts\<rparr>))"

section \<open>The constructor\<close>

text \<open>
  \<open>register_extension\<close>: a second extension is refused (\<open>std::logic_error\<close>).  The extension's
  disassembly entries are not modelled.
\<close>

definition register_extension :: "insn_desc list \<Rightarrow> processor_t \<Rightarrow> processor_t option" where
  "register_extension insns p =
     (let p = p\<lparr>p_decoder := build_opcode_map (fold register_insn insns (p_decoder p))\<rparr>
      in if p_ext p then None else Some (p\<lparr>p_ext := True\<rparr>))"

fun register_extensions :: "(string \<Rightarrow> insn_desc list option) \<Rightarrow> string list \<Rightarrow> processor_t \<Rightarrow> processor_t option" where
  "register_extensions find_extension [] p = Some p"
| "register_extensions find_extension (x # xs) p =
     (case find_extension x of
        None \<Rightarrow> None
      | Some insns \<Rightarrow>
          (case register_extension insns p of
             None \<Rightarrow> None
           | Some p \<Rightarrow> register_extensions find_extension xs p))"

definition new_mmu :: "mmu_t \<Rightarrow> mmu_t" where
  "new_mmu garbage = yield_load_reservation (flush_tlb (garbage\<lparr>check_triggers_fetch := False,
     check_triggers_load := False, check_triggers_store := False, matched_trigger := None\<rparr>))"

text \<open>
  The constructor; \<open>garbage\<close> holds the members it leaves uninitialised (the contents of the caches,
  \<open>track_insn\<close>).  The call of \<open>sim->proc_reset\<close> at the end of \<open>reset\<close> is made by the caller.
\<close>

definition new_processor :: "(string \<Rightarrow> insn_desc list option) \<Rightarrow> processor_t \<Rightarrow> string \<Rightarrow> bool \<Rightarrow> u32 \<Rightarrow> processor_t option" where
  "new_processor find_extension garbage isa halt_on_reset hartid =
     (case parse_isa_string isa of
        None \<Rightarrow> None
      | Some i \<Rightarrow>
          (let p = garbage\<lparr>p_debug := False, p_halt_request := False, p_ext := False, p_id := hartid,
                 p_halt_on_reset := halt_on_reset, p_decoder := empty_decoder, p_max_xlen := isa_xlen i,
                 p_max_isa := isa_misa i, p_isa_string := isa_text i, p_tracked_insn_count := Map.empty\<rparr>
           in case register_extensions find_extension (isa_exts i) p of
                None \<Rightarrow> None
              | Some p \<Rightarrow> proc_reset (p\<lparr>p_decoder := register_base_instructions (p_decoder p),
                    p_mmu := new_mmu (p_mmu p)\<rparr>)))"

section \<open>The language of ISA strings\<close>

text \<open>A body is a sequence of standard letters in their order, and an extension at its end.\<close>

definition ext_part :: "string option \<Rightarrow> string" where
  "ext_part ext = (case ext of None \<Rightarrow> [] | Some n \<Rightarrow> CHR ''x'' # n)"

definition with_letters :: "string \<Rightarrow> reg_t \<Rightarrow> reg_t" where
  "with_letters cs m = fold (\<lambda>c m. m OR letter_bit c) cs m"

definition letters_of :: "string \<Rightarrow> string option \<Rightarrow> string" where
  "letters_of letters ext = letters @ (case ext of None \<Rightarrow> [] | Some n \<Rightarrow> [CHR ''x''])"

definition body_parts :: "string \<Rightarrow> string \<Rightarrow> string \<Rightarrow> string option \<Rightarrow> bool" where
  "body_parts subsets cs letters ext \<longleftrightarrow> cs = letters @ ext_part ext \<and> subseq letters subsets \<and>
     (case ext of None \<Rightarrow> True | Some n \<Rightarrow> list_all islower n)"

lemma subseq_first:
  "subseq (c # cs) ys \<longleftrightarrow> c \<in> set ys \<and> subseq cs (tl (dropWhile (\<lambda>d. d \<noteq> c) ys))"
  by (induction ys) (auto dest: subseq_Cons')

lemma subset_after: "set (tl (dropWhile P ys)) \<subseteq> set ys"
proof
  fix x assume "x \<in> set (tl (dropWhile P ys))"
  then have "x \<in> set (dropWhile P ys)" by (cases "dropWhile P ys") auto
  then show "x \<in> set ys" by (rule set_dropWhileD)
qed

lemma body_parts_letter:
  assumes "c \<in> set subsets" "\<forall>c \<in> set subsets. islower c \<and> c \<noteq> CHR ''x''"
  shows "(\<exists>letters ext. body_parts subsets (c # cs) letters ext \<and> P letters ext) \<longleftrightarrow>
    (\<exists>letters ext. body_parts (tl (dropWhile (\<lambda>d. d \<noteq> c) subsets)) cs letters ext \<and> P (c # letters) ext)"
    (is "?l \<longleftrightarrow> ?r")
proof
  assume ?l
  then obtain letters ext where b: "body_parts subsets (c # cs) letters ext" "P letters ext" by blast
  have "c \<noteq> CHR ''x''" using assms by blast
  then obtain ls where "letters = c # ls"
    using b(1) by (cases letters) (auto simp: body_parts_def ext_part_def split: option.splits)
  with b assms(1) show ?r by (auto simp: body_parts_def subseq_first)
next
  assume ?r
  then obtain letters ext where "body_parts (tl (dropWhile (\<lambda>d. d \<noteq> c) subsets)) cs letters ext" "P (c # letters) ext"
    by blast
  with assms(1) show ?l by (intro exI [of _ "c # letters"] exI [of _ ext]) (simp add: body_parts_def subseq_first)
qed

lemma body_parts_x:
  assumes "\<forall>c \<in> set subsets. islower c \<and> c \<noteq> CHR ''x''"
  shows "body_parts subsets (CHR ''x'' # cs) letters ext \<longleftrightarrow> letters = [] \<and> ext = Some cs \<and> list_all islower cs"
proof -
  have "\<not> subseq (CHR ''x'' # ls) subsets" for ls using assms by (auto simp: subseq_first)
  then show ?thesis
    by (cases letters) (auto simp: body_parts_def ext_part_def split: option.splits)
qed

lemma isa_letters_language:
  assumes "\<forall>c \<in> set subsets. islower c \<and> c \<noteq> CHR ''x''"
  shows "isa_letters subsets cs m exts = Some (m', exts') \<longleftrightarrow>
    (\<exists>letters ext. body_parts subsets cs letters ext \<and>
       m' = with_letters (letters_of letters ext) m \<and>
       exts' = exts @ (case ext of None \<Rightarrow> [] | Some n \<Rightarrow> [n]))"
  using assms
proof (induction subsets cs m exts rule: isa_letters.induct)
  case (1 subsets m exts)
  then show ?case by (auto simp: body_parts_def ext_part_def letters_of_def with_letters_def split: option.splits)
next
  case (2 subsets c cs m exts)
  let ?rest = "tl (dropWhile (\<lambda>d. d \<noteq> c) subsets)"
  show ?case
  proof (cases "c \<in> set subsets")
    case True
    have "\<forall>c \<in> set ?rest. islower c \<and> c \<noteq> CHR ''x''" using 2(3) subset_after by fast
    note IH = "2.IH"(1) [OF refl True this]
    show ?thesis
      unfolding body_parts_letter [OF True 2(3)] using True IH
      by (simp add: Let_def letters_of_def with_letters_def)
  next
    case False
    note no_letter = this
    show ?thesis
    proof (cases "c = CHR ''x''")
      case True
      have "isa_letters subsets (dropWhile islower cs) q es = (if list_all islower cs then Some (q, es) else None)" for q es
      proof (cases "dropWhile islower cs")
        case Nil
        then have "\<forall>x \<in> set cs. islower x" by (simp add: dropWhile_eq_Nil_conv)
        with Nil show ?thesis by (simp only: list_all_iff isa_letters.simps) simp
      next
        case (Cons d ds)
        then have "\<not> islower d" by (metis hd_dropWhile list.distinct(1) list.sel(1))
        moreover have "islower CHR ''x''" by (simp add: islower_def char_code_def)
        ultimately have "d \<notin> set subsets" "d \<noteq> CHR ''x''" using 2(3) by auto
        moreover have "\<not> list_all islower cs" using Cons by (auto simp: list_all_iff dropWhile_eq_Nil_conv [symmetric])
        ultimately show ?thesis by (simp add: Cons Let_def)
      qed
      moreover have "list_all islower cs \<Longrightarrow> takeWhile islower cs = cs" by (simp add: list_all_iff)
      ultimately show ?thesis
        using no_letter 2(3) by (auto simp: True body_parts_x Let_def letters_of_def with_letters_def)
    next
      case False
      then have "\<not> body_parts subsets (c # cs) letters ext" for letters ext
        using no_letter by (cases letters) (auto simp: body_parts_def ext_part_def subseq_first split: option.splits)
      then show ?thesis using False no_letter by (simp add: Let_def)
    qed
  qed
qed

lemma bit_with_letters:
  "bit (with_letters cs m) k \<longleftrightarrow> bit m k \<or> k < 64 \<and> (\<exists>c \<in> set cs. char_code c - 97 = k)"
  unfolding with_letters_def
  by (induction cs arbitrary: m) (auto simp: letter_bit_def bit_simps)

definition initial_misa :: "reg_t \<Rightarrow> reg_t" where
  "initial_misa m = m OR letter_bit CHR ''s'' OR letter_bit CHR ''u''"

lemma prefix_cases: "isa_prefix p = (xlen, m, r) \<Longrightarrow> (xlen = 32 \<and> m = shl 1 30) \<or> (xlen = 64 \<and> m = shl 2 62)"
  by (auto simp: isa_prefix_def split: if_splits)

lemma initial_misa_bits:
  assumes "isa_prefix p = (xlen, m, r)"
  shows "\<not> bit (initial_misa m) 3" "\<not> bit (initial_misa m) 5" "\<not> bit (initial_misa m) 16"
    "bit (initial_misa m) 18" "bit (initial_misa m) 20"
proof -
  have "m = 0x40000000 \<or> m = 0x8000000000000000" using prefix_cases [OF assms] by auto
  then show "\<not> bit (initial_misa m) 3" "\<not> bit (initial_misa m) 5" "\<not> bit (initial_misa m) 16"
    "bit (initial_misa m) 18" "bit (initial_misa m) 20"
    by (auto simp: initial_misa_def letter_bit_def char_code_def bit_simps)
qed

text \<open>A standard letter of the body is the extension letter of \<open>misa\<close>.\<close>

lemma standard_letters: "set ''imafdqc'' = {CHR ''i'', CHR ''m'', CHR ''a'', CHR ''f'', CHR ''d'', CHR ''q'', CHR ''c''}"
  by auto

lemma has_letter_of_body:
  assumes "isa_prefix p = (xlen, m, r)" "body_parts ''imafdqc'' body letters ext"
    and "c \<in> {CHR ''d'', CHR ''f'', CHR ''q''}"
  shows "has_letter c (with_letters (letters_of letters ext) (initial_misa m)) \<longleftrightarrow> c \<in> set letters"
proof -
  have sub: "set letters \<subseteq> {CHR ''i'', CHR ''m'', CHR ''a'', CHR ''f'', CHR ''d'', CHR ''q'', CHR ''c''}"
  proof
    fix e assume e: "e \<in> set letters"
    have "subseq letters ''imafdqc''" using assms(2) unfolding body_parts_def by (elim conjE)
    from list_emb_set [OF this e] have "e \<in> set ''imafdqc''" by blast
    then show "e \<in> {CHR ''i'', CHR ''m'', CHR ''a'', CHR ''f'', CHR ''d'', CHR ''q'', CHR ''c''}"
      unfolding standard_letters .
  qed
  have codes: "char_code e - 97 = char_code c - 97 \<longleftrightarrow> e = c" if "e \<in> set (letters_of letters ext)" for e
  proof -
    have "e \<in> {CHR ''i'', CHR ''m'', CHR ''a'', CHR ''f'', CHR ''d'', CHR ''q'', CHR ''c'', CHR ''x''}"
      using that sub by (auto simp: letters_of_def split: option.splits)
    with assms(3) show ?thesis by (elim insertE emptyE) (simp_all add: char_code_def)
  qed
  have "c \<in> set (letters_of letters ext) \<longleftrightarrow> c \<in> set letters"
    using assms(3) by (auto simp: letters_of_def split: option.splits)
  moreover have "\<not> bit (initial_misa m) (char_code c - 97)" "char_code c - 97 < 64"
    using initial_misa_bits [OF assms(1)] assms(3) by (auto simp: char_code_def)
  ultimately show ?thesis using codes by (auto simp: has_letter_def bit_with_letters)
qed

text \<open>
  C24. The language of \<open>--isa\<close>.  A string is accepted exactly when, in lower case, it is an optional
  prefix \<open>rv32\<close>, \<open>rv64\<close> or \<open>rv\<close> followed by nothing (which means \<open>imafdc\<close>), or by a body that starts with
  \<open>i\<close>, or with \<open>g\<close> for \<open>imafd\<close>, and consists of letters of \<open>imafdqc\<close> in this order, each at most once,
  and then at most one extension: \<open>x\<close> and a name in lower-case letters up to the end.  \<open>d\<close> needs \<open>f\<close>,
  \<open>q\<close> needs \<open>d\<close> and 64 bits.  The width is that of the prefix, and \<open>misa\<close> has exactly the bits of the
  letters, of \<open>s\<close> and \<open>u\<close>, of \<open>x\<close> for an extension, and its width field.
\<close>

theorem isa_string_language:
  "parse_isa_string str = Some i \<longleftrightarrow>
    (\<exists>xlen m r body letters ext. isa_prefix (map tolower str) = (xlen, m, r) \<and> isa_body r = Some body \<and>
       body = letters @ ext_part ext \<and> subseq letters ''imafdqc'' \<and>
       (case ext of None \<Rightarrow> True | Some n \<Rightarrow> list_all islower n) \<and>
       \<not> (CHR ''d'' \<in> set letters \<and> CHR ''f'' \<notin> set letters) \<and>
       \<not> (CHR ''q'' \<in> set letters \<and> (CHR ''d'' \<notin> set letters \<or> xlen = 32)) \<and>
       i = \<lparr>isa_xlen = xlen, isa_misa = with_letters (letters_of letters ext) (initial_misa m),
         isa_text = ''rv'' @ (if xlen = 32 then ''32'' else ''64'') @ body,
         isa_exts = (case ext of None \<Rightarrow> [] | Some n \<Rightarrow> [n])\<rparr>)"
proof -
  obtain xlen m r where pre: "isa_prefix (map tolower str) = (xlen, m, r)" by (metis prod.exhaust)
  have low: "\<forall>c \<in> set ''imafdqc''. islower c \<and> c \<noteq> CHR ''x''"
    by (simp add: islower_def char_code_def)
  have x: "xlen < 64 \<longleftrightarrow> xlen = 32" using prefix_cases [OF pre] by auto
  let ?misa = "\<lambda>letters ext. with_letters (letters_of letters ext) (initial_misa m)"
  show ?thesis
  proof (cases "isa_body r")
    case None
    then show ?thesis using pre by (simp add: parse_isa_string_def)
  next
    case (Some body)
    let ?spec = "\<lambda>letters ext. \<lparr>isa_xlen = xlen, isa_misa = ?misa letters ext,
      isa_text = ''rv'' @ (if xlen = 32 then ''32'' else ''64'') @ body,
      isa_exts = (case ext of None \<Rightarrow> [] | Some n \<Rightarrow> [n])\<rparr>"
    have "parse_isa_string str = Some i \<longleftrightarrow>
      (\<exists>m' exts. isa_letters ''imafdqc'' body (initial_misa m) [] = Some (m', exts) \<and>
        \<not> (has_letter CHR ''d'' m' \<and> \<not> has_letter CHR ''f'' m') \<and>
        \<not> (has_letter CHR ''q'' m' \<and> (\<not> has_letter CHR ''d'' m' \<or> xlen = 32)) \<and>
        i = \<lparr>isa_xlen = xlen, isa_misa = m', isa_text = ''rv'' @ (if xlen = 32 then ''32'' else ''64'') @ body, isa_exts = exts\<rparr>)"
      using pre Some x by (auto simp: parse_isa_string_def initial_misa_def split: option.splits)
    also have "\<dots> \<longleftrightarrow> (\<exists>letters ext. body_parts ''imafdqc'' body letters ext \<and>
       \<not> (has_letter CHR ''d'' (?misa letters ext) \<and> \<not> has_letter CHR ''f'' (?misa letters ext)) \<and>
       \<not> (has_letter CHR ''q'' (?misa letters ext) \<and> (\<not> has_letter CHR ''d'' (?misa letters ext) \<or> xlen = 32)) \<and>
       i = ?spec letters ext)"
      unfolding isa_letters_language [OF low] append_Nil by blast
    also have "\<dots> \<longleftrightarrow> (\<exists>letters ext. body_parts ''imafdqc'' body letters ext \<and>
       \<not> (CHR ''d'' \<in> set letters \<and> CHR ''f'' \<notin> set letters) \<and>
       \<not> (CHR ''q'' \<in> set letters \<and> (CHR ''d'' \<notin> set letters \<or> xlen = 32)) \<and> i = ?spec letters ext)"
    proof -
      have "has_letter c (?misa letters ext) \<longleftrightarrow> c \<in> set letters"
        if "body_parts ''imafdqc'' body letters ext" "c \<in> {CHR ''d'', CHR ''f'', CHR ''q''}" for letters ext c
        using has_letter_of_body [OF pre that] .
      then show ?thesis by (simp cong: conj_cong)
    qed
    finally show ?thesis using pre Some by (auto simp: body_parts_def)
  qed
qed

lemma isa_string_language_witness:
  "parse_isa_string ''RV32IMAC'' = Some \<lparr>isa_xlen = 32,
     isa_misa = with_letters ''imac'' (initial_misa (shl 1 30)), isa_text = ''rv32imac'', isa_exts = []\<rparr>"
proof -
  have "map tolower ''RV32IMAC'' = ''rv32imac''" by code_simp
  then have "isa_prefix (map tolower ''RV32IMAC'') = (32, shl 1 30, ''imac'')" by (simp add: isa_prefix_def)
  then show ?thesis
    by (subst isa_string_language)
      (rule exI [of _ 32], rule exI [of _ "shl 1 30"], rule exI [of _ "''imac''"], rule exI [of _ "''imac''"],
        rule exI [of _ "''imac''"], rule exI [of _ None], simp add: isa_body_def ext_part_def letters_of_def)
qed

section \<open>Constructed processors\<close>

lemma sample_isa: "parse_isa_string ''rv32imac'' = Some \<lparr>isa_xlen = 32,
     isa_misa = with_letters ''imac'' (initial_misa (shl 1 30)), isa_text = ''rv32imac'', isa_exts = []\<rparr>"
  by code_simp

lemma parse_config:
  assumes "parse_isa_string str = Some i"
  shows "isa_xlen i = 32 \<or> isa_xlen i = 64" "bit (isa_misa i) 18" "bit (isa_misa i) 20"
    "bit (isa_misa i) 3 \<Longrightarrow> bit (isa_misa i) 5"
proof -
  obtain xlen m r where pre: "isa_prefix (map tolower str) = (xlen, m, r)" by (metis prod.exhaust)
  obtain body where body: "isa_body r = Some body"
    using assms pre by (cases "isa_body r") (auto simp: parse_isa_string_def)
  obtain m' exts where l: "isa_letters ''imafdqc'' body (initial_misa m) [] = Some (m', exts)"
    and i: "isa_xlen i = xlen" "isa_misa i = m'" and d: "has_letter CHR ''d'' m' \<Longrightarrow> has_letter CHR ''f'' m'"
    using assms pre body by (auto simp: parse_isa_string_def initial_misa_def split: option.splits if_splits)
  have low: "\<forall>c \<in> set ''imafdqc''. islower c \<and> c \<noteq> CHR ''x''"
    by (simp add: islower_def char_code_def)
  obtain letters where "m' = with_letters letters (initial_misa m)"
    using l unfolding isa_letters_language [OF low] by blast
  then show "bit (isa_misa i) 18" "bit (isa_misa i) 20"
    using initial_misa_bits [OF pre] i by (simp_all add: bit_with_letters)
  show "isa_xlen i = 32 \<or> isa_xlen i = 64" using prefix_cases [OF pre] i by auto
  show "bit (isa_misa i) 3 \<Longrightarrow> bit (isa_misa i) 5"
    using d by (simp add: i has_letter_def char_code_def)
qed

lemma register_extensions_config:
  "register_extensions fe xs p = Some q \<Longrightarrow> p_max_xlen q = p_max_xlen p \<and> p_max_isa q = p_max_isa p \<and> p_id q = p_id p"
proof (induction xs arbitrary: p)
  case (Cons x xs)
  from Cons.prems obtain p' where "register_extensions fe xs p' = Some q" "p_max_xlen p' = p_max_xlen p"
    "p_max_isa p' = p_max_isa p" "p_id p' = p_id p"
    by (auto simp: register_extension_def Let_def split: option.splits if_splits)
  with Cons.IH [of p'] show ?case by simp
qed simp

text \<open>Every processor that the constructor returns is a hart that the privileged theorems speak of.\<close>

lemma new_processor_reachable:
  assumes "new_processor fe garbage isa halt hartid = Some q"
  shows "reachable_hart q" "p_id q = hartid"
proof -
  obtain i where i: "parse_isa_string isa = Some i" using assms by (auto simp: new_processor_def split: option.splits)
  obtain p where p: "proc_reset p = Some q" "p_max_xlen p = isa_xlen i" "p_max_isa p = isa_misa i" "p_id p = hartid"
    using assms i by (auto simp: new_processor_def Let_def dest!: register_extensions_config split: option.splits)
  have "config_ok p" using parse_config [OF i] p by (auto simp: config_ok_def)
  then show "reachable_hart q" using p(1) by (rule boot)
  show "p_id q = hartid" using proc_reset_id [OF p(1)] p(4) by simp
qed

end
