(* ===== verification/SimMain.thy ===== *)
theory SimMain
  imports SimLaws IsaString
begin

text \<open>
  The main part of the simulator object (\<open>riscv/sim.cc\<close>): its construction and options, the boot ROM,
  and the scheduler, which gives each hart in turn a slice of \<open>INTERLEAVE\<close> instructions and moves the
  clock when all have had one.
\<close>

section \<open>State and construction\<close>

definition INTERLEAVE :: nat where "INTERLEAVE = 5000"
definition INSNS_PER_RTC_TICK :: nat where "INSNS_PER_RTC_TICK = 100"

text \<open>\<open>m_nprocs\<close> is \<open>procs.size()\<close>, which never changes after construction.\<close>

record sim_main =
  m_sys :: simulator
  m_nprocs :: nat
  m_start_pc :: reg_t
  m_current_step :: nat
  m_current_proc :: nat
  m_debug :: bool
  m_track_insn :: bool
  m_log :: bool
  m_histogram_enabled :: bool
  m_dtb_enabled :: bool

definition set_tracked_insns :: "string list \<Rightarrow> processor_t \<Rightarrow> processor_t" where
  "set_tracked_insns insns p = fold
     (\<lambda>insn p. p\<lparr>p_tracked_insn_count := (case p_tracked_insn_count p insn of
        None \<Rightarrow> (p_tracked_insn_count p)(insn \<mapsto> 0) | Some c \<Rightarrow> p_tracked_insn_count p)\<rparr>) insns p"

definition build_bus :: "(reg_t \<times> mem_t) list \<Rightarrow> (reg_t \<times> device) list" where
  "build_bus mems =
     add_device CLINT_BASE Dev_clint (add_device DEBUG_START Dev_debug
       (fold (\<lambda>(base, m). add_device base (Dev_mem m)) mems []))"

text \<open>\<open>None\<close> is the exit when the number of hart ids differs from the number of processors.\<close>

definition hart_ids :: "nat \<Rightarrow> u32 list \<Rightarrow> u32 list option" where
  "hart_ids nprocs hartids =
     (let n = max nprocs 1 in
      if hartids = [] then Some (map of_nat [0..<n])
      else if length hartids \<noteq> n then None
      else Some hartids)"

fun new_processors :: "(u32 \<Rightarrow> processor_t option) \<Rightarrow> u32 list \<Rightarrow> processor_t list option" where
  "new_processors new [] = Some []"
| "new_processors new (i # is) = (case new i of
     None \<Rightarrow> None | Some p \<Rightarrow> map_option (Cons p) (new_processors new is))"

text \<open>Each constructed processor has reset itself, which calls \<open>sim_t::proc_reset\<close>.\<close>

fun proc_resets :: "u32 list \<Rightarrow> simulator \<Rightarrow> unit result \<times> simulator" where
  "proc_resets [] = give ()"
| "proc_resets (i # is) = andthen (sim_proc_reset i) (\<lambda>_. proc_resets is)"

text \<open>
  The members that the constructor does not initialise are the record \<open>uninit\<close>: \<open>mtime\<close>,
  \<open>track_insn\<close>, \<open>log\<close>, the words of the debug module, and what processors and MMUs contain.  The
  debug module is constructed before the processors.  The test of \<open>tracked_insn\<close> is as in the code:
  the instructions are passed on only when there are none.
\<close>

record uninit =
  un_time :: reg_t
  un_track :: bool
  un_log :: bool
  un_command :: u32
  un_sbaddress :: "u32 list"
  un_sbdata :: "u32 list"
  un_mem :: "reg_t \<Rightarrow> byte"
  un_mmu :: mmu_t
  un_proc :: processor_t

record options =
  opt_isa :: string
  opt_nprocs :: nat
  opt_halted :: bool
  opt_start_pc :: reg_t
  opt_mems :: "(reg_t \<times> mem_t) list"
  opt_hartids :: "u32 list"
  opt_tracked :: "string list"
  opt_progsize :: u32
  opt_bus_master_bits :: u32
  opt_authentication :: bool

definition empty_sim :: "options \<Rightarrow> uninit \<Rightarrow> sim_t" where
  "empty_sim opts un = \<lparr>s_procs = [], s_mem = un_mem un, s_bus = build_bus (opt_mems opts),
     s_clint = clint_construct (un_time un) [], s_debug_mmu = new_mmu (un_mmu un), s_randoms = 0\<rparr>"

definition sim_construct :: "host \<Rightarrow> (string \<Rightarrow> insn_desc list option) \<Rightarrow> uninit \<Rightarrow> options \<Rightarrow> sim_main result" where
  "sim_construct h find_extension un opts =
     (case dm_construct (sim_dm_if h) (opt_progsize opts) (opt_bus_master_bits opts) (opt_authentication opts)
             (un_command un) (un_sbaddress un) (un_sbdata un) (empty_sim opts un) of
        Inl e \<Rightarrow> Inl e
      | Inr s \<Rightarrow>
          (case hart_ids (opt_nprocs opts) (opt_hartids opts) of
             None \<Rightarrow> Inl Abort
           | Some ids \<Rightarrow>
               (case new_processors (new_processor find_extension (un_proc un) (opt_isa opts) (opt_halted opts)) ids of
                  None \<Rightarrow> Inl Abort
                | Some procs \<Rightarrow>
                    (case proc_resets ids s of
                       (Inl e, s) \<Rightarrow> Inl e
                     | (Inr _, s) \<Rightarrow>
                         (let procs = (if opt_tracked opts = [] then map (set_tracked_insns (opt_tracked opts)) procs else procs)
                          in Inr \<lparr>m_sys = s\<lparr>sys := (sys s)\<lparr>s_procs := procs, s_clint := clint_construct (un_time un) procs\<rparr>\<rparr>,
                               m_nprocs = length ids, m_start_pc = opt_start_pc opts, m_current_step = 0,
                               m_current_proc = 0, m_debug = False, m_track_insn = un_track un, m_log = un_log un,
                               m_histogram_enabled = False, m_dtb_enabled = True\<rparr>)))))"

definition upd_procs :: "(processor_t \<Rightarrow> processor_t) \<Rightarrow> sim_main \<Rightarrow> sim_main" where
  "upd_procs f m = m\<lparr>m_sys := (m_sys m)\<lparr>sys := (sys (m_sys m))\<lparr>s_procs := map f (s_procs (sys (m_sys m)))\<rparr>\<rparr>\<rparr>"

definition set_debug :: "bool \<Rightarrow> sim_main \<Rightarrow> sim_main" where
  "set_debug value m = m\<lparr>m_debug := value\<rparr>"

definition set_track_insn :: "bool \<Rightarrow> sim_main \<Rightarrow> sim_main" where
  "set_track_insn value m = m\<lparr>m_track_insn := value\<rparr>"

definition set_log :: "bool \<Rightarrow> sim_main \<Rightarrow> sim_main" where
  "set_log value m = m\<lparr>m_log := value\<rparr>"

text \<open>The histogram of a processor is a compile-time option that is off; only the flag is kept.\<close>

definition set_histogram :: "bool \<Rightarrow> sim_main \<Rightarrow> sim_main" where
  "set_histogram value m = m\<lparr>m_histogram_enabled := value\<rparr>"

definition set_procs_track_insn :: "bool \<Rightarrow> sim_main \<Rightarrow> sim_main" where
  "set_procs_track_insn value m = upd_procs (\<lambda>p. p\<lparr>p_track_insn := value\<rparr>) m"

definition set_procs_debug :: "bool \<Rightarrow> sim_main \<Rightarrow> sim_main" where
  "set_procs_debug value m = upd_procs (\<lambda>p. p\<lparr>p_debug := value\<rparr>) m"

section \<open>The boot ROM\<close>

definition RESET_VEC_SIZE :: nat where "RESET_VEC_SIZE = 8"

definition start_address :: "host \<Rightarrow> reg_t \<Rightarrow> reg_t" where
  "start_address h start_pc = (if start_pc = -1 then host_entry_point h else start_pc)"

definition reset_vec :: "nat \<Rightarrow> reg_t \<Rightarrow> u32 list" where
  "reset_vec xlen start_pc =
     [0x297, 0x28593 + shl (of_nat (RESET_VEC_SIZE * 4)) 20, 0xf1402573,
      if xlen = 32 then 0x0182a283 else 0x0182b283, 0x28067, 0,
      ucast (start_pc AND 0xffffffff), ucast (shr start_pc 32)]"

definition boot_rom :: "nat \<Rightarrow> reg_t \<Rightarrow> byte list \<Rightarrow> byte list" where
  "boot_rom xlen start_pc dtb =
     (let rom = concat (map (le_bytes 4) (reset_vec xlen start_pc)) @ dtb; align = 0x1000;
          size = (length rom + align - 1) div align * align
      in rom @ replicate (size - length rom) 0)"

definition make_dtb :: "host \<Rightarrow> sim_main \<Rightarrow> sim_main" where
  "make_dtb h m =
     (let pc = start_address h (m_start_pc m); t = sys (m_sys m);
          rom = boot_rom (p_xlen (s_procs t ! 0)) pc (host_dtb h)
      in m\<lparr>m_start_pc := pc,
           m_sys := (m_sys m)\<lparr>sys := t\<lparr>s_bus := add_device DEFAULT_RSTVEC (Dev_rom rom) (s_bus t)\<rparr>\<rparr>\<rparr>)"

definition sim_reset :: "host \<Rightarrow> sim_main \<Rightarrow> sim_main" where
  "sim_reset h m = (if m_dtb_enabled m then make_dtb h m else m)"

section \<open>The scheduler\<close>

text \<open>\<open>procs[k]->step(n)\<close>\<close>

definition run_hart :: "host \<Rightarrow> nat \<Rightarrow> nat \<Rightarrow> nat \<Rightarrow> simulator \<Rightarrow> (unit result \<times> simulator) option" where
  "run_hart h fuel k n s =
     map_option (\<lambda>(r, w). (r, world_sim (Hart k) w))
       (proc_step \<lparr>env_build = host_build h, env_sif = sim_simif h (s_bus (sys s)) (Hart k), env_isa = host_isa h\<rparr>
          fuel n (port_world (Hart k) s))"

definition upd_sys :: "(sim_t \<Rightarrow> sim_t) \<Rightarrow> simulator \<Rightarrow> simulator" where
  "upd_sys f s = s\<lparr>sys := f (sys s)\<rparr>"

definition release_reservation :: "nat \<Rightarrow> simulator \<Rightarrow> simulator" where
  "release_reservation k = upd_sys (upd_proc k (\<lambda>p. p\<lparr>p_mmu := yield_load_reservation (p_mmu p)\<rparr>))"

definition tick_clock :: "simulator \<Rightarrow> simulator" where
  "tick_clock = upd_sys (\<lambda>t.
     let (c, ps) = clint_increment (of_nat (INTERLEAVE div INSNS_PER_RTC_TICK)) (s_clint t, s_procs t)
     in t\<lparr>s_clint := c, s_procs := ps\<rparr>)"

text \<open>
  \<open>step(n)\<close>: the result is \<open>None\<close> when a hart runs out of fuel, or when \<open>current_step\<close> has reached
  \<open>INTERLEAVE\<close> before the loop, which would turn without end.  An exception that escapes a hart ends
  the loop.
\<close>

definition end_of_slice :: "host \<Rightarrow> sim_main \<Rightarrow> sim_main" where
  "end_of_slice h m =
     (let k = m_current_proc m; s = release_reservation k (m_sys m) in
      if k + 1 = m_nprocs m
      then m\<lparr>m_current_step := 0, m_current_proc := 0, m_sys := host_switch h (tick_clock s)\<rparr>
      else m\<lparr>m_current_step := 0, m_current_proc := k + 1, m_sys := host_switch h s\<rparr>)"

definition after_steps :: "host \<Rightarrow> nat \<Rightarrow> sim_main \<Rightarrow> sim_main" where
  "after_steps h steps m =
     (let m = m\<lparr>m_current_step := m_current_step m + steps\<rparr>
      in if m_current_step m = INTERLEAVE then end_of_slice h m else m)"

function sim_step :: "host \<Rightarrow> nat \<Rightarrow> nat \<Rightarrow> sim_main \<Rightarrow> (unit result \<times> sim_main) option" where
  "sim_step h fuel n m =
     (if n = 0 then Some (Inr (), m)
      else
        (let steps = min n (INTERLEAVE - m_current_step m) in
         if steps = 0 then None
         else
           (case run_hart h fuel (m_current_proc m) steps (m_sys m) of
              None \<Rightarrow> None
            | Some (Inl e, s) \<Rightarrow> Some (Inl e, m\<lparr>m_sys := s\<rparr>)
            | Some (Inr _, s) \<Rightarrow> sim_step h fuel (n - steps) (after_steps h steps (m\<lparr>m_sys := s\<rparr>)))))"
  by pat_completeness auto
termination by (relation "measure (\<lambda>(h, fuel, n, m). n)") auto

declare sim_step.simps [simp del]

end
