(* ===== verification/Dts.thy ===== *)
theory Dts
  imports SimMain Numbers
begin

text \<open>
  The source of the device tree (\<open>make_dts\<close> in \<open>riscv/dts.cc\<close>): the text that describes the harts, the
  memories and the interruptor of a machine to the device tree compiler.  The compiler is another
  process; its output is the parameter \<open>host_dtb\<close>.
\<close>

section \<open>The text\<close>

definition CPU_HZ :: nat where "CPU_HZ = 1000000000"

definition nl :: string where "nl = [CHR 0x0A]"
definition quoted :: "string \<Rightarrow> string" where "quoted s = [CHR 0x22] @ s @ [CHR 0x22]"

text \<open>A 64-bit value as two cells.\<close>

definition cells :: "reg_t \<Rightarrow> string" where
  "cells v = ''0x'' @ hex (unat (shr v 32)) @ '' 0x'' @ hex (unat (v AND 0xffffffff))"

definition dts_head :: "nat \<Rightarrow> string" where
  "dts_head timebase =
     ''/dts-v1/;'' @ nl @
     nl @
     ''/ {'' @ nl @
     ''  #address-cells = <2>;'' @ nl @
     ''  #size-cells = <2>;'' @ nl @
     ''  compatible = '' @ quoted ''ucbbar,spike-bare-dev'' @ '';'' @ nl @
     ''  model = '' @ quoted ''ucbbar,spike-bare'' @ '';'' @ nl @
     ''  cpus {'' @ nl @
     ''    #address-cells = <1>;'' @ nl @
     ''    #size-cells = <0>;'' @ nl @
     ''    timebase-frequency = <'' @ dec timebase @ ''>;'' @ nl"

definition dts_cpu :: "nat \<Rightarrow> nat \<Rightarrow> processor_t \<Rightarrow> string" where
  "dts_cpu cpu_hz i p =
     ''    CPU'' @ dec i @ '': cpu@'' @ dec i @ '' {'' @ nl @
     ''      device_type = '' @ quoted ''cpu'' @ '';'' @ nl @
     ''      reg = <'' @ dec i @ ''>;'' @ nl @
     ''      status = '' @ quoted ''okay'' @ '';'' @ nl @
     ''      compatible = '' @ quoted ''riscv'' @ '';'' @ nl @
     ''      riscv,isa = '' @ quoted (p_isa_string p) @ '';'' @ nl @
     ''      mmu-type = '' @ quoted (''riscv,'' @ (if p_max_xlen p \<le> 32 then ''sv32'' else ''sv48'')) @ '';'' @ nl @
     ''      clock-frequency = <'' @ dec cpu_hz @ ''>;'' @ nl @
     ''      CPU'' @ dec i @ ''_intc: interrupt-controller {'' @ nl @
     ''        #interrupt-cells = <1>;'' @ nl @
     ''        interrupt-controller;'' @ nl @
     ''        compatible = '' @ quoted ''riscv,cpu-intc'' @ '';'' @ nl @
     ''      };'' @ nl @
     ''    };'' @ nl"

definition dts_memory :: "reg_t \<times> mem_t \<Rightarrow> string" where
  "dts_memory x =
     ''  memory@'' @ hex (unat (fst x)) @ '' {'' @ nl @
     ''    device_type = '' @ quoted ''memory'' @ '';'' @ nl @
     ''    reg = <'' @ cells (fst x) @ '' '' @ cells (mem_size (snd x)) @ ''>;'' @ nl @
     ''  };'' @ nl"

text \<open>
  The base of the interruptor is printed in the base that the stream is in: hexadecimal after a
  memory, decimal when there is none.
\<close>

definition dts_soc :: "bool \<Rightarrow> nat \<Rightarrow> string" where
  "dts_soc in_hex n =
     ''  soc {'' @ nl @
     ''    #address-cells = <2>;'' @ nl @
     ''    #size-cells = <2>;'' @ nl @
     ''    compatible = '' @ quoted ''ucbbar,spike-bare-soc'' @ '', '' @ quoted ''simple-bus'' @ '';'' @ nl @
     ''    ranges;'' @ nl @
     ''    clint@'' @ (if in_hex then hex (unat CLINT_BASE) else dec (unat CLINT_BASE)) @ '' {'' @ nl @
     ''      compatible = '' @ quoted ''riscv,clint0'' @ '';'' @ nl @
     ''      interrupts-extended = <'' @
     concat (map (\<lambda>i. ''&CPU'' @ dec i @ ''_intc 3 &CPU'' @ dec i @ ''_intc 7 '') [0..<n]) @
     ''>;'' @ nl @
     ''      reg = <'' @ cells CLINT_BASE @ '' '' @ cells CLINT_SIZE @ ''>;'' @ nl @
     ''    };'' @ nl @
     ''  };'' @ nl @
     ''  htif {'' @ nl @
     ''    compatible = '' @ quoted ''ucb,htif0'' @ '';'' @ nl @
     ''  };'' @ nl @
     ''};'' @ nl"

definition make_dts :: "nat \<Rightarrow> nat \<Rightarrow> processor_t list \<Rightarrow> (reg_t \<times> mem_t) list \<Rightarrow> string" where
  "make_dts insns_per_rtc_tick cpu_hz procs mems =
     dts_head (cpu_hz div insns_per_rtc_tick) @
     concat (map (\<lambda>i. dts_cpu cpu_hz i (procs ! i)) [0..<length procs]) @
     ''  };'' @ nl @
     concat (map dts_memory mems) @
     dts_soc (mems \<noteq> []) (length procs)"

section \<open>What a reader of the text finds\<close>

definition read_cells :: "string \<Rightarrow> reg_t \<times> string" where
  "read_cells s =
     (case strtoull 0 s of (hi, r) \<Rightarrow> (case strtoull 0 r of (lo, r) \<Rightarrow> (shl hi 32 OR lo, r)))"

lemma scan_skips_space:
  assumes "scan_number b s = (Some x, r)"
  shows "scan_number b (CHR '' '' # s) = (Some x, r)"
proof -
  have "dropWhile is_space (CHR '' '' # s) = dropWhile is_space s" by (simp add: is_space_def)
  then show ?thesis
    using assms unfolding scan_number_def Let_def by (auto split: prod.split_asm if_split_asm)
qed

lemma strtoull_cell:
  fixes v :: reg_t
  assumes "stops 16 rest"
  shows "strtoull 0 (''0x'' @ hex (unat v) @ rest) = (v, rest)"
    "strtoull 0 ('' 0x'' @ hex (unat v) @ rest) = (v, rest)"
proof -
  have s: "scan_number 0 (''0x'' @ hex (unat v) @ rest) = (Some (False, unat v), rest)"
    using assms by (intro scan_hex) simp_all
  have "unat v < 2 ^ 64" using unsigned_less [of v] by simp
  then have lt: "\<not> 2 ^ 64 \<le> unat v" by (simp only: not_le)
  show "strtoull 0 (''0x'' @ hex (unat v) @ rest) = (v, rest)"
    using lt by (simp only: strtoull_def s) simp
  show "strtoull 0 ('' 0x'' @ hex (unat v) @ rest) = (v, rest)"
    using lt scan_skips_space [OF s] by (simp add: strtoull_def)
qed

lemma read_cells_back:
  assumes "stops 16 rest"
  shows "read_cells (cells v @ rest) = (v, rest)"
proof -
  have sp: "stops 16 ('' 0x'' @ t)" for t by (simp add: stops_def in_base_def digit_of_def)
  have "v AND 0xffffffff = take_bit 32 v" by (simp add: take_bit_eq_mask mask_eq_exp_minus_1)
  then have "shl (shr v 32) 32 OR (v AND 0xffffffff) = v"
    by (intro bit_word_eqI) (auto simp: bit_simps dest: bit_imp_le_length)
  then show ?thesis
    using strtoull_cell(1) [OF sp, of "shr v 32" "hex (unat (v AND 0xffffffff)) @ rest"]
      strtoull_cell(2) [OF assms, of "v AND 0xffffffff"]
    by (simp add: read_cells_def cells_def)
qed

text \<open>The \<open>reg\<close> property of a memory gives its base and its size.\<close>

lemma memory_reg_back:
  "\<exists>pre post. dts_memory x = pre @ ''reg = <'' @ post \<and>
     (case read_cells post of (base, r) \<Rightarrow> base = fst x \<and> fst (read_cells r) = mem_size (snd x))"
proof -
  let ?post = "cells (fst x) @ '' '' @ cells (mem_size (snd x)) @ ''>;'' @ nl @ ''  };'' @ nl"
  let ?pre = "''  memory@'' @ hex (unat (fst x)) @ '' {'' @ nl @ ''    device_type = '' @ quoted ''memory'' @ '';'' @ nl @ ''    ''"
  have st: "stops 16 ('' '' @ t)" "stops 16 (''>;'' @ t)" for t
    by (simp_all add: stops_def in_base_def digit_of_def)
  have sp: "read_cells ('' '' @ cells v @ r) = read_cells (cells v @ r)" for v r
  proof -
    have "stops 16 ('' 0x'' @ t)" for t by (simp add: stops_def in_base_def digit_of_def)
    then show ?thesis
      using strtoull_cell [of "'' 0x'' @ hex (unat (v AND 0xffffffff)) @ r" "shr v 32"]
      by (simp add: read_cells_def cells_def)
  qed
  have "read_cells ?post = (fst x, '' '' @ cells (mem_size (snd x)) @ ''>;'' @ nl @ ''  };'' @ nl)"
    by (rule read_cells_back) (rule st(1))
  moreover have "fst (read_cells ('' '' @ cells (mem_size (snd x)) @ ''>;'' @ nl @ ''  };'' @ nl)) = mem_size (snd x)"
    unfolding sp using read_cells_back [OF st(2)] by simp
  moreover have "dts_memory x = ?pre @ ''reg = <'' @ ?post" by (simp add: dts_memory_def)
  ultimately show ?thesis by (intro exI [of _ ?pre] exI [of _ ?post]) simp
qed

end
