(* ===== verification/Extension.thy ===== *)
theory Extension
  imports IsaString
begin

text \<open>
  Extensions of a processor: the registry (\<open>riscv/extensions.cc\<close>), what every extension can do
  (\<open>riscv/extension.cc\<close>), and the interface of RoCC accelerators (\<open>riscv/rocc.h\<close>, \<open>riscv/rocc.cc\<close>),
  which gives an accelerator the four custom opcodes.  An accelerator is a parameter: what its methods
  \<open>custom0\<close> to \<open>custom3\<close> do.  So is the loading of a shared library: the registrations that its
  constructors make.
\<close>

section \<open>The registry\<close>

type_synonym 'f registry = "string \<rightharpoonup> 'f"

definition register_ext :: "string \<times> 'f \<Rightarrow> 'f registry \<Rightarrow> 'f registry" where
  "register_ext x reg = reg(fst x \<mapsto> snd x)"

text \<open>\<open>None\<close> is the exit when the library is missing or does not register the name.\<close>

definition find_extension :: "(string \<Rightarrow> (string \<times> 'f) list option) \<Rightarrow> string \<Rightarrow> 'f registry \<Rightarrow> ('f \<times> 'f registry) option" where
  "find_extension dlopen name reg =
     (case reg name of
        Some f \<Rightarrow> Some (f, reg)
      | None \<Rightarrow>
          (case dlopen (''lib'' @ name @ ''.so'') of
             None \<Rightarrow> None
           | Some fs \<Rightarrow>
               (let reg = fold register_ext fs reg
                in map_option (\<lambda>f. (f, reg)) (reg name))))"

text \<open>A found extension is found again without loading anything, and the others stay.\<close>

lemma fold_register_dom: "dom reg \<subseteq> dom (fold register_ext fs reg)"
proof (induction fs arbitrary: reg)
  case (Cons x fs)
  have "dom reg \<subseteq> dom (register_ext x reg)" by (auto simp: register_ext_def)
  also have "\<dots> \<subseteq> dom (fold register_ext fs (register_ext x reg))" by (rule Cons.IH)
  finally show ?case by simp
qed simp

lemma find_extension_again:
  assumes "find_extension dlopen name reg = Some (f, reg')"
  shows "find_extension dlopen' name reg' = Some (f, reg') \<and> dom reg \<subseteq> dom reg'"
proof (cases "reg name")
  case (Some g)
  with assms show ?thesis by (simp add: find_extension_def)
next
  case None
  with assms obtain fs where "reg' = fold register_ext fs reg" "reg' name = Some f"
    by (auto simp: find_extension_def Let_def split: option.splits)
  then show ?thesis using fold_register_dom [of reg fs] by (simp add: find_extension_def)
qed

section \<open>What an extension can do\<close>

definition ext_illegal_instruction :: "'a result" where
  "ext_illegal_instruction = Inl (Throw_trap (trap_illegal_instruction 0))"

text \<open>\<open>raise_interrupt\<close> does not return; the exception when the interrupt is disabled is \<open>Abort\<close>.\<close>

definition raise_interrupt :: "processor_t \<Rightarrow> unit result" where
  "raise_interrupt p = (case take_interrupt (shl 1 IRQ_COP) p of Inl e \<Rightarrow> Inl e | Inr _ \<Rightarrow> Inl Abort)"

section \<open>RoCC accelerators\<close>

record rocc_insn_t =
  ri_opcode :: reg_t
  ri_rd :: reg_t
  ri_xs2 :: bool
  ri_xs1 :: bool
  ri_xd :: bool
  ri_rs1 :: reg_t
  ri_rs2 :: reg_t
  ri_funct :: reg_t

text \<open>The union with \<open>insn_t\<close>: the fields from the lowest bit on.\<close>

definition rocc_insn :: "insn_t \<Rightarrow> rocc_insn_t" where
  "rocc_insn i = \<lparr>ri_opcode = take_bit 7 i, ri_rd = take_bit 5 (shr i 7), ri_xs2 = bit i 12, ri_xs1 = bit i 13,
     ri_xd = bit i 14, ri_rs1 = take_bit 5 (shr i 15), ri_rs2 = take_bit 5 (shr i 20), ri_funct = take_bit 7 (shr i 25)\<rparr>"

type_synonym 's accelerator = "nat \<Rightarrow> rocc_insn_t \<Rightarrow> reg_t \<Rightarrow> reg_t \<Rightarrow> 's world \<Rightarrow> reg_t result \<times> 's world"

text \<open>The methods that an accelerator does not override.\<close>

definition default_custom :: "'s accelerator" where
  "default_custom n i a b w = (ext_illegal_instruction, w)"

definition read_xpr :: "reg_t \<Rightarrow> 's world \<Rightarrow> reg_t" where
  "read_xpr r w = XPR (p_state (w_hart w)) ! unat r"

definition write_xpr :: "reg_t \<Rightarrow> reg_t \<Rightarrow> 's world \<Rightarrow> 's world" where
  "write_xpr r v w = w\<lparr>w_hart := upd_state (\<lambda>s. s\<lparr>XPR := regfile_write True (unat r) v (XPR s)\<rparr>) (w_hart w)\<rparr>"

text \<open>The instruction functions \<open>c0\<close> to \<open>c3\<close>.\<close>

definition custom :: "'s accelerator \<Rightarrow> nat \<Rightarrow> insn_t \<Rightarrow> reg_t \<Rightarrow> 's world \<Rightarrow> reg_t result \<times> 's world" where
  "custom acc n insn at w =
     (let u = rocc_insn insn;
          xs1 = (if ri_xs1 u then read_xpr (rs1 insn) w else -1);
          xs2 = (if ri_xs2 u then read_xpr (rs2 insn) w else -1)
      in case acc n u xs1 xs2 w of
           (Inl e, w) \<Rightarrow> (Inl e, w)
         | (Inr xd, w) \<Rightarrow> (Inr (at + 4), if ri_xd u then write_xpr (rd insn) xd w else w))"

definition custom_name :: "nat \<Rightarrow> string" where
  "custom_name n = [''c0'', ''c1'', ''c2'', ''c3''] ! n"

definition rocc_instructions :: "insn_desc list" where
  "rocc_instructions = map (\<lambda>(m, n). \<lparr>d_match = m, d_mask = 0x7f, d_rv32 = illegal_instruction, d_rv64 = ext_insn (custom_name n)\<rparr>)
     [(0x0b, 0), (0x2b, 1), (0x5b, 2), (0x7b, 3)]"

text \<open>The union agrees with the fields of \<open>insn_t\<close>, so the operands are the registers it names.\<close>

lemma rocc_fields: "ri_rd (rocc_insn i) = rd i" "ri_rs1 (rocc_insn i) = rs1 i" "ri_rs2 (rocc_insn i) = rs2 i"
  by (simp_all add: rocc_insn_def rd_def rs1_def rs2_def insn_x_def take_bit_eq_mask mask_eq_exp_minus_1)

text \<open>The custom opcodes are disjoint: no word is accepted by two of them.\<close>

lemma rocc_disjoint:
  assumes "d \<in> set rocc_instructions" "d' \<in> set rocc_instructions" "accepts d b" "accepts d' b"
  shows "d = d'"
proof -
  have "list_all (\<lambda>d. d_mask d = 0x7f) rocc_instructions" by (simp add: rocc_instructions_def)
  then have "d_mask d = 0x7f" "d_mask d' = 0x7f" using assms(1,2) by (auto simp: list_all_iff)
  then have "d_match d = d_match d'" using assms(3,4) by (simp add: accepts_def)
  moreover have "distinct (map d_match rocc_instructions)" by (simp add: rocc_instructions_def)
  then have "inj_on d_match (set rocc_instructions)" by (simp add: distinct_map)
  ultimately show ?thesis using assms(1,2) by (simp add: inj_on_def)
qed

end
