(* ===== verification/SimMainLaws.thy ===== *)
theory SimMainLaws
  imports SimMain DebugAccess
begin

text \<open>
  What the main part of the simulator guarantees: construction establishes the invariants of all
  other components, the boot ROM starts the program with the device tree in \<open>a1\<close>, and the scheduler
  is a fair round robin.
\<close>

section \<open>Construction\<close>

lemma list_all_add_device: "list_all P ds \<Longrightarrow> P (a, d) \<Longrightarrow> list_all P (add_device a d ds)"
  by (induction a d ds rule: add_device.induct) auto

lemma build_bus_fits: "list_all device_fits (build_bus mems)"
proof -
  have "list_all device_fits (fold (\<lambda>(base, m). add_device base (Dev_mem m)) mems ds)"
    if "list_all device_fits ds" for ds
    using that by (induction mems arbitrary: ds) (auto simp: list_all_add_device)
  from this [of "[]"] show ?thesis unfolding build_bus_def by (intro list_all_add_device) simp_all
qed

lemma new_processors_ok:
  "new_processors (new_processor fe g isa halt) ids = Some ps \<Longrightarrow>
     list_all reachable_hart ps \<and> map p_id ps = ids"
  by (induction ids arbitrary: ps) (auto split: option.splits dest: new_processor_reachable)

lemma proc_resets_reach:
  assumes "length (host_rom h) \<le> 2048" "dm_reach sim_good harmless (sim_dm_if h) s"
    and "proc_resets ids s = (Inr u, s')"
  shows "dm_reach sim_good harmless (sim_dm_if h) s' \<and> list_all (\<lambda>i. unat i < 1024) ids"
  using assms(2,3)
proof (induction ids arbitrary: s)
  case Nil
  then show ?case by (simp add: give_def)
next
  case (Cons i ids)
  then obtain t where t: "sim_proc_reset i s = (Inr (), t)" "proc_resets ids t = (Inr u, s')"
    by (auto simp: andthen_def split: prod.splits sum.splits)
  have wf: "dm_wf (dm s)" using machine.reach_wf [of h s] Cons.prems(1) assms(1) by simp
  have i: "unat i < 1024"
    using t(1) wf_lengths(8) [OF wf]
    by (auto simp: sim_proc_reset_def dm_proc_reset_def andthen_def put_def set_elem_def split: if_splits)
  have "dm_reach sim_good harmless (sim_dm_if h) (snd (dm_exec (sim_dm_if h) (Hart_reset i) s))"
    using Cons.prems(1) i by (intro dm_reach.event) simp_all
  then have "dm_reach sim_good harmless (sim_dm_if h) t" using t(1) by (simp add: sim_proc_reset_def)
  with Cons.IH [OF this t(2)] i show ?case by simp
qed

lemma proc_reset_sys: "snd (sim_proc_reset i s) = t \<Longrightarrow> sys t = sys s"
  by (auto simp: sim_proc_reset_def dm_proc_reset_def andthen_def put_def upd_dm_def split: sum.splits)

lemma sim_proc_reset_ok: "dm_wf (dm s) \<Longrightarrow> unat i < 1024 \<Longrightarrow> \<exists>t. sim_proc_reset i s = (Inr (), t)"
  by (simp add: sim_proc_reset_def dm_proc_reset_def andthen_def put_def set_elem_wf wf_lengths upd_dm_def)

lemma proc_resets_sys: "proc_resets is s = (r, t) \<Longrightarrow> sys t = sys s"
proof (induction "is" arbitrary: s)
  case (Cons i "is")
  obtain x u where x: "sim_proc_reset i s = (x, u)" by fastforce
  with proc_reset_sys [of i s u] have "sys u = sys s" by simp
  with Cons x show ?case by (cases x) (auto simp: andthen_def)
qed (simp add: give_def)

lemma hart_ids_length: "hart_ids n hs = Some ids \<Longrightarrow> length ids = max n 1"
  by (auto simp: hart_ids_def Let_def split: if_splits)

lemma empty_sim_good: "sim_good (empty_sim opts un)"
  using build_bus_fits by (simp add: sim_good_def empty_sim_def clint_construct_def)

text \<open>
  Construction establishes the invariants.  Whatever the options and whatever the uninitialised
  members hold, a simulator that is constructed (no bad ISA string, as many hart ids as processors,
  no hart id above 1023) has at least one processor, each a freshly reset hart of the privileged
  architecture, a debug module in a safe state, and the bus of its memories.
\<close>

lemma construction_invariants:
  assumes "sim_construct h find_extension un opts = Inr m" "length (host_rom h) \<le> 2048"
    and "opt_progsize opts \<le> 16" "opt_nprocs opts < 2 ^ 32"
    and "length (un_sbaddress un) = 4" "length (un_sbdata un) = 4"
  shows "list_all reachable_hart (s_procs (sys (m_sys m))) \<and>
    length (s_procs (sys (m_sys m))) = m_nprocs m \<and> 0 < m_nprocs m \<and> m_current_proc m < m_nprocs m \<and>
    sim_good (sys (m_sys m)) \<and> dm_reach sim_good harmless (sim_dm_if h) (m_sys m) \<and>
    s_bus (sys (m_sys m)) = build_bus (opt_mems opts)"
proof -
  obtain s ids procs u s' where
    c: "dm_construct (sim_dm_if h) (opt_progsize opts) (opt_bus_master_bits opts) (opt_authentication opts)
             (un_command un) (un_sbaddress un) (un_sbdata un) (empty_sim opts un) = Inr s"
    and ids: "hart_ids (opt_nprocs opts) (opt_hartids opts) = Some ids"
    and procs: "new_processors (new_processor find_extension (un_proc un) (opt_isa opts) (opt_halted opts)) ids = Some procs"
    and r: "proc_resets ids s = (Inr u, s')"
    using assms(1) by (auto simp: sim_construct_def split: sum.splits option.splits prod.splits)
  define kept where "kept = (if opt_tracked opts = [] then map (set_tracked_insns (opt_tracked opts)) procs else procs)"
  have kept: "kept = procs" by (simp add: kept_def map_idI set_tracked_insns_def)
  define t where "t = (sys s')\<lparr>s_procs := kept, s_clint := clint_construct (un_time un) kept\<rparr>"
  have m: "m_sys m = s'\<lparr>sys := t\<rparr>" "m_nprocs m = length ids" "m_current_proc m = 0"
    using assms(1) c ids procs r by (simp_all add: sim_construct_def t_def kept_def Let_def) auto
  have "dm_reach sim_good harmless (sim_dm_if h) s"
    using empty_sim_good assms(3,5,6) c by (rule dm_reach.start)
  from proc_resets_reach [OF assms(2) this r]
  have reach: "dm_reach sim_good harmless (sim_dm_if h) s'" and small: "list_all (\<lambda>i. unat i < 1024) ids" by auto
  have pr: "list_all reachable_hart procs" "map p_id procs = ids" using new_processors_ok [OF procs] by auto
  then have len: "length procs = length ids" by (metis length_map)
  have sys: "sys s' = sys s" "s_bus (sys s) = build_bus (opt_mems opts)"
  proof -
    show "sys s' = sys s" by (rule proc_resets_sys [OF r])
    have "clear_halt_requests (sim_dm_if h) (empty_sim opts un) = empty_sim opts un"
      by (simp add: clear_halt_requests_def sim_dm_if_def empty_sim_def)
    then have "s_bus (sys (dm_reset (sim_dm_if h) \<lparr>dm = d, sys = empty_sim opts un\<rparr>)) = build_bus (opt_mems opts)" for d
      by (simp add: dm_reset_def sim_dm_if_def empty_sim_def)
    then show "s_bus (sys s) = build_bus (opt_mems opts)"
      using c by (auto simp: dm_construct_def Let_def split: sum.splits)
  qed
  have "list_all (\<lambda>p. unat (p_id p) < 1024) procs" using small pr(2) by (auto simp: list_all_iff)
  then have good: "sim_good t"
    using len hart_ids_length [OF ids] assms(4) build_bus_fits [of "opt_mems opts"]
    by (simp add: sim_good_def t_def kept clint_construct_def sys)
  have "dm_reach sim_good harmless (sim_dm_if h) (s'\<lparr>sys := t\<rparr>)" by (rule dm_reach.host [OF reach good])
  moreover have "0 < length ids" using hart_ids_length [OF ids] by simp
  ultimately show ?thesis
    using good pr len m by (simp add: t_def kept sys)
qed

definition sample_options :: options where
  "sample_options = \<lparr>opt_isa = ''rv32imac'', opt_nprocs = 1, opt_halted = False, opt_start_pc = -1,
     opt_mems = [(0x80000000, \<lparr>mem_contents = 0x7f0000000000, mem_size = 0x10000\<rparr>)], opt_hartids = [],
     opt_tracked = [], opt_progsize = 2, opt_bus_master_bits = 0, opt_authentication = False\<rparr>"

definition sample_uninit :: uninit where
  "sample_uninit = \<lparr>un_time = 0x1234, un_track = True, un_log = False, un_command = 0, un_sbaddress = [0, 0, 0, 0],
     un_sbdata = [0, 0, 0, 0], un_mem = (\<lambda>a. 0), un_mmu = p_mmu sample_hart, un_proc = sample_hart\<rparr>"

lemma sample_fields:
  "opt_isa sample_options = ''rv32imac''" "opt_nprocs sample_options = 1" "\<not> opt_halted sample_options"
  "opt_hartids sample_options = []" "opt_tracked sample_options = []" "opt_progsize sample_options = 2"
  "opt_bus_master_bits sample_options = 0" "\<not> opt_authentication sample_options"
  "un_command sample_uninit = 0" "un_sbaddress sample_uninit = [0, 0, 0, 0]"
  "un_sbdata sample_uninit = [0, 0, 0, 0]" "un_proc sample_uninit = sample_hart"
  by (simp_all add: sample_options_def sample_uninit_def)

lemma sample_processor:
  obtains q where "new_processor (\<lambda>x. None) sample_hart ''rv32imac'' False 0 = Some q"
proof -
  define i where "i = \<lparr>isa_xlen = 32, isa_misa = with_letters ''imac'' (initial_misa (shl 1 30)),
    isa_text = ''rv32imac'', isa_exts = []\<rparr>"
  have i: "parse_isa_string ''rv32imac'' = Some i"
    unfolding i_def by (rule sample_isa)
  define p where "p = sample_hart\<lparr>p_debug := False, p_halt_request := False, p_ext := False, p_id := 0,
    p_halt_on_reset := False, p_max_xlen := 32, p_max_isa := isa_misa i, p_isa_string := ''rv32imac'',
    p_tracked_insn_count := Map.empty, p_decoder := register_base_instructions empty_decoder,
    p_mmu := new_mmu (p_mmu sample_hart)\<rparr>"
  have "config_ok p" using parse_config [OF i] by (auto simp: config_ok_def p_def i_def)
  then obtain q where "proc_reset p = Some q" by (rule proc_reset_ok)
  then have "new_processor (\<lambda>x. None) sample_hart ''rv32imac'' False 0 = Some q"
    by (simp add: new_processor_def i) (simp add: i_def p_def)
  then show thesis by (rule that)
qed

lemma sample_construct:
  obtains m where "sim_construct sample_host (\<lambda>x. None) sample_uninit sample_options = Inr m"
proof -
  let ?I = "sim_dm_if sample_host"
  obtain d where d: "dm_construct ?I 2 0 False 0 [0, 0, 0, 0] [0, 0, 0, 0] (empty_sim sample_options sample_uninit) =
      Inr (dm_reset ?I \<lparr>dm = d, sys = empty_sim sample_options sample_uninit\<rparr>)" (is "_ = Inr ?s")
    using construct_wf [of 2 "[0, 0, 0, 0]" "[0, 0, 0, 0]" ?I 0 False 0 "empty_sim sample_options sample_uninit"] by auto
  obtain q where q: "new_processor (\<lambda>x. None) sample_hart ''rv32imac'' False 0 = Some q" by (rule sample_processor)
  have rom: "length (host_rom sample_host) \<le> 2048" by (simp add: sample_host_def)
  have "dm_reach sim_good harmless ?I ?s"
    using empty_sim_good _ _ _ d by (rule dm_reach.start) simp_all
  then have wf: "dm_wf (dm ?s)" using machine.reach_wf [of sample_host ?s] rom by simp
  obtain s' where "sim_proc_reset 0 ?s = (Inr (), s')"
    using sim_proc_reset_ok [OF wf, of 0] by auto
  then have r: "proc_resets [0] ?s = (Inr (), s')" by (simp add: andthen_def give_def)
  have "hart_ids 1 [] = Some [0]" by (simp add: hart_ids_def)
  moreover have "new_processors (new_processor (\<lambda>x. None) sample_hart ''rv32imac'' False) [0] = Some [q]" by (simp add: q)
  ultimately have "\<exists>m. sim_construct sample_host (\<lambda>x. None) sample_uninit sample_options = Inr m"
    unfolding sim_construct_def sample_fields by (simp add: d r Let_def sample_fields del: proc_resets.simps new_processors.simps One_nat_def)
  then show thesis using that by blast
qed

section \<open>The scheduler\<close>

text \<open>
  The schedule: one turn of a hart is a slice of \<open>INTERLEAVE\<close> instructions, the release of its load
  reservation, a tick of the clock when it is the last hart, and a switch to the host.
\<close>

definition turn :: "host \<Rightarrow> nat \<Rightarrow> nat \<Rightarrow> nat \<Rightarrow> simulator \<Rightarrow> (unit result \<times> simulator) option" where
  "turn h fuel nprocs k s = (case run_hart h fuel k INTERLEAVE s of
     None \<Rightarrow> None
   | Some (Inl e, s) \<Rightarrow> Some (Inl e, s)
   | Some (Inr _, s) \<Rightarrow> Some (Inr (), host_switch h
       (if k + 1 = nprocs then tick_clock (release_reservation k s) else release_reservation k s)))"

fun turns :: "host \<Rightarrow> nat \<Rightarrow> nat \<Rightarrow> nat list \<Rightarrow> simulator \<Rightarrow> (unit result \<times> simulator) option" where
  "turns h fuel nprocs [] s = Some (Inr (), s)"
| "turns h fuel nprocs (k # ks) s = (case turn h fuel nprocs k s of
     None \<Rightarrow> None
   | Some (Inl e, s) \<Rightarrow> Some (Inl e, s)
   | Some (Inr _, s) \<Rightarrow> turns h fuel nprocs ks s)"

lemma end_of_slice_position:
  assumes "m_current_proc m < m_nprocs m"
  shows "m_current_step (end_of_slice h m) = 0" "m_nprocs (end_of_slice h m) = m_nprocs m"
    "m_current_proc (end_of_slice h m) = (m_current_proc m + 1) mod m_nprocs m"
  using assms by (auto simp: end_of_slice_def Let_def mod_Suc)

lemma sim_step_0 [simp]: "sim_step h fuel 0 m = Some (Inr (), m)"
  by (subst sim_step.simps) simp

lemma sim_step_run:
  assumes "n \<noteq> 0" "steps = min n (INTERLEAVE - m_current_step m)" "steps \<noteq> 0"
  shows "sim_step h fuel n m = (case run_hart h fuel (m_current_proc m) steps (m_sys m) of
      None \<Rightarrow> None
    | Some (Inl e, s) \<Rightarrow> Some (Inl e, m\<lparr>m_sys := s\<rparr>)
    | Some (Inr _, s) \<Rightarrow> sim_step h fuel (n - steps) (after_steps h steps (m\<lparr>m_sys := s\<rparr>)))"
  by (subst sim_step.simps) (simp add: Let_def assms(2) [symmetric] assms(1,3))

lemma after_steps_position:
  assumes "m_current_proc m < m_nprocs m" "m_current_step m + steps \<le> INTERLEAVE"
  shows "m_nprocs (after_steps h steps m) = m_nprocs m"
    "m_current_step (after_steps h steps m) = (m_current_step m + steps) mod INTERLEAVE"
    "m_current_proc (after_steps h steps m) =
      (m_current_proc m + (m_current_step m + steps) div INTERLEAVE) mod m_nprocs m"
  using assms end_of_slice_position [of "m\<lparr>m_current_step := m_current_step m + steps\<rparr>" h]
  by (auto simp: after_steps_def Let_def INTERLEAVE_def)

lemma schedule_position:
  assumes "sim_step h fuel n m = Some (Inr u, m')" "m_current_step m < INTERLEAVE" "m_current_proc m < m_nprocs m"
  shows "m_nprocs m' = m_nprocs m \<and> m_current_step m' = (m_current_step m + n) mod INTERLEAVE \<and>
    m_current_proc m' = (m_current_proc m + (m_current_step m + n) div INTERLEAVE) mod m_nprocs m"
  using assms
proof (induction n arbitrary: m rule: less_induct)
  case (less n)
  show ?case
  proof (cases "n = 0")
    case True
    then show ?thesis using less.prems by simp
  next
    case False
    define steps where "steps = min n (INTERLEAVE - m_current_step m)"
    have pos: "steps \<noteq> 0" "steps \<le> n" "m_current_step m + steps \<le> INTERLEAVE"
      using False less.prems(2) by (auto simp: steps_def)
    obtain s where s: "sim_step h fuel (n - steps) (after_steps h steps (m\<lparr>m_sys := s\<rparr>)) = Some (Inr u, m')"
      using less.prems(1) sim_step_run [OF False steps_def pos(1)]
      by (auto split: option.splits sum.splits prod.splits)
    define m2 where "m2 = after_steps h steps (m\<lparr>m_sys := s\<rparr>)"
    have m2: "m_nprocs m2 = m_nprocs m" "m_current_step m2 = (m_current_step m + steps) mod INTERLEAVE"
      "m_current_proc m2 = (m_current_proc m + (m_current_step m + steps) div INTERLEAVE) mod m_nprocs m"
      using after_steps_position [of "m\<lparr>m_sys := s\<rparr>" steps h] less.prems(3) pos(3) by (simp_all add: m2_def)
    have "m_current_step m2 < INTERLEAVE" "m_current_proc m2 < m_nprocs m2"
      using m2 less.prems(3) by (simp_all add: INTERLEAVE_def)
    from less.IH [OF _ s [folded m2_def] this] pos
    have IH: "m_nprocs m' = m_nprocs m" "m_current_step m' = (m_current_step m2 + (n - steps)) mod INTERLEAVE"
      "m_current_proc m' = (m_current_proc m2 + (m_current_step m2 + (n - steps)) div INTERLEAVE) mod m_nprocs m"
      using m2(1) by auto
    obtain r where n: "n = steps + r" using pos(2) by (metis le_Suc_ex)
    have d: "(x + r) div INTERLEAVE = x div INTERLEAVE + (x mod INTERLEAVE + r) div INTERLEAVE" for x
      by (simp add: INTERLEAVE_def div_add1_eq [of x r] div_add1_eq [of "x mod 5000" r])
    show ?thesis
      using IH unfolding m2 n by (simp add: mod_simps add.assoc [symmetric] d [of "m_current_step m + steps"])
  qed
qed

text \<open>
  C21. The scheduler is a round robin.  From a state between slices, \<open>k\<close> slices of instructions are
  turns of \<open>k\<close> harts, one after another from the current one on and around: a hart is given exactly
  \<open>INTERLEAVE\<close> instructions and then loses its load reservation, the clock ticks when the last hart has
  had its turn, and the host is switched to after each.  So no hart waits for more than the other
  harts' turns.  And whatever the number of instructions asked for, and wherever in a slice the
  scheduler was, a call that returns leaves it exactly that many instructions further.
\<close>

theorem scheduler_round_robin:
  assumes "m_current_proc m < m_nprocs m"
  shows "(m_current_step m = 0 \<longrightarrow>
      map_option (\<lambda>(r, m'). (r, m_sys m')) (sim_step h fuel (k * INTERLEAVE) m) =
        turns h fuel (m_nprocs m) (map (\<lambda>i. (m_current_proc m + i) mod m_nprocs m) [0..<k]) (m_sys m)) \<and>
    (\<forall>n m'. m_current_step m < INTERLEAVE \<longrightarrow> sim_step h fuel n m = Some (Inr (), m') \<longrightarrow>
      m_current_step m' = (m_current_step m + n) mod INTERLEAVE \<and>
      m_current_proc m' = (m_current_proc m + (m_current_step m + n) div INTERLEAVE) mod m_nprocs m)"
proof (intro conjI impI allI)
  show "m_current_step m' = (m_current_step m + n) mod INTERLEAVE"
    "m_current_proc m' = (m_current_proc m + (m_current_step m + n) div INTERLEAVE) mod m_nprocs m"
    if "m_current_step m < INTERLEAVE" "sim_step h fuel n m = Some (Inr (), m')" for n m'
    using schedule_position [OF that(2,1) assms] by simp_all
next
  assume "m_current_step m = 0"
  with assms show "map_option (\<lambda>(r, m'). (r, m_sys m')) (sim_step h fuel (k * INTERLEAVE) m) =
        turns h fuel (m_nprocs m) (map (\<lambda>i. (m_current_proc m + i) mod m_nprocs m) [0..<k]) (m_sys m)"
  proof (induction k arbitrary: m)
    case (Suc k)
    let ?p = "m_current_proc m" and ?n = "m_nprocs m"
    have order: "map (\<lambda>i. (?p + i) mod ?n) [0..<Suc k] = ?p # map (\<lambda>i. ((?p + 1) mod ?n + i) mod ?n) [0..<k]"
      using Suc.prems(1) by (simp add: upt_conv_Cons map_Suc_upt [symmetric] mod_simps del: upt_Suc)
    have steps: "INTERLEAVE = min (Suc k * INTERLEAVE) (INTERLEAVE - m_current_step m)" "INTERLEAVE \<noteq> 0"
      "Suc k * INTERLEAVE \<noteq> 0" "Suc k * INTERLEAVE - INTERLEAVE = k * INTERLEAVE"
      using Suc.prems(2) by (simp_all add: INTERLEAVE_def)
    have after: "m_sys (after_steps h INTERLEAVE (m\<lparr>m_sys := s\<rparr>)) = host_switch h
        (if ?p + 1 = ?n then tick_clock (release_reservation ?p s) else release_reservation ?p s)" for s
      using Suc.prems(2) by (simp add: after_steps_def end_of_slice_def Let_def)
    have pos: "m_nprocs (after_steps h INTERLEAVE (m\<lparr>m_sys := s\<rparr>)) = ?n"
      "m_current_step (after_steps h INTERLEAVE (m\<lparr>m_sys := s\<rparr>)) = 0"
      "m_current_proc (after_steps h INTERLEAVE (m\<lparr>m_sys := s\<rparr>)) = (?p + 1) mod ?n" for s
      using after_steps_position [of "m\<lparr>m_sys := s\<rparr>" INTERLEAVE h] Suc.prems by (simp_all add: INTERLEAVE_def)
    have "(?p + 1) mod ?n < ?n" using Suc.prems(1) by simp
    then have IH: "map_option (\<lambda>(r, m'). (r, m_sys m')) (sim_step h fuel (k * INTERLEAVE) (after_steps h INTERLEAVE (m\<lparr>m_sys := s\<rparr>))) =
        turns h fuel ?n (map (\<lambda>i. ((?p + 1) mod ?n + i) mod ?n) [0..<k]) (m_sys (after_steps h INTERLEAVE (m\<lparr>m_sys := s\<rparr>)))" for s
      using Suc.IH [of "after_steps h INTERLEAVE (m\<lparr>m_sys := s\<rparr>)"] pos by simp
    show ?case
      unfolding order sim_step_run [OF steps(3,1,2)] steps(4)
      by (simp add: turn_def IH after split: option.split sum.split prod.split)
  qed simp
qed

text \<open>Two harts, the second one next: the order of the next three turns.\<close>

definition sample_main :: sim_main where
  "sample_main = \<lparr>m_sys = \<lparr>dm = sample_dm 2 0, sys = sample_sim\<lparr>s_procs := [sample_hart, sample_hart]\<rparr>\<rparr>,
     m_nprocs = 2, m_start_pc = -1, m_current_step = 0, m_current_proc = 1, m_debug = False,
     m_track_insn = False, m_log = False, m_histogram_enabled = False, m_dtb_enabled = True\<rparr>"

lemma scheduler_round_robin_witness:
  "map_option (\<lambda>(r, m'). (r, m_sys m')) (sim_step sample_host 7 (3 * INTERLEAVE) sample_main) =
     turns sample_host 7 2 [1, 0, 1] (m_sys sample_main)"
proof -
  have "map (\<lambda>i. (1 + i) mod 2) [0..<3] = [1, 0, 1 :: nat]" by code_simp
  moreover have "m_current_proc sample_main < m_nprocs sample_main" by (simp add: sample_main_def)
  ultimately show ?thesis
    using scheduler_round_robin [of sample_main sample_host 7 3] by (simp add: sample_main_def del: upt_rec_numeral)
qed

section \<open>The boot ROM\<close>

lemma length_vec: "length (reset_vec xlen start) = 8"
  by (simp add: reset_vec_def)

lemma length_reset_vec [simp]: "length (concat (map (le_bytes 4) (reset_vec xlen start))) = 32"
  by (simp add: reset_vec_def)

lemma boot_rom_size:
  "length (boot_rom xlen start dtb) mod 4096 = 0" "32 + length dtb \<le> length (boot_rom xlen start dtb)"
  "take (32 + length dtb) (boot_rom xlen start dtb) = concat (map (le_bytes 4) (reset_vec xlen start)) @ dtb"
proof -
  have "n \<le> (n + 4095) div 4096 * 4096" for n :: nat
    using div_mult_mod_eq [of "n + 4095" 4096] mod_less_divisor [of 4096 "n + 4095"] by linarith
  then have le: "32 + length dtb \<le> (32 + length dtb + 4095) div 4096 * 4096" by blast
  then have len: "length (boot_rom xlen start dtb) = (32 + length dtb + 4095) div 4096 * 4096"
    by (simp add: boot_rom_def Let_def add.commute)
  then show "length (boot_rom xlen start dtb) mod 4096 = 0" by (simp only: mod_mult_self2_is_0)
  show "32 + length dtb \<le> length (boot_rom xlen start dtb)" using le len by simp
  show "take (32 + length dtb) (boot_rom xlen start dtb) = concat (map (le_bytes 4) (reset_vec xlen start)) @ dtb"
    by (simp add: boot_rom_def Let_def)
qed

lemma copy_from_take: "n + k \<le> m \<Longrightarrow> copy_from (take m buf) n k = copy_from buf n k"
  by (simp add: copy_from_def drop_take min_def)

lemma boot_rom_word:
  assumes "i < 8"
  shows "word_at 4 (boot_rom xlen start dtb) i = reset_vec xlen start ! i"
proof -
  have "copy_from (boot_rom xlen start dtb) (4 * i) 4 = copy_from (concat (map (le_bytes 4) (reset_vec xlen start))) (4 * i) 4"
    using assms copy_from_take [of "4 * i" 4 "32 + length dtb" "boot_rom xlen start dtb"]
      copy_from_take [of "4 * i" 4 32 "concat (map (le_bytes 4) (reset_vec xlen start)) @ dtb"]
    by (simp add: boot_rom_size)
  also have "\<dots> = le_bytes 4 (reset_vec xlen start ! i)"
    using assms copy_from_chunks [of "map (le_bytes 4) (reset_vec xlen start)" 4 i] by (simp add: length_vec list_all_iff)
  finally show ?thesis by (simp add: word_at_def of_le_bytes_inverse take_bit_word_eq_self)
qed

lemma boot_rom_load:
  assumes "n + k \<le> 32 + length dtb" "length dtb < 2 ^ 32"
  shows "rom_load (boot_rom xlen start dtb) (of_nat n) k =
    Inr (Some (copy_from (concat (map (le_bytes 4) (reset_vec xlen start)) @ dtb) n k))"
proof -
  let ?rom = "boot_rom xlen start dtb"
  have "x div 4096 * 4096 \<le> x" for x :: nat by simp
  from this [of "32 + length dtb + 4095"] have "length ?rom \<le> 2 ^ 32 + 8192"
    using assms(2) by (simp add: boot_rom_def Let_def)
  then have len: "unat (of_nat (length ?rom) :: reg_t) = length ?rom"
    by (simp add: unsigned_of_nat take_bit_nat_eq_self)
  have n: "unat (of_nat n :: reg_t) = n" "unat (of_nat n + of_nat k :: reg_t) = n + k"
    using assms by (simp_all add: unat_word_ariths unsigned_of_nat take_bit_nat_eq_self)
  have "n + k \<le> length ?rom" using assms(1) boot_rom_size(2) [of dtb xlen start] by linarith
  then have "rom_load ?rom (of_nat n) k = Inr (Some (copy_from ?rom n k))"
    by (simp add: rom_load_def copy_out_def some_bytes_def word_less_nat_alt n len)
  then show ?thesis using copy_from_take [OF assms(1), of ?rom] by (simp add: boot_rom_size)
qed

text \<open>
  What a hart that starts at the boot ROM finds: \<open>auipc t0, 0\<close> puts the address of the ROM into
  \<open>t0\<close>, \<open>addi\<close> the address of the device tree into \<open>a1\<close>, \<open>csrrs\<close> the hart id into \<open>a0\<close>, the load
  the start address into \<open>t0\<close>, and \<open>jalr\<close> jumps to it.  Offsets are those the instructions encode.
\<close>

definition starts_program :: "nat \<Rightarrow> byte list \<Rightarrow> reg_t \<Rightarrow> byte list \<Rightarrow> bool" where
  "starts_program xlen rom start dtb \<longleftrightarrow>
     (let w = (\<lambda>i. fetched (word_at 4 rom i)); n = xlen div 8 in
      w 0 AND MASK_AUIPC = MATCH_AUIPC \<and> rd (w 0) = 5 \<and> u_imm (w 0) = 0 \<and>
      w 1 AND MASK_ADDI = MATCH_ADDI \<and> rd (w 1) = 11 \<and> rs1 (w 1) = 5 \<and>
        rom_load rom (i_imm (w 1)) (length dtb) = Inr (Some dtb) \<and>
      w 2 AND MASK_CSRRS = MATCH_CSRRS \<and> rd (w 2) = 10 \<and> rs1 (w 2) = 0 \<and> csr (w 2) = of_nat CSR_MHARTID \<and>
      w 3 AND (if xlen = 32 then MASK_LW else MASK_LD) = (if xlen = 32 then MATCH_LW else MATCH_LD) \<and>
        rd (w 3) = 5 \<and> rs1 (w 3) = 5 \<and> rom_load rom (i_imm (w 3)) n = Inr (Some (le_bytes n start)) \<and>
      w 4 AND MASK_JALR = MATCH_JALR \<and> rd (w 4) = 0 \<and> rs1 (w 4) = 5 \<and> i_imm (w 4) = 0)"

lemma reset_vec_words:
  "i < 5 \<Longrightarrow> reset_vec xlen start ! i = [0x297, 0x2028593, 0xf1402573, if xlen = 32 then 0x0182a283 else 0x0182b283, 0x28067] ! i"
  by (auto simp: reset_vec_def RESET_VEC_SIZE_def nth_Cons split: nat.splits)

lemma boot_instructions:
  "let w = fetched 0x297 in w AND MASK_AUIPC = MATCH_AUIPC \<and> rd w = 5 \<and> u_imm w = 0"
  "let w = fetched 0x2028593 in w AND MASK_ADDI = MATCH_ADDI \<and> rd w = 11 \<and> rs1 w = 5 \<and> i_imm w = 32"
  "let w = fetched 0xf1402573 in w AND MASK_CSRRS = MATCH_CSRRS \<and> rd w = 10 \<and> rs1 w = 0 \<and> csr w = of_nat CSR_MHARTID"
  "let w = fetched 0x0182a283 in w AND MASK_LW = MATCH_LW \<and> rd w = 5 \<and> rs1 w = 5 \<and> i_imm w = 24"
  "let w = fetched 0x0182b283 in w AND MASK_LD = MATCH_LD \<and> rd w = 5 \<and> rs1 w = 5 \<and> i_imm w = 24"
  "let w = fetched 0x28067 in w AND MASK_JALR = MATCH_JALR \<and> rd w = 0 \<and> rs1 w = 5 \<and> i_imm w = 0"
  by (simp_all add: Let_def insn_consts CSR_MHARTID_def fetched_def sext_xlen_def rd_def rs1_def i_imm_def u_imm_def csr_def insn_x_def)

lemma start_words:
  "le_bytes 4 (ucast (start AND 0xffffffff) :: u32) @ le_bytes 4 (ucast (shr start 32) :: u32) = le_bytes 8 (start :: reg_t)"
proof -
  have [simp]: "(0xffffffff :: reg_t) = mask 32" by (simp add: mask_eq_exp_minus_1)
  show ?thesis
  proof (intro nth_equalityI bit_word_eqI)
    fix i j assume "i < length (le_bytes 4 (ucast (start AND 0xffffffff) :: u32) @ le_bytes 4 (ucast (shr start 32) :: u32))"
    then have "i < 4 \<or> 4 \<le> i \<and> i < 8" by auto
    moreover assume "j < LENGTH(8)"
    ultimately show "bit ((le_bytes 4 (ucast (start AND 0xffffffff) :: u32) @ le_bytes 4 (ucast (shr start 32) :: u32)) ! i) j
        = bit (le_bytes 8 start ! i) j"
      by (auto simp: nth_append bit_simps algebra_simps)
  qed simp
qed

lemma reset_vec_tail: "drop 24 (concat (map (le_bytes 4) (reset_vec xlen start))) = le_bytes 8 start"
  by (simp add: reset_vec_def start_words)

lemma boot_rom_starts:
  assumes "length dtb < 2 ^ 32" "xlen = 32 \<or> xlen = 64"
  shows "starts_program xlen (boot_rom xlen start dtb) start dtb"
proof -
  let ?rom = "boot_rom xlen start dtb" and ?v = "concat (map (le_bytes 4) (reset_vec xlen start))"
  have vec: "reset_vec x start ! 0 = 0x297" "reset_vec x start ! 1 = 0x2028593" "reset_vec x start ! 2 = 0xf1402573"
    "reset_vec x start ! 3 = (if x = 32 then 0x0182a283 else 0x0182b283)" "reset_vec x start ! 4 = 0x28067" for x
    by (simp_all add: reset_vec_words)
  have dtb: "rom_load ?rom 32 (length dtb) = Inr (Some dtb)"
    using boot_rom_load [of 32 "length dtb" dtb xlen start] assms(1) by (simp add: copy_from_def)
  have "copy_from (?v @ dtb) 24 n = le_bytes n start" if "n = 4 \<or> n = 8" for n
    using that reset_vec_tail [of xlen start] by (auto simp: copy_from_def le_bytes_def take_map)
  then have addr: "rom_load ?rom 24 (xlen div 8) = Inr (Some (le_bytes (xlen div 8) start))"
    using boot_rom_load [of 24 "xlen div 8" dtb xlen start] assms by auto
  show ?thesis
    using boot_instructions [unfolded Let_def] addr dtb
    unfolding starts_program_def Let_def by (cases "xlen = 32") (simp_all add: boot_rom_word vec del: One_nat_def)
qed

text \<open>
  C25. The boot ROM that \<open>make_dtb\<close> puts at \<open>DEFAULT_RSTVEC\<close>, a whole number of pages, starts the
  program: the words at its start are the encodings of the instructions that load the hart id into
  \<open>a0\<close>, the address of the device tree into \<open>a1\<close>, and jump to the start address.  The offsets that
  these instructions encode are where a load from the ROM finds the complete device tree and, in
  the width of the first hart, the start address.
\<close>

theorem boot_rom_starts_program:
  assumes "length (host_dtb h) < 2 ^ 32" "xlen = p_xlen (s_procs (sys (m_sys m)) ! 0)" "xlen = 32 \<or> xlen = 64"
  shows "\<exists>rom. (DEFAULT_RSTVEC, Dev_rom rom) \<in> set (s_bus (sys (m_sys (make_dtb h m)))) \<and> length rom mod 4096 = 0 \<and>
    starts_program xlen rom (start_address h (m_start_pc m)) (host_dtb h)"
proof -
  have add: "(a, d) \<in> set (add_device a d ds)" for a and d :: device and ds
    by (induction a d ds rule: add_device.induct) auto
  let ?rom = "boot_rom xlen (start_address h (m_start_pc m)) (host_dtb h)"
  have "(DEFAULT_RSTVEC, Dev_rom ?rom) \<in> set (s_bus (sys (m_sys (make_dtb h m))))"
    by (simp add: make_dtb_def Let_def assms(2) [symmetric] add)
  then show ?thesis using boot_rom_starts [OF assms(1,3)] boot_rom_size(1) by blast
qed

lemma boot_rom_starts_program_witness:
  "\<exists>rom. (DEFAULT_RSTVEC, Dev_rom rom) \<in>
       set (s_bus (sys (m_sys (make_dtb (sample_host\<lparr>host_dtb := [0xd0, 0x0d, 0xfe, 0xed]\<rparr>) sample_main)))) \<and>
     length rom mod 4096 = 0 \<and> starts_program (p_xlen sample_hart) rom 0x80000000 [0xd0, 0x0d, 0xfe, 0xed]"
  using boot_rom_starts_program [of "sample_host\<lparr>host_dtb := [0xd0, 0x0d, 0xfe, 0xed]\<rparr>" "p_xlen sample_hart" sample_main]
  by (simp add: sample_main_def sample_host_def sample_hart_def start_address_def)

end
