(* ===== verification/SpikeMain.thy ===== *)
theory SpikeMain
  imports SimMainLaws RemoteBitbang CacheSim Numbers
begin

text \<open>
  The program \<open>spike\<close> (\<open>spike_main/spike.cc\<close>): the command line and what \<open>main\<close> builds from it.  The
  option parser is in another repository; it calls the functions given to it, so a command line is the
  list of options it has recognised and the remaining arguments.  \<open>calloc\<close> and \<open>dlopen\<close> are
  parameters, and so is the extension registry.
\<close>

text \<open>How the program can end before it runs: \<open>help\<close> or another exit, or an exception.\<close>

datatype early_exit = Usage | Exit_failure | Runtime_error | Construction_failed exn

section \<open>Memories\<close>

text \<open>\<open>new mem_t(size)\<close>; \<open>k\<close> memories have been allocated before.\<close>

definition new_mem :: "(nat \<Rightarrow> reg_t \<Rightarrow> reg_t option) \<Rightarrow> nat \<Rightarrow> reg_t \<Rightarrow> early_exit + mem_t" where
  "new_mem calloc k sz =
     (if sz = 0 then Inl Runtime_error
      else case calloc k sz of None \<Rightarrow> Inl Runtime_error | Some p \<Rightarrow> Inr \<lparr>mem_contents = p, mem_size = sz\<rparr>)"

function (sequential) mem_pairs :: "(nat \<Rightarrow> reg_t \<Rightarrow> reg_t option) \<Rightarrow> nat \<Rightarrow> string \<Rightarrow> early_exit + (reg_t \<times> mem_t) list" where
  "mem_pairs calloc k arg =
     (case strtoull 0 arg of (base, p) \<Rightarrow>
        if p = [] \<or> hd p \<noteq> CHR '':'' then Inl Usage
        else (case strtoull 0 (tl p) of (sz, q) \<Rightarrow>
          if (sz OR base) mod PGSIZE \<noteq> 0 then Inl Usage
          else (case new_mem calloc k sz of
             Inl e \<Rightarrow> Inl e
           | Inr m \<Rightarrow>
               if q = [] then Inr [(base, m)]
               else if hd q \<noteq> CHR '','' then Inl Usage
               else map_sum id (Cons (base, m)) (mem_pairs calloc (k + 1) (tl q)))))"
  by pat_completeness auto
termination
proof (relation "measure (\<lambda>(calloc, k, arg). length arg)", goal_cases)
  case (2 calloc k arg base p sz q m)
  then have "length q \<le> length (tl p)" "length p \<le> length arg" "p \<noteq> []" "q \<noteq> []"
    using strtoull_length by (metis snd_conv)+
  then show ?case by (cases p; cases q) auto
qed simp

declare mem_pairs.simps [simp del]

text \<open>
  A plain number is a size in MiB.  The overflow test compares two 64-bit values after the shift, so
  it never fires.
\<close>

definition make_mems :: "(nat \<Rightarrow> reg_t \<Rightarrow> reg_t option) \<Rightarrow> nat \<Rightarrow> string \<Rightarrow> early_exit + (reg_t \<times> mem_t) list" where
  "make_mems calloc k arg =
     (case strtoull 0 arg of (mb, p) \<Rightarrow>
        if p = [] then map_sum id (\<lambda>m. [(DRAM_BASE, m)]) (new_mem calloc k (shl mb 20))
        else mem_pairs calloc k arg)"

section \<open>Lists of instructions and hart ids\<close>

text \<open>The loop takes a token at each delimiter; what follows the last one is not a token.\<close>

function tracked_tokens :: "string \<Rightarrow> string list" where
  "tracked_tokens str =
     (if CHR '','' \<in> set str
      then takeWhile (\<lambda>c. c \<noteq> CHR '','') str # tracked_tokens (tl (dropWhile (\<lambda>c. c \<noteq> CHR '','') str))
      else [])"
  by pat_completeness auto
termination
proof (relation "measure length")
  fix str :: string
  assume "CHR '','' \<in> set str"
  then have "dropWhile (\<lambda>c. c \<noteq> CHR '','') str \<noteq> []" by auto
  then have "length (tl (dropWhile (\<lambda>c. c \<noteq> CHR '','') str)) < length (dropWhile (\<lambda>c. c \<noteq> CHR '','') str)"
    by (cases "dropWhile (\<lambda>c. c \<noteq> CHR '','') str") auto
  also have "\<dots> \<le> length str" by (rule length_dropWhile_le)
  finally show "(tl (dropWhile (\<lambda>c. c \<noteq> CHR '','') str), str) \<in> measure length" by simp
qed simp

declare tracked_tokens.simps [simp del]

text \<open>\<open>stream >> n\<close> fails on a number that an \<open>int\<close> cannot hold.\<close>

function hartid_list :: "string \<Rightarrow> u32 list" where
  "hartid_list str = (case scan_number 10 str of
     (None, r) \<Rightarrow> []
   | (Some (neg, n), r) \<Rightarrow>
       if n > (if neg then 2 ^ 31 else 2 ^ 31 - 1) then []
       else (if neg then - of_nat n else of_nat n) #
         hartid_list (if r \<noteq> [] \<and> hd r = CHR '','' then tl r else r))"
  by pat_completeness auto
termination by (relation "measure length") (auto dest!: scan_number_Some_shorter [OF sym] intro: le_less_trans [OF diff_le_self])

declare hartid_list.simps [simp del]

section \<open>Options\<close>

text \<open>The variables of \<open>main\<close>; \<open>o_allocs\<close> counts the memories allocated so far.\<close>

record spike_vars =
  o_debug :: bool
  o_track_insn :: bool
  o_halted :: bool
  o_histogram :: bool
  o_log :: bool
  o_dump_dts :: bool
  o_dtb_enabled :: bool
  o_nprocs :: reg_t
  o_start_pc :: reg_t
  o_mems :: "(reg_t \<times> mem_t) list"
  o_ic :: "cache option"
  o_dc :: "cache option"
  o_l2 :: "cache option"
  o_extension :: "insn_desc list option"
  o_isa :: string
  o_rbb_port :: "16 word"
  o_use_rbb :: bool
  o_progsize :: u32
  o_bus_master_bits :: u32
  o_authentication :: bool
  o_hartids :: "u32 list"
  o_tracked :: "string list"
  o_allocs :: nat

definition default_vars :: "string \<Rightarrow> spike_vars" where
  "default_vars default_isa = \<lparr>o_debug = False, o_track_insn = False, o_halted = False, o_histogram = False,
     o_log = False, o_dump_dts = False, o_dtb_enabled = True, o_nprocs = 1, o_start_pc = -1, o_mems = [],
     o_ic = None, o_dc = None, o_l2 = None, o_extension = None, o_isa = default_isa, o_rbb_port = 0,
     o_use_rbb = False, o_progsize = 2, o_bus_master_bits = 0, o_authentication = False, o_hartids = [],
     o_tracked = [], o_allocs = 0\<rparr>"

datatype spike_option = O_h | O_d | O_g | O_l | O_p string | O_m string | O_t string | O_H | O_rbb_port string
  | O_pc string | O_hartids string | O_ic string | O_dc string | O_l2 string | O_isa string
  | O_extension string | O_dump_dts | O_disable_dtb | O_extlib string | O_progsize string
  | O_debug_sba string | O_debug_auth

record platform =
  pf_default_isa :: string
  pf_calloc :: "nat \<Rightarrow> reg_t \<Rightarrow> reg_t option"
  pf_dlopen :: "string \<Rightarrow> bool"
  pf_find_extension :: "string \<Rightarrow> insn_desc list option"

text \<open>A cache configuration that is refused ends the program with the usage of the cache option.\<close>

definition config_cache :: "string \<Rightarrow> early_exit + cache" where
  "config_cache s = (case cache_construct s of None \<Rightarrow> Inl Usage | Some c \<Rightarrow> Inr c)"

definition set_mems :: "platform \<Rightarrow> string \<Rightarrow> spike_vars \<Rightarrow> early_exit + spike_vars" where
  "set_mems pf s v = map_sum id (\<lambda>ms. v\<lparr>o_mems := ms, o_allocs := o_allocs v + length ms\<rparr>)
     (make_mems (pf_calloc pf) (o_allocs v) s)"

fun apply_option :: "platform \<Rightarrow> spike_option \<Rightarrow> spike_vars \<Rightarrow> early_exit + spike_vars" where
  "apply_option pf O_h v = Inl Usage"
| "apply_option pf O_d v = Inr (v\<lparr>o_debug := True\<rparr>)"
| "apply_option pf O_g v = Inr (v\<lparr>o_histogram := True\<rparr>)"
| "apply_option pf O_l v = Inr (v\<lparr>o_log := True\<rparr>)"
| "apply_option pf (O_p s) v = Inr (v\<lparr>o_nprocs := of_int (atoi s)\<rparr>)"
| "apply_option pf (O_m s) v = set_mems pf s v"
| "apply_option pf (O_t s) v = Inr (v\<lparr>o_track_insn := True, o_tracked := o_tracked v @ tracked_tokens s\<rparr>)"
| "apply_option pf O_H v = Inr (v\<lparr>o_halted := True\<rparr>)"
| "apply_option pf (O_rbb_port s) v = Inr (v\<lparr>o_use_rbb := True, o_rbb_port := of_int (atoi s)\<rparr>)"
| "apply_option pf (O_pc s) v = Inr (v\<lparr>o_start_pc := fst (strtoull 0 s)\<rparr>)"
| "apply_option pf (O_hartids s) v = Inr (v\<lparr>o_hartids := o_hartids v @ hartid_list s\<rparr>)"
| "apply_option pf (O_ic s) v = map_sum id (\<lambda>c. v\<lparr>o_ic := Some c\<rparr>) (config_cache s)"
| "apply_option pf (O_dc s) v = map_sum id (\<lambda>c. v\<lparr>o_dc := Some c\<rparr>) (config_cache s)"
| "apply_option pf (O_l2 s) v = map_sum id (\<lambda>c. v\<lparr>o_l2 := Some c\<rparr>) (config_cache s)"
| "apply_option pf (O_isa s) v = Inr (v\<lparr>o_isa := s\<rparr>)"
| "apply_option pf (O_extension s) v = (case pf_find_extension pf s of
     None \<Rightarrow> Inl Exit_failure | Some x \<Rightarrow> Inr (v\<lparr>o_extension := Some x\<rparr>))"
| "apply_option pf O_dump_dts v = Inr (v\<lparr>o_dump_dts := True\<rparr>)"
| "apply_option pf O_disable_dtb v = Inr (v\<lparr>o_dtb_enabled := False\<rparr>)"
| "apply_option pf (O_extlib s) v = (if pf_dlopen pf s then Inr v else Inl Exit_failure)"
| "apply_option pf (O_progsize s) v = Inr (v\<lparr>o_progsize := of_int (atoi s)\<rparr>)"
| "apply_option pf (O_debug_sba s) v = Inr (v\<lparr>o_bus_master_bits := of_int (atoi s)\<rparr>)"
| "apply_option pf O_debug_auth v = Inr (v\<lparr>o_authentication := True\<rparr>)"

fun apply_options :: "platform \<Rightarrow> spike_option list \<Rightarrow> spike_vars \<Rightarrow> early_exit + spike_vars" where
  "apply_options pf [] v = Inr v"
| "apply_options pf (x # xs) v = (case apply_option pf x v of Inl e \<Rightarrow> Inl e | Inr v \<Rightarrow> apply_options pf xs v)"

section \<open>main\<close>

text \<open>
  What \<open>main\<close> hands to \<open>run\<close>: the simulator, the caches, the tracers registered with the MMU of each
  hart, the JTAG transport, and the port of the remote bitbang server.  A cache that is configured
  with an \<open>l2\<close> misses to it.
\<close>

record spike =
  sp_sim :: sim_main
  sp_ic :: "cache option"
  sp_dc :: "cache option"
  sp_l2 :: "cache option"
  sp_tracers :: "tracer list list"
  sp_jtag :: jtag_dtm_t
  sp_rbb_port :: "16 word option"

datatype outcome = Dump_dts sim_main | Run spike

definition options_of :: "spike_vars \<Rightarrow> options" where
  "options_of v = \<lparr>opt_isa = o_isa v, opt_nprocs = unat (o_nprocs v), opt_halted = o_halted v,
     opt_start_pc = o_start_pc v, opt_mems = o_mems v, opt_hartids = o_hartids v, opt_tracked = o_tracked v,
     opt_progsize = o_progsize v, opt_bus_master_bits = o_bus_master_bits v,
     opt_authentication = o_authentication v\<rparr>"

text \<open>
  The loop over the \<open>nprocs\<close> processors: without \<open>-p0\<close> these are all.  A processor that already has
  an extension refuses a second one with an exception.
\<close>

definition core_tracers :: "spike_vars \<Rightarrow> tracer list" where
  "core_tracers v = (if o_ic v = None then [] else [I_tracer]) @ (if o_dc v = None then [] else [D_tracer])"

fun extend_cores :: "insn_desc list \<Rightarrow> processor_t list \<Rightarrow> processor_t list option" where
  "extend_cores insns [] = Some []"
| "extend_cores insns (p # ps) = (case register_extension insns p of
     None \<Rightarrow> None | Some q \<Rightarrow> map_option (Cons q) (extend_cores insns ps))"

definition setup_cores :: "spike_vars \<Rightarrow> sim_main \<Rightarrow> early_exit + sim_main" where
  "setup_cores v m = (case o_extension v of
     None \<Rightarrow> Inr m
   | Some x \<Rightarrow>
       (let t = sys (m_sys m); n = unat (o_nprocs v)
        in case extend_cores x (take n (s_procs t)) of
             None \<Rightarrow> Inl Runtime_error
           | Some ps \<Rightarrow> Inr (m\<lparr>m_sys := (m_sys m)\<lparr>sys := t\<lparr>s_procs := ps @ drop n (s_procs t)\<rparr>\<rparr>\<rparr>)))"

definition set_options :: "spike_vars \<Rightarrow> sim_main \<Rightarrow> sim_main" where
  "set_options v m = set_histogram (o_histogram v) (set_log (o_log v)
     (set_procs_track_insn (o_track_insn v) (set_debug (o_debug v) m)))"

definition spike_main :: "platform \<Rightarrow> host \<Rightarrow> uninit \<Rightarrow> jtag_dtm_t \<Rightarrow> spike_option list \<Rightarrow> string list \<Rightarrow> early_exit + outcome" where
  "spike_main pf h un dtm opts args =
     (case apply_options pf opts (default_vars (pf_default_isa pf)) of
        Inl e \<Rightarrow> Inl e
      | Inr v \<Rightarrow>
          (case (if o_mems v = [] then set_mems pf ''2048'' v else Inr v) of
             Inl e \<Rightarrow> Inl e
           | Inr v \<Rightarrow>
               if args = [] then Inl Usage
               else
                 (case sim_construct h (pf_find_extension pf) un (options_of v) of
                    Inl e \<Rightarrow> Inl (Construction_failed e)
                  | Inr m \<Rightarrow>
                      (let m = m\<lparr>m_dtb_enabled := o_dtb_enabled v\<rparr>
                       in if o_dump_dts v then Inr (Dump_dts m)
                          else case setup_cores v m of
                            Inl e \<Rightarrow> Inl e
                          | Inr m \<Rightarrow> Inr (Run \<lparr>sp_sim = set_options v m, sp_ic = o_ic v, sp_dc = o_dc v, sp_l2 = o_l2 v,
                              sp_tracers = map (\<lambda>i. if i < unat (o_nprocs v) then core_tracers v else [])
                                [0..<m_nprocs m],
                              sp_jtag = dtm, sp_rbb_port = (if o_use_rbb v then Some (o_rbb_port v) else None)\<rparr>)))))"

end
