(* ===== verification/Interactive.thy ===== *)
theory Interactive
  imports SpikeMain
begin

text \<open>
  The interactive prompt (\<open>riscv/interactive.cc\<close>) and the main loop of the simulator (\<open>main\<close> in
  \<open>riscv/sim.cc\<close>), which gives turns to the prompt or the scheduler and to the remote bitbang server.
  The terminal is a text of input, which ends where reading fails, and a text of output; the echo of
  the typed characters is not modelled.  What the rest of the program contributes is the record
  \<open>console\<close>: whether the program has ended (\<open>done\<close>), whether the \<open>k\<close>-th turn of the scheduler is
  interrupted by a signal, and how \<open>%g\<close> prints a number.
\<close>

section \<open>State\<close>

record console =
  con_host :: host
  con_fuel :: nat
  con_done :: "sim_main \<Rightarrow> bool"
  con_signal :: "nat \<Rightarrow> bool"
  con_show_f32 :: "u32 \<Rightarrow> string"
  con_show_f64 :: "reg_t \<Rightarrow> string"

record prompt =
  pr_sim :: sim_main
  pr_ctrlc :: bool
  pr_turns :: nat
  pr_input :: string
  pr_output :: string

text \<open>How a command can end the program: a call of \<open>exit\<close>, or an exception that nobody catches.\<close>

datatype halt = Exited int | Escaped exn

type_synonym step_result = "((halt + unit) \<times> prompt) option"

definition trap_interactive :: exn where "trap_interactive = Throw_trap (trap_t (-1))"

definition say :: "string \<Rightarrow> prompt \<Rightarrow> prompt" where
  "say t s = s\<lparr>pr_output := pr_output s @ t\<rparr>"

text \<open>
  \<open>step(n)\<close>; \<open>None\<close> when a hart runs out of fuel.  The handler of the signal exits at the second one.
\<close>

definition step_sim :: "console \<Rightarrow> nat \<Rightarrow> prompt \<Rightarrow> step_result" where
  "step_sim C n s =
     (case sim_step (con_host C) (con_fuel C) n (pr_sim s) of
        None \<Rightarrow> None
      | Some (r, m) \<Rightarrow>
          (let s' = s\<lparr>pr_sim := m, pr_turns := pr_turns s + 1\<rparr>
           in case r of
                Inl e \<Rightarrow> Some (Inl (Escaped e), s')
              | Inr _ \<Rightarrow>
                  if con_signal C (pr_turns s) then
                    if pr_ctrlc s then Some (Inl (Exited (-1)), s') else Some (Inr (), s'\<lparr>pr_ctrlc := True\<rparr>)
                  else Some (Inr (), s')))"

definition all_debug :: "bool \<Rightarrow> prompt \<Rightarrow> prompt" where
  "all_debug b s = s\<lparr>pr_sim := set_procs_debug b (pr_sim s)\<rparr>"

section \<open>Numbers and names\<close>

definition NXPR :: nat where "NXPR = 32"
definition NFPR :: nat where "NFPR = 32"

definition show64 :: "reg_t \<Rightarrow> string" where
  "show64 v = ''0x'' @ hex_padded 16 (unat v)"

definition newline :: string where "newline = [CHR 0x0A]"

text \<open>A hexadecimal argument: when \<open>strtol\<close> saturates, \<open>strtoul\<close> reads it again.\<close>

definition parse_value :: "string \<Rightarrow> reg_t" where
  "parse_value s = (let v = fst (strtol 16 s) in if v = LONG_MAX then fst (strtoull 16 s) else v)"

text \<open>\<open>std::find\<close>: the length of the list when the name is not in it.\<close>

definition index_of :: "string \<Rightarrow> string list \<Rightarrow> nat" where
  "index_of x xs = length (takeWhile (\<lambda>y. y \<noteq> x) xs)"

definition procs_of :: "sim_main \<Rightarrow> processor_t list" where
  "procs_of m = s_procs (sys (m_sys m))"

definition get_core :: "sim_main \<Rightarrow> string \<Rightarrow> nat result" where
  "get_core m i =
     (case strtoull 10 i of (p, rest) \<Rightarrow>
        if rest \<noteq> [] \<or> unat p \<ge> length (procs_of m) then Inl trap_interactive else Inr (unat p))"

section \<open>Reading the state\<close>

definition get_pc :: "string list \<Rightarrow> sim_main \<Rightarrow> reg_t result" where
  "get_pc args m =
     (if length args \<noteq> 1 then Inl trap_interactive
      else (case get_core m (args ! 0) of Inl e \<Rightarrow> Inl e | Inr k \<Rightarrow> Inr (pc (p_state (procs_of m ! k)))))"

text \<open>A register is given by its name, by its number, or is the name of a CSR.\<close>

definition read_reg :: "processor_t \<Rightarrow> string \<Rightarrow> reg_t result" where
  "read_reg p name =
     (let r = index_of name xpr_names;
          xpr = (\<lambda>r. if r \<ge> NXPR then Inl trap_interactive else Inr (XPR (p_state p) ! r))
      in if r = NXPR then
           (case strtoull 10 name of (v, rest) \<Rightarrow>
              if rest \<noteq> [] then
                (case map_of (declared_csrs_1 @ declared_csrs_2) name of
                   Some number \<Rightarrow> get_csr number p
                 | None \<Rightarrow> Inl trap_interactive)
              else xpr (unat v))
         else xpr r)"

definition get_reg :: "string list \<Rightarrow> sim_main \<Rightarrow> reg_t result" where
  "get_reg args m =
     (if length args \<noteq> 2 then Inl trap_interactive
      else (case get_core m (args ! 0) of Inl e \<Rightarrow> Inl e | Inr k \<Rightarrow> read_reg (procs_of m ! k) (args ! 1)))"

text \<open>The number is an \<open>int\<close>, which is only compared with the upper bound; a negative one is \<open>Abort\<close>.\<close>

definition get_freg :: "string list \<Rightarrow> sim_main \<Rightarrow> freg result" where
  "get_freg args m =
     (if length args \<noteq> 2 then Inl trap_interactive
      else (case get_core m (args ! 0) of
         Inl e \<Rightarrow> Inl e
       | Inr k \<Rightarrow>
           (let r = index_of (args ! 1) fpr_names; i = (if r = NFPR then atoi (args ! 1) else int r)
            in if i \<ge> int NFPR then Inl trap_interactive
               else if i < 0 then Inl Abort
               else Inr (FPR (p_state (procs_of m ! k)) ! nat i))))"

text \<open>The widest load for which the address is aligned.\<close>

definition load_width :: "reg_t \<Rightarrow> nat" where
  "load_width addr =
     (let k = unat (addr mod 8) in if k = 0 then 8 else if k = 4 then 4 else if k = 2 \<or> k = 6 then 2 else 1)"

definition port_load :: "host \<Rightarrow> port \<Rightarrow> nat \<Rightarrow> reg_t \<Rightarrow> sim_main \<Rightarrow> reg_t result \<times> sim_main" where
  "port_load h p n addr m =
     (case through_port p (mmu_load (host_build h) (sim_simif h (s_bus (sys (m_sys m))) p) False n addr) (m_sys m) of
        (r, s) \<Rightarrow> (r, m\<lparr>m_sys := s\<rparr>))"

definition get_mem :: "host \<Rightarrow> string list \<Rightarrow> sim_main \<Rightarrow> reg_t result \<times> sim_main" where
  "get_mem h args m =
     (if length args \<noteq> 1 \<and> length args \<noteq> 2 then (Inl trap_interactive, m)
      else
        (let at = (\<lambda>p s. let addr = parse_value s in port_load h p (load_width addr) addr m)
         in if length args = 2 then
              (case get_core m (args ! 0) of Inl e \<Rightarrow> (Inl e, m) | Inr k \<Rightarrow> at (Hart k) (args ! 1))
            else at Debug_port (args ! 0)))"

section \<open>Commands\<close>

definition fail :: "exn \<Rightarrow> prompt \<Rightarrow> step_result" where
  "fail e s = Some (Inl (Escaped e), s)"

definition done_with :: "string \<Rightarrow> prompt \<Rightarrow> step_result" where
  "done_with t s = Some (Inr (), say t s)"

definition interactive_help :: "prompt \<Rightarrow> step_result" where
  "interactive_help s = done_with (
     ''Interactive commands:'' @ newline @
     ''reg <core> [reg]                # Display [reg] (all if omitted) in <core>'' @ newline @
     ''fregs <core> <reg>              # Display single precision <reg> in <core>'' @ newline @
     ''fregd <core> <reg>              # Display double precision <reg> in <core>'' @ newline @
     ''pc <core>                       # Show current PC in <core>'' @ newline @
     ''mem <hex addr>                  # Show contents of physical memory'' @ newline @
     ''str <hex addr>                  # Show NUL-terminated C string'' @ newline @
     ''until reg <core> <reg> <val>    # Stop when <reg> in <core> hits <val>'' @ newline @
     ''until pc <core> <val>           # Stop when PC in <core> hits <val>'' @ newline @
     ''until mem <addr> <val>          # Stop when memory <addr> becomes <val>'' @ newline @
     ''while reg <core> <reg> <val>    # Run while <reg> in <core> is <val>'' @ newline @
     ''while pc <core> <val>           # Run while PC in <core> is <val>'' @ newline @
     ''while mem <addr> <val>          # Run while memory <addr> is <val>'' @ newline @
     ''run [count]                     # Resume noisy execution (until CTRL+C, or [count] insns)'' @ newline @
     ''r [count]                         Alias for run'' @ newline @
     ''rs [count]                      # Resume silent execution (until CTRL+C, or [count] insns)'' @ newline @
     ''quit                            # End the simulation'' @ newline @
     ''q                                 Alias for quit'' @ newline @
     ''help                            # This screen!'' @ newline @
     ''h                                 Alias for help'' @ newline @
     ''Note: Hitting enter is the same as: run 1'' @ newline) s"

fun run_loop :: "console \<Rightarrow> nat \<Rightarrow> prompt \<Rightarrow> step_result" where
  "run_loop C 0 s = Some (Inr (), s)"
| "run_loop C (Suc n) s =
     (if pr_ctrlc s \<or> con_done C (pr_sim s) then Some (Inr (), s)
      else (case step_sim C 1 s of
         None \<Rightarrow> None
       | Some (Inl e, s) \<Rightarrow> Some (Inl e, s)
       | Some (Inr _, s) \<Rightarrow> run_loop C n s))"

definition interactive_run :: "console \<Rightarrow> string list \<Rightarrow> bool \<Rightarrow> prompt \<Rightarrow> step_result" where
  "interactive_run C args noisy s =
     (let steps = (if args \<noteq> [] then fst (strtol 10 (args ! 0)) else -1)
      in run_loop C (unat steps) (all_debug noisy (s\<lparr>pr_ctrlc := False\<rparr>)))"

definition interactive_pc :: "string list \<Rightarrow> prompt \<Rightarrow> step_result" where
  "interactive_pc args s = (case get_pc args (pr_sim s) of
     Inl e \<Rightarrow> fail e s | Inr v \<Rightarrow> done_with (show64 v @ newline) s)"

definition reg_line :: "processor_t \<Rightarrow> nat \<Rightarrow> string" where
  "reg_line p r =
     (let name = xpr_names ! r
      in name @ replicate (4 - length name) CHR '' '' @ '': '' @ show64 (XPR (p_state p) ! r) @ ''  '' @
         (if (r + 1) mod 4 = 0 then newline else []))"

definition interactive_reg :: "string list \<Rightarrow> prompt \<Rightarrow> step_result" where
  "interactive_reg args s =
     (if length args = 1 then
        (case get_core (pr_sim s) (args ! 0) of
           Inl e \<Rightarrow> fail e s
         | Inr k \<Rightarrow> done_with (concat (map (reg_line (procs_of (pr_sim s) ! k)) [0..<NXPR])) s)
      else (case get_reg args (pr_sim s) of Inl e \<Rightarrow> fail e s | Inr v \<Rightarrow> done_with (show64 v @ newline) s))"

definition interactive_freg :: "string list \<Rightarrow> prompt \<Rightarrow> step_result" where
  "interactive_freg args s = (case get_freg args (pr_sim s) of
     Inl e \<Rightarrow> fail e s
   | Inr r \<Rightarrow> done_with (''0x'' @ hex_padded 16 (unat (v1 r)) @ hex_padded 16 (unat (v0 r)) @ newline) s)"

definition interactive_fregs :: "console \<Rightarrow> string list \<Rightarrow> prompt \<Rightarrow> step_result" where
  "interactive_fregs C args s = (case get_freg args (pr_sim s) of
     Inl e \<Rightarrow> fail e s
   | Inr r \<Rightarrow> done_with ((if isBoxedF32 r then con_show_f32 C (ucast (v0 r)) else ''nan'') @ newline) s)"

definition interactive_fregd :: "console \<Rightarrow> string list \<Rightarrow> prompt \<Rightarrow> step_result" where
  "interactive_fregd C args s = (case get_freg args (pr_sim s) of
     Inl e \<Rightarrow> fail e s
   | Inr r \<Rightarrow> done_with ((if isBoxedF64 r then con_show_f64 C (v0 r) else ''nan'') @ newline) s)"

definition interactive_mem :: "console \<Rightarrow> string list \<Rightarrow> prompt \<Rightarrow> step_result" where
  "interactive_mem C args s = (case get_mem (con_host C) args (pr_sim s) of
     (Inl e, m) \<Rightarrow> fail e (s\<lparr>pr_sim := m\<rparr>)
   | (Inr v, m) \<Rightarrow> done_with (show64 v @ newline) (s\<lparr>pr_sim := m\<rparr>))"

text \<open>The loop over the characters of a string ends only at a NUL or at a fault.\<close>

partial_function (option) str_loop :: "console \<Rightarrow> reg_t \<Rightarrow> prompt \<Rightarrow> step_result" where
  "str_loop C addr s =
     (case port_load (con_host C) Debug_port 1 addr (pr_sim s) of
        (Inl e, m) \<Rightarrow> fail e (s\<lparr>pr_sim := m\<rparr>)
      | (Inr v, m) \<Rightarrow>
          if (ucast v :: byte) = 0 then done_with newline (s\<lparr>pr_sim := m\<rparr>)
          else str_loop C (addr + 1) (say [char_of (unat (ucast v :: byte))] (s\<lparr>pr_sim := m\<rparr>)))"

definition interactive_str :: "console \<Rightarrow> string list \<Rightarrow> prompt \<Rightarrow> step_result" where
  "interactive_str C args s =
     (if length args \<noteq> 1 then fail trap_interactive s else str_loop C (fst (strtol 16 (args ! 0))) s)"

text \<open>
  \<open>until\<close> and \<open>while\<close>.  A trap of the getter is ignored, and then neither the value nor the signal is
  looked at.
\<close>

type_synonym getter = "sim_main \<Rightarrow> reg_t result \<times> sim_main"

datatype verdict = Stop | Fail exn | Go

definition until_check :: "bool \<Rightarrow> reg_t \<Rightarrow> getter \<Rightarrow> prompt \<Rightarrow> verdict \<times> prompt" where
  "until_check cmd_until val get s =
     (case get (pr_sim s) of (r, m) \<Rightarrow>
        ((case r of
            Inr current \<Rightarrow> if cmd_until = (current = val) \<or> pr_ctrlc s then Stop else Go
          | Inl e \<Rightarrow> (case e of Throw_trap t \<Rightarrow> Go | _ \<Rightarrow> Fail e)),
         s\<lparr>pr_sim := m\<rparr>))"

partial_function (option) until_loop :: "console \<Rightarrow> bool \<Rightarrow> reg_t \<Rightarrow> getter \<Rightarrow> prompt \<Rightarrow> step_result" where
  "until_loop C cmd_until val get s =
     (case until_check cmd_until val get s of (v, s) \<Rightarrow>
        (case v of
           Stop \<Rightarrow> Some (Inr (), s)
         | Fail e \<Rightarrow> fail e s
         | Go \<Rightarrow> Option.bind (step_sim C 1 (all_debug False s))
             (\<lambda>(r, s). case r of Inl e \<Rightarrow> Some (Inl e, s) | Inr _ \<Rightarrow> until_loop C cmd_until val get s)))"

definition getter_of :: "host \<Rightarrow> string \<Rightarrow> string list \<Rightarrow> getter option" where
  "getter_of h what args =
     (if what = ''reg'' then Some (\<lambda>m. (get_reg args m, m))
      else if what = ''pc'' then Some (\<lambda>m. (get_pc args m, m))
      else if what = ''mem'' then Some (get_mem h args)
      else None)"

definition interactive_until :: "console \<Rightarrow> string \<Rightarrow> string list \<Rightarrow> prompt \<Rightarrow> step_result" where
  "interactive_until C cmd args s =
     (if length args < 3 then Some (Inr (), s)
      else (case getter_of (con_host C) (args ! 0) (butlast (tl args)) of
         None \<Rightarrow> Some (Inr (), s)
       | Some get \<Rightarrow> until_loop C (cmd = ''until'') (parse_value (last args)) get (s\<lparr>pr_ctrlc := False\<rparr>)))"

section \<open>The prompt\<close>

text \<open>Words are separated by white space.\<close>

function split_words :: "string \<Rightarrow> string list" where
  "split_words t =
     (let s = dropWhile is_space t
      in if s = [] then []
         else takeWhile (\<lambda>c. \<not> is_space c) s # split_words (dropWhile (\<lambda>c. \<not> is_space c) s))"
  by pat_completeness auto
termination
proof (relation "measure length")
  fix t s :: string
  assume s: "s = dropWhile is_space t" "s \<noteq> []"
  then have "\<not> is_space (hd s)" by (simp add: hd_dropWhile)
  then have "length (dropWhile (\<lambda>c. \<not> is_space c) s) < length s"
    using s(2) by (cases s) (simp_all add: le_imp_less_Suc length_dropWhile_le)
  also have "\<dots> \<le> length t" unfolding s(1) by (rule length_dropWhile_le)
  finally show "(dropWhile (\<lambda>c. \<not> is_space c) s, t) \<in> measure length" by simp
qed simp

declare split_words.simps [simp del]

text \<open>\<open>readline\<close>: a DEL removes the last character; reading ends at a newline or where it fails.\<close>

fun readline :: "string \<Rightarrow> string \<Rightarrow> string \<times> string" where
  "readline s [] = (s, [])"
| "readline s (ch # input) =
     (if ch = CHR 0x7F then readline (butlast s) input
      else if ch = CHR 0x0A then (s, input)
      else readline (s @ [ch]) input)"

definition run_command :: "console \<Rightarrow> string \<Rightarrow> string list \<Rightarrow> prompt \<Rightarrow> step_result" where
  "run_command C cmd args s =
     (if cmd \<in> {''run'', ''r''} then interactive_run C args True s
      else if cmd = ''rs'' then interactive_run C args False s
      else if cmd = ''reg'' then interactive_reg args s
      else if cmd = ''freg'' then interactive_freg args s
      else if cmd = ''fregs'' then interactive_fregs C args s
      else if cmd = ''fregd'' then interactive_fregd C args s
      else if cmd = ''pc'' then interactive_pc args s
      else if cmd = ''mem'' then interactive_mem C args s
      else if cmd = ''str'' then interactive_str C args s
      else if cmd \<in> {''until'', ''while''} then interactive_until C cmd args s
      else if cmd \<in> {''quit'', ''q''} then Some (Inl (Exited 0), s)
      else if cmd \<in> {''help'', ''h''} then interactive_help s
      else done_with (''Unknown command '' @ cmd @ newline) s)"

text \<open>A trap that a command throws is swallowed; other exceptions escape.\<close>

definition swallow_trap :: "step_result \<Rightarrow> step_result" where
  "swallow_trap x = map_option (\<lambda>(r, s). (case r of Inl (Escaped (Throw_trap t)) \<Rightarrow> Inr () | _ \<Rightarrow> r, s)) x"

definition prompt_turn :: "console \<Rightarrow> prompt \<Rightarrow> step_result" where
  "prompt_turn C s =
     (case readline [] (pr_input s) of (line, rest) \<Rightarrow>
        let s = (say '': '' s)\<lparr>pr_input := rest\<rparr>
        in case split_words line of
             [] \<Rightarrow> step_sim C 1 (all_debug True s)
           | cmd # args \<Rightarrow> swallow_trap (run_command C cmd args s))"

partial_function (option) interactive :: "console \<Rightarrow> prompt \<Rightarrow> step_result" where
  "interactive C s =
     (if con_done C (pr_sim s) then Some (Inr (), s\<lparr>pr_ctrlc := False\<rparr>)
      else Option.bind (prompt_turn C s)
        (\<lambda>(r, s). case r of Inl e \<Rightarrow> Some (Inl e, s) | Inr _ \<Rightarrow> interactive C s))"

section \<open>The main loop\<close>

text \<open>The prompt, and the bitbang server with its TAP when there is one.\<close>

record running =
  ru_prompt :: prompt
  ru_bitbang :: bitbang
  ru_tap :: jtag_dtm_t

definition tick_bitbang :: "console \<Rightarrow> net \<Rightarrow> running \<Rightarrow> ((halt + unit) \<times> running) option" where
  "tick_bitbang C N u =
     map_option (\<lambda>(r, b). (map_sum Escaped id r,
         u\<lparr>ru_prompt := (ru_prompt u)\<lparr>pr_sim := (pr_sim (ru_prompt u))\<lparr>m_sys := dmsys (jtag b)\<rparr>\<rparr>,
           ru_bitbang := bb b, ru_tap := tap (jtag b)\<rparr>))
       (tick N (sim_dm_if (con_host C))
         \<lparr>bb = ru_bitbang u, jtag = \<lparr>tap = ru_tap u, dmsys = m_sys (pr_sim (ru_prompt u))\<rparr>\<rparr>)"

definition main_turn :: "console \<Rightarrow> net option \<Rightarrow> running \<Rightarrow> ((halt + unit) \<times> running) option" where
  "main_turn C net u =
     (let s = ru_prompt u in
      case (if m_debug (pr_sim s) \<or> pr_ctrlc s then interactive C s else step_sim C INTERLEAVE s) of
        None \<Rightarrow> None
      | Some (Inl e, s) \<Rightarrow> Some (Inl e, u\<lparr>ru_prompt := s\<rparr>)
      | Some (Inr _, s) \<Rightarrow>
          (case net of None \<Rightarrow> Some (Inr (), u\<lparr>ru_prompt := s\<rparr>) | Some N \<Rightarrow> tick_bitbang C N (u\<lparr>ru_prompt := s\<rparr>)))"

partial_function (option) main_loop :: "console \<Rightarrow> net option \<Rightarrow> running \<Rightarrow> ((halt + unit) \<times> running) option" where
  "main_loop C net u =
     (if con_done C (pr_sim (ru_prompt u)) then Some (Inr (), u)
      else Option.bind (main_turn C net u)
        (\<lambda>(r, u). case r of Inl e \<Rightarrow> Some (Inl e, u) | Inr _ \<Rightarrow> main_loop C net u))"

definition sim_main_thread :: "console \<Rightarrow> net option \<Rightarrow> running \<Rightarrow> ((halt + unit) \<times> running) option" where
  "sim_main_thread C net u =
     (let s = ru_prompt u
      in main_loop C net (if \<not> m_debug (pr_sim s) \<and> m_log (pr_sim s) then u\<lparr>ru_prompt := all_debug True s\<rparr> else u))"

end
