(* ===== verification/SpikeLaws.thy ===== *)
theory SpikeLaws
  imports SpikeMain
begin

text \<open>
  The command line: what \<open>-m\<close> accepts, which instructions \<open>-t\<close> tracks, and that every simulator
  that \<open>spike\<close> starts satisfies the invariants of the components.
\<close>

section \<open>Memory regions\<close>

text \<open>A number of a memory region, in hexadecimal or in decimal.\<close>

definition number_text :: "bool \<times> reg_t \<Rightarrow> string" where
  "number_text x = (if fst x then ''0x'' @ hex (unat (snd x)) else dec (unat (snd x)))"

type_synonym region = "(bool \<times> reg_t) \<times> (bool \<times> reg_t)"

definition region_text :: "region \<Rightarrow> string" where
  "region_text r = number_text (fst r) @ '':'' @ number_text (snd r)"

fun regions_text :: "region list \<Rightarrow> string" where
  "regions_text [] = []"
| "regions_text [r] = region_text r"
| "regions_text (r # rs) = region_text r @ '','' @ regions_text rs"

definition mem_at :: "reg_t \<Rightarrow> region \<Rightarrow> reg_t \<times> mem_t" where
  "mem_at p r = (snd (fst r), \<lparr>mem_contents = p, mem_size = snd (snd r)\<rparr>)"

definition good_region :: "region \<Rightarrow> bool" where
  "good_region r \<longleftrightarrow> snd (fst r) mod PGSIZE = 0 \<and> snd (snd r) mod PGSIZE = 0 \<and> snd (snd r) \<noteq> 0"

lemma strtoull_number:
  assumes "rest = [] \<or> hd rest \<in> {CHR '':'', CHR '',''}"
  shows "strtoull 0 (number_text x @ rest) = (snd x, rest)"
proof -
  have "stops 10 rest" "stops 16 rest" "rest = [] \<or> hd rest \<notin> {CHR ''x'', CHR ''X''}"
    using assms by (auto simp: stops_def in_base_def digit_of_def split: list.splits)
  then have "scan_number 0 (number_text x @ rest) = (Some (False, unat (snd x)), rest)"
    using scan_hex [of 0 rest] scan_auto_dec [of rest] by (simp add: number_text_def)
  moreover have "unat (snd x) < 2 ^ 64" using unsigned_less [of "snd x"] by simp
  ultimately show ?thesis by (simp add: strtoull_def not_le)
qed

lemma mod_page: "z mod PGSIZE = take_bit 12 z"
  by (simp add: spike_consts take_bit_eq_mod)

lemma or_mod_page: "(x OR y) mod PGSIZE = 0 \<longleftrightarrow> x mod PGSIZE = 0 \<and> y mod PGSIZE = 0"
  by (simp add: mod_page or_eq_0_iff)

lemma mem_pairs_step:
  assumes "good_region r" "calloc k (snd (snd r)) = Some p" "rest = [] \<or> hd rest = CHR '',''"
  shows "mem_pairs calloc k (region_text r @ rest) =
    (if rest = [] then Inr [mem_at p r] else map_sum id (Cons (mem_at p r)) (mem_pairs calloc (k + 1) (tl rest)))"
proof -
  have "strtoull 0 (region_text r @ rest) = (snd (fst r), CHR '':'' # number_text (snd r) @ rest)"
    using strtoull_number [of "CHR '':'' # number_text (snd r) @ rest" "fst r"] by (simp add: region_text_def)
  moreover have "strtoull 0 (number_text (snd r) @ rest) = (snd (snd r), rest)"
    using assms(3) by (intro strtoull_number) auto
  ultimately show ?thesis
    using assms by (subst mem_pairs.simps) (auto simp: or_mod_page good_region_def new_mem_def mem_at_def)
qed

lemma mem_pairs_regions:
  assumes "rs \<noteq> []" "list_all good_region rs" "length ps = length rs"
    and "\<forall>i < length rs. calloc (k + i) (snd (snd (rs ! i))) = Some (ps ! i)"
  shows "mem_pairs calloc k (regions_text rs) = Inr (map2 mem_at ps rs)"
  using assms
proof (induction rs arbitrary: k ps rule: regions_text.induct)
  case (2 r)
  then show ?case using mem_pairs_step [of r calloc k "hd ps" "[]"] by (cases ps) auto
next
  case (3 r r' rs)
  then obtain p ps' where ps: "ps = p # ps'" "length ps' = length (r' # rs)" by (cases ps) auto
  have "\<forall>i < length (r' # rs). calloc (k + 1 + i) (snd (snd ((r' # rs) ! i))) = Some (ps' ! i)"
  proof (intro allI impI)
    fix i
    assume "i < length (r' # rs)"
    then show "calloc (k + 1 + i) (snd (snd ((r' # rs) ! i))) = Some (ps' ! i)"
      using "3.prems"(4) [rule_format, of "Suc i"] by (simp add: ps)
  qed
  then have "mem_pairs calloc (k + 1) (regions_text (r' # rs)) = Inr (map2 mem_at ps' (r' # rs))"
    using "3.prems"(2) ps(2) by (intro "3.IH") auto
  moreover have "calloc k (snd (snd r)) = Some p" using "3.prems"(4) [rule_format, of 0] by (simp add: ps)
  ultimately show ?case
    using mem_pairs_step [of r calloc k p "'','' @ regions_text (r' # rs)"] "3.prems"(2) by (simp add: ps)
qed simp

text \<open>
  C20. The memory option is read as it is written.  For every list of regions \<open>base:size\<close>, each
  number in hexadecimal or in decimal, with page-aligned bases and non-zero page-aligned sizes,
  \<open>make_mems\<close> allocates the regions in order and returns them with their bases.
\<close>

theorem make_mems_reads_regions:
  assumes "rs \<noteq> []" "list_all good_region rs" "length ps = length rs"
    and "\<forall>i < length rs. calloc (k + i) (snd (snd (rs ! i))) = Some (ps ! i)"
  shows "make_mems calloc k (regions_text rs) = Inr (map2 mem_at ps rs)"
proof -
  obtain r tl where "regions_text rs = number_text (fst r) @ CHR '':'' # tl"
    using assms(1) by (cases rs rule: regions_text.cases) (auto simp: region_text_def)
  then have "strtoull 0 (regions_text rs) = (snd (fst r), CHR '':'' # tl)"
    by (simp add: strtoull_number)
  with mem_pairs_regions [OF assms] show ?thesis by (simp add: make_mems_def)
qed

lemma make_mems_reads_regions_witness:
  "make_mems (\<lambda>k sz. Some (of_nat k * 0x100000)) 1 ''0x80000000:8192,0x90000000:0x1000''
     = Inr [(0x80000000, \<lparr>mem_contents = 0x100000, mem_size = 8192\<rparr>), (0x90000000, \<lparr>mem_contents = 0x200000, mem_size = 0x1000\<rparr>)]"
proof -
  let ?rs = "[((True, 0x80000000), (False, 8192)), ((True, 0x90000000), (True, 0x1000))] :: region list"
  have "regions_text ?rs = ''0x80000000:8192,0x90000000:0x1000''"
    by (simp add: region_text_def number_text_def hex_def dec_def print_nat.simps digit_def)
  moreover have "make_mems (\<lambda>k sz. Some (of_nat k * 0x100000)) 1 (regions_text ?rs)
      = Inr (map2 mem_at [0x100000, 0x200000] ?rs)"
    by (rule make_mems_reads_regions) (auto simp: good_region_def spike_consts less_Suc_eq)
  ultimately show ?thesis by (simp add: mem_at_def)
qed

text \<open>Whatever the argument is, the memories are whole pages.\<close>

definition whole_pages :: "reg_t \<times> mem_t \<Rightarrow> bool" where
  "whole_pages x \<longleftrightarrow> page_aligned (fst x) \<and> page_aligned (mem_size (snd x)) \<and> mem_size (snd x) \<noteq> 0"

lemma page_aligned_mod: "page_aligned a \<longleftrightarrow> a mod PGSIZE = 0"
  by (simp add: page_aligned_def spike_consts word_unat_eq_iff unat_mod)

lemma mem_pairs_pages: "mem_pairs calloc k arg = Inr ms \<Longrightarrow> list_all whole_pages ms \<and> ms \<noteq> []"
proof (induction calloc k arg arbitrary: ms rule: mem_pairs.induct)
  case (1 calloc k arg)
  obtain base p sz q where sp: "strtoull 0 arg = (base, p)" "strtoull 0 (tl p) = (sz, q)" by fastforce
  with "1.prems" obtain m where m: "p \<noteq> []" "hd p = CHR '':''" "(sz OR base) mod PGSIZE = 0" "new_mem calloc k sz = Inr m"
    by (subst (asm) mem_pairs.simps) (auto split: if_splits sum.splits)
  have "page_aligned sz" "page_aligned base" using m(3) by (simp_all only: page_aligned_mod or_mod_page)
  moreover have "mem_size m = sz" "sz \<noteq> 0" using m(4) by (auto simp: new_mem_def split: if_splits option.splits)
  ultimately have w: "whole_pages (base, m)" by (simp add: whole_pages_def)
  show ?case
  proof (cases "q = []")
    case True
    with "1.prems" sp m w show ?thesis by (subst (asm) mem_pairs.simps) auto
  next
    case False
    with "1.prems" sp m have c: "hd q = CHR '',''"
      and r: "map_sum id (Cons (base, m)) (mem_pairs calloc (k + 1) (tl q)) = Inr ms"
      by (subst (asm) mem_pairs.simps; auto split: if_splits)+
    then obtain ms' where "mem_pairs calloc (k + 1) (tl q) = Inr ms'" "ms = (base, m) # ms'"
      by (cases "mem_pairs calloc (k + 1) (tl q)") auto
    moreover have "list_all whole_pages ms' \<and> ms' \<noteq> []"
      using "1.IH" [OF sp(1) [symmetric] _ sp(2) [symmetric] _ m(4) False] m c calculation(1) by simp
    ultimately show ?thesis using w by simp
  qed
qed

lemma make_mems_pages: "make_mems calloc k arg = Inr ms \<Longrightarrow> list_all whole_pages ms \<and> ms \<noteq> []"
proof -
  assume a: "make_mems calloc k arg = Inr ms"
  obtain mb p where s: "strtoull 0 arg = (mb, p)" by fastforce
  show ?thesis
  proof (cases "p = []")
    case True
    then obtain m where m: "new_mem calloc k (shl mb 20) = Inr m" "ms = [(DRAM_BASE, m)]"
      using a s by (cases "new_mem calloc k (shl mb 20)") (auto simp: make_mems_def)
    moreover have "page_aligned (shl mb 20)" by (simp add: page_aligned_mod mod_page take_bit_push_bit)
    moreover have "mem_size m = shl mb 20" "shl mb 20 \<noteq> 0"
      using m(1) by (auto simp: new_mem_def split: if_splits option.splits)
    ultimately show ?thesis by (simp add: whole_pages_def page_aligned_def spike_consts)
  next
    case False
    with a s show ?thesis using mem_pairs_pages by (simp add: make_mems_def)
  qed
qed

section \<open>Tracked instructions\<close>

fun commas :: "string list \<Rightarrow> string" where
  "commas [] = []"
| "commas [t] = t"
| "commas (t # ts) = t @ '','' @ commas ts"

text \<open>The last instruction of a list, and a single one, is not tracked.\<close>

lemma tracked_tokens_drop_last:
  assumes "\<forall>t \<in> set ts. CHR '','' \<notin> set t"
  shows "tracked_tokens (commas ts) = butlast ts"
  using assms
proof (induction ts rule: commas.induct)
  case (3 t t' ts)
  let ?p = "\<lambda>c. c \<noteq> CHR '',''"
  have "takeWhile ?p (commas (t # t' # ts)) = t \<and> tl (dropWhile ?p (commas (t # t' # ts))) = commas (t' # ts)"
    using "3.prems" by (auto simp: takeWhile_append dropWhile_append)
  with 3 show ?case by (subst tracked_tokens.simps) simp
qed (simp_all add: tracked_tokens.simps)

section \<open>The started simulator\<close>

text \<open>What the options keep of the variables.\<close>

definition vars_ok :: "spike_vars \<Rightarrow> bool" where
  "vars_ok v \<longleftrightarrow> o_progsize v \<le> 16 \<and> unat (o_nprocs v) < 2 ^ 32 \<and> list_all whole_pages (o_mems v)"

definition sane_option :: "spike_option \<Rightarrow> bool" where
  "sane_option x = (case x of
     O_p s \<Rightarrow> unat (of_int (atoi s) :: reg_t) < 2 ^ 32
   | O_progsize s \<Rightarrow> (of_int (atoi s) :: u32) \<le> 16
   | _ \<Rightarrow> True)"

lemma set_mems_ok: "set_mems pf s v = Inr v' \<Longrightarrow> vars_ok v \<Longrightarrow> vars_ok v' \<and> o_mems v' \<noteq> []"
  by (cases "make_mems (pf_calloc pf) (o_allocs v) s") (auto simp: set_mems_def vars_ok_def dest: make_mems_pages)

lemma apply_option_ok: "apply_option pf x v = Inr v' \<Longrightarrow> sane_option x \<Longrightarrow> vars_ok v \<Longrightarrow> vars_ok v'"
  using set_mems_ok
  by (cases x) (auto simp: vars_ok_def sane_option_def config_cache_def split: option.splits if_splits)

lemma apply_options_ok: "apply_options pf xs v = Inr v' \<Longrightarrow> list_all sane_option xs \<Longrightarrow> vars_ok v \<Longrightarrow> vars_ok v'"
  by (induction xs arbitrary: v) (auto split: sum.splits dest: apply_option_ok)

lemma default_vars_ok: "vars_ok (default_vars isa)"
  by (simp add: vars_ok_def default_vars_def)

text \<open>A device of the bus is at a page boundary or in page 0.\<close>

fun device_aligned :: "reg_t \<times> device \<Rightarrow> bool" where
  "device_aligned (base, Dev_mem m) \<longleftrightarrow> whole_pages (base, m)"
| "device_aligned (base, d) \<longleftrightarrow> page_aligned base \<or> base < 4096"

lemma build_bus_aligned:
  assumes "list_all whole_pages mems"
  shows "list_all device_aligned (build_bus mems)" "sorted_keys (build_bus mems)"
proof -
  have "list_all device_aligned (fold (\<lambda>(b, m). add_device b (Dev_mem m)) mems ds) \<and>
      sorted_keys (fold (\<lambda>(b, m). add_device b (Dev_mem m)) mems ds)"
    if "list_all device_aligned ds" "sorted_keys ds" for ds
    using assms that by (induction mems arbitrary: ds) (auto simp: list_all_add_device sorted_add)
  from this [of "[]"] have b: "list_all device_aligned (fold (\<lambda>(b, m). add_device b (Dev_mem m)) mems [])"
    "sorted_keys (fold (\<lambda>(b, m). add_device b (Dev_mem m)) mems [])" by (simp_all add: sorted_keys_def)
  show "list_all device_aligned (build_bus mems)"
    unfolding build_bus_def using b(1)
    by (intro list_all_add_device) (simp_all add: page_aligned_def spike_consts)
  show "sorted_keys (build_bus mems)" unfolding build_bus_def using b(2) by (intro sorted_add)
qed

lemma aligned_bus_placed:
  assumes "list_all device_aligned bus" "sorted_keys bus" "\<forall>m. (0, Dev_mem m) \<notin> set bus"
  shows "bus_placed bus"
proof -
  have "device_placed (b, d)" if "(b, d) \<in> set bus" for b d
  proof (cases d)
    case (Dev_mem m)
    then have "b \<noteq> 0" "page_aligned b" "page_aligned (mem_size m)"
      using that assms(1,3) by (auto simp: list_all_iff whole_pages_def)
    moreover have "4096 \<le> b"
    proof (rule ccontr)
      assume "\<not> 4096 \<le> b"
      then have "unat b < 4096" by (simp add: not_le word_less_nat_alt)
      with \<open>page_aligned b\<close> \<open>b \<noteq> 0\<close> show False by (simp add: page_aligned_def unat_eq_0)
    qed
    ultimately show ?thesis by (simp add: Dev_mem)
  qed (use that assms(1) in \<open>auto simp: list_all_iff\<close>)
  with assms(2) show ?thesis by (auto simp: bus_placed_def list_all_iff)
qed

text \<open>
  The settings after construction only dress a processor: they may add an extension, whose interrupt
  may then be delegated.
\<close>

definition dressed :: "processor_t \<Rightarrow> processor_t \<Rightarrow> bool" where
  "dressed p q \<longleftrightarrow> (\<exists>d e t. q = p\<lparr>p_decoder := d, p_ext := e, p_track_insn := t\<rparr> \<and> (p_ext p \<longrightarrow> e))"

lemma dressedI: "q = p\<lparr>p_decoder := d, p_ext := e, p_track_insn := t\<rparr> \<Longrightarrow> (p_ext p \<Longrightarrow> e) \<Longrightarrow> dressed p q"
  unfolding dressed_def by blast

lemma dressed_refl: "dressed p p"
  by (rule dressedI [where d = "p_decoder p" and e = "p_ext p" and t = "p_track_insn p"]) simp_all

lemma dressed_extension: "register_extension x p = Some q \<Longrightarrow> dressed p q"
  by (rule dressedI [where d = "p_decoder q" and e = "p_ext q" and t = "p_track_insn q"])
    (auto simp: register_extension_def Let_def split: if_splits)

lemma dressed_track: "dressed p (p\<lparr>p_track_insn := b\<rparr>)"
  by (rule dressedI [where d = "p_decoder p" and e = "p_ext p" and t = b]) simp_all

lemma within_mono: "a AND NOT (m :: reg_t) = 0 \<Longrightarrow> m AND NOT n = 0 \<Longrightarrow> a AND NOT n = 0"
  by (auto simp: bit_eq_iff bit_simps)

lemma dressed_ok:
  assumes "dressed p q" "hart_ok p \<and> config_ok p"
  shows "hart_ok q \<and> config_ok q \<and> p_id q = p_id p"
proof -
  obtain d e t where q: "q = p\<lparr>p_decoder := d, p_ext := e, p_track_insn := t\<rparr>" "p_ext p \<longrightarrow> e"
    using assms(1) unfolding dressed_def by blast
  have "delegable_ints p AND NOT (delegable_ints q) = 0" "all_ints p AND NOT (all_ints q) = 0"
    using q by (auto simp: all_ints_def delegable_ints_def bit_eq_iff bit_simps)
  then have "interrupts_ok q"
    using assms(2) within_mono unfolding hart_ok_def interrupts_ok_def Let_def q(1) by auto
  moreover have "status_ok q" "isa_ok q" "regs_ok q" "config_ok q" "p_id q = p_id p"
    using assms(2) unfolding hart_ok_def status_ok_def isa_ok_def regs_ok_def config_ok_def Let_def q(1) by simp_all
  ultimately show ?thesis by (simp add: hart_ok_def)
qed

lemma extend_cores_dressed: "extend_cores x ps = Some qs \<Longrightarrow> list_all2 dressed ps qs"
  by (induction ps arbitrary: qs) (auto split: option.splits dest: dressed_extension)

lemma setup_cores_dressed:
  assumes "setup_cores v m = Inr m'"
  shows "\<exists>qs. list_all2 dressed (s_procs (sys (m_sys m))) qs \<and>
    m' = m\<lparr>m_sys := (m_sys m)\<lparr>sys := (sys (m_sys m))\<lparr>s_procs := qs\<rparr>\<rparr>\<rparr>"
proof (cases "o_extension v")
  case None
  with assms have "m' = m" by (simp add: setup_cores_def)
  then show ?thesis
    by (intro exI [of _ "s_procs (sys (m_sys m))"]) (simp add: list_all2_refl dressed_refl)
next
  case (Some x)
  let ?ps = "s_procs (sys (m_sys m))" and ?n = "unat (o_nprocs v)"
  obtain qs where q: "extend_cores x (take ?n ?ps) = Some qs"
    "m' = m\<lparr>m_sys := (m_sys m)\<lparr>sys := (sys (m_sys m))\<lparr>s_procs := qs @ drop ?n ?ps\<rparr>\<rparr>\<rparr>"
    using assms Some by (auto simp: setup_cores_def Let_def split: option.splits)
  have "list_all2 dressed (take ?n ?ps @ drop ?n ?ps) (qs @ drop ?n ?ps)"
    using extend_cores_dressed [OF q(1)] by (intro list_all2_appendI) (simp_all add: list_all2_refl dressed_refl)
  then have "list_all2 dressed ?ps (qs @ drop ?n ?ps)" by simp
  with q(2) show ?thesis by blast
qed

lemma set_options_dressed:
  "\<exists>qs. list_all2 dressed (s_procs (sys (m_sys m))) qs \<and> m_sys (set_options v m) = (m_sys m)\<lparr>sys := (sys (m_sys m))\<lparr>s_procs := qs\<rparr>\<rparr> \<and>
    m_nprocs (set_options v m) = m_nprocs m \<and> m_current_proc (set_options v m) = m_current_proc m"
proof -
  let ?ps = "s_procs (sys (m_sys m))" and ?f = "\<lambda>p. p\<lparr>p_track_insn := o_track_insn v\<rparr>"
  have "list_all2 dressed ?ps (map ?f ?ps)"
    by (simp add: list.rel_map list_all2_refl dressed_track dressed_refl)
  then show ?thesis
    by (intro exI [of _ "map ?f ?ps"])
      (simp add: set_options_def set_histogram_def set_log_def set_procs_track_insn_def upd_procs_def set_debug_def)
qed

lemma list_all2_dressed_ok:
  assumes "list_all2 dressed ps qs" "list_all (\<lambda>p. hart_ok p \<and> config_ok p) ps"
  shows "list_all (\<lambda>p. hart_ok p \<and> config_ok p) qs \<and> map p_id qs = map p_id ps"
  using assms by (induction rule: list_all2_induct) (auto dest: dressed_ok)

lemma sim_good_same_ids:
  assumes "sim_good t" "map p_id qs = map p_id (s_procs t)"
  shows "sim_good (t\<lparr>s_procs := qs\<rparr>)"
proof -
  have l: "length qs = length (s_procs t)" using assms(2) by (metis length_map)
  have "list_all (\<lambda>i. unat i < 1024) (map p_id (s_procs t))" using assms(1) by (simp add: sim_good_def list.pred_map comp_def)
  then have "list_all (\<lambda>p. unat (p_id p) < 1024) qs"
    unfolding assms(2) [symmetric] by (simp add: list.pred_map comp_def)
  with l assms(1) show ?thesis by (simp add: sim_good_def)
qed

text \<open>What holds of a machine: the invariants of all components.\<close>

definition machine_ok :: "host \<Rightarrow> sim_main \<Rightarrow> bool" where
  "machine_ok h m \<longleftrightarrow>
     (let t = sys (m_sys m) in
      list_all (\<lambda>p. hart_ok p \<and> config_ok p) (s_procs t) \<and> length (s_procs t) = m_nprocs m \<and>
      0 < m_nprocs m \<and> m_current_proc m < m_nprocs m \<and> sim_good t \<and>
      dm_reach sim_good harmless (sim_dm_if h) (m_sys m))"

lemma machine_ok_dressed:
  assumes "machine_ok h m" "list_all2 dressed (s_procs (sys (m_sys m))) qs"
    and "m_sys m' = (m_sys m)\<lparr>sys := (sys (m_sys m))\<lparr>s_procs := qs\<rparr>\<rparr>"
    and "m_nprocs m' = m_nprocs m" "m_current_proc m' = m_current_proc m"
  shows "machine_ok h m'"
proof -
  let ?t = "sys (m_sys m)"
  have d: "list_all (\<lambda>p. hart_ok p \<and> config_ok p) qs" "map p_id qs = map p_id (s_procs ?t)"
    using list_all2_dressed_ok [OF assms(2)] assms(1) by (simp_all add: machine_ok_def Let_def)
  have good: "sim_good (?t\<lparr>s_procs := qs\<rparr>)"
    using sim_good_same_ids [OF _ d(2)] assms(1) by (simp add: machine_ok_def Let_def)
  have "dm_reach sim_good harmless (sim_dm_if h) (m_sys m')"
    unfolding assms(3) using assms(1) by (intro dm_reach.host good) (simp add: machine_ok_def Let_def)
  moreover have "length qs = length (s_procs ?t)" using d(2) by (metis length_map)
  ultimately show ?thesis using assms(1,3-5) d good by (simp add: machine_ok_def Let_def)
qed


definition sample_platform :: platform where
  "sample_platform = \<lparr>pf_default_isa = ''rv32imac'', pf_calloc = (\<lambda>k sz. Some 0x7f0000000000),
     pf_dlopen = (\<lambda>s. False), pf_find_extension = (\<lambda>s. None)\<rparr>"

lemma sample_mems:
  "make_mems (pf_calloc sample_platform) 0 ''0x80000000:0x10000'' = Inr (opt_mems sample_options)"
proof -
  let ?r = "((True, 0x80000000), (True, 0x10000)) :: region"
  have t: "''0x80000000:0x10000'' = regions_text [?r]"
    by (simp add: region_text_def number_text_def hex_def print_nat.simps digit_def)
  have "mem_pairs (pf_calloc sample_platform) 0 (regions_text [?r]) = Inr (map2 mem_at [0x7f0000000000] [?r])"
    by (rule mem_pairs_regions) (simp_all add: good_region_def spike_consts sample_platform_def)
  moreover have "strtoull 0 (regions_text [?r]) = (0x80000000, '':0x10000'')"
    using strtoull_number [of "'':0x10000''" "(True, 0x80000000)"]
    by (simp add: region_text_def number_text_def hex_def print_nat.simps digit_def)
  ultimately show ?thesis unfolding t by (simp add: make_mems_def mem_at_def sample_options_def)
qed


end
