(* ===== verification/InteractiveLaws.thy ===== *)
theory InteractiveLaws
  imports Interactive SpikeLaws
begin

text \<open>
  The interactive prompt: a printed value is read back, \<open>until\<close> and \<open>while\<close> return exactly at the
  first state they ask for, and looking at the state does not change it.
\<close>

section \<open>Printed values\<close>

lemma value_of_zeros: "value_of b (replicate k CHR ''0'' @ ds) = value_of b ds"
proof -
  have "foldl (\<lambda>n c. n * b + the (digit_of c)) 0 (replicate k CHR ''0'') = 0"
    by (induction k) (simp_all add: digit_of_def)
  then show ?thesis by (simp add: value_of_def)
qed

lemma scan_show64: "scan_number 16 (show64 v) = (Some (False, unat v), [])"
proof -
  let ?ds = "hex_padded 16 (unat v)"
  have ds: "\<forall>c \<in> set ?ds. in_base 16 c" "?ds \<noteq> []"
    using print_nat_in_base [of 16 "unat v"]
    by (auto simp: hex_padded_def hex_def in_base_def digit_of_def print_nat_not_Nil)
  then have "select_base 16 (show64 v) = (16, ?ds)"
    by (cases ?ds) (auto simp: select_base_def hex_prefix_def show64_def)
  moreover have "value_of 16 ?ds = unat v"
    by (simp add: hex_padded_def value_of_zeros hex_def value_of_print_nat)
  moreover have "dropWhile is_space (show64 v) = show64 v" "hd (show64 v) = CHR ''0''"
    by (simp_all add: show64_def is_space_def)
  ultimately show ?thesis
    unfolding scan_number_def Let_def using ds by (simp add: takeWhile_eq_all_conv [THEN iffD2])
qed

lemma parse_show64: "parse_value (show64 v) = v"
proof -
  have lt: "unat v < 2 ^ 64" using unsigned_less [of v] by simp
  have "v = LONG_MAX" if "unat v = 2 ^ 63 - 1" using that by (simp add: LONG_MAX_def word_unat_eq_iff)
  then show ?thesis
    using lt by (auto simp: parse_value_def strtol_def strtoull_def scan_show64 not_le)
qed

section \<open>until and while\<close>

definition traps_only :: "'a result \<Rightarrow> bool" where
  "traps_only r \<longleftrightarrow> (\<forall>e. r = Inl e \<longrightarrow> (\<exists>t. e = Throw_trap t))"

lemma traps_only_intros:
  "traps_only (Inr v)" "traps_only illegal" "traps_only (read_fp x p)" "traps_only (Inl trap_interactive)"
  "traps_only a \<Longrightarrow> traps_only b \<Longrightarrow> traps_only (if c then a else b)"
  by (auto simp: traps_only_def illegal_def read_fp_def trap_interactive_def)

lemma get_csr_traps: "traps_only (get_csr which p)"
  unfolding get_csr_def Let_def by (intro traps_only_intros)

lemma get_core_traps: "traps_only (get_core m i)"
  by (auto simp: get_core_def traps_only_def trap_interactive_def split: prod.splits)

lemma read_reg_traps: "traps_only (read_reg p name)"
  by (auto simp: read_reg_def Let_def intro!: traps_only_intros get_csr_traps split: prod.splits option.splits)

lemma get_reg_traps: "traps_only (get_reg args m)"
  using get_core_traps [of m "args ! 0"] read_reg_traps
  by (auto simp: get_reg_def traps_only_def trap_interactive_def split: sum.splits)

lemma get_pc_traps: "traps_only (get_pc args m)"
  using get_core_traps [of m "args ! 0"]
  by (auto simp: get_pc_def traps_only_def trap_interactive_def split: sum.splits)

text \<open>Single steps without a log, and the condition on which the loop ends.\<close>

fun quiet_steps :: "console \<Rightarrow> nat \<Rightarrow> prompt \<Rightarrow> prompt option" where
  "quiet_steps C 0 s = Some s"
| "quiet_steps C (Suc n) s = (case step_sim C 1 (all_debug False s) of
     Some (Inr _, s) \<Rightarrow> quiet_steps C n s | _ \<Rightarrow> None)"

definition stops_at :: "bool \<Rightarrow> reg_t \<Rightarrow> (sim_main \<Rightarrow> reg_t result) \<Rightarrow> prompt \<Rightarrow> bool" where
  "stops_at cmd_until val get s \<longleftrightarrow>
     (case get (pr_sim s) of Inl _ \<Rightarrow> False | Inr v \<Rightarrow> (cmd_until \<longleftrightarrow> v = val) \<or> pr_ctrlc s)"

lemma until_check_pure:
  assumes "\<And>m. traps_only (get m)"
  shows "until_check u val (\<lambda>m. (get m, m)) s = (if stops_at u val get s then Stop else Go, s)"
  using assms by (fastforce simp: until_check_def stops_at_def traps_only_def split: sum.splits exn.splits)

lemma until_loop_returns:
  assumes "\<And>m. traps_only (get m)"
  shows "quiet_steps C n s = Some s' \<Longrightarrow> stops_at u val get s' \<Longrightarrow>
    (\<forall>k < n. \<forall>t. quiet_steps C k s = Some t \<longrightarrow> \<not> stops_at u val get t) \<Longrightarrow>
    until_loop C u val (\<lambda>m. (get m, m)) s = Some (Inr (), s')"
proof (induction n arbitrary: s)
  case 0
  then show ?case by (subst until_loop.simps) (simp add: until_check_pure [OF assms])
next
  case (Suc n)
  then obtain t where t: "step_sim C 1 (all_debug False s) = Some (Inr (), t)" "quiet_steps C n t = Some s'"
    by (auto split: option.splits prod.splits sum.splits)
  have "\<not> stops_at u val get s" using Suc.prems(3) [rule_format, of 0] by simp
  moreover have "\<not> stops_at u val get t'" if "k < n" "quiet_steps C k t = Some t'" for k t'
    using Suc.prems(3) [rule_format, of "Suc k" t'] that t(1) by simp
  then have "until_loop C u val (\<lambda>m. (get m, m)) t = Some (Inr (), s')"
    using Suc.IH [OF t(2) Suc.prems(2)] by blast
  ultimately show ?case using t(1) by (subst until_loop.simps) (simp add: until_check_pure [OF assms])
qed

lemma not_Inl_unit: "\<forall>x. (a :: 'a + unit) \<noteq> Inl x \<Longrightarrow> a = Inr ()"
  by (cases a) auto

lemma until_loop_first:
  assumes loop: "until_loop C u val (\<lambda>m. (get m, m)) s = Some (Inr (), s')"
    and get: "\<And>m. traps_only (get m)"
  shows "\<exists>n. quiet_steps C n s = Some s' \<and> stops_at u val get s' \<and>
    (\<forall>k < n. \<exists>t. quiet_steps C k s = Some t \<and> \<not> stops_at u val get t)"
proof -
  let ?first = "\<lambda>C u val s. \<exists>n. quiet_steps C n s = Some s' \<and> stops_at u val get s' \<and>
    (\<forall>k < n. \<exists>t. quiet_steps C k s = Some t \<and> \<not> stops_at u val get t)"
  let ?P = "\<lambda>C u val get' s r. get' = (\<lambda>m. (get m, m)) \<longrightarrow> r = (Inr () :: halt + unit, s') \<longrightarrow> ?first C u val s"
  have "?P C u val (\<lambda>m. (get m, m)) s (Inr (), s')"
  proof (rule until_loop.raw_induct [where P = ?P])
    show "until_loop C u val (\<lambda>m. (get m, m)) s = Some (Inr (), s')" by (rule loop)
    fix loop C u val get' s r
    assume IH: "\<And>u val get' s b y. loop u val get' s b = Some y \<Longrightarrow> ?P u val get' s b y"
      and body: "(case until_check u val get' s of (v, s) \<Rightarrow> (case v of
          Stop \<Rightarrow> Some (Inr (), s) | Fail e \<Rightarrow> fail e s
        | Go \<Rightarrow> Option.bind (step_sim C 1 (all_debug False s))
           (\<lambda>(r, s). case r of Inl e \<Rightarrow> Some (Inl e, s) | Inr x \<Rightarrow> loop C u val get' s))) = Some r"
    have "?first C u val s" if r: "get' = (\<lambda>m. (get m, m))" "r = (Inr (), s')"
    proof (cases "stops_at u val get s")
      case True
      with body r have "s' = s" by (simp add: until_check_pure [OF get])
      with True show ?thesis by (intro exI [of _ 0]) simp
    next
      case False
      with body r obtain t where t: "step_sim C 1 (all_debug False s) = Some (Inr (), t)" "loop C u val get' t = Some r"
        by (auto simp: until_check_pure [OF get] bind_eq_Some_conv split: sum.splits dest!: not_Inl_unit)
      from IH [OF t(2)] r obtain n where n: "quiet_steps C n t = Some s'" "stops_at u val get s'"
        "\<forall>k < n. \<exists>t'. quiet_steps C k t = Some t' \<and> \<not> stops_at u val get t'" by blast
      have "\<exists>t'. quiet_steps C k s = Some t' \<and> \<not> stops_at u val get t'" if "k < Suc n" for k
        using that False n(3) t(1) by (cases k) auto
      with n t(1) show ?thesis by (intro exI [of _ "Suc n"]) auto
    qed
    then show "?P C u val get' s r" by blast
  qed
  then show ?thesis by simp
qed

lemma until_loop_iff:
  assumes "\<And>m. traps_only (get m)"
  shows "until_loop C u val (\<lambda>m. (get m, m)) s = Some (Inr (), s') \<longleftrightarrow>
    (\<exists>n. quiet_steps C n s = Some s' \<and> stops_at u val get s' \<and>
      (\<forall>k < n. \<exists>t. quiet_steps C k s = Some t \<and> \<not> stops_at u val get t))" (is "?l = ?r")
proof
  show "?l \<Longrightarrow> ?r" using until_loop_first assms by blast
  assume ?r
  then obtain n where n: "quiet_steps C n s = Some s'" "stops_at u val get s'"
    "\<forall>k < n. \<forall>t. quiet_steps C k s = Some t \<longrightarrow> \<not> stops_at u val get t" by fastforce
  show ?l by (rule until_loop_returns [OF assms n])
qed

text \<open>
  C38. \<open>until reg\<close> and \<open>while reg\<close> return at the first state they ask for.  Given a value as the prompt
  prints it, the command returns in a state \<open>s'\<close> if and only if \<open>s'\<close> is reached by single steps
  without a log, the register can be read there and equals the value (\<open>until\<close>) or differs from it
  (\<open>while\<close>), or the user has interrupted, and none of the states before it is such a state.
\<close>

theorem until_reg_returns_at_first:
  "interactive_until C cmd [''reg'', core, name, show64 v] s = Some (Inr (), s') \<longleftrightarrow>
    (\<exists>n. quiet_steps C n (s\<lparr>pr_ctrlc := False\<rparr>) = Some s' \<and>
      stops_at (cmd = ''until'') v (get_reg [core, name]) s' \<and>
      (\<forall>k < n. \<exists>t. quiet_steps C k (s\<lparr>pr_ctrlc := False\<rparr>) = Some t \<and>
        \<not> stops_at (cmd = ''until'') v (get_reg [core, name]) t))"
  using until_loop_iff [of "get_reg [core, name]", OF get_reg_traps]
  by (simp add: interactive_until_def getter_of_def parse_show64)

definition sample_console :: console where
  "sample_console = \<lparr>con_host = sample_host, con_fuel = 0, con_done = (\<lambda>m. False), con_signal = (\<lambda>k. False),
     con_show_f32 = (\<lambda>v. []), con_show_f64 = (\<lambda>v. [])\<rparr>"

definition sample_prompt :: prompt where
  "sample_prompt = \<lparr>pr_sim = sample_main, pr_ctrlc = False, pr_turns = 0, pr_input = [], pr_output = []\<rparr>"

lemma sample_core: "get_core sample_main ''0'' = Inr 0"
  by (simp add: get_core_def strtoull_def scan_number_def is_space_def select_base_def in_base_def digit_of_def
      value_of_def procs_of_def sample_main_def)

lemma until_reg_returns_at_first_witness:
  "interactive_until sample_console ''until'' [''reg'', ''0'', ''a0'', show64 0] sample_prompt = Some (Inr (), sample_prompt)"
proof -
  have h: "procs_of sample_main ! 0 = sample_hart" by (simp add: procs_of_def sample_main_def)
  have "index_of ''a0'' xpr_names = 10" by (simp add: index_of_def xpr_names_def)
  moreover have "XPR (p_state sample_hart) ! 10 = 0" by (simp add: sample_hart_def state_reset_def)
  ultimately have "get_reg [''0'', ''a0''] sample_main = Inr 0"
    by (simp add: get_reg_def sample_core h read_reg_def NXPR_def)
  then have "stops_at True 0 (get_reg [''0'', ''a0'']) sample_prompt"
    by (simp add: stops_at_def sample_prompt_def)
  then show ?thesis
    by (subst until_reg_returns_at_first) (intro exI [of _ 0], simp add: sample_prompt_def)
qed

text \<open>
  C39. With a register that does not exist, \<open>until\<close> and \<open>while\<close> never return: the exception is
  swallowed before the interrupt flag is looked at, so whatever the machine does and whether or not
  the user interrupts, the command does not end normally.
\<close>

theorem unknown_register_never_returns:
  assumes "name \<notin> set xpr_names" "snd (strtoull 10 name) \<noteq> []"
    and "name \<notin> fst ` set (declared_csrs_1 @ declared_csrs_2)"
  shows "interactive_until C cmd [''reg'', core, name, val] s \<noteq> Some (Inr (), s')"
proof
  assume "interactive_until C cmd [''reg'', core, name, val] s = Some (Inr (), s')"
  then have "until_loop C (cmd = ''until'') (parse_value val) (\<lambda>m. (get_reg [core, name] m, m)) (s\<lparr>pr_ctrlc := False\<rparr>) = Some (Inr (), s')"
    by (simp add: interactive_until_def getter_of_def)
  from until_loop_first [OF this get_reg_traps]
  obtain v where "get_reg [core, name] (pr_sim s') = Inr v" by (auto simp: stops_at_def split: sum.splits)
  then obtain p where r: "read_reg p name = Inr v" by (auto simp: get_reg_def split: sum.splits)
  have "takeWhile (\<lambda>y. y \<noteq> name) xpr_names = xpr_names" using assms(1) by (auto simp: takeWhile_eq_all_conv)
  then have "index_of name xpr_names = NXPR" by (simp add: index_of_def NXPR_def xpr_names_def)
  moreover have "map_of (declared_csrs_1 @ declared_csrs_2) name = None" using assms(3) by (simp only: map_of_eq_None_iff not_False_eq_True)
  ultimately show False using r assms(2) by (auto simp: read_reg_def trap_interactive_def Let_def simp del: map_of_append split: prod.splits)
qed

lemma unknown_register_never_returns_witness:
  "interactive_until sample_console ''until'' [''reg'', ''0'', ''x10'', ''0''] sample_prompt \<noteq> Some (Inr (), sample_prompt)"
proof (rule unknown_register_never_returns)
  show "''x10'' \<notin> set xpr_names" by (simp add: xpr_names_def)
  show "snd (strtoull 10 ''x10'') \<noteq> []"
    by (simp add: strtoull_def scan_number_def is_space_def select_base_def in_base_def digit_of_def)
  have "list_all (\<lambda>n. n \<noteq> ''x10'') (map fst (declared_csrs_1 @ declared_csrs_2))"
    by (simp add: declared_csrs_1_def declared_csrs_2_def)
  then show "''x10'' \<notin> fst ` set (declared_csrs_1 @ declared_csrs_2)"
    unfolding list_all_iff set_map by blast
qed

text \<open>\<open>mem\<close> never makes a misaligned load.\<close>

lemma load_width_aligned: "\<not> misaligned addr (load_width addr)"
proof -
  have m: "addr AND (of_nat (2 ^ k) - 1) = take_bit k addr" for k
    by (simp add: take_bit_eq_mask mask_eq_exp_minus_1)
  have u: "unat (addr mod 8) = unat addr mod 8" by (simp add: unat_mod)
  have "unat addr mod 8 \<in> {0, 4} \<Longrightarrow> take_bit 2 addr = 0" "unat addr mod 8 = 0 \<Longrightarrow> take_bit 3 addr = 0"
    "unat addr mod 8 \<in> {0, 2, 4, 6} \<Longrightarrow> take_bit 1 addr = 0"
    by (simp_all only: word_unat_eq_iff unsigned_take_bit_eq) (auto simp: take_bit_eq_mod, presburger+)
  then show ?thesis using m [of 3] m [of 2] m [of 1] m [of 0] u by (auto simp: misaligned_def load_width_def Let_def)
qed

section \<open>Looking at the state\<close>

definition changing_commands :: "string set" where
  "changing_commands = {''run'', ''r'', ''rs'', ''mem'', ''str'', ''until'', ''while'', ''quit'', ''q''}"

lemma get_freg_abort: "get_freg args m = Inl e \<Longrightarrow> (\<exists>t. e = Throw_trap t) \<or> e = Abort \<and> atoi (args ! 1) < 0"
  using get_core_traps [of m "args ! 0"]
  by (auto simp: get_freg_def traps_only_def trap_interactive_def Let_def split: if_splits sum.splits)

text \<open>A result that only adds output, up to the exceptions that a command may throw.\<close>

definition only_prints :: "prompt \<Rightarrow> (exn \<Rightarrow> bool) \<Rightarrow> step_result \<Rightarrow> bool" where
  "only_prints s thrown x \<longleftrightarrow> (\<exists>r out. x = Some (r, say out s) \<and> (r = Inr () \<or> (\<exists>e. r = Inl (Escaped e) \<and> thrown e)))"

lemma only_prints_done: "only_prints s P (done_with out s)"
  by (auto simp: only_prints_def done_with_def)

lemma only_prints_fail: "P e \<Longrightarrow> only_prints s P (fail e s)"
  unfolding only_prints_def fail_def by (rule exI [of _ "Inl (Escaped e)"], rule exI [of _ "[]"]) (simp add: say_def)

lemma swallow_only_prints:
  assumes "only_prints s (\<lambda>e. (\<exists>t. e = Throw_trap t) \<or> P e) x"
  shows "only_prints s P (swallow_trap x)"
  using assms by (auto simp: only_prints_def swallow_trap_def split: exn.splits)

lemma inspection_prints:
  assumes "cmd \<notin> changing_commands"
  shows "only_prints s (\<lambda>e. (\<exists>t. e = Throw_trap t) \<or> e = Abort \<and> cmd \<in> {''freg'', ''fregs'', ''fregd''} \<and> atoi (args ! 1) < 0)
    (run_command C cmd args s)" (is "only_prints s ?P _")
proof -
  have freg: "only_prints s ?P (case get_freg args (pr_sim s) of Inl e \<Rightarrow> fail e s | Inr v \<Rightarrow> done_with (f v) s)"
    if "cmd \<in> {''freg'', ''fregs'', ''fregd''}" for f
    using that get_freg_abort [of args "pr_sim s"] by (auto intro!: only_prints_done only_prints_fail split: sum.splits)
  have traps: "only_prints s ?P (case r of Inl e \<Rightarrow> fail e s | Inr v \<Rightarrow> done_with (f v) s)" if "traps_only r" for r :: "'z result" and f
    using that by (auto simp: traps_only_def intro!: only_prints_done only_prints_fail split: sum.splits)
  consider "cmd = ''reg''" | "cmd = ''freg''" | "cmd = ''fregs''" | "cmd = ''fregd''" | "cmd = ''pc''"
    | "cmd \<in> {''help'', ''h''}" | "cmd \<notin> {''reg'', ''freg'', ''fregs'', ''fregd'', ''pc'', ''help'', ''h''}" by auto
  then show ?thesis
  proof cases
    case 1
    then have "run_command C cmd args s = interactive_reg args s" by (simp add: run_command_def)
    then show ?thesis using traps [OF get_core_traps] traps [OF get_reg_traps] by (simp add: interactive_reg_def)
  next
    case 2
    then have "run_command C cmd args s = interactive_freg args s" by (simp add: run_command_def)
    with freg 2 show ?thesis by (simp add: interactive_freg_def)
  next
    case 3
    then have "run_command C cmd args s = interactive_fregs C args s" by (simp add: run_command_def)
    with freg 3 show ?thesis by (simp add: interactive_fregs_def)
  next
    case 4
    then have "run_command C cmd args s = interactive_fregd C args s" by (simp add: run_command_def)
    with freg 4 show ?thesis by (simp add: interactive_fregd_def)
  next
    case 5
    then have "run_command C cmd args s = interactive_pc args s" by (simp add: run_command_def)
    then show ?thesis using traps [OF get_pc_traps] by (simp add: interactive_pc_def)
  next
    case 6
    then have "run_command C cmd args s = interactive_help s" by (elim insertE emptyE) (simp_all add: run_command_def)
    then show ?thesis by (simp add: interactive_help_def only_prints_done)
  next
    case 7
    with assms have "run_command C cmd args s = done_with (''Unknown command '' @ cmd @ newline) s"
      by (simp only: run_command_def changing_commands_def insert_iff empty_iff de_Morgan_disj if_False simp_thms)
    then show ?thesis by (simp only: only_prints_done)
  qed
qed



end
